(* ===== verification/Prelude.thy ===== *)
theory Prelude
  imports "HOL-Library.Word" "HOL-Library.Sublist"
begin

text \<open>
  Shared vocabulary of the development: the machine integer types of the C++ code, the
  little-endian byte images that \<open>memcpy\<close> and \<open>reinterpret_cast\<close> give of them, byte ranges of
  a buffer (\<open>std::vector<std::uint8_t>\<close>), the outcome of an access that may leave the C++
  buffer, and the generic lemmas on these that every component uses.
\<close>

unbundle bit_operations_syntax

section \<open>Types\<close>

type_synonym u8 = "8 word"
type_synonym u16 = "16 word"
type_synonym u32 = "32 word"
type_synonym u64 = "64 word"

text \<open>\<open>std::size_t\<close> is 64 bits wide on the hosts the program is built for.\<close>
type_synonym usize = "64 word"

text \<open>
  A C++ expression that indexes a buffer without a check that covers it has no defined value:
  such an access is the outcome \<open>Undefined\<close>.
\<close>
datatype 'a outcome = Defined 'a | Undefined

section \<open>Hint collections\<close>

named_theorems snapshot_emits "encodings produced by the snapshot writers"
named_theorems snapshot_absorbs "encodings accepted by the snapshot readers"
named_theorems device_simps "unfolding of the device operations"

section \<open>Little-endian byte images\<close>

text \<open>The low \<open>n\<close> bytes of a word, least significant first (a \<open>memcpy\<close> from a little-endian host).\<close>
definition le_bytes :: "nat \<Rightarrow> 'a::len word \<Rightarrow> u8 list" where
  "le_bytes n w = map (\<lambda>i. ucast (drop_bit (8 * i) w)) [0..<n]"

text \<open>The word whose low bytes are the given ones, its other bytes zero.\<close>
fun le_word :: "u8 list \<Rightarrow> 'a::len word" where
  "le_word [] = 0"
| "le_word (b # bs) = ucast b OR push_bit 8 (le_word bs)"

lemma length_le_bytes [simp]: "length (le_bytes n w) = n"
  by (simp add: le_bytes_def)

lemma nth_le_bytes: "i < n \<Longrightarrow> le_bytes n w ! i = ucast (drop_bit (8 * i) w)"
  by (simp add: le_bytes_def)

lemma bit_le_word:
  "bit (le_word bs :: 'a::len word) n \<longleftrightarrow>
    n < LENGTH('a) \<and> n div 8 < length bs \<and> bit (bs ! (n div 8)) (n mod 8)"
proof (induction bs arbitrary: n)
  case Nil
  then show ?case by simp
next
  case (Cons b bs)
  show ?case
  proof (cases "n < 8")
    case True
    then show ?thesis by (auto simp: bit_or_iff bit_push_bit_iff bit_ucast_iff)
  next
    case False
    then obtain m where m: "n = m + 8" by (metis add.commute le_Suc_ex linorder_not_less)
    have "\<not> bit b n" using False by (simp add: bit_eq_iff not_le impossible_bit)
    then show ?thesis
      using Cons.IH[of m] by (auto simp: m bit_or_iff bit_push_bit_iff bit_ucast_iff div_add_self2)
  qed
qed

lemma bit_nth_le_bytes:
  "i < n \<Longrightarrow> bit (le_bytes n w ! i) j \<longleftrightarrow> j < 8 \<and> bit w (8 * i + j)"
  by (auto simp: nth_le_bytes bit_ucast_iff bit_drop_bit_eq)

lemma bit_le_word_le_bytes:
  "bit (le_word (le_bytes k w) :: 'b::len word) n \<longleftrightarrow> n < LENGTH('b) \<and> n < 8 * k \<and> bit w n"
proof -
  have "n div 8 < k \<longleftrightarrow> n < 8 * k" by (simp add: less_mult_imp_div_less div_less_iff_less_mult mult.commute)
  moreover have "8 * (n div 8) + n mod 8 = n" by simp
  ultimately show ?thesis by (auto simp: bit_le_word bit_nth_le_bytes)
qed

lemma le_word_le_bytes:
  assumes "LENGTH('a) \<le> 8 * k"
  shows "le_word (le_bytes k (w :: 'a::len word)) = w"
  using assms by (auto intro!: bit_eqI simp: bit_le_word_le_bytes)

lemma le_word_le_bytes_mask:
  "le_word (le_bytes k (w :: 'a::len word)) = w AND mask (8 * k)"
  by (auto intro!: bit_eqI simp: bit_le_word_le_bytes bit_and_iff bit_mask_iff)

lemma le_bytes_le_word:
  assumes "8 * length bs \<le> LENGTH('a)"
  shows "le_bytes (length bs) (le_word bs :: 'a::len word) = bs"
proof (rule nth_equalityI)
  fix i assume "i < length (le_bytes (length bs) (le_word bs :: 'a word))"
  then have i: "i < length bs" by simp
  show "le_bytes (length bs) (le_word bs :: 'a word) ! i = bs ! i"
  proof (rule bit_eqI)
    fix j assume "possible_bit TYPE(u8) j"
    then have j: "j < 8" by simp
    have "8 * i + j < LENGTH('a)" using assms i j by linarith
    moreover have "(8 * i + j) div 8 = i" "(8 * i + j) mod 8 = j" using j by auto
    ultimately show "bit (le_bytes (length bs) (le_word bs :: 'a word) ! i) j = bit (bs ! i) j"
      using i j by (simp add: bit_nth_le_bytes bit_le_word)
  qed
qed simp

section \<open>Byte ranges of a buffer\<close>

definition bytes_at :: "'a list \<Rightarrow> nat \<Rightarrow> nat \<Rightarrow> 'a list" where
  "bytes_at xs off n = take n (drop off xs)"

definition put_bytes :: "'a list \<Rightarrow> nat \<Rightarrow> 'a list \<Rightarrow> 'a list" where
  "put_bytes xs off bs = take off xs @ bs @ drop (off + length bs) xs"

lemma length_bytes_at [simp]: "off + n \<le> length xs \<Longrightarrow> length (bytes_at xs off n) = n"
  by (simp add: bytes_at_def)

lemma length_put_bytes [simp]: "off + length bs \<le> length xs \<Longrightarrow> length (put_bytes xs off bs) = length xs"
  by (simp add: put_bytes_def)

lemma put_bytes_Nil [simp]: "put_bytes xs off [] = xs"
  by (simp add: put_bytes_def)

lemma bytes_at_put_same [simp]:
  "off + length bs \<le> length xs \<Longrightarrow> n = length bs \<Longrightarrow> bytes_at (put_bytes xs off bs) off n = bs"
  by (simp add: bytes_at_def put_bytes_def)

lemma nth_put_bytes:
  assumes "off + length bs \<le> length xs" "i < length xs"
  shows "put_bytes xs off bs ! i = (if off \<le> i \<and> i < off + length bs then bs ! (i - off) else xs ! i)"
  using assms by (auto simp: put_bytes_def nth_append min_def)

lemma nth_bytes_at: "off + n \<le> length xs \<Longrightarrow> i < n \<Longrightarrow> bytes_at xs off n ! i = xs ! (off + i)"
  by (simp add: bytes_at_def)

lemma bytes_at_put_other:
  assumes "off + length bs \<le> length xs" "o' + n \<le> length xs"
    and "o' + n \<le> off \<or> off + length bs \<le> o'"
  shows "bytes_at (put_bytes xs off bs) o' n = bytes_at xs o' n"
  using assms by (intro nth_equalityI) (auto simp: nth_bytes_at nth_put_bytes)

lemma bytes_at_all [simp]: "bytes_at xs 0 (length xs) = xs"
  by (simp add: bytes_at_def)

lemma put_bytes_at_same [simp]:
  "off + n \<le> length xs \<Longrightarrow> put_bytes xs off (bytes_at xs off n) = xs"
  by (intro nth_equalityI) (auto simp: nth_put_bytes nth_bytes_at)

section \<open>Prefixes\<close>

lemma strict_prefix_append_cases:
  assumes "strict_prefix pre (bs @ cs)"
  obtains "strict_prefix pre bs" | es where "pre = bs @ es" "strict_prefix es cs"
proof (cases "prefix bs pre")
  case True
  then obtain es where "pre = bs @ es" by (auto simp: prefix_def)
  then show ?thesis using that(2) assms by (auto simp: strict_prefix_def)
next
  case False
  then have "strict_prefix pre bs"
    using assms by (auto simp: strict_prefix_def prefix_append)
  then show ?thesis by (rule that(1))
qed

section \<open>Machine integers\<close>

lemma unat_plus_no_wrap:
  "unat a + unat b < 2 ^ LENGTH('a) \<Longrightarrow> unat (a + b :: 'a::len word) = unat a + unat b"
  by (simp add: unat_word_ariths)

lemma unat_of_nat_u64 [simp]: "n < 2 ^ 64 \<Longrightarrow> unat (of_nat n :: u64) = n"
  by (simp add: unat_of_nat)

lemma unat_less_u64: "unat (x :: u64) < 2 ^ 64"
  using unsigned_less [of x] by simp

lemma unat_less_u32: "unat (x :: u32) < 2 ^ 32"
  using unsigned_less [of x] by simp

lemma unat_ucast_u32 [simp]: "unat (ucast (x :: u32) :: u64) = unat x"
  using unat_less_u32 [of x] by (simp add: unsigned_ucast_eq take_bit_nat_eq_self)

lemma unat_ucast_u64_small: "unat (x :: u64) < 2 ^ 32 \<Longrightarrow> unat (ucast x :: u32) = unat x"
  by (simp add: unsigned_ucast_eq take_bit_nat_eq_self)

lemma of_nat_le_of_nat_u64:
  "m < 2 ^ 64 \<Longrightarrow> n < 2 ^ 64 \<Longrightarrow> (of_nat m :: u64) \<le> of_nat n \<longleftrightarrow> m \<le> n"
  by (simp add: word_le_nat_alt unat_of_nat)

lemma of_nat_less_of_nat_u64:
  "m < 2 ^ 64 \<Longrightarrow> n < 2 ^ 64 \<Longrightarrow> (of_nat m :: u64) < of_nat n \<longleftrightarrow> m < n"
  by (simp add: word_less_nat_alt unat_of_nat)

lemma and_not_and_mask [simp]: "(x AND NOT m) AND m = (0 :: 'a::len word)"
  by (rule bit_eqI) (simp add: bit_simps)

lemma and_not_or_and_mask [simp]: "((x AND NOT m) OR m) AND m = (m :: 'a::len word)"
  by (rule bit_eqI) (auto simp: bit_simps)

lemma and_not_or_absorb: "x AND m = m \<Longrightarrow> (x AND NOT m) OR m = (x :: 'a::len word)"
  by (rule bit_eqI) (auto simp: bit_simps bit_eq_iff)

lemma and_not_absorb: "x AND m = 0 \<Longrightarrow> x AND NOT m = (x :: 'a::len word)"
  by (rule bit_eqI) (auto simp: bit_simps bit_eq_iff)

lemma ucast_add_u32: "(ucast (a + b :: u64) :: u32) = ucast a + ucast b"
  by (rule word_unat_eq_iff [THEN iffD2])
    (simp add: unat_word_ariths unsigned_ucast_eq take_bit_eq_mod mod_add_eq mod_mod_cancel)

lemma ucast_diff_u32: "(ucast (a - b :: u64) :: u32) = ucast a - ucast b"
  using ucast_add_u32 [of "a - b" b] by simp

lemma ucast_ucast_u32 [simp]: "ucast (ucast (x :: u32) :: u64) = x"
  by (rule bit_eqI) (simp add: bit_simps)

lemma ucast_scast_u32 [simp]: "ucast (scast (x :: u32) :: u64) = x"
proof (rule bit_eqI)
  fix n assume "possible_bit TYPE(u32) n"
  then have "n < 32" by simp
  then have "min (32 - Suc 0) n = n" by simp
  then show "bit (ucast (scast x :: u64) :: u32) n = bit x n"
    using \<open>n < 32\<close> by (simp add: bit_simps)
qed

end
