(* ===== verification/Snapshot_Io.thy ===== *)
theory Snapshot_Io
  imports Prelude
begin

text \<open>
  Model of \<open>src/include/aarchvm/snapshot_io.hpp\<close>: the templates every component saves and
  restores its state with. An output stream is the bytes it has taken, the number of bytes its
  sink still takes, and its state bit; an input stream is the bytes left and its state bit.
  A short \<open>istream::read\<close> stores the bytes it got and sets the fail state, so an interrupted
  \<open>load_state\<close> leaves a half-written component, and the readers here say so.

  \<open>emits\<close> and \<open>absorbs\<close> are the contract of a writer and of a reader with a byte encoding; the
  locale \<open>codec\<close> ties the two for one type and is interpreted for every type the program
  serialises.
\<close>

section \<open>Streams\<close>

record ostream =
  ob :: "u8 list"
  oroom :: nat
  ogood :: bool

record istream =
  ib :: "u8 list"
  igood :: bool

type_synonym writer = "ostream \<Rightarrow> bool \<times> ostream"
type_synonym 's reader = "istream \<Rightarrow> 's \<Rightarrow> bool \<times> 's \<times> istream"

text \<open>\<open>std::ostream::write\<close> and the conversion of the stream to \<open>bool\<close>.\<close>
definition out_bytes :: "u8 list \<Rightarrow> writer" where
  "out_bytes bs s =
    (if \<not> ogood s then (False, s)
     else if length bs \<le> oroom s
       then (True, s\<lparr>ob := ob s @ bs, oroom := oroom s - length bs\<rparr>)
     else (False, s\<lparr>ob := ob s @ take (oroom s) bs, oroom := 0, ogood := False\<rparr>))"

text \<open>\<open>std::istream::read\<close> of \<open>n\<close> bytes: the bytes it got and the stream after it.\<close>
definition in_bytes :: "nat \<Rightarrow> istream \<Rightarrow> u8 list \<times> istream" where
  "in_bytes n s =
    (if \<not> igood s then ([], s)
     else (take n (ib s), s\<lparr>ib := drop n (ib s), igood := n \<le> length (ib s)\<rparr>))"

section \<open>Scalars\<close>

definition snap_write :: "'a::len word \<Rightarrow> writer" where
  "snap_write value = out_bytes (le_bytes (LENGTH('a) div 8) value)"

definition snap_read :: "'a::len word reader" where
  "snap_read s value =
    (case in_bytes (LENGTH('a) div 8) s of (got, s') \<Rightarrow>
      (igood s', le_word (got @ drop (length got) (le_bytes (LENGTH('a) div 8) value)), s'))"

definition write_bool :: "bool \<Rightarrow> writer" where
  "write_bool value = snap_write (if value then 1 else 0 :: u8)"

definition read_bool :: "bool reader" where
  "read_bool s value =
    (case snap_read s (0 :: u8) of (ok, v, s') \<Rightarrow>
      if \<not> ok then (False, value, s') else (True, v \<noteq> 0, s'))"

section \<open>Sequences: the chains of \<open>&&\<close> and \<open>||\<close>\<close>

fun write_seq :: "writer list \<Rightarrow> writer" where
  "write_seq [] s = (True, s)"
| "write_seq (w # ws) s = (case w s of (ok, s') \<Rightarrow> if ok then write_seq ws s' else (False, s'))"

fun read_seq :: "'s reader list \<Rightarrow> 's reader" where
  "read_seq [] s st = (True, st, s)"
| "read_seq (r # rs) s st =
    (case r s st of (ok, st', s') \<Rightarrow> if ok then read_seq rs s' st' else (False, st', s'))"

text \<open>A read into one field of a component.\<close>
definition read_into :: "'a reader \<Rightarrow> ('s \<Rightarrow> 'a) \<Rightarrow> (('a \<Rightarrow> 'a) \<Rightarrow> 's \<Rightarrow> 's) \<Rightarrow> 's reader" where
  "read_into rd get upd s st =
    (case rd s (get st) of (ok, v, s') \<Rightarrow> (ok, upd (\<lambda>_. v) st, s'))"

text \<open>A check between two reads, as in \<open>|| fifo.size() > 1024u\<close>.\<close>
definition read_check :: "('s \<Rightarrow> bool) \<Rightarrow> 's reader" where
  "read_check p s st = (p st, st, s)"

text \<open>A read into a local variable with the initial value \<open>v0\<close>, used by the code after it.\<close>
definition read_local :: "'a reader \<Rightarrow> 'a \<Rightarrow> ('a \<Rightarrow> 's reader) \<Rightarrow> 's reader" where
  "read_local rd v0 k s st = (case rd s v0 of (ok, v, s') \<Rightarrow> if ok then k v s' st else (False, st, s'))"

text \<open>The code that follows the reads and does not touch the stream.\<close>
definition read_finish :: "('s \<Rightarrow> 's) \<Rightarrow> 's reader" where
  "read_finish f s st = (True, f st, s)"

section \<open>Arrays and vectors\<close>

definition write_array :: "('a \<Rightarrow> writer) \<Rightarrow> 'a list \<Rightarrow> writer" where
  "write_array wr values = write_seq (map wr values)"

fun read_array :: "'a reader \<Rightarrow> 'a list reader" where
  "read_array rd s [] = (True, [], s)"
| "read_array rd s (v # vs) =
    (case rd s v of (ok, v', s') \<Rightarrow>
      if \<not> ok then (False, v' # vs, s')
      else (case read_array rd s' vs of (ok', vs', s'') \<Rightarrow> (ok', v' # vs', s'')))"

definition write_vector :: "u8 list \<Rightarrow> writer" where
  "write_vector values s =
    (case snap_write (of_nat (length values) :: u64) s of (ok, s') \<Rightarrow>
      if \<not> ok then (False, s')
      else if values = [] then (True, s')
      else out_bytes values s')"

definition vector_limit :: u64 where
  "vector_limit = push_bit 31 1"

definition read_vector :: "u8 list reader" where
  "read_vector s values =
    (case snap_read s (0 :: u64) of (ok, sz, s') \<Rightarrow>
      if \<not> ok then (False, values, s')
      else if sz > vector_limit then (False, values, s')
      else
        let resized = take (unat sz) values @ replicate (unat sz - length values) 0 in
        if resized = [] then (True, resized, s')
        else (case in_bytes (length resized) s' of (got, s'') \<Rightarrow>
          (igood s'', got @ drop (length got) resized, s'')))"

section \<open>The contract of a writer and of a reader\<close>

text \<open>The writer appends exactly \<open>bs\<close>, and reports failure when the sink has no room for it.\<close>
definition emits :: "writer \<Rightarrow> u8 list \<Rightarrow> bool" where
  "emits w bs \<longleftrightarrow> (\<forall>s. ogood s \<longrightarrow>
    (length bs \<le> oroom s \<longrightarrow> w s = (True, s\<lparr>ob := ob s @ bs, oroom := oroom s - length bs\<rparr>)) \<and>
    (oroom s < length bs \<longrightarrow> \<not> fst (w s)))"

text \<open>
  The reader takes exactly \<open>bs\<close> off any stream that starts with it and turns the component
  \<open>st\<close> into \<open>st'\<close>; it fails on every stream that is cut inside \<open>bs\<close>.
\<close>
definition absorbs :: "'s reader \<Rightarrow> u8 list \<Rightarrow> 's \<Rightarrow> 's \<Rightarrow> bool" where
  "absorbs r bs st st' \<longleftrightarrow>
    (\<forall>rest. r \<lparr>ib = bs @ rest, igood = True\<rparr> st = (True, st', \<lparr>ib = rest, igood = True\<rparr>)) \<and>
    (\<forall>pre. strict_prefix pre bs \<longrightarrow> \<not> fst (r \<lparr>ib = pre, igood = True\<rparr> st))"

lemma emitsD: "emits w bs \<Longrightarrow> ogood s \<Longrightarrow> length bs \<le> oroom s \<Longrightarrow>
    w s = (True, s\<lparr>ob := ob s @ bs, oroom := oroom s - length bs\<rparr>)"
  by (simp add: emits_def)

lemma emits_no_room: "emits w bs \<Longrightarrow> ogood s \<Longrightarrow> oroom s < length bs \<Longrightarrow> \<not> fst (w s)"
  by (simp add: emits_def)

lemma absorbsD: "absorbs r bs st st' \<Longrightarrow>
    r \<lparr>ib = bs @ rest, igood = True\<rparr> st = (True, st', \<lparr>ib = rest, igood = True\<rparr>)"
  by (simp add: absorbs_def)

lemma absorbs_cut: "absorbs r bs st st' \<Longrightarrow> strict_prefix pre bs \<Longrightarrow>
    \<not> fst (r \<lparr>ib = pre, igood = True\<rparr> st)"
  by (simp add: absorbs_def)

lemma emits_out_bytes [snapshot_emits]: "emits (out_bytes bs) bs"
  by (simp add: emits_def out_bytes_def)

lemma emits_snap_write [snapshot_emits]:
  "emits (snap_write (v :: 'a::len word)) (le_bytes (LENGTH('a) div 8) v)"
  by (simp add: snap_write_def emits_out_bytes)

lemma emits_write_seq_Nil: "emits (write_seq []) []"
  by (simp add: emits_def)

lemma emits_write_seq_Cons:
  assumes w: "emits w bs" and ws: "emits (write_seq ws) cs"
  shows "emits (write_seq (w # ws)) (bs @ cs)"
  unfolding emits_def
proof (intro allI impI conjI)
  fix s :: ostream
  assume s: "ogood s"
  let ?s = "s\<lparr>ob := ob s @ bs, oroom := oroom s - length bs\<rparr>"
  { assume "length (bs @ cs) \<le> oroom s"
    then have "w s = (True, ?s)" "length cs \<le> oroom ?s" using emitsD [OF w s] by simp_all
    moreover have "ogood ?s" using s by simp
    ultimately show "write_seq (w # ws) s =
        (True, s\<lparr>ob := ob s @ bs @ cs, oroom := oroom s - length (bs @ cs)\<rparr>)"
      using emitsD [OF ws, of ?s] by simp }
  { assume r: "oroom s < length (bs @ cs)"
    show "\<not> fst (write_seq (w # ws) s)"
    proof (cases "length bs \<le> oroom s")
      case True
      then have "w s = (True, ?s)" "oroom ?s < length cs" using emitsD [OF w s] r by simp_all
      moreover have "ogood ?s" using s by simp
      ultimately show ?thesis using emits_no_room [OF ws, of ?s] by simp
    next
      case False
      then have "\<not> fst (w s)" using emits_no_room [OF w s] by simp
      then show ?thesis by (auto split: prod.splits)
    qed }
qed

lemma emits_write_seq [snapshot_emits]:
  "list_all2 emits ws bss \<Longrightarrow> emits (write_seq ws) (concat bss)"
  by (induction rule: list_all2_induct)
    (simp_all add: emits_write_seq_Nil emits_write_seq_Cons del: write_seq.simps)

lemma absorbs_snap_read [snapshot_absorbs]:
  fixes v :: "'a::len word"
  assumes "8 dvd LENGTH('a)"
  shows "absorbs snap_read (le_bytes (LENGTH('a) div 8) v) old v"
proof -
  have "LENGTH('a) \<le> 8 * (LENGTH('a) div 8)" using assms by (simp add: dvd_mult_div_cancel)
  then have "le_word (le_bytes (LENGTH('a) div 8) v) = v" by (rule le_word_le_bytes)
  then show ?thesis
    by (auto simp: absorbs_def snap_read_def in_bytes_def dest: prefix_length_less)
qed

lemma absorbs_read_seq_Nil [snapshot_absorbs]: "st = st' \<Longrightarrow> absorbs (read_seq []) [] st st'"
  by (simp add: absorbs_def)

lemma absorbs_read_seq_Cons [snapshot_absorbs]:
  assumes r: "absorbs r bs st st'" and rs: "absorbs (read_seq rs) cs st' st''"
  shows "absorbs (read_seq (r # rs)) (bs @ cs) st st''"
  unfolding absorbs_def
proof (intro conjI allI impI)
  fix rest
  show "read_seq (r # rs) \<lparr>ib = (bs @ cs) @ rest, igood = True\<rparr> st =
      (True, st'', \<lparr>ib = rest, igood = True\<rparr>)"
    using absorbsD [OF r, of "cs @ rest"] absorbsD [OF rs] by simp
next
  fix pre assume "strict_prefix pre (bs @ cs)"
  then consider "strict_prefix pre bs" | es where "pre = bs @ es" "strict_prefix es cs"
    by (rule strict_prefix_append_cases)
  then show "\<not> fst (read_seq (r # rs) \<lparr>ib = pre, igood = True\<rparr> st)"
  proof cases
    case 1
    then show ?thesis using absorbs_cut [OF r 1] by (auto split: prod.splits)
  next
    case 2
    then show ?thesis using absorbsD [OF r, of es] absorbs_cut [OF rs 2(2)] by simp
  qed
qed

lemma absorbs_read_into:
  "absorbs rd bs (get st) v \<Longrightarrow> absorbs (read_into rd get upd) bs st (upd (\<lambda>_. v) st)"
  by (auto simp: absorbs_def read_into_def split: prod.splits)

lemma absorbs_read_finish: "absorbs (read_finish f) [] st (f st)"
  by (simp add: absorbs_def read_finish_def)

lemma absorbs_read_local:
  assumes r: "absorbs rd bs v0 v" and k: "absorbs (k v) cs st st'"
  shows "absorbs (read_local rd v0 k) (bs @ cs) st st'"
  unfolding absorbs_def
proof (intro conjI allI impI)
  fix rest
  show "read_local rd v0 k \<lparr>ib = (bs @ cs) @ rest, igood = True\<rparr> st =
      (True, st', \<lparr>ib = rest, igood = True\<rparr>)"
    using absorbsD [OF r, of "cs @ rest"] absorbsD [OF k] by (simp add: read_local_def)
next
  fix pre assume "strict_prefix pre (bs @ cs)"
  then consider "strict_prefix pre bs" | es where "pre = bs @ es" "strict_prefix es cs"
    by (rule strict_prefix_append_cases)
  then show "\<not> fst (read_local rd v0 k \<lparr>ib = pre, igood = True\<rparr> st)"
  proof cases
    case 1
    then show ?thesis using absorbs_cut [OF r 1] by (auto simp: read_local_def split: prod.splits)
  next
    case 2
    then show ?thesis using absorbsD [OF r, of es] absorbs_cut [OF k 2(2)]
      by (simp add: read_local_def)
  qed
qed

lemma absorbs_read_check: "p st \<Longrightarrow> absorbs (read_check p) [] st st"
  by (simp add: absorbs_def read_check_def)

text \<open>An array is read element by element, each into the element it replaces.\<close>
lemma absorbs_read_array:
  "list_all2 (\<lambda>v a. absorbs rd (enc v) a v) vs as \<Longrightarrow>
   absorbs (read_array rd) (concat (map enc vs)) as vs"
proof (induction rule: list_all2_induct)
  case Nil
  then show ?case by (simp add: absorbs_def)
next
  case (Cons v vs a as)
  note r = Cons(1) and rs = Cons(3)
  show ?case
    unfolding absorbs_def
  proof (intro conjI allI impI)
    fix rest
    show "read_array rd \<lparr>ib = concat (map enc (v # vs)) @ rest, igood = True\<rparr> (a # as) =
        (True, v # vs, \<lparr>ib = rest, igood = True\<rparr>)"
      using absorbsD [OF r, of "concat (map enc vs) @ rest"] absorbsD [OF rs] by simp
  next
    fix pre assume "strict_prefix pre (concat (map enc (v # vs)))"
    then have "strict_prefix pre (enc v @ concat (map enc vs))" by simp
    then consider "strict_prefix pre (enc v)"
      | es where "pre = enc v @ es" "strict_prefix es (concat (map enc vs))"
      by (rule strict_prefix_append_cases)
    then show "\<not> fst (read_array rd \<lparr>ib = pre, igood = True\<rparr> (a # as))"
    proof cases
      case 1
      then show ?thesis using absorbs_cut [OF r 1] by (auto split: prod.splits)
    next
      case 2
      then show ?thesis using absorbsD [OF r, of es] absorbs_cut [OF rs 2(2)]
        by (auto split: prod.splits)
    qed
  qed
qed

section \<open>Codecs\<close>

locale codec =
  fixes wr :: "'a \<Rightarrow> writer" and rd :: "'a reader" and enc :: "'a \<Rightarrow> u8 list" and okv :: "'a \<Rightarrow> bool"
  assumes write_enc: "emits (wr v) (enc v)"
    and read_enc: "okv v \<Longrightarrow> absorbs rd (enc v) old v"
begin

lemma roundtrip:
  assumes "okv v" "ogood s" "length (enc v) \<le> oroom s"
  shows "\<exists>s'. wr v s = (True, s') \<and> ob s' = ob s @ enc v \<and>
    rd \<lparr>ib = enc v @ rest, igood = True\<rparr> old = (True, v, \<lparr>ib = rest, igood = True\<rparr>)"
  using emitsD [OF write_enc assms(2,3)] absorbsD [OF read_enc [OF assms(1)]] by simp

lemma array_write: "emits (write_array wr vs) (concat (map enc vs))"
  unfolding write_array_def
  by (rule emits_write_seq) (simp add: list_all2_conv_all_nth write_enc)

lemma array_read:
  "length old = length vs \<Longrightarrow> list_all okv vs \<Longrightarrow>
   absorbs (read_array rd) (concat (map enc vs)) old vs"
  by (rule absorbs_read_array) (auto simp: list_all2_conv_all_nth list_all_length read_enc)

end

definition enc_bool :: "bool \<Rightarrow> u8 list" where
  "enc_bool b = le_bytes 1 (if b then 1 else 0 :: u8)"

definition enc_vector :: "u8 list \<Rightarrow> u8 list" where
  "enc_vector bs = le_bytes 8 (of_nat (length bs) :: u64) @ bs"

text \<open>What \<open>read_vector\<close> takes back: at most \<open>2 ^ 31\<close> bytes.\<close>
definition vector_ok :: "u8 list \<Rightarrow> bool" where
  "vector_ok bs \<longleftrightarrow> length bs \<le> 2 ^ 31"

interpretation u8: codec "snap_write :: u8 \<Rightarrow> writer" snap_read "le_bytes 1" "\<lambda>_. True"
  using emits_snap_write [where 'a = 8] absorbs_snap_read [where 'a = 8]
  by unfold_locales simp_all

interpretation u32: codec "snap_write :: u32 \<Rightarrow> writer" snap_read "le_bytes 4" "\<lambda>_. True"
  using emits_snap_write [where 'a = 32] absorbs_snap_read [where 'a = 32]
  by unfold_locales simp_all

interpretation u16: codec "snap_write :: u16 \<Rightarrow> writer" snap_read "le_bytes 2" "\<lambda>_. True"
  using emits_snap_write [where 'a = 16] absorbs_snap_read [where 'a = 16]
  by unfold_locales simp_all

interpretation u64: codec "snap_write :: u64 \<Rightarrow> writer" snap_read "le_bytes 8" "\<lambda>_. True"
  using emits_snap_write [where 'a = 64] absorbs_snap_read [where 'a = 64]
  by unfold_locales simp_all

lemma emits_write_bool: "emits (write_bool b) (enc_bool b)"
  unfolding write_bool_def enc_bool_def by (rule u8.write_enc)

lemma absorbs_read_bool: "absorbs read_bool (enc_bool b) old b"
proof -
  have *: "absorbs snap_read (enc_bool b) (0 :: u8) (if b then 1 else 0)"
    unfolding enc_bool_def by (rule u8.read_enc) simp
  show ?thesis
    unfolding absorbs_def read_bool_def
    using absorbsD [OF *] absorbs_cut [OF *] by (fastforce split: prod.splits)
qed

interpretation flag: codec write_bool read_bool enc_bool "\<lambda>_. True"
  by unfold_locales (rule emits_write_bool, rule absorbs_read_bool)

lemma emits_write_vector: "emits (write_vector bs) (enc_vector bs)"
proof -
  have "emits (write_seq [snap_write (of_nat (length bs) :: u64), out_bytes bs])
      (concat [le_bytes 8 (of_nat (length bs) :: u64), bs])"
    by (rule emits_write_seq) (simp add: u64.write_enc emits_out_bytes)
  moreover have "write_vector bs s =
      write_seq [snap_write (of_nat (length bs) :: u64), out_bytes bs] s" if "ogood s" for s
    using that by (auto simp: write_vector_def snap_write_def out_bytes_def split: prod.splits)
  ultimately show ?thesis by (simp add: emits_def enc_vector_def del: write_seq.simps)
qed

lemma vector_ok_size:
  assumes "vector_ok bs"
  shows "unat (of_nat (length bs) :: u64) = length bs" "(of_nat (length bs) :: u64) \<le> vector_limit"
proof -
  have "length bs \<le> 2 ^ 31" using assms by (simp add: vector_ok_def)
  then show "unat (of_nat (length bs) :: u64) = length bs"
    by (simp add: unat_of_nat)
  then show "(of_nat (length bs) :: u64) \<le> vector_limit"
    using \<open>length bs \<le> 2 ^ 31\<close> by (simp add: word_le_nat_alt vector_limit_def push_bit_eq_mult)
qed

lemma absorbs_read_vector:
  assumes ok: "vector_ok bs"
  shows "absorbs read_vector (enc_vector bs) old bs"
  unfolding absorbs_def
proof (intro conjI allI impI)
  let ?n = "of_nat (length bs) :: u64"
  have r: "absorbs snap_read (le_bytes 8 ?n) (0 :: u64) ?n" by (rule u64.read_enc) simp
  note sz = vector_ok_size [OF ok]
  { fix rest
    show "read_vector \<lparr>ib = enc_vector bs @ rest, igood = True\<rparr> old =
        (True, bs, \<lparr>ib = rest, igood = True\<rparr>)"
      using absorbsD [OF r, of "bs @ rest"] sz
      by (auto simp: read_vector_def enc_vector_def Let_def in_bytes_def min_def not_less) }
  { fix pre assume "strict_prefix pre (enc_vector bs)"
    then have "strict_prefix pre (le_bytes 8 ?n @ bs)" by (simp add: enc_vector_def)
    then consider "strict_prefix pre (le_bytes 8 ?n)"
      | es where "pre = le_bytes 8 ?n @ es" "strict_prefix es bs"
      by (rule strict_prefix_append_cases)
    then show "\<not> fst (read_vector \<lparr>ib = pre, igood = True\<rparr> old)"
    proof cases
      case 1
      then show ?thesis using absorbs_cut [OF r 1]
        by (auto simp: read_vector_def split: prod.splits)
    next
      case 2
      then have "length es < length bs" by (simp add: prefix_length_less)
      then show ?thesis using absorbsD [OF r, of es] sz 2
        by (auto simp: read_vector_def in_bytes_def Let_def not_less)
    qed }
qed

interpretation vec: codec write_vector read_vector enc_vector vector_ok
  by unfold_locales (rule emits_write_vector, rule absorbs_read_vector)

section \<open>Components with a snapshot\<close>

text \<open>
  A component saves an encoding of its state and loads it back into another instance of
  itself: \<open>restore d d0\<close> is what the instance \<open>d0\<close> becomes, as the parts of a component that
  are not saved (observers, caches, trace state) stay its own; \<open>fits\<close> says which instances can
  take the state of \<open>d\<close> (a RAM of the same size, say).
\<close>
locale snapshot_component =
  fixes save :: "'s \<Rightarrow> writer" and load :: "'s reader" and enc :: "'s \<Rightarrow> u8 list"
    and savable :: "'s \<Rightarrow> bool" and fits :: "'s \<Rightarrow> 's \<Rightarrow> bool" and restore :: "'s \<Rightarrow> 's \<Rightarrow> 's"
  assumes save_enc: "emits (save d) (enc d)"
    and load_enc: "savable d \<Longrightarrow> fits d d0 \<Longrightarrow> absorbs load (enc d) d0 (restore d d0)"
begin

text \<open>What a save wrote, a load takes back, whatever follows it in the stream.\<close>
lemma save_load:
  assumes "savable d" "fits d d0" "ogood s" "length (enc d) \<le> oroom s"
  shows "fst (save d s) \<and> ob (snd (save d s)) = ob s @ enc d \<and>
    load \<lparr>ib = enc d @ rest, igood = True\<rparr> d0 = (True, restore d d0, \<lparr>ib = rest, igood = True\<rparr>)"
  using emitsD [OF save_enc assms(3,4)] absorbsD [OF load_enc [OF assms(1,2)]] by simp

text \<open>A stream cut inside the state is refused, and a full sink reported.\<close>
lemma load_cut:
  "savable d \<Longrightarrow> fits d d0 \<Longrightarrow> strict_prefix pre (enc d) \<Longrightarrow> \<not> fst (load \<lparr>ib = pre, igood = True\<rparr> d0)"
  using absorbs_cut [OF load_enc] .

lemma save_full: "ogood s \<Longrightarrow> oroom s < length (enc d) \<Longrightarrow> \<not> fst (save d s)"
  using emits_no_room [OF save_enc] .

end

sublocale codec \<subseteq> single: snapshot_component wr rd enc okv "\<lambda>_ _. True" "\<lambda>v _. v"
  by unfold_locales (rule write_enc, rule read_enc)

lemmas snapshot_writers [snapshot_emits] =
  u8.write_enc u16.write_enc u32.write_enc u64.write_enc flag.write_enc vec.write_enc
  u8.array_write u32.array_write u64.array_write flag.array_write

lemmas snapshot_readers [snapshot_absorbs] =
  u8.read_enc [OF TrueI] u16.read_enc [OF TrueI] u32.read_enc [OF TrueI] u64.read_enc [OF TrueI]
  flag.read_enc [OF TrueI] vec.read_enc

lemma list_all_True [simp]: "list_all (\<lambda>_. True) xs"
  by (simp add: list_all_length)

lemmas array_readers =
  u8.array_read [OF _ list_all_True] u32.array_read [OF _ list_all_True]
  u64.array_read [OF _ list_all_True] flag.array_read [OF _ list_all_True]

text \<open>The rules that run a \<open>load_state\<close> over an encoding, read by read.\<close>
lemmas absorbs_steps =
  absorbs_read_seq_Cons absorbs_read_seq_Nil absorbs_read_into absorbs_read_check absorbs_read_finish
  absorbs_read_local snapshot_readers

end
