(* ===== verification/Fifo.thy ===== *)
theory Fifo
  imports Snapshot_Io
begin

text \<open>
  The interface of a device with a bounded receive queue: the host side pushes bytes, the
  guest pops them through a data register. Both the PL011 UART and the PL050 KMI keep such a
  queue in a \<open>std::deque<std::uint8_t>\<close> and drop a byte that finds it full. The locale is
  interpreted on both device models.
\<close>

section \<open>Histories of a queue\<close>

datatype fifo_op = Push u8 | Pop

text \<open>What a queue of capacity \<open>c\<close> does with one operation: the byte taken in, the byte given out.\<close>
fun fifo_step :: "nat \<Rightarrow> fifo_op \<Rightarrow> u8 list \<Rightarrow> u8 list \<times> u8 list \<times> u8 list" where
  "fifo_step c (Push b) q = (if length q < c then (q @ [b], [b], []) else (q, [], []))"
| "fifo_step c Pop [] = ([], [], [])"
| "fifo_step c Pop (b # q) = (q, [], [b])"

text \<open>A history: the queue left, all bytes accepted and all bytes delivered, in order.\<close>
fun fifo_run :: "nat \<Rightarrow> fifo_op list \<Rightarrow> u8 list \<Rightarrow> u8 list \<times> u8 list \<times> u8 list" where
  "fifo_run c [] q = (q, [], [])"
| "fifo_run c (x # xs) q =
    (case fifo_step c x q of (q', i, out) \<Rightarrow>
      case fifo_run c xs q' of (q'', is, outs) \<Rightarrow> (q'', i @ is, out @ outs))"

lemma fifo_step_order:
  "fifo_step c x q = (q', i, out) \<Longrightarrow> q @ i = out @ q'"
  by (cases "(c, x, q)" rule: fifo_step.cases) (auto split: if_splits)

text \<open>Nothing is lost, duplicated or reordered between acceptance and delivery.\<close>
lemma fifo_run_order:
  "fifo_run c xs q = (q', is, outs) \<Longrightarrow> q @ is = outs @ q'"
proof (induction c xs q arbitrary: q' "is" outs rule: fifo_run.induct)
  case (2 c x xs q)
  obtain q1 i out where s: "fifo_step c x q = (q1, i, out)" by (cases "fifo_step c x q") auto
  obtain q2 is2 outs2 where r: "fifo_run c xs q1 = (q2, is2, outs2)"
    by (cases "fifo_run c xs q1") auto
  have "q @ i = out @ q1" "q1 @ is2 = outs2 @ q2"
    using fifo_step_order [OF s] 2(1) [OF s [symmetric] refl r] by auto
  then have "q @ i @ is2 = (out @ outs2) @ q2"
    by (metis append.assoc)
  then show ?case using 2(2) s r by auto
qed simp

lemma fifo_step_bound:
  "length q \<le> c \<Longrightarrow> length (fst (fifo_step c x q)) \<le> c"
  by (cases "(c, x, q)" rule: fifo_step.cases) auto

section \<open>The interface\<close>

locale bounded_fifo =
  fixes content :: "'s \<Rightarrow> u8 list" and capacity :: nat and ready :: "'s \<Rightarrow> bool"
    and push :: "u8 \<Rightarrow> 's \<Rightarrow> 's" and pop :: "'s \<Rightarrow> u64 \<times> 's"
  assumes push_content: "ready s \<Longrightarrow>
      content (push b s) = (if length (content s) < capacity then content s @ [b] else content s)"
    and push_ready: "ready s \<Longrightarrow> ready (push b s)"
    and pop_empty: "ready s \<Longrightarrow> content s = [] \<Longrightarrow> content (snd (pop s)) = []"
    and pop_value: "ready s \<Longrightarrow> content s = b # q \<Longrightarrow> fst (pop s) = ucast b"
    and pop_content: "ready s \<Longrightarrow> content s = b # q \<Longrightarrow> content (snd (pop s)) = q"
    and pop_ready: "ready s \<Longrightarrow> ready (snd (pop s))"
begin

text \<open>The device run over a history; \<open>outs\<close> are the values of the pops that found a byte.\<close>
fun run :: "fifo_op list \<Rightarrow> 's \<Rightarrow> 's \<times> u64 list" where
  "run [] s = (s, [])"
| "run (Push b # xs) s = run xs (push b s)"
| "run (Pop # xs) s =
    (case run xs (snd (pop s)) of (s', outs) \<Rightarrow>
      (s', (if content s = [] then outs else fst (pop s) # outs)))"

lemma run_refines:
  assumes "ready s" "run xs s = (s', outs)" "fifo_run capacity xs (content s) = (q, is, bs)"
  shows "content s' = q \<and> outs = map ucast bs \<and> ready s'"
  using assms
proof (induction xs s arbitrary: s' outs q "is" bs rule: run.induct)
  case (2 b xs s)
  then show ?case
    by (auto simp: push_content push_ready split: prod.splits if_splits)
next
  case (3 xs s)
  obtain t ys where t: "run xs (snd (pop s)) = (t, ys)" by (cases "run xs (snd (pop s))") auto
  obtain q1 i out where st: "fifo_step capacity Pop (content s) = (q1, i, out)"
    by (cases "fifo_step capacity Pop (content s)") auto
  have q1: "q1 = content (snd (pop s))" "out = (case content s of [] \<Rightarrow> [] | b # _ \<Rightarrow> [b])"
    using st 3(2) by (cases "content s"; auto simp: pop_empty pop_content)+
  obtain q2 is2 bs2 where r: "fifo_run capacity xs q1 = (q2, is2, bs2)"
    by (cases "fifo_run capacity xs q1") auto
  have "content t = q2 \<and> ys = map ucast bs2 \<and> ready t"
    using 3(1) [OF pop_ready [OF 3(2)] t] r q1(1) by simp
  then show ?case
    using 3(2-4) t st r q1 by (auto simp: pop_value split: list.splits if_splits)
qed auto

text \<open>Delivery in order: what the pops returned and what is queued is what was accepted.\<close>
lemma delivered_in_order:
  assumes "ready s" "run xs s = (s', outs)"
  obtains "is" bs where "outs = map ucast bs" "content s @ is = bs @ content s'"
    "fifo_run capacity xs (content s) = (content s', is, bs)"
proof -
  obtain q "is" bs where f: "fifo_run capacity xs (content s) = (q, is, bs)"
    by (cases "fifo_run capacity xs (content s)") auto
  have "content s' = q" "outs = map ucast bs" using run_refines [OF assms f] by simp_all
  then show ?thesis using that fifo_run_order [OF f] f by blast
qed

lemma push_bounded: "ready s \<Longrightarrow> length (content s) \<le> capacity \<Longrightarrow> length (content (push b s)) \<le> capacity"
  by (simp add: push_content)

lemma pop_bounded: "ready s \<Longrightarrow> length (content s) \<le> capacity \<Longrightarrow> length (content (snd (pop s))) \<le> capacity"
  by (cases "content s") (auto simp: pop_empty pop_content)

end

end
