(* ===== verification/Uart_Pl011.thy ===== *)
theory Uart_Pl011
  imports Fifo
begin

text \<open>
  Model of \<open>src/src/uart_pl011.cpp\<close> and its header: the PL011 UART. The record has the data
  members of \<open>UartPl011\<close>; what leaves the device (\<open>putchar\<close> and the two observers) is appended
  to \<open>uart_events\<close>. The optional MMIO trace on \<open>stderr\<close>, off unless an environment variable is
  set, and its two sets of seen offsets are left out.
\<close>

section \<open>State\<close>

datatype uart_event = Put_Char u8 | Tx_Observed u8 | State_Changed

record uart =
  uart_rx_fifo :: "u8 list"
  uart_ibrd :: u32
  uart_fbrd :: u32
  uart_lcrh :: u32
  uart_cr :: u32
  uart_ifls :: u32
  uart_imsc :: u32
  uart_ris :: u32
  uart_dmacr :: u32
  uart_tx_count :: u64
  uart_mmio_reads :: u64
  uart_mmio_writes :: u64
  uart_config_writes :: u64
  uart_id_reads :: u64
  uart_rx_injected_count :: u64
  uart_tx_observer :: bool
  uart_state_observer :: bool
  uart_events :: "uart_event list"

definition uart_init :: uart where
  "uart_init = \<lparr>uart_rx_fifo = [], uart_ibrd = 1, uart_fbrd = 0, uart_lcrh = 0, uart_cr = 0x301,
    uart_ifls = 0, uart_imsc = 0, uart_ris = 0, uart_dmacr = 0, uart_tx_count = 0,
    uart_mmio_reads = 0, uart_mmio_writes = 0, uart_config_writes = 0, uart_id_reads = 0,
    uart_rx_injected_count = 0, uart_tx_observer = False, uart_state_observer = False,
    uart_events = []\<rparr>"

definition kRxRis :: u32 where "kRxRis = 0x10"
definition kRtRis :: u32 where "kRtRis = 0x40"
definition kRxRtRis :: u32 where "kRxRtRis = kRxRis OR kRtRis"

section \<open>Operations\<close>

definition uart_set_tx_observer :: "bool \<Rightarrow> uart \<Rightarrow> uart" where
  "uart_set_tx_observer present u = u\<lparr>uart_tx_observer := present\<rparr>"

definition uart_set_state_change_observer :: "bool \<Rightarrow> uart \<Rightarrow> uart" where
  "uart_set_state_change_observer present u = u\<lparr>uart_state_observer := present\<rparr>"

definition uart_enabled :: "uart \<Rightarrow> bool" where
  "uart_enabled u \<longleftrightarrow> uart_cr u AND 0x1 \<noteq> 0 \<and> uart_cr u AND 0x200 \<noteq> 0"

definition uart_update_interrupt_state :: "uart \<Rightarrow> uart" where
  "uart_update_interrupt_state u =
    (let cleared = uart_ris u AND NOT kRxRtRis;
         ris = (if uart_enabled u \<and> uart_rx_fifo u \<noteq> [] then cleared OR kRxRtRis
                else cleared);
         u = u\<lparr>uart_ris := ris\<rparr>
     in if uart_state_observer u then u\<lparr>uart_events := uart_events u @ [State_Changed]\<rparr> else u)"

definition mmio_size_ok :: "usize \<Rightarrow> bool" where
  "mmio_size_ok sz \<longleftrightarrow> sz = 1 \<or> sz = 2 \<or> sz = 4 \<or> sz = 8"

definition uart_config_read :: "u32 \<Rightarrow> uart \<Rightarrow> u64 \<times> uart" where
  "uart_config_read v u = (ucast v, u\<lparr>uart_config_writes := uart_config_writes u + 1\<rparr>)"

definition uart_id_read :: "u64 \<Rightarrow> uart \<Rightarrow> u64 \<times> uart" where
  "uart_id_read v u = (v, u\<lparr>uart_id_reads := uart_id_reads u + 1\<rparr>)"

definition uart_read_data :: "uart \<Rightarrow> u64 \<times> uart" where
  "uart_read_data u =
    (case uart_rx_fifo u of
       [] \<Rightarrow> (0, u)
     | ch # rest \<Rightarrow> (ucast ch, uart_update_interrupt_state (u\<lparr>uart_rx_fifo := rest\<rparr>)))"

definition uart_read :: "u64 \<Rightarrow> usize \<Rightarrow> uart \<Rightarrow> u64 \<times> uart" where
  "uart_read offset sz u =
    (if \<not> mmio_size_ok sz then (0, u)
     else
       let u = u\<lparr>uart_mmio_reads := uart_mmio_reads u + 1\<rparr> in
       if offset = 0x00 then uart_read_data u
       else if offset = 0x04 then (0, u)
       else if offset = 0x18 then ((if uart_rx_fifo u = [] then 0x90 else 0x80), u)
       else if offset = 0x24 then uart_config_read (uart_ibrd u) u
       else if offset = 0x28 then uart_config_read (uart_fbrd u) u
       else if offset = 0x2c then uart_config_read (uart_lcrh u) u
       else if offset = 0x30 then uart_config_read (uart_cr u) u
       else if offset = 0x34 then uart_config_read (uart_ifls u) u
       else if offset = 0x38 then uart_config_read (uart_imsc u) u
       else if offset = 0x3c then (ucast (uart_ris u), u)
       else if offset = 0x40 then (ucast (uart_ris u AND uart_imsc u), u)
       else if offset = 0x48 then uart_config_read (uart_dmacr u) u
       else if offset = 0xFE0 then uart_id_read 0x11 u
       else if offset = 0xFE4 then uart_id_read 0x10 u
       else if offset = 0xFE8 then uart_id_read 0x04 u
       else if offset = 0xFEC then uart_id_read 0x00 u
       else if offset = 0xFF0 then uart_id_read 0x0D u
       else if offset = 0xFF4 then uart_id_read 0xF0 u
       else if offset = 0xFF8 then uart_id_read 0x05 u
       else if offset = 0xFFC then uart_id_read 0xB1 u
       else (0, u))"

definition uart_write_data :: "u64 \<Rightarrow> uart \<Rightarrow> uart" where
  "uart_write_data v u =
    (let ch = ucast (v AND 0xFF) :: u8;
         u = u\<lparr>uart_tx_count := uart_tx_count u + 1, uart_events := uart_events u @ [Put_Char ch]\<rparr>
     in if uart_tx_observer u then u\<lparr>uart_events := uart_events u @ [Tx_Observed ch]\<rparr> else u)"

definition uart_write :: "u64 \<Rightarrow> u64 \<Rightarrow> usize \<Rightarrow> uart \<Rightarrow> uart" where
  "uart_write offset v sz u =
    (if \<not> mmio_size_ok sz then u
     else
       let u = u\<lparr>uart_mmio_writes := uart_mmio_writes u + 1\<rparr>;
           cfg = u\<lparr>uart_config_writes := uart_config_writes u + 1\<rparr>;
           w = ucast v :: u32 in
       if offset = 0x00 then uart_write_data v u
       else if offset = 0x04 then u
       else if offset = 0x24 then cfg\<lparr>uart_ibrd := w\<rparr>
       else if offset = 0x28 then cfg\<lparr>uart_fbrd := w\<rparr>
       else if offset = 0x2c then cfg\<lparr>uart_lcrh := w\<rparr>
       else if offset = 0x30 then uart_update_interrupt_state (cfg\<lparr>uart_cr := w\<rparr>)
       else if offset = 0x34 then uart_update_interrupt_state (cfg\<lparr>uart_ifls := w\<rparr>)
       else if offset = 0x38 then uart_update_interrupt_state (cfg\<lparr>uart_imsc := w\<rparr>)
       else if offset = 0x44
         then uart_update_interrupt_state (cfg\<lparr>uart_ris := uart_ris cfg AND NOT w\<rparr>)
       else if offset = 0x48 then cfg\<lparr>uart_dmacr := w\<rparr>
       else u)"

definition uart_inject_rx :: "u8 \<Rightarrow> uart \<Rightarrow> uart" where
  "uart_inject_rx byte u =
    (let u = u\<lparr>uart_rx_injected_count := uart_rx_injected_count u + 1\<rparr>;
         u = (if length (uart_rx_fifo u) < 1024
              then u\<lparr>uart_rx_fifo := uart_rx_fifo u @ [byte]\<rparr> else u)
     in uart_update_interrupt_state u)"

definition uart_irq_pending :: "uart \<Rightarrow> bool" where
  "uart_irq_pending u \<longleftrightarrow> uart_ris u AND uart_imsc u \<noteq> 0"

section \<open>Snapshot\<close>

definition uart_save_state :: "uart \<Rightarrow> writer" where
  "uart_save_state u = write_seq
    [write_vector (uart_rx_fifo u), snap_write (uart_ibrd u), snap_write (uart_fbrd u),
     snap_write (uart_lcrh u), snap_write (uart_cr u), snap_write (uart_ifls u),
     snap_write (uart_imsc u), snap_write (uart_ris u), snap_write (uart_dmacr u),
     snap_write (uart_tx_count u), snap_write (uart_mmio_reads u), snap_write (uart_mmio_writes u),
     snap_write (uart_config_writes u), snap_write (uart_id_reads u),
     snap_write (uart_rx_injected_count u)]"

definition uart_load_state :: "uart reader" where
  "uart_load_state = read_local read_vector [] (\<lambda>fifo. read_seq
    [read_check (\<lambda>_. length fifo \<le> 1024),
     read_into snap_read uart_ibrd uart_ibrd_update, read_into snap_read uart_fbrd uart_fbrd_update,
     read_into snap_read uart_lcrh uart_lcrh_update, read_into snap_read uart_cr uart_cr_update,
     read_into snap_read uart_ifls uart_ifls_update, read_into snap_read uart_imsc uart_imsc_update,
     read_into snap_read uart_ris uart_ris_update, read_into snap_read uart_dmacr uart_dmacr_update,
     read_into snap_read uart_tx_count uart_tx_count_update,
     read_into snap_read uart_mmio_reads uart_mmio_reads_update,
     read_into snap_read uart_mmio_writes uart_mmio_writes_update,
     read_into snap_read uart_config_writes uart_config_writes_update,
     read_into snap_read uart_id_reads uart_id_reads_update,
     read_into snap_read uart_rx_injected_count uart_rx_injected_count_update,
     read_finish (\<lambda>u. uart_update_interrupt_state (u\<lparr>uart_rx_fifo := fifo\<rparr>))])"

section \<open>The interrupt status invariant\<close>

definition uart_wf :: "uart \<Rightarrow> bool" where
  "uart_wf u \<longleftrightarrow> length (uart_rx_fifo u) \<le> 1024 \<and>
    uart_ris u = (if uart_enabled u \<and> uart_rx_fifo u \<noteq> [] then kRxRtRis else 0)"

lemma uart_wf_start: "uart_wf (uart_init\<lparr>uart_tx_observer := tx, uart_state_observer := st\<rparr>)"
  by (simp add: uart_wf_def uart_init_def)

lemma uart_update_fields [simp]:
  "uart_rx_fifo (uart_update_interrupt_state u) = uart_rx_fifo u"
  "uart_cr (uart_update_interrupt_state u) = uart_cr u"
  "uart_imsc (uart_update_interrupt_state u) = uart_imsc u"
  "uart_tx_count (uart_update_interrupt_state u) = uart_tx_count u"
  "uart_enabled (uart_update_interrupt_state u) = uart_enabled u"
  by (simp_all add: uart_update_interrupt_state_def uart_enabled_def Let_def)

lemma uart_ris_update:
  "uart_ris (uart_update_interrupt_state u) =
    (if uart_enabled u \<and> uart_rx_fifo u \<noteq> [] then uart_ris u AND NOT kRxRtRis OR kRxRtRis
     else uart_ris u AND NOT kRxRtRis)"
  by (simp add: uart_update_interrupt_state_def Let_def)

lemma uart_wf_update:
  "length (uart_rx_fifo u) \<le> 1024 \<Longrightarrow> uart_ris u AND NOT kRxRtRis = 0 \<Longrightarrow>
   uart_wf (uart_update_interrupt_state u)"
  by (simp add: uart_wf_def uart_ris_update)

lemma uart_wf_ris: "uart_wf u \<Longrightarrow> uart_ris u AND NOT kRxRtRis = 0"
  by (simp add: uart_wf_def bit_eq_iff bit_simps)

lemma uart_wf_ris_clear: "uart_wf u \<Longrightarrow> (uart_ris u AND NOT w) AND NOT kRxRtRis = 0"
  using uart_wf_ris [of u] by (auto simp: bit_eq_iff bit_simps)

lemma uart_update_idem:
  "uart_wf u \<Longrightarrow> uart_ris (uart_update_interrupt_state u) = uart_ris u"
  by (auto simp: uart_wf_def uart_ris_update and_not_or_absorb)

lemma uart_wf_length: "uart_wf u \<Longrightarrow> length (uart_rx_fifo u) \<le> 1024"
  by (simp add: uart_wf_def)

lemma uart_wf_cong:
  "uart_wf u \<Longrightarrow> uart_rx_fifo u' = uart_rx_fifo u \<Longrightarrow> uart_cr u' = uart_cr u \<Longrightarrow>
   uart_ris u' = uart_ris u \<Longrightarrow> uart_wf u'"
  by (simp add: uart_wf_def uart_enabled_def)

lemma uart_wf_read: "uart_wf u \<Longrightarrow> uart_wf (snd (uart_read offset sz u))"
  using uart_wf_length [of u] uart_wf_ris [of u]
  by (auto simp: uart_read_def uart_read_data_def uart_config_read_def uart_id_read_def Let_def
      intro!: uart_wf_update split: list.splits elim!: uart_wf_cong)

lemma uart_wf_write: "uart_wf u \<Longrightarrow> uart_wf (uart_write offset v sz u)"
  using uart_wf_length [of u] uart_wf_ris [of u]
  by (auto simp: uart_write_def uart_write_data_def Let_def
      intro!: uart_wf_update uart_wf_ris_clear elim!: uart_wf_cong)

lemma uart_wf_inject: "uart_wf u \<Longrightarrow> uart_wf (uart_inject_rx b u)"
  using uart_wf_length [of u] uart_wf_ris [of u]
  by (auto simp: uart_inject_rx_def Let_def intro!: uart_wf_update)

section \<open>The receive queue\<close>

interpretation uart_rx: bounded_fifo uart_rx_fifo 1024 "\<lambda>_. True" uart_inject_rx "uart_read 0 1"
  by unfold_locales
    (auto simp: uart_inject_rx_def uart_read_def uart_read_data_def mmio_size_ok_def Let_def)

section \<open>Snapshot round trip\<close>

definition uart_enc :: "uart \<Rightarrow> u8 list" where
  "uart_enc u = concat
    [enc_vector (uart_rx_fifo u), le_bytes 4 (uart_ibrd u), le_bytes 4 (uart_fbrd u),
     le_bytes 4 (uart_lcrh u), le_bytes 4 (uart_cr u), le_bytes 4 (uart_ifls u),
     le_bytes 4 (uart_imsc u), le_bytes 4 (uart_ris u), le_bytes 4 (uart_dmacr u),
     le_bytes 8 (uart_tx_count u), le_bytes 8 (uart_mmio_reads u), le_bytes 8 (uart_mmio_writes u),
     le_bytes 8 (uart_config_writes u), le_bytes 8 (uart_id_reads u),
     le_bytes 8 (uart_rx_injected_count u)]"

text \<open>The observers and what the device already sent out stay those of the loading instance.\<close>
definition uart_restore :: "uart \<Rightarrow> uart \<Rightarrow> uart" where
  "uart_restore u u0 = uart_update_interrupt_state
    (u\<lparr>uart_tx_observer := uart_tx_observer u0, uart_state_observer := uart_state_observer u0,
       uart_events := uart_events u0\<rparr>)"

lemma emits_uart_save: "emits (uart_save_state u) (uart_enc u)"
  unfolding uart_save_state_def uart_enc_def
  by (rule emits_write_seq) (simp add: snapshot_emits)

lemma absorbs_uart_load:
  assumes "length (uart_rx_fifo u) \<le> 1024"
  shows "absorbs uart_load_state (uart_enc u) u0 (uart_restore u u0)"
proof -
  have v: "vector_ok (uart_rx_fifo u)" using assms by (simp add: vector_ok_def)
  have "absorbs uart_load_state (enc_vector (uart_rx_fifo u) @ [] @ concat
    [le_bytes 4 (uart_ibrd u), le_bytes 4 (uart_fbrd u), le_bytes 4 (uart_lcrh u),
     le_bytes 4 (uart_cr u), le_bytes 4 (uart_ifls u), le_bytes 4 (uart_imsc u),
     le_bytes 4 (uart_ris u), le_bytes 4 (uart_dmacr u), le_bytes 8 (uart_tx_count u),
     le_bytes 8 (uart_mmio_reads u), le_bytes 8 (uart_mmio_writes u),
     le_bytes 8 (uart_config_writes u), le_bytes 8 (uart_id_reads u),
     le_bytes 8 (uart_rx_injected_count u), []]) u0 (uart_restore u u0)"
    unfolding uart_load_state_def concat.simps
    by ((rule absorbs_steps v assms)+)
      (auto simp: uart_restore_def intro!: arg_cong [where f = uart_update_interrupt_state] uart.equality)
  then show ?thesis by (simp add: uart_enc_def)
qed

interpretation uart_snapshot: snapshot_component uart_save_state uart_load_state uart_enc
    "\<lambda>u. length (uart_rx_fifo u) \<le> 1024" "\<lambda>_ _. True" uart_restore
  by unfold_locales (rule emits_uart_save, rule absorbs_uart_load)

lemma uart_wf_restore: "uart_wf u \<Longrightarrow> uart_wf (uart_restore u u0)"
  using uart_wf_length [of u] uart_wf_ris [of u]
  by (auto simp: uart_restore_def intro!: uart_wf_update)

section \<open>Reachable states\<close>

inductive uart_reachable :: "uart \<Rightarrow> bool" where
  start: "uart_reachable (uart_init\<lparr>uart_tx_observer := tx, uart_state_observer := st\<rparr>)"
| guest_read: "uart_reachable u \<Longrightarrow> uart_reachable (snd (uart_read offset sz u))"
| guest_write: "uart_reachable u \<Longrightarrow> uart_reachable (uart_write offset v sz u)"
| host_byte: "uart_reachable u \<Longrightarrow> uart_reachable (uart_inject_rx b u)"
| snapshot: "uart_reachable u \<Longrightarrow> uart_reachable u0 \<Longrightarrow>
    uart_load_state \<lparr>ib = uart_enc u @ rest, igood = True\<rparr> u0 = (ok, u1, s) \<Longrightarrow> uart_reachable u1"

lemma uart_reachable_wf: "uart_reachable u \<Longrightarrow> uart_wf u"
proof (induction rule: uart_reachable.induct)
  case (snapshot u u0 rest ok u1 s)
  then have "u1 = uart_restore u u0"
    using absorbsD [OF absorbs_uart_load [OF uart_wf_length [OF snapshot(4)]], of rest u0] by simp
  then show ?case using snapshot by (simp add: uart_wf_restore)
qed (simp_all add: uart_wf_read uart_wf_write uart_wf_inject uart_wf_start)

section \<open>Properties\<close>

text \<open>
  C38. The interrupt line of the UART is exact in every reachable state, whatever registers the
  guest wrote (the clear register included) and across snapshots: it is raised exactly when the
  receiver is enabled, a byte waits in the queue and the guest unmasked one of the two receive
  interrupts.
\<close>
theorem uart_irq_exact:
  assumes "uart_reachable u"
  shows "uart_irq_pending u \<longleftrightarrow>
    uart_cr u AND 0x1 \<noteq> 0 \<and> uart_cr u AND 0x200 \<noteq> 0 \<and> uart_rx_fifo u \<noteq> [] \<and> uart_imsc u AND 0x50 \<noteq> 0"
  using uart_reachable_wf [OF assms]
  by (auto simp: uart_wf_def uart_enabled_def uart_irq_pending_def kRxRtRis_def kRxRis_def kRtRis_def
      and.commute split: if_splits)

theorem uart_irq_exact_witness:
  "uart_reachable (uart_inject_rx 0x41 (uart_write 0x38 0x10 4
      (uart_init\<lparr>uart_tx_observer := False, uart_state_observer := False\<rparr>))) \<and>
   uart_irq_pending (uart_inject_rx 0x41 (uart_write 0x38 0x10 4
      (uart_init\<lparr>uart_tx_observer := False, uart_state_observer := False\<rparr>)))"
proof -
  let ?u = "uart_inject_rx 0x41 (uart_write 0x38 0x10 4
      (uart_init\<lparr>uart_tx_observer := False, uart_state_observer := False\<rparr>))"
  have r: "uart_reachable ?u" by (intro host_byte guest_write start)
  then show ?thesis unfolding uart_irq_exact [OF r]
    by (simp add: uart_inject_rx_def uart_write_def uart_init_def mmio_size_ok_def Let_def)
qed

text \<open>
  C39. The receive queue neither loses, duplicates nor reorders a byte it accepted: over any
  interleaving of host bytes and one-byte reads of the data register, starting from any state,
  the values the guest read followed by the bytes still queued are the bytes queued at the start
  followed by the accepted ones, and a byte is accepted exactly when fewer than 1024 wait.
\<close>
theorem uart_rx_in_order:
  "\<exists>acc outs. snd (uart_rx.run xs u) = map ucast outs \<and>
    uart_rx_fifo u @ acc = outs @ uart_rx_fifo (fst (uart_rx.run xs u)) \<and>
    fifo_run 1024 xs (uart_rx_fifo u) = (uart_rx_fifo (fst (uart_rx.run xs u)), acc, outs)"
  using uart_rx.delivered_in_order [OF TrueI prod.collapse [symmetric]] by metis

text \<open>
  A snapshot of a reachable UART, loaded into any UART, gives back every register, counter
  and queued byte of the saved one and leaves the rest of the stream; a snapshot cut anywhere
  inside is refused.
\<close>
theorem uart_snapshot_roundtrip:
  assumes "uart_reachable u" "ogood s" "length (uart_enc u) \<le> oroom s"
  shows "fst (uart_save_state u s) \<and> ob (snd (uart_save_state u s)) = ob s @ uart_enc u \<and>
    (\<exists>u1. uart_load_state \<lparr>ib = uart_enc u @ rest, igood = True\<rparr> u0 = (True, u1, \<lparr>ib = rest, igood = True\<rparr>) \<and>
      u1\<lparr>uart_events := uart_events u, uart_tx_observer := uart_tx_observer u,
         uart_state_observer := uart_state_observer u\<rparr> = u) \<and>
    (\<forall>pre. strict_prefix pre (uart_enc u) \<longrightarrow> \<not> fst (uart_load_state \<lparr>ib = pre, igood = True\<rparr> u0))"
proof -
  note wf = uart_reachable_wf [OF assms(1)]
  note sl = uart_snapshot.save_load [OF uart_wf_length [OF wf] TrueI assms(2,3), of rest u0]
  have "uart_ris (uart_restore u u0) = uart_ris u"
    using wf uart_update_idem [of "u\<lparr>uart_tx_observer := uart_tx_observer u0,
      uart_state_observer := uart_state_observer u0, uart_events := uart_events u0\<rparr>"]
    by (simp add: uart_restore_def uart_wf_def uart_enabled_def)
  then have "(uart_restore u u0)\<lparr>uart_events := uart_events u, uart_tx_observer := uart_tx_observer u,
      uart_state_observer := uart_state_observer u\<rparr> = u"
    by (simp add: uart_restore_def uart_update_interrupt_state_def Let_def)
  then show ?thesis
    using sl uart_snapshot.load_cut [OF uart_wf_length [OF wf] TrueI] by simp
qed

theorem uart_snapshot_roundtrip_witness:
  "\<exists>u1. uart_load_state \<lparr>ib = uart_enc (uart_inject_rx 7 uart_init) @ [1, 2], igood = True\<rparr> uart_init =
      (True, u1, \<lparr>ib = [1, 2], igood = True\<rparr>) \<and> uart_rx_fifo u1 = [7]"
proof -
  have "uart_reachable (uart_init\<lparr>uart_tx_observer := False, uart_state_observer := False\<rparr>)" by (rule start)
  then have r: "uart_reachable (uart_inject_rx 7 uart_init)"
    by (intro host_byte) (simp add: uart_init_def)
  let ?s = "\<lparr>ob = [], oroom = length (uart_enc (uart_inject_rx 7 uart_init)), ogood = True\<rparr>"
  obtain u1 where u1: "uart_load_state \<lparr>ib = uart_enc (uart_inject_rx 7 uart_init) @ [1, 2], igood = True\<rparr> uart_init =
      (True, u1, \<lparr>ib = [1, 2], igood = True\<rparr>)"
    and eq: "u1\<lparr>uart_events := uart_events (uart_inject_rx 7 uart_init),
      uart_tx_observer := uart_tx_observer (uart_inject_rx 7 uart_init),
      uart_state_observer := uart_state_observer (uart_inject_rx 7 uart_init)\<rparr> = uart_inject_rx 7 uart_init"
    using uart_snapshot_roundtrip [OF r, of ?s "[1, 2]" uart_init] by auto
  have "uart_rx_fifo u1 = uart_rx_fifo (uart_inject_rx 7 uart_init)"
    using arg_cong [OF eq, of uart_rx_fifo] by simp
  then show ?thesis using u1 by (simp add: uart_inject_rx_def uart_init_def Let_def)
qed

end
