(* ===== verification/Ram_Device.thy ===== *)
theory Ram_Device
  imports Snapshot_Io
begin

text \<open>
  Model of \<open>src/src/ram.cpp\<close>: a byte buffer behind the bus. The write observer is a pointer
  that may be null; the calls it gets are appended to \<open>ram_notified\<close>. A \<open>memcpy\<close> that leaves
  the buffer has the outcome \<open>Undefined\<close>.
\<close>

record ram =
  ram_data :: "u8 list"
  ram_observer :: bool
  ram_notified :: "(u64 \<times> usize) list"

definition ram_new :: "usize \<Rightarrow> ram" where
  "ram_new size_bytes =
    \<lparr>ram_data = replicate (unat size_bytes) 0, ram_observer = False, ram_notified = []\<rparr>"

section \<open>Host memory copies\<close>

text \<open>\<open>memcpy\<close> out of and into a buffer at a pointer \<open>data() + off\<close>.\<close>
definition memcpy_from :: "u8 list \<Rightarrow> usize \<Rightarrow> nat \<Rightarrow> u8 list outcome" where
  "memcpy_from buf off n =
    (if unat off + n \<le> length buf then Defined (bytes_at buf (unat off) n) else Undefined)"

definition memcpy_to :: "u8 list \<Rightarrow> usize \<Rightarrow> u8 list \<Rightarrow> u8 list outcome" where
  "memcpy_to buf off bs =
    (if unat off + length bs \<le> length buf then Defined (put_bytes buf (unat off) bs) else Undefined)"

section \<open>Operations\<close>

definition ram_set_write_observer :: "bool \<Rightarrow> ram \<Rightarrow> ram" where
  "ram_set_write_observer present r = r\<lparr>ram_observer := present\<rparr>"

definition access_size_ok :: "usize \<Rightarrow> bool" where
  "access_size_ok sz \<longleftrightarrow> sz = 1 \<or> sz = 2 \<or> sz = 4 \<or> sz = 8"

definition ram_size :: "ram \<Rightarrow> usize" where
  "ram_size r = of_nat (length (ram_data r))"

definition ram_notify_write :: "u64 \<Rightarrow> usize \<Rightarrow> ram \<Rightarrow> ram" where
  "ram_notify_write offset sz r =
    (if ram_observer r \<and> sz \<noteq> 0 then r\<lparr>ram_notified := ram_notified r @ [(offset, sz)]\<rparr> else r)"

definition ram_read_fast :: "u64 \<Rightarrow> usize \<Rightarrow> ram \<Rightarrow> u64 option outcome" where
  "ram_read_fast offset sz r =
    (if \<not> access_size_ok sz \<or> offset + sz > ram_size r then Defined None
     else case memcpy_from (ram_data r) offset (unat sz) of
       Defined bs \<Rightarrow> Defined (Some (le_word bs))
     | Undefined \<Rightarrow> Undefined)"

definition ram_write_fast :: "u64 \<Rightarrow> u64 \<Rightarrow> usize \<Rightarrow> ram \<Rightarrow> (bool \<times> ram) outcome" where
  "ram_write_fast offset v sz r =
    (if \<not> access_size_ok sz \<or> offset + sz > ram_size r then Defined (False, r)
     else case memcpy_to (ram_data r) offset (le_bytes (unat sz) v) of
       Defined d \<Rightarrow> Defined (True, ram_notify_write offset sz (r\<lparr>ram_data := d\<rparr>))
     | Undefined \<Rightarrow> Undefined)"

definition ram_read :: "u64 \<Rightarrow> usize \<Rightarrow> ram \<Rightarrow> u64 outcome" where
  "ram_read offset sz r =
    (case ram_read_fast offset sz r of
       Defined None \<Rightarrow> Defined 0
     | Defined (Some v) \<Rightarrow> Defined v
     | Undefined \<Rightarrow> Undefined)"

definition ram_write :: "u64 \<Rightarrow> u64 \<Rightarrow> usize \<Rightarrow> ram \<Rightarrow> ram outcome" where
  "ram_write offset v sz r =
    (case ram_write_fast offset v sz r of
       Defined (_, r') \<Rightarrow> Defined r'
     | Undefined \<Rightarrow> Undefined)"

definition ram_load_bytes :: "u64 \<Rightarrow> u8 list \<Rightarrow> ram \<Rightarrow> (bool \<times> ram) outcome" where
  "ram_load_bytes offset bytes r =
    (if offset + of_nat (length bytes) > ram_size r then Defined (False, r)
     else if bytes = [] then Defined (True, r)
     else case memcpy_to (ram_data r) offset bytes of
       Defined d \<Rightarrow> Defined (True, ram_notify_write offset (of_nat (length bytes)) (r\<lparr>ram_data := d\<rparr>))
     | Undefined \<Rightarrow> Undefined)"

definition ram_load :: "u64 \<Rightarrow> u32 list \<Rightarrow> ram \<Rightarrow> (bool \<times> ram) outcome" where
  "ram_load offset words r =
    (let bytes = of_nat (length words) * 4 :: usize in
     if offset + bytes > ram_size r then Defined (False, r)
     else if words = [] then Defined (True, r)
     else case memcpy_to (ram_data r) offset (concat (map (le_bytes 4) words)) of
       Defined d \<Rightarrow> Defined (True, ram_notify_write offset bytes (r\<lparr>ram_data := d\<rparr>))
     | Undefined \<Rightarrow> Undefined)"

definition ram_save_state :: "ram \<Rightarrow> writer" where
  "ram_save_state r = write_vector (ram_data r)"

definition ram_load_state :: "ram reader" where
  "ram_load_state = read_local read_vector [] (\<lambda>data. read_seq
    [read_check (\<lambda>r. length data = length (ram_data r)),
     read_finish (\<lambda>r. ram_notify_write 0 (of_nat (length data)) (r\<lparr>ram_data := data\<rparr>))])"

section \<open>Lemmas\<close>

text \<open>A buffer fits the host's address space.\<close>
definition ram_wf :: "ram \<Rightarrow> bool" where
  "ram_wf r \<longleftrightarrow> length (ram_data r) < 2 ^ 64"

text \<open>The bytes of the access lie in the buffer, as natural numbers.\<close>
definition ram_covers :: "ram \<Rightarrow> u64 \<Rightarrow> usize \<Rightarrow> bool" where
  "ram_covers r offset sz \<longleftrightarrow> unat offset + unat sz \<le> length (ram_data r)"

lemma ram_notify_fields [simp]:
  "ram_data (ram_notify_write offset sz r) = ram_data r"
  "ram_observer (ram_notify_write offset sz r) = ram_observer r"
  by (simp_all add: ram_notify_write_def)

lemma access_size_values: "access_size_ok sz \<Longrightarrow> unat sz \<in> {1, 2, 4, 8}"
  by (auto simp: access_size_ok_def)

lemma ram_bounds_check:
  assumes "ram_wf r" "unat offset + unat sz < 2 ^ 64"
  shows "offset + sz > ram_size r \<longleftrightarrow> \<not> ram_covers r offset sz"
  using assms unat_plus_no_wrap [of offset sz]
  by (simp add: ram_wf_def ram_size_def ram_covers_def word_less_nat_alt unat_of_nat not_le)

lemma ram_read_fast_covered:
  assumes "ram_wf r" "access_size_ok sz" "ram_covers r offset sz"
  shows "ram_read_fast offset sz r =
    Defined (Some (le_word (bytes_at (ram_data r) (unat offset) (unat sz))))"
proof -
  have "unat offset + unat sz < 2 ^ 64" using assms by (simp add: ram_wf_def ram_covers_def)
  from ram_bounds_check [OF assms(1) this] show ?thesis
    using assms by (simp add: ram_read_fast_def memcpy_from_def ram_covers_def)
qed

lemma ram_write_fast_covered:
  assumes "ram_wf r" "access_size_ok sz" "ram_covers r offset sz"
  shows "ram_write_fast offset v sz r = Defined (True, ram_notify_write offset sz
    (r\<lparr>ram_data := put_bytes (ram_data r) (unat offset) (le_bytes (unat sz) v)\<rparr>))"
proof -
  have "unat offset + unat sz < 2 ^ 64" using assms by (simp add: ram_wf_def ram_covers_def)
  from ram_bounds_check [OF assms(1) this] show ?thesis
    using assms by (simp add: ram_write_fast_def memcpy_to_def ram_covers_def)
qed

text \<open>Without the wrap of \<open>offset + size\<close> an access is refused or stays in the buffer.\<close>
lemma ram_access_defined:
  assumes "ram_wf r" "unat offset + unat sz < 2 ^ 64"
  shows "ram_read_fast offset sz r \<noteq> Undefined" "ram_write_fast offset v sz r \<noteq> Undefined"
  using ram_bounds_check [OF assms]
  by (auto simp: ram_read_fast_def ram_write_fast_def memcpy_from_def memcpy_to_def ram_covers_def)

lemma ram_write_fast_length:
  "ram_write_fast offset v sz r = Defined (ok, r') \<Longrightarrow> length (ram_data r') = length (ram_data r)"
  by (auto simp: ram_write_fast_def memcpy_to_def split: if_splits outcome.splits)

text \<open>Byte by byte: what the buffer holds after a covered write.\<close>
lemma ram_put_bytes_nth:
  assumes "ram_covers r offset sz" "i < length (ram_data r)"
  shows "put_bytes (ram_data r) (unat offset) (le_bytes (unat sz) v) ! i =
    (if unat offset \<le> i \<and> i < unat offset + unat sz
     then ucast (drop_bit (8 * (i - unat offset)) v) else ram_data r ! i)"
  using assms by (auto simp: ram_covers_def nth_put_bytes nth_le_bytes)

definition ram_restore :: "ram \<Rightarrow> ram \<Rightarrow> ram" where
  "ram_restore r r0 = ram_notify_write 0 (of_nat (length (ram_data r))) (r0\<lparr>ram_data := ram_data r\<rparr>)"

lemma absorbs_ram_load:
  assumes v: "vector_ok (ram_data r)" and l: "length (ram_data r) = length (ram_data r0)"
  shows "absorbs ram_load_state (enc_vector (ram_data r)) r0 (ram_restore r r0)"
proof -
  have "absorbs ram_load_state (enc_vector (ram_data r) @ [] @ [] @ []) r0 (ram_restore r r0)"
    unfolding ram_load_state_def
    by ((rule absorbs_steps v l)+) (simp add: ram_restore_def l)
  then show ?thesis by simp
qed

interpretation ram_snapshot: snapshot_component ram_save_state ram_load_state
    "\<lambda>r. enc_vector (ram_data r)" "\<lambda>r. vector_ok (ram_data r)"
    "\<lambda>r r0. length (ram_data r) = length (ram_data r0)" ram_restore
  by unfold_locales (simp add: ram_save_state_def vec.write_enc, rule absorbs_ram_load)

section \<open>Properties\<close>

text \<open>
  C26. A covered store succeeds and changes exactly the bytes it addresses: a load of the same
  size gives the stored value truncated to it, a load that does not overlap gives what it gave
  before, and the buffer keeps its size.
\<close>
theorem ram_read_after_write:
  assumes wf: "ram_wf r" and sz: "access_size_ok sz" "ram_covers r offset sz"
  shows "\<exists>r'. ram_write_fast offset v sz r = Defined (True, r') \<and>
    length (ram_data r') = length (ram_data r) \<and>
    ram_read_fast offset sz r' = Defined (Some (v AND mask (8 * unat sz))) \<and>
    (\<forall>o2 s2. access_size_ok s2 \<and> ram_covers r o2 s2 \<and>
        (unat o2 + unat s2 \<le> unat offset \<or> unat offset + unat sz \<le> unat o2) \<longrightarrow>
      ram_read_fast o2 s2 r' = ram_read_fast o2 s2 r)"
proof -
  let ?r = "ram_notify_write offset sz
    (r\<lparr>ram_data := put_bytes (ram_data r) (unat offset) (le_bytes (unat sz) v)\<rparr>)"
  have len: "length (ram_data ?r) = length (ram_data r)"
    using sz by (simp add: ram_covers_def)
  then have wf': "ram_wf ?r" and cov: "\<And>a b. ram_covers ?r a b = ram_covers r a b"
    using wf by (simp_all add: ram_wf_def ram_covers_def)
  have "ram_read_fast offset sz ?r = Defined (Some (v AND mask (8 * unat sz)))"
    using ram_read_fast_covered [OF wf' sz(1)] sz cov
    by (simp add: ram_covers_def le_word_le_bytes_mask)
  moreover have "ram_read_fast o2 s2 ?r = ram_read_fast o2 s2 r"
    if "access_size_ok s2" "ram_covers r o2 s2"
      "unat o2 + unat s2 \<le> unat offset \<or> unat offset + unat sz \<le> unat o2" for o2 s2
    using ram_read_fast_covered [OF wf' that(1)] ram_read_fast_covered [OF wf that(1,2)] cov that sz
    by (simp add: ram_covers_def bytes_at_put_other)
  ultimately show ?thesis
    using ram_write_fast_covered [OF wf sz] len by blast
qed

theorem ram_read_after_write_witness:
  "\<exists>r'. ram_write_fast 3 0x12345678 4 (ram_new 16) = Defined (True, r') \<and>
    ram_read_fast 3 4 r' = Defined (Some 0x12345678)"
proof -
  have "ram_wf (ram_new 16)" "access_size_ok 4" "ram_covers (ram_new 16) 3 4"
    by (simp_all add: ram_wf_def ram_new_def access_size_ok_def ram_covers_def)
  from ram_read_after_write [OF this, where v = "0x12345678"] show ?thesis
    by (auto simp: take_bit_eq_mod simp flip: take_bit_eq_mask)
qed

text \<open>
  The bounds check of the RAM admits an access outside the buffer exactly when the 64-bit
  sum of offset and size wraps to a value within the size: then, and only then, the host memory
  outside the buffer is read or written.
\<close>
theorem ram_out_of_bounds_iff:
  assumes "ram_wf r" "access_size_ok sz"
  shows "(ram_read_fast offset sz r = Undefined \<longleftrightarrow>
      2 ^ 64 \<le> unat offset + unat sz \<and> unat offset + unat sz - 2 ^ 64 \<le> length (ram_data r)) \<and>
    (ram_write_fast offset v sz r = Undefined \<longleftrightarrow>
      2 ^ 64 \<le> unat offset + unat sz \<and> unat offset + unat sz - 2 ^ 64 \<le> length (ram_data r))"
proof (cases "unat offset + unat sz < 2 ^ 64")
  case True
  then show ?thesis using ram_access_defined [OF assms(1) True] by simp
next
  case False
  have s: "unat (offset + sz) = unat offset + unat sz - 2 ^ 64"
    using False unat_less_u64 [of offset] unat_less_u64 [of sz]
    by (simp add: unat_word_ariths mod_if)
  have "offset + sz > ram_size r \<longleftrightarrow> length (ram_data r) < unat offset + unat sz - 2 ^ 64"
    using assms(1) s by (simp add: ram_wf_def ram_size_def word_less_nat_alt unat_of_nat)
  then show ?thesis
    using False assms
    by (auto simp: ram_read_fast_def ram_write_fast_def memcpy_from_def memcpy_to_def ram_wf_def)
qed

theorem ram_out_of_bounds_iff_witness:
  "ram_read_fast 0xFFFFFFFFFFFFFFFF 1 (ram_new 16) = Undefined"
proof -
  have "ram_wf (ram_new 16)" "access_size_ok 1"
    by (simp_all add: ram_wf_def ram_new_def access_size_ok_def)
  from ram_out_of_bounds_iff [OF this, where offset = "0xFFFFFFFFFFFFFFFF"] show ?thesis by simp
qed

end
