(* ===== verification/Dirty_Tracker.thy ===== *)
theory Dirty_Tracker
  imports Ram_Device
begin

text \<open>
  Model of \<open>src/include/aarchvm/framebuffer_dirty_tracker.hpp\<close>: the bitmap of framebuffer rows
  written since the last frame. The writer side is the observer of the framebuffer RAM; the
  display consumes the dirty rows as maximal runs.
\<close>

record row_span =
  span_first :: u32
  span_last :: u32

record tracker =
  tr_width :: u32
  tr_height :: u32
  tr_stride :: u32
  tr_frame_bytes :: usize
  tr_dirty_rows :: "u64 list"
  tr_dirty_generation :: u64
  tr_consumed_generation :: u64

definition tracker_new :: "u32 \<Rightarrow> u32 \<Rightarrow> u32 \<Rightarrow> usize \<Rightarrow> tracker" where
  "tracker_new width height stride frame_bytes =
    \<lparr>tr_width = width, tr_height = height, tr_stride = stride, tr_frame_bytes = frame_bytes,
     tr_dirty_rows = replicate (unat ((ucast height + 63 :: usize) div 64)) 0,
     tr_dirty_generation = 0, tr_consumed_generation = 0\<rparr>"

section \<open>Operations\<close>

definition set_row :: "nat \<Rightarrow> u64 list \<Rightarrow> u64 list" where
  "set_row row rows = rows[row div 64 := rows ! (row div 64) OR push_bit (row mod 64) 1]"

text \<open>The loop over the rows; its counter stays below the height, so it does not wrap.\<close>
definition mark_rows :: "u32 \<Rightarrow> u32 \<Rightarrow> tracker \<Rightarrow> tracker" where
  "mark_rows first_row last_row t =
    (if first_row \<ge> tr_height t then t
     else
       let last_row = min last_row (tr_height t - 1);
           rows = fold set_row [unat first_row..<Suc (unat last_row)] (tr_dirty_rows t)
       in t\<lparr>tr_dirty_rows := rows, tr_dirty_generation := tr_dirty_generation t + 1\<rparr>)"

definition on_ram_write :: "u64 \<Rightarrow> usize \<Rightarrow> tracker \<Rightarrow> tracker" where
  "on_ram_write offset sz t =
    (if sz = 0 \<or> tr_stride t = 0 \<or> tr_height t = 0 then t
     else if offset \<ge> tr_frame_bytes t then t
     else
       let clamped_last = min (tr_frame_bytes t - 1) (offset + sz - 1);
           first_row = ucast (offset div ucast (tr_stride t)) :: u32;
           last_row = ucast (clamped_last div ucast (tr_stride t)) :: u32
       in mark_rows first_row last_row t)"

definition mark_all_dirty :: "tracker \<Rightarrow> tracker" where
  "mark_all_dirty t = (if tr_height t = 0 then t else mark_rows 0 (tr_height t - 1) t)"

definition has_dirty :: "tracker \<Rightarrow> bool" where
  "has_dirty t \<longleftrightarrow> tr_dirty_generation t \<noteq> tr_consumed_generation t"

definition row_is_dirty :: "tracker \<Rightarrow> nat \<Rightarrow> bool" where
  "row_is_dirty t row \<longleftrightarrow> (tr_dirty_rows t ! (row div 64)) AND push_bit (row mod 64) 1 \<noteq> 0"

text \<open>The loop of \<open>consume_dirty_rows\<close> from \<open>row\<close> on: open run, and the spans pushed so far.\<close>
function consume_loop :: "tracker \<Rightarrow> nat \<Rightarrow> bool \<Rightarrow> u32 \<Rightarrow> row_span list \<Rightarrow> bool \<times> u32 \<times> row_span list" where
  "consume_loop t row in_run run_first out =
    (if row < unat (tr_height t) then
       if row_is_dirty t row then
         if \<not> in_run then consume_loop t (Suc row) True (of_nat row) out
         else consume_loop t (Suc row) in_run run_first out
       else if in_run
         then consume_loop t (Suc row) False run_first
                (out @ [\<lparr>span_first = run_first, span_last = of_nat row - 1\<rparr>])
       else consume_loop t (Suc row) in_run run_first out
     else (in_run, run_first, out))"
  by pat_completeness auto
termination by (relation "measure (\<lambda>(t, row, _). unat (tr_height t) - row)") auto

declare consume_loop.simps [simp del]

definition consume_dirty_rows :: "tracker \<Rightarrow> row_span list \<times> tracker" where
  "consume_dirty_rows t =
    (if \<not> has_dirty t then ([], t)
     else case consume_loop t 0 False 0 [] of (in_run, run_first, out) \<Rightarrow>
       ((if in_run then out @ [\<lparr>span_first = run_first, span_last = tr_height t - 1\<rparr>] else out),
        t\<lparr>tr_dirty_rows := map (\<lambda>_. 0) (tr_dirty_rows t),
          tr_consumed_generation := tr_dirty_generation t\<rparr>))"

section \<open>The dirty set\<close>

definition tracker_wf :: "tracker \<Rightarrow> bool" where
  "tracker_wf t \<longleftrightarrow> unat (tr_height t) \<le> 64 * length (tr_dirty_rows t)"

definition dirty_set :: "tracker \<Rightarrow> nat set" where
  "dirty_set t = {row. row < unat (tr_height t) \<and> row_is_dirty t row}"

definition span_rows :: "row_span list \<Rightarrow> nat set" where
  "span_rows spans = (\<Union>s\<in>set spans. {unat (span_first s)..unat (span_last s)})"

text \<open>Spans in order, not empty and not adjacent: each is a maximal run.\<close>
fun spans_separated :: "row_span list \<Rightarrow> bool" where
  "spans_separated [] \<longleftrightarrow> True"
| "spans_separated [s] \<longleftrightarrow> span_first s \<le> span_last s"
| "spans_separated (s # s' # spans) \<longleftrightarrow> span_first s \<le> span_last s \<and>
     unat (span_last s) + 1 < unat (span_first s') \<and> spans_separated (s' # spans)"

lemma row_is_dirty_bit: "row_is_dirty t row \<longleftrightarrow> bit (tr_dirty_rows t ! (row div 64)) (row mod 64)"
  by (simp add: row_is_dirty_def bit_iff_and_push_bit_not_eq_0 flip: push_bit_eq_mult)

lemma tracker_wf_new: "tracker_wf (tracker_new w h s b)"
proof -
  have "unat (ucast h + 63 :: usize) = unat h + 63"
    using unat_less_u32 [of h] by (subst unat_plus_no_wrap) simp_all
  then have "unat ((ucast h + 63 :: usize) div 64) = (unat h + 63) div 64"
    by (simp add: unat_div)
  then show ?thesis by (simp add: tracker_wf_def tracker_new_def)
qed

lemma length_set_row [simp]: "length (set_row row rows) = length rows"
  by (simp add: set_row_def)

lemma length_fold_set_row [simp]: "length (fold set_row rs rows) = length rows"
  by (induction rs arbitrary: rows) simp_all

lemma bit_set_row:
  assumes "row div 64 < length rows" "i < length rows" "j < 64"
  shows "bit (set_row row rows ! i) j \<longleftrightarrow> bit (rows ! i) j \<or> row = 64 * i + j"
proof -
  have "row = 64 * i + j \<longleftrightarrow> row div 64 = i \<and> row mod 64 = j" using assms by auto
  then show ?thesis using assms by (auto simp: set_row_def nth_list_update bit_simps)
qed

lemma bit_fold_set_row:
  assumes "\<forall>r\<in>set rs. r div 64 < length rows" "i < length rows" "j < 64"
  shows "bit (fold set_row rs rows ! i) j \<longleftrightarrow> bit (rows ! i) j \<or> 64 * i + j \<in> set rs"
  using assms by (induction rs arbitrary: rows) (auto simp: bit_set_row)

lemma dirty_set_mark_rows:
  assumes "tracker_wf t"
  shows "dirty_set (mark_rows a b t) = dirty_set t \<union> {row. row < unat (tr_height t) \<and> unat a \<le> row \<and> row \<le> unat b}"
proof (cases "a \<ge> tr_height t")
  case True
  then show ?thesis by (auto simp: mark_rows_def word_le_nat_alt)
next
  case False
  then have h: "unat a < unat (tr_height t)" by (simp add: word_le_nat_alt)
  then have h1: "unat (tr_height t - 1) = unat (tr_height t) - 1"
    by (subst unat_sub) (auto simp: word_le_nat_alt)
  let ?last = "min b (tr_height t - 1)"
  have last: "unat ?last = min (unat b) (unat (tr_height t) - 1)"
    by (auto simp: min_def word_le_nat_alt h1)
  let ?rs = "[unat a..<Suc (unat ?last)]"
  have rs: "\<forall>r\<in>set ?rs. r div 64 < length (tr_dirty_rows t)"
    using assms h last by (auto simp: tracker_wf_def)
  have "row_is_dirty (mark_rows a b t) row \<longleftrightarrow> row_is_dirty t row \<or> row \<in> set ?rs"
    if "row < unat (tr_height t)" for row
  proof -
    have i: "row div 64 < length (tr_dirty_rows t)" using that assms by (auto simp: tracker_wf_def)
    show ?thesis
      using bit_fold_set_row [OF rs i, of "row mod 64"] False
      by (simp add: row_is_dirty_bit mark_rows_def Let_def del: upt_Suc)
  qed
  then show ?thesis
    using last h False by (auto simp: dirty_set_def mark_rows_def Let_def)
qed

text \<open>The rows that the bytes of a write fall into.\<close>
lemma dirty_set_on_ram_write:
  assumes wf: "tracker_wf t" and nw: "unat offset + unat sz < 2 ^ 64"
    and fb: "unat (tr_frame_bytes t) \<le> 2 ^ 32" and st: "0 < unat (tr_stride t)"
  shows "dirty_set (on_ram_write offset sz t) = dirty_set t \<union>
    {row. row < unat (tr_height t) \<and>
      (\<exists>i. unat offset \<le> i \<and> i < unat offset + unat sz \<and> i < unat (tr_frame_bytes t) \<and>
        row = i div unat (tr_stride t))}"
proof (cases "sz = 0 \<or> tr_height t = 0 \<or> offset \<ge> tr_frame_bytes t")
  case True
  then show ?thesis by (auto simp: on_ram_write_def word_le_nat_alt dirty_set_def)
next
  case False
  let ?s = "unat (tr_stride t)" and ?f = "unat (tr_frame_bytes t)"
  let ?last = "min (tr_frame_bytes t - 1) (offset + sz - 1)"
  have nz: "sz \<noteq> 0" "tr_height t \<noteq> 0" "unat offset < ?f" "tr_stride t \<noteq> 0" "0 < unat sz"
    using False st by (auto simp: word_le_nat_alt unat_gt_0)
  have sum: "unat (offset + sz) = unat offset + unat sz" using nw by (simp add: unat_plus_no_wrap)
  have "unat (offset + sz - 1) = unat offset + unat sz - 1"
    using sum nz by (subst unat_sub) (auto simp: word_le_nat_alt)
  moreover have "unat (tr_frame_bytes t - 1) = ?f - 1"
    using nz by (subst unat_sub) (auto simp: word_le_nat_alt)
  ultimately have last: "unat ?last = min (?f - 1) (unat offset + unat sz - 1)"
    by (auto simp: min_def word_le_nat_alt)
  have small: "unat offset div ?s < 2 ^ 32" "unat ?last div ?s < 2 ^ 32"
    using nz fb last st by (auto simp: div_le_dividend intro: le_less_trans [OF div_le_dividend])
  have "dirty_set (on_ram_write offset sz t) = dirty_set t \<union>
      {row. row < unat (tr_height t) \<and> unat offset div ?s \<le> row \<and> row \<le> unat ?last div ?s}"
    using False nz small
    by (simp add: on_ram_write_def Let_def dirty_set_mark_rows [OF wf] unat_ucast_u64_small unat_div)
  also have "{row. row < unat (tr_height t) \<and> unat offset div ?s \<le> row \<and> row \<le> unat ?last div ?s} =
     {row. row < unat (tr_height t) \<and> (\<exists>i. unat offset \<le> i \<and> i < unat offset + unat sz \<and> i < ?f \<and>
        row = i div ?s)}" (is "?A = ?B")
  proof
    have "i div ?s \<le> unat ?last div ?s" if "i < unat offset + unat sz" "i < ?f" for i
      unfolding last by (rule div_le_mono) (use that in auto)
    then show "?B \<subseteq> ?A" by (auto intro: div_le_mono)
    show "?A \<subseteq> ?B"
    proof
      fix row assume row: "row \<in> ?A"
      let ?i = "max (unat offset) (row * ?s)"
      have "row * ?s \<le> unat ?last" using row st by (simp add: less_eq_div_iff_mult_less_eq)
      moreover have "?i div ?s = row"
      proof (cases "row * ?s \<le> unat offset")
        case True
        then have "row \<le> unat offset div ?s" using st by (simp add: less_eq_div_iff_mult_less_eq)
        then show ?thesis using row True by (simp add: max_def)
      qed (use st in \<open>simp add: max_def\<close>)
      moreover have "row * ?s < unat offset + unat sz" "row * ?s < ?f"
        using calculation(1) last nz by linarith+
      ultimately show "row \<in> ?B"
        using row nz by (intro CollectI conjI exI [of _ ?i]) auto
    qed
  qed
  finally show ?thesis .
qed

section \<open>Consuming the rows\<close>

text \<open>What the loop has done when it stands before \<open>row\<close>.\<close>
definition consume_inv :: "tracker \<Rightarrow> nat \<Rightarrow> bool \<Rightarrow> u32 \<Rightarrow> row_span list \<Rightarrow> bool" where
  "consume_inv t row in_run run_first out \<longleftrightarrow>
    row \<le> unat (tr_height t) \<and>
    span_rows out \<union> (if in_run then {unat run_first..<row} else {}) = {r \<in> dirty_set t. r < row} \<and>
    spans_separated out \<and> (in_run \<longrightarrow> unat run_first < row) \<and>
    (\<forall>s\<in>set out. unat (span_last s) + 1 < (if in_run then unat run_first else row))"

lemma spans_separated_append:
  "spans_separated out \<Longrightarrow> span_first s \<le> span_last s \<Longrightarrow>
   (\<forall>x\<in>set out. unat (span_last x) + 1 < unat (span_first s)) \<Longrightarrow> spans_separated (out @ [s])"
  by (induction out rule: spans_separated.induct) auto

lemma span_rows_append [simp]:
  "span_rows (out @ [s]) = span_rows out \<union> {unat (span_first s)..unat (span_last s)}"
  by (auto simp: span_rows_def)

lemma unat_row: "row < unat (tr_height t) \<Longrightarrow> unat (of_nat row :: u32) = row"
  using unat_less_u32 [of "tr_height t"] by (simp add: unat_of_nat)

lemma unat_row_pred: "row \<le> unat (tr_height t) \<Longrightarrow> 0 < row \<Longrightarrow> unat (of_nat row - 1 :: u32) = row - 1"
proof -
  assume a: "row \<le> unat (tr_height t)" "0 < row"
  then have "(of_nat row - 1 :: u32) = of_nat (row - 1)" by (simp add: of_nat_diff)
  moreover have "unat (of_nat n :: u32) = n" if "n < 2 ^ 32" for n
    using that by (simp add: unat_of_nat)
  moreover have "row - 1 < 2 ^ 32"
    using a unat_less_u32 [of "tr_height t"] by linarith
  ultimately show ?thesis by metis
qed

lemma dirty_below_Suc:
  "{r \<in> dirty_set t. r < Suc row} = {r \<in> dirty_set t. r < row} \<union> (if row \<in> dirty_set t then {row} else {})"
  by (auto simp: less_Suc_eq)

lemma consume_inv_close:
  assumes inv: "consume_inv t row True run_first out"
  shows "spans_separated (out @ [\<lparr>span_first = run_first, span_last = of_nat row - 1\<rparr>])"
    and "span_rows (out @ [\<lparr>span_first = run_first, span_last = of_nat row - 1\<rparr>]) = {r \<in> dirty_set t. r < row}"
proof -
  have r: "row \<le> unat (tr_height t)" "unat run_first < row" using inv by (auto simp: consume_inv_def)
  then have l: "unat (of_nat row - 1 :: u32) = row - 1" by (intro unat_row_pred) auto
  have "run_first \<le> of_nat row - 1" using l r by (simp add: word_le_nat_alt)
  then show "spans_separated (out @ [\<lparr>span_first = run_first, span_last = of_nat row - 1\<rparr>])"
    using inv by (intro spans_separated_append) (auto simp: consume_inv_def)
  have "{unat run_first..row - 1} = {unat run_first..<row}" using r by auto
  then show "span_rows (out @ [\<lparr>span_first = run_first, span_last = of_nat row - 1\<rparr>]) = {r \<in> dirty_set t. r < row}"
    using inv l by (simp add: consume_inv_def)
qed

lemma consume_loop_inv:
  "consume_inv t row in_run run_first out \<Longrightarrow>
   consume_loop t row in_run run_first out = (in_run', run_first', out') \<Longrightarrow>
   consume_inv t (unat (tr_height t)) in_run' run_first' out'"
proof (induction t row in_run run_first out rule: consume_loop.induct)
  case (1 t row in_run run_first out)
  note loop = 1(6) [unfolded consume_loop.simps [of t row]]
  show ?case
  proof (cases "row < unat (tr_height t)")
    case False
    then show ?thesis using 1(5) loop by (auto simp: consume_inv_def)
  next
    case row: True
    note u = unat_row [OF row]
    have mem: "row \<in> dirty_set t \<longleftrightarrow> row_is_dirty t row" using row by (simp add: dirty_set_def)
    consider "row_is_dirty t row" "\<not> in_run" | "row_is_dirty t row" in_run
      | "\<not> row_is_dirty t row" in_run | "\<not> row_is_dirty t row" "\<not> in_run" by blast
    then show ?thesis
    proof cases
      case c: 1
      have "consume_inv t (Suc row) True (of_nat row) out"
        using 1(5) c row mem u by (auto simp: consume_inv_def dirty_below_Suc)
      then show ?thesis using 1(1) row c loop by simp
    next
      case c: 2
      then have "unat run_first < row" using 1(5) by (simp add: consume_inv_def)
      then have "consume_inv t (Suc row) in_run run_first out"
        using 1(5) c row mem by (auto simp: consume_inv_def dirty_below_Suc atLeastLessThanSuc)
      then show ?thesis using 1(2) row c loop by simp
    next
      case c: 3
      have inv: "consume_inv t row True run_first out" using 1(5) c by simp
      have "unat (of_nat row - 1 :: u32) = row - 1" "0 < row"
        using inv row by (auto simp: consume_inv_def intro!: unat_row_pred [of row t, unfolded One_nat_def])
      then have "consume_inv t (Suc row) False run_first
          (out @ [\<lparr>span_first = run_first, span_last = of_nat row - 1\<rparr>])"
        using consume_inv_close [OF inv] inv row c mem
        by (auto simp: consume_inv_def dirty_below_Suc simp del: span_rows_append)
      then show ?thesis using 1(3) row c loop by simp
    next
      case c: 4
      have "consume_inv t (Suc row) in_run run_first out"
        using 1(5) c row mem by (auto simp: consume_inv_def dirty_below_Suc)
      then show ?thesis using 1(4) row c loop by simp
    qed
  qed
qed

lemma consume_rows:
  assumes "has_dirty t" "consume_dirty_rows t = (spans, t')"
  shows "span_rows spans = dirty_set t \<and> spans_separated spans"
proof -
  obtain in_run run_first out where l: "consume_loop t 0 False 0 [] = (in_run, run_first, out)"
    by (cases "consume_loop t 0 False 0 []") auto
  have "consume_inv t 0 False 0 []" by (simp add: consume_inv_def span_rows_def)
  from consume_loop_inv [OF this l] have inv: "consume_inv t (unat (tr_height t)) in_run run_first out" .
  have all: "{r \<in> dirty_set t. r < unat (tr_height t)} = dirty_set t" by (auto simp: dirty_set_def)
  show ?thesis
  proof (cases in_run)
    case True
    then have "spans = out @ [\<lparr>span_first = run_first, span_last = of_nat (unat (tr_height t)) - 1\<rparr>]"
      using assms l by (simp add: consume_dirty_rows_def)
    then show ?thesis
      using consume_inv_close [of t "unat (tr_height t)" run_first out] inv True unfolding all by simp
  next
    case False
    then have "spans = out" using assms l by (simp add: consume_dirty_rows_def)
    then show ?thesis using inv False unfolding consume_inv_def all by simp
  qed
qed

section \<open>Properties\<close>



end
