(* ===== verification/Rtc_Pl031.thy ===== *)
theory Rtc_Pl031
  imports Snapshot_Io
begin

text \<open>
  Model of \<open>src/src/rtc_pl031.cpp\<close>: the PL031 real-time clock. The host clock
  (\<open>std::chrono::system_clock\<close>) is an input: each operation takes the readings it makes, in
  the order it makes them. \<open>std::int64_t\<close> seconds are 64-bit words (no host clock is near the
  signed overflow).
\<close>

type_synonym host_seconds = u64

record rtc =
  rtc_offset_seconds :: u64
  rtc_match_seconds :: u32
  rtc_lr_shadow :: u32
  rtc_cr :: u32
  rtc_imsc :: u32
  rtc_frozen_seconds :: u32
  rtc_raw_pending :: bool
  rtc_alarm_armed :: bool

section \<open>Operations\<close>

definition valid_mmio_size :: "usize \<Rightarrow> bool" where
  "valid_mmio_size sz \<longleftrightarrow> sz = 1 \<or> sz = 2 \<or> sz = 4 \<or> sz = 8"

definition rtc_clock_enabled :: "rtc \<Rightarrow> bool" where
  "rtc_clock_enabled r \<longleftrightarrow> rtc_cr r AND 0x1 \<noteq> 0"

definition rtc_current_seconds :: "host_seconds \<Rightarrow> rtc \<Rightarrow> u32" where
  "rtc_current_seconds now r =
    (if \<not> rtc_clock_enabled r then rtc_frozen_seconds r
     else ucast (now + rtc_offset_seconds r))"

definition rtc_update_alarm_state :: "u32 \<Rightarrow> rtc \<Rightarrow> rtc" where
  "rtc_update_alarm_state now_seconds r =
    (if rtc_raw_pending r \<or> \<not> rtc_alarm_armed r \<or> \<not> rtc_clock_enabled r then r
     else if now_seconds \<ge> rtc_match_seconds r
       then r\<lparr>rtc_raw_pending := True, rtc_alarm_armed := False\<rparr>
     else r)"

definition rtc_refresh_alarm_state :: "host_seconds \<Rightarrow> rtc \<Rightarrow> rtc" where
  "rtc_refresh_alarm_state now r = rtc_update_alarm_state (rtc_current_seconds now r) r"

text \<open>\<open>t1\<close> is the clock when the alarm is refreshed, \<open>t2\<close> when the data register is read.\<close>
definition rtc_read :: "u64 \<Rightarrow> usize \<Rightarrow> host_seconds \<Rightarrow> host_seconds \<Rightarrow> rtc \<Rightarrow> u64 \<times> rtc" where
  "rtc_read offset sz t1 t2 r =
    (if \<not> valid_mmio_size sz then (0, r)
     else
       let r = rtc_refresh_alarm_state t1 r in
       (if offset = 0x000 then ucast (rtc_current_seconds t2 r)
        else if offset = 0x004 then ucast (rtc_match_seconds r)
        else if offset = 0x008 then ucast (rtc_lr_shadow r)
        else if offset = 0x00c then ucast (rtc_cr r AND 0x1)
        else if offset = 0x010 then ucast (rtc_imsc r AND 0x1)
        else if offset = 0x014 then (if rtc_raw_pending r then 1 else 0)
        else if offset = 0x018 then (if rtc_raw_pending r \<and> rtc_imsc r AND 0x1 \<noteq> 0 then 1 else 0)
        else if offset = 0xFE0 then 0x31
        else if offset = 0xFE4 then 0x10
        else if offset = 0xFE8 then 0x04
        else if offset = 0xFEC then 0x00
        else if offset = 0xFF0 then 0x0D
        else if offset = 0xFF4 then 0xF0
        else if offset = 0xFF8 then 0x05
        else if offset = 0xFFC then 0xB1
        else 0, r))"

text \<open>\<open>t1\<close> is the clock when the register is set, \<open>t2\<close> when the alarm is refreshed after it.\<close>
definition rtc_write :: "u64 \<Rightarrow> u64 \<Rightarrow> usize \<Rightarrow> host_seconds \<Rightarrow> host_seconds \<Rightarrow> rtc \<Rightarrow> rtc" where
  "rtc_write offset v sz t1 t2 r =
    (if \<not> valid_mmio_size sz then r
     else
       let value32 = ucast v :: u32 in
       if offset = 0x004 then
         rtc_refresh_alarm_state t2
           (r\<lparr>rtc_match_seconds := value32, rtc_raw_pending := False, rtc_alarm_armed := True\<rparr>)
       else if offset = 0x008 then
         let r = r\<lparr>rtc_lr_shadow := value32\<rparr>;
             r = (if rtc_clock_enabled r then r\<lparr>rtc_offset_seconds := ucast value32 - t1\<rparr>
                  else r\<lparr>rtc_frozen_seconds := value32\<rparr>)
         in rtc_refresh_alarm_state t2 r
       else if offset = 0x00c then
         let was_enabled = rtc_clock_enabled r;
             now_enabled = (value32 AND 0x1 \<noteq> 0);
             r = (if was_enabled \<and> \<not> now_enabled
                    then r\<lparr>rtc_frozen_seconds := rtc_current_seconds t1 r\<rparr>
                  else if \<not> was_enabled \<and> now_enabled
                    then r\<lparr>rtc_offset_seconds := ucast (rtc_frozen_seconds r) - t1\<rparr>
                  else r)
         in rtc_refresh_alarm_state t2 (r\<lparr>rtc_cr := value32 AND 0x1\<rparr>)
       else if offset = 0x010 then r\<lparr>rtc_imsc := value32 AND 0x1\<rparr>
       else if offset = 0x01c then r\<lparr>rtc_raw_pending := False, rtc_alarm_armed := False\<rparr>
       else r)"

definition rtc_reset :: "host_seconds \<Rightarrow> rtc \<Rightarrow> rtc" where
  "rtc_reset now r =
    (let r = r\<lparr>rtc_offset_seconds := 0, rtc_match_seconds := 0, rtc_cr := 0x1\<rparr>;
         r = r\<lparr>rtc_lr_shadow := rtc_current_seconds now r\<rparr>;
         r = r\<lparr>rtc_imsc := 0\<rparr>
     in r\<lparr>rtc_frozen_seconds := rtc_lr_shadow r, rtc_raw_pending := False, rtc_alarm_armed := False\<rparr>)"

definition rtc_new :: "host_seconds \<Rightarrow> rtc" where
  "rtc_new now = rtc_reset now
    \<lparr>rtc_offset_seconds = 0, rtc_match_seconds = 0, rtc_lr_shadow = 0, rtc_cr = 0x1, rtc_imsc = 0,
     rtc_frozen_seconds = 0, rtc_raw_pending = False, rtc_alarm_armed = False\<rparr>"

definition rtc_save_state :: "rtc \<Rightarrow> writer" where
  "rtc_save_state r = write_seq
    [snap_write (rtc_offset_seconds r), snap_write (rtc_match_seconds r), snap_write (rtc_lr_shadow r),
     snap_write (rtc_cr r), snap_write (rtc_imsc r), snap_write (rtc_frozen_seconds r),
     write_bool (rtc_raw_pending r), write_bool (rtc_alarm_armed r)]"

definition rtc_load_state :: "host_seconds \<Rightarrow> rtc reader" where
  "rtc_load_state now = read_seq
    [read_into snap_read rtc_offset_seconds rtc_offset_seconds_update,
     read_into snap_read rtc_match_seconds rtc_match_seconds_update,
     read_into snap_read rtc_lr_shadow rtc_lr_shadow_update,
     read_into snap_read rtc_cr rtc_cr_update,
     read_into snap_read rtc_imsc rtc_imsc_update,
     read_into snap_read rtc_frozen_seconds rtc_frozen_seconds_update,
     read_into read_bool rtc_raw_pending rtc_raw_pending_update,
     read_into read_bool rtc_alarm_armed rtc_alarm_armed_update,
     read_finish (\<lambda>r. rtc_refresh_alarm_state now
       (r\<lparr>rtc_cr := rtc_cr r AND 0x1, rtc_imsc := rtc_imsc r AND 0x1\<rparr>))]"

section \<open>Lemmas\<close>

definition rtc_wf :: "rtc \<Rightarrow> bool" where
  "rtc_wf r \<longleftrightarrow> rtc_cr r \<in> {0, 1} \<and> rtc_imsc r \<in> {0, 1} \<and> \<not> (rtc_raw_pending r \<and> rtc_alarm_armed r)"

lemma and_one_cases: "(x :: 'a::len word) AND 1 = 0 \<or> x AND 1 = 1"
  by (auto simp: and_one_eq)

lemma rtc_refresh_fields [simp]:
  "rtc_offset_seconds (rtc_refresh_alarm_state t r) = rtc_offset_seconds r"
  "rtc_match_seconds (rtc_refresh_alarm_state t r) = rtc_match_seconds r"
  "rtc_lr_shadow (rtc_refresh_alarm_state t r) = rtc_lr_shadow r"
  "rtc_cr (rtc_refresh_alarm_state t r) = rtc_cr r"
  "rtc_imsc (rtc_refresh_alarm_state t r) = rtc_imsc r"
  "rtc_frozen_seconds (rtc_refresh_alarm_state t r) = rtc_frozen_seconds r"
  "rtc_clock_enabled (rtc_refresh_alarm_state t r) = rtc_clock_enabled r"
  "rtc_current_seconds t' (rtc_refresh_alarm_state t r) = rtc_current_seconds t' r"
  by (simp_all add: rtc_refresh_alarm_state_def rtc_update_alarm_state_def rtc_clock_enabled_def
      rtc_current_seconds_def)

lemma rtc_refresh_pending:
  "rtc_raw_pending (rtc_refresh_alarm_state t r) \<longleftrightarrow> rtc_raw_pending r \<or>
    (rtc_alarm_armed r \<and> rtc_clock_enabled r \<and> rtc_match_seconds r \<le> rtc_current_seconds t r)"
  "rtc_alarm_armed (rtc_refresh_alarm_state t r) \<longleftrightarrow> rtc_alarm_armed r \<and>
    \<not> (\<not> rtc_raw_pending r \<and> rtc_clock_enabled r \<and> rtc_match_seconds r \<le> rtc_current_seconds t r)"
  by (auto simp: rtc_refresh_alarm_state_def rtc_update_alarm_state_def)

lemma rtc_wf_refresh: "rtc_wf r \<Longrightarrow> rtc_wf (rtc_refresh_alarm_state t r)"
  by (auto simp: rtc_wf_def rtc_refresh_pending)

lemma rtc_wf_new: "rtc_wf (rtc_new now)"
  by (simp add: rtc_wf_def rtc_new_def rtc_reset_def Let_def)

lemma rtc_wf_read: "rtc_wf r \<Longrightarrow> rtc_wf (snd (rtc_read offset sz t1 t2 r))"
  by (simp add: rtc_read_def Let_def rtc_wf_refresh)

lemma rtc_wf_write: "rtc_wf r \<Longrightarrow> rtc_wf (rtc_write offset v sz t1 t2 r)"
  using and_one_cases [of "ucast v :: u32"]
  by (auto simp: rtc_write_def Let_def intro!: rtc_wf_refresh) (auto simp: rtc_wf_def)

section \<open>Snapshot round trip\<close>

definition rtc_enc :: "rtc \<Rightarrow> u8 list" where
  "rtc_enc r = concat
    [le_bytes 8 (rtc_offset_seconds r), le_bytes 4 (rtc_match_seconds r), le_bytes 4 (rtc_lr_shadow r),
     le_bytes 4 (rtc_cr r), le_bytes 4 (rtc_imsc r), le_bytes 4 (rtc_frozen_seconds r),
     enc_bool (rtc_raw_pending r), enc_bool (rtc_alarm_armed r)]"

lemma emits_rtc_save: "emits (rtc_save_state r) (rtc_enc r)"
  unfolding rtc_save_state_def rtc_enc_def
  by (rule emits_write_seq) (simp add: snapshot_emits)

lemma rtc_wf_masks: "rtc_wf r \<Longrightarrow> r\<lparr>rtc_cr := rtc_cr r AND 1, rtc_imsc := rtc_imsc r AND 1\<rparr> = r"
  by (auto simp: rtc_wf_def)

lemma absorbs_rtc_load:
  assumes "rtc_wf r"
  shows "absorbs (rtc_load_state now) (rtc_enc r) r0 (rtc_refresh_alarm_state now r)"
proof -
  have "absorbs (rtc_load_state now) (concat
    [le_bytes 8 (rtc_offset_seconds r), le_bytes 4 (rtc_match_seconds r), le_bytes 4 (rtc_lr_shadow r),
     le_bytes 4 (rtc_cr r), le_bytes 4 (rtc_imsc r), le_bytes 4 (rtc_frozen_seconds r),
     enc_bool (rtc_raw_pending r), enc_bool (rtc_alarm_armed r), []]) r0
    (rtc_refresh_alarm_state now (r\<lparr>rtc_cr := rtc_cr r AND 1, rtc_imsc := rtc_imsc r AND 1\<rparr>))"
    unfolding rtc_load_state_def concat.simps
    by ((rule absorbs_steps)+) (auto intro!: arg_cong2 [where f = rtc_refresh_alarm_state] rtc.equality)
  then show ?thesis using rtc_wf_masks [OF assms] by (simp add: rtc_enc_def)
qed

interpretation rtc_snapshot: snapshot_component rtc_save_state "rtc_load_state now" rtc_enc
    rtc_wf "\<lambda>_ _. True" "\<lambda>r _. rtc_refresh_alarm_state now r" for now
  by unfold_locales (rule emits_rtc_save, rule absorbs_rtc_load)

section \<open>Timekeeping\<close>

lemma rtc_current_enabled:
  "rtc_clock_enabled r \<Longrightarrow> rtc_current_seconds t r = ucast (t + rtc_offset_seconds r)"
  by (simp add: rtc_current_seconds_def)

lemma rtc_stop:
  "valid_mmio_size sz \<Longrightarrow> rtc_clock_enabled r \<Longrightarrow>
   rtc_frozen_seconds (rtc_write 0xc 0 sz t1 t2 r) = rtc_current_seconds t1 r \<and>
   \<not> rtc_clock_enabled (rtc_write 0xc 0 sz t1 t2 r)"
  by (simp add: rtc_write_def Let_def) (simp add: rtc_clock_enabled_def)

lemma rtc_stopped_current: "\<not> rtc_clock_enabled r \<Longrightarrow> rtc_current_seconds t r = rtc_frozen_seconds r"
  by (simp add: rtc_current_seconds_def)

lemma rtc_start:
  "valid_mmio_size sz \<Longrightarrow> \<not> rtc_clock_enabled r \<Longrightarrow>
   rtc_current_seconds t (rtc_write 0xc 1 sz t1 t2 r) = rtc_frozen_seconds r + ucast (t - t1)"
proof -
  assume a: "valid_mmio_size sz" "\<not> rtc_clock_enabled r"
  have "ucast (t + (ucast (rtc_frozen_seconds r) - t1)) = rtc_frozen_seconds r + (ucast (t - t1) :: u32)"
    by (simp add: ucast_add_u32 ucast_diff_u32)
  then show ?thesis using a
    by (simp add: rtc_write_def Let_def) (simp add: rtc_current_seconds_def rtc_clock_enabled_def)
qed

text \<open>The guest polls the raw interrupt status at the given host times.\<close>
definition rtc_poll :: "host_seconds list \<Rightarrow> rtc \<Rightarrow> rtc" where
  "rtc_poll ts r = fold (\<lambda>t r. snd (rtc_read 0x14 4 t t r)) ts r"

lemma rtc_poll_step: "snd (rtc_read 0x14 4 t t r) = rtc_refresh_alarm_state t r"
  by (simp add: rtc_read_def valid_mmio_size_def Let_def)

lemma rtc_poll_pending:
  "rtc_clock_enabled r \<Longrightarrow> rtc_raw_pending (rtc_poll ts r) \<longleftrightarrow> rtc_raw_pending r \<or>
    (rtc_alarm_armed r \<and> (\<exists>t\<in>set ts. rtc_match_seconds r \<le> rtc_current_seconds t r))"
proof (induction ts arbitrary: r)
  case (Cons t ts)
  then show ?case
    using Cons.IH [of "rtc_refresh_alarm_state t r"]
    by (auto simp: rtc_poll_def rtc_poll_step rtc_refresh_pending)
qed (simp add: rtc_poll_def)

section \<open>Properties\<close>

text \<open>
  The clock keeps time: while it is stopped it holds the second it was stopped at, once
  restarted it goes on from there, and a running clock that is set goes on from the value
  written. Host times are the readings of the host clock, all values modulo \<open>2 ^ 32\<close>.
\<close>
theorem rtc_keeps_time:
  assumes "valid_mmio_size sz" "rtc_clock_enabled r"
  shows "rtc_current_seconds t (rtc_write 0xc 0 sz t0 u0 r) = rtc_current_seconds t0 r \<and>
    rtc_current_seconds t (rtc_write 0xc 1 sz t1 u1 (rtc_write 0xc 0 sz t0 u0 r)) =
      rtc_current_seconds t0 r + ucast (t - t1) \<and>
    rtc_current_seconds t (rtc_write 0x8 v sz t0 u0 r) = ucast v + ucast (t - t0)"
proof -
  have "ucast (t + (ucast (ucast v :: u32) - t0)) = (ucast v :: u32) + ucast (t - t0)"
    by (simp add: ucast_add_u32 ucast_diff_u32)
  then have "rtc_current_seconds t (rtc_write 0x8 v sz t0 u0 r) = ucast v + ucast (t - t0)"
    using assms by (simp add: rtc_write_def Let_def) (simp add: rtc_current_seconds_def rtc_clock_enabled_def)
  then show ?thesis
    using rtc_stop [OF assms] rtc_stopped_current rtc_start [OF assms(1)] by simp
qed

theorem rtc_keeps_time_witness:
  "rtc_current_seconds 1130 (rtc_write 0xc 1 4 1100 1100 (rtc_write 0xc 0 4 1010 1010 (rtc_new 1000))) = 1040"
proof -
  have "valid_mmio_size 4" "rtc_clock_enabled (rtc_new 1000)"
    by (simp_all add: valid_mmio_size_def rtc_clock_enabled_def rtc_new_def rtc_reset_def Let_def)
  from rtc_keeps_time [OF this, of 1130 1010 1010 1100 1100] show ?thesis
    by (simp add: rtc_current_seconds_def rtc_clock_enabled_def rtc_new_def rtc_reset_def Let_def)
qed

text \<open>
  The alarm fires exactly when it must and once: after the guest set a match value on a
  running clock, the raw status is raised at a poll exactly when the clock had reached the match
  value at the write or at some poll; after the guest cleared it, it stays clear over any polls
  until the match register is written again.
\<close>
theorem rtc_alarm_exact:
  assumes "valid_mmio_size sz" "rtc_clock_enabled r"
  shows "(rtc_raw_pending (rtc_poll ts (rtc_write 0x4 m sz t0 u0 r)) \<longleftrightarrow>
      (\<exists>t\<in>set (u0 # ts). ucast m \<le> rtc_current_seconds t r)) \<and>
    \<not> rtc_raw_pending (rtc_poll ts (rtc_write 0x1c v sz t0 u0 r))"
proof -
  let ?r = "r\<lparr>rtc_match_seconds := ucast m, rtc_raw_pending := False, rtc_alarm_armed := True\<rparr>"
  have e: "rtc_clock_enabled ?r" "rtc_current_seconds t ?r = rtc_current_seconds t r" for t
    using assms(2) by (simp_all add: rtc_clock_enabled_def rtc_current_seconds_def)
  have "rtc_write 0x4 m sz t0 u0 r = rtc_refresh_alarm_state u0 ?r"
    using assms(1) by (simp add: rtc_write_def Let_def)
  then have 1: "rtc_raw_pending (rtc_poll ts (rtc_write 0x4 m sz t0 u0 r)) \<longleftrightarrow>
      (\<exists>t\<in>set (u0 # ts). ucast m \<le> rtc_current_seconds t r)"
    using e by (auto simp: rtc_poll_pending rtc_refresh_pending)
  let ?c = "r\<lparr>rtc_raw_pending := False, rtc_alarm_armed := False\<rparr>"
  have "rtc_write 0x1c v sz t0 u0 r = ?c" using assms(1) by (simp add: rtc_write_def Let_def)
  moreover have "rtc_clock_enabled ?c" using assms(2) by (simp add: rtc_clock_enabled_def)
  ultimately show ?thesis using 1 by (simp add: rtc_poll_pending)
qed

theorem rtc_alarm_exact_witness:
  "rtc_raw_pending (rtc_poll [1004, 1005] (rtc_write 0x4 1005 4 1000 1000 (rtc_new 1000))) \<and>
   \<not> rtc_raw_pending (rtc_poll [1003, 1004] (rtc_write 0x4 1005 4 1000 1000 (rtc_new 1000)))"
proof -
  have h: "valid_mmio_size 4" "rtc_clock_enabled (rtc_new 1000)"
    by (simp_all add: valid_mmio_size_def rtc_clock_enabled_def rtc_new_def rtc_reset_def Let_def)
  show ?thesis
    using rtc_alarm_exact [OF h, of "[1004, 1005]" 1005 1000 1000]
      rtc_alarm_exact [OF h, of "[1003, 1004]" 1005 1000 1000]
    by (simp add: rtc_current_seconds_def rtc_clock_enabled_def rtc_new_def rtc_reset_def Let_def)
qed

end
