(* ===== verification/Pl050_Kmi.thy ===== *)
theory Pl050_Kmi
  imports Fifo
begin

text \<open>
  Model of \<open>src/src/pl050_kmi.cpp\<close>: the PL050 keyboard interface with the PS/2 keyboard behind
  it. The calls of the state-change observer are counted in \<open>kmi_notified\<close>.
\<close>

section \<open>State\<close>

text \<open>
  \<open>enum class PendingCommand : std::uint8_t\<close>; a snapshot may hold a value outside the
  enumerators, which every \<open>switch\<close> passes by.
\<close>
datatype pending_command = No_Command | SetLeds | SetTypematic | SetScanSet | SetAllLeds | Raw_Command u8

fun pending_code :: "pending_command \<Rightarrow> u8" where
  "pending_code No_Command = 0"
| "pending_code SetLeds = 1"
| "pending_code SetTypematic = 2"
| "pending_code SetScanSet = 3"
| "pending_code SetAllLeds = 4"
| "pending_code (Raw_Command c) = c"

definition pending_of_code :: "u8 \<Rightarrow> pending_command" where
  "pending_of_code c =
    (if c = 0 then No_Command else if c = 1 then SetLeds else if c = 2 then SetTypematic
     else if c = 3 then SetScanSet else if c = 4 then SetAllLeds else Raw_Command c)"

record kmi =
  kmi_rx_fifo :: "u8 list"
  kmi_cr :: u8
  kmi_clkdiv :: u8
  kmi_last_tx_byte :: u8
  kmi_scan_set :: u8
  kmi_scanning_enabled :: bool
  kmi_pending_command :: pending_command
  kmi_observer :: bool
  kmi_notified :: nat

definition kmi_init :: kmi where
  "kmi_init = \<lparr>kmi_rx_fifo = [], kmi_cr = 0, kmi_clkdiv = 0, kmi_last_tx_byte = 0, kmi_scan_set = 2,
    kmi_scanning_enabled = True, kmi_pending_command = No_Command, kmi_observer = False,
    kmi_notified = 0\<rparr>"

section \<open>Operations\<close>

definition kmi_set_state_change_observer :: "bool \<Rightarrow> kmi \<Rightarrow> kmi" where
  "kmi_set_state_change_observer present k = k\<lparr>kmi_observer := present\<rparr>"

definition kmi_enabled :: "kmi \<Rightarrow> bool" where
  "kmi_enabled k \<longleftrightarrow> kmi_cr k AND 0x4 \<noteq> 0"

definition kmi_update_irq_state :: "kmi \<Rightarrow> kmi" where
  "kmi_update_irq_state k =
    (let k = (if \<not> kmi_enabled k then k\<lparr>kmi_rx_fifo := []\<rparr> else k)
     in if kmi_observer k then k\<lparr>kmi_notified := kmi_notified k + 1\<rparr> else k)"

definition kmi_irq_pending :: "kmi \<Rightarrow> bool" where
  "kmi_irq_pending k \<longleftrightarrow> kmi_cr k AND 0x14 = 0x14 \<and> kmi_rx_fifo k \<noteq> []"

definition kmi_queue_response :: "u8 \<Rightarrow> kmi \<Rightarrow> kmi" where
  "kmi_queue_response byte k = kmi_update_irq_state
    (if length (kmi_rx_fifo k) < 1024 then k\<lparr>kmi_rx_fifo := kmi_rx_fifo k @ [byte]\<rparr> else k)"

definition kmi_reset_defaults :: "kmi \<Rightarrow> kmi" where
  "kmi_reset_defaults k =
    k\<lparr>kmi_scan_set := 2, kmi_scanning_enabled := True, kmi_pending_command := No_Command\<rparr>"

text \<open>The second \<open>switch\<close>: a byte that is not the argument of a pending command.\<close>
definition kmi_process_command :: "u8 \<Rightarrow> kmi \<Rightarrow> kmi" where
  "kmi_process_command byte k =
    (if byte = 0xED then kmi_queue_response 0xFA (k\<lparr>kmi_pending_command := SetLeds\<rparr>)
     else if byte = 0xEE then kmi_queue_response 0xEE k
     else if byte = 0xF0 then kmi_queue_response 0xFA (k\<lparr>kmi_pending_command := SetScanSet\<rparr>)
     else if byte = 0xF2 then
       kmi_queue_response 0x83 (kmi_queue_response 0xAB (kmi_queue_response 0xFA k))
     else if byte = 0xF3 then kmi_queue_response 0xFA (k\<lparr>kmi_pending_command := SetTypematic\<rparr>)
     else if byte = 0xF4 then kmi_queue_response 0xFA (k\<lparr>kmi_scanning_enabled := True\<rparr>)
     else if byte = 0xF5 then
       kmi_queue_response 0xFA ((kmi_reset_defaults k)\<lparr>kmi_scanning_enabled := False\<rparr>)
     else if byte = 0xF6 then kmi_queue_response 0xFA (kmi_reset_defaults k)
     else if byte = 0xF8 \<or> byte = 0xFA \<or> byte = 0xEA \<or> byte = 0xE8 then
       kmi_queue_response 0xFA
         (k\<lparr>kmi_pending_command := (if byte = 0xEA \<or> byte = 0xE8 then SetAllLeds else No_Command)\<rparr>)
     else if byte = 0xFE then
       kmi_queue_response (if kmi_last_tx_byte k = 0 then 0xFE else kmi_last_tx_byte k) k
     else if byte = 0xFF then
       kmi_queue_response 0xAA (kmi_queue_response 0xFA (kmi_reset_defaults k))
     else kmi_queue_response 0xFA k)"

definition kmi_process_host_byte :: "u8 \<Rightarrow> kmi \<Rightarrow> kmi" where
  "kmi_process_host_byte byte k =
    (if \<not> kmi_enabled k then k
     else case kmi_pending_command k of
       SetLeds \<Rightarrow> kmi_queue_response 0xFA (k\<lparr>kmi_pending_command := No_Command\<rparr>)
     | SetTypematic \<Rightarrow> kmi_queue_response 0xFA (k\<lparr>kmi_pending_command := No_Command\<rparr>)
     | SetAllLeds \<Rightarrow> kmi_queue_response 0xFA (k\<lparr>kmi_pending_command := No_Command\<rparr>)
     | SetScanSet \<Rightarrow>
         let k = kmi_queue_response 0xFA (k\<lparr>kmi_pending_command := No_Command\<rparr>) in
         if byte = 0 then kmi_queue_response (kmi_scan_set k) k
         else if 1 \<le> byte \<and> byte \<le> 3 then k\<lparr>kmi_scan_set := byte\<rparr>
         else k
     | _ \<Rightarrow> kmi_process_command byte k)"

definition kmi_size_ok :: "usize \<Rightarrow> bool" where
  "kmi_size_ok sz \<longleftrightarrow> sz = 1 \<or> sz = 2 \<or> sz = 4 \<or> sz = 8"

definition kmi_read_data :: "kmi \<Rightarrow> u64 \<times> kmi" where
  "kmi_read_data k =
    (case kmi_rx_fifo k of
       [] \<Rightarrow> (0, k)
     | byte # rest \<Rightarrow> (ucast byte, kmi_update_irq_state (k\<lparr>kmi_rx_fifo := rest\<rparr>)))"

definition kmi_read :: "u64 \<Rightarrow> usize \<Rightarrow> kmi \<Rightarrow> u64 \<times> kmi" where
  "kmi_read offset sz k =
    (if \<not> kmi_size_ok sz then (0, k)
     else if offset = 0x00 then (ucast (kmi_cr k), k)
     else if offset = 0x04 then (if kmi_rx_fifo k \<noteq> [] then 0x53 else 0x43, k)
     else if offset = 0x08 then kmi_read_data k
     else if offset = 0x0c then (ucast (kmi_clkdiv k), k)
     else if offset = 0x10 then
       ((if kmi_cr k AND 0x8 \<noteq> 0 then 0x2 else 0) OR (if kmi_irq_pending k then 0x1 else 0), k)
     else if offset = 0xFE0 then (0x50, k)
     else if offset = 0xFE4 then (0x10, k)
     else if offset = 0xFE8 then (0x04, k)
     else if offset = 0xFEC then (0x00, k)
     else if offset = 0xFF0 then (0x0D, k)
     else if offset = 0xFF4 then (0xF0, k)
     else if offset = 0xFF8 then (0x05, k)
     else if offset = 0xFFC then (0xB1, k)
     else (0, k))"

definition kmi_write :: "u64 \<Rightarrow> u64 \<Rightarrow> usize \<Rightarrow> kmi \<Rightarrow> kmi" where
  "kmi_write offset v sz k =
    (if \<not> kmi_size_ok sz then k
     else
       let byte = ucast (v AND 0xFF) :: u8 in
       if offset = 0x00 then kmi_update_irq_state (k\<lparr>kmi_cr := byte\<rparr>)
       else if offset = 0x08 then kmi_process_host_byte byte (k\<lparr>kmi_last_tx_byte := byte\<rparr>)
       else if offset = 0x0c then k\<lparr>kmi_clkdiv := byte AND 0x0F\<rparr>
       else k)"

definition kmi_inject_rx :: "u8 \<Rightarrow> kmi \<Rightarrow> kmi" where
  "kmi_inject_rx byte k =
    (if \<not> kmi_scanning_enabled k then k
     else kmi_update_irq_state
       (if length (kmi_rx_fifo k) < 1024 then k\<lparr>kmi_rx_fifo := kmi_rx_fifo k @ [byte]\<rparr> else k))"

definition kmi_reset :: "kmi \<Rightarrow> kmi" where
  "kmi_reset k = kmi_reset_defaults
    (k\<lparr>kmi_rx_fifo := [], kmi_cr := 0, kmi_clkdiv := 0, kmi_last_tx_byte := 0\<rparr>)"

definition kmi_save_state :: "kmi \<Rightarrow> writer" where
  "kmi_save_state k = write_seq
    [write_vector (kmi_rx_fifo k), snap_write (kmi_cr k), snap_write (kmi_clkdiv k),
     snap_write (kmi_last_tx_byte k), snap_write (kmi_scan_set k),
     write_bool (kmi_scanning_enabled k), snap_write (pending_code (kmi_pending_command k))]"

definition kmi_load_state :: "kmi reader" where
  "kmi_load_state = read_local read_vector [] (\<lambda>fifo. read_seq
    [read_check (\<lambda>_. length fifo \<le> 1024),
     read_into snap_read kmi_cr kmi_cr_update,
     read_into snap_read kmi_clkdiv kmi_clkdiv_update,
     read_into snap_read kmi_last_tx_byte kmi_last_tx_byte_update,
     read_into snap_read kmi_scan_set kmi_scan_set_update,
     read_into read_bool kmi_scanning_enabled kmi_scanning_enabled_update,
     read_local snap_read 0 (\<lambda>pending. read_finish (\<lambda>k. kmi_update_irq_state
       (k\<lparr>kmi_rx_fifo := fifo, kmi_pending_command := pending_of_code pending\<rparr>)))])"

section \<open>Lemmas\<close>

definition kmi_wf :: "kmi \<Rightarrow> bool" where
  "kmi_wf k \<longleftrightarrow> length (kmi_rx_fifo k) \<le> 1024 \<and> (\<not> kmi_enabled k \<longrightarrow> kmi_rx_fifo k = []) \<and>
    kmi_scan_set k \<in> {1, 2, 3} \<and> (\<forall>c. kmi_pending_command k \<noteq> Raw_Command c)"

lemma kmi_enabled_update [simp]:
  "kmi_enabled (k\<lparr>kmi_rx_fifo := f\<rparr>) = kmi_enabled k"
  "kmi_enabled (k\<lparr>kmi_pending_command := p\<rparr>) = kmi_enabled k"
  "kmi_enabled (k\<lparr>kmi_last_tx_byte := b\<rparr>) = kmi_enabled k"
  "kmi_enabled (k\<lparr>kmi_scan_set := b\<rparr>) = kmi_enabled k"
  "kmi_enabled (k\<lparr>kmi_scanning_enabled := s\<rparr>) = kmi_enabled k"
  "kmi_enabled (k\<lparr>kmi_clkdiv := b\<rparr>) = kmi_enabled k"
  "kmi_enabled (k\<lparr>kmi_notified := n\<rparr>) = kmi_enabled k"
  "kmi_enabled (kmi_reset_defaults k) = kmi_enabled k"
  by (simp_all add: kmi_enabled_def kmi_reset_defaults_def)

lemma kmi_update_fields [simp]:
  "kmi_rx_fifo (kmi_update_irq_state k) = (if kmi_enabled k then kmi_rx_fifo k else [])"
  "kmi_cr (kmi_update_irq_state k) = kmi_cr k"
  "kmi_scan_set (kmi_update_irq_state k) = kmi_scan_set k"
  "kmi_scanning_enabled (kmi_update_irq_state k) = kmi_scanning_enabled k"
  "kmi_pending_command (kmi_update_irq_state k) = kmi_pending_command k"
  "kmi_last_tx_byte (kmi_update_irq_state k) = kmi_last_tx_byte k"
  "kmi_enabled (kmi_update_irq_state k) = kmi_enabled k"
  by (simp_all add: kmi_update_irq_state_def kmi_enabled_def Let_def)

lemma kmi_queue_fields [simp]:
  "kmi_rx_fifo (kmi_queue_response b k) =
    (if \<not> kmi_enabled k then [] else if length (kmi_rx_fifo k) < 1024 then kmi_rx_fifo k @ [b] else kmi_rx_fifo k)"
  "kmi_cr (kmi_queue_response b k) = kmi_cr k"
  "kmi_scan_set (kmi_queue_response b k) = kmi_scan_set k"
  "kmi_scanning_enabled (kmi_queue_response b k) = kmi_scanning_enabled k"
  "kmi_pending_command (kmi_queue_response b k) = kmi_pending_command k"
  "kmi_last_tx_byte (kmi_queue_response b k) = kmi_last_tx_byte k"
  "kmi_enabled (kmi_queue_response b k) = kmi_enabled k"
  by (simp_all add: kmi_queue_response_def)

lemma kmi_wf_queue: "kmi_wf k \<Longrightarrow> kmi_wf (kmi_queue_response b k)"
  by (simp add: kmi_wf_def)

lemma kmi_wf_pending: "kmi_wf k \<Longrightarrow> (\<forall>c. p \<noteq> Raw_Command c) \<Longrightarrow> kmi_wf (k\<lparr>kmi_pending_command := p\<rparr>)"
  by (simp add: kmi_wf_def)

lemma kmi_wf_scanning: "kmi_wf k \<Longrightarrow> kmi_wf (k\<lparr>kmi_scanning_enabled := b\<rparr>)"
  by (simp add: kmi_wf_def)

lemma kmi_wf_defaults: "kmi_wf k \<Longrightarrow> kmi_wf (kmi_reset_defaults k)"
  by (simp add: kmi_wf_def kmi_reset_defaults_def kmi_enabled_def)

lemma kmi_wf_scan_set: "kmi_wf k \<Longrightarrow> b \<in> {1, 2, 3} \<Longrightarrow> kmi_wf (k\<lparr>kmi_scan_set := b\<rparr>)"
  by (simp add: kmi_wf_def)

lemmas kmi_wf_rules = kmi_wf_queue kmi_wf_pending kmi_wf_scanning kmi_wf_defaults

lemma kmi_wf_command: "kmi_wf k \<Longrightarrow> kmi_wf (kmi_process_command b k)"
  by (simp add: kmi_process_command_def kmi_wf_rules)

lemma scan_set_range: "(1 :: u8) \<le> b \<Longrightarrow> b \<le> 3 \<Longrightarrow> b \<in> {1, 2, 3}"
proof -
  assume "1 \<le> b" "b \<le> 3"
  then have "1 \<le> unat b" "unat b \<le> 3" by (simp_all add: word_le_nat_alt)
  then have "unat b = 1 \<or> unat b = 2 \<or> unat b = 3" by auto
  then show ?thesis by (auto simp: word_unat_eq_iff)
qed

lemma kmi_wf_host_byte: "kmi_wf k \<Longrightarrow> kmi_wf (kmi_process_host_byte b k)"
  by (auto simp: kmi_process_host_byte_def Let_def
      intro!: kmi_wf_rules kmi_wf_command kmi_wf_scan_set dest: scan_set_range split: pending_command.split)

lemma kmi_wf_update: "kmi_wf k \<Longrightarrow> kmi_wf (kmi_update_irq_state k)"
  by (simp add: kmi_wf_def)

lemma kmi_wf_read: "kmi_wf k \<Longrightarrow> kmi_wf (snd (kmi_read offset sz k))"
  by (auto simp: kmi_read_def kmi_read_data_def kmi_wf_def split: list.splits)

lemma kmi_wf_write: "kmi_wf k \<Longrightarrow> kmi_wf (kmi_write offset v sz k)"
proof -
  assume k: "kmi_wf k"
  have "kmi_wf (kmi_process_host_byte b (k\<lparr>kmi_last_tx_byte := b\<rparr>))" for b
    by (rule kmi_wf_host_byte) (use k in \<open>simp add: kmi_wf_def\<close>)
  moreover have "kmi_wf (kmi_update_irq_state (k\<lparr>kmi_cr := b\<rparr>))" for b
    using k by (auto simp: kmi_wf_def)
  ultimately show ?thesis
    using k by (simp add: kmi_write_def Let_def) (simp add: kmi_wf_def)
qed

lemma kmi_wf_inject: "kmi_wf k \<Longrightarrow> kmi_wf (kmi_inject_rx b k)"
  by (auto simp: kmi_inject_rx_def kmi_wf_def)

lemma kmi_wf_reset: "kmi_wf (kmi_reset k)"
  by (simp add: kmi_reset_def kmi_reset_defaults_def kmi_wf_def)

lemma kmi_wf_init: "kmi_wf (kmi_init\<lparr>kmi_observer := obs\<rparr>)"
  by (simp add: kmi_init_def kmi_wf_def)

section \<open>The receive queue\<close>

interpretation kmi_rx: bounded_fifo kmi_rx_fifo 1024
    "\<lambda>k. kmi_enabled k \<and> kmi_scanning_enabled k" kmi_inject_rx "kmi_read 0x08 1"
  by unfold_locales
    (auto simp: kmi_inject_rx_def kmi_read_def kmi_read_data_def kmi_size_ok_def split: list.splits)

section \<open>Snapshot round trip\<close>

definition kmi_enc :: "kmi \<Rightarrow> u8 list" where
  "kmi_enc k = concat
    [enc_vector (kmi_rx_fifo k), le_bytes 1 (kmi_cr k), le_bytes 1 (kmi_clkdiv k),
     le_bytes 1 (kmi_last_tx_byte k), le_bytes 1 (kmi_scan_set k),
     enc_bool (kmi_scanning_enabled k), le_bytes 1 (pending_code (kmi_pending_command k))]"

lemma emits_kmi_save: "emits (kmi_save_state k) (kmi_enc k)"
  unfolding kmi_save_state_def kmi_enc_def
  by (rule emits_write_seq) (simp add: snapshot_emits del: One_nat_def)

lemma pending_of_pending_code: "\<forall>c. p \<noteq> Raw_Command c \<Longrightarrow> pending_of_code (pending_code p) = p"
  by (cases p) (auto simp: pending_of_code_def)

definition kmi_restore :: "kmi \<Rightarrow> kmi \<Rightarrow> kmi" where
  "kmi_restore k k0 =
    kmi_update_irq_state (k\<lparr>kmi_observer := kmi_observer k0, kmi_notified := kmi_notified k0\<rparr>)"

lemma absorbs_kmi_load:
  assumes wf: "kmi_wf k"
  shows "absorbs kmi_load_state (kmi_enc k) k0 (kmi_restore k k0)"
proof -
  have l: "length (kmi_rx_fifo k) \<le> 1024" and v: "vector_ok (kmi_rx_fifo k)"
    and p: "pending_of_code (pending_code (kmi_pending_command k)) = kmi_pending_command k"
    using wf by (simp_all add: kmi_wf_def vector_ok_def pending_of_pending_code)
  have "absorbs kmi_load_state (enc_vector (kmi_rx_fifo k) @ [] @ concat
    [le_bytes 1 (kmi_cr k), le_bytes 1 (kmi_clkdiv k),
     le_bytes 1 (kmi_last_tx_byte k), le_bytes 1 (kmi_scan_set k),
     enc_bool (kmi_scanning_enabled k), le_bytes 1 (pending_code (kmi_pending_command k)) @ []])
    k0 (kmi_restore k k0)"
    unfolding kmi_load_state_def concat.simps
    by ((rule absorbs_steps v l)+)
      (auto simp: kmi_restore_def p intro!: arg_cong [where f = kmi_update_irq_state] kmi.equality)
  then show ?thesis by (simp add: kmi_enc_def)
qed

interpretation kmi_snapshot: snapshot_component kmi_save_state kmi_load_state kmi_enc
    kmi_wf "\<lambda>_ _. True" kmi_restore
  by unfold_locales (rule emits_kmi_save, rule absorbs_kmi_load)

section \<open>Reachable states\<close>

inductive kmi_reachable :: "kmi \<Rightarrow> bool" where
  kmi_start: "kmi_reachable (kmi_init\<lparr>kmi_observer := obs\<rparr>)"
| kmi_guest_read: "kmi_reachable k \<Longrightarrow> kmi_reachable (snd (kmi_read offset sz k))"
| kmi_guest_write: "kmi_reachable k \<Longrightarrow> kmi_reachable (kmi_write offset v sz k)"
| kmi_key: "kmi_reachable k \<Longrightarrow> kmi_reachable (kmi_inject_rx b k)"
| kmi_power: "kmi_reachable k \<Longrightarrow> kmi_reachable (kmi_reset k)"
| kmi_snapshot: "kmi_reachable k \<Longrightarrow> kmi_reachable k0 \<Longrightarrow>
    kmi_load_state \<lparr>ib = kmi_enc k @ rest, igood = True\<rparr> k0 = (ok, k1, s) \<Longrightarrow> kmi_reachable k1"

lemma kmi_reachable_wf: "kmi_reachable k \<Longrightarrow> kmi_wf k"
proof (induction rule: kmi_reachable.induct)
  case (kmi_snapshot k k0 rest ok k1 s)
  then have "k1 = kmi_restore k k0"
    using absorbsD [OF absorbs_kmi_load [OF kmi_snapshot(4)], of rest k0] by simp
  then show ?case using kmi_snapshot(4) by (auto simp: kmi_restore_def kmi_wf_def kmi_enabled_def)
qed (simp_all add: kmi_wf_read kmi_wf_write kmi_wf_inject kmi_wf_reset kmi_wf_init)

section \<open>Properties\<close>

text \<open>
  The keyboard answers every byte the guest sends it. In every reachable state with the
  interface enabled and room for three bytes, a byte written to the data register is answered by
  one to three bytes appended to the queue, the first an acknowledge, echo or resend code; the
  keyboard waits for an argument afterwards exactly when the byte was one of the commands that
  take one and not itself an argument.
\<close>
theorem kmi_answers_host_byte:
  assumes "kmi_reachable k" "kmi_enabled k" "kmi_size_ok sz" "length (kmi_rx_fifo k) \<le> 1021"
  shows "\<exists>resp. kmi_rx_fifo (kmi_write 0x08 v sz k) = kmi_rx_fifo k @ resp \<and>
      resp \<noteq> [] \<and> length resp \<le> 3 \<and> hd resp \<in> {0xFA, 0xEE, 0xFE} \<and>
      (kmi_pending_command (kmi_write 0x08 v sz k) \<noteq> No_Command \<longleftrightarrow>
        kmi_pending_command k = No_Command \<and> ucast (v AND 0xFF) \<in> {0xED, 0xF0, 0xF3, 0xEA, 0xE8 :: u8})"
proof -
  have wf: "kmi_wf k" using kmi_reachable_wf [OF assms(1)] .
  let ?b = "ucast (v AND 0xFF) :: u8"
  let ?k = "k\<lparr>kmi_last_tx_byte := ?b\<rparr>"
  have w: "kmi_write 0x08 v sz k = kmi_process_host_byte ?b ?k"
    using assms(3) by (simp add: kmi_write_def Let_def)
  show ?thesis
  proof (cases "kmi_pending_command k")
    case No_Command
    then show ?thesis
      unfolding w using assms(2,4)
      by (auto simp: kmi_process_host_byte_def kmi_process_command_def kmi_reset_defaults_def)
  next
    case SetScanSet
    then show ?thesis
      unfolding w using assms(2,4) by (auto simp: kmi_process_host_byte_def Let_def)
  next
    case (Raw_Command c)
    then show ?thesis using wf by (simp add: kmi_wf_def)
  qed (unfold w, insert assms(2,4), simp_all add: kmi_process_host_byte_def)
qed

theorem kmi_answers_host_byte_witness:
  "\<exists>resp. kmi_rx_fifo (kmi_write 0x08 0xF2 4 (kmi_write 0 0x14 4 (kmi_init\<lparr>kmi_observer := False\<rparr>))) = resp \<and>
    hd resp \<in> {0xFA, 0xEE, 0xFE} \<and> resp \<noteq> []"
proof -
  let ?k = "kmi_write 0 0x14 4 (kmi_init\<lparr>kmi_observer := False\<rparr>)"
  have r: "kmi_reachable ?k" by (intro kmi_guest_write kmi_start)
  have "kmi_enabled ?k" "kmi_size_ok 4" "kmi_rx_fifo ?k = []"
    by (simp_all add: kmi_write_def kmi_size_ok_def Let_def) (simp_all add: kmi_enabled_def kmi_init_def)
  then show ?thesis using kmi_answers_host_byte [OF r, of 4 "0xF2"] by auto
qed

text \<open>
  A resend request never repeats what the keyboard sent last: the register write has just
  stored the request code as the last byte, so the keyboard answers every resend request with
  the request code itself.
\<close>
theorem kmi_resend_echoes_request:
  assumes "kmi_enabled k" "kmi_pending_command k = No_Command" "kmi_size_ok sz"
    "length (kmi_rx_fifo k) < 1024"
  shows "kmi_rx_fifo (kmi_write 0x08 0xFE sz k) = kmi_rx_fifo k @ [0xFE]"
  using assms
  by (simp add: kmi_write_def kmi_process_host_byte_def kmi_process_command_def)

theorem kmi_resend_echoes_request_witness:
  "kmi_rx_fifo (kmi_write 0x08 0xFE 4 (kmi_init\<lparr>kmi_cr := 4, kmi_rx_fifo := [0xAA]\<rparr>)) = [0xAA, 0xFE]"
  using kmi_resend_echoes_request [of "kmi_init\<lparr>kmi_cr := 4, kmi_rx_fifo := [0xAA]\<rparr>" 4]
  by (simp add: kmi_enabled_def kmi_init_def kmi_size_ok_def)

end
