(* ===== verification/Gic_V3.thy ===== *)
theory Gic_V3
  imports Snapshot_Io
begin

text \<open>
  Model of \<open>src/src/gicv3.cpp\<close>: the distributor and the redistributors of the GICv3 interrupt
  controller, the selection of the highest priority pending interrupt with its query cache, and
  the acknowledge and end-of-interrupt operations the CPU interfaces call. Interrupt ids and CPU
  indices are natural numbers: no arithmetic the code does on them wraps. Fixed-size arrays are
  lists whose lengths \<open>gic_wf\<close> states. The trace on \<open>stderr\<close> is left out.
\<close>

section \<open>State\<close>

record gic_local =
  gl_pending :: "bool list"
  gl_enabled :: "bool list"
  gl_active :: "bool list"
  gl_line_level :: "bool list"
  gl_priorities :: "u8 list"
  gl_waker :: u32
  gl_igroupr0 :: u32
  gl_icfgr0 :: u32
  gl_icfgr1 :: u32
  gl_mpidr :: u64

record pending_cache =
  pc_valid :: bool
  pc_value :: bool
  pc_pmr :: u8
  pc_epoch :: u64

record gic =
  gic_cpu_count :: nat
  gic_locals :: "gic_local list"
  gic_spi_pending :: "bool list"
  gic_spi_enabled :: "bool list"
  gic_spi_active :: "bool list"
  gic_spi_line_level :: "bool list"
  gic_spi_priorities :: "u8 list"
  gic_cache :: "pending_cache list"
  gic_ctlr :: u32
  gic_epoch :: u64
  gic_has_pending_calls :: u64
  gic_acknowledge_calls :: u64
  gic_set_level_calls :: u64

definition kNumIntIds :: nat where "kNumIntIds = 1024"
definition kLocalIntIds :: nat where "kLocalIntIds = 32"
definition kFirstSpiIntId :: nat where "kFirstSpiIntId = 32"
definition kNumSpiIntIds :: nat where "kNumSpiIntIds = kNumIntIds - kFirstSpiIntId"
definition kDefaultPriority :: u8 where "kDefaultPriority = 0xC0"
definition kDistSize :: u64 where "kDistSize = 0x10000"
definition kRedistBase :: u64 where "kRedistBase = 0x0A0000"
definition kRedistFrameSize :: u64 where "kRedistFrameSize = 0x20000"

lemmas gic_constants =
  kNumIntIds_def kLocalIntIds_def kFirstSpiIntId_def kNumSpiIntIds_def

text \<open>\<open>LocalCpuState{}\<close> and \<open>PendingQueryCache{}\<close>.\<close>
definition new_local :: gic_local where
  "new_local = \<lparr>gl_pending = replicate kLocalIntIds False, gl_enabled = replicate kLocalIntIds False,
    gl_active = replicate kLocalIntIds False, gl_line_level = replicate kLocalIntIds False,
    gl_priorities = replicate kLocalIntIds 0, gl_waker = 0, gl_igroupr0 = 0xFFFFFFFF,
    gl_icfgr0 = 0xAAAAAAAA, gl_icfgr1 = 0, gl_mpidr = 0\<rparr>"

definition new_cache :: pending_cache where
  "new_cache = \<lparr>pc_valid = False, pc_value = False, pc_pmr = 0xFF, pc_epoch = 0\<rparr>"

definition set_cpu_count :: "nat \<Rightarrow> gic \<Rightarrow> gic" where
  "set_cpu_count n g =
    (let count = max 1 n in
     g\<lparr>gic_cpu_count := count,
       gic_locals := replicate count (new_local\<lparr>gl_priorities := replicate kLocalIntIds kDefaultPriority\<rparr>),
       gic_cache := replicate count new_cache,
       gic_epoch := gic_epoch g + 1\<rparr>)"

definition gic_new :: gic where
  "gic_new = (set_cpu_count 1
    \<lparr>gic_cpu_count = 1, gic_locals = [new_local],
     gic_spi_pending = replicate kNumSpiIntIds False, gic_spi_enabled = replicate kNumSpiIntIds False,
     gic_spi_active = replicate kNumSpiIntIds False, gic_spi_line_level = replicate kNumSpiIntIds False,
     gic_spi_priorities = replicate kNumSpiIntIds 0, gic_cache = [new_cache], gic_ctlr = 0,
     gic_epoch = 1, gic_has_pending_calls = 0, gic_acknowledge_calls = 0, gic_set_level_calls = 0\<rparr>)
    \<lparr>gic_spi_priorities := replicate kNumSpiIntIds kDefaultPriority\<rparr>"

section \<open>Access to the state\<close>

definition local_index :: "nat \<Rightarrow> gic \<Rightarrow> nat" where
  "local_index cpu g = min cpu (length (gic_locals g) - 1)"

definition local_cpu :: "nat \<Rightarrow> gic \<Rightarrow> gic_local" where
  "local_cpu cpu g = gic_locals g ! local_index cpu g"

definition update_local :: "nat \<Rightarrow> (gic_local \<Rightarrow> gic_local) \<Rightarrow> gic \<Rightarrow> gic" where
  "update_local cpu f g =
    g\<lparr>gic_locals := (gic_locals g)[local_index cpu g := f (local_cpu cpu g)]\<rparr>"

definition bump_epoch :: "gic \<Rightarrow> gic" where
  "bump_epoch g = g\<lparr>gic_epoch := gic_epoch g + 1\<rparr>"

definition is_local_intid :: "nat \<Rightarrow> bool" where
  "is_local_intid intid \<longleftrightarrow> intid < kLocalIntIds"

definition spi_index :: "nat \<Rightarrow> nat" where
  "spi_index intid = intid - kFirstSpiIntId"

definition set_cpu_affinity :: "nat \<Rightarrow> u64 \<Rightarrow> gic \<Rightarrow> gic" where
  "set_cpu_affinity cpu mpidr g = update_local cpu (\<lambda>l. l\<lparr>gl_mpidr := mpidr\<rparr>) g"

definition set_local_pending_bit :: "nat \<Rightarrow> nat \<Rightarrow> bool \<Rightarrow> gic \<Rightarrow> gic" where
  "set_local_pending_bit cpu intid v g =
    (if intid \<ge> kLocalIntIds \<or> gl_pending (local_cpu cpu g) ! intid = v then g
     else bump_epoch (update_local cpu (\<lambda>l. l\<lparr>gl_pending := (gl_pending l)[intid := v]\<rparr>) g))"

definition set_local_enabled_bit :: "nat \<Rightarrow> nat \<Rightarrow> bool \<Rightarrow> gic \<Rightarrow> gic" where
  "set_local_enabled_bit cpu intid v g =
    (if intid \<ge> kLocalIntIds \<or> gl_enabled (local_cpu cpu g) ! intid = v then g
     else bump_epoch (update_local cpu (\<lambda>l. l\<lparr>gl_enabled := (gl_enabled l)[intid := v]\<rparr>) g))"

definition set_local_active_bit :: "nat \<Rightarrow> nat \<Rightarrow> bool \<Rightarrow> gic \<Rightarrow> gic" where
  "set_local_active_bit cpu intid v g =
    (if intid \<ge> kLocalIntIds \<or> gl_active (local_cpu cpu g) ! intid = v then g
     else bump_epoch (update_local cpu (\<lambda>l. l\<lparr>gl_active := (gl_active l)[intid := v]\<rparr>) g))"

definition is_spi_intid :: "nat \<Rightarrow> bool" where
  "is_spi_intid intid \<longleftrightarrow> \<not> (intid < kFirstSpiIntId \<or> intid \<ge> kNumIntIds)"

definition set_spi_pending_bit :: "nat \<Rightarrow> bool \<Rightarrow> gic \<Rightarrow> gic" where
  "set_spi_pending_bit intid v g =
    (if \<not> is_spi_intid intid \<or> gic_spi_pending g ! spi_index intid = v then g
     else bump_epoch (g\<lparr>gic_spi_pending := (gic_spi_pending g)[spi_index intid := v]\<rparr>))"

definition set_spi_enabled_bit :: "nat \<Rightarrow> bool \<Rightarrow> gic \<Rightarrow> gic" where
  "set_spi_enabled_bit intid v g =
    (if \<not> is_spi_intid intid \<or> gic_spi_enabled g ! spi_index intid = v then g
     else bump_epoch (g\<lparr>gic_spi_enabled := (gic_spi_enabled g)[spi_index intid := v]\<rparr>))"

definition set_spi_active_bit :: "nat \<Rightarrow> bool \<Rightarrow> gic \<Rightarrow> gic" where
  "set_spi_active_bit intid v g =
    (if \<not> is_spi_intid intid \<or> gic_spi_active g ! spi_index intid = v then g
     else bump_epoch (g\<lparr>gic_spi_active := (gic_spi_active g)[spi_index intid := v]\<rparr>))"

section \<open>Interrupt sources\<close>

text \<open>The two overloads of \<open>set_pending\<close>, without and with a CPU index.\<close>
definition set_pending_on :: "nat \<Rightarrow> nat \<Rightarrow> gic \<Rightarrow> gic" where
  "set_pending_on cpu intid g =
    (if is_local_intid intid then set_local_pending_bit cpu intid True g
     else set_spi_pending_bit intid True g)"

definition set_pending :: "nat \<Rightarrow> gic \<Rightarrow> gic" where
  "set_pending intid g =
    (if is_local_intid intid then set_pending_on 0 intid g else set_spi_pending_bit intid True g)"

definition count_set_level :: "gic \<Rightarrow> gic" where
  "count_set_level g = g\<lparr>gic_set_level_calls := gic_set_level_calls g + 1\<rparr>"

text \<open>The body of \<open>set_level\<close> for an interrupt of one CPU and for a shared one.\<close>
definition set_local_level :: "nat \<Rightarrow> nat \<Rightarrow> bool \<Rightarrow> gic \<Rightarrow> gic" where
  "set_local_level cpu intid asserted g =
    (if gl_line_level (local_cpu cpu g) ! intid = asserted then g
     else
       let g = bump_epoch (update_local cpu (\<lambda>l. l\<lparr>gl_line_level := (gl_line_level l)[intid := asserted]\<rparr>) g)
       in if asserted \<and> \<not> gl_active (local_cpu cpu g) ! intid
          then set_local_pending_bit cpu intid True g else g)"

definition set_spi_level :: "nat \<Rightarrow> bool \<Rightarrow> gic \<Rightarrow> gic" where
  "set_spi_level intid asserted g =
    (if intid \<ge> kNumIntIds \<or> gic_spi_line_level g ! spi_index intid = asserted then g
     else
       let g = bump_epoch (g\<lparr>gic_spi_line_level := (gic_spi_line_level g)[spi_index intid := asserted]\<rparr>)
       in if asserted \<and> \<not> gic_spi_active g ! spi_index intid
          then set_spi_pending_bit intid True g else g)"

definition set_level :: "nat \<Rightarrow> bool \<Rightarrow> gic \<Rightarrow> gic" where
  "set_level intid asserted g =
    (let g = count_set_level g in
     if is_local_intid intid then set_local_level 0 intid asserted (count_set_level g)
     else set_spi_level intid asserted g)"

definition set_level_on :: "nat \<Rightarrow> nat \<Rightarrow> bool \<Rightarrow> gic \<Rightarrow> gic" where
  "set_level_on cpu intid asserted g =
    (let g = count_set_level g in
     if \<not> is_local_intid intid then set_level intid asserted g
     else set_local_level cpu intid asserted g)"

definition match_affinity :: "nat \<Rightarrow> u8 \<Rightarrow> u8 \<Rightarrow> u8 \<Rightarrow> gic \<Rightarrow> bool" where
  "match_affinity cpu aff3 aff2 aff1 g =
    (let mpidr = gl_mpidr (local_cpu cpu g) in
     drop_bit 32 mpidr AND 0xFF = ucast aff3 \<and>
     drop_bit 16 mpidr AND 0xFF = ucast aff2 \<and>
     drop_bit 8 mpidr AND 0xFF = ucast aff1)"

text \<open>One turn of the loop of \<open>send_sgi\<close> over the CPUs.\<close>
definition sgi_to_cpu :: "nat \<Rightarrow> u64 \<Rightarrow> nat \<Rightarrow> gic \<Rightarrow> gic" where
  "sgi_to_cpu source v cpu g =
    (let intid = unat (drop_bit 24 v AND 0xF);
         irm = (drop_bit 40 v AND 1 \<noteq> 0);
         target_list = ucast (v AND 0xFFFF) :: u16;
         aff1 = ucast (drop_bit 16 v AND 0xFF) :: u8;
         aff2 = ucast (drop_bit 32 v AND 0xFF) :: u8;
         aff3 = ucast (drop_bit 48 v AND 0xFF) :: u8 in
     if irm then (if cpu = source then g else set_local_pending_bit cpu intid True g)
     else if \<not> match_affinity cpu aff3 aff2 aff1 g then g
     else
       let aff0 = unat (gl_mpidr (local_cpu cpu g) AND 0xFF) in
       if aff0 < 16 \<and> drop_bit aff0 target_list AND 1 \<noteq> 0
       then set_local_pending_bit cpu intid True g else g)"

definition send_sgi :: "nat \<Rightarrow> u64 \<Rightarrow> gic \<Rightarrow> gic" where
  "send_sgi source v g =
    (if unat (drop_bit 24 v AND 0xF) \<ge> 16 then g
     else fold (sgi_to_cpu source v) [0..<length (gic_locals g)] g)"

section \<open>Highest priority pending interrupt\<close>

definition local_candidate :: "gic \<Rightarrow> nat \<Rightarrow> nat \<Rightarrow> u8 \<Rightarrow> bool" where
  "local_candidate g cpu intid pmr \<longleftrightarrow>
    gl_pending (local_cpu cpu g) ! intid \<and> gl_enabled (local_cpu cpu g) ! intid \<and>
    gl_priorities (local_cpu cpu g) ! intid < pmr"

definition spi_candidate :: "gic \<Rightarrow> nat \<Rightarrow> u8 \<Rightarrow> bool" where
  "spi_candidate g intid pmr \<longleftrightarrow>
    gic_spi_pending g ! spi_index intid \<and> gic_spi_enabled g ! spi_index intid \<and>
    gic_spi_priorities g ! spi_index intid < pmr"

text \<open>The lambda \<open>consider\<close> on its captured variables \<open>found\<close>, \<open>best_prio\<close>, \<open>best_intid\<close>.\<close>
definition consider_irq :: "nat \<Rightarrow> u8 \<Rightarrow> bool \<times> u8 \<times> nat \<Rightarrow> bool \<times> u8 \<times> nat" where
  "consider_irq intid prio best = (case best of (found, best_prio, best_intid) \<Rightarrow>
    if \<not> found \<or> prio < best_prio \<or> (prio = best_prio \<and> intid < best_intid)
    then (True, prio, intid) else best)"

definition highest_pending :: "nat \<Rightarrow> u8 \<Rightarrow> gic \<Rightarrow> bool \<times> nat" where
  "highest_pending cpu pmr g =
    (let idx = local_index cpu g;
         best = (False, 0xFF, 1023);
         best = fold (\<lambda>i b. if local_candidate g idx i pmr
                  then consider_irq i (gl_priorities (local_cpu idx g) ! i) b else b) [0..<kLocalIntIds] best;
         best = fold (\<lambda>i b. if spi_candidate g i pmr
                  then consider_irq i (gic_spi_priorities g ! spi_index i) b else b)
                  [kFirstSpiIntId..<kNumIntIds] best
     in case best of (found, _, best_intid) \<Rightarrow> (found, if found then best_intid else 1023))"

definition has_pending :: "nat \<Rightarrow> u8 \<Rightarrow> gic \<Rightarrow> bool \<times> gic" where
  "has_pending cpu pmr g =
    (let g = g\<lparr>gic_has_pending_calls := gic_has_pending_calls g + 1\<rparr>;
         idx = local_index cpu g;
         c = gic_cache g ! idx in
     if pc_valid c \<and> pc_epoch c = gic_epoch g \<and> pc_pmr c = pmr then (pc_value c, g)
     else
       let p = fst (highest_pending idx pmr g) in
       (p, g\<lparr>gic_cache := (gic_cache g)[idx :=
              \<lparr>pc_valid = True, pc_value = p, pc_pmr = pmr, pc_epoch = gic_epoch g\<rparr>]\<rparr>))"

definition acknowledge :: "nat \<Rightarrow> u8 \<Rightarrow> gic \<Rightarrow> (bool \<times> nat) \<times> gic" where
  "acknowledge cpu pmr g =
    (let g = g\<lparr>gic_acknowledge_calls := gic_acknowledge_calls g + 1\<rparr> in
     case highest_pending cpu pmr g of (found, intid) \<Rightarrow>
       if \<not> found then ((False, 1023), g)
       else if is_local_intid intid then
         ((True, intid), set_local_active_bit cpu intid True (set_local_pending_bit cpu intid False g))
       else
         ((True, intid), set_spi_active_bit intid True (set_spi_pending_bit intid False g)))"

definition eoi :: "nat \<Rightarrow> nat \<Rightarrow> gic \<Rightarrow> gic" where
  "eoi cpu intid g =
    (if is_local_intid intid then
       let g = set_local_active_bit cpu intid False g in
       if gl_line_level (local_cpu cpu g) ! intid then set_local_pending_bit cpu intid True g else g
     else if intid \<ge> kNumIntIds then g
     else
       let g = set_spi_active_bit intid False g in
       if gic_spi_line_level g ! spi_index intid then set_spi_pending_bit intid True g else g)"

definition gic_pending :: "nat \<Rightarrow> gic \<Rightarrow> bool" where
  "gic_pending intid g =
    (if intid < kLocalIntIds then gl_pending (local_cpu 0 g) ! intid
     else if intid \<ge> kNumIntIds then False else gic_spi_pending g ! spi_index intid)"

definition gic_enabled :: "nat \<Rightarrow> gic \<Rightarrow> bool" where
  "gic_enabled intid g =
    (if intid < kLocalIntIds then gl_enabled (local_cpu 0 g) ! intid
     else if intid \<ge> kNumIntIds then False else gic_spi_enabled g ! spi_index intid)"

definition gic_priority :: "nat \<Rightarrow> nat \<Rightarrow> gic \<Rightarrow> u8" where
  "gic_priority cpu intid g =
    (if intid < kLocalIntIds then gl_priorities (local_cpu cpu g) ! intid
     else if intid \<ge> kNumIntIds then kDefaultPriority else gic_spi_priorities g ! spi_index intid)"

section \<open>Register banks\<close>

definition gicr_affinity_value :: "u64 \<Rightarrow> u32" where
  "gicr_affinity_value mpidr =
    push_bit 24 (ucast (drop_bit 32 mpidr AND 0xFF)) OR
    push_bit 16 (ucast (drop_bit 16 mpidr AND 0xFF)) OR
    push_bit 8 (ucast (drop_bit 8 mpidr AND 0xFF)) OR
    ucast (mpidr AND 0xFF)"

definition in_span :: "u64 \<Rightarrow> u64 \<Rightarrow> u64 \<Rightarrow> bool" where
  "in_span base len offset \<longleftrightarrow> offset \<ge> base \<and> offset < base + len"

definition is_write1_bitmap_register :: "u64 \<Rightarrow> bool" where
  "is_write1_bitmap_register offset \<longleftrightarrow>
    in_span 0x100 0x80 offset \<or> in_span 0x180 0x80 offset \<or>
    in_span 0x300 0x80 offset \<or> in_span 0x380 0x80 offset \<or>
    in_span (kRedistBase + 0x10100) 4 offset \<or> in_span (kRedistBase + 0x10180) 4 offset \<or>
    in_span (kRedistBase + 0x10200) 4 offset \<or> in_span (kRedistBase + 0x10280) 4 offset \<or>
    in_span (kRedistBase + 0x10300) 4 offset \<or> in_span (kRedistBase + 0x10380) 4 offset"

definition read_part :: "u32 \<Rightarrow> u64 \<Rightarrow> usize \<Rightarrow> u32" where
  "read_part v offset sz =
    (let shift = unat ((offset AND 0x3) * 8) in
     if sz = 1 then drop_bit shift v AND 0xFF
     else if sz = 2 then drop_bit shift v AND 0xFFFF
     else v)"

text \<open>The word of the bits \<open>f 0\<close> to \<open>f 31\<close>, as the reading loops build it.\<close>
definition bits_value :: "(nat \<Rightarrow> bool) \<Rightarrow> u32" where
  "bits_value f = fold (\<lambda>i v. if f i then v OR push_bit i 1 else v) [0..<32] 0"

definition get_spi_range :: "bool list \<Rightarrow> nat \<Rightarrow> u32" where
  "get_spi_range arr first_intid =
    bits_value (\<lambda>b. is_spi_intid (first_intid + b) \<and> arr ! spi_index (first_intid + b))"

definition get_spi_enable_range :: "nat \<Rightarrow> gic \<Rightarrow> u32" where
  "get_spi_enable_range first_intid g = get_spi_range (gic_spi_enabled g) first_intid"

definition get_spi_active_range :: "nat \<Rightarrow> gic \<Rightarrow> u32" where
  "get_spi_active_range first_intid g = get_spi_range (gic_spi_active g) first_intid"

text \<open>The loops over the set bits of a register write.\<close>
definition for_bits :: "u32 \<Rightarrow> (nat \<Rightarrow> gic \<Rightarrow> gic) \<Rightarrow> gic \<Rightarrow> gic" where
  "for_bits bits f g = fold (\<lambda>b g. if bits AND push_bit b 1 = 0 then g else f b g) [0..<32] g"

definition set_spi_enable_range :: "nat \<Rightarrow> u32 \<Rightarrow> bool \<Rightarrow> gic \<Rightarrow> gic" where
  "set_spi_enable_range first_intid bits enable g = for_bits bits (\<lambda>b g.
    if \<not> is_spi_intid (first_intid + b) then g else set_spi_enabled_bit (first_intid + b) enable g) g"

definition set_spi_active_range :: "nat \<Rightarrow> u32 \<Rightarrow> bool \<Rightarrow> gic \<Rightarrow> gic" where
  "set_spi_active_range first_intid bits v g = for_bits bits (\<lambda>b g.
    if \<not> is_spi_intid (first_intid + b) then g else set_spi_active_bit (first_intid + b) v g) g"

definition get_priority_range :: "nat \<Rightarrow> gic \<Rightarrow> u32" where
  "get_priority_range first_intid g =
    fold (\<lambda>i v.
      let intid = first_intid + i;
          prio = (if intid < kLocalIntIds then gl_priorities (gic_locals g ! 0) ! intid
                  else if intid < kNumIntIds then gic_spi_priorities g ! spi_index intid
                  else kDefaultPriority)
      in v OR push_bit (i * 8) (ucast prio)) [0..<4] 0"

definition set_priority_byte :: "nat \<Rightarrow> u32 \<Rightarrow> nat \<Rightarrow> bool \<Rightarrow> nat \<Rightarrow> gic \<Rightarrow> gic" where
  "set_priority_byte first_intid v cpu is_local i g =
    (let intid = first_intid + i;
         prio = ucast (drop_bit (i * 8) v AND 0xFF) :: u8 in
     if is_local then
       if intid < kLocalIntIds
       then update_local cpu (\<lambda>l. l\<lparr>gl_priorities := (gl_priorities l)[intid := prio]\<rparr>) g else g
     else if intid \<ge> kFirstSpiIntId \<and> intid < kNumIntIds
       then g\<lparr>gic_spi_priorities := (gic_spi_priorities g)[spi_index intid := prio]\<rparr>
     else g)"

definition set_priority_range :: "nat \<Rightarrow> u32 \<Rightarrow> nat \<Rightarrow> nat \<Rightarrow> nat \<Rightarrow> bool \<Rightarrow> gic \<Rightarrow> gic" where
  "set_priority_range first_intid v start_byte count cpu is_local g =
    bump_epoch (fold (set_priority_byte first_intid v cpu is_local) [start_byte..<count] g)"

definition register_index :: "u64 \<Rightarrow> u64 \<Rightarrow> nat" where
  "register_index base offset = unat ((offset - base) div 4)"

definition read_dist_reg32 :: "u64 \<Rightarrow> gic \<Rightarrow> u32" where
  "read_dist_reg32 offset g =
    (if offset = 0x0000 then gic_ctlr g
     else if offset = 0x0004 then 1
     else if offset = 0x0008 then 0x0102043B
     else if in_span 0x100 0x80 offset then
       let n = register_index 0x100 offset in if n = 0 then 0 else get_spi_enable_range (n * 32) g
     else if in_span 0x180 0x80 offset then
       let n = register_index 0x180 offset in if n = 0 then 0 else get_spi_enable_range (n * 32) g
     else if in_span 0x300 0x80 offset then
       let n = register_index 0x300 offset in if n = 0 then 0 else get_spi_active_range (n * 32) g
     else if in_span 0x380 0x80 offset then
       let n = register_index 0x380 offset in if n = 0 then 0 else get_spi_active_range (n * 32) g
     else if in_span 0x400 1024 offset then get_priority_range (unat (offset - 0x400)) g
     else if in_span 0x6000 (8 * 988) offset then 0
     else if offset = 0xFFE8 then 0x30
     else 0)"

definition read_redist_reg32 :: "u64 \<Rightarrow> gic \<Rightarrow> u32" where
  "read_redist_reg32 offset g =
    (if offset < kRedistBase then 0
     else
       let rel = offset - kRedistBase;
           frame = unat (rel div kRedistFrameSize) in
       if frame \<ge> length (gic_locals g) then 0
       else
         let inner = rel mod kRedistFrameSize;
             l = local_cpu frame g in
         if inner = 0x0008 then
           (if frame + 1 = length (gic_locals g) then 0x10 else 0) OR push_bit 8 (of_nat frame)
         else if inner = 0x000C then gicr_affinity_value (gl_mpidr l)
         else if inner = 0x0014 then gl_waker l AND NOT 0x4
         else if inner = 0xFFE8 then 0x30
         else if inner = 0x10080 then gl_igroupr0 l
         else if inner = 0x10100 \<or> inner = 0x10180 then bits_value (\<lambda>i. gl_enabled l ! i)
         else if inner = 0x10200 \<or> inner = 0x10280 then bits_value (\<lambda>i. gl_pending l ! i)
         else if inner = 0x10300 \<or> inner = 0x10380 then bits_value (\<lambda>i. gl_active l ! i)
         else if in_span 0x10400 32 inner then
           let first = unat (inner - 0x10400) in
           fold (\<lambda>i out. if first + i \<ge> kLocalIntIds then out
                  else out OR push_bit (i * 8) (ucast (gl_priorities l ! (first + i)))) [0..<4] 0
         else if inner = 0x10C00 then gl_icfgr0 l
         else if inner = 0x10C04 then gl_icfgr1 l
         else 0)"

definition write_dist_reg32 :: "u64 \<Rightarrow> u32 \<Rightarrow> gic \<Rightarrow> gic" where
  "write_dist_reg32 offset v g =
    (if offset = 0x0000 then g\<lparr>gic_ctlr := v AND 0x13\<rparr>
     else if in_span 0x100 0x80 offset then
       let n = register_index 0x100 offset in if n \<noteq> 0 then set_spi_enable_range (n * 32) v True g else g
     else if in_span 0x180 0x80 offset then
       let n = register_index 0x180 offset in if n \<noteq> 0 then set_spi_enable_range (n * 32) v False g else g
     else if in_span 0x300 0x80 offset then
       let n = register_index 0x300 offset in if n \<noteq> 0 then set_spi_active_range (n * 32) v True g else g
     else if in_span 0x380 0x80 offset then
       let n = register_index 0x380 offset in if n \<noteq> 0 then set_spi_active_range (n * 32) v False g else g
     else if in_span 0x400 1024 offset then
       set_priority_range (unat (offset - 0x400)) v 0 4 0 False g
     else g)"

definition write_redist_reg32 :: "u64 \<Rightarrow> u32 \<Rightarrow> gic \<Rightarrow> gic" where
  "write_redist_reg32 offset v g =
    (if offset < kRedistBase then g
     else
       let rel = offset - kRedistBase;
           frame = unat (rel div kRedistFrameSize) in
       if frame \<ge> length (gic_locals g) then g
       else
         let inner = rel mod kRedistFrameSize in
         if inner = 0x0014 then update_local frame (\<lambda>l. l\<lparr>gl_waker := v AND 0x2\<rparr>) g
         else if inner = 0x10080 then update_local frame (\<lambda>l. l\<lparr>gl_igroupr0 := v\<rparr>) g
         else if inner = 0x10100 then for_bits v (\<lambda>i. set_local_enabled_bit frame i True) g
         else if inner = 0x10180 then for_bits v (\<lambda>i. set_local_enabled_bit frame i False) g
         else if inner = 0x10200 then for_bits v (\<lambda>i. set_local_pending_bit frame i True) g
         else if inner = 0x10280 then for_bits v (\<lambda>i. set_local_pending_bit frame i False) g
         else if inner = 0x10300 then for_bits v (\<lambda>i. set_local_active_bit frame i True) g
         else if inner = 0x10380 then for_bits v (\<lambda>i. set_local_active_bit frame i False) g
         else if in_span 0x10400 32 inner then
           set_priority_range (unat (inner - 0x10400)) v 0 4 frame True g
         else if inner = 0x10C00 then update_local frame (\<lambda>l. l\<lparr>gl_icfgr0 := v\<rparr>) g
         else if inner = 0x10C04 then update_local frame (\<lambda>l. l\<lparr>gl_icfgr1 := v\<rparr>) g
         else g)"

text \<open>The lambdas \<open>read32\<close> and \<open>write32\<close>.\<close>
definition gic_read32 :: "u64 \<Rightarrow> gic \<Rightarrow> u32" where
  "gic_read32 off g =
    (if off < kDistSize then read_dist_reg32 (off AND NOT 0x3) g
     else read_redist_reg32 (off AND NOT 0x3) g)"

definition gic_write32 :: "u64 \<Rightarrow> u32 \<Rightarrow> gic \<Rightarrow> gic" where
  "gic_write32 off v g =
    (if off < kDistSize then write_dist_reg32 off v g else write_redist_reg32 off v g)"

definition gic_size_ok :: "usize \<Rightarrow> bool" where
  "gic_size_ok sz \<longleftrightarrow> sz = 1 \<or> sz = 2 \<or> sz = 4 \<or> sz = 8"

definition gic_read :: "u64 \<Rightarrow> usize \<Rightarrow> gic \<Rightarrow> u64" where
  "gic_read offset sz g =
    (if \<not> gic_size_ok sz then 0
     else
       let value32 = gic_read32 offset g in
       if sz = 8 then ucast value32 OR push_bit 32 (ucast (gic_read32 ((offset AND NOT 0x7) + 4) g))
       else ucast (read_part value32 offset sz))"

definition gic_write :: "u64 \<Rightarrow> u64 \<Rightarrow> usize \<Rightarrow> gic \<Rightarrow> gic" where
  "gic_write offset v sz g =
    (if \<not> gic_size_ok sz then g
     else if sz = 8 then
       gic_write32 ((offset AND NOT 0x7) + 4) (ucast (drop_bit 32 v AND 0xFFFFFFFF))
         (gic_write32 (offset AND NOT 0x7) (ucast (v AND 0xFFFFFFFF)) g)
     else if sz \<noteq> 4 then
       let aligned = offset AND NOT 0x3;
           shift = unat ((offset AND 0x3) * 8);
           m = (if sz = 1 then 0xFF else 0xFFFF) :: u32;
           part = push_bit shift (ucast v AND m) in
       if is_write1_bitmap_register aligned then gic_write32 aligned part g
       else if offset AND 0x3 \<noteq> 0 then
         let cur = (if aligned < kDistSize then read_dist_reg32 aligned g else read_redist_reg32 aligned g)
         in gic_write32 aligned ((cur AND NOT (push_bit shift m)) OR part) g
       else gic_write32 offset (ucast v) g
     else gic_write32 offset (ucast v) g)"

section \<open>Snapshot\<close>

definition save_local :: "gic_local \<Rightarrow> writer" where
  "save_local l = write_seq
    [write_array write_bool (gl_pending l), write_array write_bool (gl_enabled l),
     write_array write_bool (gl_active l), write_array write_bool (gl_line_level l),
     write_array snap_write (gl_priorities l), snap_write (gl_waker l), snap_write (gl_igroupr0 l),
     snap_write (gl_icfgr0 l), snap_write (gl_icfgr1 l), snap_write (gl_mpidr l)]"

definition gic_save_state :: "gic \<Rightarrow> writer" where
  "gic_save_state g = write_seq
    [snap_write (of_nat (length (gic_locals g)) :: u32),
     write_array write_bool (gic_spi_pending g), write_array write_bool (gic_spi_enabled g),
     write_array write_bool (gic_spi_active g), write_array write_bool (gic_spi_line_level g),
     write_array snap_write (gic_spi_priorities g), snap_write (gic_ctlr g),
     write_seq (map save_local (gic_locals g))]"

definition load_local :: "gic_local reader" where
  "load_local = read_seq
    [read_into (read_array read_bool) gl_pending gl_pending_update,
     read_into (read_array read_bool) gl_enabled gl_enabled_update,
     read_into (read_array read_bool) gl_active gl_active_update,
     read_into (read_array read_bool) gl_line_level gl_line_level_update,
     read_into (read_array snap_read) gl_priorities gl_priorities_update,
     read_into snap_read gl_waker gl_waker_update,
     read_into snap_read gl_igroupr0 gl_igroupr0_update,
     read_into snap_read gl_icfgr0 gl_icfgr0_update,
     read_into snap_read gl_icfgr1 gl_icfgr1_update,
     read_into snap_read gl_mpidr gl_mpidr_update]"

text \<open>What \<open>load_state\<close> does before it reads, and after it has read everything.\<close>
definition gic_load_begin :: "gic \<Rightarrow> gic" where
  "gic_load_begin g = set_cpu_count 1
    (g\<lparr>gic_spi_pending := map (\<lambda>_. False) (gic_spi_pending g),
       gic_spi_enabled := map (\<lambda>_. False) (gic_spi_enabled g),
       gic_spi_active := map (\<lambda>_. False) (gic_spi_active g),
       gic_spi_line_level := map (\<lambda>_. False) (gic_spi_line_level g),
       gic_spi_priorities := map (\<lambda>_. kDefaultPriority) (gic_spi_priorities g)\<rparr>)"

definition gic_load_end :: "gic \<Rightarrow> gic" where
  "gic_load_end g = (bump_epoch g)\<lparr>gic_cache := map (\<lambda>_. new_cache) (gic_cache g)\<rparr>"

text \<open>The snapshots of version 5 and later.\<close>
definition gic_load_v5 :: "gic reader" where
  "gic_load_v5 = read_local snap_read (0 :: u32) (\<lambda>count. read_seq
    [read_check (\<lambda>_. count \<noteq> 0),
     read_finish (set_cpu_count (unat count)),
     read_into (read_array read_bool) gic_spi_pending gic_spi_pending_update,
     read_into (read_array read_bool) gic_spi_enabled gic_spi_enabled_update,
     read_into (read_array read_bool) gic_spi_active gic_spi_active_update,
     read_into (read_array read_bool) gic_spi_line_level gic_spi_line_level_update,
     read_into (read_array snap_read) gic_spi_priorities gic_spi_priorities_update,
     read_into snap_read gic_ctlr gic_ctlr_update,
     read_into (read_array load_local) gic_locals gic_locals_update])"

text \<open>The snapshots before version 5: one CPU, all interrupts in arrays of \<open>kNumIntIds\<close>.\<close>
definition gic_from_flat :: "bool list \<Rightarrow> bool list \<Rightarrow> bool list \<Rightarrow> bool list \<Rightarrow> u8 list \<Rightarrow>
    u32 \<Rightarrow> u32 \<Rightarrow> u32 \<Rightarrow> u32 \<Rightarrow> gic \<Rightarrow> gic" where
  "gic_from_flat pend en act lvl pri waker igroupr0 icfgr0 icfgr1 g =
    (let l = local_cpu 0 g;
         l = l\<lparr>gl_pending := take kLocalIntIds pend, gl_enabled := take kLocalIntIds en,
               gl_active := take kLocalIntIds act, gl_line_level := take kLocalIntIds lvl,
               gl_priorities := take kLocalIntIds pri, gl_waker := waker, gl_igroupr0 := igroupr0,
               gl_icfgr0 := icfgr0, gl_icfgr1 := icfgr1\<rparr>
     in g\<lparr>gic_locals := (gic_locals g)[0 := l],
          gic_spi_pending := drop kLocalIntIds pend, gic_spi_enabled := drop kLocalIntIds en,
          gic_spi_active := drop kLocalIntIds act, gic_spi_line_level := drop kLocalIntIds lvl,
          gic_spi_priorities := drop kLocalIntIds pri\<rparr>)"

definition gic_load_flat :: "u32 \<Rightarrow> gic reader" where
  "gic_load_flat version =
    (let bools = replicate kNumIntIds False;
         prios = replicate kNumIntIds kDefaultPriority in
     read_local (read_array read_bool) bools (\<lambda>pend.
     read_local (read_array read_bool) bools (\<lambda>en.
     read_local (if version \<ge> 3 then read_array read_bool else (\<lambda>s v. (True, v, s))) bools (\<lambda>act.
     read_local (if version \<ge> 4 then read_array read_bool else (\<lambda>s v. (True, v, s))) bools (\<lambda>lvl.
     read_local (if version \<ge> 3 then read_array snap_read else (\<lambda>s v. (True, v, s))) prios (\<lambda>pri.
     read_seq
      [read_into snap_read gic_ctlr gic_ctlr_update,
       read_local snap_read 0 (\<lambda>waker.
       read_local (if version \<ge> 3 then snap_read else (\<lambda>s v. (True, v, s))) 0xFFFFFFFF (\<lambda>igroupr0.
       read_local (if version \<ge> 3 then snap_read else (\<lambda>s v. (True, v, s))) 0xAAAAAAAA (\<lambda>icfgr0.
       read_local (if version \<ge> 3 then snap_read else (\<lambda>s v. (True, v, s))) 0 (\<lambda>icfgr1.
       read_finish (gic_from_flat pend en act lvl pri waker igroupr0 icfgr0 icfgr1)))))]))))))"

definition gic_load_state :: "u32 \<Rightarrow> gic reader" where
  "gic_load_state version s g =
    read_seq [read_finish gic_load_begin,
      if version \<ge> 5 then gic_load_v5 else gic_load_flat version,
      read_finish gic_load_end] s g"

end
