(* ===== verification/Gic_Proofs.thy ===== *)
theory Gic_Proofs
  imports Gic_V3
begin

text \<open>
  Lemmas and properties of the interrupt controller of \<open>Gic_V3\<close>: the shape invariant, the
  selection as a minimum over priority keys, the coherence of the query cache over any sequence
  of operations, the life cycle of an interrupt, and the snapshot.
\<close>

section \<open>Shape\<close>

definition local_wf :: "gic_local \<Rightarrow> bool" where
  "local_wf l \<longleftrightarrow> length (gl_pending l) = 32 \<and> length (gl_enabled l) = 32 \<and> length (gl_active l) = 32 \<and>
    length (gl_line_level l) = 32 \<and> length (gl_priorities l) = 32"

definition gic_wf :: "gic \<Rightarrow> bool" where
  "gic_wf g \<longleftrightarrow> gic_locals g \<noteq> [] \<and> list_all local_wf (gic_locals g) \<and>
    length (gic_spi_pending g) = 992 \<and> length (gic_spi_enabled g) = 992 \<and>
    length (gic_spi_active g) = 992 \<and> length (gic_spi_line_level g) = 992 \<and>
    length (gic_spi_priorities g) = 992 \<and> length (gic_cache g) = length (gic_locals g)"

lemma local_index_less: "gic_wf g \<Longrightarrow> local_index c g < length (gic_locals g)"
  by (cases "gic_locals g") (auto simp: gic_wf_def local_index_def)

lemma local_cpu_wf: "gic_wf g \<Longrightarrow> local_wf (local_cpu c g)"
  using local_index_less [of g c] by (simp add: gic_wf_def local_cpu_def list_all_length)

lemma bump_epoch_fields [simp]:
  "gic_locals (bump_epoch g) = gic_locals g" "gic_cache (bump_epoch g) = gic_cache g"
  "gic_spi_pending (bump_epoch g) = gic_spi_pending g" "gic_spi_enabled (bump_epoch g) = gic_spi_enabled g"
  "gic_spi_active (bump_epoch g) = gic_spi_active g" "gic_spi_line_level (bump_epoch g) = gic_spi_line_level g"
  "gic_spi_priorities (bump_epoch g) = gic_spi_priorities g" "gic_epoch (bump_epoch g) = gic_epoch g + 1"
  "gic_ctlr (bump_epoch g) = gic_ctlr g"
  "local_cpu c (bump_epoch g) = local_cpu c g" "local_index c (bump_epoch g) = local_index c g"
  by (simp_all add: bump_epoch_def local_cpu_def local_index_def)

lemma update_local_fields [simp]:
  "length (gic_locals (update_local c f g)) = length (gic_locals g)"
  "gic_cache (update_local c f g) = gic_cache g"
  "gic_spi_pending (update_local c f g) = gic_spi_pending g" "gic_spi_enabled (update_local c f g) = gic_spi_enabled g"
  "gic_spi_active (update_local c f g) = gic_spi_active g" "gic_spi_line_level (update_local c f g) = gic_spi_line_level g"
  "gic_spi_priorities (update_local c f g) = gic_spi_priorities g" "gic_epoch (update_local c f g) = gic_epoch g"
  "gic_ctlr (update_local c f g) = gic_ctlr g"
  "local_index d (update_local c f g) = local_index d g"
  by (simp_all add: update_local_def local_index_def)

lemma local_cpu_update_local:
  "gic_wf g \<Longrightarrow> local_cpu d (update_local c f g) =
    (if local_index d g = local_index c g then f (local_cpu d g) else local_cpu d g)"
  using local_index_less [of g]
  by (auto simp: local_cpu_def update_local_def local_index_def)

lemma spi_field_cpu [simp]:
  "local_cpu c (g\<lparr>gic_spi_pending := p\<rparr>) = local_cpu c g" "local_cpu c (g\<lparr>gic_spi_enabled := p\<rparr>) = local_cpu c g"
  "local_cpu c (g\<lparr>gic_spi_active := p\<rparr>) = local_cpu c g" "local_cpu c (g\<lparr>gic_spi_line_level := p\<rparr>) = local_cpu c g"
  "local_cpu c (g\<lparr>gic_spi_priorities := q\<rparr>) = local_cpu c g" "local_cpu c (g\<lparr>gic_ctlr := w\<rparr>) = local_cpu c g"
  "local_cpu c (g\<lparr>gic_set_level_calls := n\<rparr>) = local_cpu c g"
  "local_cpu c (g\<lparr>gic_has_pending_calls := n\<rparr>) = local_cpu c g"
  "local_cpu c (g\<lparr>gic_acknowledge_calls := n\<rparr>) = local_cpu c g"
  "local_cpu c (g\<lparr>gic_cache := k\<rparr>) = local_cpu c g"
  by (simp_all add: local_cpu_def local_index_def)

lemma spi_field_index [simp]:
  "local_index c (g\<lparr>gic_spi_pending := p\<rparr>) = local_index c g" "local_index c (g\<lparr>gic_spi_enabled := p\<rparr>) = local_index c g"
  "local_index c (g\<lparr>gic_spi_active := p\<rparr>) = local_index c g" "local_index c (g\<lparr>gic_spi_line_level := p\<rparr>) = local_index c g"
  "local_index c (g\<lparr>gic_spi_priorities := q\<rparr>) = local_index c g" "local_index c (g\<lparr>gic_ctlr := w\<rparr>) = local_index c g"
  "local_index c (g\<lparr>gic_set_level_calls := n\<rparr>) = local_index c g"
  "local_index c (g\<lparr>gic_has_pending_calls := n\<rparr>) = local_index c g"
  "local_index c (g\<lparr>gic_acknowledge_calls := n\<rparr>) = local_index c g"
  "local_index c (g\<lparr>gic_cache := k\<rparr>) = local_index c g"
  by (simp_all add: local_index_def)

section \<open>Evolution of the state and its epoch\<close>

text \<open>What the selection of the highest priority interrupt looks at.\<close>
definition same_view :: "gic \<Rightarrow> gic \<Rightarrow> bool" where
  "same_view g g' \<longleftrightarrow> length (gic_locals g') = length (gic_locals g) \<and>
    (\<forall>c. gl_pending (local_cpu c g') = gl_pending (local_cpu c g) \<and>
         gl_enabled (local_cpu c g') = gl_enabled (local_cpu c g) \<and>
         gl_priorities (local_cpu c g') = gl_priorities (local_cpu c g)) \<and>
    gic_spi_pending g' = gic_spi_pending g \<and> gic_spi_enabled g' = gic_spi_enabled g \<and>
    gic_spi_priorities g' = gic_spi_priorities g"

text \<open>An operation that advances the epoch by at most \<open>n\<close>, and by none only if the view is unchanged.\<close>
definition evolves :: "nat \<Rightarrow> gic \<Rightarrow> gic \<Rightarrow> bool" where
  "evolves n g g' \<longleftrightarrow> gic_cache g' = gic_cache g \<and> length (gic_locals g') = length (gic_locals g) \<and>
    (\<exists>k\<le>n. gic_epoch g' = gic_epoch g + of_nat k \<and> (k = 0 \<longrightarrow> same_view g g'))"

lemma same_view_refl [simp]: "same_view g g"
  by (simp add: same_view_def)

lemma same_view_trans: "same_view g g' \<Longrightarrow> same_view g' g'' \<Longrightarrow> same_view g g''"
  by (simp add: same_view_def)

lemma evolves_refl [simp, intro]: "evolves n g g"
  unfolding evolves_def by (auto intro!: exI [of _ 0])

lemma evolves_same: "same_view g g' \<Longrightarrow> gic_cache g' = gic_cache g \<Longrightarrow> gic_epoch g' = gic_epoch g \<Longrightarrow> evolves n g g'"
  unfolding evolves_def by (auto simp: same_view_def intro!: exI [of _ 0])

lemma evolves_bump:
  "gic_cache g' = gic_cache g \<Longrightarrow> length (gic_locals g') = length (gic_locals g) \<Longrightarrow>
   gic_epoch g' = gic_epoch g + 1 \<Longrightarrow> evolves (Suc n) g g'"
  unfolding evolves_def by (auto intro!: exI [of _ 1])

lemma evolves_trans: "evolves n g g' \<Longrightarrow> evolves m g' g'' \<Longrightarrow> evolves (n + m) g g''"
proof -
  assume "evolves n g g'" "evolves m g' g''"
  then obtain k l where "k \<le> n" "l \<le> m" "gic_epoch g' = gic_epoch g + of_nat k"
    "gic_epoch g'' = gic_epoch g' + of_nat l" "k = 0 \<longrightarrow> same_view g g'" "l = 0 \<longrightarrow> same_view g' g''"
    "gic_cache g' = gic_cache g" "gic_cache g'' = gic_cache g'"
    "length (gic_locals g') = length (gic_locals g)" "length (gic_locals g'') = length (gic_locals g')"
    by (auto simp: evolves_def)
  then show ?thesis
    unfolding evolves_def
    by (auto intro!: exI [of _ "k + l"] intro: same_view_trans simp: add.assoc)
qed

lemma evolves_mono: "evolves n g g' \<Longrightarrow> n \<le> m \<Longrightarrow> evolves m g g'"
  unfolding evolves_def by (meson le_trans)

text \<open>An operation that keeps the shape and evolves.\<close>
definition gic_safe :: "nat \<Rightarrow> (gic \<Rightarrow> gic) \<Rightarrow> bool" where
  "gic_safe n f \<longleftrightarrow> (\<forall>g. gic_wf g \<longrightarrow> gic_wf (f g) \<and> evolves n g (f g))"

lemma gic_safeD: "gic_safe n f \<Longrightarrow> gic_wf g \<Longrightarrow> gic_wf (f g) \<and> evolves n g (f g)"
  by (simp add: gic_safe_def)

lemma gic_safe_id [simp]: "gic_safe n (\<lambda>g. g)"
  by (simp add: gic_safe_def)

lemma gic_safe_comp: "gic_safe n f \<Longrightarrow> gic_safe m h \<Longrightarrow> gic_safe (n + m) (\<lambda>g. h (f g))"
  unfolding gic_safe_def using evolves_trans by blast

lemma gic_safe_mono: "gic_safe n f \<Longrightarrow> n \<le> m \<Longrightarrow> gic_safe m f"
  unfolding gic_safe_def using evolves_mono by blast

lemma gic_safe_if: "gic_safe n f \<Longrightarrow> gic_safe n h \<Longrightarrow> gic_safe n (\<lambda>g. if b g then f g else h g)"
  by (simp add: gic_safe_def)

lemma gic_safe_fold:
  "(\<And>x. x \<in> set xs \<Longrightarrow> gic_safe n (f x)) \<Longrightarrow> gic_safe (n * length xs) (fold f xs)"
proof (induction xs)
  case Nil
  then show ?case by (simp add: gic_safe_def)
next
  case (Cons x xs)
  have "gic_safe (n + n * length xs) (\<lambda>g. fold f xs (f x g))"
    by (rule gic_safe_comp) (use Cons in auto)
  then show ?case by (simp add: gic_safe_def comp_def)
qed

lemma local_wf_update_list:
  "local_wf l \<Longrightarrow> local_wf (l\<lparr>gl_pending := (gl_pending l)[i := b]\<rparr>)"
  "local_wf l \<Longrightarrow> local_wf (l\<lparr>gl_enabled := (gl_enabled l)[i := b]\<rparr>)"
  "local_wf l \<Longrightarrow> local_wf (l\<lparr>gl_active := (gl_active l)[i := b]\<rparr>)"
  "local_wf l \<Longrightarrow> local_wf (l\<lparr>gl_line_level := (gl_line_level l)[i := b]\<rparr>)"
  "local_wf l \<Longrightarrow> local_wf (l\<lparr>gl_priorities := (gl_priorities l)[i := q]\<rparr>)"
  "local_wf l \<Longrightarrow> local_wf (l\<lparr>gl_waker := w\<rparr>)" "local_wf l \<Longrightarrow> local_wf (l\<lparr>gl_igroupr0 := w\<rparr>)"
  "local_wf l \<Longrightarrow> local_wf (l\<lparr>gl_icfgr0 := w\<rparr>)" "local_wf l \<Longrightarrow> local_wf (l\<lparr>gl_icfgr1 := w\<rparr>)"
  "local_wf l \<Longrightarrow> local_wf (l\<lparr>gl_mpidr := m\<rparr>)"
  by (simp_all add: local_wf_def)

lemma gic_wf_update_local:
  assumes "gic_wf g" "local_wf (f (local_cpu c g))"
  shows "gic_wf (update_local c f g)"
  using assms local_index_less [OF assms(1), of c]
  by (auto simp: gic_wf_def update_local_def list_all_length nth_list_update)

lemma gic_wf_bump [simp]: "gic_wf (bump_epoch g) = gic_wf g"
  by (simp add: gic_wf_def)

lemma set_local_bits_safe:
  "gic_safe 1 (set_local_pending_bit c i v)" "gic_safe 1 (set_local_enabled_bit c i v)"
  "gic_safe 1 (set_local_active_bit c i v)"
  unfolding gic_safe_def set_local_pending_bit_def set_local_enabled_bit_def set_local_active_bit_def
  by (auto intro!: gic_wf_update_local local_wf_update_list local_cpu_wf evolves_bump [of _ _ 0, simplified])

lemma set_spi_bits_safe:
  "gic_safe 1 (set_spi_pending_bit i v)" "gic_safe 1 (set_spi_enabled_bit i v)"
  "gic_safe 1 (set_spi_active_bit i v)"
  unfolding gic_safe_def set_spi_pending_bit_def set_spi_enabled_bit_def set_spi_active_bit_def
  by (auto intro!: evolves_bump [of _ _ 0, simplified] simp: gic_wf_def)

lemma gic_safe_neutral:
  "(\<And>g. gic_wf g \<Longrightarrow> gic_wf (f g) \<and> same_view g (f g) \<and> gic_cache (f g) = gic_cache g \<and> gic_epoch (f g) = gic_epoch g) \<Longrightarrow>
   gic_safe n f"
  unfolding gic_safe_def using evolves_same by blast

lemma same_view_update_local:
  "gic_wf g \<Longrightarrow> (\<And>l. gl_pending (f l) = gl_pending l \<and> gl_enabled (f l) = gl_enabled l \<and> gl_priorities (f l) = gl_priorities l) \<Longrightarrow>
   same_view g (update_local c f g)"
  by (simp add: same_view_def local_cpu_update_local)

lemma neutral_updates_safe:
  "gic_safe n (update_local c (\<lambda>l. l\<lparr>gl_waker := w\<rparr>))" "gic_safe n (update_local c (\<lambda>l. l\<lparr>gl_igroupr0 := w\<rparr>))"
  "gic_safe n (update_local c (\<lambda>l. l\<lparr>gl_icfgr0 := w\<rparr>))" "gic_safe n (update_local c (\<lambda>l. l\<lparr>gl_icfgr1 := w\<rparr>))"
  "gic_safe n (update_local c (\<lambda>l. l\<lparr>gl_mpidr := m\<rparr>))"
  "gic_safe n count_set_level" "gic_safe n (\<lambda>g. g\<lparr>gic_ctlr := w\<rparr>)"
  "gic_safe n (\<lambda>g. g\<lparr>gic_acknowledge_calls := gic_acknowledge_calls g + 1\<rparr>)"
  by (rule gic_safe_neutral;
      auto intro!: gic_wf_update_local local_wf_update_list local_cpu_wf same_view_update_local;
      simp add: gic_wf_def same_view_def count_set_level_def)+

lemma line_level_safe:
  "gic_safe 1 (\<lambda>g. bump_epoch (update_local c (\<lambda>l. l\<lparr>gl_line_level := (gl_line_level l)[i := v]\<rparr>) g))"
  "gic_safe 1 (\<lambda>g. bump_epoch (g\<lparr>gic_spi_line_level := (gic_spi_line_level g)[j := v]\<rparr>))"
  unfolding gic_safe_def
  by (auto intro!: gic_wf_update_local local_wf_update_list local_cpu_wf evolves_bump [of _ _ 0, simplified]
      simp: gic_wf_bump) (simp add: gic_wf_def)

lemma set_local_level_safe: "gic_safe 2 (set_local_level c i v)"
  unfolding set_local_level_def Let_def
  by (rule gic_safe_if, rule gic_safe_id,
      rule gic_safe_comp [OF line_level_safe(1), where m = 1, simplified one_add_one]
      , rule gic_safe_if, rule set_local_bits_safe, rule gic_safe_id)

lemma set_spi_level_safe: "gic_safe 2 (set_spi_level i v)"
  unfolding set_spi_level_def Let_def
  by (rule gic_safe_if, rule gic_safe_id,
      rule gic_safe_comp [OF line_level_safe(2), where m = 1, simplified one_add_one]
      , rule gic_safe_if, rule set_spi_bits_safe, rule gic_safe_id)

lemma set_level_safe: "gic_safe 2 (set_level i v)" "gic_safe 2 (set_level_on c i v)"
proof -
  have count: "gic_safe 2 (\<lambda>g. f (count_set_level g))" if "gic_safe 2 f" for f
    using gic_safe_comp [OF neutral_updates_safe(6) [of 0] that] by (simp add: numeral_2_eq_2)
  have *: "gic_safe 2 (set_level i v)" for i
    unfolding set_level_def Let_def
    by (intro gic_safe_if count set_local_level_safe set_spi_level_safe)
  then show "gic_safe 2 (set_level i v)" .
  show "gic_safe 2 (set_level_on c i v)"
    unfolding set_level_on_def Let_def
    by (intro gic_safe_if count set_local_level_safe *)
qed

lemma set_pending_safe: "gic_safe 1 (set_pending i)" "gic_safe 1 (set_pending_on c i)"
  unfolding set_pending_def set_pending_on_def
  by (intro gic_safe_if set_local_bits_safe set_spi_bits_safe)+

lemma for_bits_safe:
  assumes "\<And>i. gic_safe 1 (f i)"
  shows "gic_safe 32 (for_bits b f)"
proof -
  have "gic_safe (1 * length [0..<32]) (fold (\<lambda>i g. if b AND push_bit i 1 = 0 then g else f i g) [0..<32])"
    by (intro gic_safe_fold gic_safe_if gic_safe_id assms)
  then show ?thesis by (simp add: for_bits_def [abs_def])
qed

lemma set_ranges_safe: "gic_safe 32 (set_spi_enable_range n b v)" "gic_safe 32 (set_spi_active_range n b v)"
  unfolding set_spi_enable_range_def [abs_def] set_spi_active_range_def [abs_def]
  by (intro for_bits_safe gic_safe_if gic_safe_id set_spi_bits_safe)+

lemma set_priority_range_safe: "gic_safe 1 (set_priority_range n v a b c loc)"
  unfolding gic_safe_def
proof (intro allI impI)
  fix g assume g: "gic_wf g"
  have "gic_wf (set_priority_byte n v c loc i g) \<and> gic_cache (set_priority_byte n v c loc i g) = gic_cache g \<and>
      length (gic_locals (set_priority_byte n v c loc i g)) = length (gic_locals g) \<and>
      gic_epoch (set_priority_byte n v c loc i g) = gic_epoch g" if "gic_wf g" for i g
    using that
    by (auto simp: set_priority_byte_def Let_def intro!: gic_wf_update_local local_wf_update_list local_cpu_wf)
      (simp_all add: gic_wf_def)
  then have "gic_wf (fold (set_priority_byte n v c loc) xs g) \<and>
      gic_cache (fold (set_priority_byte n v c loc) xs g) = gic_cache g \<and>
      length (gic_locals (fold (set_priority_byte n v c loc) xs g)) = length (gic_locals g) \<and>
      gic_epoch (fold (set_priority_byte n v c loc) xs g) = gic_epoch g" for xs
    using g by (induction xs arbitrary: g) auto
  then show "gic_wf (set_priority_range n v a b c loc g) \<and> evolves 1 g (set_priority_range n v a b c loc g)"
    unfolding set_priority_range_def by (auto intro!: evolves_bump [of _ _ 0, simplified])
qed

lemmas gic_safe_32 = gic_safe_mono [of 1 _ 32, OF _ one_le_numeral] gic_safe_mono [of 0 _ 32]

lemma write_regs_safe: "gic_safe 32 (write_dist_reg32 off v)" "gic_safe 32 (write_redist_reg32 off v)"
  unfolding write_dist_reg32_def Let_def write_redist_reg32_def
  by (intro gic_safe_if gic_safe_id neutral_updates_safe set_ranges_safe for_bits_safe
      set_local_bits_safe gic_safe_32 set_priority_range_safe)+

lemma gic_write32_safe: "gic_safe 32 (gic_write32 off v)"
  unfolding gic_write32_def by (intro gic_safe_if write_regs_safe)

lemma gic_safe_param:
  "(\<And>x. gic_safe n (f x)) \<Longrightarrow> gic_safe n (\<lambda>g. f (h g) g)"
  by (simp add: gic_safe_def)

lemma gic_write_safe: "gic_safe 64 (gic_write off v sz)"
proof -
  have w: "gic_safe 64 (gic_write32 o' v')" for o' v' by (rule gic_safe_mono [OF gic_write32_safe]) simp
  have w2: "gic_safe 64 (\<lambda>g. gic_write32 a x (gic_write32 b y g))" for a b x y
    using gic_safe_comp [OF gic_write32_safe gic_write32_safe] by simp
  show ?thesis
    unfolding gic_write_def Let_def
    by (intro gic_safe_if gic_safe_id w w2 gic_safe_param [of 64 "\<lambda>x. gic_write32 (off AND NOT 3) x"])
qed

lemma sgi_safe: "gic_wf g \<Longrightarrow> gic_wf (send_sgi src v g) \<and> evolves (length (gic_locals g)) g (send_sgi src v g)"
proof -
  assume g: "gic_wf g"
  have "gic_safe 1 (sgi_to_cpu src v c)" for c
    unfolding sgi_to_cpu_def Let_def by (intro gic_safe_if gic_safe_id set_local_bits_safe)
  then have "gic_safe (1 * length [0..<n]) (fold (sgi_to_cpu src v) [0..<n])" for n
    by (intro gic_safe_fold)
  from gic_safeD [OF this g] show ?thesis using g by (simp add: send_sgi_def)
qed

lemma acknowledge_safe: "gic_safe 2 (\<lambda>g. snd (acknowledge c pmr g))"
proof -
  have two: "gic_safe 2 (\<lambda>g. set_local_active_bit c i True (set_local_pending_bit c i False g))"
    "gic_safe 2 (\<lambda>g. set_spi_active_bit i True (set_spi_pending_bit i False g))" for i
    using gic_safe_comp [OF set_local_bits_safe(1) [of c i False] set_local_bits_safe(3) [of c i True]]
      gic_safe_comp [OF set_spi_bits_safe(1) [of i False] set_spi_bits_safe(3) [of i True]]
    by (simp_all add: numeral_2_eq_2)
  have "gic_safe 2 (\<lambda>g. snd (case highest_pending c pmr g of (found, intid) \<Rightarrow>
       if \<not> found then ((False, 1023), g)
       else if is_local_intid intid then
         ((True, intid), set_local_active_bit c intid True (set_local_pending_bit c intid False g))
       else
         ((True, intid), set_spi_active_bit intid True (set_spi_pending_bit intid False g))))"
    unfolding gic_safe_def
    using gic_safeD [OF two(1)] gic_safeD [OF two(2)] by (auto split: prod.splits)
  from gic_safe_comp [OF neutral_updates_safe(8) [of 0] this] show ?thesis
    by (simp add: acknowledge_def Let_def numeral_2_eq_2)
qed

lemma eoi_safe: "gic_safe 2 (eoi c i)"
proof -
  have two: "gic_safe 2 (\<lambda>g. (\<lambda>g. if gl_line_level (local_cpu c g) ! i
      then set_local_pending_bit c i True g else g) (set_local_active_bit c i False g))"
    "gic_safe 2 (\<lambda>g. (\<lambda>g. if gic_spi_line_level g ! spi_index i
      then set_spi_pending_bit i True g else g) (set_spi_active_bit i False g))"
    using gic_safe_comp [OF set_local_bits_safe(3) [of c i False]
        gic_safe_if [OF set_local_bits_safe(1) [of c i True] gic_safe_id, of "\<lambda>g. gl_line_level (local_cpu c g) ! i"]]
      gic_safe_comp [OF set_spi_bits_safe(3) [of i False]
        gic_safe_if [OF set_spi_bits_safe(1) [of i True] gic_safe_id, of "\<lambda>g. gic_spi_line_level g ! spi_index i"]]
    by (simp_all add: numeral_2_eq_2)
  show ?thesis
    unfolding eoi_def Let_def by (intro gic_safe_if gic_safe_id two)
qed

section \<open>Coherence of the query cache\<close>

lemma highest_pending_view:
  assumes "same_view g g'"
  shows "highest_pending c pmr g' = highest_pending c pmr g"
proof -
  have idx: "local_index c g' = local_index c g" for c
    using assms by (simp add: same_view_def local_index_def)
  have "local_candidate g' i j pmr = local_candidate g i j pmr" "spi_candidate g' j pmr = spi_candidate g j pmr"
    "gl_priorities (local_cpu i g') = gl_priorities (local_cpu i g)" "gic_spi_priorities g' = gic_spi_priorities g" for i j
    using assms by (simp_all add: same_view_def local_candidate_def spi_candidate_def)
  then show ?thesis by (simp add: highest_pending_def idx Let_def cong: if_cong)
qed

text \<open>A cache entry that the next query would use holds the answer.\<close>
definition cache_coherent :: "gic \<Rightarrow> bool" where
  "cache_coherent g \<longleftrightarrow> (\<forall>i < length (gic_locals g). pc_valid (gic_cache g ! i) \<longrightarrow>
    pc_epoch (gic_cache g ! i) \<le> gic_epoch g \<and>
    (pc_epoch (gic_cache g ! i) = gic_epoch g \<longrightarrow>
      pc_value (gic_cache g ! i) = fst (highest_pending i (pc_pmr (gic_cache g ! i)) g)))"

lemma cache_coherent_evolves:
  assumes "cache_coherent g" "evolves n g g'" "unat (gic_epoch g) + n < 2 ^ 64"
  shows "cache_coherent g' \<and> unat (gic_epoch g') \<le> unat (gic_epoch g) + n"
proof -
  obtain k where k: "k \<le> n" "gic_epoch g' = gic_epoch g + of_nat k" "k = 0 \<longrightarrow> same_view g g'"
    and c: "gic_cache g' = gic_cache g" "length (gic_locals g') = length (gic_locals g)"
    using assms(2) by (auto simp: evolves_def)
  have e: "unat (gic_epoch g') = unat (gic_epoch g) + k"
    using k assms(3) by (simp add: unat_plus_no_wrap unat_of_nat)
  show ?thesis
  proof (cases "k = 0")
    case True
    then show ?thesis
      using k c assms(1) e by (simp add: cache_coherent_def highest_pending_view)
  next
    case False
    then have "gic_epoch g < gic_epoch g'" using e by (simp add: word_less_nat_alt)
    then show ?thesis
      using assms(1) c e k(1) unfolding cache_coherent_def
      by (auto dest: order_le_less_trans intro: less_imp_le)
  qed
qed

lemma same_view_counters [simp]:
  "same_view g (g\<lparr>gic_has_pending_calls := n\<rparr>)"
  "same_view g (g\<lparr>gic_has_pending_calls := n, gic_cache := k\<rparr>)"
  by (simp_all add: same_view_def local_cpu_def local_index_def)

lemma local_index_idem: "gic_wf g \<Longrightarrow> local_index (local_index c g) g = local_index c g"
  by (simp add: local_index_def)

lemma highest_pending_index: "gic_wf g \<Longrightarrow> highest_pending (local_index c g) pmr g = highest_pending c pmr g"
  by (simp add: highest_pending_def local_index_idem)

text \<open>A query on a coherent cache answers what the selection does, and leaves it coherent.\<close>
lemma has_pending_coherent:
  assumes wf: "gic_wf g" and coh: "cache_coherent g"
  shows "fst (has_pending c pmr g) = fst (highest_pending c pmr g)"
    and "gic_wf (snd (has_pending c pmr g))" and "cache_coherent (snd (has_pending c pmr g))"
    and "gic_epoch (snd (has_pending c pmr g)) = gic_epoch g"
    and "length (gic_locals (snd (has_pending c pmr g))) = length (gic_locals g)"
proof -
  let ?g = "g\<lparr>gic_has_pending_calls := gic_has_pending_calls g + 1\<rparr>"
  let ?i = "local_index c g"
  have i: "?i < length (gic_locals g)" "?i < length (gic_cache g)"
    using local_index_less [OF wf, of c] wf by (simp_all add: gic_wf_def)
  have hp: "highest_pending j q ?g = highest_pending j q g" for j q
    by (rule highest_pending_view) simp
  note hi = highest_pending_index [OF wf, of c pmr]
  show "fst (has_pending c pmr g) = fst (highest_pending c pmr g)"
    using coh i hi hp by (auto simp: has_pending_def Let_def cache_coherent_def)
  show "gic_wf (snd (has_pending c pmr g))"
    using wf by (simp add: has_pending_def Let_def gic_wf_def)
  show "gic_epoch (snd (has_pending c pmr g)) = gic_epoch g"
    "length (gic_locals (snd (has_pending c pmr g))) = length (gic_locals g)"
    by (simp_all add: has_pending_def Let_def)
  have hk: "highest_pending j q (g\<lparr>gic_has_pending_calls := n, gic_cache := k\<rparr>) = highest_pending j q g" for j q n k
    by (rule highest_pending_view) simp
  show "cache_coherent (snd (has_pending c pmr g))"
    using coh i hp hk
    by (auto simp: has_pending_def Let_def cache_coherent_def nth_list_update)
qed

datatype gic_op =
    Op_Set_Pending nat nat
  | Op_Set_Level nat nat bool
  | Op_Sgi nat u64
  | Op_Acknowledge nat u8
  | Op_Eoi nat nat
  | Op_Write u64 u64 usize
  | Op_Query nat u8
  | Op_Affinity nat u64

fun gic_apply :: "gic_op \<Rightarrow> gic \<Rightarrow> gic" where
  "gic_apply (Op_Set_Pending c i) g = set_pending_on c i g"
| "gic_apply (Op_Set_Level c i b) g = set_level_on c i b g"
| "gic_apply (Op_Sgi c v) g = send_sgi c v g"
| "gic_apply (Op_Acknowledge c pmr) g = snd (acknowledge c pmr g)"
| "gic_apply (Op_Eoi c i) g = eoi c i g"
| "gic_apply (Op_Write off v sz) g = gic_write off v sz g"
| "gic_apply (Op_Query c pmr) g = snd (has_pending c pmr g)"
| "gic_apply (Op_Affinity c m) g = set_cpu_affinity c m g"

definition gic_run :: "gic_op list \<Rightarrow> gic \<Rightarrow> gic" where
  "gic_run ops g = fold gic_apply ops g"

text \<open>How far one operation can advance the epoch.\<close>
definition epoch_stride :: "gic \<Rightarrow> nat" where
  "epoch_stride g = max 64 (length (gic_locals g))"

lemma gic_apply_coherent:
  assumes wf: "gic_wf g" and coh: "cache_coherent g" and room: "unat (gic_epoch g) + epoch_stride g < 2 ^ 64"
  shows "gic_wf (gic_apply x g) \<and> cache_coherent (gic_apply x g) \<and>
    unat (gic_epoch (gic_apply x g)) \<le> unat (gic_epoch g) + epoch_stride g \<and>
    length (gic_locals (gic_apply x g)) = length (gic_locals g)"
proof (cases "\<exists>c pmr. x = Op_Query c pmr")
  case True
  then show ?thesis using has_pending_coherent [OF wf coh] by auto
next
  case False
  have aff: "gic_safe 0 (set_cpu_affinity c m)" for c m
    unfolding set_cpu_affinity_def [abs_def] by (rule neutral_updates_safe)
  have m: "gic_wf h \<and> evolves (epoch_stride g) g h" if "gic_wf h \<and> evolves n g h" "n \<le> epoch_stride g" for n h
    using that evolves_mono by blast
  note rules = m [OF gic_safeD [OF set_pending_safe(2) wf]] m [OF gic_safeD [OF set_level_safe(2) wf]]
    m [OF sgi_safe [OF wf]] m [OF gic_safeD [OF acknowledge_safe wf]] m [OF gic_safeD [OF eoi_safe wf]]
    m [OF gic_safeD [OF gic_write_safe wf]] m [OF gic_safeD [OF aff wf]]
  have "gic_wf (gic_apply x g) \<and> evolves (epoch_stride g) g (gic_apply x g)"
    using False
    by (cases x) (simp_all only: gic_apply.simps, ((rule rules, simp add: epoch_stride_def) | simp)+)
  then show ?thesis
    using cache_coherent_evolves [OF coh _ room] by (auto simp: evolves_def)
qed

lemma gic_run_coherent:
  "gic_wf g \<Longrightarrow> cache_coherent g \<Longrightarrow> unat (gic_epoch g) + epoch_stride g * length ops < 2 ^ 64 \<Longrightarrow>
   gic_wf (gic_run ops g) \<and> cache_coherent (gic_run ops g)"
proof (induction ops arbitrary: g)
  case (Cons x ops)
  let ?g = "gic_apply x g"
  have "unat (gic_epoch g) + epoch_stride g < 2 ^ 64" using Cons.prems(3) by simp
  from gic_apply_coherent [OF Cons.prems(1,2) this, of x]
  have *: "gic_wf ?g" "cache_coherent ?g" "unat (gic_epoch ?g) \<le> unat (gic_epoch g) + epoch_stride g"
    "epoch_stride ?g = epoch_stride g" by (auto simp: epoch_stride_def)
  have "unat (gic_epoch ?g) + epoch_stride ?g * length ops < 2 ^ 64"
    using Cons.prems(3) *(3,4) by simp
  then show ?case using Cons.IH [OF *(1,2)] by (simp add: gic_run_def)
qed (simp add: gic_run_def)

lemma gic_new_coherent:
  "gic_wf (set_cpu_count n gic_new) \<and> cache_coherent (set_cpu_count n gic_new) \<and>
   gic_epoch (set_cpu_count n gic_new) = 3 \<and> length (gic_locals (set_cpu_count n gic_new)) = max 1 n"
  by (simp add: gic_wf_def set_cpu_count_def gic_new_def Let_def local_wf_def new_local_def gic_constants
      cache_coherent_def new_cache_def list_all_length)

section \<open>Selection as a minimum\<close>

text \<open>The order of pending interrupts: priority value first, then interrupt id.\<close>
datatype irq_key = Irq_Key (key_prio: u8) (key_intid: nat)

instantiation irq_key :: linorder
begin

definition less_eq_irq_key :: "irq_key \<Rightarrow> irq_key \<Rightarrow> bool" where
  "less_eq_irq_key a b \<longleftrightarrow> key_prio a < key_prio b \<or> key_prio a = key_prio b \<and> key_intid a \<le> key_intid b"

definition less_irq_key :: "irq_key \<Rightarrow> irq_key \<Rightarrow> bool" where
  "less_irq_key a b \<longleftrightarrow> key_prio a < key_prio b \<or> key_prio a = key_prio b \<and> key_intid a < key_intid b"

instance
  by standard (auto simp: less_eq_irq_key_def less_irq_key_def intro: irq_key.expand)

end

text \<open>Pending, enabled and priority of an interrupt as one CPU sees it.\<close>
definition irq_pending_on :: "nat \<Rightarrow> nat \<Rightarrow> gic \<Rightarrow> bool" where
  "irq_pending_on c i g = (if i < 32 then gl_pending (local_cpu c g) ! i else gic_spi_pending g ! (i - 32))"

definition irq_enabled_on :: "nat \<Rightarrow> nat \<Rightarrow> gic \<Rightarrow> bool" where
  "irq_enabled_on c i g = (if i < 32 then gl_enabled (local_cpu c g) ! i else gic_spi_enabled g ! (i - 32))"

definition irq_active_on :: "nat \<Rightarrow> nat \<Rightarrow> gic \<Rightarrow> bool" where
  "irq_active_on c i g = (if i < 32 then gl_active (local_cpu c g) ! i else gic_spi_active g ! (i - 32))"

definition irq_level_on :: "nat \<Rightarrow> nat \<Rightarrow> gic \<Rightarrow> bool" where
  "irq_level_on c i g = (if i < 32 then gl_line_level (local_cpu c g) ! i else gic_spi_line_level g ! (i - 32))"

definition deliverable :: "nat \<Rightarrow> u8 \<Rightarrow> gic \<Rightarrow> nat set" where
  "deliverable c pmr g =
    {i. i < 1024 \<and> irq_pending_on c i g \<and> irq_enabled_on c i g \<and> gic_priority c i g < pmr}"

definition irq_key_of :: "nat \<Rightarrow> gic \<Rightarrow> nat \<Rightarrow> irq_key" where
  "irq_key_of c g i = Irq_Key (gic_priority c i g) i"

lemma fold_consider:
  assumes "fold (\<lambda>i b. if C i then consider_irq i (P i) b else b) xs (False, p0, n0) = (found, p, n)"
  shows "(found \<longleftrightarrow> (\<exists>i\<in>set xs. C i)) \<and>
    (found \<longrightarrow> n \<in> set xs \<and> C n \<and> p = P n \<and> (\<forall>j\<in>set xs. C j \<longrightarrow> Irq_Key (P n) n \<le> Irq_Key (P j) j))"
  using assms
proof (induction xs arbitrary: found p n rule: rev_induct)
  case (snoc x xs)
  obtain f1 p1 n1 where h: "fold (\<lambda>i b. if C i then consider_irq i (P i) b else b) xs (False, p0, n0) = (f1, p1, n1)"
    by (cases "fold (\<lambda>i b. if C i then consider_irq i (P i) b else b) xs (False, p0, n0)") auto
  show ?case
    using snoc.prems snoc.IH [OF h] h
    by (auto simp: consider_irq_def less_eq_irq_key_def not_less split: if_splits)
qed simp

lemma highest_pending_least:
  assumes "gic_wf g"
  shows "highest_pending c pmr g =
    (deliverable c pmr g \<noteq> {},
     if deliverable c pmr g = {} then 1023 else key_intid (Min (irq_key_of c g ` deliverable c pmr g)))"
proof -
  let ?C = "\<lambda>i. i \<in> deliverable c pmr g" and ?P = "\<lambda>i. gic_priority c i g"
  let ?F = "\<lambda>i b. if ?C i then consider_irq i (?P i) b else b"
  have idx: "local_cpu (local_index c g) g = local_cpu c g"
    using local_index_idem [OF assms] by (simp add: local_cpu_def)
  have l: "fold (\<lambda>i b. if local_candidate g (local_index c g) i pmr
        then consider_irq i (gl_priorities (local_cpu (local_index c g) g) ! i) b else b) [0..<32] b =
      fold ?F [0..<32] b" for b
  proof (rule fold_cong [OF refl refl])
    fix i assume "i \<in> set [0..<(32::nat)]"
    then have "i < 32" by (simp only: set_upt atLeastLessThan_iff)
    then show "(\<lambda>b. if local_candidate g (local_index c g) i pmr
        then consider_irq i (gl_priorities (local_cpu (local_index c g) g) ! i) b else b) = ?F i"
      by (auto simp: local_candidate_def deliverable_def irq_pending_on_def
          irq_enabled_on_def gic_priority_def gic_constants idx)
  qed
  have s: "fold (\<lambda>i b. if spi_candidate g i pmr
        then consider_irq i (gic_spi_priorities g ! spi_index i) b else b) [32..<1024] b =
      fold ?F [32..<1024] b" for b
  proof (rule fold_cong [OF refl refl])
    fix i assume "i \<in> set [32..<(1024::nat)]"
    then have "32 \<le> i" "i < 1024" by (simp_all only: set_upt atLeastLessThan_iff)
    then show "(\<lambda>b. if spi_candidate g i pmr
        then consider_irq i (gic_spi_priorities g ! spi_index i) b else b) = ?F i"
      by (auto simp: spi_candidate_def deliverable_def irq_pending_on_def
          irq_enabled_on_def gic_priority_def gic_constants spi_index_def)
  qed
  have "[0..<32 + 992] = [0..<32] @ [32..<32 + (992::nat)]"
    by (rule upt_add_eq_append) simp
  moreover have "32 + 992 = (1024::nat)" by simp
  ultimately have "[0..<1024] = [0..<32] @ [32..<1024::nat]" by metis
  then have f: "fold ?F [0..<1024] b = fold ?F [32..<1024] (fold ?F [0..<32] b)" for b
    by (simp only: fold_append comp_apply)
  obtain found p n where r: "fold ?F [0..<1024] (False, 0xFF, 1023) = (found, p, n)"
    by (cases "fold ?F [0..<1024] (False, 0xFF, 1023)") auto
  have h: "highest_pending c pmr g = (found, if found then n else 1023)"
    unfolding highest_pending_def Let_def gic_constants l s f [symmetric] r by simp
  have fin: "finite (deliverable c pmr g)" by (simp add: deliverable_def)
  note best = fold_consider [OF r, unfolded set_upt]
  show ?thesis
  proof (cases "deliverable c pmr g = {}")
    case True
    then show ?thesis using best h by auto
  next
    case False
    then have found: "found" and n: "n \<in> deliverable c pmr g"
      and le: "\<forall>j\<in>deliverable c pmr g. Irq_Key (?P n) n \<le> Irq_Key (?P j) j"
      using best by (auto simp: deliverable_def)
    have "Min (irq_key_of c g ` deliverable c pmr g) = irq_key_of c g n"
      by (rule Min_eqI) (use fin n le in \<open>auto simp: irq_key_of_def\<close>)
    then show ?thesis using h found False by (simp add: irq_key_of_def)
  qed
qed

section \<open>The life cycle of an interrupt\<close>

text \<open>Interrupt \<open>j\<close> of CPU \<open>d\<close> is interrupt \<open>i\<close> of CPU \<open>c\<close>: shared interrupts have one state.\<close>
definition same_irq :: "gic \<Rightarrow> nat \<Rightarrow> nat \<Rightarrow> nat \<Rightarrow> nat \<Rightarrow> bool" where
  "same_irq g c i d j \<longleftrightarrow> j = i \<and> (i < 32 \<longrightarrow> local_index d g = local_index c g)"

definition put_pending :: "nat \<Rightarrow> nat \<Rightarrow> bool \<Rightarrow> gic \<Rightarrow> gic" where
  "put_pending c i v g = (if is_local_intid i then set_local_pending_bit c i v g else set_spi_pending_bit i v g)"

definition put_active :: "nat \<Rightarrow> nat \<Rightarrow> bool \<Rightarrow> gic \<Rightarrow> gic" where
  "put_active c i v g = (if is_local_intid i then set_local_active_bit c i v g else set_spi_active_bit i v g)"

lemmas irq_on_defs = irq_pending_on_def irq_enabled_on_def irq_active_on_def irq_level_on_def gic_priority_def

lemma local_wf_lengths:
  "local_wf l \<Longrightarrow> length (gl_pending l) = 32" "local_wf l \<Longrightarrow> length (gl_active l) = 32"
  "local_wf l \<Longrightarrow> length (gl_line_level l) = 32"
  by (simp_all add: local_wf_def)

lemma put_pending_fields:
  assumes wf: "gic_wf g" and ij: "i < 1024" "j < 1024"
  shows "irq_pending_on d j (put_pending c i v g) = (if same_irq g c i d j then v else irq_pending_on d j g)"
    and "irq_active_on d j (put_pending c i v g) = irq_active_on d j g"
    and "irq_enabled_on d j (put_pending c i v g) = irq_enabled_on d j g"
    and "irq_level_on d j (put_pending c i v g) = irq_level_on d j g"
    and "gic_priority d j (put_pending c i v g) = gic_priority d j g"
    and "gic_wf (put_pending c i v g)" and "local_index d (put_pending c i v g) = local_index d g"
proof -
  have l: "length (gl_pending (local_cpu d g)) = 32" "length (gic_spi_pending g) = 992" for d
    using local_cpu_wf [OF wf] wf by (simp_all add: local_wf_def gic_wf_def)
  have same: "local_cpu d g = local_cpu c g" if "local_index d g = local_index c g"
    using that by (simp add: local_cpu_def)
  show "irq_pending_on d j (put_pending c i v g) = (if same_irq g c i d j then v else irq_pending_on d j g)"
    using ij l same
    by (auto simp: put_pending_def set_local_pending_bit_def set_spi_pending_bit_def is_local_intid_def
        is_spi_intid_def spi_index_def gic_constants irq_pending_on_def same_irq_def local_cpu_update_local [OF wf]
        nth_list_update)
  show "irq_active_on d j (put_pending c i v g) = irq_active_on d j g"
    "irq_enabled_on d j (put_pending c i v g) = irq_enabled_on d j g"
    "irq_level_on d j (put_pending c i v g) = irq_level_on d j g"
    "gic_priority d j (put_pending c i v g) = gic_priority d j g"
    by (auto simp: put_pending_def set_local_pending_bit_def set_spi_pending_bit_def irq_on_defs
        local_cpu_update_local [OF wf])
  show "gic_wf (put_pending c i v g)"
    using gic_safeD [OF set_local_bits_safe(1) wf] gic_safeD [OF set_spi_bits_safe(1) wf]
    by (simp add: put_pending_def)
  show "local_index d (put_pending c i v g) = local_index d g"
    by (simp add: put_pending_def set_local_pending_bit_def set_spi_pending_bit_def)
qed

lemma put_active_fields:
  assumes wf: "gic_wf g" and ij: "i < 1024" "j < 1024"
  shows "irq_active_on d j (put_active c i v g) = (if same_irq g c i d j then v else irq_active_on d j g)"
    and "irq_pending_on d j (put_active c i v g) = irq_pending_on d j g"
    and "irq_enabled_on d j (put_active c i v g) = irq_enabled_on d j g"
    and "irq_level_on d j (put_active c i v g) = irq_level_on d j g"
    and "gic_priority d j (put_active c i v g) = gic_priority d j g"
    and "gic_wf (put_active c i v g)" and "local_index d (put_active c i v g) = local_index d g"
proof -
  have l: "length (gl_active (local_cpu d g)) = 32" "length (gic_spi_active g) = 992" for d
    using local_cpu_wf [OF wf] wf by (simp_all add: local_wf_def gic_wf_def)
  have same: "local_cpu d g = local_cpu c g" if "local_index d g = local_index c g"
    using that by (simp add: local_cpu_def)
  show "irq_active_on d j (put_active c i v g) = (if same_irq g c i d j then v else irq_active_on d j g)"
    using ij l same
    by (auto simp: put_active_def set_local_active_bit_def set_spi_active_bit_def is_local_intid_def
        is_spi_intid_def spi_index_def gic_constants irq_active_on_def same_irq_def local_cpu_update_local [OF wf]
        nth_list_update)
  show "irq_pending_on d j (put_active c i v g) = irq_pending_on d j g"
    "irq_enabled_on d j (put_active c i v g) = irq_enabled_on d j g"
    "irq_level_on d j (put_active c i v g) = irq_level_on d j g"
    "gic_priority d j (put_active c i v g) = gic_priority d j g"
    by (auto simp: put_active_def set_local_active_bit_def set_spi_active_bit_def irq_on_defs
        local_cpu_update_local [OF wf])
  show "gic_wf (put_active c i v g)"
    using gic_safeD [OF set_local_bits_safe(3) wf] gic_safeD [OF set_spi_bits_safe(3) wf]
    by (simp add: put_active_def)
  show "local_index d (put_active c i v g) = local_index d g"
    by (simp add: put_active_def set_local_active_bit_def set_spi_active_bit_def)
qed

lemma acknowledge_eq:
  "acknowledge c pmr g =
    (let g = g\<lparr>gic_acknowledge_calls := gic_acknowledge_calls g + 1\<rparr> in
     case highest_pending c pmr g of (found, i) \<Rightarrow>
       if \<not> found then ((False, 1023), g) else ((True, i), put_active c i True (put_pending c i False g)))"
  by (auto simp: acknowledge_def Let_def put_active_def put_pending_def split: prod.splits)

lemma eoi_eq:
  assumes "i < 1024"
  shows "eoi c i g = (let g = put_active c i False g in
    if irq_level_on c i g then put_pending c i True g else g)"
  using assms
  by (simp add: eoi_def Let_def put_active_def put_pending_def is_local_intid_def irq_level_on_def
      gic_constants spi_index_def)

text \<open>The line level of an interrupt changed, the pending bit not yet.\<close>
definition put_level :: "nat \<Rightarrow> nat \<Rightarrow> bool \<Rightarrow> gic \<Rightarrow> gic" where
  "put_level c i v g =
    (if is_local_intid i
     then bump_epoch (update_local c (\<lambda>l. l\<lparr>gl_line_level := (gl_line_level l)[i := v]\<rparr>) g)
     else bump_epoch (g\<lparr>gic_spi_line_level := (gic_spi_line_level g)[spi_index i := v]\<rparr>))"

lemma set_level_on_eq:
  fixes g c i v
  defines "h \<equiv> (if is_local_intid i then count_set_level g else count_set_level (count_set_level g))"
  assumes "i < 1024"
  shows "set_level_on c i v g =
      (if irq_level_on c i h = v then h
       else if v \<and> \<not> irq_active_on c i (put_level c i v h)
         then put_pending c i True (put_level c i v h) else put_level c i v h)"
proof (cases "is_local_intid i")
  case True
  then have "i < 32" by (simp add: is_local_intid_def gic_constants)
  then show ?thesis
    using True
    by (cases v) (simp_all add: h_def set_level_on_def set_local_level_def Let_def put_level_def put_pending_def
        irq_level_on_def irq_active_on_def)
next
  case False
  then have "\<not> i < 32" by (simp add: is_local_intid_def gic_constants)
  then show ?thesis
    using False assms
    by (cases v) (simp_all add: h_def set_level_on_def set_level_def set_spi_level_def Let_def put_level_def put_pending_def
        irq_level_on_def irq_active_on_def gic_constants spi_index_def)
qed

lemma put_level_fields:
  assumes wf: "gic_wf g" and ij: "i < 1024" "j < 1024"
  shows "irq_level_on d j (put_level c i v g) = (if same_irq g c i d j then v else irq_level_on d j g)"
    and "irq_pending_on d j (put_level c i v g) = irq_pending_on d j g"
    and "irq_active_on d j (put_level c i v g) = irq_active_on d j g"
    and "gic_wf (put_level c i v g)" and "local_index d (put_level c i v g) = local_index d g"
proof -
  have l: "length (gl_line_level (local_cpu d g)) = 32" "length (gic_spi_line_level g) = 992" for d
    using local_cpu_wf [OF wf] wf by (simp_all add: local_wf_def gic_wf_def)
  have same: "local_cpu d g = local_cpu c g" if "local_index d g = local_index c g"
    using that by (simp add: local_cpu_def)
  show "irq_level_on d j (put_level c i v g) = (if same_irq g c i d j then v else irq_level_on d j g)"
    using ij l same
    by (auto simp: put_level_def is_local_intid_def spi_index_def gic_constants irq_level_on_def same_irq_def
        local_cpu_update_local [OF wf] nth_list_update)
  show "irq_pending_on d j (put_level c i v g) = irq_pending_on d j g"
    "irq_active_on d j (put_level c i v g) = irq_active_on d j g"
    by (auto simp: put_level_def irq_on_defs local_cpu_update_local [OF wf])
  show "gic_wf (put_level c i v g)"
    using gic_safeD [OF line_level_safe(1) wf] gic_safeD [OF line_level_safe(2) wf]
    by (simp add: put_level_def)
  show "local_index d (put_level c i v g) = local_index d g"
    by (simp add: put_level_def)
qed

lemma count_fields [simp]:
  "irq_pending_on d j (count_set_level g) = irq_pending_on d j g"
  "irq_active_on d j (count_set_level g) = irq_active_on d j g"
  "irq_level_on d j (count_set_level g) = irq_level_on d j g"
  "gic_wf (count_set_level g) = gic_wf g" "local_index d (count_set_level g) = local_index d g"
  "irq_pending_on d j (g\<lparr>gic_acknowledge_calls := n\<rparr>) = irq_pending_on d j g"
  "irq_active_on d j (g\<lparr>gic_acknowledge_calls := n\<rparr>) = irq_active_on d j g"
  "irq_level_on d j (g\<lparr>gic_acknowledge_calls := n\<rparr>) = irq_level_on d j g"
  "irq_enabled_on d j (g\<lparr>gic_acknowledge_calls := n\<rparr>) = irq_enabled_on d j g"
  "gic_priority d j (g\<lparr>gic_acknowledge_calls := n\<rparr>) = gic_priority d j g"
  "gic_wf (g\<lparr>gic_acknowledge_calls := n\<rparr>) = gic_wf g"
  by (simp_all add: irq_on_defs count_set_level_def gic_wf_def local_index_def)

lemma put_fields_congs [simp]:
  "same_irq (count_set_level g) = same_irq g"
  "same_irq (g\<lparr>gic_acknowledge_calls := n\<rparr>) = same_irq g"
  by (intro ext, simp add: same_irq_def)+

text \<open>An asserted line is pending or being handled.\<close>
definition levels_tracked :: "gic \<Rightarrow> bool" where
  "levels_tracked g \<longleftrightarrow> (\<forall>c. \<forall>i<1024. irq_level_on c i g \<longrightarrow> irq_pending_on c i g \<or> irq_active_on c i g)"

lemma same_irq_eq:
  assumes "same_irq g c i d j"
  shows "irq_level_on d j g = irq_level_on c i g" "irq_active_on d j g = irq_active_on c i g"
    "irq_pending_on d j g = irq_pending_on c i g"
  using assms by (auto simp: same_irq_def irq_on_defs local_cpu_def)

lemma levels_tracked_set_pending:
  "gic_wf g \<Longrightarrow> levels_tracked g \<Longrightarrow> i < 1024 \<Longrightarrow> levels_tracked (put_pending c i True g)"
  by (auto simp: levels_tracked_def put_pending_fields)

lemma levels_tracked_acknowledge:
  "gic_wf g \<Longrightarrow> levels_tracked g \<Longrightarrow> i < 1024 \<Longrightarrow> levels_tracked (put_active c i True (put_pending c i False g))"
  by (auto simp: levels_tracked_def put_pending_fields put_active_fields same_irq_def)

lemma same_irq_put [simp]:
  "gic_wf g \<Longrightarrow> i < 1024 \<Longrightarrow> same_irq (put_active c i v g) c' i' d j = same_irq g c' i' d j"
  "gic_wf g \<Longrightarrow> i < 1024 \<Longrightarrow> same_irq (put_pending c i v g) c' i' d j = same_irq g c' i' d j"
  "gic_wf g \<Longrightarrow> i < 1024 \<Longrightarrow> same_irq (put_level c i v g) c' i' d j = same_irq g c' i' d j"
  using put_active_fields(7) [of g i 0] put_pending_fields(7) [of g i 0] put_level_fields(5) [of g i 0]
  by (simp_all add: same_irq_def)

lemma levels_tracked_eoi:
  assumes "gic_wf g" "levels_tracked g" "i < 1024"
  shows "levels_tracked (eoi c i g)"
  unfolding levels_tracked_def
proof (intro allI impI)
  fix d j :: nat assume j: "j < 1024" and lv: "irq_level_on d j (eoi c i g)"
  have g: "irq_level_on d j g \<longrightarrow> irq_pending_on d j g \<or> irq_active_on d j g"
    using assms(2) j by (simp add: levels_tracked_def)
  show "irq_pending_on d j (eoi c i g) \<or> irq_active_on d j (eoi c i g)"
  proof (cases "same_irq g c i d j")
    case True
    then have "irq_level_on d j g = irq_level_on c i g" by (rule same_irq_eq)
    then show ?thesis
      using True lv assms(1,3) j
      by (simp add: eoi_eq Let_def put_pending_fields put_active_fields split: if_splits)
  next
    case False
    then show ?thesis
      using g lv assms(1,3) j
      by (simp add: eoi_eq Let_def put_pending_fields put_active_fields split: if_splits)
  qed
qed

lemma levels_tracked_set_level:
  assumes "gic_wf g" "levels_tracked g" "i < 1024"
  shows "levels_tracked (set_level_on c i v g)"
proof -
  have key: "levels_tracked (if irq_level_on c i h = v then h
       else if v \<and> \<not> irq_active_on c i (put_level c i v h)
         then put_pending c i True (put_level c i v h) else put_level c i v h)"
    (is "levels_tracked ?h") if h: "gic_wf h" "levels_tracked h" for h
    unfolding levels_tracked_def
  proof (intro allI impI)
    fix d j :: nat assume j: "j < 1024" and lv: "irq_level_on d j ?h"
    have g: "irq_level_on d j h \<longrightarrow> irq_pending_on d j h \<or> irq_active_on d j h"
      using h(2) j by (simp add: levels_tracked_def)
    show "irq_pending_on d j ?h \<or> irq_active_on d j ?h"
    proof (cases "same_irq h c i d j")
      case True
      then have "irq_level_on d j h = irq_level_on c i h" "irq_active_on d j h = irq_active_on c i h"
        by (rule same_irq_eq)+
      then show ?thesis
        using True lv h(1) assms(3) j g
        by (auto simp: put_pending_fields put_level_fields split: if_splits)
    next
      case False
      then show ?thesis
        using g lv h(1) assms(3) j
        by (simp add: put_pending_fields put_level_fields split: if_splits)
    qed
  qed
  show ?thesis
    unfolding set_level_on_eq [OF assms(3)]
    by (rule key) (use assms(1,2) in \<open>simp_all add: levels_tracked_def\<close>)
qed

lemma deliverable_less: "i \<in> deliverable c pmr g \<Longrightarrow> i < 1024"
  by (simp add: deliverable_def)

lemma highest_pending_cases:
  assumes "gic_wf g" "highest_pending c pmr g = (found, i)"
  shows "(found \<longleftrightarrow> deliverable c pmr g \<noteq> {}) \<and> (\<not> found \<longrightarrow> i = 1023) \<and>
    (found \<longrightarrow> i \<in> deliverable c pmr g \<and> (\<forall>j\<in>deliverable c pmr g. irq_key_of c g i \<le> irq_key_of c g j))"
proof (cases "deliverable c pmr g = {}")
  case True
  then show ?thesis using assms by (simp add: highest_pending_least)
next
  case False
  have fin: "finite (irq_key_of c g ` deliverable c pmr g)" by (simp add: deliverable_def)
  then have "Min (irq_key_of c g ` deliverable c pmr g) \<in> irq_key_of c g ` deliverable c pmr g"
    using False by (intro Min_in) auto
  then obtain k where k: "k \<in> deliverable c pmr g" "Min (irq_key_of c g ` deliverable c pmr g) = irq_key_of c g k"
    by auto
  then have "i = k" "found" using assms False by (simp_all add: highest_pending_least irq_key_of_def)
  then show ?thesis using k False fin by (auto simp flip: k(2))
qed

lemma has_pending_fields:
  "irq_pending_on d j (snd (has_pending c pmr g)) = irq_pending_on d j g"
  "irq_active_on d j (snd (has_pending c pmr g)) = irq_active_on d j g"
  "irq_level_on d j (snd (has_pending c pmr g)) = irq_level_on d j g"
  by (simp_all add: has_pending_def Let_def irq_on_defs)

lemma levels_tracked_apply:
  assumes "gic_wf g" "levels_tracked g"
    and "case x of Op_Set_Pending c i \<Rightarrow> i < 1024 | Op_Set_Level c i b \<Rightarrow> i < 1024 | Op_Eoi c i \<Rightarrow> i < 1024
      | Op_Acknowledge c pmr \<Rightarrow> True | Op_Query c pmr \<Rightarrow> True | _ \<Rightarrow> False"
  shows "levels_tracked (gic_apply x g)"
proof (cases x)
  case (Op_Set_Pending c i)
  then have "gic_apply x g = put_pending c i True g" by (simp add: set_pending_on_def put_pending_def)
  then show ?thesis using assms Op_Set_Pending by (simp add: levels_tracked_set_pending)
next
  case (Op_Acknowledge c pmr)
  let ?g = "g\<lparr>gic_acknowledge_calls := gic_acknowledge_calls g + 1\<rparr>"
  obtain found i where h: "highest_pending c pmr ?g = (found, i)" by fastforce
  have t: "gic_wf ?g" "levels_tracked ?g" using assms by (simp_all add: levels_tracked_def)
  show ?thesis
    using highest_pending_cases [OF t(1) h] h t Op_Acknowledge
    by (auto simp: acknowledge_eq Let_def levels_tracked_acknowledge dest: deliverable_less)
next
  case (Op_Query c pmr)
  then show ?thesis
    using assms(2) by (simp add: levels_tracked_def has_pending_fields)
qed (use assms in \<open>auto simp: levels_tracked_set_level levels_tracked_eoi\<close>)

section \<open>Properties\<close>

text \<open>
  C5. Acknowledging takes the right interrupt and nothing else: it succeeds exactly when some
  interrupt is pending, enabled and below the priority mask for the CPU, returns the one with the
  least priority value and, among equals, the least id, moves exactly that one from pending to
  active, and leaves pending, active, enabled, level and priority of every other interrupt, on
  every CPU, as they were. Without a deliverable interrupt it returns the spurious id 1023.
\<close>
theorem gic_acknowledge_exact:
  assumes "gic_wf g" "acknowledge c pmr g = ((found, i), g')"
  shows "(found \<longleftrightarrow> deliverable c pmr g \<noteq> {}) \<and> (\<not> found \<longrightarrow> i = 1023) \<and>
    (found \<longrightarrow> i \<in> deliverable c pmr g \<and> (\<forall>j\<in>deliverable c pmr g. irq_key_of c g i \<le> irq_key_of c g j)) \<and>
    (\<forall>d j. j < 1024 \<longrightarrow>
      irq_pending_on d j g' = (irq_pending_on d j g \<and> \<not> (found \<and> same_irq g c i d j)) \<and>
      irq_active_on d j g' = (irq_active_on d j g \<or> found \<and> same_irq g c i d j) \<and>
      irq_enabled_on d j g' = irq_enabled_on d j g \<and> irq_level_on d j g' = irq_level_on d j g \<and>
      gic_priority d j g' = gic_priority d j g)"
proof -
  let ?g = "g\<lparr>gic_acknowledge_calls := gic_acknowledge_calls g + 1\<rparr>"
  have wf: "gic_wf ?g" using assms(1) by simp
  obtain f k where h: "highest_pending c pmr ?g = (f, k)" by fastforce
  have d: "deliverable c pmr ?g = deliverable c pmr g" "irq_key_of c ?g = irq_key_of c g"
    by (auto simp: deliverable_def irq_key_of_def)
  note hc = highest_pending_cases [OF wf h, unfolded d]
  show ?thesis
  proof (cases f)
    case False
    then show ?thesis using hc h assms(2) by (auto simp: acknowledge_eq Let_def)
  next
    case True
    then have k: "k < 1024" using hc by (simp add: deliverable_def)
    have g': "found" "i = k" "g' = put_active c k True (put_pending c k False ?g)"
      using True h assms(2) by (auto simp: acknowledge_eq Let_def)
    show ?thesis
      unfolding g'(2,3) using hc g'(1) True wf k
      by (simp add: put_active_fields put_pending_fields)
  qed
qed

theorem gic_acknowledge_exact_witness:
  "\<exists>i g'. acknowledge 0 0xFF (set_spi_pending_bit 40 True (set_spi_enabled_bit 40 True gic_new)) = ((True, i), g') \<and>
    i \<in> deliverable 0 0xFF (set_spi_pending_bit 40 True (set_spi_enabled_bit 40 True gic_new))"
proof -
  let ?g = "set_spi_pending_bit 40 True (set_spi_enabled_bit 40 True gic_new)"
  have wf0: "gic_wf gic_new"
    by (simp add: gic_wf_def gic_new_def set_cpu_count_def Let_def local_wf_def new_local_def gic_constants)
  have wf: "gic_wf ?g"
    using gic_safeD [OF set_spi_bits_safe(1)] gic_safeD [OF set_spi_bits_safe(2) wf0] by blast
  have "40 \<in> deliverable 0 0xFF ?g"
    by (simp add: deliverable_def irq_on_defs set_spi_pending_bit_def set_spi_enabled_bit_def is_spi_intid_def
        spi_index_def gic_constants gic_new_def set_cpu_count_def Let_def kDefaultPriority_def)
  then have ne: "deliverable 0 0xFF ?g \<noteq> {}" by blast
  obtain found i g' where a: "acknowledge 0 0xFF ?g = ((found, i), g')"
    by (metis surj_pair)
  from gic_acknowledge_exact [OF wf a] ne
  have f: "found" "i \<in> deliverable 0 0xFF ?g" by (simp_all only: simp_thms)
  have "acknowledge 0 0xFF ?g = ((True, i), g')" using a f(1) by (simp only: simp_thms)
  then show ?thesis using f(2) by blast
qed

text \<open>
  C8. The pending query that the CPU asks at every step is cached, and the cache never lies:
  from power-up, after any sequence of guest register accesses, interrupt line changes, software
  interrupts, acknowledges, ends of interrupt and earlier queries, on any number of CPUs, the
  answer is that of a fresh selection, as long as the 64-bit epoch has not wrapped.
\<close>
theorem gic_query_cache_exact:
  assumes "3 + max 64 n * length ops < 2 ^ 64" "0 < n"
  shows "fst (has_pending c pmr (gic_run ops (set_cpu_count n gic_new))) \<longleftrightarrow>
    deliverable c pmr (gic_run ops (set_cpu_count n gic_new)) \<noteq> {}"
proof -
  have "max 1 n = n" using assms(2) by simp
  then have "unat (gic_epoch (set_cpu_count n gic_new)) + epoch_stride (set_cpu_count n gic_new) * length ops < 2 ^ 64"
    using gic_new_coherent [of n] assms(1) by (simp add: epoch_stride_def)
  from gic_run_coherent [OF _ _ this] gic_new_coherent [of n]
  have wf: "gic_wf (gic_run ops (set_cpu_count n gic_new))" "cache_coherent (gic_run ops (set_cpu_count n gic_new))"
    by auto
  show ?thesis
    using has_pending_coherent(1) [OF wf] by (simp add: highest_pending_least [OF wf(1)])
qed

theorem gic_query_cache_exact_witness:
  "fst (has_pending 0 0xFF (gic_run [Op_Query 0 0xFF, Op_Write 0xB0100 0x2 4, Op_Sgi 0 0x01000001]
      (set_cpu_count 2 gic_new))) \<longleftrightarrow>
    deliverable 0 0xFF (gic_run [Op_Query 0 0xFF, Op_Write 0xB0100 0x2 4, Op_Sgi 0 0x01000001]
      (set_cpu_count 2 gic_new)) \<noteq> {}"
  by (rule gic_query_cache_exact) simp_all

text \<open>
  C27. A level interrupt is never lost: over any sequence of line changes, pending requests,
  acknowledges, ends of interrupt and queries, every interrupt whose line is asserted is pending
  or being handled, so the end of interrupt of a line that is still high makes it pending again.
\<close>
theorem gic_level_never_lost:
  assumes "levels_tracked g" "gic_wf g" "cache_coherent g"
    and "unat (gic_epoch g) + epoch_stride g * length ops < 2 ^ 64"
    and "\<forall>x\<in>set ops. case x of Op_Set_Pending c i \<Rightarrow> i < 1024 | Op_Set_Level c i b \<Rightarrow> i < 1024 | Op_Eoi c i \<Rightarrow> i < 1024
      | Op_Acknowledge c pmr \<Rightarrow> True | Op_Query c pmr \<Rightarrow> True | _ \<Rightarrow> False"
    and "i < 1024" "irq_level_on c i (gic_run ops g)"
  shows "irq_pending_on c i (gic_run ops g) \<or> irq_active_on c i (gic_run ops g)"
proof -
  have "levels_tracked (gic_run ops g)"
    using assms(1-5)
  proof (induction ops arbitrary: g)
    case (Cons x ops)
    have room: "unat (gic_epoch g) + epoch_stride g < 2 ^ 64" using Cons.prems(4) by simp
    note coh = gic_apply_coherent [OF Cons.prems(2,3) room, of x]
    have "unat (gic_epoch (gic_apply x g)) + epoch_stride (gic_apply x g) * length ops < 2 ^ 64"
      using coh Cons.prems(4) by (simp add: epoch_stride_def)
    then show ?case
      using Cons.IH [of "gic_apply x g"] coh levels_tracked_apply [OF Cons.prems(2,1)] Cons.prems(5)
      by (simp add: gic_run_def)
  qed (simp add: gic_run_def)
  then show ?thesis using assms(6,7) by (simp add: levels_tracked_def)
qed

theorem gic_level_never_lost_witness:
  "irq_pending_on 0 40 (gic_run [Op_Set_Level 0 40 True] gic_new) \<or>
   irq_active_on 0 40 (gic_run [Op_Set_Level 0 40 True] gic_new)"
proof -
  have new: "gic_wf gic_new" "cache_coherent gic_new" "levels_tracked gic_new"
    by (simp_all add: gic_wf_def gic_new_def set_cpu_count_def Let_def local_wf_def new_local_def gic_constants
        cache_coherent_def new_cache_def levels_tracked_def irq_on_defs local_cpu_def local_index_def)
  have "irq_level_on 0 40 (gic_run [Op_Set_Level 0 40 True] gic_new)"
    by (simp add: gic_run_def set_level_on_def set_level_def is_local_intid_def gic_constants set_spi_level_def
        spi_index_def Let_def irq_level_on_def set_spi_pending_bit_def count_set_level_def gic_new_def set_cpu_count_def)
  then show ?thesis
    by (intro gic_level_never_lost [OF new(3,1,2)])
      (simp_all add: epoch_stride_def gic_new_def set_cpu_count_def Let_def unat_word_ariths)
qed

section \<open>Register writes\<close>

lemma word_and_3: "(x :: u64) AND 3 = x mod 4"
proof -
  have "mask 2 = (3 :: u64)" by (simp add: mask_eq_exp_minus_1)
  then show ?thesis using take_bit_eq_mask [of 2 x] take_bit_eq_mod [of 2 x] by simp
qed

lemma ucast_and_FF: "ucast (x AND 0xFF :: 'a::len word) = (ucast x :: u8)"
proof -
  have e: "(0xFF :: 'a word) = mask 8" by (simp add: mask_eq_exp_minus_1)
  show ?thesis unfolding e by (auto intro!: bit_eqI simp: bit_simps dest: bit_imp_le_length)
qed

lemma gic_write_aligned_byte:
  assumes u: "unat off = 0x400 + 4 * k" and k: "8 \<le> k" "k < 256"
  shows "gic_write off (ucast (p :: u8)) 1 g =
    set_priority_range (4 * k) (ucast (ucast p :: u64)) 0 4 0 False g"
proof -
  have "unat (off mod 4) = 0" using u by (simp add: unat_mod)
  then have a3: "off AND 3 = 0" by (simp only: word_and_3 unat_eq_0)
  have span: "\<not> in_span a b off" if "unat a + unat b \<le> 0x400" for a b
    using that u by (auto simp: in_span_def word_le_nat_alt word_less_nat_alt unat_plus_no_wrap)
  have hi: "\<not> in_span a b off" if "0x1000 \<le> unat a" for a b
    using that u k by (auto simp: in_span_def word_le_nat_alt word_less_nat_alt)
  have nb: "\<not> is_write1_bitmap_register off"
    unfolding is_write1_bitmap_register_def kRedistBase_def
    by (simp only: de_Morgan_disj, intro conjI) (rule span hi; simp)+
  have al: "off AND NOT 3 = off" using a3 by (rule and_not_absorb)
  have "gic_write off (ucast p) 1 g = write_dist_reg32 off (ucast (ucast p :: u64)) g"
    using a3 al nb u k
    by (simp add: gic_write_def gic_size_ok_def Let_def gic_write32_def kDistSize_def word_less_nat_alt)
  also have "\<dots> = set_priority_range (4 * k) (ucast (ucast p :: u64)) 0 4 0 False g"
  proof -
    have "off \<noteq> 0" "off \<noteq> 4" "off \<noteq> 8" using u k by auto
    moreover have "in_span 0x400 1024 off"
      using u k by (simp add: in_span_def word_le_nat_alt word_less_nat_alt)
    moreover have "unat (off - 0x400) = 4 * k" using u by (subst unat_sub) (simp_all add: word_le_nat_alt)
    ultimately show ?thesis
      by (simp add: write_dist_reg32_def span)
  qed
  finally show ?thesis .
qed

lemma unat_priority_offset: "i < 1024 \<Longrightarrow> unat (0x400 + of_nat i :: u64) = 0x400 + i"
  by (subst unat_plus_no_wrap) (simp_all add: unat_of_nat)

text \<open>
  C37. A one-byte write to a word-aligned priority register of a shared interrupt also clears
  the priorities of the three interrupts after it, to the most urgent value: the byte is merged
  with the register only when the offset is not a multiple of four.
\<close>
theorem gic_byte_priority_write_clobbers:
  assumes "gic_wf g" "8 \<le> k" "k < 256"
  shows "gic_priority c (4 * k) (gic_write (0x400 + of_nat (4 * k)) (ucast (p :: u8)) 1 g) = p \<and>
    (\<forall>j\<in>{1, 2, 3}. gic_priority c (4 * k + j) (gic_write (0x400 + of_nat (4 * k)) (ucast p) 1 g) = 0)"
proof -
  have "unat (0x400 + of_nat (4 * k) :: u64) = 0x400 + 4 * k"
    using assms by (simp only: unat_priority_offset)
  note w = gic_write_aligned_byte [OF this assms(2,3), of p g]
  have len: "length (gic_spi_priorities g) = 992" using assms(1) by (simp add: gic_wf_def)
  have b: "ucast (drop_bit 8 (ucast (ucast p :: u64) :: u32) AND 0xFF) = (0 :: u8)"
    "ucast (drop_bit 16 (ucast (ucast p :: u64) :: u32) AND 0xFF) = (0 :: u8)"
    "ucast (drop_bit 24 (ucast (ucast p :: u64) :: u32) AND 0xFF) = (0 :: u8)"
    "ucast ((ucast (ucast p :: u64) :: u32) AND 0xFF) = p"
    unfolding ucast_and_FF
    by (auto intro!: bit_eqI simp: bit_simps) (use bit_imp_le_length [of p] in fastforce)+
  have up: "[0..<4] = [0, 1, 2, 3::nat]" by (simp add: upt_rec)
  show ?thesis
    unfolding w set_priority_range_def up
    using len assms(2,3)
    by (simp add: set_priority_byte_def Let_def gic_priority_def gic_constants spi_index_def b nth_list_update)
qed

theorem gic_byte_priority_write_clobbers_witness:
  "gic_priority 0 41 gic_new = 0xC0 \<and>
   gic_priority 0 41 (gic_write 0x428 (ucast (0xA0 :: u8)) 1 gic_new) = 0"
proof -
  have wf: "gic_wf gic_new"
    by (simp add: gic_wf_def gic_new_def set_cpu_count_def Let_def local_wf_def new_local_def gic_constants)
  have "gic_priority 0 41 gic_new = 0xC0"
    by (simp add: gic_priority_def gic_new_def set_cpu_count_def Let_def gic_constants spi_index_def kDefaultPriority_def)
  then show ?thesis
    using gic_byte_priority_write_clobbers [OF wf, of 10 0 "0xA0"] by simp
qed

section \<open>Software interrupts\<close>

text \<open>The CPUs a write of \<open>ICC_SGI1R_EL1\<close> addresses.\<close>
definition sgi_targets :: "nat \<Rightarrow> u64 \<Rightarrow> gic \<Rightarrow> nat set" where
  "sgi_targets source v g = {cpu. cpu < length (gic_locals g) \<and>
    (if drop_bit 40 v AND 1 \<noteq> 0 then cpu \<noteq> source
     else match_affinity cpu (ucast (drop_bit 48 v AND 0xFF)) (ucast (drop_bit 32 v AND 0xFF))
            (ucast (drop_bit 16 v AND 0xFF)) g \<and>
          unat (gl_mpidr (local_cpu cpu g) AND 0xFF) < 16 \<and>
          drop_bit (unat (gl_mpidr (local_cpu cpu g) AND 0xFF)) (ucast (v AND 0xFFFF) :: u16) AND 1 \<noteq> 0)}"

lemma put_pending_mpidr:
  "gic_wf g \<Longrightarrow> gl_mpidr (local_cpu d (set_local_pending_bit c i v g)) = gl_mpidr (local_cpu d g)"
  "length (gic_locals (set_local_pending_bit c i v g)) = length (gic_locals g)"
  by (auto simp: set_local_pending_bit_def local_cpu_update_local)

lemma sgi_loop:
  assumes "gic_wf g" "n \<le> length (gic_locals g)" "i = unat (drop_bit 24 v AND 0xF)" "i < 16"
  shows "gic_wf (fold (sgi_to_cpu src v) [0..<n] g) \<and>
    length (gic_locals (fold (sgi_to_cpu src v) [0..<n] g)) = length (gic_locals g) \<and>
    (\<forall>d. gl_mpidr (local_cpu d (fold (sgi_to_cpu src v) [0..<n] g)) = gl_mpidr (local_cpu d g)) \<and>
    (\<forall>d<length (gic_locals g). \<forall>j<1024. irq_pending_on d j (fold (sgi_to_cpu src v) [0..<n] g) \<longleftrightarrow>
      irq_pending_on d j g \<or> j = i \<and> d < n \<and> d \<in> sgi_targets src v g)"
  using assms(2)
proof (induction n)
  case 0
  then show ?case using assms(1) by simp
next
  case (Suc n)
  let ?h = "fold (sgi_to_cpu src v) [0..<n] g"
  have IH: "gic_wf ?h" "length (gic_locals ?h) = length (gic_locals g)"
    "\<And>d. gl_mpidr (local_cpu d ?h) = gl_mpidr (local_cpu d g)"
    "\<And>d j. d < length (gic_locals g) \<Longrightarrow> j < 1024 \<Longrightarrow> irq_pending_on d j ?h \<longleftrightarrow>
      irq_pending_on d j g \<or> j = i \<and> d < n \<and> d \<in> sgi_targets src v g"
    using Suc by auto
  have step: "sgi_to_cpu src v n ?h = (if n \<in> sgi_targets src v g then set_local_pending_bit n i True ?h else ?h)"
    using Suc.prems assms(3)
    by (auto simp: sgi_to_cpu_def Let_def sgi_targets_def match_affinity_def IH(3))
  have put: "set_local_pending_bit n i True ?h = put_pending n i True ?h"
    using assms(4) by (simp add: put_pending_def is_local_intid_def gic_constants)
  have idx: "local_index d ?h = d" if "d < length (gic_locals g)" for d
    using that IH(2) by (simp add: local_index_def)
  have pend: "irq_pending_on d j (put_pending n i True ?h) \<longleftrightarrow> irq_pending_on d j ?h \<or> j = i \<and> d = n"
    if "d < length (gic_locals g)" "j < 1024" for d j
    using put_pending_fields(1) [OF IH(1), of i j d n True] that assms(4) idx Suc.prems
    by (auto simp: same_irq_def)
  have wf: "gic_wf (put_pending n i True ?h)"
    by (rule put_pending_fields(6) [OF IH(1), of i 0]) (use assms(4) in simp_all)
  have f: "fold (sgi_to_cpu src v) [0..<Suc n] g = sgi_to_cpu src v n ?h" by simp
  show ?case
  proof (cases "n \<in> sgi_targets src v g")
    case True
    then have e: "sgi_to_cpu src v n ?h = put_pending n i True ?h" using step put by simp
    show ?thesis
      unfolding f e
      using wf IH pend True put_pending_mpidr(1) [OF IH(1), of _ n i True]
        put_pending_mpidr(2) [of n i True ?h] put
      by (auto simp: less_Suc_eq)
  next
    case False
    then show ?thesis unfolding f step using IH by (auto simp: less_Suc_eq)
  qed
qed



section \<open>Snapshot round trip\<close>

definition enc_local :: "gic_local \<Rightarrow> u8 list" where
  "enc_local l = concat
    [concat (map enc_bool (gl_pending l)), concat (map enc_bool (gl_enabled l)),
     concat (map enc_bool (gl_active l)), concat (map enc_bool (gl_line_level l)),
     concat (map (le_bytes 1) (gl_priorities l)), le_bytes 4 (gl_waker l), le_bytes 4 (gl_igroupr0 l),
     le_bytes 4 (gl_icfgr0 l), le_bytes 4 (gl_icfgr1 l), le_bytes 8 (gl_mpidr l)]"

definition gic_enc :: "gic \<Rightarrow> u8 list" where
  "gic_enc g = concat
    [le_bytes 4 (of_nat (length (gic_locals g)) :: u32),
     concat (map enc_bool (gic_spi_pending g)), concat (map enc_bool (gic_spi_enabled g)),
     concat (map enc_bool (gic_spi_active g)), concat (map enc_bool (gic_spi_line_level g)),
     concat (map (le_bytes 1) (gic_spi_priorities g)), le_bytes 4 (gic_ctlr g),
     concat (map enc_local (gic_locals g))]"

lemma emits_save_local: "emits (save_local l) (enc_local l)"
  unfolding save_local_def enc_local_def
  by (rule emits_write_seq) (simp add: snapshot_emits del: One_nat_def)

lemma emits_gic_save: "emits (gic_save_state g) (gic_enc g)"
proof -
  have "emits (write_seq (map save_local ls)) (concat (map enc_local ls))" for ls
    by (rule emits_write_seq) (simp add: list_all2_conv_all_nth emits_save_local)
  then show ?thesis
    unfolding gic_save_state_def gic_enc_def
    by (intro emits_write_seq) (simp add: snapshot_emits del: One_nat_def)
qed

lemma absorbs_load_local:
  assumes "local_wf l" "local_wf l0"
  shows "absorbs load_local (enc_local l) l0 l"
  unfolding load_local_def enc_local_def concat.simps
  by (rule absorbs_steps array_readers | (use assms in \<open>simp add: local_wf_def\<close>; fail))+

text \<open>A restored controller: the saved state, no cached query, and an epoch past the old one.\<close>
definition gic_restore :: "gic \<Rightarrow> gic \<Rightarrow> gic" where
  "gic_restore g g0 = g0\<lparr>gic_cpu_count := length (gic_locals g), gic_locals := gic_locals g,
     gic_spi_pending := gic_spi_pending g, gic_spi_enabled := gic_spi_enabled g,
     gic_spi_active := gic_spi_active g, gic_spi_line_level := gic_spi_line_level g,
     gic_spi_priorities := gic_spi_priorities g, gic_ctlr := gic_ctlr g,
     gic_cache := replicate (length (gic_locals g)) new_cache, gic_epoch := gic_epoch g0 + 3\<rparr>"

definition gic_savable :: "gic \<Rightarrow> bool" where
  "gic_savable g \<longleftrightarrow> gic_wf g \<and> length (gic_locals g) < 2 ^ 32"

lemma absorbs_gic_load:
  assumes g: "gic_savable g" and g0: "gic_wf g0" and v: "5 \<le> version"
  shows "absorbs (gic_load_state version) (gic_enc g) g0 (gic_restore g g0)"
proof -
  let ?n = "of_nat (length (gic_locals g)) :: u32"
  let ?fresh = "new_local\<lparr>gl_priorities := replicate kLocalIntIds kDefaultPriority\<rparr>"
  have wf: "gic_wf g" and pos: "0 < length (gic_locals g)" and n: "unat ?n = length (gic_locals g)"
    using g by (auto simp: gic_savable_def gic_wf_def unat_of_nat)
  then have nz: "?n \<noteq> 0" by auto
  have fresh: "local_wf ?fresh" by (simp add: local_wf_def new_local_def gic_constants)
  have locals: "absorbs (read_array load_local) (concat (map enc_local (gic_locals g)))
      (replicate (length (gic_locals g)) ?fresh) (gic_locals g)"
    by (rule absorbs_read_array)
      (use wf fresh in \<open>auto simp: list_all2_conv_all_nth gic_wf_def list_all_length intro!: absorbs_load_local\<close>)
  let ?b = "set_cpu_count (unat ?n) (gic_load_begin g0)"
  have len: "length (gic_spi_pending ?b) = 992" "length (gic_spi_enabled ?b) = 992"
    "length (gic_spi_active ?b) = 992" "length (gic_spi_line_level ?b) = 992" "length (gic_spi_priorities ?b) = 992"
    "gic_locals ?b = replicate (length (gic_locals g)) ?fresh"
    using g0 pos by (simp_all add: n set_cpu_count_def gic_load_begin_def gic_wf_def Let_def max_def Suc_le_eq)
  have 1: "absorbs gic_load_v5 (gic_enc g) (gic_load_begin g0)
      (?b\<lparr>gic_spi_pending := gic_spi_pending g, gic_spi_enabled := gic_spi_enabled g,
        gic_spi_active := gic_spi_active g, gic_spi_line_level := gic_spi_line_level g,
        gic_spi_priorities := gic_spi_priorities g, gic_ctlr := gic_ctlr g, gic_locals := gic_locals g\<rparr>)"
  proof -
    have "absorbs gic_load_v5 (le_bytes 4 ?n @ [] @ [] @ concat
      [concat (map enc_bool (gic_spi_pending g)), concat (map enc_bool (gic_spi_enabled g)),
       concat (map enc_bool (gic_spi_active g)), concat (map enc_bool (gic_spi_line_level g)),
       concat (map (le_bytes 1) (gic_spi_priorities g)), le_bytes 4 (gic_ctlr g),
       concat (map enc_local (gic_locals g))]) (gic_load_begin g0)
      (?b\<lparr>gic_spi_pending := gic_spi_pending g, gic_spi_enabled := gic_spi_enabled g,
        gic_spi_active := gic_spi_active g, gic_spi_line_level := gic_spi_line_level g,
        gic_spi_priorities := gic_spi_priorities g, gic_ctlr := gic_ctlr g, gic_locals := gic_locals g\<rparr>)"
      unfolding gic_load_v5_def concat.simps
      by (rule absorbs_steps array_readers nz refl locals
          | (use wf len locals in \<open>simp add: gic_wf_def\<close>; fail))+
    then show ?thesis by (simp add: gic_enc_def)
  qed
  have 2: "gic_load_end (?b\<lparr>gic_spi_pending := gic_spi_pending g, gic_spi_enabled := gic_spi_enabled g,
        gic_spi_active := gic_spi_active g, gic_spi_line_level := gic_spi_line_level g,
        gic_spi_priorities := gic_spi_priorities g, gic_ctlr := gic_ctlr g, gic_locals := gic_locals g\<rparr>)
      = gic_restore g g0"
    using pos by (simp add: gic_load_end_def bump_epoch_def set_cpu_count_def gic_load_begin_def gic_restore_def
        Let_def n max_def Suc_le_eq)
  have "absorbs (gic_load_state version) ([] @ gic_enc g @ [] @ []) g0 (gic_restore g g0)"
    unfolding gic_load_state_def [abs_def] using v
    by (simp only: if_True) (rule absorbs_steps 1 2)+
  then show ?thesis by simp
qed

interpretation gic_snapshot: snapshot_component gic_save_state "gic_load_state 5" gic_enc
    gic_savable "\<lambda>_ g0. gic_wf g0" gic_restore
  by unfold_locales (rule emits_gic_save, rule absorbs_gic_load, auto)

lemma same_view_restore:
  "gic_wf g \<Longrightarrow> same_view g (gic_restore g g0)"
  by (simp add: same_view_def gic_restore_def local_cpu_def local_index_def)



end
