(* ===== verification/Generic_Timer.thy ===== *)
theory Generic_Timer
  imports Snapshot_Io
begin

text \<open>
  Model of \<open>src/src/generic_timer.cpp\<close>: the memory-mapped timer and the virtual and physical
  generic timer channels of every CPU, on a counter that advances with the guest's steps or with
  the host's monotonic clock. Host clock readings are arguments, in the order the code takes
  them; CPU indices are natural numbers. The trace on \<open>stderr\<close> is left out.
\<close>

section \<open>State\<close>

datatype clock_mode = Guest_Step | Host_Monotonic

record timer_channel =
  tc_cval :: u64
  tc_enable :: bool
  tc_imask :: bool
  tc_fired :: bool
  tc_irq_pending :: bool

record timer_cpu =
  tcpu_cntv :: timer_channel
  tcpu_cntp :: timer_channel

record timer =
  tm_cpu_count :: nat
  tm_cpu_states :: "timer_cpu list"
  tm_counter :: u64
  tm_step_anchor :: u64
  tm_cycles_per_step :: u64
  tm_clock_mode :: clock_mode
  tm_host_anchor_ns :: u64
  tm_compare :: u64
  tm_enabled :: bool
  tm_mmio_irq_pending :: bool
  tm_fired :: bool
  tm_observer :: bool
  tm_notified :: nat

definition new_channel :: timer_channel where
  "new_channel = \<lparr>tc_cval = 0, tc_enable = False, tc_imask = False, tc_fired = False, tc_irq_pending = False\<rparr>"

definition new_timer_cpu :: timer_cpu where
  "new_timer_cpu = \<lparr>tcpu_cntv = new_channel, tcpu_cntp = new_channel\<rparr>"

definition timer_new :: timer where
  "timer_new = \<lparr>tm_cpu_count = 1, tm_cpu_states = [new_timer_cpu], tm_counter = 0, tm_step_anchor = 0,
    tm_cycles_per_step = 1, tm_clock_mode = Guest_Step, tm_host_anchor_ns = 0, tm_compare = 0,
    tm_enabled = False, tm_mmio_irq_pending = False, tm_fired = False, tm_observer = False, tm_notified = 0\<rparr>"

definition parse_clock_mode :: "string \<Rightarrow> clock_mode option" where
  "parse_clock_mode text =
    (if text = ''step'' then Some Guest_Step else if text = ''host'' then Some Host_Monotonic else None)"

fun clock_mode_name :: "clock_mode \<Rightarrow> string" where
  "clock_mode_name Guest_Step = ''step''"
| "clock_mode_name Host_Monotonic = ''host''"

section \<open>The counter\<close>

definition ns_to_cycles :: "u64 \<Rightarrow> u64 \<Rightarrow> u64" where
  "ns_to_cycles elapsed_ns freq_hz =
    (let whole_seconds = elapsed_ns div 1000000000;
         rem_ns = elapsed_ns mod 1000000000
     in whole_seconds * freq_hz + ((rem_ns * freq_hz) div 1000000000))"

definition counter_at_steps :: "u64 \<Rightarrow> u64 \<Rightarrow> timer \<Rightarrow> u64" where
  "counter_at_steps now_ns steps t =
    (if tm_clock_mode t = Host_Monotonic then
       let elapsed_ns = (if now_ns \<ge> tm_host_anchor_ns t then now_ns - tm_host_anchor_ns t else 0)
       in tm_counter t + ns_to_cycles elapsed_ns 100000000
     else tm_counter t + (steps - tm_step_anchor t) * tm_cycles_per_step t)"

section \<open>Channels\<close>

definition read_ctl :: "timer_channel \<Rightarrow> u64 \<Rightarrow> u64" where
  "read_ctl ch current =
    (let istatus = tc_enable ch \<and> current \<ge> tc_cval ch in
     (if tc_enable ch then 1 else 0) OR (if tc_imask ch then 2 else 0) OR (if istatus then 4 else 0))"

definition read_tval :: "timer_channel \<Rightarrow> u64 \<Rightarrow> u64" where
  "read_tval ch current = ucast (ucast (tc_cval ch - current) :: u32)"

definition write_ctl :: "u64 \<Rightarrow> timer_channel \<Rightarrow> timer_channel" where
  "write_ctl v ch = ch\<lparr>tc_enable := (v AND 1 \<noteq> 0), tc_imask := (v AND 2 \<noteq> 0)\<rparr>"

definition write_cval :: "u64 \<Rightarrow> timer_channel \<Rightarrow> timer_channel" where
  "write_cval v ch = ch\<lparr>tc_cval := v\<rparr>"

definition write_tval :: "u64 \<Rightarrow> u64 \<Rightarrow> timer_channel \<Rightarrow> timer_channel" where
  "write_tval current v ch =
    (let sval = scast (ucast (v AND 0xFFFFFFFF) :: u32) :: u64
     in ch\<lparr>tc_cval := current + sval\<rparr>)"

definition steps_until_channel_irq :: "timer_channel \<Rightarrow> u64 \<Rightarrow> u64 \<Rightarrow> u64 \<Rightarrow> u64" where
  "steps_until_channel_irq ch current cycles_per_step max_steps =
    (if \<not> tc_enable ch \<or> tc_imask ch \<or> max_steps = 0 then max_steps
     else if current \<ge> tc_cval ch then 0
     else if cycles_per_step = 0 then max_steps
     else
       let cycles = tc_cval ch - current;
           steps_needed = (cycles + cycles_per_step - 1) div cycles_per_step
       in min max_steps steps_needed)"

definition update_channel_irq :: "u64 \<Rightarrow> timer_channel \<Rightarrow> timer_channel" where
  "update_channel_irq current ch =
    ch\<lparr>tc_irq_pending := (tc_enable ch \<and> \<not> tc_imask ch \<and> current \<ge> tc_cval ch)\<rparr>"

definition update_cpu_irq :: "u64 \<Rightarrow> timer_cpu \<Rightarrow> timer_cpu" where
  "update_cpu_irq current c =
    c\<lparr>tcpu_cntv := update_channel_irq current (tcpu_cntv c),
      tcpu_cntp := update_channel_irq current (tcpu_cntp c)\<rparr>"

definition update_irq_state :: "timer \<Rightarrow> timer" where
  "update_irq_state t =
    (let t = (if tm_enabled t \<and> \<not> tm_mmio_irq_pending t \<and> \<not> tm_fired t \<and> tm_counter t \<ge> tm_compare t
              then t\<lparr>tm_mmio_irq_pending := True, tm_fired := True\<rparr> else t)
     in t\<lparr>tm_cpu_states := map (update_cpu_irq (tm_counter t)) (tm_cpu_states t)\<rparr>)"

definition notify_state_change :: "timer \<Rightarrow> timer" where
  "notify_state_change t = (if tm_observer t then t\<lparr>tm_notified := tm_notified t + 1\<rparr> else t)"

section \<open>Operations\<close>

definition timer_set_cpu_count :: "nat \<Rightarrow> timer \<Rightarrow> timer" where
  "timer_set_cpu_count n t =
    (let count = max 1 n in
     t\<lparr>tm_cpu_count := count,
       tm_cpu_states := take count (tm_cpu_states t) @
         replicate (count - length (tm_cpu_states t)) new_timer_cpu\<rparr>)"

definition timer_index :: "nat \<Rightarrow> timer \<Rightarrow> nat" where
  "timer_index cpu t = min cpu (length (tm_cpu_states t) - 1)"

definition cpu_state :: "nat \<Rightarrow> timer \<Rightarrow> timer_cpu" where
  "cpu_state cpu t = tm_cpu_states t ! timer_index cpu t"

definition update_cpu :: "nat \<Rightarrow> (timer_cpu \<Rightarrow> timer_cpu) \<Rightarrow> timer \<Rightarrow> timer" where
  "update_cpu cpu f t =
    t\<lparr>tm_cpu_states := (tm_cpu_states t)[timer_index cpu t := f (cpu_state cpu t)]\<rparr>"

definition timer_read :: "u64 \<Rightarrow> usize \<Rightarrow> u64 \<Rightarrow> timer \<Rightarrow> u64" where
  "timer_read offset sz now_ns t =
    (if sz \<noteq> 8 \<and> sz \<noteq> 4 then 0
     else if offset = 0x00 then counter_at_steps now_ns (tm_step_anchor t) t
     else if offset = 0x08 then tm_compare t
     else if offset = 0x10 then
       (if tm_enabled t then 1 else 0) OR (if tm_mmio_irq_pending t then 2 else 0)
     else 0)"

definition timer_write :: "u64 \<Rightarrow> u64 \<Rightarrow> usize \<Rightarrow> timer \<Rightarrow> timer" where
  "timer_write offset v sz t =
    (if sz \<noteq> 8 \<and> sz \<noteq> 4 then t
     else if offset = 0x08 then
       notify_state_change (update_irq_state
         (t\<lparr>tm_compare := v, tm_mmio_irq_pending := False, tm_fired := False\<rparr>))
     else if offset = 0x10 then
       let t = t\<lparr>tm_enabled := (v AND 1 \<noteq> 0)\<rparr>;
           t = (if \<not> tm_enabled t then t\<lparr>tm_mmio_irq_pending := False, tm_fired := False\<rparr> else t);
           t = (if v AND 2 \<noteq> 0 then t\<lparr>tm_mmio_irq_pending := False\<rparr> else t)
       in notify_state_change (update_irq_state t)
     else t)"

definition tick :: "u64 \<Rightarrow> u64 \<Rightarrow> timer \<Rightarrow> timer" where
  "tick cycles now_ns t =
    (let t = t\<lparr>tm_counter := tm_counter t + cycles\<rparr>;
         t = (if tm_clock_mode t = Host_Monotonic then t\<lparr>tm_host_anchor_ns := now_ns\<rparr> else t)
     in update_irq_state t)"

text \<open>\<open>t1\<close> is the host clock when the counter is read, \<open>t2\<close> when the anchor is set.\<close>
definition set_clock_mode :: "clock_mode \<Rightarrow> u64 \<Rightarrow> u64 \<Rightarrow> u64 \<Rightarrow> timer \<Rightarrow> timer" where
  "set_clock_mode mode steps t1 t2 t =
    notify_state_change (update_irq_state
      (t\<lparr>tm_counter := counter_at_steps t1 steps t, tm_step_anchor := steps,
         tm_host_anchor_ns := t2, tm_clock_mode := mode\<rparr>))"

definition sync_to_steps :: "u64 \<Rightarrow> u64 \<Rightarrow> u64 \<Rightarrow> timer \<Rightarrow> timer" where
  "sync_to_steps steps t1 t2 t =
    (let t = t\<lparr>tm_counter := counter_at_steps t1 steps t, tm_step_anchor := steps\<rparr>;
         t = (if tm_clock_mode t = Host_Monotonic then t\<lparr>tm_host_anchor_ns := t2\<rparr> else t)
     in update_irq_state t)"

definition rebase_to_steps :: "u64 \<Rightarrow> timer \<Rightarrow> timer" where
  "rebase_to_steps steps t = t\<lparr>tm_step_anchor := steps\<rparr>"

definition set_cycles_per_step :: "u64 \<Rightarrow> timer \<Rightarrow> timer" where
  "set_cycles_per_step v t = t\<lparr>tm_cycles_per_step := v\<rparr>"

definition timer_set_observer :: "bool \<Rightarrow> timer \<Rightarrow> timer" where
  "timer_set_observer present t = t\<lparr>tm_observer := present\<rparr>"

definition steps_until_cpu_irq :: "nat \<Rightarrow> u64 \<Rightarrow> u64 \<Rightarrow> u64 \<Rightarrow> timer \<Rightarrow> u64" where
  "steps_until_cpu_irq cpu now_ns steps max_steps t =
    (if tm_clock_mode t = Host_Monotonic then max_steps
     else if max_steps = 0 then 0
     else
       let c = cpu_state cpu t in
       if tm_mmio_irq_pending t \<or> tc_irq_pending (tcpu_cntv c) \<or> tc_irq_pending (tcpu_cntp c) then 0
       else
         let current = counter_at_steps now_ns steps t;
             best = max_steps;
             best = (if tm_enabled t \<and> \<not> tm_fired t then
                       if current \<ge> tm_compare t then 0
                       else if tm_cycles_per_step t \<noteq> 0 then
                         let cycles = tm_compare t - current;
                             steps_needed = (cycles + tm_cycles_per_step t - 1) div tm_cycles_per_step t
                         in min best steps_needed
                       else best
                     else best);
             best = min best (steps_until_channel_irq (tcpu_cntv c) current (tm_cycles_per_step t) best)
         in min best (steps_until_channel_irq (tcpu_cntp c) current (tm_cycles_per_step t) best))"

text \<open>The loop over the CPUs stops at zero: no later minimum changes it.\<close>
fun steps_until_loop :: "nat list \<Rightarrow> u64 \<Rightarrow> u64 \<Rightarrow> timer \<Rightarrow> u64 \<Rightarrow> u64" where
  "steps_until_loop [] now_ns steps t best = best"
| "steps_until_loop (cpu # cpus) now_ns steps t best =
    (let best = min best (steps_until_cpu_irq cpu now_ns steps best t)
     in if best = 0 then best else steps_until_loop cpus now_ns steps t best)"

definition steps_until_irq :: "u64 \<Rightarrow> u64 \<Rightarrow> u64 \<Rightarrow> timer \<Rightarrow> u64" where
  "steps_until_irq now_ns steps max_steps t =
    (if tm_clock_mode t = Host_Monotonic then max_steps
     else steps_until_loop [0..<length (tm_cpu_states t)] now_ns steps t max_steps)"

definition timer_irq_pending :: "timer \<Rightarrow> bool" where
  "timer_irq_pending t = tm_mmio_irq_pending t"

definition clear_irq :: "timer \<Rightarrow> timer" where
  "clear_irq t = t\<lparr>tm_mmio_irq_pending := False\<rparr>"

definition irq_pending_virtual :: "nat \<Rightarrow> timer \<Rightarrow> bool" where
  "irq_pending_virtual cpu t = tc_irq_pending (tcpu_cntv (cpu_state cpu t))"

definition irq_pending_physical :: "nat \<Rightarrow> timer \<Rightarrow> bool" where
  "irq_pending_physical cpu t = tc_irq_pending (tcpu_cntp (cpu_state cpu t))"

definition clear_virtual_irq :: "nat \<Rightarrow> timer \<Rightarrow> timer" where
  "clear_virtual_irq cpu t =
    update_cpu cpu (\<lambda>c. c\<lparr>tcpu_cntv := (tcpu_cntv c)\<lparr>tc_irq_pending := False\<rparr>\<rparr>) t"

definition clear_physical_irq :: "nat \<Rightarrow> timer \<Rightarrow> timer" where
  "clear_physical_irq cpu t =
    update_cpu cpu (\<lambda>c. c\<lparr>tcpu_cntp := (tcpu_cntp c)\<lparr>tc_irq_pending := False\<rparr>\<rparr>) t"

section \<open>System registers of the channels\<close>

definition read_cntv_ctl_el0 :: "nat \<Rightarrow> u64 \<Rightarrow> u64 \<Rightarrow> timer \<Rightarrow> u64" where
  "read_cntv_ctl_el0 cpu steps now_ns t =
    read_ctl (tcpu_cntv (cpu_state cpu t)) (counter_at_steps now_ns steps t)"

definition write_cntv_ctl_el0 :: "nat \<Rightarrow> u64 \<Rightarrow> u64 \<Rightarrow> u64 \<Rightarrow> u64 \<Rightarrow> timer \<Rightarrow> timer" where
  "write_cntv_ctl_el0 cpu steps v t1 t2 t =
    (let t = sync_to_steps steps t1 t2 t;
         t = update_cpu cpu (\<lambda>c. c\<lparr>tcpu_cntv := write_ctl v (tcpu_cntv c)\<rparr>) t
     in notify_state_change (update_irq_state t))"

definition read_cntv_cval_el0 :: "nat \<Rightarrow> timer \<Rightarrow> u64" where
  "read_cntv_cval_el0 cpu t = tc_cval (tcpu_cntv (cpu_state cpu t))"

definition write_cntv_cval_el0 :: "nat \<Rightarrow> u64 \<Rightarrow> u64 \<Rightarrow> u64 \<Rightarrow> u64 \<Rightarrow> timer \<Rightarrow> timer" where
  "write_cntv_cval_el0 cpu steps v t1 t2 t =
    (let t = sync_to_steps steps t1 t2 t;
         t = update_cpu cpu (\<lambda>c. c\<lparr>tcpu_cntv := write_cval v (tcpu_cntv c)\<rparr>) t
     in notify_state_change (update_irq_state t))"

definition read_cntv_tval_el0 :: "nat \<Rightarrow> u64 \<Rightarrow> u64 \<Rightarrow> timer \<Rightarrow> u64" where
  "read_cntv_tval_el0 cpu steps now_ns t =
    read_tval (tcpu_cntv (cpu_state cpu t)) (counter_at_steps now_ns steps t)"

definition write_cntv_tval_el0 :: "nat \<Rightarrow> u64 \<Rightarrow> u64 \<Rightarrow> u64 \<Rightarrow> u64 \<Rightarrow> timer \<Rightarrow> timer" where
  "write_cntv_tval_el0 cpu steps v t1 t2 t =
    (let t = sync_to_steps steps t1 t2 t;
         t = update_cpu cpu (\<lambda>c. c\<lparr>tcpu_cntv := write_tval (tm_counter t) v (tcpu_cntv c)\<rparr>) t
     in notify_state_change (update_irq_state t))"

definition read_cntp_ctl_el0 :: "nat \<Rightarrow> u64 \<Rightarrow> u64 \<Rightarrow> timer \<Rightarrow> u64" where
  "read_cntp_ctl_el0 cpu steps now_ns t =
    read_ctl (tcpu_cntp (cpu_state cpu t)) (counter_at_steps now_ns steps t)"

definition write_cntp_ctl_el0 :: "nat \<Rightarrow> u64 \<Rightarrow> u64 \<Rightarrow> u64 \<Rightarrow> u64 \<Rightarrow> timer \<Rightarrow> timer" where
  "write_cntp_ctl_el0 cpu steps v t1 t2 t =
    (let t = sync_to_steps steps t1 t2 t;
         t = update_cpu cpu (\<lambda>c. c\<lparr>tcpu_cntp := write_ctl v (tcpu_cntp c)\<rparr>) t
     in notify_state_change (update_irq_state t))"

definition read_cntp_cval_el0 :: "nat \<Rightarrow> timer \<Rightarrow> u64" where
  "read_cntp_cval_el0 cpu t = tc_cval (tcpu_cntp (cpu_state cpu t))"

definition write_cntp_cval_el0 :: "nat \<Rightarrow> u64 \<Rightarrow> u64 \<Rightarrow> u64 \<Rightarrow> u64 \<Rightarrow> timer \<Rightarrow> timer" where
  "write_cntp_cval_el0 cpu steps v t1 t2 t =
    (let t = sync_to_steps steps t1 t2 t;
         t = update_cpu cpu (\<lambda>c. c\<lparr>tcpu_cntp := write_cval v (tcpu_cntp c)\<rparr>) t
     in notify_state_change (update_irq_state t))"

definition read_cntp_tval_el0 :: "nat \<Rightarrow> u64 \<Rightarrow> u64 \<Rightarrow> timer \<Rightarrow> u64" where
  "read_cntp_tval_el0 cpu steps now_ns t =
    read_tval (tcpu_cntp (cpu_state cpu t)) (counter_at_steps now_ns steps t)"

definition write_cntp_tval_el0 :: "nat \<Rightarrow> u64 \<Rightarrow> u64 \<Rightarrow> u64 \<Rightarrow> u64 \<Rightarrow> timer \<Rightarrow> timer" where
  "write_cntp_tval_el0 cpu steps v t1 t2 t =
    (let t = sync_to_steps steps t1 t2 t;
         t = update_cpu cpu (\<lambda>c. c\<lparr>tcpu_cntp := write_tval (tm_counter t) v (tcpu_cntp c)\<rparr>) t
     in notify_state_change (update_irq_state t))"

section \<open>Snapshot\<close>

definition save_timer_cpu :: "timer_cpu \<Rightarrow> writer" where
  "save_timer_cpu c = write_seq
    [snap_write (tc_cval (tcpu_cntv c)), write_bool (tc_enable (tcpu_cntv c)),
     write_bool (tc_imask (tcpu_cntv c)), write_bool (tc_fired (tcpu_cntv c)),
     write_bool (tc_irq_pending (tcpu_cntv c)),
     snap_write (tc_cval (tcpu_cntp c)), write_bool (tc_enable (tcpu_cntp c)),
     write_bool (tc_imask (tcpu_cntp c)), write_bool (tc_fired (tcpu_cntp c)),
     write_bool (tc_irq_pending (tcpu_cntp c))]"

definition timer_save_state :: "timer \<Rightarrow> writer" where
  "timer_save_state t = write_seq
    [snap_write (tm_counter t), snap_write (tm_compare t), write_bool (tm_enabled t),
     write_bool (tm_mmio_irq_pending t), write_bool (tm_fired t),
     snap_write (of_nat (length (tm_cpu_states t)) :: u32),
     write_seq (map save_timer_cpu (tm_cpu_states t))]"

definition load_channel_head :: "timer_channel reader list" where
  "load_channel_head =
    [read_into snap_read tc_cval tc_cval_update, read_into read_bool tc_enable tc_enable_update,
     read_into read_bool tc_imask tc_imask_update, read_into read_bool tc_fired tc_fired_update]"

definition load_channel :: "timer_channel reader" where
  "load_channel = read_seq (load_channel_head @ [read_into read_bool tc_irq_pending tc_irq_pending_update])"

definition load_timer_cpu :: "timer_cpu reader" where
  "load_timer_cpu = read_seq
    [read_into load_channel tcpu_cntv tcpu_cntv_update, read_into load_channel tcpu_cntp tcpu_cntp_update]"

text \<open>Before version 3: one CPU; before version 2: only its virtual channel, without the pending flag.\<close>
definition load_timer_cpu_old :: "u32 \<Rightarrow> timer_cpu reader" where
  "load_timer_cpu_old version =
    (if version \<ge> 2 then load_timer_cpu
     else read_into (read_seq load_channel_head) tcpu_cntv tcpu_cntv_update)"

definition timer_load_begin :: "u64 \<Rightarrow> timer \<Rightarrow> timer" where
  "timer_load_begin now_ns t = t\<lparr>tm_step_anchor := 0, tm_cycles_per_step := 1, tm_cpu_count := 1,
     tm_cpu_states := [new_timer_cpu], tm_clock_mode := Guest_Step, tm_host_anchor_ns := now_ns\<rparr>"

definition timer_load_cpus :: "u32 \<Rightarrow> timer reader" where
  "timer_load_cpus version =
    (if version \<ge> 3 then
       read_local snap_read (0 :: u32) (\<lambda>count. read_seq
        [read_check (\<lambda>_. count \<noteq> 0),
         read_finish (\<lambda>t. t\<lparr>tm_cpu_count := unat count,
           tm_cpu_states := replicate (unat count) new_timer_cpu\<rparr>),
         read_into (read_array load_timer_cpu) tm_cpu_states tm_cpu_states_update])
     else read_into (read_array (load_timer_cpu_old version)) tm_cpu_states tm_cpu_states_update)"

definition timer_load_state :: "u32 \<Rightarrow> u64 \<Rightarrow> timer reader" where
  "timer_load_state version now_ns = read_seq
    [read_finish (timer_load_begin now_ns),
     read_into snap_read tm_counter tm_counter_update, read_into snap_read tm_compare tm_compare_update,
     read_into read_bool tm_enabled tm_enabled_update,
     read_into read_bool tm_mmio_irq_pending tm_mmio_irq_pending_update,
     read_into read_bool tm_fired tm_fired_update,
     timer_load_cpus version, read_finish update_irq_state]"

section \<open>Lemmas\<close>

lemma counter_update_irq [simp]:
  "tm_counter (update_irq_state t) = tm_counter t" "tm_step_anchor (update_irq_state t) = tm_step_anchor t"
  "tm_cycles_per_step (update_irq_state t) = tm_cycles_per_step t"
  "tm_clock_mode (update_irq_state t) = tm_clock_mode t" "tm_enabled (update_irq_state t) = tm_enabled t"
  "tm_compare (update_irq_state t) = tm_compare t"
  "tm_cpu_states (update_irq_state t) = map (update_cpu_irq (tm_counter t)) (tm_cpu_states t)"
  "length (tm_cpu_states (update_irq_state t)) = length (tm_cpu_states t)"
  by (simp_all add: update_irq_state_def Let_def)

lemma counter_notify [simp]:
  "tm_counter (notify_state_change t) = tm_counter t" "tm_step_anchor (notify_state_change t) = tm_step_anchor t"
  "tm_cycles_per_step (notify_state_change t) = tm_cycles_per_step t"
  "tm_clock_mode (notify_state_change t) = tm_clock_mode t"
  "tm_cpu_states (notify_state_change t) = tm_cpu_states t"
  by (simp_all add: notify_state_change_def)

lemma update_channel_idem [simp]:
  "update_channel_irq c (update_channel_irq c' ch) = update_channel_irq c ch"
  by (simp add: update_channel_irq_def)

lemma update_cpu_irq_idem [simp]: "update_cpu_irq c (update_cpu_irq c' s) = update_cpu_irq c s"
  by (simp add: update_cpu_irq_def)

text \<open>Steps counted from the anchor, without wrap of the counter up to \<open>steps\<close>.\<close>
definition steps_in_range :: "timer \<Rightarrow> u64 \<Rightarrow> bool" where
  "steps_in_range t steps \<longleftrightarrow> tm_clock_mode t = Guest_Step \<and> tm_step_anchor t \<le> steps \<and>
    unat (tm_counter t) + (unat steps - unat (tm_step_anchor t)) * unat (tm_cycles_per_step t) < 2 ^ 64"

lemma counter_in_range:
  assumes "steps_in_range t steps"
  shows "unat (counter_at_steps now steps t) =
    unat (tm_counter t) + (unat steps - unat (tm_step_anchor t)) * unat (tm_cycles_per_step t)"
proof -
  let ?d = "steps - tm_step_anchor t"
  have d: "unat ?d = unat steps - unat (tm_step_anchor t)"
    using assms by (simp add: steps_in_range_def unat_sub)
  have b: "unat (tm_counter t) + unat ?d * unat (tm_cycles_per_step t) < 2 ^ 64"
    using assms by (simp add: steps_in_range_def d)
  then have m: "unat (?d * tm_cycles_per_step t) = unat ?d * unat (tm_cycles_per_step t)"
    by (simp add: unat_word_ariths)
  have "counter_at_steps now steps t = tm_counter t + ?d * tm_cycles_per_step t"
    using assms by (simp add: counter_at_steps_def steps_in_range_def)
  then show ?thesis using b m d by (simp add: unat_plus_no_wrap)
qed

lemma counter_sync_guest:
  assumes "tm_clock_mode t = Guest_Step"
  shows "counter_at_steps n2 s2 (sync_to_steps s1 a b t) = counter_at_steps n3 s2 t"
  using assms by (simp add: counter_at_steps_def sync_to_steps_def Let_def algebra_simps)

lemma sync_guest_fields:
  assumes "tm_clock_mode t = Guest_Step"
  shows "tm_counter (sync_to_steps s a b t) = counter_at_steps 0 s t"
    and "tm_cpu_states (sync_to_steps s a b t) = map (update_cpu_irq (counter_at_steps 0 s t)) (tm_cpu_states t)"
    and "tm_mmio_irq_pending (sync_to_steps s a b t) \<longleftrightarrow> tm_mmio_irq_pending t \<or>
      tm_enabled t \<and> \<not> tm_fired t \<and> tm_compare t \<le> counter_at_steps 0 s t"
    and "tm_fired (sync_to_steps s a b t) \<longleftrightarrow> tm_fired t \<or>
      tm_enabled t \<and> \<not> tm_mmio_irq_pending t \<and> tm_compare t \<le> counter_at_steps 0 s t"
  using assms by (auto simp: sync_to_steps_def Let_def update_irq_state_def counter_at_steps_def)

lemma sync_other_fields:
  "tm_cpu_count (sync_to_steps s a b t) = tm_cpu_count t" "tm_step_anchor (sync_to_steps s a b t) = s"
  "tm_cycles_per_step (sync_to_steps s a b t) = tm_cycles_per_step t"
  "tm_clock_mode (sync_to_steps s a b t) = tm_clock_mode t" "tm_compare (sync_to_steps s a b t) = tm_compare t"
  "tm_enabled (sync_to_steps s a b t) = tm_enabled t" "tm_observer (sync_to_steps s a b t) = tm_observer t"
  "tm_notified (sync_to_steps s a b t) = tm_notified t"
  "tm_clock_mode t = Guest_Step \<Longrightarrow> tm_host_anchor_ns (sync_to_steps s a b t) = tm_host_anchor_ns t"
  by (simp_all add: sync_to_steps_def Let_def update_irq_state_def)

definition timer_flags_ok :: "timer \<Rightarrow> bool" where
  "timer_flags_ok t \<longleftrightarrow> (\<forall>c\<in>set (tm_cpu_states t). \<forall>ch\<in>{tcpu_cntv c, tcpu_cntp c}.
    tc_irq_pending ch \<longrightarrow> tc_enable ch \<and> \<not> tc_imask ch \<and> tc_cval ch \<le> tm_counter t)"

lemma timer_flags_update: "timer_flags_ok (update_irq_state t)"
  by (auto simp: timer_flags_ok_def update_cpu_irq_def update_channel_irq_def)

lemma timer_flags_notify: "timer_flags_ok (notify_state_change t) = timer_flags_ok t"
  by (simp add: timer_flags_ok_def)

section \<open>Deadlines\<close>

text \<open>\<open>b\<close> is the first moment below \<open>m\<close> at which \<open>F\<close> holds, or \<open>m\<close>.\<close>
definition first_at :: "(nat \<Rightarrow> bool) \<Rightarrow> nat \<Rightarrow> nat \<Rightarrow> bool" where
  "first_at F m b \<longleftrightarrow> b \<le> m \<and> (\<forall>k<b. \<not> F k) \<and> (b < m \<longrightarrow> F b)"

lemma first_at_min: "first_at F m b \<Longrightarrow> first_at G b b' \<Longrightarrow> first_at (\<lambda>k. F k \<or> G k) m b'"
  unfolding first_at_def by (metis le_trans le_neq_implies_less order_less_le_trans)

text \<open>The first multiple of the step at or past a distance, as the rounded division gives it.\<close>
lemma first_at_round_up:
  assumes "0 < c" "current < target" "n = (target - current + c - 1) div c"
  shows "first_at (\<lambda>k. target \<le> current + k * c) m (min m n)"
proof -
  have lt: "current + k * c < target" if "k < n" for k
  proof -
    have "Suc k \<le> (target - current + c - 1) div c" using that assms(3) by simp
    then have "Suc k * c \<le> target - current + c - 1" using assms(1) by (simp add: less_eq_div_iff_mult_less_eq)
    then show ?thesis using assms(1,2) by simp
  qed
  have "target - current \<le> n * c"
  proof -
    have "(target - current + c - 1) div c < Suc n" using assms(3) by simp
    then have "target - current + c - 1 < Suc n * c" using assms(1) by (simp only: div_less_iff_less_mult)
    then show ?thesis using assms(1,2) by simp
  qed
  then have "target \<le> current + n * c" using assms(2) by simp
  then show ?thesis using lt by (auto simp: first_at_def min_def not_le)
qed

lemma round_up_word:
  assumes "current < (target :: u64)" "0 < c" "unat target - unat current + unat c - 1 < 2 ^ 64"
  shows "unat ((target - current + c - 1) div c) = (unat target - unat current + unat c - 1) div unat c"
proof -
  have d: "unat (target - current) = unat target - unat current"
    using assms(1) by (simp add: unat_sub less_imp_le)
  have "unat c \<noteq> 0" using assms(2) by (simp add: unat_eq_0 word_neq_0_conv)
  have "unat (target - current + c - 1) = unat target - unat current + unat c - 1"
  proof -
    have c1: "unat (c - 1) = unat c - 1"
      using assms(2) by (subst unat_sub) (auto simp: word_le_nat_alt word_less_nat_alt)
    have "unat ((target - current) + (c - 1)) = unat (target - current) + unat (c - 1)"
      by (rule unat_plus_no_wrap) (use assms(3) c1 d \<open>unat c \<noteq> 0\<close> in simp)
    also have "\<dots> = unat target - unat current + unat c - 1"
      using c1 d \<open>unat c \<noteq> 0\<close> by linarith
    finally show ?thesis by (simp only: add_diff_eq)
  qed
  then show ?thesis by (simp add: unat_div)
qed

definition channel_fires :: "timer_channel \<Rightarrow> nat \<Rightarrow> bool" where
  "channel_fires ch x \<longleftrightarrow> tc_enable ch \<and> \<not> tc_imask ch \<and> unat (tc_cval ch) \<le> x"

lemma first_at_channel:
  assumes "unat (tc_cval ch) - unat current + unat c - 1 < 2 ^ 64"
  shows "first_at (\<lambda>k. channel_fires ch (unat current + k * unat c)) (unat best)
    (unat (min best (steps_until_channel_irq ch current c best)))"
proof (cases "\<not> tc_enable ch \<or> tc_imask ch \<or> best = 0")
  case True
  then show ?thesis by (auto simp: steps_until_channel_irq_def first_at_def channel_fires_def)
next
  case False
  note en = False
  show ?thesis
  proof (cases "current \<ge> tc_cval ch")
    case True
    then show ?thesis using en
      by (auto simp: steps_until_channel_irq_def first_at_def channel_fires_def word_le_nat_alt)
  next
    case lt: False
    show ?thesis
    proof (cases "c = 0")
      case True
      then show ?thesis using en lt
        by (auto simp: steps_until_channel_irq_def first_at_def channel_fires_def word_le_nat_alt)
    next
      case False
      have c: "0 < c" using False by (simp add: word_neq_0_conv)
      have cl: "current < tc_cval ch" using lt by simp
      have "first_at (\<lambda>k. unat (tc_cval ch) \<le> unat current + k * unat c) (unat best)
          (min (unat best) (unat ((tc_cval ch - current + c - 1) div c)))"
        by (rule first_at_round_up) (use c cl round_up_word [OF cl c assms] in \<open>simp_all add: word_less_nat_alt\<close>)
      then show ?thesis
        using en lt False
        by (simp add: steps_until_channel_irq_def channel_fires_def Let_def min_def word_le_nat_alt split: if_splits)
    qed
  qed
qed

lemma first_at_mmio:
  assumes "unat (tm_compare t) - unat current + unat c - 1 < 2 ^ 64"
  shows "first_at (\<lambda>k. tm_enabled t \<and> \<not> tm_fired t \<and> unat (tm_compare t) \<le> unat current + k * unat c) (unat best)
    (unat (if tm_enabled t \<and> \<not> tm_fired t then
             if current \<ge> tm_compare t then 0
             else if c \<noteq> 0 then min best ((tm_compare t - current + c - 1) div c) else best
           else best))"
proof (cases "tm_enabled t \<and> \<not> tm_fired t \<and> best \<noteq> 0")
  case True
  let ?ch = "\<lparr>tc_cval = tm_compare t, tc_enable = True, tc_imask = False, tc_fired = False, tc_irq_pending = False\<rparr>"
  from first_at_channel [of ?ch current c best] assms True show ?thesis
    by (cases "c = 0") (simp_all add: channel_fires_def steps_until_channel_irq_def Let_def split: if_splits)
next
  case False
  then show ?thesis by (auto simp: first_at_def min_def)
qed

lemma timer_index_less: "tm_cpu_states t \<noteq> [] \<Longrightarrow> timer_index cpu t < length (tm_cpu_states t)"
  by (cases "tm_cpu_states t") (auto simp: timer_index_def)

lemma cpu_state_member: "tm_cpu_states t \<noteq> [] \<Longrightarrow> cpu_state cpu t \<in> set (tm_cpu_states t)"
  by (simp add: cpu_state_def timer_index_less)

lemma cpu_state_sync:
  assumes "tm_clock_mode t = Guest_Step" "tm_cpu_states t \<noteq> []"
  shows "cpu_state cpu (sync_to_steps s a b t) = update_cpu_irq (counter_at_steps 0 s t) (cpu_state cpu t)"
proof -
  have "timer_index cpu (sync_to_steps s a b t) = timer_index cpu t"
    by (simp add: timer_index_def sync_guest_fields(2) [OF assms(1)])
  then show ?thesis
    using timer_index_less [OF assms(2), of cpu] by (simp add: cpu_state_def sync_guest_fields(2) [OF assms(1)])
qed

lemma cpu_state_updates:
  assumes "tm_cpu_states t \<noteq> []"
  shows "cpu_state cpu (update_irq_state t) = update_cpu_irq (tm_counter t) (cpu_state cpu t)"
    and "cpu_state cpu (update_cpu cpu f t) = f (cpu_state cpu t)"
    and "cpu_state cpu (notify_state_change t) = cpu_state cpu t"
  using timer_index_less [OF assms, of cpu]
  by (simp_all add: cpu_state_def timer_index_def update_cpu_def)

lemma counter_updates [simp]:
  "counter_at_steps n s (update_irq_state t) = counter_at_steps n s t"
  "counter_at_steps n s (update_cpu cpu f t) = counter_at_steps n s t"
  "counter_at_steps n s (notify_state_change t) = counter_at_steps n s t"
  "tm_counter (update_cpu cpu f t) = tm_counter t"
  "(tm_cpu_states (update_cpu cpu f t) = []) = (tm_cpu_states t = [])"
  "tm_host_anchor_ns (update_irq_state t) = tm_host_anchor_ns t"
  by (simp_all add: counter_at_steps_def update_irq_state_def update_cpu_def notify_state_change_def Let_def)

text \<open>What the CPU \<open>cpu\<close> sees of the timer: the shared line or one of its own.\<close>
definition timer_line :: "nat \<Rightarrow> timer \<Rightarrow> bool" where
  "timer_line cpu t \<longleftrightarrow> timer_irq_pending t \<or> irq_pending_virtual cpu t \<or> irq_pending_physical cpu t"

lemma timer_line_sync:
  assumes "tm_clock_mode t = Guest_Step" "tm_cpu_states t \<noteq> []"
  shows "timer_line cpu (sync_to_steps s a b t) \<longleftrightarrow> tm_mmio_irq_pending t \<or>
    (tm_enabled t \<and> \<not> tm_fired t \<and> tm_compare t \<le> counter_at_steps 0 s t) \<or>
    channel_fires (tcpu_cntv (cpu_state cpu t)) (unat (counter_at_steps 0 s t)) \<or>
    channel_fires (tcpu_cntp (cpu_state cpu t)) (unat (counter_at_steps 0 s t))"
  using sync_guest_fields(3) [OF assms(1)] cpu_state_sync [OF assms]
  by (auto simp: timer_line_def timer_irq_pending_def irq_pending_virtual_def irq_pending_physical_def
      update_cpu_irq_def update_channel_irq_def channel_fires_def word_le_nat_alt)

text \<open>The rounded divisions of the deadline do not wrap.\<close>
definition deadline_in_range :: "timer \<Rightarrow> nat \<Rightarrow> u64 \<Rightarrow> bool" where
  "deadline_in_range t cpu current \<longleftrightarrow> (\<forall>v\<in>{tm_compare t, tc_cval (tcpu_cntv (cpu_state cpu t)),
      tc_cval (tcpu_cntp (cpu_state cpu t))}.
    unat v - unat current + unat (tm_cycles_per_step t) - 1 < 2 ^ 64)"

lemma steps_until_first:
  assumes quiet: "\<not> (tm_mmio_irq_pending t \<or> tc_irq_pending (tcpu_cntv (cpu_state cpu t)) \<or>
      tc_irq_pending (tcpu_cntp (cpu_state cpu t)))"
    and mode: "tm_clock_mode t = Guest_Step" and m: "max_steps \<noteq> 0"
    and range: "deadline_in_range t cpu (counter_at_steps now steps t)"
  shows "first_at (\<lambda>k. (tm_enabled t \<and> \<not> tm_fired t \<and>
        unat (tm_compare t) \<le> unat (counter_at_steps now steps t) + k * unat (tm_cycles_per_step t)) \<or>
      channel_fires (tcpu_cntv (cpu_state cpu t)) (unat (counter_at_steps now steps t) + k * unat (tm_cycles_per_step t)) \<or>
      channel_fires (tcpu_cntp (cpu_state cpu t)) (unat (counter_at_steps now steps t) + k * unat (tm_cycles_per_step t)))
    (unat max_steps) (unat (steps_until_cpu_irq cpu now steps max_steps t))"
proof -
  let ?cur = "counter_at_steps now steps t" and ?c = "tm_cycles_per_step t"
  let ?v = "tcpu_cntv (cpu_state cpu t)" and ?p = "tcpu_cntp (cpu_state cpu t)"
  let ?b1 = "if tm_enabled t \<and> \<not> tm_fired t then
      if ?cur \<ge> tm_compare t then 0
      else if ?c \<noteq> 0 then min max_steps ((tm_compare t - ?cur + ?c - 1) div ?c) else max_steps
    else max_steps"
  let ?b2 = "min ?b1 (steps_until_channel_irq ?v ?cur ?c ?b1)"
  have r: "steps_until_cpu_irq cpu now steps max_steps t = min ?b2 (steps_until_channel_irq ?p ?cur ?c ?b2)"
    using quiet mode m by (simp add: steps_until_cpu_irq_def Let_def)
  have f1: "first_at (\<lambda>k. tm_enabled t \<and> \<not> tm_fired t \<and> unat (tm_compare t) \<le> unat ?cur + k * unat ?c)
      (unat max_steps) (unat ?b1)"
    by (rule first_at_mmio) (use range in \<open>simp add: deadline_in_range_def\<close>)
  have f2: "first_at (\<lambda>k. channel_fires ?v (unat ?cur + k * unat ?c)) (unat ?b1) (unat ?b2)"
    by (rule first_at_channel) (use range in \<open>simp add: deadline_in_range_def\<close>)
  have f3: "first_at (\<lambda>k. channel_fires ?p (unat ?cur + k * unat ?c)) (unat ?b2)
      (unat (min ?b2 (steps_until_channel_irq ?p ?cur ?c ?b2)))"
    by (rule first_at_channel) (use range in \<open>simp add: deadline_in_range_def\<close>)
  show ?thesis
    unfolding r using first_at_min [OF first_at_min [OF f1 f2] f3] by (simp only: disj_assoc)
qed

section \<open>Properties\<close>

text \<open>
  C11. The interrupt deadline the dispatcher relies on is exact: on the step clock, with no wrap
  in the range, running any number of steps below \<open>steps_until_irq\<close> leaves the CPU's timer lines
  down once the timer is brought up to date, and if the deadline is before the limit, running
  exactly that many raises one. So skipping the timer for that long hides no interrupt.
\<close>
theorem timer_deadline_exact:
  fixes t cpu now steps max_steps
  defines "n \<equiv> unat (steps_until_cpu_irq cpu now steps max_steps t)"
  assumes flags: "timer_flags_ok t" and mode: "tm_clock_mode t = Guest_Step" and ne: "tm_cpu_states t \<noteq> []"
    and m: "max_steps \<noteq> 0" and steps: "tm_step_anchor t \<le> steps" "unat steps + unat max_steps < 2 ^ 64"
    and room: "steps_in_range t (steps + max_steps)"
    and range: "deadline_in_range t cpu (counter_at_steps now steps t)"
  shows "n \<le> unat max_steps \<and> (\<forall>k<n. \<not> timer_line cpu (sync_to_steps (steps + of_nat k) a b t)) \<and>
    (n < unat max_steps \<longrightarrow> timer_line cpu (sync_to_steps (steps + of_nat n) a b t))"
proof -
  let ?c = "tm_cycles_per_step t" and ?cur = "counter_at_steps now steps t"
  have cnt: "unat (counter_at_steps 0 (steps + of_nat k) t) = unat ?cur + k * unat ?c"
    and cnt0: "unat (tm_counter t) \<le> unat (counter_at_steps 0 (steps + of_nat k) t)" if k: "k \<le> unat max_steps" for k
  proof -
    have u: "unat (steps + of_nat j) = unat steps + j" if "j \<le> unat max_steps" for j
      using that steps(2) by (subst unat_plus_no_wrap) (simp_all add: unat_of_nat)
    have M: "unat (steps + max_steps) = unat steps + unat max_steps" using steps(2) by (simp add: unat_plus_no_wrap)
    have in_range: "steps_in_range t (steps + of_nat j)" if "j \<le> unat max_steps" for j
    proof -
      have "(unat (steps + of_nat j) - unat (tm_step_anchor t)) * unat ?c \<le>
          (unat (steps + max_steps) - unat (tm_step_anchor t)) * unat ?c"
        using u [OF that] M that by (intro mult_le_mono1) simp
      then have "unat (tm_counter t) + (unat (steps + of_nat j) - unat (tm_step_anchor t)) * unat ?c \<le>
          unat (tm_counter t) + (unat (steps + max_steps) - unat (tm_step_anchor t)) * unat ?c"
        by (rule add_left_mono)
      also have "\<dots> < 2 ^ 64" using room by (simp only: steps_in_range_def)
      finally show ?thesis using mode steps(1) u [OF that]
        unfolding steps_in_range_def word_le_nat_alt by linarith
    qed
    have e: "unat (counter_at_steps 0 (steps + of_nat j) t) =
        unat (tm_counter t) + (unat steps + j - unat (tm_step_anchor t)) * unat ?c" if "j \<le> unat max_steps" for j
      using counter_in_range [OF in_range [OF that]] u [OF that] by simp
    have "?cur = counter_at_steps 0 (steps + of_nat 0) t" using mode by (simp add: counter_at_steps_def)
    then have "unat ?cur = unat (tm_counter t) + (unat steps - unat (tm_step_anchor t)) * unat ?c"
      using e [of 0] by simp
    moreover have "unat steps + k - unat (tm_step_anchor t) = (unat steps - unat (tm_step_anchor t)) + k"
      using steps(1) by (simp add: word_le_nat_alt)
    ultimately show "unat (counter_at_steps 0 (steps + of_nat k) t) = unat ?cur + k * unat ?c"
      using e [OF k] by (simp add: algebra_simps)
    show "unat (tm_counter t) \<le> unat (counter_at_steps 0 (steps + of_nat k) t)" using e [OF k] by simp
  qed
  show ?thesis
  proof (cases "tm_mmio_irq_pending t \<or> tc_irq_pending (tcpu_cntv (cpu_state cpu t)) \<or>
      tc_irq_pending (tcpu_cntp (cpu_state cpu t))")
    case True
    then have n: "n = 0" using mode m by (auto simp: n_def steps_until_cpu_irq_def Let_def)
    have "tm_counter t \<le> counter_at_steps 0 (steps + of_nat 0) t" using cnt0 [of 0] by (simp add: word_le_nat_alt)
    then have "timer_line cpu (sync_to_steps (steps + of_nat 0) a b t)"
      using True flags cpu_state_member [OF ne, of cpu] unfolding timer_line_sync [OF mode ne]
      by (fastforce simp: timer_flags_ok_def channel_fires_def word_le_nat_alt)
    then show ?thesis using n by simp
  next
    case False
    let ?F = "\<lambda>k. (tm_enabled t \<and> \<not> tm_fired t \<and> unat (tm_compare t) \<le> unat ?cur + k * unat ?c) \<or>
      channel_fires (tcpu_cntv (cpu_state cpu t)) (unat ?cur + k * unat ?c) \<or>
      channel_fires (tcpu_cntp (cpu_state cpu t)) (unat ?cur + k * unat ?c)"
    have first: "first_at ?F (unat max_steps) n"
      unfolding n_def using False by (intro steps_until_first mode m range) simp
    have line: "timer_line cpu (sync_to_steps (steps + of_nat k) a b t) \<longleftrightarrow> ?F k" if "k \<le> unat max_steps" for k
      unfolding timer_line_sync [OF mode ne] word_le_nat_alt cnt [OF that] using False by simp
    show ?thesis
    proof (intro conjI allI impI)
      show "n \<le> unat max_steps" using first by (simp only: first_at_def)
      show "\<not> timer_line cpu (sync_to_steps (steps + of_nat k) a b t)" if "k < n" for k
      proof -
        have "k \<le> unat max_steps" "\<not> ?F k" using first that by (auto simp only: first_at_def)
        then show ?thesis by (simp only: line not_False_eq_True)
      qed
      show "timer_line cpu (sync_to_steps (steps + of_nat n) a b t)" if "n < unat max_steps"
        unfolding line [OF less_imp_le [OF that]] using first that by (simp only: first_at_def)
    qed
  qed
qed

theorem timer_deadline_exact_witness:
  "unat (steps_until_cpu_irq 0 0 5 100 (write_cntv_cval_el0 0 0 40 0 0 (write_cntv_ctl_el0 0 0 1 0 0 timer_new))) \<le> 100"
proof -
  let ?t = "write_cntv_cval_el0 0 0 40 0 0 (write_cntv_ctl_el0 0 0 1 0 0 timer_new)"
  have eval: "?t = timer_new\<lparr>tm_cpu_states := [new_timer_cpu\<lparr>tcpu_cntv := new_channel\<lparr>tc_cval := 40, tc_enable := True\<rparr>\<rparr>]\<rparr>"
    by (simp add: write_cntv_cval_el0_def write_cntv_ctl_el0_def sync_to_steps_def counter_at_steps_def
        timer_new_def update_irq_state_def Let_def update_cpu_def cpu_state_def timer_index_def update_cpu_irq_def
        update_channel_irq_def write_ctl_def write_cval_def notify_state_change_def new_timer_cpu_def new_channel_def)
  have "timer_flags_ok ?t" "tm_clock_mode ?t = Guest_Step" "tm_cpu_states ?t \<noteq> []"
    "tm_step_anchor ?t \<le> 5" "steps_in_range ?t (5 + 100)" "deadline_in_range ?t 0 (counter_at_steps 0 5 ?t)"
    unfolding eval
    by (simp_all add: timer_flags_ok_def timer_new_def new_timer_cpu_def new_channel_def steps_in_range_def
        deadline_in_range_def cpu_state_def timer_index_def counter_at_steps_def)
  from timer_deadline_exact [OF this(1-3) _ this(4) _ this(5,6)] show ?thesis by simp
qed

text \<open>
  C31. Bringing the timer up to date may be put off: on the step clock, with no wrap in the
  range, a timer brought to one step and then to a later one is in every field (counter, all
  channels of all CPUs, the memory-mapped timer's flags) the timer brought to the later one at
  once, so no interrupt or count depends on how often the dispatcher synchronises.
\<close>
theorem timer_sync_coalesces:
  assumes "steps_in_range t s2" "tm_step_anchor t \<le> s1" "s1 \<le> s2"
  shows "sync_to_steps s2 c d (sync_to_steps s1 a b t) = sync_to_steps s2 e f t"
proof -
  have mode: "tm_clock_mode t = Guest_Step" using assms(1) by (simp add: steps_in_range_def)
  have r1: "steps_in_range t s1"
  proof -
    have "(unat s1 - unat (tm_step_anchor t)) * unat (tm_cycles_per_step t) \<le>
        (unat s2 - unat (tm_step_anchor t)) * unat (tm_cycles_per_step t)"
      using assms(3) by (intro mult_le_mono1 diff_le_mono) (simp add: word_le_nat_alt)
    then show ?thesis using assms(1,2) unfolding steps_in_range_def by linarith
  qed
  have le: "counter_at_steps 0 s1 t \<le> counter_at_steps 0 s2 t"
    unfolding word_le_nat_alt counter_in_range [OF assms(1)] counter_in_range [OF r1]
    using assms(3) by (intro add_left_mono mult_le_mono1 diff_le_mono) (simp add: word_le_nat_alt)
  have c1: "counter_at_steps x s1 t = counter_at_steps 0 s1 t" "counter_at_steps x s2 t = counter_at_steps 0 s2 t" for x
    using mode by (simp_all add: counter_at_steps_def)
  have c2: "counter_at_steps x s2 (sync_to_steps s1 a b t) = counter_at_steps 0 s2 t" for x
    using counter_sync_guest [OF mode] .
  have m1: "tm_clock_mode (sync_to_steps s1 a b t) = Guest_Step"
    using mode by (simp add: sync_to_steps_def Let_def)
  have ec: "tm_enabled (sync_to_steps s1 a b t) = tm_enabled t" "tm_compare (sync_to_steps s1 a b t) = tm_compare t"
    by (simp_all add: sync_to_steps_def Let_def)
  show ?thesis
  proof (rule timer.equality)
    show "tm_cpu_states (sync_to_steps s2 c d (sync_to_steps s1 a b t)) = tm_cpu_states (sync_to_steps s2 e f t)"
      by (simp add: sync_guest_fields(2) mode m1 c2)
    show "tm_mmio_irq_pending (sync_to_steps s2 c d (sync_to_steps s1 a b t)) =
        tm_mmio_irq_pending (sync_to_steps s2 e f t)"
      "tm_fired (sync_to_steps s2 c d (sync_to_steps s1 a b t)) = tm_fired (sync_to_steps s2 e f t)"
      using order_trans [OF _ le, of "tm_compare t"]
      by (auto simp: sync_guest_fields(3,4) mode m1 c2 ec)
  qed (simp_all add: sync_guest_fields(1) sync_other_fields mode m1 c2)
qed

theorem timer_sync_coalesces_witness:
  "sync_to_steps 50 0 0 (sync_to_steps 20 0 0 (timer_new\<lparr>tm_enabled := True, tm_compare := 30\<rparr>)) =
   sync_to_steps 50 0 0 (timer_new\<lparr>tm_enabled := True, tm_compare := 30\<rparr>)"
  by (rule timer_sync_coalesces) (simp_all add: steps_in_range_def timer_new_def)

text \<open>
  The down-counter view of a channel is the difference to its compare value: after the guest
  writes the 32-bit timer value at one step, reading it at a later step gives the value written
  less the cycles passed in between, modulo \<open>2 ^ 32\<close>, and the compare value read back is the
  counter at the write plus the sign-extended value; the other channel keeps its compare value.
\<close>
theorem timer_tval_counts_down:
  assumes "tm_clock_mode t = Guest_Step" "tm_cpu_states t \<noteq> []"
  shows "read_cntv_tval_el0 cpu s2 n2 (write_cntv_tval_el0 cpu s1 v a b t) =
      ucast (ucast v - ucast (counter_at_steps 0 s2 t - counter_at_steps 0 s1 t) :: u32) \<and>
    read_cntv_cval_el0 cpu (write_cntv_tval_el0 cpu s1 v a b t) =
      counter_at_steps 0 s1 t + scast (ucast v :: u32) \<and>
    read_cntp_cval_el0 cpu (write_cntv_tval_el0 cpu s1 v a b t) = read_cntp_cval_el0 cpu t"
proof -
  let ?c1 = "counter_at_steps 0 s1 t"
  let ?t1 = "sync_to_steps s1 a b t"
  let ?f = "\<lambda>c. c\<lparr>tcpu_cntv := write_tval (tm_counter ?t1) v (tcpu_cntv c)\<rparr>"
  have ne1: "tm_cpu_states ?t1 \<noteq> []" using assms by (simp add: sync_guest_fields(2))
  have ne2: "tm_cpu_states (update_cpu cpu ?f ?t1) \<noteq> []" using ne1 by simp
  have ne3: "tm_cpu_states (update_irq_state (update_cpu cpu ?f ?t1)) \<noteq> []" using ne2 by simp
  have w: "write_cntv_tval_el0 cpu s1 v a b t = notify_state_change (update_irq_state (update_cpu cpu ?f ?t1))"
    by (simp add: write_cntv_tval_el0_def Let_def)
  have st: "cpu_state cpu (write_cntv_tval_el0 cpu s1 v a b t) =
      update_cpu_irq ?c1 (?f (update_cpu_irq ?c1 (cpu_state cpu t)))"
    using assms unfolding w cpu_state_updates(3) [OF ne3] cpu_state_updates(1) [OF ne2] cpu_state_updates(2) [OF ne1]
    by (simp add: cpu_state_sync sync_guest_fields(1))
  have cnt: "counter_at_steps n2 s2 (write_cntv_tval_el0 cpu s1 v a b t) = counter_at_steps 0 s2 t"
    unfolding w counter_updates by (rule counter_sync_guest [OF assms(1)])
  have mask: "ucast (v AND 0xFFFFFFFF) = (ucast v :: u32)"
  proof -
    have e: "(0xFFFFFFFF :: u64) = mask 32" by (simp add: mask_eq_exp_minus_1)
    show ?thesis unfolding e by (auto intro!: bit_eqI simp: bit_simps)
  qed
  have cval: "tc_cval (tcpu_cntv (cpu_state cpu (write_cntv_tval_el0 cpu s1 v a b t))) = ?c1 + scast (ucast v :: u32)"
    unfolding st using assms(1)
    by (simp add: update_cpu_irq_def update_channel_irq_def write_tval_def Let_def sync_guest_fields(1) mask)
  have "ucast (?c1 + scast (ucast v :: u32) - counter_at_steps 0 s2 t) =
      (ucast v - ucast (counter_at_steps 0 s2 t - ?c1) :: u32)"
    by (simp add: ucast_add_u32 ucast_diff_u32)
  then have "read_cntv_tval_el0 cpu s2 n2 (write_cntv_tval_el0 cpu s1 v a b t) =
      ucast (ucast v - ucast (counter_at_steps 0 s2 t - ?c1) :: u32)"
    unfolding read_cntv_tval_el0_def read_tval_def cval cnt by simp
  moreover have "read_cntp_cval_el0 cpu (write_cntv_tval_el0 cpu s1 v a b t) = read_cntp_cval_el0 cpu t"
    unfolding read_cntp_cval_el0_def st by (simp add: update_cpu_irq_def update_channel_irq_def)
  ultimately show ?thesis using cval by (simp add: read_cntv_cval_el0_def)
qed

theorem timer_tval_counts_down_witness:
  "read_cntv_tval_el0 0 30 0 (write_cntv_tval_el0 0 10 100 0 0 timer_new) = 80"
proof -
  have "tm_clock_mode timer_new = Guest_Step" "tm_cpu_states timer_new \<noteq> []"
    by (simp_all add: timer_new_def)
  from timer_tval_counts_down [OF this, of 0 30 0 10 100 0 0] show ?thesis
    by (simp add: counter_at_steps_def timer_new_def)
qed

text \<open>
  The rounding of the deadline wraps when the compare value is far away and a step is more than
  one cycle: the deadline is then now, though no line is up.
\<close>
lemma deadline_rounding_wraps:
  "steps_until_channel_irq \<lparr>tc_cval = 0xFFFFFFFFFFFFFFFF, tc_enable = True, tc_imask = False,
     tc_fired = False, tc_irq_pending = False\<rparr> 0 2 100 = 0"
  by (simp add: steps_until_channel_irq_def)

section \<open>Snapshot round trip\<close>

definition enc_channel :: "timer_channel \<Rightarrow> u8 list" where
  "enc_channel ch = concat [le_bytes 8 (tc_cval ch), enc_bool (tc_enable ch), enc_bool (tc_imask ch),
     enc_bool (tc_fired ch), enc_bool (tc_irq_pending ch)]"

definition enc_timer_cpu :: "timer_cpu \<Rightarrow> u8 list" where
  "enc_timer_cpu c = enc_channel (tcpu_cntv c) @ enc_channel (tcpu_cntp c)"

definition timer_enc :: "timer \<Rightarrow> u8 list" where
  "timer_enc t = concat [le_bytes 8 (tm_counter t), le_bytes 8 (tm_compare t), enc_bool (tm_enabled t),
     enc_bool (tm_mmio_irq_pending t), enc_bool (tm_fired t),
     le_bytes 4 (of_nat (length (tm_cpu_states t)) :: u32), concat (map enc_timer_cpu (tm_cpu_states t))]"

lemma emits_timer_save: "emits (timer_save_state t) (timer_enc t)"
proof -
  have "emits (save_timer_cpu c) (enc_timer_cpu c)" for c
  proof -
    have "enc_timer_cpu c = concat
      [le_bytes 8 (tc_cval (tcpu_cntv c)), enc_bool (tc_enable (tcpu_cntv c)), enc_bool (tc_imask (tcpu_cntv c)),
       enc_bool (tc_fired (tcpu_cntv c)), enc_bool (tc_irq_pending (tcpu_cntv c)),
       le_bytes 8 (tc_cval (tcpu_cntp c)), enc_bool (tc_enable (tcpu_cntp c)), enc_bool (tc_imask (tcpu_cntp c)),
       enc_bool (tc_fired (tcpu_cntp c)), enc_bool (tc_irq_pending (tcpu_cntp c))]"
      by (simp add: enc_timer_cpu_def enc_channel_def)
    then show ?thesis
      unfolding save_timer_cpu_def by (simp only:) (rule emits_write_seq, simp add: snapshot_emits)
  qed
  then have "emits (write_seq (map save_timer_cpu cs)) (concat (map enc_timer_cpu cs))" for cs
    by (intro emits_write_seq) (simp add: list_all2_conv_all_nth)
  then show ?thesis
    unfolding timer_save_state_def timer_enc_def by (intro emits_write_seq) (simp add: snapshot_emits)
qed

lemma absorbs_load_channel: "absorbs load_channel (enc_channel ch) ch0 ch"
  unfolding load_channel_def load_channel_head_def enc_channel_def concat.simps append.simps
  by (rule absorbs_steps)+ simp

lemma absorbs_load_timer_cpu: "absorbs load_timer_cpu (enc_timer_cpu c) c0 c"
proof -
  have "absorbs load_timer_cpu (enc_channel (tcpu_cntv c) @ enc_channel (tcpu_cntp c) @ []) c0 c"
    unfolding load_timer_cpu_def by (rule absorbs_steps absorbs_load_channel)+ simp
  then show ?thesis by (simp add: enc_timer_cpu_def)
qed

text \<open>A restored timer counts steps from zero on the step clock, one cycle each.\<close>
definition timer_restore :: "u64 \<Rightarrow> timer \<Rightarrow> timer \<Rightarrow> timer" where
  "timer_restore now_ns t t0 = update_irq_state ((timer_load_begin now_ns t0)\<lparr>tm_counter := tm_counter t,
     tm_compare := tm_compare t, tm_enabled := tm_enabled t, tm_mmio_irq_pending := tm_mmio_irq_pending t,
     tm_fired := tm_fired t, tm_cpu_count := length (tm_cpu_states t), tm_cpu_states := tm_cpu_states t\<rparr>)"

definition timer_savable :: "timer \<Rightarrow> bool" where
  "timer_savable t \<longleftrightarrow> tm_cpu_states t \<noteq> [] \<and> length (tm_cpu_states t) < 2 ^ 32"

lemma absorbs_timer_load:
  assumes "timer_savable t"
  shows "absorbs (timer_load_state 3 now_ns) (timer_enc t) t0 (timer_restore now_ns t t0)"
proof -
  let ?n = "of_nat (length (tm_cpu_states t)) :: u32"
  have n: "unat ?n = length (tm_cpu_states t)" "?n \<noteq> 0"
    using assms by (auto simp: timer_savable_def unat_of_nat simp flip: unat_eq_0)
  have cpus: "absorbs (read_array load_timer_cpu) (concat (map enc_timer_cpu (tm_cpu_states t)))
      (replicate (unat ?n) new_timer_cpu) (tm_cpu_states t)"
    by (rule absorbs_read_array) (simp add: n list_all2_conv_all_nth absorbs_load_timer_cpu)
  have load: "absorbs (timer_load_cpus 3) (le_bytes 4 ?n @ concat (map enc_timer_cpu (tm_cpu_states t))) u
      (u\<lparr>tm_cpu_count := length (tm_cpu_states t), tm_cpu_states := tm_cpu_states t\<rparr>)" for u
  proof -
    have "absorbs (timer_load_cpus 3) (le_bytes 4 ?n @ [] @ [] @ concat (map enc_timer_cpu (tm_cpu_states t)) @ []) u
        (u\<lparr>tm_cpu_count := length (tm_cpu_states t), tm_cpu_states := tm_cpu_states t\<rparr>)"
      unfolding timer_load_cpus_def
      by (simp only: order_refl if_True)
        ((rule absorbs_steps n(2) | (simp; rule cpus))+, simp add: n)
    then show ?thesis by simp
  qed
  have "absorbs (timer_load_state 3 now_ns) ([] @ le_bytes 8 (tm_counter t) @ le_bytes 8 (tm_compare t) @
      enc_bool (tm_enabled t) @ enc_bool (tm_mmio_irq_pending t) @ enc_bool (tm_fired t) @
      (le_bytes 4 ?n @ concat (map enc_timer_cpu (tm_cpu_states t))) @ [] @ []) t0 (timer_restore now_ns t t0)"
    unfolding timer_load_state_def
    by ((rule absorbs_steps load)+) (simp add: timer_restore_def)
  then show ?thesis by (simp add: timer_enc_def)
qed

interpretation timer_snapshot: snapshot_component timer_save_state "timer_load_state 3 now_ns" timer_enc
    timer_savable "\<lambda>_ _. True" "timer_restore now_ns" for now_ns
  by unfold_locales (rule emits_timer_save, rule absorbs_timer_load)

end
