(* ===== verification/System_Registers.thy ===== *)
theory System_Registers
  imports Snapshot_Io
begin

text \<open>
  Model of \<open>src/src/system_registers.cpp\<close>: the system registers of one CPU and its PSTATE. The
  members \<open>x_\<close> of \<open>SystemRegisters\<close> are the fields \<open>r_x\<close>, the members of \<open>PState\<close> the fields
  \<open>ps_x\<close>. The \<open>switch\<close> over the encoded register name is the lookup of a table with a row per
  \<open>case\<close>; a row without a value is a case that returns false.
\<close>

section \<open>State\<close>

record pstate =
  ps_n :: bool
  ps_z :: bool
  ps_c :: bool
  ps_v :: bool
  ps_ss :: bool
  ps_il :: bool
  ps_d :: bool
  ps_a :: bool
  ps_i :: bool
  ps_f :: bool
  ps_pan :: bool
  ps_mode :: u8

record sysregs =
  r_sctlr_el1 :: u64
  r_cpacr_el1 :: u64
  r_midr_el1 :: u64
  r_mpidr_el1 :: u64
  r_revidr_el1 :: u64
  r_clidr_el1 :: u64
  r_ctr_el0 :: u64
  r_dczid_el0 :: u64
  r_id_aa64pfr0_el1 :: u64
  r_id_aa64pfr1_el1 :: u64
  r_id_aa64dfr0_el1 :: u64
  r_id_aa64dfr1_el1 :: u64
  r_id_aa64isar0_el1 :: u64
  r_id_aa64isar1_el1 :: u64
  r_id_aa64isar2_el1 :: u64
  r_id_aa64isar3_el1 :: u64
  r_id_aa64zfr0_el1 :: u64
  r_id_aa64mmfr0_el1 :: u64
  r_id_aa64mmfr1_el1 :: u64
  r_id_aa64mmfr2_el1 :: u64
  r_id_aa64mmfr3_el1 :: u64
  r_csselr_el1 :: u64
  r_ccsidr_el1 :: u64
  r_ttbr0_el1 :: u64
  r_ttbr1_el1 :: u64
  r_tcr_el1 :: u64
  r_mair_el1 :: u64
  r_contextidr_el1 :: u64
  r_osdlr_el1 :: u64
  r_oslar_el1 :: u64
  r_oseccr_el1 :: u64
  r_dbgclaim_el1 :: u64
  r_dbgprcr_el1 :: u64
  r_dbgbvr_el1 :: "u64 list"
  r_dbgbcr_el1 :: "u64 list"
  r_dbgwvr_el1 :: "u64 list"
  r_dbgwcr_el1 :: "u64 list"
  r_vbar_el1 :: u64
  r_elr_el1 :: u64
  r_spsr_el1 :: u64
  r_sp_el0 :: u64
  r_sp_el1 :: u64
  r_spsel :: u64
  r_par_el1 :: u64
  r_esr_el1 :: u64
  r_far_el1 :: u64
  r_mdscr_el1 :: u64
  r_pmuserenr_el0 :: u64
  r_amuserenr_el0 :: u64
  r_tpidr_el0 :: u64
  r_tpidr2_el0 :: u64
  r_tpidrro_el0 :: u64
  r_tpidr_el1 :: u64
  r_tpidr_el2 :: u64
  r_cntfrq_el0 :: u64
  r_cntvct_el0 :: u64
  r_cntkctl_el1 :: u64
  r_fpcr :: u64
  r_fpsr :: u64
  r_pstate :: pstate

definition new_pstate :: pstate where
  "new_pstate = \<lparr>
    ps_n = False, ps_z = False, ps_c = False, ps_v = False, ps_ss = False, ps_il = False,
    ps_d = False, ps_a = False, ps_i = False, ps_f = False, ps_pan = False, ps_mode = 0x5\<rparr>"

definition sysregs_new :: sysregs where
  "sysregs_new = \<lparr>
    r_sctlr_el1 = 0x30D00800, r_cpacr_el1 = 0, r_midr_el1 = 0x00000000410FD034,
    r_mpidr_el1 = 0x0000000080000000, r_revidr_el1 = 0, r_clidr_el1 = 0, r_ctr_el0 = 0x8444C004,
    r_dczid_el0 = 0x4, r_id_aa64pfr0_el1 = 0x0000000001000011, r_id_aa64pfr1_el1 = 0,
    r_id_aa64dfr0_el1 = 0x0000000000101006, r_id_aa64dfr1_el1 = 0,
    r_id_aa64isar0_el1 = 0x0000000000210000, r_id_aa64isar1_el1 = 0, r_id_aa64isar2_el1 = 0,
    r_id_aa64isar3_el1 = 0, r_id_aa64zfr0_el1 = 0, r_id_aa64mmfr0_el1 = 0x000000000FF00005,
    r_id_aa64mmfr1_el1 = 0x0000000000100000, r_id_aa64mmfr2_el1 = 0, r_id_aa64mmfr3_el1 = 0,
    r_csselr_el1 = 0, r_ccsidr_el1 = 0, r_ttbr0_el1 = 0, r_ttbr1_el1 = 0, r_tcr_el1 = 0,
    r_mair_el1 = 0, r_contextidr_el1 = 0, r_osdlr_el1 = 0, r_oslar_el1 = 0, r_oseccr_el1 = 0,
    r_dbgclaim_el1 = 0, r_dbgprcr_el1 = 0, r_dbgbvr_el1 = replicate 16 0,
    r_dbgbcr_el1 = replicate 16 0, r_dbgwvr_el1 = replicate 16 0, r_dbgwcr_el1 = replicate 16 0,
    r_vbar_el1 = 0, r_elr_el1 = 0, r_spsr_el1 = 0, r_sp_el0 = 0, r_sp_el1 = 0, r_spsel = 1,
    r_par_el1 = 0, r_esr_el1 = 0, r_far_el1 = 0, r_mdscr_el1 = 0, r_pmuserenr_el0 = 0,
    r_amuserenr_el0 = 0, r_tpidr_el0 = 0, r_tpidr2_el0 = 0, r_tpidrro_el0 = 0, r_tpidr_el1 = 0,
    r_tpidr_el2 = 0, r_cntfrq_el0 = 100000000, r_cntvct_el0 = 0, r_cntkctl_el1 = 0, r_fpcr = 0,
    r_fpsr = 0, r_pstate = new_pstate\<rparr>"

section \<open>Register names and masks\<close>

definition SysReg :: "u32 \<Rightarrow> u32 \<Rightarrow> u32 \<Rightarrow> u32 \<Rightarrow> u32 \<Rightarrow> u32" where
  "SysReg op0 op1 crn crm op2 =
    push_bit 14 op0 OR push_bit 11 op1 OR push_bit 7 crn OR push_bit 3 crm OR op2"

definition make_key :: "u32 \<Rightarrow> u32 \<Rightarrow> u32 \<Rightarrow> u32 \<Rightarrow> u32 \<Rightarrow> u32" where
  "make_key op0 op1 crn crm op2 =
    push_bit 14 op0 OR push_bit 11 op1 OR push_bit 7 crn OR push_bit 3 crm OR op2"

abbreviation flag_at :: "nat \<Rightarrow> u64" where "flag_at n \<equiv> push_bit n 1"

definition kSctlrEl1Span :: u64 where "kSctlrEl1Span = flag_at 23"
definition kSctlrEl1Ee :: u64 where "kSctlrEl1Ee = flag_at 25"
definition kSctlrEl1E0e :: u64 where "kSctlrEl1E0e = flag_at 24"
definition kSctlrEl1Dze :: u64 where "kSctlrEl1Dze = flag_at 14"
definition kSctlrEl1Uct :: u64 where "kSctlrEl1Uct = flag_at 15"
definition kSctlrEl1Uma :: u64 where "kSctlrEl1Uma = flag_at 9"
definition kSctlrEl1NTwi :: u64 where "kSctlrEl1NTwi = flag_at 16"
definition kSctlrEl1NTwe :: u64 where "kSctlrEl1NTwe = flag_at 18"
definition kSctlrEl1Uci :: u64 where "kSctlrEl1Uci = flag_at 26"
definition kSctlrEl1BaseWritableMask :: u64 where
  "kSctlrEl1BaseWritableMask =
     kSctlrEl1Uci OR kSctlrEl1Span OR kSctlrEl1NTwe OR kSctlrEl1NTwi OR kSctlrEl1Uct OR
     kSctlrEl1Dze OR flag_at 19 OR flag_at 12 OR kSctlrEl1Uma OR flag_at 4 OR flag_at 3 OR
     flag_at 2 OR flag_at 1 OR flag_at 0"
definition kSctlrEl1Aa32Res1Mask :: u64 where "kSctlrEl1Aa32Res1Mask = flag_at 8 OR flag_at 7"
definition kSctlrEl1LsmaocMask :: u64 where "kSctlrEl1LsmaocMask = flag_at 29 OR flag_at 28"
definition kSctlrEl1PauthMask :: u64 where "kSctlrEl1PauthMask = flag_at 31 OR flag_at 30 OR flag_at 27 OR flag_at 13"
definition kSctlrEl1Mte2Mask :: u64 where
  "kSctlrEl1Mte2Mask =
     flag_at 43 OR flag_at 42 OR push_bit 40 0x3 OR push_bit 38 0x3"
definition kMdscrEl1Kde :: u64 where "kMdscrEl1Kde = flag_at 13"
definition kMdscrEl1Mde :: u64 where "kMdscrEl1Mde = flag_at 15"
definition kMdscrEl1Hde :: u64 where "kMdscrEl1Hde = flag_at 14"
definition kMdscrEl1Tdcc :: u64 where "kMdscrEl1Tdcc = flag_at 12"
definition kMdscrEl1Err :: u64 where "kMdscrEl1Err = flag_at 6"
definition kMdscrEl1Ss :: u64 where "kMdscrEl1Ss = flag_at 0"
definition kMdscrEl1IntdisMask :: u64 where "kMdscrEl1IntdisMask = push_bit 22 0x3"
definition kMdscrEl1Tda :: u64 where "kMdscrEl1Tda = flag_at 21"
definition kMdscrEl1Txu :: u64 where "kMdscrEl1Txu = flag_at 26"
definition kMdscrEl1Rxo :: u64 where "kMdscrEl1Rxo = flag_at 27"
definition kMdscrEl1Txfull :: u64 where "kMdscrEl1Txfull = flag_at 29"
definition kMdscrEl1Rxfull :: u64 where "kMdscrEl1Rxfull = flag_at 30"
definition kMdscrEl1DirectRwMask :: u64 where
  "kMdscrEl1DirectRwMask =
     kMdscrEl1Mde OR kMdscrEl1Kde OR kMdscrEl1Tdcc OR kMdscrEl1Ss"
definition kMdscrEl1OsLockRwMask :: u64 where
  "kMdscrEl1OsLockRwMask =
     kMdscrEl1Rxfull OR kMdscrEl1Txfull OR kMdscrEl1Rxo OR kMdscrEl1Txu OR kMdscrEl1IntdisMask OR
     kMdscrEl1Tda OR kMdscrEl1Hde OR kMdscrEl1Err"
definition kMdscrEl1ArchitecturalMask :: u64 where "kMdscrEl1ArchitecturalMask = kMdscrEl1DirectRwMask OR kMdscrEl1OsLockRwMask"
definition kFpsrArchitecturalMask :: u64 where "kFpsrArchitecturalMask = flag_at 27 OR flag_at 7 OR 0x1F"
definition kFpcrArchitecturalMask :: u64 where
  "kFpcrArchitecturalMask =
     flag_at 26 OR flag_at 25 OR flag_at 24 OR push_bit 22 0x3 OR push_bit 20 0x3 OR
     push_bit 16 0x7"
definition kCpacrEl1ArchitecturalMask :: u64 where "kCpacrEl1ArchitecturalMask = push_bit 20 0x3"
definition kCsselrEl1ArchitecturalMask :: u64 where "kCsselrEl1ArchitecturalMask = 0xF"
definition kVbarEl1ArchitecturalMask :: u64 where "kVbarEl1ArchitecturalMask = NOT 0x7FF"
definition kContextidrEl1ArchitecturalMask :: u64 where "kContextidrEl1ArchitecturalMask = 0xFFFFFFFF"
definition kCntkctlEl1ArchitecturalMask :: u64 where "kCntkctlEl1ArchitecturalMask = 0x3FF"
definition kTcrEl1BaseArchitecturalMask :: u64 where "kTcrEl1BaseArchitecturalMask = 0xFFFFFFFF OR push_bit 32 0x7 OR push_bit 37 0x3"
definition kTcrEl1ReservedMask :: u64 where "kTcrEl1ReservedMask = push_bit 62 0x3 OR push_bit 35 0x1 OR push_bit 6 0x1"
definition kTcrEl1MtxMask :: u64 where "kTcrEl1MtxMask = push_bit 60 0x3"
definition kTcrEl1DsMask :: u64 where "kTcrEl1DsMask = push_bit 59 0x1"
definition kTcrEl1TcmaMask :: u64 where "kTcrEl1TcmaMask = push_bit 57 0x3"
definition kTcrEl1E0pdMask :: u64 where "kTcrEl1E0pdMask = push_bit 55 0x3"
definition kTcrEl1NfdMask :: u64 where "kTcrEl1NfdMask = push_bit 53 0x3"
definition kTcrEl1TbidMask :: u64 where "kTcrEl1TbidMask = push_bit 51 0x3"
definition kTcrEl1HwuMask :: u64 where "kTcrEl1HwuMask = push_bit 43 0xFF"
definition kTcrEl1HpdMask :: u64 where "kTcrEl1HpdMask = push_bit 41 0x3"
definition kTcrEl1HaHdMask :: u64 where "kTcrEl1HaHdMask = push_bit 39 0x3"
definition kTcrEl1AsMask :: u64 where "kTcrEl1AsMask = push_bit 36 0x1"
definition kSpsrEl1SupportedMask :: u64 where
  "kSpsrEl1SupportedMask =
     push_bit 28 0xF OR flag_at 22 OR flag_at 21 OR flag_at 20 OR push_bit 6 0xF OR 0x1F"
definition kIdAa64Dfr0El1DebugMinimal :: u64 where
  "kIdAa64Dfr0El1DebugMinimal =
     push_bit 28 0x0 OR push_bit 20 0x1 OR push_bit 12 0x1 OR 0x6"

section \<open>Reserved bits\<close>

definition id_field :: "u64 \<Rightarrow> nat \<Rightarrow> u32" where
  "id_field reg shift = ucast (drop_bit shift reg AND 0xF)"

definition decode_debug_resource_count :: "u64 \<Rightarrow> nat \<Rightarrow> u64 \<Rightarrow> nat \<Rightarrow> u32" where
  "decode_debug_resource_count dfr0 dfr0_shift dfr1 dfr1_shift =
    (let extended = ucast (drop_bit dfr1_shift dfr1 AND 0xFF) :: u32 in
     if extended \<noteq> 0 then extended + 1
     else
       let legacy = id_field dfr0 dfr0_shift
       in if legacy = 0xF then 16 else legacy + 1)"

definition pauth_present :: "u64 \<Rightarrow> u64 \<Rightarrow> bool" where
  "pauth_present isar1 isar2 \<longleftrightarrow>
    drop_bit 4 isar1 AND 0xF \<noteq> 0 \<or> drop_bit 8 isar1 AND 0xF \<noteq> 0 \<or>
    drop_bit 24 isar1 AND 0xF \<noteq> 0 \<or> drop_bit 28 isar1 AND 0xF \<noteq> 0 \<or>
    drop_bit 8 isar2 AND 0xF \<noteq> 0 \<or> drop_bit 12 isar2 AND 0xF \<noteq> 0"

text \<open>
  The writable bits and the bits that read as one, from the ID registers: each row is an \<open>if\<close>
  of the code, with the bits it makes writable and those it makes one otherwise.
\<close>
definition sctlr_rows :: "u64 \<Rightarrow> u64 \<Rightarrow> u64 \<Rightarrow> u64 \<Rightarrow> u64 \<Rightarrow> u64 \<Rightarrow> u64 \<Rightarrow> (bool \<times> u64 \<times> u64) list" where
  "sctlr_rows mmfr0 mmfr1 mmfr2 pfr0 pfr1 isar1 isar2 =
    [(id_field mmfr1 52 \<noteq> 0, flag_at 63, 0),
     (id_field pfr1 36 \<noteq> 0, flag_at 62 OR flag_at 61, 0),
     (id_field pfr1 24 \<noteq> 0, flag_at 60, 0),
     (id_field isar1 60 \<noteq> 0, flag_at 56, 0),
     (id_field isar1 60 \<ge> 3, flag_at 55, 0),
     (id_field isar1 60 \<ge> 2, flag_at 54, 0),
     (id_field mmfr1 32 \<noteq> 0, push_bit 46 0xF OR flag_at 45, 0),
     (id_field pfr1 4 \<noteq> 0, flag_at 44, 0),
     (id_field pfr1 8 \<ge> 2, kSctlrEl1Mte2Mask, 0),
     (id_field pfr1 8 \<ge> 2 \<and> id_field pfr1 40 = 0, flag_at 37, 0),
     (id_field pfr1 0 \<noteq> 0, flag_at 36 OR flag_at 35, 0),
     (id_field isar2 16 \<noteq> 0, flag_at 33, 0),
     (id_field mmfr1 56 \<noteq> 0, flag_at 32, 0),
     (pauth_present isar1 isar2, kSctlrEl1PauthMask, 0),
     (id_field mmfr2 8 \<noteq> 0, kSctlrEl1LsmaocMask, kSctlrEl1LsmaocMask),
     (id_field mmfr0 8 \<noteq> 0, kSctlrEl1Ee, 0),
     (id_field mmfr0 16 \<noteq> 0, kSctlrEl1E0e, 0),
     (id_field mmfr0 44 \<noteq> 0, flag_at 22 OR flag_at 11, flag_at 22 OR flag_at 11),
     (id_field mmfr2 12 \<noteq> 0, flag_at 21, 0),
     (id_field pfr0 56 \<ge> 2 \<or> (id_field pfr0 56 = 1 \<and> id_field pfr1 32 \<ge> 2),
        flag_at 20, flag_at 20),
     (id_field isar1 40 \<noteq> 0, flag_at 10, 0),
     (id_field pfr0 0 = 2, kSctlrEl1Aa32Res1Mask, kSctlrEl1Aa32Res1Mask),
     (id_field mmfr2 32 \<noteq> 0, flag_at 6, 0)]"

definition sctlr_writable :: "(bool \<times> u64 \<times> u64) list \<Rightarrow> u64" where
  "sctlr_writable rows = foldl (OR) kSctlrEl1BaseWritableMask (map (\<lambda>(present, w, s). if present then w else 0) rows)"

definition sctlr_res1 :: "(bool \<times> u64 \<times> u64) list \<Rightarrow> u64" where
  "sctlr_res1 rows = foldl (OR) 0 (map (\<lambda>(present, w, s). if present then 0 else s) rows)"

definition sanitize_sctlr_el1 :: "u64 \<Rightarrow> u64 \<Rightarrow> u64 \<Rightarrow> u64 \<Rightarrow> u64 \<Rightarrow> u64 \<Rightarrow> u64 \<Rightarrow> u64 \<Rightarrow> u64" where
  "sanitize_sctlr_el1 v mmfr0 mmfr1 mmfr2 pfr0 pfr1 isar1 isar2 =
    (let rows = sctlr_rows mmfr0 mmfr1 mmfr2 pfr0 pfr1 isar1 isar2;
         writable_mask = sctlr_writable rows;
         res1_mask = sctlr_res1 rows
     in (v OR res1_mask) AND (writable_mask OR res1_mask))"

definition sanitize_spsr_el1 :: "u64 \<Rightarrow> u64" where
  "sanitize_spsr_el1 v = v AND kSpsrEl1SupportedMask"

definition sanitize_mdscr_el1 :: "u64 \<Rightarrow> u64" where
  "sanitize_mdscr_el1 v = v AND kMdscrEl1ArchitecturalMask"

definition sanitize_cpacr_el1 :: "u64 \<Rightarrow> u64" where
  "sanitize_cpacr_el1 v = v AND kCpacrEl1ArchitecturalMask"

definition sanitize_csselr_el1 :: "u64 \<Rightarrow> u64" where
  "sanitize_csselr_el1 v = v AND kCsselrEl1ArchitecturalMask"

definition sanitize_vbar_el1 :: "u64 \<Rightarrow> u64" where
  "sanitize_vbar_el1 v = v AND kVbarEl1ArchitecturalMask"

definition sanitize_contextidr_el1 :: "u64 \<Rightarrow> u64" where
  "sanitize_contextidr_el1 v = v AND kContextidrEl1ArchitecturalMask"

definition sanitize_cntkctl_el1 :: "u64 \<Rightarrow> u64" where
  "sanitize_cntkctl_el1 v = v AND kCntkctlEl1ArchitecturalMask"

definition sanitize_ttbr_el1 :: "u64 \<Rightarrow> u64 \<Rightarrow> u64 \<Rightarrow> u64" where
  "sanitize_ttbr_el1 v mmfr0 mmfr2 =
    (let v = (if id_field mmfr0 4 \<noteq> 2 then v AND NOT (push_bit 56 0xFF) else v)
     in if id_field mmfr2 12 \<noteq> 1 then v AND NOT 1 else v)"

definition tcr_mask :: "u64 \<Rightarrow> u64 \<Rightarrow> u64 \<Rightarrow> u64 \<Rightarrow> u64 \<Rightarrow> u64 \<Rightarrow> u64 \<Rightarrow> u64" where
  "tcr_mask mmfr0 mmfr1 mmfr2 pfr0 pfr1 isar1 isar2 = kTcrEl1BaseArchitecturalMask OR
    (if id_field mmfr0 4 = 2 then kTcrEl1AsMask else 0) OR
    (if id_field mmfr1 0 \<noteq> 0 then kTcrEl1HaHdMask else 0) OR
    (if id_field mmfr1 12 \<noteq> 0 then kTcrEl1HpdMask else 0) OR
    (if id_field mmfr1 12 \<ge> 2 then kTcrEl1HwuMask else 0) OR
    (if pauth_present isar1 isar2 then kTcrEl1TbidMask else 0) OR
    (if id_field pfr0 32 \<noteq> 0 then kTcrEl1NfdMask else 0) OR
    (if id_field mmfr2 60 \<noteq> 0 then kTcrEl1E0pdMask else 0) OR
    (if id_field pfr1 8 \<noteq> 0 then kTcrEl1TcmaMask OR kTcrEl1MtxMask else 0)"

definition sanitize_tcr_el1 :: "u64 \<Rightarrow> u64 \<Rightarrow> u64 \<Rightarrow> u64 \<Rightarrow> u64 \<Rightarrow> u64 \<Rightarrow> u64 \<Rightarrow> u64 \<Rightarrow> u64" where
  "sanitize_tcr_el1 v mmfr0 mmfr1 mmfr2 pfr0 pfr1 isar1 isar2 =
    (let v = v AND NOT kTcrEl1ReservedMask;
         mask = tcr_mask mmfr0 mmfr1 mmfr2 pfr0 pfr1 isar1 isar2;
         v = v AND NOT kTcrEl1DsMask
     in v AND mask)"

definition merge_mdscr_el1 :: "u64 \<Rightarrow> u64 \<Rightarrow> bool \<Rightarrow> u64" where
  "merge_mdscr_el1 current v os_lock_locked =
    (let writable = kMdscrEl1Mde OR kMdscrEl1Kde OR kMdscrEl1Tdcc OR kMdscrEl1Ss OR
           (if os_lock_locked then kMdscrEl1OsLockRwMask else 0);
         merged = (current AND NOT writable) OR (v AND writable)
     in sanitize_mdscr_el1 merged)"

definition sanitize_dbgprcr_el1 :: "u64 \<Rightarrow> u64" where
  "sanitize_dbgprcr_el1 v = v AND 0x1"

definition debug_exceptions_enabled_from_el :: "u8 \<Rightarrow> bool \<Rightarrow> u64 \<Rightarrow> bool" where
  "debug_exceptions_enabled_from_el from_el d_masked mdscr =
    (if from_el = 0 then True
     else if from_el = 1 then mdscr AND kMdscrEl1Kde \<noteq> 0 \<and> \<not> d_masked
     else False)"

definition sanitized_sctlr :: "u64 \<Rightarrow> sysregs \<Rightarrow> u64" where
  "sanitized_sctlr v r = sanitize_sctlr_el1 v (r_id_aa64mmfr0_el1 r) (r_id_aa64mmfr1_el1 r)
    (r_id_aa64mmfr2_el1 r) (r_id_aa64pfr0_el1 r) (r_id_aa64pfr1_el1 r) (r_id_aa64isar1_el1 r)
    (r_id_aa64isar2_el1 r)"

definition sanitized_tcr :: "u64 \<Rightarrow> sysregs \<Rightarrow> u64" where
  "sanitized_tcr v r = sanitize_tcr_el1 v (r_id_aa64mmfr0_el1 r) (r_id_aa64mmfr1_el1 r)
    (r_id_aa64mmfr2_el1 r) (r_id_aa64pfr0_el1 r) (r_id_aa64pfr1_el1 r) (r_id_aa64isar1_el1 r)
    (r_id_aa64isar2_el1 r)"

definition sanitized_ttbr :: "u64 \<Rightarrow> sysregs \<Rightarrow> u64" where
  "sanitized_ttbr v r = sanitize_ttbr_el1 v (r_id_aa64mmfr0_el1 r) (r_id_aa64mmfr2_el1 r)"

section \<open>Operations\<close>

definition sysregs_reset :: "sysregs \<Rightarrow> sysregs" where
  "sysregs_reset r =
    (let r = r\<lparr>
      r_sctlr_el1 := 0x30D00800, r_cpacr_el1 := 0, r_midr_el1 := 0x00000000410FD034,
      r_mpidr_el1 := 0x0000000080000000, r_revidr_el1 := 0, r_clidr_el1 := 0,
      r_ctr_el0 := 0x8444C004, r_dczid_el0 := 0x4, r_id_aa64pfr0_el1 := 0x0000000001000011,
      r_id_aa64pfr1_el1 := 0, r_id_aa64dfr0_el1 := kIdAa64Dfr0El1DebugMinimal,
      r_id_aa64dfr1_el1 := 0, r_id_aa64isar0_el1 := 0x0000000000210000, r_id_aa64isar1_el1 := 0,
      r_id_aa64isar2_el1 := 0, r_id_aa64isar3_el1 := 0, r_id_aa64zfr0_el1 := 0,
      r_id_aa64mmfr0_el1 := 0x000000000FF00005, r_id_aa64mmfr1_el1 := 0x0000000000100000,
      r_id_aa64mmfr2_el1 := 0, r_id_aa64mmfr3_el1 := 0, r_csselr_el1 := 0, r_ccsidr_el1 := 0,
      r_ttbr0_el1 := 0, r_ttbr1_el1 := 0, r_tcr_el1 := 0, r_mair_el1 := 0, r_contextidr_el1 := 0,
      r_osdlr_el1 := 0, r_oslar_el1 := 1, r_oseccr_el1 := 0, r_dbgclaim_el1 := 0,
      r_dbgprcr_el1 := 0, r_dbgbvr_el1 := replicate 16 0, r_dbgbcr_el1 := replicate 16 0,
      r_dbgwvr_el1 := replicate 16 0, r_dbgwcr_el1 := replicate 16 0, r_vbar_el1 := 0,
      r_elr_el1 := 0, r_spsr_el1 := 0, r_sp_el0 := 0, r_sp_el1 := 0, r_spsel := 1, r_par_el1 := 0,
      r_esr_el1 := 0, r_far_el1 := 0, r_mdscr_el1 := 0, r_pmuserenr_el0 := 0, r_amuserenr_el0 := 0,
      r_tpidr_el0 := 0, r_tpidr2_el0 := 0, r_tpidrro_el0 := 0, r_tpidr_el1 := 0, r_tpidr_el2 := 0,
      r_cntfrq_el0 := 100000000, r_cntvct_el0 := 0, r_cntkctl_el1 := 0, r_fpcr := 0, r_fpsr := 0,
      r_pstate := new_pstate\<lparr>ps_mode := 0x5\<rparr>\<rparr>
     in r\<lparr>r_sctlr_el1 := sanitized_sctlr (r_sctlr_el1 r) r\<rparr>)"

definition set_fpsr :: "u64 \<Rightarrow> sysregs \<Rightarrow> sysregs" where
  "set_fpsr v r = r\<lparr>r_fpsr := v AND kFpsrArchitecturalMask\<rparr>"

definition set_fpcr :: "u64 \<Rightarrow> sysregs \<Rightarrow> sysregs" where
  "set_fpcr v r = r\<lparr>r_fpcr := v AND kFpcrArchitecturalMask\<rparr>"

definition fp_or_fpsr :: "u64 \<Rightarrow> sysregs \<Rightarrow> sysregs" where
  "fp_or_fpsr b r = r\<lparr>r_fpsr := (r_fpsr r OR b) AND kFpsrArchitecturalMask\<rparr>"

definition breakpoint_resource_count :: "sysregs \<Rightarrow> u32" where
  "breakpoint_resource_count r =
    decode_debug_resource_count (r_id_aa64dfr0_el1 r) 12 (r_id_aa64dfr1_el1 r) 8"

definition watchpoint_resource_count :: "sysregs \<Rightarrow> u32" where
  "watchpoint_resource_count r =
    decode_debug_resource_count (r_id_aa64dfr0_el1 r) 20 (r_id_aa64dfr1_el1 r) 16"

definition current_el :: "sysregs \<Rightarrow> u8" where
  "current_el r = drop_bit 2 (ps_mode (r_pstate r)) AND 0x3"

definition in_el0 :: "sysregs \<Rightarrow> bool" where
  "in_el0 r \<longleftrightarrow> current_el r = 0"

definition current_uses_sp_el0 :: "sysregs \<Rightarrow> bool" where
  "current_uses_sp_el0 r \<longleftrightarrow> ps_mode (r_pstate r) = 0x0 \<or> ps_mode (r_pstate r) = 0x4"

definition use_sp_elx :: "sysregs \<Rightarrow> bool" where
  "use_sp_elx r \<longleftrightarrow> \<not> current_uses_sp_el0 r"

definition irq_masked :: "sysregs \<Rightarrow> bool" where
  "irq_masked r = ps_i (r_pstate r)"

definition illegal_execution_state :: "sysregs \<Rightarrow> bool" where
  "illegal_execution_state r = ps_il (r_pstate r)"

definition mmu_enabled :: "sysregs \<Rightarrow> bool" where
  "mmu_enabled r \<longleftrightarrow> r_sctlr_el1 r AND 1 \<noteq> 0"

definition pstate_set :: "(pstate \<Rightarrow> pstate) \<Rightarrow> sysregs \<Rightarrow> sysregs" where
  "pstate_set f r = r\<lparr>r_pstate := f (r_pstate r)\<rparr>"

definition nzcv :: "sysregs \<Rightarrow> u64" where
  "nzcv r = push_bit 31 (of_bool (ps_n (r_pstate r))) OR push_bit 30 (of_bool (ps_z (r_pstate r))) OR
    push_bit 29 (of_bool (ps_c (r_pstate r))) OR push_bit 28 (of_bool (ps_v (r_pstate r)))"

definition set_nzcv :: "u64 \<Rightarrow> sysregs \<Rightarrow> sysregs" where
  "set_nzcv v = pstate_set (\<lambda>p. p\<lparr>
    ps_n := (drop_bit 31 v AND 1 \<noteq> 0), ps_z := (drop_bit 30 v AND 1 \<noteq> 0),
    ps_c := (drop_bit 29 v AND 1 \<noteq> 0), ps_v := (drop_bit 28 v AND 1 \<noteq> 0)\<rparr>)"

definition daif :: "sysregs \<Rightarrow> u64" where
  "daif r = push_bit 9 (of_bool (ps_d (r_pstate r))) OR push_bit 8 (of_bool (ps_a (r_pstate r))) OR
    push_bit 7 (of_bool (ps_i (r_pstate r))) OR push_bit 6 (of_bool (ps_f (r_pstate r)))"

definition set_daif :: "u64 \<Rightarrow> sysregs \<Rightarrow> sysregs" where
  "set_daif v = pstate_set (\<lambda>p. p\<lparr>
    ps_d := (drop_bit 9 v AND 1 \<noteq> 0), ps_a := (drop_bit 8 v AND 1 \<noteq> 0),
    ps_i := (drop_bit 7 v AND 1 \<noteq> 0), ps_f := (drop_bit 6 v AND 1 \<noteq> 0)\<rparr>)"

definition pstate_bits :: "sysregs \<Rightarrow> u64" where
  "pstate_bits r = nzcv r OR (if ps_ss (r_pstate r) then flag_at 21 else 0) OR
    (if ps_il (r_pstate r) then flag_at 20 else 0) OR daif r OR
    (if ps_pan (r_pstate r) then flag_at 22 else 0) OR (ucast (ps_mode (r_pstate r)) AND 0xF)"

definition set_pstate_bits :: "u64 \<Rightarrow> sysregs \<Rightarrow> sysregs" where
  "set_pstate_bits v r =
    (let r = set_nzcv v r;
         r = pstate_set (\<lambda>p. p\<lparr>ps_ss := (drop_bit 21 v AND 1 \<noteq> 0), ps_il := (drop_bit 20 v AND 1 \<noteq> 0)\<rparr>) r;
         r = set_daif v r;
         r = pstate_set (\<lambda>p. p\<lparr>ps_pan := (drop_bit 22 v AND 1 \<noteq> 0), ps_mode := ucast (v AND 0xF)\<rparr>) r
     in if current_el r = 1 then r\<lparr>r_spsel := ucast (ps_mode (r_pstate r) AND 0x1)\<rparr>
        else r\<lparr>r_spsel := 0\<rparr>)"

definition set_spsel :: "u64 \<Rightarrow> sysregs \<Rightarrow> sysregs" where
  "set_spsel v r =
    (let r = r\<lparr>r_spsel := v AND 1\<rparr> in
     if current_el r = 1 then pstate_set (\<lambda>p. p\<lparr>ps_mode := (if r_spsel r \<noteq> 0 then 0x5 else 0x4)\<rparr>) r
     else r)"

definition set_pan :: "bool \<Rightarrow> sysregs \<Rightarrow> sysregs" where
  "set_pan v = pstate_set (\<lambda>p. p\<lparr>ps_pan := v\<rparr>)"

definition set_software_step_state :: "bool \<Rightarrow> sysregs \<Rightarrow> sysregs" where
  "set_software_step_state v = pstate_set (\<lambda>p. p\<lparr>ps_ss := v\<rparr>)"

definition set_pstate :: "pstate \<Rightarrow> sysregs \<Rightarrow> sysregs" where
  "set_pstate p r = r\<lparr>r_pstate := p\<rparr>"

definition set_mpidr_el1 :: "u64 \<Rightarrow> sysregs \<Rightarrow> sysregs" where
  "set_mpidr_el1 v r = r\<lparr>r_mpidr_el1 := v\<rparr>"

definition set_par_el1 :: "u64 \<Rightarrow> sysregs \<Rightarrow> sysregs" where
  "set_par_el1 v r = r\<lparr>r_par_el1 := v\<rparr>"

definition set_elr_el1 :: "u64 \<Rightarrow> sysregs \<Rightarrow> sysregs" where
  "set_elr_el1 v r = r\<lparr>r_elr_el1 := v\<rparr>"

definition set_cntvct :: "u64 \<Rightarrow> sysregs \<Rightarrow> sysregs" where
  "set_cntvct v r = r\<lparr>r_cntvct_el0 := v\<rparr>"

definition set_sp_el0 :: "u64 \<Rightarrow> sysregs \<Rightarrow> sysregs" where
  "set_sp_el0 v r = r\<lparr>r_sp_el0 := v\<rparr>"

definition set_sp_el1 :: "u64 \<Rightarrow> sysregs \<Rightarrow> sysregs" where
  "set_sp_el1 v r = r\<lparr>r_sp_el1 := v\<rparr>"

section \<open>Debug state\<close>

definition software_step_enabled :: "sysregs \<Rightarrow> bool" where
  "software_step_enabled r \<longleftrightarrow> r_mdscr_el1 r AND kMdscrEl1Ss \<noteq> 0"

definition os_lock_active :: "sysregs \<Rightarrow> bool" where
  "os_lock_active r \<longleftrightarrow> r_oslar_el1 r AND 1 \<noteq> 0"

definition double_lock_active :: "sysregs \<Rightarrow> bool" where
  "double_lock_active r \<longleftrightarrow> r_osdlr_el1 r AND 1 \<noteq> 0 \<and> r_dbgprcr_el1 r AND 1 = 0"

definition monitor_debug_enabled :: "sysregs \<Rightarrow> bool" where
  "monitor_debug_enabled r \<longleftrightarrow> r_mdscr_el1 r AND kMdscrEl1Mde \<noteq> 0"

definition kernel_debug_enabled :: "sysregs \<Rightarrow> bool" where
  "kernel_debug_enabled r \<longleftrightarrow> r_mdscr_el1 r AND kMdscrEl1Kde \<noteq> 0"

definition debug_exceptions_enabled_current :: "sysregs \<Rightarrow> bool" where
  "debug_exceptions_enabled_current r =
    debug_exceptions_enabled_from_el (current_el r) (ps_d (r_pstate r)) (r_mdscr_el1 r)"

definition breakpoint_watchpoint_enabled_current :: "sysregs \<Rightarrow> bool" where
  "breakpoint_watchpoint_enabled_current r \<longleftrightarrow> monitor_debug_enabled r \<and>
    debug_exceptions_enabled_current r \<and> \<not> os_lock_active r \<and> \<not> double_lock_active r"

definition software_step_active_pending :: "sysregs \<Rightarrow> bool" where
  "software_step_active_pending r \<longleftrightarrow> software_step_enabled r \<and>
    debug_exceptions_enabled_current r \<and> \<not> os_lock_active r \<and> \<not> double_lock_active r \<and>
    \<not> ps_ss (r_pstate r)"

definition software_step_active_not_pending :: "sysregs \<Rightarrow> bool" where
  "software_step_active_not_pending r \<longleftrightarrow> software_step_enabled r \<and>
    debug_exceptions_enabled_current r \<and> \<not> os_lock_active r \<and> \<not> double_lock_active r \<and>
    ps_ss (r_pstate r)"

text \<open>The four low bits of the byte address select read as one.\<close>
definition dbgbcr_el1 :: "nat \<Rightarrow> sysregs \<Rightarrow> u64" where
  "dbgbcr_el1 idx r = (r_dbgbcr_el1 r ! idx AND NOT (push_bit 5 0xF)) OR push_bit 5 0xF"

section \<open>Register reads and writes\<close>

definition debug_limit :: "u32 \<Rightarrow> sysregs \<Rightarrow> u32" where
  "debug_limit op2 r =
    (if op2 = 4 \<or> op2 = 5 then breakpoint_resource_count r
     else if op2 = 6 \<or> op2 = 7 then watchpoint_resource_count r else 0)"

definition read_cases :: "sysregs \<Rightarrow> (u32 \<times> u64 option) list" where
  "read_cases r =
    [(SysReg 3 0 0 0 0, Some (r_midr_el1 r)),
     (SysReg 3 0 0 0 5, Some (r_mpidr_el1 r)),
     (SysReg 3 0 0 0 6, Some (r_revidr_el1 r)),
     (SysReg 3 1 0 0 0, Some (r_ccsidr_el1 r)),
     (SysReg 3 0 1 0 0, Some (sanitized_sctlr (r_sctlr_el1 r) r)),
     (SysReg 3 0 1 0 2, Some (sanitize_cpacr_el1 (r_cpacr_el1 r))),
     (SysReg 3 2 0 0 0, Some (sanitize_csselr_el1 (r_csselr_el1 r))),
     (SysReg 3 0 2 0 0, Some (sanitized_ttbr (r_ttbr0_el1 r) r)),
     (SysReg 3 0 2 0 1, Some (sanitized_ttbr (r_ttbr1_el1 r) r)),
     (SysReg 3 0 2 0 2, Some (sanitized_tcr (r_tcr_el1 r) r)),
     (SysReg 3 1 0 0 1, Some (r_clidr_el1 r)),
     (SysReg 3 0 0 4 0, Some (r_id_aa64pfr0_el1 r)),
     (SysReg 3 0 0 4 1, Some (r_id_aa64pfr1_el1 r)),
     (SysReg 3 0 0 5 0, Some (r_id_aa64dfr0_el1 r)),
     (SysReg 3 0 0 5 1, Some (r_id_aa64dfr1_el1 r)),
     (SysReg 3 0 0 6 0, Some (r_id_aa64isar0_el1 r)),
     (SysReg 3 0 0 6 1, Some (r_id_aa64isar1_el1 r)),
     (SysReg 3 0 0 6 2, Some (r_id_aa64isar2_el1 r)),
     (SysReg 3 0 0 6 3, Some (r_id_aa64isar3_el1 r)),
     (SysReg 3 0 0 4 4, Some (r_id_aa64zfr0_el1 r)),
     (SysReg 3 0 0 7 0, Some (r_id_aa64mmfr0_el1 r)),
     (SysReg 3 0 0 7 1, Some (r_id_aa64mmfr1_el1 r)),
     (SysReg 3 0 0 7 2, Some (r_id_aa64mmfr2_el1 r)),
     (SysReg 3 0 0 7 3, Some (r_id_aa64mmfr3_el1 r)),
     (SysReg 3 0 0 7 4, Some 0),
     (SysReg 3 0 0 4 2, Some 0),
     (SysReg 3 0 0 4 5, Some 0),
     (SysReg 3 0 0 4 7, Some 0),
     (SysReg 2 0 1 0 0, Some 0),
     (SysReg 3 0 10 2 0, Some (r_mair_el1 r)),
     (SysReg 3 0 13 0 1, Some (sanitize_contextidr_el1 (r_contextidr_el1 r))),
     (SysReg 2 0 1 3 4, Some (r_osdlr_el1 r)),
     (SysReg 2 0 1 1 4, Some (0x8 OR push_bit 1 (r_oslar_el1 r AND 1))),
     (SysReg 2 0 0 6 2, Some (if r_oslar_el1 r AND 1 \<noteq> 0 then r_oseccr_el1 r AND 0xFFFFFFFF else 0)),
     (SysReg 2 0 7 8 6, Some (r_dbgclaim_el1 r AND 0xFF)),
     (SysReg 2 0 7 9 6, Some (r_dbgclaim_el1 r AND 0xFF)),
     (SysReg 2 0 7 14 6, Some 0xA),
     (SysReg 2 0 1 4 4, Some (r_dbgprcr_el1 r)),
     (SysReg 3 0 12 0 0, Some (sanitize_vbar_el1 (r_vbar_el1 r))),
     (SysReg 3 0 4 0 1, Some (r_elr_el1 r)),
     (SysReg 3 0 4 0 0, Some (r_spsr_el1 r)),
     (SysReg 3 0 4 2 2, Some (push_bit 2 (ucast (current_el r)))),
     (SysReg 3 0 5 2 0, Some (r_esr_el1 r)),
     (SysReg 3 0 6 0 0, Some (r_far_el1 r)),
     (SysReg 2 0 0 2 2, Some (sanitize_mdscr_el1 (r_mdscr_el1 r))),
     (SysReg 3 3 13 0 2, Some (r_tpidr_el0 r)),
     (SysReg 3 3 13 0 3, Some (r_tpidrro_el0 r)),
     (SysReg 3 0 13 0 4, Some (r_tpidr_el1 r)),
     (SysReg 3 4 13 0 2, Some (r_tpidr_el2 r)),
     (SysReg 3 0 4 1 0, if current_el r = 0 \<or> current_uses_sp_el0 r then None else Some (r_sp_el0 r)),
     (SysReg 3 4 4 1 0, if current_el r \<le> 1 then None else Some (r_sp_el1 r)),
     (SysReg 3 0 7 4 0, Some (r_par_el1 r)),
     (SysReg 3 3 4 2 1, Some (daif r)),
     (SysReg 3 0 4 2 0, Some (r_spsel r)),
     (SysReg 3 3 0 0 1, Some (r_ctr_el0 r)),
     (SysReg 3 3 0 0 7, Some (r_dczid_el0 r)),
     (SysReg 3 3 14 0 0, Some (r_cntfrq_el0 r)),
     (SysReg 3 3 14 0 1, Some (r_cntvct_el0 r)),
     (SysReg 3 3 14 0 2, Some (r_cntvct_el0 r)),
     (SysReg 3 0 14 1 0, Some (sanitize_cntkctl_el1 (r_cntkctl_el1 r))),
     (SysReg 3 3 4 4 0, Some (r_fpcr r)),
     (SysReg 3 3 4 4 1, Some (r_fpsr r)),
     (SysReg 3 0 4 2 3, Some (if ps_pan (r_pstate r) then 1 else 0)),
     (SysReg 3 3 4 2 0, Some (nzcv r))]"

definition sysreg_read :: "u32 \<Rightarrow> u32 \<Rightarrow> u32 \<Rightarrow> u32 \<Rightarrow> u32 \<Rightarrow> sysregs \<Rightarrow> u64 option" where
  "sysreg_read op0 op1 crn crm op2 r =
    (let debug = op0 = 2 \<and> op1 = 0 \<and> crn = 0 \<and> crm < 16;
         limit = debug_limit op2 r
     in if debug \<and> limit \<noteq> 0 \<and> crm \<ge> limit then None
        else if debug \<and> op2 = 4 then Some (r_dbgbvr_el1 r ! unat crm)
        else if debug \<and> op2 = 5 then Some (dbgbcr_el1 (unat crm) r)
        else if debug \<and> op2 = 6 then Some (r_dbgwvr_el1 r ! unat crm)
        else if debug \<and> op2 = 7 then Some (r_dbgwcr_el1 r ! unat crm)
        else (case map_of (read_cases r) (make_key op0 op1 crn crm op2) of
                None \<Rightarrow> None | Some result \<Rightarrow> result))"

definition write_cases :: "u64 \<Rightarrow> sysregs \<Rightarrow> (u32 \<times> sysregs option) list" where
  "write_cases v r =
    [(SysReg 3 0 1 0 0, Some (r\<lparr>r_sctlr_el1 := sanitized_sctlr v r\<rparr>)),
     (SysReg 3 0 1 0 2, Some (r\<lparr>r_cpacr_el1 := sanitize_cpacr_el1 v\<rparr>)),
     (SysReg 3 2 0 0 0, Some (r\<lparr>r_csselr_el1 := sanitize_csselr_el1 v\<rparr>)),
     (SysReg 3 0 2 0 0, Some (r\<lparr>r_ttbr0_el1 := sanitized_ttbr v r\<rparr>)),
     (SysReg 3 0 2 0 1, Some (r\<lparr>r_ttbr1_el1 := sanitized_ttbr v r\<rparr>)),
     (SysReg 3 0 2 0 2, Some (r\<lparr>r_tcr_el1 := sanitized_tcr v r\<rparr>)),
     (SysReg 3 0 10 2 0, Some (r\<lparr>r_mair_el1 := v\<rparr>)),
     (SysReg 3 0 13 0 1, Some (r\<lparr>r_contextidr_el1 := sanitize_contextidr_el1 v\<rparr>)),
     (SysReg 2 0 1 3 4, Some (r\<lparr>r_osdlr_el1 := v\<rparr>)),
     (SysReg 2 0 1 0 4, Some (r\<lparr>r_oslar_el1 := v AND 1\<rparr>)),
     (SysReg 2 0 0 6 2, Some (if r_oslar_el1 r AND 1 \<noteq> 0 then r\<lparr>r_oseccr_el1 := v AND 0xFFFFFFFF\<rparr> else r)),
     (SysReg 2 0 7 8 6, Some (r\<lparr>r_dbgclaim_el1 := r_dbgclaim_el1 r OR (v AND 0xFF)\<rparr>)),
     (SysReg 2 0 7 9 6, Some (r\<lparr>r_dbgclaim_el1 := r_dbgclaim_el1 r AND NOT (v AND 0xFF)\<rparr>)),
     (SysReg 2 0 1 4 4, Some (r\<lparr>r_dbgprcr_el1 := sanitize_dbgprcr_el1 v\<rparr>)),
     (SysReg 3 0 12 0 0, Some (r\<lparr>r_vbar_el1 := sanitize_vbar_el1 v\<rparr>)),
     (SysReg 3 0 4 0 1, Some (r\<lparr>r_elr_el1 := v\<rparr>)),
     (SysReg 3 0 4 0 0, Some (r\<lparr>r_spsr_el1 := sanitize_spsr_el1 v\<rparr>)),
     (SysReg 3 0 5 2 0, Some (r\<lparr>r_esr_el1 := v\<rparr>)),
     (SysReg 3 0 6 0 0, Some (r\<lparr>r_far_el1 := v\<rparr>)),
     (SysReg 2 0 0 2 2, Some (r\<lparr>r_mdscr_el1 := merge_mdscr_el1 (r_mdscr_el1 r) v (r_oslar_el1 r AND 1 \<noteq> 0)\<rparr>)),
     (SysReg 3 3 13 0 2, Some (r\<lparr>r_tpidr_el0 := v\<rparr>)),
     (SysReg 3 3 13 0 3, Some (r\<lparr>r_tpidrro_el0 := v\<rparr>)),
     (SysReg 3 0 13 0 4, Some (r\<lparr>r_tpidr_el1 := v\<rparr>)),
     (SysReg 3 4 13 0 2, Some (r\<lparr>r_tpidr_el2 := v\<rparr>)),
     (SysReg 3 0 4 1 0, if current_el r = 0 \<or> current_uses_sp_el0 r then None else Some (r\<lparr>r_sp_el0 := v\<rparr>)),
     (SysReg 3 4 4 1 0, if current_el r \<le> 1 then None else Some (r\<lparr>r_sp_el1 := v\<rparr>)),
     (SysReg 3 0 7 4 0, Some (r\<lparr>r_par_el1 := v\<rparr>)),
     (SysReg 3 3 4 2 1, Some (set_daif v r)),
     (SysReg 3 0 4 2 0, Some (set_spsel v r)),
     (SysReg 3 0 14 1 0, Some (r\<lparr>r_cntkctl_el1 := sanitize_cntkctl_el1 v\<rparr>)),
     (SysReg 3 0 4 2 3, Some (pstate_set (\<lambda>p. p\<lparr>ps_pan := (v AND 1 \<noteq> 0)\<rparr>) r)),
     (SysReg 3 3 4 4 0, Some (set_fpcr v r)),
     (SysReg 3 3 4 4 1, Some (set_fpsr v r)),
     (SysReg 3 3 4 2 0, Some (set_nzcv v r))]"

definition sysreg_write :: "u32 \<Rightarrow> u32 \<Rightarrow> u32 \<Rightarrow> u32 \<Rightarrow> u32 \<Rightarrow> u64 \<Rightarrow> sysregs \<Rightarrow> sysregs option" where
  "sysreg_write op0 op1 crn crm op2 v r =
    (let debug = op0 = 2 \<and> op1 = 0 \<and> crn = 0 \<and> crm < 16;
         limit = debug_limit op2 r
     in if debug \<and> limit \<noteq> 0 \<and> crm \<ge> limit then None
        else if debug \<and> op2 = 4 then Some (r\<lparr>r_dbgbvr_el1 := (r_dbgbvr_el1 r)[unat crm := v]\<rparr>)
        else if debug \<and> op2 = 5 then Some (r\<lparr>r_dbgbcr_el1 := (r_dbgbcr_el1 r)[unat crm := v]\<rparr>)
        else if debug \<and> op2 = 6 then Some (r\<lparr>r_dbgwvr_el1 := (r_dbgwvr_el1 r)[unat crm := v]\<rparr>)
        else if debug \<and> op2 = 7 then Some (r\<lparr>r_dbgwcr_el1 := (r_dbgwcr_el1 r)[unat crm := v]\<rparr>)
        else (case map_of (write_cases v r) (make_key op0 op1 crn crm op2) of
                None \<Rightarrow> None | Some result \<Rightarrow> result))"

section \<open>Exceptions\<close>

definition enter_el1h :: "sysregs \<Rightarrow> sysregs" where
  "enter_el1h r =
    (let r = (pstate_set (\<lambda>p. p\<lparr>ps_mode := 0x5\<rparr>) r)\<lparr>r_spsel := 1\<rparr>;
         r = pstate_set (\<lambda>p. p\<lparr>ps_ss := False, ps_il := False, ps_d := True, ps_a := True\<rparr>) r;
         r = (if r_sctlr_el1 r AND kSctlrEl1Span = 0 then pstate_set (\<lambda>p. p\<lparr>ps_pan := True\<rparr>) r else r)
     in pstate_set (\<lambda>p. p\<lparr>ps_i := True, ps_f := True\<rparr>) r)"

definition exception_enter_irq :: "u64 \<Rightarrow> u64 \<Rightarrow> sysregs \<Rightarrow> sysregs" where
  "exception_enter_irq return_pc saved_pstate_bits r =
    enter_el1h (r\<lparr>r_elr_el1 := return_pc, r_spsr_el1 := sanitize_spsr_el1 saved_pstate_bits, r_esr_el1 := 0\<rparr>)"

definition exception_enter_sync :: "u64 \<Rightarrow> u64 \<Rightarrow> u32 \<Rightarrow> u32 \<Rightarrow> bool \<Rightarrow> u64 \<Rightarrow> sysregs \<Rightarrow> sysregs" where
  "exception_enter_sync return_pc saved_pstate_bits ec iss far_valid far r =
    enter_el1h (r\<lparr>r_elr_el1 := return_pc, r_spsr_el1 := sanitize_spsr_el1 saved_pstate_bits,
      r_esr_el1 := push_bit 26 (ucast (ec AND 0x3F)) OR flag_at 25 OR ucast (iss AND 0x1FFFFFF),
      r_far_el1 := (if far_valid then far else 0)\<rparr>)"

definition illegal_exception_return :: "sysregs \<Rightarrow> bool" where
  "illegal_exception_return r =
    (if r_spsr_el1 r AND flag_at 4 \<noteq> 0 then True
     else ucast (r_spsr_el1 r AND 0xF) \<notin> {0x0, 0x4, 0x5 :: u8})"

definition exception_return :: "bool \<Rightarrow> sysregs \<Rightarrow> u64 \<times> sysregs" where
  "exception_return illegal_psr_state r =
    (let spsr = r_spsr_el1 r;
         enabled_at_source = debug_exceptions_enabled_from_el (current_el r) (ps_d (r_pstate r)) (r_mdscr_el1 r);
         dest_el = (if illegal_psr_state then current_el r else ucast (drop_bit 2 spsr AND 0x3));
         dest_d_masked = (drop_bit 9 spsr AND 1 \<noteq> 0);
         enabled_at_dest = debug_exceptions_enabled_from_el dest_el dest_d_masked (r_mdscr_el1 r);
         restore_software_step = software_step_enabled r \<and> \<not> enabled_at_source \<and> enabled_at_dest \<and>
           drop_bit 21 spsr AND 1 \<noteq> 0
     in if illegal_psr_state then
          let r = set_daif spsr (set_nzcv spsr r)
          in (r_elr_el1 r, pstate_set (\<lambda>p. p\<lparr>ps_pan := (drop_bit 22 spsr AND 1 \<noteq> 0),
                ps_ss := restore_software_step, ps_il := True\<rparr>) r)
        else
          let r = set_pstate_bits spsr r
          in (r_elr_el1 r, pstate_set (\<lambda>p. p\<lparr>ps_ss := restore_software_step\<rparr>) r))"

definition daif_mask :: "bool \<Rightarrow> u8 \<Rightarrow> sysregs \<Rightarrow> sysregs" where
  "daif_mask b imm4 = pstate_set (\<lambda>p. p\<lparr>
    ps_d := (if imm4 AND 0x8 \<noteq> 0 then b else ps_d p), ps_a := (if imm4 AND 0x4 \<noteq> 0 then b else ps_a p),
    ps_i := (if imm4 AND 0x2 \<noteq> 0 then b else ps_i p), ps_f := (if imm4 AND 0x1 \<noteq> 0 then b else ps_f p)\<rparr>)"

definition daif_set :: "u8 \<Rightarrow> sysregs \<Rightarrow> sysregs" where "daif_set = daif_mask True"

definition daif_clr :: "u8 \<Rightarrow> sysregs \<Rightarrow> sysregs" where "daif_clr = daif_mask False"

section \<open>Snapshots\<close>

definition sysregs_save_state :: "sysregs \<Rightarrow> writer" where
  "sysregs_save_state r = write_seq [
    snap_write (r_sctlr_el1 r), snap_write (r_cpacr_el1 r), snap_write (r_midr_el1 r),
    snap_write (r_mpidr_el1 r), snap_write (r_revidr_el1 r), snap_write (r_clidr_el1 r),
    snap_write (r_ctr_el0 r), snap_write (r_dczid_el0 r), snap_write (r_id_aa64pfr0_el1 r),
    snap_write (r_id_aa64pfr1_el1 r), snap_write (r_id_aa64dfr0_el1 r),
    snap_write (r_id_aa64dfr1_el1 r), snap_write (r_id_aa64isar0_el1 r),
    snap_write (r_id_aa64isar1_el1 r), snap_write (r_id_aa64isar2_el1 r),
    snap_write (r_id_aa64isar3_el1 r), snap_write (r_id_aa64zfr0_el1 r),
    snap_write (r_id_aa64mmfr0_el1 r), snap_write (r_id_aa64mmfr1_el1 r),
    snap_write (r_id_aa64mmfr2_el1 r), snap_write (r_id_aa64mmfr3_el1 r),
    snap_write (r_csselr_el1 r), snap_write (r_ccsidr_el1 r), snap_write (r_ttbr0_el1 r),
    snap_write (r_ttbr1_el1 r), snap_write (r_tcr_el1 r), snap_write (r_mair_el1 r),
    snap_write (r_contextidr_el1 r), snap_write (r_osdlr_el1 r), snap_write (r_oslar_el1 r),
    snap_write (r_oseccr_el1 r), snap_write (r_dbgclaim_el1 r), snap_write (r_dbgprcr_el1 r),
    write_array snap_write (r_dbgbvr_el1 r), write_array snap_write (r_dbgbcr_el1 r),
    write_array snap_write (r_dbgwvr_el1 r), write_array snap_write (r_dbgwcr_el1 r),
    snap_write (r_vbar_el1 r), snap_write (r_elr_el1 r), snap_write (r_spsr_el1 r),
    snap_write (r_sp_el0 r), snap_write (r_sp_el1 r), snap_write (r_spsel r),
    snap_write (r_par_el1 r), snap_write (r_esr_el1 r), snap_write (r_far_el1 r),
    snap_write (r_mdscr_el1 r), snap_write (r_pmuserenr_el0 r), snap_write (r_amuserenr_el0 r),
    snap_write (r_tpidr_el0 r), snap_write (r_tpidr2_el0 r), snap_write (r_tpidrro_el0 r),
    snap_write (r_tpidr_el1 r), snap_write (r_tpidr_el2 r), snap_write (r_cntfrq_el0 r),
    snap_write (r_cntvct_el0 r), snap_write (r_cntkctl_el1 r), snap_write (r_fpcr r),
    snap_write (r_fpsr r), write_bool (ps_n (r_pstate r)), write_bool (ps_z (r_pstate r)),
    write_bool (ps_c (r_pstate r)), write_bool (ps_v (r_pstate r)),
    write_bool (ps_ss (r_pstate r)), write_bool (ps_il (r_pstate r)),
    write_bool (ps_d (r_pstate r)), write_bool (ps_a (r_pstate r)), write_bool (ps_i (r_pstate r)),
    write_bool (ps_f (r_pstate r)), write_bool (ps_pan (r_pstate r)),
    snap_write (ps_mode (r_pstate r))]"

text \<open>A field that older versions do not have is read only from the version that has it.\<close>
definition read_from :: "u32 \<Rightarrow> u32 \<Rightarrow> sysregs reader \<Rightarrow> sysregs reader" where
  "read_from version first rd = (if version < first then read_finish (\<lambda>r. r) else rd)"

definition sysregs_load_end :: "u32 \<Rightarrow> sysregs \<Rightarrow> sysregs" where
  "sysregs_load_end version r =
    (let r = (if version \<ge> 18 then r else r\<lparr>r_oseccr_el1 := 0\<rparr>);
         r = (if version \<ge> 18 then r else r\<lparr>r_dbgclaim_el1 := 0\<rparr>);
         r = (if version \<ge> 19 then r else r\<lparr>r_dbgprcr_el1 := 0\<rparr>);
         r = r\<lparr>r_sctlr_el1 := sanitized_sctlr (r_sctlr_el1 r) r\<rparr>;
         r = r\<lparr>r_cpacr_el1 := sanitize_cpacr_el1 (r_cpacr_el1 r)\<rparr>;
         r = r\<lparr>r_csselr_el1 := sanitize_csselr_el1 (r_csselr_el1 r)\<rparr>;
         r = r\<lparr>r_ttbr0_el1 := sanitized_ttbr (r_ttbr0_el1 r) r\<rparr>;
         r = r\<lparr>r_ttbr1_el1 := sanitized_ttbr (r_ttbr1_el1 r) r\<rparr>;
         r = r\<lparr>r_tcr_el1 := sanitized_tcr (r_tcr_el1 r) r\<rparr>;
         r = r\<lparr>r_vbar_el1 := sanitize_vbar_el1 (r_vbar_el1 r)\<rparr>;
         r = r\<lparr>r_contextidr_el1 := sanitize_contextidr_el1 (r_contextidr_el1 r)\<rparr>;
         r = r\<lparr>r_cntkctl_el1 := sanitize_cntkctl_el1 (r_cntkctl_el1 r)\<rparr>;
         r = r\<lparr>r_spsr_el1 := sanitize_spsr_el1 (r_spsr_el1 r)\<rparr>;
         r = r\<lparr>r_mdscr_el1 := sanitize_mdscr_el1 (r_mdscr_el1 r)\<rparr>;
         r = set_fpsr (r_fpsr r) (set_fpcr (r_fpcr r) r)
     in r\<lparr>r_dbgprcr_el1 := sanitize_dbgprcr_el1 (r_dbgprcr_el1 r)\<rparr>)"

definition sysregs_load_state :: "u32 \<Rightarrow> sysregs reader" where
  "sysregs_load_state version = read_seq [
    read_finish (pstate_set (\<lambda>p. p\<lparr>ps_ss := False, ps_il := False\<rparr>)),
    read_into snap_read r_sctlr_el1 r_sctlr_el1_update,
    read_into snap_read r_cpacr_el1 r_cpacr_el1_update,
    read_into snap_read r_midr_el1 r_midr_el1_update,
    read_into snap_read r_mpidr_el1 r_mpidr_el1_update,
    read_into snap_read r_revidr_el1 r_revidr_el1_update,
    read_into snap_read r_clidr_el1 r_clidr_el1_update,
    read_into snap_read r_ctr_el0 r_ctr_el0_update,
    read_into snap_read r_dczid_el0 r_dczid_el0_update,
    read_into snap_read r_id_aa64pfr0_el1 r_id_aa64pfr0_el1_update,
    read_into snap_read r_id_aa64pfr1_el1 r_id_aa64pfr1_el1_update,
    read_into snap_read r_id_aa64dfr0_el1 r_id_aa64dfr0_el1_update,
    read_into snap_read r_id_aa64dfr1_el1 r_id_aa64dfr1_el1_update,
    read_into snap_read r_id_aa64isar0_el1 r_id_aa64isar0_el1_update,
    read_into snap_read r_id_aa64isar1_el1 r_id_aa64isar1_el1_update,
    read_into snap_read r_id_aa64isar2_el1 r_id_aa64isar2_el1_update,
    read_into snap_read r_id_aa64isar3_el1 r_id_aa64isar3_el1_update,
    read_into snap_read r_id_aa64zfr0_el1 r_id_aa64zfr0_el1_update,
    read_into snap_read r_id_aa64mmfr0_el1 r_id_aa64mmfr0_el1_update,
    read_into snap_read r_id_aa64mmfr1_el1 r_id_aa64mmfr1_el1_update,
    read_into snap_read r_id_aa64mmfr2_el1 r_id_aa64mmfr2_el1_update,
    read_into snap_read r_id_aa64mmfr3_el1 r_id_aa64mmfr3_el1_update,
    read_into snap_read r_csselr_el1 r_csselr_el1_update,
    read_into snap_read r_ccsidr_el1 r_ccsidr_el1_update,
    read_into snap_read r_ttbr0_el1 r_ttbr0_el1_update,
    read_into snap_read r_ttbr1_el1 r_ttbr1_el1_update,
    read_into snap_read r_tcr_el1 r_tcr_el1_update,
    read_into snap_read r_mair_el1 r_mair_el1_update,
    read_into snap_read r_contextidr_el1 r_contextidr_el1_update,
    read_into snap_read r_osdlr_el1 r_osdlr_el1_update,
    read_into snap_read r_oslar_el1 r_oslar_el1_update,
    read_from version 18 (read_into snap_read r_oseccr_el1 r_oseccr_el1_update),
    read_from version 18 (read_into snap_read r_dbgclaim_el1 r_dbgclaim_el1_update),
    read_from version 19 (read_into snap_read r_dbgprcr_el1 r_dbgprcr_el1_update),
    read_into (read_array snap_read) r_dbgbvr_el1 r_dbgbvr_el1_update,
    read_into (read_array snap_read) r_dbgbcr_el1 r_dbgbcr_el1_update,
    read_into (read_array snap_read) r_dbgwvr_el1 r_dbgwvr_el1_update,
    read_into (read_array snap_read) r_dbgwcr_el1 r_dbgwcr_el1_update,
    read_into snap_read r_vbar_el1 r_vbar_el1_update,
    read_into snap_read r_elr_el1 r_elr_el1_update,
    read_into snap_read r_spsr_el1 r_spsr_el1_update, read_into snap_read r_sp_el0 r_sp_el0_update,
    read_into snap_read r_sp_el1 r_sp_el1_update, read_into snap_read r_spsel r_spsel_update,
    read_into snap_read r_par_el1 r_par_el1_update, read_into snap_read r_esr_el1 r_esr_el1_update,
    read_into snap_read r_far_el1 r_far_el1_update,
    read_into snap_read r_mdscr_el1 r_mdscr_el1_update,
    read_into snap_read r_pmuserenr_el0 r_pmuserenr_el0_update,
    read_into snap_read r_amuserenr_el0 r_amuserenr_el0_update,
    read_into snap_read r_tpidr_el0 r_tpidr_el0_update,
    read_into snap_read r_tpidr2_el0 r_tpidr2_el0_update,
    read_into snap_read r_tpidrro_el0 r_tpidrro_el0_update,
    read_into snap_read r_tpidr_el1 r_tpidr_el1_update,
    read_into snap_read r_tpidr_el2 r_tpidr_el2_update,
    read_into snap_read r_cntfrq_el0 r_cntfrq_el0_update,
    read_into snap_read r_cntvct_el0 r_cntvct_el0_update,
    read_into snap_read r_cntkctl_el1 r_cntkctl_el1_update,
    read_into snap_read r_fpcr r_fpcr_update, read_into snap_read r_fpsr r_fpsr_update,
    read_into (read_into read_bool ps_n ps_n_update) r_pstate r_pstate_update,
    read_into (read_into read_bool ps_z ps_z_update) r_pstate r_pstate_update,
    read_into (read_into read_bool ps_c ps_c_update) r_pstate r_pstate_update,
    read_into (read_into read_bool ps_v ps_v_update) r_pstate r_pstate_update,
    read_from version 16 (read_into (read_into read_bool ps_ss ps_ss_update) r_pstate r_pstate_update),
    read_from version 15 (read_into (read_into read_bool ps_il ps_il_update) r_pstate r_pstate_update),
    read_into (read_into read_bool ps_d ps_d_update) r_pstate r_pstate_update,
    read_into (read_into read_bool ps_a ps_a_update) r_pstate r_pstate_update,
    read_into (read_into read_bool ps_i ps_i_update) r_pstate r_pstate_update,
    read_into (read_into read_bool ps_f ps_f_update) r_pstate r_pstate_update,
    read_into (read_into read_bool ps_pan ps_pan_update) r_pstate r_pstate_update,
    read_into (read_into snap_read ps_mode ps_mode_update) r_pstate r_pstate_update,
    read_finish (sysregs_load_end version)]"

section \<open>The bits that a register keeps\<close>

abbreviation id_rows :: "sysregs \<Rightarrow> (bool \<times> u64 \<times> u64) list" where
  "id_rows r \<equiv> sctlr_rows (r_id_aa64mmfr0_el1 r) (r_id_aa64mmfr1_el1 r) (r_id_aa64mmfr2_el1 r)
    (r_id_aa64pfr0_el1 r) (r_id_aa64pfr1_el1 r) (r_id_aa64isar1_el1 r) (r_id_aa64isar2_el1 r)"

definition ttbr_bits :: "sysregs \<Rightarrow> u64" where
  "ttbr_bits r = (if id_field (r_id_aa64mmfr0_el1 r) 4 = 2 then -1 else NOT (push_bit 56 0xFF)) AND
    (if id_field (r_id_aa64mmfr2_el1 r) 12 = 1 then -1 else NOT 1)"

definition tcr_bits :: "sysregs \<Rightarrow> u64" where
  "tcr_bits r = tcr_mask (r_id_aa64mmfr0_el1 r) (r_id_aa64mmfr1_el1 r) (r_id_aa64mmfr2_el1 r)
    (r_id_aa64pfr0_el1 r) (r_id_aa64pfr1_el1 r) (r_id_aa64isar1_el1 r) (r_id_aa64isar2_el1 r) AND
    NOT (kTcrEl1ReservedMask OR kTcrEl1DsMask)"

lemma or_and_or: "(v OR s) AND (w OR s) = (v AND w) OR (s :: u64)"
  by (rule bit_word_eqI) (auto simp: bit_simps)

lemma sanitized_bits:
  "sanitized_sctlr v r = (v AND sctlr_writable (id_rows r)) OR sctlr_res1 (id_rows r)"
  "sanitized_ttbr v r = v AND ttbr_bits r"
  "sanitized_tcr v r = v AND tcr_bits r"
proof -
  show "sanitized_sctlr v r = (v AND sctlr_writable (id_rows r)) OR sctlr_res1 (id_rows r)"
    unfolding sanitized_sctlr_def sanitize_sctlr_el1_def Let_def by (rule or_and_or)
  show "sanitized_ttbr v r = v AND ttbr_bits r"
    by (simp add: sanitized_ttbr_def sanitize_ttbr_el1_def ttbr_bits_def Let_def and.assoc)
  show "sanitized_tcr v r = v AND tcr_bits r"
    unfolding sanitized_tcr_def sanitize_tcr_el1_def tcr_bits_def Let_def
    by (rule bit_word_eqI) (auto simp: bit_simps)
qed

lemma bit_of_field: "(drop_bit k v AND 1 \<noteq> 0) \<longleftrightarrow> bit v k" for v :: u64
  by (simp add: bit_iff_odd_drop_bit and_one_eq odd_iff_mod_2_eq_one)

lemma four_flags:
  "push_bit (k + 3) (of_bool (bit v (k + 3))) OR push_bit (k + 2) (of_bool (bit v (k + 2))) OR
   push_bit (k + 1) (of_bool (bit v (k + 1))) OR push_bit k (of_bool (bit v k)) = v AND push_bit k 0xF" for v :: u64
proof (rule bit_word_eqI)
  fix n assume n: "n < LENGTH(64)"
  have flag: "bit (push_bit j (of_bool b) :: u64) n \<longleftrightarrow> n = j \<and> b" for j b
    using n by (auto simp: bit_push_bit_iff bit_of_bool_iff)
  have f: "(0xF :: u64) = mask 4" by (simp add: mask_eq_exp_minus_1)
  have "bit (push_bit k 0xF :: u64) n \<longleftrightarrow> k \<le> n \<and> n < k + 4"
    unfolding f using n by (auto simp: bit_push_bit_iff bit_mask_iff)
  moreover have "k \<le> n \<and> n < k + 4 \<longleftrightarrow> n = k \<or> n = k + 1 \<or> n = k + 2 \<or> n = k + 3" by arith
  ultimately have nib: "bit (push_bit k 0xF :: u64) n \<longleftrightarrow> n = k \<or> n = k + 1 \<or> n = k + 2 \<or> n = k + 3" by simp
  show "bit (push_bit (k + 3) (of_bool (bit v (k + 3))) OR push_bit (k + 2) (of_bool (bit v (k + 2))) OR
      push_bit (k + 1) (of_bool (bit v (k + 1))) OR push_bit k (of_bool (bit v k)) :: u64) n =
    bit (v AND push_bit k 0xF) n"
    unfolding bit_or_iff bit_and_iff flag nib by blast
qed

lemma nzcv_set_nzcv: "nzcv (set_nzcv v r) = v AND push_bit 28 0xF"
  unfolding nzcv_def set_nzcv_def pstate_set_def bit_of_field using four_flags [of 28 v] by simp

lemma daif_set_daif: "daif (set_daif v r) = v AND push_bit 6 0xF"
  unfolding daif_def set_daif_def pstate_set_def bit_of_field using four_flags [of 6 v] by simp

lemma and_or_idem: "(((v AND w) OR s) AND w) OR s = (v AND w) OR (s :: u64)"
  by (rule bit_word_eqI) (auto simp: bit_simps)

lemma sanitized_twice:
  "sanitized_sctlr (sanitized_sctlr v r) (r\<lparr>r_sctlr_el1 := x\<rparr>) = sanitized_sctlr v r"
  "sanitized_ttbr (sanitized_ttbr v r) (r\<lparr>r_ttbr0_el1 := x\<rparr>) = sanitized_ttbr v r"
  "sanitized_ttbr (sanitized_ttbr v r) (r\<lparr>r_ttbr1_el1 := x\<rparr>) = sanitized_ttbr v r"
  "sanitized_tcr (sanitized_tcr v r) (r\<lparr>r_tcr_el1 := x\<rparr>) = sanitized_tcr v r"
  "sanitize_mdscr_el1 (merge_mdscr_el1 c v b) = merge_mdscr_el1 c v b"
  by (simp_all add: sanitized_bits and_or_idem ttbr_bits_def tcr_bits_def and.assoc merge_mdscr_el1_def
      sanitize_mdscr_el1_def Let_def)

lemmas plain_masks =
  sanitize_cpacr_el1_def sanitize_csselr_el1_def sanitize_contextidr_el1_def sanitize_dbgprcr_el1_def
  sanitize_vbar_el1_def sanitize_spsr_el1_def sanitize_cntkctl_el1_def set_fpcr_def set_fpsr_def

end
