(* ===== verification/System_Registers_Proofs.thy ===== *)
theory System_Registers_Proofs
  imports System_Registers
begin

text \<open>
  The registers of \<open>System_Registers\<close>: what a write leaves in the register and in the others,
  the invariant that every operation keeps, exception entry and return, software step, and the
  snapshot.
\<close>

section \<open>The rows of the two switches\<close>

lemma label_values:
  "SysReg 2 0 0 2 2 = 0x8012"
  "SysReg 2 0 0 6 2 = 0x8032"
  "SysReg 2 0 1 0 0 = 0x8080"
  "SysReg 2 0 1 0 4 = 0x8084"
  "SysReg 2 0 1 1 4 = 0x808C"
  "SysReg 2 0 1 3 4 = 0x809C"
  "SysReg 2 0 1 4 4 = 0x80A4"
  "SysReg 2 0 7 8 6 = 0x83C6"
  "SysReg 2 0 7 9 6 = 0x83CE"
  "SysReg 2 0 7 14 6 = 0x83F6"
  "SysReg 3 0 0 0 0 = 0xC000"
  "SysReg 3 0 0 0 5 = 0xC005"
  "SysReg 3 0 0 0 6 = 0xC006"
  "SysReg 3 0 0 4 0 = 0xC020"
  "SysReg 3 0 0 4 1 = 0xC021"
  "SysReg 3 0 0 4 2 = 0xC022"
  "SysReg 3 0 0 4 4 = 0xC024"
  "SysReg 3 0 0 4 5 = 0xC025"
  "SysReg 3 0 0 4 7 = 0xC027"
  "SysReg 3 0 0 5 0 = 0xC028"
  "SysReg 3 0 0 5 1 = 0xC029"
  "SysReg 3 0 0 6 0 = 0xC030"
  "SysReg 3 0 0 6 1 = 0xC031"
  "SysReg 3 0 0 6 2 = 0xC032"
  "SysReg 3 0 0 6 3 = 0xC033"
  "SysReg 3 0 0 7 0 = 0xC038"
  "SysReg 3 0 0 7 1 = 0xC039"
  "SysReg 3 0 0 7 2 = 0xC03A"
  "SysReg 3 0 0 7 3 = 0xC03B"
  "SysReg 3 0 0 7 4 = 0xC03C"
  "SysReg 3 0 1 0 0 = 0xC080"
  "SysReg 3 0 1 0 2 = 0xC082"
  "SysReg 3 0 2 0 0 = 0xC100"
  "SysReg 3 0 2 0 1 = 0xC101"
  "SysReg 3 0 2 0 2 = 0xC102"
  "SysReg 3 0 4 0 0 = 0xC200"
  "SysReg 3 0 4 0 1 = 0xC201"
  "SysReg 3 0 4 1 0 = 0xC208"
  "SysReg 3 0 4 2 0 = 0xC210"
  "SysReg 3 0 4 2 2 = 0xC212"
  "SysReg 3 0 4 2 3 = 0xC213"
  "SysReg 3 0 5 2 0 = 0xC290"
  "SysReg 3 0 6 0 0 = 0xC300"
  "SysReg 3 0 7 4 0 = 0xC3A0"
  "SysReg 3 0 10 2 0 = 0xC510"
  "SysReg 3 0 12 0 0 = 0xC600"
  "SysReg 3 0 13 0 1 = 0xC681"
  "SysReg 3 0 13 0 4 = 0xC684"
  "SysReg 3 0 14 1 0 = 0xC708"
  "SysReg 3 1 0 0 0 = 0xC800"
  "SysReg 3 1 0 0 1 = 0xC801"
  "SysReg 3 2 0 0 0 = 0xD000"
  "SysReg 3 3 0 0 1 = 0xD801"
  "SysReg 3 3 0 0 7 = 0xD807"
  "SysReg 3 3 4 2 0 = 0xDA10"
  "SysReg 3 3 4 2 1 = 0xDA11"
  "SysReg 3 3 4 4 0 = 0xDA20"
  "SysReg 3 3 4 4 1 = 0xDA21"
  "SysReg 3 3 13 0 2 = 0xDE82"
  "SysReg 3 3 13 0 3 = 0xDE83"
  "SysReg 3 3 14 0 0 = 0xDF00"
  "SysReg 3 3 14 0 1 = 0xDF01"
  "SysReg 3 3 14 0 2 = 0xDF02"
  "SysReg 3 4 4 1 0 = 0xE208"
  "SysReg 3 4 13 0 2 = 0xE682"
  by (simp_all add: SysReg_def)

lemma read_rows:
  "map_of (read_cases r) 0xC000 = Some (Some (r_midr_el1 r))"
  "map_of (read_cases r) 0xC005 = Some (Some (r_mpidr_el1 r))"
  "map_of (read_cases r) 0xC006 = Some (Some (r_revidr_el1 r))"
  "map_of (read_cases r) 0xC800 = Some (Some (r_ccsidr_el1 r))"
  "map_of (read_cases r) 0xC080 = Some (Some (sanitized_sctlr (r_sctlr_el1 r) r))"
  "map_of (read_cases r) 0xC082 = Some (Some (sanitize_cpacr_el1 (r_cpacr_el1 r)))"
  "map_of (read_cases r) 0xD000 = Some (Some (sanitize_csselr_el1 (r_csselr_el1 r)))"
  "map_of (read_cases r) 0xC100 = Some (Some (sanitized_ttbr (r_ttbr0_el1 r) r))"
  "map_of (read_cases r) 0xC101 = Some (Some (sanitized_ttbr (r_ttbr1_el1 r) r))"
  "map_of (read_cases r) 0xC102 = Some (Some (sanitized_tcr (r_tcr_el1 r) r))"
  "map_of (read_cases r) 0xC801 = Some (Some (r_clidr_el1 r))"
  "map_of (read_cases r) 0xC020 = Some (Some (r_id_aa64pfr0_el1 r))"
  "map_of (read_cases r) 0xC021 = Some (Some (r_id_aa64pfr1_el1 r))"
  "map_of (read_cases r) 0xC028 = Some (Some (r_id_aa64dfr0_el1 r))"
  "map_of (read_cases r) 0xC029 = Some (Some (r_id_aa64dfr1_el1 r))"
  "map_of (read_cases r) 0xC030 = Some (Some (r_id_aa64isar0_el1 r))"
  "map_of (read_cases r) 0xC031 = Some (Some (r_id_aa64isar1_el1 r))"
  "map_of (read_cases r) 0xC032 = Some (Some (r_id_aa64isar2_el1 r))"
  "map_of (read_cases r) 0xC033 = Some (Some (r_id_aa64isar3_el1 r))"
  "map_of (read_cases r) 0xC024 = Some (Some (r_id_aa64zfr0_el1 r))"
  "map_of (read_cases r) 0xC038 = Some (Some (r_id_aa64mmfr0_el1 r))"
  "map_of (read_cases r) 0xC039 = Some (Some (r_id_aa64mmfr1_el1 r))"
  "map_of (read_cases r) 0xC03A = Some (Some (r_id_aa64mmfr2_el1 r))"
  "map_of (read_cases r) 0xC03B = Some (Some (r_id_aa64mmfr3_el1 r))"
  "map_of (read_cases r) 0xC03C = Some (Some 0)"
  "map_of (read_cases r) 0xC022 = Some (Some 0)"
  "map_of (read_cases r) 0xC025 = Some (Some 0)"
  "map_of (read_cases r) 0xC027 = Some (Some 0)"
  "map_of (read_cases r) 0x8080 = Some (Some 0)"
  "map_of (read_cases r) 0xC510 = Some (Some (r_mair_el1 r))"
  "map_of (read_cases r) 0xC681 = Some (Some (sanitize_contextidr_el1 (r_contextidr_el1 r)))"
  "map_of (read_cases r) 0x809C = Some (Some (r_osdlr_el1 r))"
  "map_of (read_cases r) 0x808C = Some (Some (0x8 OR push_bit 1 (r_oslar_el1 r AND 1)))"
  "map_of (read_cases r) 0x8032 = Some (Some (if r_oslar_el1 r AND 1 \<noteq> 0 then r_oseccr_el1 r AND 0xFFFFFFFF else 0))"
  "map_of (read_cases r) 0x83C6 = Some (Some (r_dbgclaim_el1 r AND 0xFF))"
  "map_of (read_cases r) 0x83CE = Some (Some (r_dbgclaim_el1 r AND 0xFF))"
  "map_of (read_cases r) 0x83F6 = Some (Some 0xA)"
  "map_of (read_cases r) 0x80A4 = Some (Some (r_dbgprcr_el1 r))"
  "map_of (read_cases r) 0xC600 = Some (Some (sanitize_vbar_el1 (r_vbar_el1 r)))"
  "map_of (read_cases r) 0xC201 = Some (Some (r_elr_el1 r))"
  "map_of (read_cases r) 0xC200 = Some (Some (r_spsr_el1 r))"
  "map_of (read_cases r) 0xC212 = Some (Some (push_bit 2 (ucast (current_el r))))"
  "map_of (read_cases r) 0xC290 = Some (Some (r_esr_el1 r))"
  "map_of (read_cases r) 0xC300 = Some (Some (r_far_el1 r))"
  "map_of (read_cases r) 0x8012 = Some (Some (sanitize_mdscr_el1 (r_mdscr_el1 r)))"
  "map_of (read_cases r) 0xDE82 = Some (Some (r_tpidr_el0 r))"
  "map_of (read_cases r) 0xDE83 = Some (Some (r_tpidrro_el0 r))"
  "map_of (read_cases r) 0xC684 = Some (Some (r_tpidr_el1 r))"
  "map_of (read_cases r) 0xE682 = Some (Some (r_tpidr_el2 r))"
  "map_of (read_cases r) 0xC208 = Some (if current_el r = 0 \<or> current_uses_sp_el0 r then None else Some (r_sp_el0 r))"
  "map_of (read_cases r) 0xE208 = Some (if current_el r \<le> 1 then None else Some (r_sp_el1 r))"
  "map_of (read_cases r) 0xC3A0 = Some (Some (r_par_el1 r))"
  "map_of (read_cases r) 0xDA11 = Some (Some (daif r))"
  "map_of (read_cases r) 0xC210 = Some (Some (r_spsel r))"
  "map_of (read_cases r) 0xD801 = Some (Some (r_ctr_el0 r))"
  "map_of (read_cases r) 0xD807 = Some (Some (r_dczid_el0 r))"
  "map_of (read_cases r) 0xDF00 = Some (Some (r_cntfrq_el0 r))"
  "map_of (read_cases r) 0xDF01 = Some (Some (r_cntvct_el0 r))"
  "map_of (read_cases r) 0xDF02 = Some (Some (r_cntvct_el0 r))"
  "map_of (read_cases r) 0xC708 = Some (Some (sanitize_cntkctl_el1 (r_cntkctl_el1 r)))"
  "map_of (read_cases r) 0xDA20 = Some (Some (r_fpcr r))"
  "map_of (read_cases r) 0xDA21 = Some (Some (r_fpsr r))"
  "map_of (read_cases r) 0xC213 = Some (Some (if ps_pan (r_pstate r) then 1 else 0))"
  "map_of (read_cases r) 0xDA10 = Some (Some (nzcv r))"
  by (simp_all add: read_cases_def label_values)

lemma write_rows:
  "map_of (write_cases v r) 0xC080 = Some (Some (r\<lparr>r_sctlr_el1 := sanitized_sctlr v r\<rparr>))"
  "map_of (write_cases v r) 0xC082 = Some (Some (r\<lparr>r_cpacr_el1 := sanitize_cpacr_el1 v\<rparr>))"
  "map_of (write_cases v r) 0xD000 = Some (Some (r\<lparr>r_csselr_el1 := sanitize_csselr_el1 v\<rparr>))"
  "map_of (write_cases v r) 0xC100 = Some (Some (r\<lparr>r_ttbr0_el1 := sanitized_ttbr v r\<rparr>))"
  "map_of (write_cases v r) 0xC101 = Some (Some (r\<lparr>r_ttbr1_el1 := sanitized_ttbr v r\<rparr>))"
  "map_of (write_cases v r) 0xC102 = Some (Some (r\<lparr>r_tcr_el1 := sanitized_tcr v r\<rparr>))"
  "map_of (write_cases v r) 0xC510 = Some (Some (r\<lparr>r_mair_el1 := v\<rparr>))"
  "map_of (write_cases v r) 0xC681 = Some (Some (r\<lparr>r_contextidr_el1 := sanitize_contextidr_el1 v\<rparr>))"
  "map_of (write_cases v r) 0x809C = Some (Some (r\<lparr>r_osdlr_el1 := v\<rparr>))"
  "map_of (write_cases v r) 0x8084 = Some (Some (r\<lparr>r_oslar_el1 := v AND 1\<rparr>))"
  "map_of (write_cases v r) 0x8032 = Some (Some (if r_oslar_el1 r AND 1 \<noteq> 0 then r\<lparr>r_oseccr_el1 := v AND 0xFFFFFFFF\<rparr> else r))"
  "map_of (write_cases v r) 0x83C6 = Some (Some (r\<lparr>r_dbgclaim_el1 := r_dbgclaim_el1 r OR (v AND 0xFF)\<rparr>))"
  "map_of (write_cases v r) 0x83CE = Some (Some (r\<lparr>r_dbgclaim_el1 := r_dbgclaim_el1 r AND NOT (v AND 0xFF)\<rparr>))"
  "map_of (write_cases v r) 0x80A4 = Some (Some (r\<lparr>r_dbgprcr_el1 := sanitize_dbgprcr_el1 v\<rparr>))"
  "map_of (write_cases v r) 0xC600 = Some (Some (r\<lparr>r_vbar_el1 := sanitize_vbar_el1 v\<rparr>))"
  "map_of (write_cases v r) 0xC201 = Some (Some (r\<lparr>r_elr_el1 := v\<rparr>))"
  "map_of (write_cases v r) 0xC200 = Some (Some (r\<lparr>r_spsr_el1 := sanitize_spsr_el1 v\<rparr>))"
  "map_of (write_cases v r) 0xC290 = Some (Some (r\<lparr>r_esr_el1 := v\<rparr>))"
  "map_of (write_cases v r) 0xC300 = Some (Some (r\<lparr>r_far_el1 := v\<rparr>))"
  "map_of (write_cases v r) 0x8012 = Some (Some (r\<lparr>r_mdscr_el1 := merge_mdscr_el1 (r_mdscr_el1 r) v (r_oslar_el1 r AND 1 \<noteq> 0)\<rparr>))"
  "map_of (write_cases v r) 0xDE82 = Some (Some (r\<lparr>r_tpidr_el0 := v\<rparr>))"
  "map_of (write_cases v r) 0xDE83 = Some (Some (r\<lparr>r_tpidrro_el0 := v\<rparr>))"
  "map_of (write_cases v r) 0xC684 = Some (Some (r\<lparr>r_tpidr_el1 := v\<rparr>))"
  "map_of (write_cases v r) 0xE682 = Some (Some (r\<lparr>r_tpidr_el2 := v\<rparr>))"
  "map_of (write_cases v r) 0xC208 = Some (if current_el r = 0 \<or> current_uses_sp_el0 r then None else Some (r\<lparr>r_sp_el0 := v\<rparr>))"
  "map_of (write_cases v r) 0xE208 = Some (if current_el r \<le> 1 then None else Some (r\<lparr>r_sp_el1 := v\<rparr>))"
  "map_of (write_cases v r) 0xC3A0 = Some (Some (r\<lparr>r_par_el1 := v\<rparr>))"
  "map_of (write_cases v r) 0xDA11 = Some (Some (set_daif v r))"
  "map_of (write_cases v r) 0xC210 = Some (Some (set_spsel v r))"
  "map_of (write_cases v r) 0xC708 = Some (Some (r\<lparr>r_cntkctl_el1 := sanitize_cntkctl_el1 v\<rparr>))"
  "map_of (write_cases v r) 0xC213 = Some (Some (pstate_set (\<lambda>p. p\<lparr>ps_pan := (v AND 1 \<noteq> 0)\<rparr>) r))"
  "map_of (write_cases v r) 0xDA20 = Some (Some (set_fpcr v r))"
  "map_of (write_cases v r) 0xDA21 = Some (Some (set_fpsr v r))"
  "map_of (write_cases v r) 0xDA10 = Some (Some (set_nzcv v r))"
  by (simp_all add: write_cases_def label_values)

text \<open>The labels of the rows are distinct, so their order is that of the code or any other.\<close>
lemma distinct_labels: "distinct (map fst (read_cases r))" "distinct (map fst (write_cases v r))"
  by (simp_all add: read_cases_def write_cases_def label_values)

section \<open>What a write leaves\<close>

definition mdscr_bits :: "sysregs \<Rightarrow> u64" where
  "mdscr_bits r = (if os_lock_active r then kMdscrEl1ArchitecturalMask else kMdscrEl1DirectRwMask)"

text \<open>
  The registers that a write replaces, each with the bits it takes from the value written and
  those it holds fixed: the specification that the two switches are checked against.
\<close>
definition rw_bits :: "sysregs \<Rightarrow> ((u32 \<times> u32 \<times> u32 \<times> u32 \<times> u32) \<times> u64 \<times> u64) list" where
  "rw_bits r =
    [((3, 0, 1, 0, 0), sctlr_writable (id_rows r), sctlr_res1 (id_rows r)),
     ((3, 0, 1, 0, 2), kCpacrEl1ArchitecturalMask, 0),
     ((3, 2, 0, 0, 0), kCsselrEl1ArchitecturalMask, 0),
     ((3, 0, 2, 0, 0), ttbr_bits r, 0),
     ((3, 0, 2, 0, 1), ttbr_bits r, 0),
     ((3, 0, 2, 0, 2), tcr_bits r, 0),
     ((3, 0, 10, 2, 0), -1, 0),
     ((3, 0, 13, 0, 1), kContextidrEl1ArchitecturalMask, 0),
     ((2, 0, 1, 3, 4), -1, 0),
     ((2, 0, 0, 6, 2), if os_lock_active r then 0xFFFFFFFF else 0, 0),
     ((2, 0, 1, 4, 4), 1, 0),
     ((3, 0, 12, 0, 0), kVbarEl1ArchitecturalMask, 0),
     ((3, 0, 4, 0, 1), -1, 0),
     ((3, 0, 4, 0, 0), kSpsrEl1SupportedMask, 0),
     ((3, 0, 5, 2, 0), -1, 0),
     ((3, 0, 6, 0, 0), -1, 0),
     ((2, 0, 0, 2, 2), mdscr_bits r, r_mdscr_el1 r AND kMdscrEl1ArchitecturalMask AND NOT (mdscr_bits r)),
     ((3, 3, 13, 0, 2), -1, 0),
     ((3, 3, 13, 0, 3), -1, 0),
     ((3, 0, 13, 0, 4), -1, 0),
     ((3, 4, 13, 0, 2), -1, 0),
     ((3, 0, 4, 1, 0), -1, 0),
     ((3, 4, 4, 1, 0), -1, 0),
     ((3, 0, 7, 4, 0), -1, 0),
     ((3, 3, 4, 2, 1), push_bit 6 0xF, 0),
     ((3, 0, 14, 1, 0), kCntkctlEl1ArchitecturalMask, 0),
     ((3, 0, 4, 2, 3), 1, 0),
     ((3, 3, 4, 4, 0), kFpcrArchitecturalMask, 0),
     ((3, 3, 4, 4, 1), kFpsrArchitecturalMask, 0),
     ((3, 3, 4, 2, 0), push_bit 28 0xF, 0)]"

lemma merge_and: "((c AND NOT w) OR (v AND w)) AND m = (v AND (w AND m)) OR (c AND m AND NOT (w AND m))" for v :: u64
  by (rule bit_word_eqI) (auto simp: bit_simps)

lemma mdscr_writable:
  "(kMdscrEl1Mde OR kMdscrEl1Kde OR kMdscrEl1Tdcc OR kMdscrEl1Ss OR (if b then kMdscrEl1OsLockRwMask else 0)) AND
     kMdscrEl1ArchitecturalMask = (if b then kMdscrEl1ArchitecturalMask else kMdscrEl1DirectRwMask)"
  unfolding kMdscrEl1ArchitecturalMask_def kMdscrEl1DirectRwMask_def
  by (cases b; rule bit_word_eqI; simp add: bit_simps; blast)

lemma merged_mdscr:
  "merge_mdscr_el1 (r_mdscr_el1 r) v (os_lock_active r) =
    (v AND mdscr_bits r) OR (r_mdscr_el1 r AND kMdscrEl1ArchitecturalMask AND NOT (mdscr_bits r))"
  unfolding merge_mdscr_el1_def Let_def sanitize_mdscr_el1_def merge_and mdscr_writable mdscr_bits_def ..

lemma not_debug: "crn \<noteq> 0 \<or> op0 \<noteq> 2 \<or> op2 < 4 \<Longrightarrow>
    sysreg_read op0 op1 crn crm op2 r = (case map_of (read_cases r) (make_key op0 op1 crn crm op2) of
      None \<Rightarrow> None | Some result \<Rightarrow> result)"
  "crn \<noteq> 0 \<or> op0 \<noteq> 2 \<or> op2 < 4 \<Longrightarrow>
    sysreg_write op0 op1 crn crm op2 v r = (case map_of (write_cases v r) (make_key op0 op1 crn crm op2) of
      None \<Rightarrow> None | Some result \<Rightarrow> result)"
  by (auto simp: sysreg_read_def sysreg_write_def debug_limit_def word_less_nat_alt Let_def)

lemma make_key_values: "make_key op0 op1 crn crm op2 =
    push_bit 14 op0 OR push_bit 11 op1 OR push_bit 7 crn OR push_bit 3 crm OR op2"
  by (simp add: make_key_def)

lemmas el_views = current_el_def current_uses_sp_el0_def pstate_set_def

lemma rw_read:
  assumes "((op0, op1, crn, crm, op2), w, s) \<in> set (rw_bits r)" "sysreg_write op0 op1 crn crm op2 v r = Some r'"
  shows "sysreg_read op0 op1 crn crm op2 r' = Some ((v AND w) OR s)"
  using assms unfolding rw_bits_def list.set insert_iff empty_iff prod.inject
  apply (elim disjE conjE FalseE)
  apply (simp_all only:)
  apply (simp_all add: not_debug make_key_values write_rows read_rows os_lock_active_def [symmetric] split: if_splits)
  apply safe
  apply (simp_all add: sanitized_twice)
  apply (simp_all add: sanitized_bits merged_mdscr plain_masks nzcv_set_nzcv daif_set_daif el_views and_one_eq)
  apply (simp_all add: os_lock_active_def)
  done

text \<open>The rows that a write leaves alone.\<close>
lemma map_of_other: "k \<noteq> j \<Longrightarrow> filter (\<lambda>row. fst row \<noteq> j) xs = filter (\<lambda>row. fst row \<noteq> j) ys \<Longrightarrow>
    map_of xs k = map_of ys k"
proof -
  assume k: "k \<noteq> j"
  have "map_of zs k = map_of (filter (\<lambda>row. fst row \<noteq> j) zs) k" for zs :: "('a \<times> 'b) list"
    using k by (induction zs) auto
  then show "filter (\<lambda>row. fst row \<noteq> j) xs = filter (\<lambda>row. fst row \<noteq> j) ys \<Longrightarrow> map_of xs k = map_of ys k"
    by metis
qed

lemma rw_other_rows:
  assumes "((op0, op1, crn, crm, op2), w, s) \<in> set (rw_bits r)" "sysreg_write op0 op1 crn crm op2 v r = Some r'"
  shows "filter (\<lambda>row. fst row \<noteq> make_key op0 op1 crn crm op2) (read_cases r') =
    filter (\<lambda>row. fst row \<noteq> make_key op0 op1 crn crm op2) (read_cases r)"
  using assms unfolding rw_bits_def list.set insert_iff empty_iff prod.inject
  apply (elim disjE conjE FalseE)
  apply (simp_all only:)
  apply (simp_all add: not_debug make_key_values write_rows split: if_splits)
  apply safe
  apply (simp_all add: read_cases_def label_values sanitized_sctlr_def sanitized_tcr_def sanitized_ttbr_def
    nzcv_def daif_def set_nzcv_def set_daif_def set_fpcr_def set_fpsr_def el_views)
  done

lemma rw_debug_rows:
  assumes "((op0, op1, crn, crm, op2), w, s) \<in> set (rw_bits r)" "sysreg_write op0 op1 crn crm op2 v r = Some r'"
  shows "r_dbgbvr_el1 r' = r_dbgbvr_el1 r" "r_dbgbcr_el1 r' = r_dbgbcr_el1 r" "r_dbgwvr_el1 r' = r_dbgwvr_el1 r"
    "r_dbgwcr_el1 r' = r_dbgwcr_el1 r" "r_id_aa64dfr0_el1 r' = r_id_aa64dfr0_el1 r"
    "r_id_aa64dfr1_el1 r' = r_id_aa64dfr1_el1 r"
proof -
  have "r_dbgbvr_el1 r' = r_dbgbvr_el1 r \<and> r_dbgbcr_el1 r' = r_dbgbcr_el1 r \<and> r_dbgwvr_el1 r' = r_dbgwvr_el1 r \<and>
    r_dbgwcr_el1 r' = r_dbgwcr_el1 r \<and> r_id_aa64dfr0_el1 r' = r_id_aa64dfr0_el1 r \<and>
    r_id_aa64dfr1_el1 r' = r_id_aa64dfr1_el1 r"
    using assms unfolding rw_bits_def list.set insert_iff empty_iff prod.inject
    apply (elim disjE conjE FalseE)
    apply (simp_all only:)
    apply (simp_all add: not_debug make_key_values write_rows split: if_splits)
    apply safe
    apply (simp_all add: set_nzcv_def set_daif_def set_fpcr_def set_fpsr_def pstate_set_def)
    done
  then show "r_dbgbvr_el1 r' = r_dbgbvr_el1 r" "r_dbgbcr_el1 r' = r_dbgbcr_el1 r" "r_dbgwvr_el1 r' = r_dbgwvr_el1 r"
    "r_dbgwcr_el1 r' = r_dbgwcr_el1 r" "r_id_aa64dfr0_el1 r' = r_id_aa64dfr0_el1 r"
    "r_id_aa64dfr1_el1 r' = r_id_aa64dfr1_el1 r" by simp_all
qed

text \<open>
  C15. A system register takes the bits it has and no others: after a write (of one of the thirty
  registers listed in \<open>rw_bits\<close>, in any state, whatever the ID registers say is implemented), a
  read of the register gives the value written in the writable bits and the fixed bits elsewhere,
  and a read of every register with another encoding gives what it gave before.
\<close>
theorem sysreg_write_exact:
  assumes "((op0, op1, crn, crm, op2), w, s) \<in> set (rw_bits r)"
    and "sysreg_write op0 op1 crn crm op2 v r = Some r'"
  shows "sysreg_read op0 op1 crn crm op2 r' = Some ((v AND w) OR s) \<and>
    (\<forall>a b c d e. make_key a b c d e = make_key op0 op1 crn crm op2 \<or>
      sysreg_read a b c d e r' = sysreg_read a b c d e r)"
proof (intro conjI allI disjCI)
  show "sysreg_read op0 op1 crn crm op2 r' = Some ((v AND w) OR s)" by (rule rw_read [OF assms])
  fix a b c d e assume changed: "sysreg_read a b c d e r' \<noteq> sysreg_read a b c d e r"
  have limit: "debug_limit e r' = debug_limit e r" "dbgbcr_el1 i r' = dbgbcr_el1 i r" for i
    by (simp_all add: rw_debug_rows [OF assms] debug_limit_def dbgbcr_el1_def
        breakpoint_resource_count_def watchpoint_resource_count_def)
  show "make_key a b c d e = make_key op0 op1 crn crm op2"
  proof (rule ccontr)
    assume "make_key a b c d e \<noteq> make_key op0 op1 crn crm op2"
    then have "map_of (read_cases r') (make_key a b c d e) = map_of (read_cases r) (make_key a b c d e)"
      by (rule map_of_other) (rule rw_other_rows [OF assms])
    then have "sysreg_read a b c d e r' = sysreg_read a b c d e r"
      unfolding sysreg_read_def limit rw_debug_rows [OF assms] by (simp only:)
    then show False using changed by simp
  qed
qed

theorem sysreg_write_exact_witness:
  "sysreg_read 3 0 1 0 2 (the (sysreg_write 3 0 1 0 2 0xFFFFFFFF sysregs_new)) = Some 0x300000"
proof -
  have "((3, 0, 1, 0, 2), kCpacrEl1ArchitecturalMask, 0) \<in> set (rw_bits sysregs_new)" by (simp add: rw_bits_def)
  moreover have "sysreg_write 3 0 1 0 2 0xFFFFFFFF sysregs_new =
      Some (sysregs_new\<lparr>r_cpacr_el1 := sanitize_cpacr_el1 0xFFFFFFFF\<rparr>)"
    by (simp add: not_debug make_key_values write_rows)
  ultimately show ?thesis using sysreg_write_exact [of 3 0 1 0 2 kCpacrEl1ArchitecturalMask 0 sysregs_new "0xFFFFFFFF"]
    by (simp add: kCpacrEl1ArchitecturalMask_def)
qed

end
