(* ===== verification/Exception_State.thy ===== *)
theory Exception_State
  imports System_Registers
begin

text \<open>
  Exception entry and return on the registers of \<open>System_Registers\<close>, and the invariant that every
  operation on them keeps: a legal mode, a stack selector that agrees with it, the reserved bits
  as fixed, the debug arrays at their size.
\<close>

section \<open>The invariant\<close>

definition sysregs_sanitized :: "sysregs \<Rightarrow> bool" where
  "sysregs_sanitized r \<longleftrightarrow>
    sanitized_sctlr (r_sctlr_el1 r) r = r_sctlr_el1 r \<and> sanitize_cpacr_el1 (r_cpacr_el1 r) = r_cpacr_el1 r \<and>
    sanitize_csselr_el1 (r_csselr_el1 r) = r_csselr_el1 r \<and> sanitized_ttbr (r_ttbr0_el1 r) r = r_ttbr0_el1 r \<and>
    sanitized_ttbr (r_ttbr1_el1 r) r = r_ttbr1_el1 r \<and> sanitized_tcr (r_tcr_el1 r) r = r_tcr_el1 r \<and>
    sanitize_vbar_el1 (r_vbar_el1 r) = r_vbar_el1 r \<and>
    sanitize_contextidr_el1 (r_contextidr_el1 r) = r_contextidr_el1 r \<and>
    sanitize_cntkctl_el1 (r_cntkctl_el1 r) = r_cntkctl_el1 r \<and> sanitize_spsr_el1 (r_spsr_el1 r) = r_spsr_el1 r \<and>
    sanitize_mdscr_el1 (r_mdscr_el1 r) = r_mdscr_el1 r \<and> r_fpcr r AND kFpcrArchitecturalMask = r_fpcr r \<and>
    r_fpsr r AND kFpsrArchitecturalMask = r_fpsr r \<and> sanitize_dbgprcr_el1 (r_dbgprcr_el1 r) = r_dbgprcr_el1 r"

definition debug_arrays_ok :: "sysregs \<Rightarrow> bool" where
  "debug_arrays_ok r \<longleftrightarrow> length (r_dbgbvr_el1 r) = 16 \<and> length (r_dbgbcr_el1 r) = 16 \<and>
    length (r_dbgwvr_el1 r) = 16 \<and> length (r_dbgwcr_el1 r) = 16"

definition mode_ok :: "sysregs \<Rightarrow> bool" where
  "mode_ok r \<longleftrightarrow> ps_mode (r_pstate r) \<in> {0x0, 0x4, 0x5} \<and>
    (ps_mode (r_pstate r) = 0x4 \<longrightarrow> r_spsel r = 0) \<and> (ps_mode (r_pstate r) = 0x5 \<longrightarrow> r_spsel r = 1)"

definition sysregs_wf :: "sysregs \<Rightarrow> bool" where
  "sysregs_wf r \<longleftrightarrow> mode_ok r \<and> sysregs_sanitized r \<and> debug_arrays_ok r"

text \<open>The operations of the CPU on its registers.\<close>
inductive sysregs_reachable :: "sysregs \<Rightarrow> bool" where
  sr_reset: "sysregs_reachable (sysregs_reset r)"
| sr_write: "sysregs_reachable r \<Longrightarrow> sysreg_write op0 op1 crn crm op2 v r = Some r' \<Longrightarrow> sysregs_reachable r'"
| sr_nzcv: "sysregs_reachable r \<Longrightarrow> sysregs_reachable (set_nzcv v r)"
| sr_flags: "sysregs_reachable r \<Longrightarrow>
    sysregs_reachable (set_pstate ((r_pstate r)\<lparr>ps_n := n, ps_z := z, ps_c := c, ps_v := w\<rparr>) r)"
| sr_daif_set: "sysregs_reachable r \<Longrightarrow> sysregs_reachable (daif_set imm r)"
| sr_daif_clr: "sysregs_reachable r \<Longrightarrow> sysregs_reachable (daif_clr imm r)"
| sr_spsel: "sysregs_reachable r \<Longrightarrow> sysregs_reachable (set_spsel v r)"
| sr_pan: "sysregs_reachable r \<Longrightarrow> sysregs_reachable (set_pan b r)"
| sr_step: "sysregs_reachable r \<Longrightarrow> sysregs_reachable (set_software_step_state b r)"
| sr_fpcr: "sysregs_reachable r \<Longrightarrow> sysregs_reachable (set_fpcr v r)"
| sr_fpsr: "sysregs_reachable r \<Longrightarrow> sysregs_reachable (set_fpsr v r)"
| sr_fp_or: "sysregs_reachable r \<Longrightarrow> sysregs_reachable (fp_or_fpsr v r)"
| sr_par: "sysregs_reachable r \<Longrightarrow> sysregs_reachable (set_par_el1 v r)"
| sr_elr: "sysregs_reachable r \<Longrightarrow> sysregs_reachable (set_elr_el1 v r)"
| sr_mpidr: "sysregs_reachable r \<Longrightarrow> sysregs_reachable (set_mpidr_el1 v r)"
| sr_cntvct: "sysregs_reachable r \<Longrightarrow> sysregs_reachable (set_cntvct v r)"
| sr_sp_el0: "sysregs_reachable r \<Longrightarrow> sysregs_reachable (set_sp_el0 v r)"
| sr_sp_el1: "sysregs_reachable r \<Longrightarrow> sysregs_reachable (set_sp_el1 v r)"
| sr_irq: "sysregs_reachable r \<Longrightarrow> sysregs_reachable (exception_enter_irq pc saved r)"
| sr_sync: "sysregs_reachable r \<Longrightarrow> sysregs_reachable (exception_enter_sync pc saved ec iss fv far r)"
| sr_eret: "sysregs_reachable r \<Longrightarrow> sysregs_reachable (snd (exception_return (illegal_exception_return r) r))"

section \<open>PSTATE as a word\<close>

lemma bit_flag: "bit (push_bit j (of_bool b) :: u64) n \<longleftrightarrow> n = j \<and> j < 64 \<and> b"
  by (auto simp: bit_push_bit_iff bit_of_bool_iff)

lemma flag_if: "(if b then flag_at j else 0) = push_bit j (of_bool b)"
  by simp

lemma bit_low_nibble: "bit (x AND 0xF :: u64) n \<longleftrightarrow> n < 4 \<and> bit x n"
proof -
  have f: "(0xF :: u64) = mask 4" by (simp add: mask_eq_exp_minus_1)
  show ?thesis unfolding f by (auto simp: bit_simps)
qed

lemma bit_pstate_bits:
  "bit (pstate_bits r) n \<longleftrightarrow>
    n = 31 \<and> ps_n (r_pstate r) \<or> n = 30 \<and> ps_z (r_pstate r) \<or> n = 29 \<and> ps_c (r_pstate r) \<or> n = 28 \<and> ps_v (r_pstate r) \<or>
    n = 21 \<and> ps_ss (r_pstate r) \<or> n = 20 \<and> ps_il (r_pstate r) \<or>
    n = 9 \<and> ps_d (r_pstate r) \<or> n = 8 \<and> ps_a (r_pstate r) \<or> n = 7 \<and> ps_i (r_pstate r) \<or> n = 6 \<and> ps_f (r_pstate r) \<or>
    n = 22 \<and> ps_pan (r_pstate r) \<or> n < 4 \<and> bit (ps_mode (r_pstate r)) n"
proof -
  have low: "n < 4 \<and> n < 64 \<and> b \<longleftrightarrow> n < 4 \<and> b" for b by auto
  show ?thesis
    unfolding pstate_bits_def nzcv_def daif_def flag_if bit_or_iff bit_flag bit_low_nibble bit_unsigned_iff
    by (simp add: low)
qed

text \<open>The saved PSTATE keeps all of it: no flag is among the reserved bits of SPSR_EL1.\<close>
lemma bit_supported: "bit kSpsrEl1SupportedMask n \<longleftrightarrow> n < 5 \<or> (6 \<le> n \<and> n < 10) \<or> (20 \<le> n \<and> n < 23) \<or> (28 \<le> n \<and> n < 32)"
proof -
  have span: "bit (push_bit k (mask m) :: u64) n \<longleftrightarrow> k \<le> n \<and> n < k + m" if "k + m \<le> 64" for k m
    using that by (auto simp: bit_simps)
  have f: "kSpsrEl1SupportedMask = push_bit 28 (mask 4) OR push_bit 20 (mask 3) OR push_bit 6 (mask 4) OR push_bit 0 (mask 5)"
    by (simp add: kSpsrEl1SupportedMask_def mask_eq_exp_minus_1)
  show ?thesis unfolding f bit_or_iff by (subst (1 2 3 4) span) auto
qed

lemma saved_pstate: "sanitize_spsr_el1 (pstate_bits r) = pstate_bits r"
  unfolding sanitize_spsr_el1_def
  by (rule bit_word_eqI) (auto simp: bit_and_iff bit_pstate_bits bit_supported)

text \<open>Loading the word back restores the flags and the mode.\<close>
lemma load_pstate:
  assumes "mode_ok r"
  shows "r_pstate (set_pstate_bits (pstate_bits r) x) = r_pstate r"
    "r_spsel (set_pstate_bits (pstate_bits r) x) = (if ps_mode (r_pstate r) = 0x5 then 1 else 0)"
proof -
  have mode: "ucast (pstate_bits r AND 0xF) = ps_mode (r_pstate r)"
  proof (rule bit_word_eqI)
    fix n assume "n < LENGTH(8)"
    have "ps_mode (r_pstate r) = ps_mode (r_pstate r) AND mask 4"
      using assms by (auto simp: mode_ok_def mask_eq_exp_minus_1)
    then have "bit (ps_mode (r_pstate r)) n \<Longrightarrow> n < 4"
      by (metis bit_and_iff bit_mask_iff)
    then show "bit (ucast (pstate_bits r AND 0xF) :: u8) n = bit (ps_mode (r_pstate r)) n"
      using \<open>n < LENGTH(8)\<close> by (auto simp: bit_unsigned_iff bit_low_nibble bit_pstate_bits)
  qed
  show "r_pstate (set_pstate_bits (pstate_bits r) x) = r_pstate r"
    by (simp add: set_pstate_bits_def Let_def set_nzcv_def set_daif_def pstate_set_def bit_of_field bit_pstate_bits mode)
  have "drop_bit 2 m AND 0x3 = (1 :: u8) \<longleftrightarrow> m = 0x4 \<or> m = 0x5" if "m \<in> {0x0, 0x4, 0x5}" for m :: u8
    using that by auto
  then show "r_spsel (set_pstate_bits (pstate_bits r) x) = (if ps_mode (r_pstate r) = 0x5 then 1 else 0)"
    using assms
    by (auto simp: set_pstate_bits_def Let_def set_nzcv_def set_daif_def pstate_set_def mode current_el_def mode_ok_def)
qed

section \<open>Every operation keeps the invariant\<close>

lemmas sanitized_simps = sysregs_sanitized_def sanitized_bits plain_masks sanitize_mdscr_el1_def
  ttbr_bits_def tcr_bits_def and_or_idem and.assoc

lemma wf_reset: "sysregs_wf (sysregs_reset r)"
proof -
  have "sysregs_sanitized (sysregs_reset r)"
    by (simp add: sanitized_simps sysregs_reset_def Let_def)
  then show ?thesis
    by (simp add: sysregs_wf_def mode_ok_def debug_arrays_ok_def sysregs_reset_def Let_def)
qed

lemma wf_pstate:
  assumes "sysregs_wf r" "ps_mode (f (r_pstate r)) = ps_mode (r_pstate r)"
  shows "sysregs_wf (pstate_set f r)"
  using assms
  by (simp add: sysregs_wf_def mode_ok_def debug_arrays_ok_def pstate_set_def sysregs_sanitized_def
      sanitized_sctlr_def sanitized_tcr_def sanitized_ttbr_def)

lemma wf_spsel:
  assumes "sysregs_wf r"
  shows "sysregs_wf (set_spsel v r)"
proof -
  have el: "drop_bit 2 m AND 0x3 = (1 :: u8) \<longleftrightarrow> m = 0x4 \<or> m = 0x5" if "m \<in> {0x0, 0x4, 0x5}" for m :: u8
    using that by auto
  show ?thesis
    using assms
    by (auto simp: sysregs_wf_def mode_ok_def debug_arrays_ok_def set_spsel_def Let_def pstate_set_def sysregs_sanitized_def
      sanitized_sctlr_def sanitized_tcr_def sanitized_ttbr_def current_el_def el and_one_eq split: if_splits)
qed

lemma wf_rows:
  assumes "sysregs_wf r"
  shows "list_all (\<lambda>(k, res). case res of None \<Rightarrow> True | Some x \<Rightarrow> sysregs_wf x) (write_cases v r)"
  using assms unfolding write_cases_def list.pred_inject prod.case
  apply (intro conjI)
  apply (simp_all add: wf_pstate wf_spsel set_daif_def set_nzcv_def split: if_split)
  apply (simp_all add: sysregs_wf_def mode_ok_def debug_arrays_ok_def sanitized_simps merge_mdscr_el1_def Let_def)
  done

lemma guarded_cases:
  "(if c0 then None else if c1 then Some x1 else if c2 then Some x2 else if c3 then Some x3 else if c4 then Some x4
    else case m of None \<Rightarrow> None | Some res \<Rightarrow> res) = Some y \<Longrightarrow>
   m = Some (Some y) \<or> y = x1 \<or> y = x2 \<or> y = x3 \<or> y = x4"
  by (auto split: if_splits option.splits)

lemma wf_write:
  assumes "sysregs_wf r" "sysreg_write op0 op1 crn crm op2 v r = Some r'"
  shows "sysregs_wf r'"
proof -
  consider "map_of (write_cases v r) (make_key op0 op1 crn crm op2) = Some (Some r')"
    | x where "r' = r\<lparr>r_dbgbvr_el1 := (r_dbgbvr_el1 r)[x := v]\<rparr>"
    | x where "r' = r\<lparr>r_dbgbcr_el1 := (r_dbgbcr_el1 r)[x := v]\<rparr>"
    | x where "r' = r\<lparr>r_dbgwvr_el1 := (r_dbgwvr_el1 r)[x := v]\<rparr>"
    | x where "r' = r\<lparr>r_dbgwcr_el1 := (r_dbgwcr_el1 r)[x := v]\<rparr>"
    using guarded_cases [OF assms(2) [unfolded sysreg_write_def Let_def]] by blast
  then show ?thesis
  proof cases
    case 1
    then have "(make_key op0 op1 crn crm op2, Some r') \<in> set (write_cases v r)" by (rule map_of_SomeD)
    then show ?thesis using wf_rows [OF assms(1), of v] by (fastforce simp: list_all_iff)
  qed (use assms(1) in \<open>simp_all add: sysregs_wf_def mode_ok_def debug_arrays_ok_def sanitized_simps\<close>)
qed

lemmas wf_unfold = sysregs_wf_def mode_ok_def debug_arrays_ok_def sysregs_sanitized_def
  sanitized_sctlr_def sanitized_tcr_def sanitized_ttbr_def

lemma sanitize_spsr_twice [simp]: "sanitize_spsr_el1 (sanitize_spsr_el1 v) = sanitize_spsr_el1 v"
  by (simp add: sanitize_spsr_el1_def and.assoc)

lemma wf_entry:
  assumes "sysregs_wf r"
  shows "sysregs_wf (exception_enter_irq pc saved r)" "sysregs_wf (exception_enter_sync pc saved ec iss fv far r)"
  using assms by (simp_all add: wf_unfold exception_enter_irq_def exception_enter_sync_def enter_el1h_def
      Let_def pstate_set_def)

lemma legal_mode:
  assumes "\<not> illegal_exception_return r"
  shows "ucast (r_spsr_el1 r AND 0xF) \<in> {0x0, 0x4, 0x5 :: u8}"
  using assms by (simp add: illegal_exception_return_def split: if_splits)

lemma el_of_mode: "m \<in> {0x0, 0x4, 0x5} \<Longrightarrow> drop_bit 2 m AND 0x3 = (if m = 0x0 then 0 else 1 :: u8)"
  by auto

lemma mode_ok_load:
  assumes "ucast (v AND 0xF) \<in> {0x0, 0x4, 0x5 :: u8}"
  shows "mode_ok (set_pstate_bits v r)"
  using assms el_of_mode [OF assms]
  by (auto simp: mode_ok_def set_pstate_bits_def Let_def set_nzcv_def set_daif_def pstate_set_def current_el_def)

text \<open>PSTATE and the stack selector are outside the reserved bits and the debug arrays.\<close>
lemma outside_pstate [simp]:
  "sysregs_sanitized (pstate_set f r) = sysregs_sanitized r" "debug_arrays_ok (pstate_set f r) = debug_arrays_ok r"
  "sysregs_sanitized (r\<lparr>r_spsel := x\<rparr>) = sysregs_sanitized r" "debug_arrays_ok (r\<lparr>r_spsel := x\<rparr>) = debug_arrays_ok r"
  by (simp_all add: sysregs_sanitized_def debug_arrays_ok_def sanitized_sctlr_def sanitized_tcr_def
      sanitized_ttbr_def pstate_set_def)

lemma wf_load:
  assumes "sysregs_wf r" "ucast (v AND 0xF) \<in> {0x0, 0x4, 0x5 :: u8}"
  shows "sysregs_wf (set_pstate_bits v r)"
proof -
  have "sysregs_sanitized (set_pstate_bits v r) = sysregs_sanitized r"
    "debug_arrays_ok (set_pstate_bits v r) = debug_arrays_ok r"
    by (simp_all add: set_pstate_bits_def Let_def set_nzcv_def set_daif_def)
  then show ?thesis using assms(1) mode_ok_load [OF assms(2)] by (simp add: sysregs_wf_def)
qed

lemma wf_return:
  assumes "sysregs_wf r"
  shows "sysregs_wf (snd (exception_return (illegal_exception_return r) r))"
proof (cases "illegal_exception_return r")
  case True
  then show ?thesis
    using assms by (simp add: exception_return_def Let_def set_daif_def set_nzcv_def wf_pstate)
next
  case False
  then show ?thesis
    using wf_load [OF assms legal_mode [OF False]] by (simp add: exception_return_def Let_def wf_pstate)
qed

lemma wf_setters:
  assumes "sysregs_wf r"
  shows "sysregs_wf (set_par_el1 v r)" "sysregs_wf (set_elr_el1 v r)" "sysregs_wf (set_mpidr_el1 v r)"
    "sysregs_wf (set_cntvct v r)" "sysregs_wf (set_sp_el0 v r)" "sysregs_wf (set_sp_el1 v r)"
    "sysregs_wf (set_fpcr v r)" "sysregs_wf (set_fpsr v r)" "sysregs_wf (fp_or_fpsr v r)"
  using assms
  by (simp_all add: wf_unfold set_par_el1_def set_elr_el1_def set_mpidr_el1_def set_cntvct_def set_sp_el0_def
      set_sp_el1_def set_fpcr_def set_fpsr_def fp_or_fpsr_def and.assoc)

lemma wf_pstate_setters:
  assumes "sysregs_wf r"
  shows "sysregs_wf (set_nzcv v r)" "sysregs_wf (daif_set imm r)" "sysregs_wf (daif_clr imm r)"
    "sysregs_wf (set_pan b r)" "sysregs_wf (set_software_step_state b r)"
    "sysregs_wf (set_pstate ((r_pstate r)\<lparr>ps_n := n, ps_z := z, ps_c := c, ps_v := w\<rparr>) r)"
proof -
  have "set_pstate ((r_pstate r)\<lparr>ps_n := n, ps_z := z, ps_c := c, ps_v := w\<rparr>) r =
      pstate_set (\<lambda>p. p\<lparr>ps_n := n, ps_z := z, ps_c := c, ps_v := w\<rparr>) r"
    by (simp add: set_pstate_def pstate_set_def)
  then show "sysregs_wf (set_pstate ((r_pstate r)\<lparr>ps_n := n, ps_z := z, ps_c := c, ps_v := w\<rparr>) r)"
    by (simp add: wf_pstate [OF assms])
qed (simp_all add: wf_pstate [OF assms] set_nzcv_def daif_set_def daif_clr_def daif_mask_def set_pan_def
    set_software_step_state_def)

text \<open>
  C3. Whatever the guest does, the CPU stays in a state the architecture has: in every state
  reached from reset by register writes, PSTATE updates, exceptions and returns (the return as
  the CPU makes it, with its own verdict on the saved state), the mode is EL0t, EL1t or EL1h, at
  EL1 the stack selector agrees with it, no reserved bit of a control register is set and the
  breakpoint and watchpoint arrays have their sixteen entries.
\<close>
theorem sysregs_invariant:
  assumes "sysregs_reachable r"
  shows "sysregs_wf r"
  using assms
proof (induction rule: sysregs_reachable.induct)
  case (sr_write r op0 op1 crn crm op2 v r')
  then show ?case using wf_write by blast
qed (simp_all only: wf_reset wf_spsel wf_entry wf_return wf_setters wf_pstate_setters)

theorem sysregs_invariant_witness:
  "sysregs_wf (exception_enter_irq 0x1000 (pstate_bits (sysregs_reset sysregs_new)) (sysregs_reset sysregs_new))"
  by (rule sysregs_invariant) (intro sr_irq sr_reset)

section \<open>Exception entry and return\<close>

text \<open>
  C2. An exception taken and returned from is transparent: from any well-formed state, taking a
  synchronous exception or an interrupt at \<open>pc\<close> with the current PSTATE saved, running any handler
  that leaves ELR_EL1, SPSR_EL1 and MDSCR_EL1 as they were and returns from EL1 with debug
  exceptions masked, and returning, resumes at \<open>pc\<close> with the interrupted PSTATE: the same flags,
  masks and mode, and the stack selector with it. Only the software step bit differs: it comes back when
  software step and debug exceptions are enabled in the interrupted context, and is clear
  otherwise.
\<close>
theorem exception_transparent:
  assumes "sysregs_wf r"
    and "entered = exception_enter_sync pc (pstate_bits r) ec iss fv far r \<or>
      entered = exception_enter_irq pc (pstate_bits r) r"
    and "r_elr_el1 h = r_elr_el1 entered" "r_spsr_el1 h = r_spsr_el1 entered" "r_mdscr_el1 h = r_mdscr_el1 entered"
    and "current_el h = 1" "ps_d (r_pstate h)"
  shows "\<not> illegal_exception_return h \<and> fst (exception_return False h) = pc \<and>
    r_pstate (snd (exception_return False h)) = (r_pstate r)\<lparr>ps_ss := ps_ss (r_pstate r) \<and>
      software_step_enabled r \<and> debug_exceptions_enabled_current r\<rparr> \<and>
    r_spsel (snd (exception_return False h)) = (if current_el r = 1 then r_spsel r else 0)"
proof -
  have mo: "mode_ok r" using assms(1) by (simp add: sysregs_wf_def)
  then have m: "ps_mode (r_pstate r) \<in> {0x0, 0x4, 0x5}" by (simp add: mode_ok_def)
  have e: "r_elr_el1 entered = pc" "r_spsr_el1 entered = pstate_bits r" "r_mdscr_el1 entered = r_mdscr_el1 r"
    using assms(2) saved_pstate [of r]
    by (auto simp: exception_enter_sync_def exception_enter_irq_def enter_el1h_def Let_def pstate_set_def)
  have low: "ucast (pstate_bits r AND 0xF) = ps_mode (r_pstate r)"
    using arg_cong [OF load_pstate(1) [OF mo, of r], of ps_mode]
    by (simp add: set_pstate_bits_def Let_def pstate_set_def set_nzcv_def set_daif_def split: if_splits)
  have el: "drop_bit 2 m AND 0x3 = (if m = 0x0 then 0 else 1 :: u8)" if "m \<in> {0x0, 0x4, 0x5}" for m :: u8
    using that by (rule el_of_mode)
  have b4: "pstate_bits r AND flag_at 4 = 0"
    using bit_iff_and_push_bit_not_eq_0 [of "pstate_bits r" 4] by (simp add: bit_pstate_bits)
  have dest: "ucast (drop_bit 2 (pstate_bits r) AND 0x3) = current_el r"
  proof (rule bit_word_eqI)
    fix n assume "n < LENGTH(8)"
    have f: "(0x3 :: u64) = mask 2" "(0x3 :: u8) = mask 2" by (simp_all add: mask_eq_exp_minus_1)
    show "bit (ucast (drop_bit 2 (pstate_bits r) AND 0x3) :: u8) n = bit (current_el r) n"
      unfolding current_el_def f using \<open>n < LENGTH(8)\<close>
      by (auto simp: bit_unsigned_iff bit_and_iff bit_mask_iff bit_drop_bit_eq bit_pstate_bits)
  qed
  have legal: "\<not> illegal_exception_return h"
    using m b4 unfolding illegal_exception_return_def assms(4) e low
    by (auto split: if_splits)
  have ret: "exception_return False h = (pc, pstate_set (\<lambda>p. p\<lparr>ps_ss := ps_ss (r_pstate r) \<and>
      software_step_enabled r \<and> debug_exceptions_enabled_current r\<rparr>) (set_pstate_bits (pstate_bits r) h))"
  proof -
    have "\<not> debug_exceptions_enabled_from_el (current_el h) (ps_d (r_pstate h)) (r_mdscr_el1 h)"
      using assms(6,7) by (simp add: debug_exceptions_enabled_from_el_def)
    moreover have "debug_exceptions_enabled_from_el (current_el r) (bit (pstate_bits r) 9) (r_mdscr_el1 h) =
        debug_exceptions_enabled_current r"
      by (simp add: debug_exceptions_enabled_current_def assms(5) e bit_pstate_bits)
    moreover have "software_step_enabled h = software_step_enabled r" "bit (pstate_bits r) 21 = ps_ss (r_pstate r)"
      by (simp_all add: software_step_enabled_def assms(5) e bit_pstate_bits)
    moreover have "r_elr_el1 (set_pstate_bits v h) = r_elr_el1 h" for v
      by (simp add: set_pstate_bits_def Let_def set_nzcv_def set_daif_def pstate_set_def)
    ultimately show ?thesis
      unfolding exception_return_def Let_def bit_of_field assms(4) e dest
      by (simp add: assms(3) e conj_commute conj_left_commute)
  qed
  have sp: "r_spsel (set_pstate_bits (pstate_bits r) h) = (if current_el r = 1 then r_spsel r else 0)"
    using m mo unfolding load_pstate(2) [OF mo] by (auto simp: current_el_def mode_ok_def)
  show ?thesis
    using legal sp unfolding ret by (simp add: pstate_set_def load_pstate(1) [OF mo])
qed

lemma handler_reset:
  defines "r0 \<equiv> sysregs_reset sysregs_new"
  shows "sysregs_wf r0" "current_el (exception_enter_irq 0x1000 (pstate_bits r0) r0) = 1"
    "ps_d (r_pstate (exception_enter_irq 0x1000 (pstate_bits r0) r0))"
  by (simp_all add: r0_def wf_reset exception_enter_irq_def enter_el1h_def Let_def pstate_set_def current_el_def)

theorem exception_transparent_witness:
  "fst (exception_return False (exception_enter_irq 0x1000 (pstate_bits (sysregs_reset sysregs_new))
    (sysregs_reset sysregs_new))) = 0x1000"
  using exception_transparent [OF handler_reset(1) disjI2 [OF refl] refl refl refl handler_reset(2,3)] by simp

text \<open>
  C33. A return from an illegal saved state cannot change the exception level: with a saved mode other
  than EL0t, EL1t and EL1h, or an AArch32 one, the CPU resumes at ELR_EL1 in the mode and on the
  stack it was in, with the flags and masks of SPSR_EL1 and PSTATE.IL set, so the next
  instruction faults.
\<close>
theorem illegal_return_exact:
  assumes "illegal_exception_return r"
  shows "(bit (r_spsr_el1 r) 4 \<or> ucast (r_spsr_el1 r AND 0xF) \<notin> {0x0, 0x4, 0x5 :: u8}) \<and>
    fst (exception_return True r) = r_elr_el1 r \<and>
    ps_mode (r_pstate (snd (exception_return True r))) = ps_mode (r_pstate r) \<and>
    r_spsel (snd (exception_return True r)) = r_spsel r \<and>
    illegal_execution_state (snd (exception_return True r)) \<and>
    nzcv (snd (exception_return True r)) = r_spsr_el1 r AND push_bit 28 0xF \<and>
    daif (snd (exception_return True r)) = r_spsr_el1 r AND push_bit 6 0xF"
proof -
  let ?r = "set_daif (r_spsr_el1 r) (set_nzcv (r_spsr_el1 r) r)"
  obtain a b where e: "exception_return True r =
      (r_elr_el1 ?r, pstate_set (\<lambda>p. p\<lparr>ps_pan := a, ps_ss := b, ps_il := True\<rparr>) ?r)"
    by (simp add: exception_return_def Let_def)
  have "nzcv (snd (exception_return True r)) = nzcv (set_nzcv (r_spsr_el1 r) r)"
    "daif (snd (exception_return True r)) = daif ?r"
    by (simp_all add: e nzcv_def daif_def pstate_set_def set_daif_def)
  moreover have "bit (r_spsr_el1 r) 4 \<or> ucast (r_spsr_el1 r AND 0xF) \<notin> {0x0, 0x4, 0x5 :: u8}"
    using assms by (simp add: illegal_exception_return_def bit_iff_and_push_bit_not_eq_0 split: if_splits)
  ultimately show ?thesis
    by (simp add: nzcv_set_nzcv daif_set_daif) (simp add: e illegal_execution_state_def pstate_set_def set_daif_def set_nzcv_def)
qed

theorem illegal_return_exact_witness:
  "illegal_execution_state (snd (exception_return True (sysregs_new\<lparr>r_spsr_el1 := 0x9\<rparr>)))"
proof -
  have "illegal_exception_return (sysregs_new\<lparr>r_spsr_el1 := 0x9\<rparr>)" by (simp add: illegal_exception_return_def)
  from illegal_return_exact [OF this] show ?thesis by simp
qed

end
