(* ===== verification/Bus.thy ===== *)
theory Bus
  imports Ram_Device Dirty_Tracker
begin

text \<open>
  Model of \<open>src/src/bus.cpp\<close> and \<open>src/include/aarchvm/bus_fast_path.hpp\<close>: the address map, the
  search over it, and the fast path that answers the common accesses without it. The three RAMs
  and the tracker of the framebuffer are the models of their own theories; the other devices are
  behind the interface \<open>Device\<close>, whose two virtual functions are the argument \<open>io\<close>. A host pointer
  into a RAM is the RAM and the offset.
\<close>

section \<open>State\<close>

datatype dev = Boot_Ram | Framebuffer_Ram | Sdram | Uart | Kmi | Perf | Rtc | Virtio_Blk | Virtio_Net | Gic | Timer

record mapping =
  map_base :: u64
  map_size :: u64
  map_dev :: dev

record bus_counters =
  pc_read_ops :: u64
  pc_write_ops :: u64
  pc_read_bytes :: u64
  pc_write_bytes :: u64
  pc_find_calls :: u64
  pc_device_reads :: u64
  pc_device_writes :: u64

record fast_counters =
  fc_read_ops :: u64
  fc_write_ops :: u64
  fc_read_bytes :: u64
  fc_write_bytes :: u64

record 'd bus =
  bus_mappings :: "mapping list"
  bus_fast :: bool
  bus_boot_ram :: ram
  bus_framebuffer_ram :: ram
  bus_sdram :: ram
  bus_tracker :: "tracker option"
  bus_devices :: 'd
  bus_observer :: bool
  bus_observed :: "(u64 \<times> usize) list"
  bus_perf :: bus_counters
  bus_fast_perf :: fast_counters

text \<open>The virtual functions of the devices that are not RAM.\<close>
record 'd device_io =
  io_read :: "dev \<Rightarrow> u64 \<Rightarrow> usize \<Rightarrow> 'd \<Rightarrow> u64 \<times> 'd"
  io_write :: "dev \<Rightarrow> u64 \<Rightarrow> u64 \<Rightarrow> usize \<Rightarrow> 'd \<Rightarrow> 'd"

section \<open>The address map\<close>

definition kBootRamBase :: u64 where "kBootRamBase = 0x00000000"
definition kBootRamSize :: u64 where "kBootRamSize = 128 * 1024 * 1024"
definition kFramebufferBase :: u64 where "kFramebufferBase = 0x10000000"
definition kFramebufferSize :: u64 where "kFramebufferSize = 0x00400000"
definition kSdramBase :: u64 where "kSdramBase = 0x40000000"
definition kSdramSize :: u64 where "kSdramSize = 1024 * 1024 * 1024"
definition kUartBase :: u64 where "kUartBase = 0x09000000"
definition kUartSize :: u64 where "kUartSize = 0x1000"
definition kKmiBase :: u64 where "kKmiBase = 0x09010000"
definition kKmiSize :: u64 where "kKmiSize = 0x1000"
definition kPerfBase :: u64 where "kPerfBase = 0x09020000"
definition kPerfSize :: u64 where "kPerfSize = 0x1000"
definition kRtcBase :: u64 where "kRtcBase = 0x09030000"
definition kRtcSize :: u64 where "kRtcSize = 0x1000"
definition kVirtioBlkBase :: u64 where "kVirtioBlkBase = 0x09040000"
definition kVirtioBlkSize :: u64 where "kVirtioBlkSize = 0x1000"
definition kVirtioNetBase :: u64 where "kVirtioNetBase = 0x09050000"
definition kVirtioNetSize :: u64 where "kVirtioNetSize = 0x1000"
definition kGicBase :: u64 where "kGicBase = 0x08000000"
definition kGicSize :: u64 where "kGicSize = 0x100000"
definition kTimerBase :: u64 where "kTimerBase = 0x0A000000"
definition kTimerSize :: u64 where "kTimerSize = 0x1000"

lemmas address_map =
  kBootRamBase_def kBootRamSize_def kFramebufferBase_def kFramebufferSize_def kSdramBase_def kSdramSize_def
  kUartBase_def kUartSize_def kKmiBase_def kKmiSize_def kPerfBase_def kPerfSize_def kRtcBase_def kRtcSize_def
  kVirtioBlkBase_def kVirtioBlkSize_def kVirtioNetBase_def kVirtioNetSize_def kGicBase_def kGicSize_def
  kTimerBase_def kTimerSize_def

definition bus_map :: "u64 \<Rightarrow> u64 \<Rightarrow> dev \<Rightarrow> 'd bus \<Rightarrow> 'd bus" where
  "bus_map base sz d b =
    b\<lparr>bus_mappings := bus_mappings b @ [\<lparr>map_base = base, map_size = sz, map_dev = d\<rparr>]\<rparr>"

definition set_fast_path :: "bool \<Rightarrow> 'd bus \<Rightarrow> 'd bus" where
  "set_fast_path present b = b\<lparr>bus_fast := present\<rparr>"

definition set_ram_write_observer :: "bool \<Rightarrow> 'd bus \<Rightarrow> 'd bus" where
  "set_ram_write_observer present b = b\<lparr>bus_observer := present\<rparr>"

text \<open>The mappings in the order \<open>SoC\<close> makes them.\<close>
definition soc_map :: "'d bus \<Rightarrow> 'd bus" where
  "soc_map b =
    (let b = bus_map kBootRamBase kBootRamSize Boot_Ram b;
         b = bus_map kFramebufferBase kFramebufferSize Framebuffer_Ram b;
         b = bus_map kSdramBase kSdramSize Sdram b;
         b = bus_map kUartBase kUartSize Uart b;
         b = bus_map kKmiBase kKmiSize Kmi b;
         b = bus_map kPerfBase kPerfSize Perf b;
         b = bus_map kRtcBase kRtcSize Rtc b;
         b = bus_map kVirtioBlkBase kVirtioBlkSize Virtio_Blk b;
         b = bus_map kVirtioNetBase kVirtioNetSize Virtio_Net b;
         b = bus_map kGicBase kGicSize Gic b
     in bus_map kTimerBase kTimerSize Timer b)"

section \<open>The RAMs\<close>

fun is_ram :: "dev \<Rightarrow> bool" where
  "is_ram d \<longleftrightarrow> d = Boot_Ram \<or> d = Framebuffer_Ram \<or> d = Sdram"

fun ram_of :: "dev \<Rightarrow> 'd bus \<Rightarrow> ram" where
  "ram_of Boot_Ram b = bus_boot_ram b"
| "ram_of Framebuffer_Ram b = bus_framebuffer_ram b"
| "ram_of _ b = bus_sdram b"

fun put_ram :: "dev \<Rightarrow> ram \<Rightarrow> 'd bus \<Rightarrow> 'd bus" where
  "put_ram Boot_Ram r b = b\<lparr>bus_boot_ram := r\<rparr>"
| "put_ram Framebuffer_Ram r b = b\<lparr>bus_framebuffer_ram := r\<rparr>"
| "put_ram _ r b = b\<lparr>bus_sdram := r\<rparr>"

text \<open>The calls a RAM made to its observer: the tracker, for the framebuffer.\<close>
definition deliver :: "'d bus \<Rightarrow> 'd bus" where
  "deliver b =
    b\<lparr>bus_tracker := map_option (fold (\<lambda>(o', s). on_ram_write o' s) (ram_notified (bus_framebuffer_ram b))) (bus_tracker b),
      bus_framebuffer_ram := (bus_framebuffer_ram b)\<lparr>ram_notified := []\<rparr>\<rparr>"

section \<open>Search and access\<close>

definition maps :: "u64 \<Rightarrow> usize \<Rightarrow> mapping \<Rightarrow> bool" where
  "maps addr sz m \<longleftrightarrow> addr \<ge> map_base m \<and> addr + sz \<le> map_base m + map_size m"

definition bus_find :: "u64 \<Rightarrow> usize \<Rightarrow> 'd bus \<Rightarrow> mapping option \<times> 'd bus" where
  "bus_find addr sz b =
    (List.find (maps addr sz) (bus_mappings b),
     b\<lparr>bus_perf := (bus_perf b)\<lparr>pc_find_calls := pc_find_calls (bus_perf b) + 1\<rparr>\<rparr>)"

definition device_read :: "'d device_io \<Rightarrow> dev \<Rightarrow> u64 \<Rightarrow> usize \<Rightarrow> 'd bus \<Rightarrow> (u64 \<times> 'd bus) outcome" where
  "device_read io d offset sz b =
    (if is_ram d then
       (case ram_read offset sz (ram_of d b) of Defined v \<Rightarrow> Defined (v, b) | Undefined \<Rightarrow> Undefined)
     else
       let (v, ds) = io_read io d offset sz (bus_devices b)
       in Defined (v, b\<lparr>bus_devices := ds\<rparr>))"

definition device_write :: "'d device_io \<Rightarrow> dev \<Rightarrow> u64 \<Rightarrow> u64 \<Rightarrow> usize \<Rightarrow> 'd bus \<Rightarrow> 'd bus outcome" where
  "device_write io d offset v sz b =
    (if is_ram d then
       (case ram_write offset v sz (ram_of d b) of
          Defined r \<Rightarrow> Defined (deliver (put_ram d r b)) | Undefined \<Rightarrow> Undefined)
     else Defined (b\<lparr>bus_devices := io_write io d offset v sz (bus_devices b)\<rparr>))"

section \<open>The fast path\<close>

text \<open>A pointer into a RAM window: null when the access leaves it.\<close>
definition window_ptr :: "dev \<Rightarrow> u64 \<Rightarrow> u64 \<Rightarrow> u64 \<Rightarrow> usize \<Rightarrow> (dev \<times> u64) option" where
  "window_ptr d base len addr sz =
    (let off = addr - base in if sz \<le> len - off then Some (d, off) else None)"

definition in_window :: "u64 \<Rightarrow> u64 \<Rightarrow> u64 \<Rightarrow> bool" where
  "in_window base len addr \<longleftrightarrow> base \<le> addr \<and> addr < base + len"

definition fast_ram_ptr :: "u64 \<Rightarrow> usize \<Rightarrow> (dev \<times> u64) option" where
  "fast_ram_ptr addr sz =
    (if in_window kSdramBase kSdramSize addr then window_ptr Sdram kSdramBase kSdramSize addr sz
     else if in_window kBootRamBase kBootRamSize addr then window_ptr Boot_Ram kBootRamBase kBootRamSize addr sz
     else if in_window kFramebufferBase kFramebufferSize addr
       then window_ptr Framebuffer_Ram kFramebufferBase kFramebufferSize addr sz
     else None)"

definition fast_ram_mut_ptr :: "u64 \<Rightarrow> usize \<Rightarrow> (dev \<times> u64) option" where
  "fast_ram_mut_ptr addr sz =
    (if in_window kBootRamBase kBootRamSize addr then window_ptr Boot_Ram kBootRamBase kBootRamSize addr sz
     else if in_window kSdramBase kSdramSize addr then window_ptr Sdram kSdramBase kSdramSize addr sz
     else if in_window kFramebufferBase kFramebufferSize addr
       then window_ptr Framebuffer_Ram kFramebufferBase kFramebufferSize addr sz
     else None)"

text \<open>\<open>None\<close> is a size the fast path leaves alone.\<close>
definition load_ram :: "ram \<Rightarrow> u64 \<Rightarrow> usize \<Rightarrow> u64 option outcome" where
  "load_ram r off sz =
    (if access_size_ok sz then
       (case memcpy_from (ram_data r) off (unat sz) of
          Defined bs \<Rightarrow> Defined (Some (le_word bs)) | Undefined \<Rightarrow> Undefined)
     else Defined None)"

definition store_ram :: "ram \<Rightarrow> u64 \<Rightarrow> u64 \<Rightarrow> usize \<Rightarrow> ram option outcome" where
  "store_ram r off v sz =
    (if access_size_ok sz then
       (case memcpy_to (ram_data r) off (le_bytes (unat sz) v) of
          Defined d \<Rightarrow> Defined (Some (r\<lparr>ram_data := d\<rparr>)) | Undefined \<Rightarrow> Undefined)
     else Defined None)"

definition count_fast_read :: "usize \<Rightarrow> 'd bus \<Rightarrow> 'd bus" where
  "count_fast_read sz b = b\<lparr>bus_fast_perf := (bus_fast_perf b)\<lparr>
    fc_read_ops := fc_read_ops (bus_fast_perf b) + 1, fc_read_bytes := fc_read_bytes (bus_fast_perf b) + sz\<rparr>\<rparr>"

definition count_fast_write :: "usize \<Rightarrow> 'd bus \<Rightarrow> 'd bus" where
  "count_fast_write sz b = b\<lparr>bus_fast_perf := (bus_fast_perf b)\<lparr>
    fc_write_ops := fc_write_ops (bus_fast_perf b) + 1, fc_write_bytes := fc_write_bytes (bus_fast_perf b) + sz\<rparr>\<rparr>"

definition read_ram_only :: "u64 \<Rightarrow> usize \<Rightarrow> 'd bus \<Rightarrow> (u64 \<times> 'd bus) option outcome" where
  "read_ram_only addr sz b =
    (case fast_ram_ptr addr sz of
       None \<Rightarrow> Defined None
     | Some (d, off) \<Rightarrow>
         (case load_ram (ram_of d b) off sz of
            Undefined \<Rightarrow> Undefined
          | Defined None \<Rightarrow> Defined None
          | Defined (Some v) \<Rightarrow> Defined (Some (v, count_fast_read sz b))))"

definition write_ram_only :: "u64 \<Rightarrow> u64 \<Rightarrow> usize \<Rightarrow> 'd bus \<Rightarrow> 'd bus option outcome" where
  "write_ram_only addr v sz b =
    (let fb_off = addr - kFramebufferBase in
     if in_window kFramebufferBase kFramebufferSize addr \<and> sz \<le> kFramebufferSize - fb_off then
       (case store_ram (bus_framebuffer_ram b) fb_off v sz of
          Undefined \<Rightarrow> Undefined
        | Defined None \<Rightarrow> Defined None
        | Defined (Some r) \<Rightarrow> Defined (Some (count_fast_write sz (b\<lparr>bus_framebuffer_ram := r,
            bus_tracker := map_option (on_ram_write fb_off sz) (bus_tracker b)\<rparr>))))
     else
       (case fast_ram_mut_ptr addr sz of
          None \<Rightarrow> Defined None
        | Some (d, off) \<Rightarrow>
            (case store_ram (ram_of d b) off v sz of
               Undefined \<Rightarrow> Undefined
             | Defined None \<Rightarrow> Defined None
             | Defined (Some r) \<Rightarrow> Defined (Some (count_fast_write sz (put_ram d r b))))))"

text \<open>The device windows of the fast path, in the order of its tests.\<close>
definition fast_windows :: "(dev \<times> u64 \<times> u64) list" where
  "fast_windows =
    [(Uart, kUartBase, kUartSize), (Perf, kPerfBase, kPerfSize), (Virtio_Blk, kVirtioBlkBase, kVirtioBlkSize),
     (Virtio_Net, kVirtioNetBase, kVirtioNetSize), (Gic, kGicBase, kGicSize), (Timer, kTimerBase, kTimerSize)]"

fun fast_device :: "(dev \<times> u64 \<times> u64) list \<Rightarrow> u64 \<Rightarrow> usize \<Rightarrow> (dev \<times> u64) option" where
  "fast_device [] addr sz = None"
| "fast_device ((d, base, len) # ws) addr sz =
    (if in_window base len addr \<and> sz \<le> len - (addr - base) then Some (d, addr - base)
     else fast_device ws addr sz)"

definition fast_read :: "'d device_io \<Rightarrow> u64 \<Rightarrow> usize \<Rightarrow> 'd bus \<Rightarrow> (u64 \<times> 'd bus) option outcome" where
  "fast_read io addr sz b =
    (case read_ram_only addr sz b of
       Undefined \<Rightarrow> Undefined
     | Defined (Some res) \<Rightarrow> Defined (Some res)
     | Defined None \<Rightarrow>
         (case fast_device fast_windows addr sz of
            None \<Rightarrow> Defined None
          | Some (d, off) \<Rightarrow>
              let (v, ds) = io_read io d off sz (bus_devices b)
              in Defined (Some (v, (count_fast_read sz b)\<lparr>bus_devices := ds\<rparr>))))"

definition fast_write :: "'d device_io \<Rightarrow> u64 \<Rightarrow> u64 \<Rightarrow> usize \<Rightarrow> 'd bus \<Rightarrow> 'd bus option outcome" where
  "fast_write io addr v sz b =
    (case write_ram_only addr v sz b of
       Undefined \<Rightarrow> Undefined
     | Defined (Some b') \<Rightarrow> Defined (Some b')
     | Defined None \<Rightarrow>
         (case fast_device fast_windows addr sz of
            None \<Rightarrow> Defined None
          | Some (d, off) \<Rightarrow>
              Defined (Some ((count_fast_write sz b)\<lparr>bus_devices := io_write io d off v sz (bus_devices b)\<rparr>))))"

section \<open>Bus operations\<close>

definition count_read :: "usize \<Rightarrow> 'd bus \<Rightarrow> 'd bus" where
  "count_read sz b = b\<lparr>bus_perf := (bus_perf b)\<lparr>
    pc_read_ops := pc_read_ops (bus_perf b) + 1, pc_read_bytes := pc_read_bytes (bus_perf b) + sz\<rparr>\<rparr>"

definition count_write :: "usize \<Rightarrow> 'd bus \<Rightarrow> 'd bus" where
  "count_write sz b = b\<lparr>bus_perf := (bus_perf b)\<lparr>
    pc_write_ops := pc_write_ops (bus_perf b) + 1, pc_write_bytes := pc_write_bytes (bus_perf b) + sz\<rparr>\<rparr>"

definition bus_read_slow :: "'d device_io \<Rightarrow> u64 \<Rightarrow> usize \<Rightarrow> 'd bus \<Rightarrow> (u64 option \<times> 'd bus) outcome" where
  "bus_read_slow io addr sz b =
    (case bus_find addr sz b of
       (None, b) \<Rightarrow> Defined (None, b)
     | (Some m, b) \<Rightarrow>
         let b = b\<lparr>bus_perf := (bus_perf b)\<lparr>pc_device_reads := pc_device_reads (bus_perf b) + 1\<rparr>\<rparr>
         in case device_read io (map_dev m) (addr - map_base m) sz b of
              Undefined \<Rightarrow> Undefined
            | Defined (v, b) \<Rightarrow> Defined (Some v, b))"

definition bus_read :: "'d device_io \<Rightarrow> u64 \<Rightarrow> usize \<Rightarrow> 'd bus \<Rightarrow> (u64 option \<times> 'd bus) outcome" where
  "bus_read io addr sz b =
    (let b = count_read sz b in
     if bus_fast b then
       (case fast_read io addr sz b of
          Undefined \<Rightarrow> Undefined
        | Defined (Some (v, b)) \<Rightarrow> Defined (Some v, b)
        | Defined None \<Rightarrow> bus_read_slow io addr sz b)
     else bus_read_slow io addr sz b)"

definition bus_write_slow :: "'d device_io \<Rightarrow> u64 \<Rightarrow> u64 \<Rightarrow> usize \<Rightarrow> 'd bus \<Rightarrow> (bool \<times> 'd bus) outcome" where
  "bus_write_slow io addr v sz b =
    (case bus_find addr sz b of
       (None, b) \<Rightarrow> Defined (False, b)
     | (Some m, b) \<Rightarrow>
         let b = b\<lparr>bus_perf := (bus_perf b)\<lparr>pc_device_writes := pc_device_writes (bus_perf b) + 1\<rparr>\<rparr>
         in case device_write io (map_dev m) (addr - map_base m) v sz b of
              Undefined \<Rightarrow> Undefined
            | Defined b \<Rightarrow> Defined (True, b))"

definition bus_write :: "'d device_io \<Rightarrow> u64 \<Rightarrow> u64 \<Rightarrow> usize \<Rightarrow> 'd bus \<Rightarrow> (bool \<times> 'd bus) outcome" where
  "bus_write io addr v sz b =
    (let b = count_write sz b in
     if bus_fast b then
       (case fast_write io addr v sz b of
          Undefined \<Rightarrow> Undefined
        | Defined (Some b) \<Rightarrow> Defined (True, b)
        | Defined None \<Rightarrow> bus_write_slow io addr v sz b)
     else bus_write_slow io addr v sz b)"

definition read_ram_fast :: "u64 \<Rightarrow> usize \<Rightarrow> 'd bus \<Rightarrow> (u64 \<times> 'd bus) option outcome" where
  "read_ram_fast addr sz b =
    (if \<not> bus_fast b then Defined None
     else case read_ram_only addr sz b of
       Defined (Some (v, b)) \<Rightarrow> Defined (Some (v, count_read sz b))
     | res \<Rightarrow> res)"

definition write_ram_fast :: "u64 \<Rightarrow> u64 \<Rightarrow> usize \<Rightarrow> 'd bus \<Rightarrow> 'd bus option outcome" where
  "write_ram_fast addr v sz b =
    (if \<not> bus_fast b then Defined None
     else case write_ram_only addr v sz b of
       Defined (Some b) \<Rightarrow> Defined (Some (count_write sz b))
     | res \<Rightarrow> res)"

text \<open>\<open>ram_ptr\<close> and \<open>ram_mut_ptr\<close>: the fast pointer, or the search and a check against the buffer.\<close>
definition slow_ram_ptr :: "u64 \<Rightarrow> usize \<Rightarrow> 'd bus \<Rightarrow> (dev \<times> u64) option \<times> 'd bus" where
  "slow_ram_ptr addr sz b =
    (case bus_find addr sz b of
       (None, b) \<Rightarrow> (None, b)
     | (Some m, b) \<Rightarrow>
         if \<not> is_ram (map_dev m) then (None, b)
         else
           let offset = addr - map_base m
           in if offset + sz > ram_size (ram_of (map_dev m) b) then (None, b)
              else (Some (map_dev m, offset), b))"

definition bus_ram_ptr :: "u64 \<Rightarrow> usize \<Rightarrow> 'd bus \<Rightarrow> (dev \<times> u64) option \<times> 'd bus" where
  "bus_ram_ptr addr sz b =
    (if bus_fast b \<and> fast_ram_ptr addr sz \<noteq> None then (fast_ram_ptr addr sz, b) else slow_ram_ptr addr sz b)"

definition bus_ram_mut_ptr :: "u64 \<Rightarrow> usize \<Rightarrow> 'd bus \<Rightarrow> (dev \<times> u64) option \<times> 'd bus" where
  "bus_ram_mut_ptr addr sz b =
    (if bus_fast b \<and> fast_ram_mut_ptr addr sz \<noteq> None then (fast_ram_mut_ptr addr sz, b) else slow_ram_ptr addr sz b)"

text \<open>
  \<open>write_ram_buffer\<close> with the bytes at \<open>src\<close>; a null \<open>src\<close> is \<open>None\<close>. The copy goes to the host
  memory of the RAM, past the RAM's own observer.
\<close>
definition write_ram_buffer :: "u64 \<Rightarrow> u8 list option \<Rightarrow> usize \<Rightarrow> 'd bus \<Rightarrow> (bool \<times> 'd bus) outcome" where
  "write_ram_buffer addr src sz b =
    (if sz = 0 then Defined (True, b)
     else case src of
       None \<Rightarrow> Defined (False, b)
     | Some bytes \<Rightarrow>
         (case bus_ram_mut_ptr addr sz b of
            (None, b) \<Rightarrow> Defined (False, b)
          | (Some (d, off), b) \<Rightarrow>
              (case memcpy_to (ram_data (ram_of d b)) off (take (unat sz) bytes) of
                 Undefined \<Rightarrow> Undefined
               | Defined data \<Rightarrow>
                   let b = put_ram d ((ram_of d b)\<lparr>ram_data := data\<rparr>) b
                   in Defined (True, if bus_observer b then b\<lparr>bus_observed := bus_observed b @ [(addr, sz)]\<rparr> else b))))"

end
