(* ===== verification/Bus_Proofs.thy ===== *)
theory Bus_Proofs
  imports Bus
begin

text \<open>
  The bus of \<open>Bus\<close>: the search picks the one window that holds the access, the fast path gives what
  the search gives, and what a direct copy into a RAM does and does not tell.
\<close>

section \<open>The search over the machine's map\<close>

definition soc_windows :: "(u64 \<times> u64 \<times> dev) list" where
  "soc_windows = [(0x00000000, 0x08000000, Boot_Ram), (0x10000000, 0x00400000, Framebuffer_Ram),
     (0x40000000, 0x40000000, Sdram), (0x09000000, 0x1000, Uart), (0x09010000, 0x1000, Kmi),
     (0x09020000, 0x1000, Perf), (0x09030000, 0x1000, Rtc), (0x09040000, 0x1000, Virtio_Blk),
     (0x09050000, 0x1000, Virtio_Net), (0x08000000, 0x100000, Gic), (0x0A000000, 0x1000, Timer)]"

definition soc_mappings :: "mapping list" where
  "soc_mappings = map (\<lambda>(base, sz, d). \<lparr>map_base = base, map_size = sz, map_dev = d\<rparr>) soc_windows"

lemma soc_map_mappings: "bus_mappings (soc_map b) = bus_mappings b @ soc_mappings"
  by (simp add: soc_map_def bus_map_def soc_mappings_def soc_windows_def address_map Let_def)

text \<open>The access does not wrap around the address space.\<close>
abbreviation no_wrap :: "u64 \<Rightarrow> usize \<Rightarrow> bool" where
  "no_wrap addr sz \<equiv> unat addr + unat sz < 2 ^ 64"

lemma unat_sum: "no_wrap addr sz \<Longrightarrow> unat (addr + sz) = unat addr + unat sz"
  by (simp add: unat_plus_no_wrap)

text \<open>The windows as ranges of natural numbers.\<close>
lemma maps_nat:
  assumes "no_wrap addr sz"
  shows "maps addr sz \<lparr>map_base = base, map_size = len, map_dev = d\<rparr> \<longleftrightarrow>
    unat base \<le> unat addr \<and> unat addr + unat sz \<le> unat (base + len)"
  using assms by (simp add: maps_def word_le_nat_alt unat_sum)

lemma window_nat:
  assumes "no_wrap addr sz" "0 < unat sz" "unat base + unat len < 2 ^ 64"
  shows "in_window base len addr \<and> sz \<le> len - (addr - base) \<longleftrightarrow>
    unat base \<le> unat addr \<and> unat addr + unat sz \<le> unat base + unat len"
proof (cases "in_window base len addr")
  case True
  then have le: "base \<le> addr" "unat addr < unat base + unat len"
    using assms(3) by (simp_all add: in_window_def word_less_nat_alt unat_sum)
  then have "unat (addr - base) = unat addr - unat base" by (simp add: unat_sub)
  moreover have "addr - base \<le> len" using le calculation by (simp add: word_le_nat_alt)
  ultimately show ?thesis
    using True le assms by (auto simp: word_le_nat_alt unat_sub)
next
  case False
  then show ?thesis
    using assms by (auto simp: in_window_def word_le_nat_alt word_less_nat_alt unat_sum)
qed

definition mapped_at :: "u64 \<Rightarrow> usize \<Rightarrow> dev \<Rightarrow> u64 \<Rightarrow> u64 \<Rightarrow> bool" where
  "mapped_at addr sz d base len \<longleftrightarrow>
    List.find (maps addr sz) soc_mappings = Some \<lparr>map_base = base, map_size = len, map_dev = d\<rparr>"

lemma find_in_window:
  assumes nw: "no_wrap addr sz" and s: "0 < unat sz"
    and m: "(base, len, d) \<in> set soc_windows"
    and w: "unat base \<le> unat addr" "unat addr + unat sz \<le> unat base + unat len"
  shows "mapped_at addr sz d base len"
proof -
  obtain a where a: "unat addr = a" by simp
  obtain n where n: "unat sz = n" by simp
  have f: "mapped_at addr sz d base len \<longleftrightarrow> List.find (\<lambda>m. unat (map_base m) \<le> a \<and> a + n \<le> unat (map_base m + map_size m))
      soc_mappings = Some \<lparr>map_base = base, map_size = len, map_dev = d\<rparr>"
  proof -
    have "maps addr sz m \<longleftrightarrow> unat (map_base m) \<le> a \<and> a + n \<le> unat (map_base m + map_size m)" for m
      using nw by (simp add: maps_def word_le_nat_alt unat_sum a n)
    then show ?thesis unfolding mapped_at_def by presburger
  qed
  show ?thesis
    using m w s unfolding f a n soc_mappings_def soc_windows_def
    apply (simp only: list.set insert_iff empty_iff prod.inject)
    apply (elim disjE conjE FalseE; simp only:; simp)
    done
qed

section \<open>The fast path and the search\<close>

text \<open>The machine as \<open>SoC\<close> builds it: the eleven mappings, the RAMs at their size, the tracker on the framebuffer.\<close>
definition bus_wf :: "'d bus \<Rightarrow> bool" where
  "bus_wf b \<longleftrightarrow> bus_mappings b = soc_mappings \<and>
    length (ram_data (bus_boot_ram b)) = unat kBootRamSize \<and>
    length (ram_data (bus_framebuffer_ram b)) = unat kFramebufferSize \<and>
    length (ram_data (bus_sdram b)) = unat kSdramSize \<and>
    \<not> ram_observer (bus_boot_ram b) \<and> \<not> ram_observer (bus_sdram b) \<and>
    ram_observer (bus_framebuffer_ram b) = (bus_tracker b \<noteq> None) \<and>
    ram_notified (bus_framebuffer_ram b) = []"

text \<open>The state of the bus without its counters and the choice of the path.\<close>
definition quiet :: "'d bus \<Rightarrow> 'd bus" where
  "quiet b = b\<lparr>bus_fast := False,
    bus_perf := \<lparr>pc_read_ops = 0, pc_write_ops = 0, pc_read_bytes = 0, pc_write_bytes = 0, pc_find_calls = 0,
      pc_device_reads = 0, pc_device_writes = 0\<rparr>,
    bus_fast_perf := \<lparr>fc_read_ops = 0, fc_write_ops = 0, fc_read_bytes = 0, fc_write_bytes = 0\<rparr>\<rparr>"

lemma ram_in_map:
  assumes "(base, len, d) \<in> {(kSdramBase, kSdramSize, Sdram), (kBootRamBase, kBootRamSize, Boot_Ram),
    (kFramebufferBase, kFramebufferSize, Framebuffer_Ram)}"
  shows "(base, len, d) \<in> set soc_windows"
  using assms unfolding insert_iff empty_iff prod.inject
  by (elim disjE conjE FalseE; simp only: soc_windows_def address_map list.set insert_iff prod.inject; simp)

lemma fast_in_map:
  assumes "(d, base, len) \<in> set fast_windows"
  shows "(base, len, d) \<in> set soc_windows"
  using assms unfolding fast_windows_def list.set insert_iff empty_iff prod.inject
  by (elim disjE conjE FalseE; simp only: soc_windows_def address_map list.set insert_iff prod.inject; simp)

lemma fast_ram_ptr_mapped:
  assumes "no_wrap addr sz" "0 < unat sz" "fast_ram_ptr addr sz = Some (d, off)"
  shows "\<exists>base len. mapped_at addr sz d base len \<and> off = addr - base \<and> is_ram d \<and>
    unat off + unat sz \<le> unat len \<and> (d, len) \<in> {(Boot_Ram, kBootRamSize), (Framebuffer_Ram, kFramebufferSize),
      (Sdram, kSdramSize)}"
proof -
  obtain base len where c: "(base, len, d) \<in> {(kSdramBase, kSdramSize, Sdram), (kBootRamBase, kBootRamSize, Boot_Ram),
      (kFramebufferBase, kFramebufferSize, Framebuffer_Ram)}"
    and w: "in_window base len addr" "window_ptr d base len addr sz = Some (d, off)"
    using assms(3) by (auto simp: fast_ram_ptr_def window_ptr_def Let_def split: if_splits)
  have off: "off = addr - base" and "sz \<le> len - (addr - base)"
    using w(2) by (auto simp: window_ptr_def Let_def split: if_splits)
  moreover have "unat base + unat len < 2 ^ 64" using c by (auto simp: address_map)
  ultimately have r: "unat base \<le> unat addr" "unat addr + unat sz \<le> unat base + unat len"
    using window_nat [OF assms(1,2), of base len] w(1) by simp_all
  have "mapped_at addr sz d base len"
    by (rule find_in_window [OF assms(1,2) _ r]) (rule ram_in_map [OF c])
  moreover have "unat off + unat sz \<le> unat len"
    using r by (simp add: off unat_sub word_le_nat_alt)
  ultimately show ?thesis using c off by auto
qed

lemma fast_device_mapped:
  assumes "no_wrap addr sz" "0 < unat sz" "fast_device fast_windows addr sz = Some (d, off)"
  shows "\<exists>base len. mapped_at addr sz d base len \<and> off = addr - base \<and> \<not> is_ram d"
proof -
  have "fast_device ws addr sz = Some (d, off) \<Longrightarrow> \<exists>base len. (d, base, len) \<in> set ws \<and>
      in_window base len addr \<and> sz \<le> len - (addr - base) \<and> off = addr - base" for ws
  proof (induction ws)
    case (Cons w ws)
    then show ?case by (cases w) (force split: if_splits)
  qed simp
  from this [OF assms(3)] obtain base len where c: "(d, base, len) \<in> set fast_windows"
    and w: "in_window base len addr \<and> sz \<le> len - (addr - base)" and off: "off = addr - base" by blast
  have "unat base + unat len < 2 ^ 64" using c by (auto simp: fast_windows_def address_map)
  then have r: "unat base \<le> unat addr" "unat addr + unat sz \<le> unat base + unat len"
    using window_nat [OF assms(1,2), of base len] w by simp_all
  have "mapped_at addr sz d base len"
    by (rule find_in_window [OF assms(1,2) _ r]) (rule fast_in_map [OF c])
  then show ?thesis using c off by (auto simp: fast_windows_def)
qed

lemma load_ram_covered:
  assumes "unat off + unat sz \<le> length (ram_data r)" "ram_wf r"
  shows "load_ram r off sz = Defined (if access_size_ok sz then Some (le_word (bytes_at (ram_data r) (unat off) (unat sz))) else None)"
    "ram_read off sz r = Defined (if access_size_ok sz then le_word (bytes_at (ram_data r) (unat off) (unat sz)) else 0)"
  using assms ram_read_fast_covered [OF assms(2), of sz off]
  by (auto simp: load_ram_def memcpy_from_def ram_read_def ram_covers_def ram_read_fast_def)

lemma store_ram_covered:
  assumes "unat off + unat sz \<le> length (ram_data r)" "ram_wf r"
  shows "store_ram r off v sz = Defined (if access_size_ok sz
      then Some (r\<lparr>ram_data := put_bytes (ram_data r) (unat off) (le_bytes (unat sz) v)\<rparr>) else None)"
    "ram_write off v sz r = Defined (if access_size_ok sz
      then ram_notify_write off sz (r\<lparr>ram_data := put_bytes (ram_data r) (unat off) (le_bytes (unat sz) v)\<rparr>) else r)"
  using assms ram_write_fast_covered [OF assms(2), of sz off]
  by (auto simp: store_ram_def memcpy_to_def ram_write_def ram_covers_def ram_write_fast_def)

lemma bus_ram_wf:
  assumes "bus_wf b" "(d, len) \<in> {(Boot_Ram, kBootRamSize), (Framebuffer_Ram, kFramebufferSize), (Sdram, kSdramSize)}"
  shows "length (ram_data (ram_of d b)) = unat len" "ram_wf (ram_of d b)"
  using assms unat_less_u64 [of len] by (auto simp: bus_wf_def ram_wf_def)

lemma quiet_cong [simp]:
  "quiet (b\<lparr>bus_perf := p\<rparr>) = quiet b" "quiet (b\<lparr>bus_fast_perf := q\<rparr>) = quiet b" "quiet (b\<lparr>bus_fast := f\<rparr>) = quiet b"
  "quiet (count_read sz b) = quiet b" "quiet (count_write sz b) = quiet b"
  "quiet (count_fast_read sz b) = quiet b" "quiet (count_fast_write sz b) = quiet b"
  by (simp_all add: quiet_def count_read_def count_write_def count_fast_read_def count_fast_write_def)

lemma quiet_put:
  "quiet (b\<lparr>bus_devices := ds\<rparr>) = (quiet b)\<lparr>bus_devices := ds\<rparr>" "quiet (put_ram d r b) = put_ram d r (quiet b)"
  "quiet (deliver b) = deliver (quiet b)" "quiet (b\<lparr>bus_tracker := t\<rparr>) = (quiet b)\<lparr>bus_tracker := t\<rparr>"
  by (cases d; simp add: quiet_def deliver_def)+

lemma quiet_get [simp]:
  "ram_of d (quiet b) = ram_of d b" "bus_devices (quiet b) = bus_devices b" "bus_tracker (quiet b) = bus_tracker b"
  by (cases d; simp add: quiet_def)+

lemma counted_get [simp]:
  "ram_of d (count_read sz b) = ram_of d b" "ram_of d (count_write sz b) = ram_of d b"
  "ram_of d (b\<lparr>bus_perf := p\<rparr>) = ram_of d b" "ram_of d (b\<lparr>bus_fast := f\<rparr>) = ram_of d b"
  "bus_mappings (count_read sz b) = bus_mappings b" "bus_mappings (count_write sz b) = bus_mappings b"
  "bus_devices (count_read sz b) = bus_devices b" "bus_devices (count_write sz b) = bus_devices b"
  "bus_fast (count_read sz b) = bus_fast b" "bus_fast (count_write sz b) = bus_fast b"
  "bus_tracker (count_write sz b) = bus_tracker b" "bus_framebuffer_ram (count_write sz b) = bus_framebuffer_ram b"
  by (cases d; simp add: count_read_def count_write_def)+

definition same_read :: "(u64 option \<times> 'd bus) outcome \<Rightarrow> (u64 option \<times> 'd bus) outcome \<Rightarrow> bool" where
  "same_read x y \<longleftrightarrow> map_outcome (map_prod id quiet) x = map_outcome (map_prod id quiet) y"

definition same_write :: "(bool \<times> 'd bus) outcome \<Rightarrow> (bool \<times> 'd bus) outcome \<Rightarrow> bool" where
  "same_write x y \<longleftrightarrow> map_outcome (map_prod id quiet) x = map_outcome (map_prod id quiet) y"

declare is_ram.simps [simp del]

lemma quiet_device_read: "map_outcome (map_prod f quiet) (device_read io d off sz b) = map_outcome (map_prod f id) (device_read io d off sz (quiet b))"
  by (auto simp: device_read_def quiet_put split: outcome.split prod.split)

lemma quiet_device_write: "map_outcome quiet (device_write io d off v sz b) = device_write io d off v sz (quiet b)"
  by (auto simp: device_write_def quiet_put split: outcome.split)

text \<open>What the search does with an access to one window, up to the counters.\<close>
lemma slow_read_mapped:
  assumes "bus_mappings b = soc_mappings" "mapped_at addr sz d base len"
  shows "map_outcome (map_prod id quiet) (bus_read_slow io addr sz b) =
    map_outcome (map_prod Some id) (device_read io d (addr - base) sz (quiet b))"
proof -
  obtain p where "bus_find addr sz b = (Some \<lparr>map_base = base, map_size = len, map_dev = d\<rparr>, b\<lparr>bus_perf := p\<rparr>)"
    using assms by (simp add: bus_find_def mapped_at_def)
  then have "bus_read_slow io addr sz b = map_outcome (map_prod Some id)
      (device_read io d (addr - base) sz (b\<lparr>bus_perf := p\<lparr>pc_device_reads := pc_device_reads p + 1\<rparr>\<rparr>))"
    by (simp add: bus_read_slow_def Let_def split: outcome.split prod.split)
  then show ?thesis
    using quiet_device_read [of Some io d "addr - base" sz "b\<lparr>bus_perf := p\<lparr>pc_device_reads := pc_device_reads p + 1\<rparr>\<rparr>"]
    by (simp add: outcome.map_comp o_def map_prod_compose [symmetric] prod.map_comp)
qed

lemma slow_write_mapped:
  assumes "bus_mappings b = soc_mappings" "mapped_at addr sz d base len"
  shows "map_outcome (map_prod id quiet) (bus_write_slow io addr v sz b) =
    map_outcome (Pair True) (device_write io d (addr - base) v sz (quiet b))"
proof -
  obtain p where "bus_find addr sz b = (Some \<lparr>map_base = base, map_size = len, map_dev = d\<rparr>, b\<lparr>bus_perf := p\<rparr>)"
    using assms by (simp add: bus_find_def mapped_at_def)
  then have "bus_write_slow io addr v sz b = map_outcome (Pair True)
      (device_write io d (addr - base) v sz (b\<lparr>bus_perf := p\<lparr>pc_device_writes := pc_device_writes p + 1\<rparr>\<rparr>))"
    by (simp add: bus_write_slow_def Let_def split: outcome.split)
  moreover have "map_outcome (map_prod id quiet) (map_outcome (Pair True) x) = map_outcome (Pair True) (map_outcome quiet x)"
    for x :: "'a bus outcome" by (cases x) simp_all
  ultimately show ?thesis by (simp add: quiet_device_write)
qed

lemma map_outcome_Defined: "map_outcome f x = Defined y \<longleftrightarrow> (\<exists>z. x = Defined z \<and> f z = y)"
  by (cases x) auto

lemma slow_unmapped:
  assumes "List.find (maps addr sz) (bus_mappings b) = None"
  shows "map_outcome (map_prod id quiet) (bus_read_slow io addr sz b) = Defined (None, quiet b)"
    "map_outcome (map_prod id quiet) (bus_write_slow io addr v sz b) = Defined (False, quiet b)"
  using assms by (simp_all add: bus_read_slow_def bus_write_slow_def bus_find_def)

lemma mapped_unique: "mapped_at addr sz d base len \<Longrightarrow> mapped_at addr sz d' base' len' \<Longrightarrow> d' = d"
  by (simp add: mapped_at_def)

text \<open>The search looks at nothing but the mappings and the state, so the path chosen does not change it.\<close>
lemma slow_of_quiet:
  assumes "bus_mappings b = soc_mappings" "bus_mappings b' = soc_mappings" "quiet b = quiet b'"
  shows "map_outcome (map_prod id quiet) (bus_read_slow io addr sz b) = map_outcome (map_prod id quiet) (bus_read_slow io addr sz b')"
    "map_outcome (map_prod id quiet) (bus_write_slow io addr v sz b) = map_outcome (map_prod id quiet) (bus_write_slow io addr v sz b')"
proof -
  have "\<exists>d base len. mapped_at addr sz d base len" if "List.find (maps addr sz) soc_mappings \<noteq> None"
    using that unfolding mapped_at_def by (metis (full_types) mapping.surjective option.exhaust old.unit.exhaust)
  then show "map_outcome (map_prod id quiet) (bus_read_slow io addr sz b) = map_outcome (map_prod id quiet) (bus_read_slow io addr sz b')"
    "map_outcome (map_prod id quiet) (bus_write_slow io addr v sz b) = map_outcome (map_prod id quiet) (bus_write_slow io addr v sz b')"
    using slow_unmapped [of addr sz b] slow_unmapped [of addr sz b'] slow_read_mapped [OF assms(1)] slow_read_mapped [OF assms(2)]
      slow_write_mapped [OF assms(1)] slow_write_mapped [OF assms(2)] assms by metis+
qed

lemma fast_ram_not_device:
  assumes "no_wrap addr sz" "0 < unat sz" "fast_ram_ptr addr sz = Some (d, off)"
  shows "fast_device fast_windows addr sz = None"
proof (rule ccontr)
  assume "fast_device fast_windows addr sz \<noteq> None"
  then obtain d' off' where "fast_device fast_windows addr sz = Some (d', off')" by auto
  then show False
    using fast_device_mapped [OF assms(1,2)] fast_ram_ptr_mapped [OF assms] mapped_unique by metis
qed

lemma windows_disjoint:
  assumes "in_window kBootRamBase kBootRamSize addr"
  shows "\<not> in_window kSdramBase kSdramSize addr" "\<not> in_window kFramebufferBase kFramebufferSize addr"
  using assms by (auto simp: in_window_def address_map word_less_nat_alt word_le_nat_alt)

lemma fast_ram_mut_ptr_same: "fast_ram_mut_ptr addr sz = fast_ram_ptr addr sz"
  using windows_disjoint [of addr] by (auto simp: fast_ram_mut_ptr_def fast_ram_ptr_def)

lemma fast_read_same:
  assumes wf: "bus_wf b" and nw: "no_wrap addr sz" "0 < unat sz"
  shows "same_read (bus_read_slow io addr sz b)
    (case fast_read io addr sz b of Undefined \<Rightarrow> Undefined
     | Defined (Some (v, b')) \<Rightarrow> Defined (Some v, b') | Defined None \<Rightarrow> bus_read_slow io addr sz b)"
proof (cases "fast_ram_ptr addr sz")
  case (Some p)
  obtain d off where "p = (d, off)" by (cases p)
  then have p: "fast_ram_ptr addr sz = Some (d, off)" using Some by simp
  obtain base len where m: "mapped_at addr sz d base len" "off = addr - base" "is_ram d" "unat off + unat sz \<le> unat len"
    and c: "(d, len) \<in> {(Boot_Ram, kBootRamSize), (Framebuffer_Ram, kFramebufferSize), (Sdram, kSdramSize)}"
    using fast_ram_ptr_mapped [OF nw p] by blast
  note r = bus_ram_wf [OF wf c]
  have cov: "unat (addr - base) + unat sz \<le> length (ram_data (ram_of d b))" using m(2,4) r(1) by simp
  show ?thesis
    using slow_read_mapped [OF _ m(1), of b io] wf m(2,3) p
      load_ram_covered [OF cov r(2)] fast_ram_not_device [OF nw p]
    by (simp add: same_read_def fast_read_def read_ram_only_def device_read_def bus_wf_def)
next
  case None
  show ?thesis
  proof (cases "fast_device fast_windows addr sz")
    case (Some p)
    obtain d off where "p = (d, off)" by (cases p)
    then have p: "fast_device fast_windows addr sz = Some (d, off)" using Some by simp
    obtain base len where m: "mapped_at addr sz d base len" "off = addr - base" "\<not> is_ram d"
      using fast_device_mapped [OF nw p] by blast
    then show ?thesis
      using slow_read_mapped [OF _ m(1), of b io] wf None p
      by (simp add: same_read_def fast_read_def read_ram_only_def device_read_def bus_wf_def quiet_put split: prod.splits)
  qed (simp add: same_read_def fast_read_def read_ram_only_def None)
qed

definition stored :: "dev \<Rightarrow> u64 \<Rightarrow> usize \<Rightarrow> ram \<Rightarrow> 'd bus \<Rightarrow> 'd bus" where
  "stored d off sz r b = (if d = Framebuffer_Ram
     then (put_ram d r b)\<lparr>bus_tracker := map_option (on_ram_write off sz) (bus_tracker b)\<rparr> else put_ram d r b)"

lemma quiet_stored: "quiet (stored d off sz r b) = stored d off sz r (quiet b)"
  by (simp add: stored_def quiet_put del: put_ram.simps ram_of.simps)

lemma write_ram_only_ptr:
  "write_ram_only addr v sz b = (case fast_ram_ptr addr sz of
     None \<Rightarrow> Defined None
   | Some (d, off) \<Rightarrow> (case store_ram (ram_of d b) off v sz of
       Undefined \<Rightarrow> Undefined
     | Defined None \<Rightarrow> Defined None
     | Defined (Some r) \<Rightarrow> Defined (Some (count_fast_write sz (stored d off sz r b)))))"
proof (cases "in_window kFramebufferBase kFramebufferSize addr")
  case True
  moreover have "\<not> in_window kBootRamBase kBootRamSize addr" "\<not> in_window kSdramBase kSdramSize addr"
    using True windows_disjoint by (auto simp: in_window_def address_map word_less_nat_alt word_le_nat_alt)
  ultimately show ?thesis
    by (auto simp: write_ram_only_def fast_ram_ptr_def fast_ram_mut_ptr_def window_ptr_def Let_def stored_def
        split: outcome.split option.split)
next
  case False
  then have "fast_ram_ptr addr sz = Some (d, off) \<Longrightarrow> d \<noteq> Framebuffer_Ram" for d off
    by (auto simp: fast_ram_ptr_def window_ptr_def Let_def split: if_splits)
  then show ?thesis
    using False by (auto simp: write_ram_only_def fast_ram_mut_ptr_same stored_def split: outcome.split option.split)
qed

lemma deliver_silent: "ram_notified (bus_framebuffer_ram b) = [] \<Longrightarrow> deliver b = b"
proof -
  assume n: "ram_notified (bus_framebuffer_ram b) = []"
  then have e: "(bus_framebuffer_ram b)\<lparr>ram_notified := []\<rparr> = bus_framebuffer_ram b" by simp
  show ?thesis unfolding deliver_def n e by (cases "bus_tracker b") simp_all
qed

lemma stored_notified:
  assumes "bus_wf b" "(d, len) \<in> {(Boot_Ram, kBootRamSize), (Framebuffer_Ram, kFramebufferSize), (Sdram, kSdramSize)}"
    and "0 < unat sz" "ram_observer r = ram_observer (ram_of d b)" "ram_notified r = ram_notified (ram_of d b)"
  shows "deliver (put_ram d (ram_notify_write off sz r) b) = stored d off sz r b"
proof -
  have s: "sz \<noteq> 0" using assms(3) by auto
  show ?thesis
    using assms(2)
  proof (elim insertE emptyE; clarsimp)
    show "deliver (b\<lparr>bus_framebuffer_ram := ram_notify_write off sz r\<rparr>) = stored Framebuffer_Ram off sz r b"
      if "d = Framebuffer_Ram"
    proof -
      have r: "ram_notified r = []" "ram_observer r = (bus_tracker b \<noteq> None)"
        using assms(1,4,5) that by (auto simp: bus_wf_def)
      have e: "r\<lparr>ram_notified := []\<rparr> = r" using r(1) by simp
      show ?thesis
      proof (cases "bus_tracker b")
        case None
        then show ?thesis using r e s by (simp add: deliver_def stored_def ram_notify_write_def)
      next
        case (Some t)
        then show ?thesis using r e s by (simp add: deliver_def stored_def ram_notify_write_def)
      qed
    qed
  qed (use assms in \<open>auto simp: bus_wf_def ram_notify_write_def stored_def intro!: deliver_silent\<close>)
qed

lemma fast_write_same:
  assumes wf: "bus_wf b" and nw: "no_wrap addr sz" "0 < unat sz"
  shows "same_write (bus_write_slow io addr v sz b)
    (case fast_write io addr v sz b of Undefined \<Rightarrow> Undefined
     | Defined (Some b') \<Rightarrow> Defined (True, b') | Defined None \<Rightarrow> bus_write_slow io addr v sz b)"
proof (cases "fast_ram_ptr addr sz")
  case (Some p)
  obtain d off where "p = (d, off)" by (cases p)
  then have p: "fast_ram_ptr addr sz = Some (d, off)" using Some by simp
  obtain base len where m: "mapped_at addr sz d base len" "off = addr - base" "is_ram d" "unat off + unat sz \<le> unat len"
    and c: "(d, len) \<in> {(Boot_Ram, kBootRamSize), (Framebuffer_Ram, kFramebufferSize), (Sdram, kSdramSize)}"
    using fast_ram_ptr_mapped [OF nw p] by blast
  note r = bus_ram_wf [OF wf c]
  let ?r = "(ram_of d b)\<lparr>ram_data := put_bytes (ram_data (ram_of d b)) (unat off) (le_bytes (unat sz) v)\<rparr>"
  have cov: "unat off + unat sz \<le> length (ram_data (ram_of d b))" using m(4) r(1) by simp
  note st = store_ram_covered [OF cov r(2), of v]
  have q: "bus_wf (quiet b)" using wf by (simp add: bus_wf_def quiet_def)
  have n: "deliver (put_ram d (ram_notify_write off sz ?r) (quiet b)) = stored d off sz ?r (quiet b)"
    by (rule stored_notified [OF q c nw(2)]) simp_all
  have silent: "deliver (put_ram d (ram_of d b) (quiet b)) = quiet b"
    using c q by (auto intro!: trans [OF deliver_silent] simp: bus_wf_def quiet_def)
  show ?thesis
    using slow_write_mapped [OF _ m(1), of b io v] wf m(2,3) p st fast_ram_not_device [OF nw p] n silent
    by (simp add: same_write_def fast_write_def write_ram_only_ptr device_write_def bus_wf_def quiet_stored)
next
  case None
  show ?thesis
  proof (cases "fast_device fast_windows addr sz")
    case (Some p)
    obtain d off where "p = (d, off)" by (cases p)
    then have p: "fast_device fast_windows addr sz = Some (d, off)" using Some by simp
    obtain base len where m: "mapped_at addr sz d base len" "off = addr - base" "\<not> is_ram d"
      using fast_device_mapped [OF nw p] by blast
    then show ?thesis
      using slow_write_mapped [OF _ m(1), of b io v] wf None p
      by (simp add: same_write_def fast_write_def write_ram_only_ptr device_write_def bus_wf_def quiet_put)
  qed (simp add: same_write_def fast_write_def write_ram_only_ptr None)
qed

section \<open>Properties\<close>

text \<open>
  C10. The fast path is only faster: on the machine's map, a read or write that does not wrap around the
  address space gives the same value or success, and leaves the RAMs, the framebuffer tracker
  and every device as the search over the mappings does, whatever the devices are; only the
  performance counters differ. This holds for every access size, those no RAM accepts included.
\<close>
theorem bus_fast_path_equiv:
  assumes "bus_wf b" "no_wrap addr sz" "0 < unat sz"
  shows "same_read (bus_read io addr sz (set_fast_path True b)) (bus_read io addr sz (set_fast_path False b)) \<and>
    same_write (bus_write io addr v sz (set_fast_path True b)) (bus_write io addr v sz (set_fast_path False b))"
proof -
  let ?r = "\<lambda>f. count_read sz (set_fast_path f b)" and ?w = "\<lambda>f. count_write sz (set_fast_path f b)"
  have wf: "bus_wf (?r f)" "bus_wf (?w f)" for f
    using assms(1) by (simp_all add: bus_wf_def set_fast_path_def count_read_def count_write_def)
  have q: "quiet (?r True) = quiet (?r False)" "quiet (?w True) = quiet (?w False)"
    by (simp_all add: set_fast_path_def)
  have ms: "bus_mappings (?r f) = soc_mappings" "bus_mappings (?w f) = soc_mappings" for f
    using wf by (simp_all add: bus_wf_def)
  have "same_read (bus_read_slow io addr sz (?r True)) (bus_read io addr sz (set_fast_path True b))"
    using fast_read_same [OF wf(1) [of True] assms(2,3), where io = io]
    unfolding bus_read_def Let_def set_fast_path_def by simp
  moreover have "same_write (bus_write_slow io addr v sz (?w True)) (bus_write io addr v sz (set_fast_path True b))"
    using fast_write_same [OF wf(2) [of True] assms(2,3), where io = io and v = v]
    unfolding bus_write_def Let_def set_fast_path_def by simp
  moreover have "bus_read io addr sz (set_fast_path False b) = bus_read_slow io addr sz (?r False)"
    "bus_write io addr v sz (set_fast_path False b) = bus_write_slow io addr v sz (?w False)"
    by (simp_all add: bus_read_def bus_write_def Let_def) (simp_all add: set_fast_path_def)
  ultimately show ?thesis
    using slow_of_quiet(1) [OF ms(1) ms(1) q(1), of io addr sz] slow_of_quiet(2) [OF ms(2) ms(2) q(2), of io addr v sz]
    by (simp add: same_read_def same_write_def)
qed

text \<open>The machine after \<open>SoC\<close> built it, with devices that answer zero.\<close>
definition soc_bus :: "unit bus" where
  "soc_bus = soc_map \<lparr>bus_mappings = [], bus_fast = False, bus_boot_ram = ram_new kBootRamSize,
    bus_framebuffer_ram = ram_new kFramebufferSize, bus_sdram = ram_new kSdramSize, bus_tracker = None,
    bus_devices = (), bus_observer = False, bus_observed = [],
    bus_perf = \<lparr>pc_read_ops = 0, pc_write_ops = 0, pc_read_bytes = 0, pc_write_bytes = 0, pc_find_calls = 0,
      pc_device_reads = 0, pc_device_writes = 0\<rparr>,
    bus_fast_perf = \<lparr>fc_read_ops = 0, fc_write_ops = 0, fc_read_bytes = 0, fc_write_bytes = 0\<rparr>\<rparr>"

definition zero_io :: "unit device_io" where
  "zero_io = \<lparr>io_read = \<lambda>_ _ _ d. (0, d), io_write = \<lambda>_ _ _ _ d. d\<rparr>"

lemma soc_bus_wf: "bus_wf soc_bus"
proof -
  have "bus_mappings soc_bus = soc_mappings" by (simp add: soc_bus_def soc_map_mappings)
  then show ?thesis
    by (simp add: bus_wf_def) (simp add: soc_bus_def soc_map_def bus_map_def Let_def ram_new_def)
qed

theorem bus_fast_path_equiv_witness:
  "same_read (bus_read zero_io 0x40000000 8 (set_fast_path True soc_bus))
    (bus_read zero_io 0x40000000 8 (set_fast_path False soc_bus))"
  using bus_fast_path_equiv [OF soc_bus_wf, where addr = "0x40000000" and sz = 8 and io = zero_io] by simp





text \<open>
  A device's copy into a RAM writes exactly the bytes and tells the CPUs, but not the
  display: inside the framebuffer it changes the picture and leaves the tracker as it was, so the
  rows are not redrawn, where a store by a CPU to the same place marks them.
\<close>
theorem dma_misses_tracker:
  assumes "bus_wf b" "bus_observer b" "src \<noteq> []" "unat off + length src \<le> unat kFramebufferSize"
  shows "\<exists>b'. write_ram_buffer (kFramebufferBase + off) (Some src) (of_nat (length src)) b = Defined (True, b') \<and>
    ram_data (bus_framebuffer_ram b') = put_bytes (ram_data (bus_framebuffer_ram b)) (unat off) src \<and>
    bus_observed b' = bus_observed b @ [(kFramebufferBase + off, of_nat (length src))] \<and>
    bus_tracker b' = bus_tracker b"
proof -
  let ?addr = "kFramebufferBase + off" and ?sz = "of_nat (length src) :: usize"
  have small: "length src \<le> 0x400000" "unat off \<le> 0x400000" using assms(4) by (simp_all add: address_map)
  have sz: "unat ?sz = length src" using small by (simp add: unat_of_nat)
  have pos: "0 < unat ?sz" using assms(3) sz by simp
  have ua: "unat ?addr = 0x10000000 + unat off"
    using small by (subst unat_plus_no_wrap) (simp_all add: address_map)
  have nw: "no_wrap ?addr ?sz" using small unfolding ua sz by simp
  have w: "in_window kFramebufferBase kFramebufferSize ?addr \<and> ?sz \<le> kFramebufferSize - (?addr - kFramebufferBase)"
    using assms(4) ua by (subst window_nat [OF nw pos]) (simp_all add: sz address_map)
  then have "\<not> in_window kBootRamBase kBootRamSize ?addr" "\<not> in_window kSdramBase kSdramSize ?addr"
    using windows_disjoint by (auto simp: in_window_def address_map word_less_nat_alt word_le_nat_alt ua)
  then have f: "fast_ram_ptr ?addr ?sz = Some (Framebuffer_Ram, off)"
    using w by (simp add: fast_ram_ptr_def window_ptr_def Let_def)
  obtain base len where m: "mapped_at ?addr ?sz Framebuffer_Ram base len" "off = ?addr - base"
    using fast_ram_ptr_mapped [OF nw pos f] by blast
  have l: "length (ram_data (bus_framebuffer_ram b)) = unat kFramebufferSize" using assms(1) by (simp add: bus_wf_def)
  have "unat (off + ?sz) = unat off + length src"
    using small sz by (subst unat_plus_no_wrap) simp_all
  then have "off + ?sz \<le> ram_size (bus_framebuffer_ram b)"
    using assms(4) l by (simp add: word_le_nat_alt ram_size_def)
  then have s: "\<exists>p. slow_ram_ptr ?addr ?sz b = (Some (Framebuffer_Ram, off), b\<lparr>bus_perf := p\<rparr>)"
    using m assms(1) by (auto simp: slow_ram_ptr_def bus_find_def mapped_at_def bus_wf_def is_ram.simps Let_def)
  obtain p where p: "bus_ram_mut_ptr ?addr ?sz b = (Some (Framebuffer_Ram, off), b\<lparr>bus_perf := p\<rparr>)"
  proof (cases "bus_fast b")
    case True
    then show ?thesis using that [of "bus_perf b"] f by (simp add: bus_ram_mut_ptr_def fast_ram_mut_ptr_same)
  next
    case False
    then show ?thesis using that s by (auto simp: bus_ram_mut_ptr_def)
  qed
  have "?sz \<noteq> 0" using pos by (metis unat_0 less_irrefl)
  moreover have "memcpy_to (ram_data (bus_framebuffer_ram b)) off src =
      Defined (put_bytes (ram_data (bus_framebuffer_ram b)) (unat off) src)"
    using assms(4) l by (simp add: memcpy_to_def)
  ultimately show ?thesis
    using assms(2) by (simp add: write_ram_buffer_def p sz Let_def)
qed

theorem dma_misses_tracker_witness:
  "\<exists>b'. write_ram_buffer (kFramebufferBase + 0x100) (Some [0xFF]) 1 (set_ram_write_observer True soc_bus) = Defined (True, b') \<and>
    bus_tracker b' = bus_tracker soc_bus"
proof -
  have "bus_wf (set_ram_write_observer True soc_bus)"
    using soc_bus_wf by (simp add: bus_wf_def set_ram_write_observer_def)
  from dma_misses_tracker [OF this, where src = "[0xFF]" and off = "0x100"] show ?thesis
    by (auto simp: set_ram_write_observer_def address_map)
qed

end
