(* ===== verification/Cpu_Bits.thy ===== *)
theory Cpu_Bits
  imports Prelude
begin

text \<open>
  Model of the integer helpers of \<open>src/src/cpu.cpp\<close>: masks, rotations, element replication, the
  immediates of the SIMD moves, leading bit counts, the CRC step, the high half of a product and
  the bitmask immediates. A C++ count or width that stays far below \<open>2 ^ 32\<close> is a natural number.
\<close>

section \<open>Masks and rotations\<close>

definition ones :: "nat \<Rightarrow> u64" where
  "ones bits = (if bits = 0 then 0 else if bits \<ge> 64 then NOT 0 else push_bit bits 1 - 1)"

definition ror :: "u64 \<Rightarrow> nat \<Rightarrow> nat \<Rightarrow> u64" where
  "ror v shift width =
    (if width = 0 then 0
     else
       let shift = shift mod width;
           m = ones width;
           v = v AND m
       in if shift = 0 then v else (drop_bit shift v OR push_bit (width - shift) v) AND m)"

definition ranges_overlap :: "u64 \<Rightarrow> usize \<Rightarrow> u64 \<Rightarrow> usize \<Rightarrow> bool" where
  "ranges_overlap a_base a_size b_base b_size \<longleftrightarrow>
    \<not> (a_size = 0 \<or> b_size = 0) \<and> a_base < b_base + b_size \<and> b_base < a_base + a_size"

text \<open>The loop would not end for an element of no bits; no caller has one.\<close>
function replicate_loop :: "u64 \<Rightarrow> nat \<Rightarrow> nat \<Rightarrow> nat \<Rightarrow> u64 \<Rightarrow> u64" where
  "replicate_loop el esize datasize pos out =
    (if esize = 0 \<or> datasize \<le> pos then out
     else replicate_loop el esize datasize (pos + esize) (out OR push_bit pos el))"
  by auto
termination by (relation "measure (\<lambda>(el, esize, datasize, pos, out). datasize - pos)") auto

declare replicate_loop.simps [simp del]

definition replicate_elem :: "u64 \<Rightarrow> nat \<Rightarrow> nat \<Rightarrow> u64" where
  "replicate_elem v esize datasize = replicate_loop (v AND ones esize) esize datasize 0 0"

section \<open>Immediates\<close>

definition scalar_byte_mask_imm :: "u8 \<Rightarrow> u64" where
  "scalar_byte_mask_imm imm8 =
    fold (\<lambda>k out. out OR push_bit (k * 8) (if bit imm8 k then 0xFF else 0)) [0..<8] 0"

definition advsimd_expand_imm :: "bool \<Rightarrow> u32 \<Rightarrow> u8 \<Rightarrow> u64" where
  "advsimd_expand_imm op cmode imm8 =
    (let sel = drop_bit 1 cmode AND 0x7; odd = cmode AND 1 \<noteq> 0; imm = ucast imm8 in
     if sel = 0 then replicate_elem imm 32 64
     else if sel = 1 then replicate_elem (push_bit 8 imm) 32 64
     else if sel = 2 then replicate_elem (push_bit 16 imm) 32 64
     else if sel = 3 then replicate_elem (push_bit 24 imm) 32 64
     else if sel = 4 then replicate_elem imm 16 64
     else if sel = 5 then replicate_elem (push_bit 8 imm) 16 64
     else if sel = 6 then
       (if \<not> odd then replicate_elem (push_bit 8 imm OR 0xFF) 32 64
        else replicate_elem (push_bit 16 imm OR 0xFFFF) 32 64)
     else if \<not> odd then replicate_elem imm 8 64
     else if \<not> op then
       (let imm32 = push_bit 31 (drop_bit 7 (ucast imm8) AND 1) OR
                    push_bit 30 ((drop_bit 6 (ucast imm8) AND 1) XOR 1) OR
                    push_bit 25 (if bit imm8 6 then 0x3F else 0) OR
                    push_bit 19 (ucast imm8 AND 0x3F) :: u32
        in replicate_elem (ucast imm32) 32 64)
     else scalar_byte_mask_imm imm8)"

definition vfp_expand_imm :: "bool \<Rightarrow> u8 \<Rightarrow> u64" where
  "vfp_expand_imm is_double imm8 =
    (let imm = ucast imm8;
         sign = drop_bit 7 imm AND 1;
         b = drop_bit 6 imm AND 1;
         cd = drop_bit 4 imm AND 0x3;
         efgh = imm AND 0xF
     in if is_double then
          let expo = push_bit 10 (b XOR 1) OR push_bit 2 (if b \<noteq> 0 then 0xFF else 0) OR cd
          in push_bit 63 sign OR push_bit 52 expo OR push_bit 48 efgh
        else
          let expo = push_bit 7 (b XOR 1) OR push_bit 2 (if b \<noteq> 0 then 0x1F else 0) OR cd
          in push_bit 31 sign OR push_bit 23 expo OR push_bit 19 efgh)"

section \<open>Bit order and counts\<close>

definition bit_reverse :: "u64 \<Rightarrow> nat \<Rightarrow> u64" where
  "bit_reverse v width = fold (\<lambda>i out. push_bit 1 out OR (drop_bit i v AND 1)) [0..<width] 0"

text \<open>\<open>__builtin_clz\<close> of the compiler, on a word of its type's width.\<close>
definition builtin_clz :: "'a::len word \<Rightarrow> nat" where
  "builtin_clz w = length (takeWhile (\<lambda>i. \<not> bit w i) (rev [0..<LENGTH('a)]))"

definition cls32 :: "u32 \<Rightarrow> u32" where
  "cls32 v =
    (let x = if drop_bit 31 v \<noteq> 0 then NOT v else v
     in if x = 0 then 31 else of_nat (builtin_clz x) - 1)"

definition cls64 :: "u64 \<Rightarrow> u64" where
  "cls64 v =
    (let x = if drop_bit 63 v \<noteq> 0 then NOT v else v
     in if x = 0 then 63 else of_nat (builtin_clz x) - 1)"

definition clz_bits :: "u64 \<Rightarrow> nat \<Rightarrow> u64" where
  "clz_bits v width =
    (let v = v AND ones width in
     if v = 0 then of_nat width
     else if width \<le> 32 then of_nat (builtin_clz (ucast v :: u32)) - (32 - of_nat width)
     else of_nat (builtin_clz v) - (64 - of_nat width))"

text \<open>The loop counts down from \<open>width - 2\<close> and stops at the first bit that differs from the sign.\<close>
definition cls_bits :: "u64 \<Rightarrow> nat \<Rightarrow> u64" where
  "cls_bits v width =
    (let v = v AND ones width;
         sign = bit v (width - 1)
     in of_nat (length (takeWhile (\<lambda>i. bit v i = sign) (rev [0..<width - 1]))))"

section \<open>Checksums\<close>

definition crc32_bit :: "u32 \<Rightarrow> u32 \<Rightarrow> u32" where
  "crc32_bit poly crc = drop_bit 1 crc XOR (if crc AND 1 \<noteq> 0 then poly else 0)"

definition crc32_byte :: "u32 \<Rightarrow> u8 \<Rightarrow> u32 \<Rightarrow> u32" where
  "crc32_byte poly b crc = (crc32_bit poly ^^ 8) (crc XOR ucast b)"

definition crc32_update :: "u32 \<Rightarrow> u64 \<Rightarrow> nat \<Rightarrow> u32 \<Rightarrow> u32" where
  "crc32_update crc data bytes poly =
    fold (\<lambda>i crc. crc32_byte poly (ucast (drop_bit (8 * i) data)) crc) [0..<bytes] crc"

section \<open>Products\<close>

definition umulh64 :: "u64 \<Rightarrow> u64 \<Rightarrow> u64" where
  "umulh64 lhs rhs =
    (let lhs_lo = lhs AND 0xFFFFFFFF;
         lhs_hi = drop_bit 32 lhs;
         rhs_lo = rhs AND 0xFFFFFFFF;
         rhs_hi = drop_bit 32 rhs;
         p00 = lhs_lo * rhs_lo;
         p01 = lhs_lo * rhs_hi;
         p10 = lhs_hi * rhs_lo;
         p11 = lhs_hi * rhs_hi;
         middle = drop_bit 32 p00 + (p01 AND 0xFFFFFFFF) + (p10 AND 0xFFFFFFFF)
     in p11 + drop_bit 32 p01 + drop_bit 32 p10 + drop_bit 32 middle)"

definition smulh64 :: "u64 \<Rightarrow> u64 \<Rightarrow> u64" where
  "smulh64 lhs rhs =
    (let high = umulh64 lhs rhs;
         high = if drop_bit 63 lhs \<noteq> 0 then high - rhs else high
     in if drop_bit 63 rhs \<noteq> 0 then high - lhs else high)"

section \<open>Bitmask immediates\<close>

text \<open>The highest set bit among bits 6 to 0; \<open>None\<close> is the \<open>-1\<close> the scan starts from.\<close>
definition highest_bit :: "u32 \<Rightarrow> nat option" where
  "highest_bit w = List.find (bit w) (rev [0..<7])"

text \<open>The masks \<open>wmask\<close> and \<open>tmask\<close>, or \<open>None\<close> for a reserved encoding.\<close>
definition decode_bit_masks :: "u32 \<Rightarrow> u32 \<Rightarrow> u32 \<Rightarrow> nat \<Rightarrow> (u64 \<times> u64) option" where
  "decode_bit_masks n imms immr datasize =
    (let not_imms = NOT imms AND 0x3F;
         concat = push_bit 6 n OR not_imms
     in case highest_bit concat of
          None \<Rightarrow> None
        | Some len \<Rightarrow>
            if len < 1 then None
            else
              let levels = push_bit len 1 - 1;
                  s = imms AND levels;
                  r = immr AND levels;
                  esize = 2 ^ len;
                  d = (s - r) AND levels;
                  welem = ones (unat s + 1);
                  telem = ones (unat d + 1)
              in Some (replicate_elem (ror welem (unat r) esize) esize datasize,
                       replicate_elem telem esize datasize))"

text \<open>The \<open>std::int64_t\<close> result is the word of its two's complement bits.\<close>
definition sign_extend :: "u64 \<Rightarrow> nat \<Rightarrow> u64" where
  "sign_extend v bits =
    (if bits = 0 then 0
     else if bits \<ge> 64 then v
     else
       let sign = push_bit (bits - 1) 1;
           v = v AND ones bits
       in (v XOR sign) - sign)"

end
