(* ===== verification/Cpu_Bits_Proofs.thy ===== *)
theory Cpu_Bits_Proofs
  imports Cpu_Bits
begin

text \<open>
  What the integer helpers compute: the high half of a product is the exact one, a bitmask
  immediate has the bits its three fields name, and a rotation, a reversal and a sign extension
  move the bits they should.
\<close>

section \<open>Products\<close>

lemma div_two_digits:
  fixes q m r B :: nat
  assumes "m < B" "r < B"
  shows "(q * (B * B) + m * B + r) div (B * B) = q"
proof -
  have "m * B + r < m * B + B" using assms by simp
  also have "\<dots> = Suc m * B" by simp
  also have "\<dots> \<le> B * B" using assms by (intro mult_right_mono) auto
  finally have "m * B + r < B * B" .
  moreover from this have "0 < B * B" by linarith
  ultimately show ?thesis by (simp add: add.assoc)
qed

lemma high_product:
  fixes a0 a1 b0 b1 B :: nat
  assumes "0 < B"
  defines "mid \<equiv> a0 * b0 div B + a0 * b1 mod B + a1 * b0 mod B"
  shows "(a1 * B + a0) * (b1 * B + b0) div (B * B) = a1 * b1 + a0 * b1 div B + a1 * b0 div B + mid div B"
proof -
  have e: "x = x div B * B + x mod B" for x by simp
  have "(a1 * B + a0) * (b1 * B + b0) = a1 * b1 * (B * B) + a0 * b1 * B + a1 * b0 * B + a0 * b0"
    by (simp add: algebra_simps)
  also have "\<dots> = a1 * b1 * (B * B) + (a0 * b1 div B * B + a0 * b1 mod B) * B +
      (a1 * b0 div B * B + a1 * b0 mod B) * B + (a0 * b0 div B * B + a0 * b0 mod B)"
    by simp
  also have "\<dots> = (a1 * b1 + a0 * b1 div B + a1 * b0 div B) * (B * B) + mid * B + a0 * b0 mod B"
    unfolding mid_def by (simp only: algebra_simps)
  also have "mid * B = (mid div B * B + mid mod B) * B" by simp
  also have "(a1 * b1 + a0 * b1 div B + a1 * b0 div B) * (B * B) + (mid div B * B + mid mod B) * B + a0 * b0 mod B =
      (a1 * b1 + a0 * b1 div B + a1 * b0 div B + mid div B) * (B * B) + mid mod B * B + a0 * b0 mod B"
    by (simp only: algebra_simps)
  finally show ?thesis using assms by (simp only: div_two_digits mod_less_divisor)
qed

lemma unat_lt: "unat (w :: u64) < 2 ^ 64"
  using unsigned_less[of w] by simp

lemma unat_low_half: "unat ((w :: u64) AND 0xFFFFFFFF) = unat w mod 2 ^ 32"
proof -
  have "(0xFFFFFFFF :: u64) = mask 32" by (simp add: mask_eq_exp_minus_1)
  then show ?thesis by (simp only: unsigned_take_bit_eq flip: take_bit_eq_mask) (simp add: take_bit_eq_mod)
qed

lemma unat_high_half: "unat (drop_bit 32 (w :: u64)) = unat w div 2 ^ 32"
proof -
  have "unat (drop_bit 32 w) = drop_bit 32 (unat w)"
    by (rule bit_eqI) (auto simp: bit_unsigned_iff bit_drop_bit_eq dest: bit_imp_le_length)
  then show ?thesis by (simp only: drop_bit_eq_div)
qed

lemma unat_halves: "unat (w :: u64) = unat w div 2 ^ 32 * 2 ^ 32 + unat w mod 2 ^ 32"
  by simp

lemma unat_high_less: "unat (w :: u64) div 2 ^ 32 < 2 ^ 32"
  using unat_lt[of w] by (simp add: less_mult_imp_div_less)

lemma unat_mult_small:
  assumes "unat (a :: u64) < 2 ^ 32" "unat (b :: u64) < 2 ^ 32"
  shows "unat (a * b) = unat a * unat b"
proof -
  have "unat a * unat b < 2 ^ 32 * 2 ^ 32" using assms by (intro mult_strict_mono) auto
  then show ?thesis by (simp add: unat_word_ariths)
qed

lemma unat_add_small: "unat (a :: u64) + unat b < 2 ^ 64 \<Longrightarrow> unat (a + b) = unat a + unat b"
  by (simp add: unat_word_ariths)

lemma unat_umulh64: "unat (umulh64 a b) = unat a * unat b div 2 ^ 64"
proof -
  let ?B = "2 ^ 32 :: nat"
  let ?a1 = "unat a div ?B" let ?a0 = "unat a mod ?B" let ?b1 = "unat b div ?B" let ?b0 = "unat b mod ?B"
  let ?p00 = "(a AND 0xFFFFFFFF) * (b AND 0xFFFFFFFF)" let ?p01 = "(a AND 0xFFFFFFFF) * drop_bit 32 b"
  let ?p10 = "drop_bit 32 a * (b AND 0xFFFFFFFF)" let ?p11 = "drop_bit 32 a * drop_bit 32 b"
  let ?mid = "?a0 * ?b0 div ?B + ?a0 * ?b1 mod ?B + ?a1 * ?b0 mod ?B"
  have lt: "?a0 < ?B" "?b0 < ?B" "?a1 < ?B" "?b1 < ?B" using unat_high_less by auto
  have p: "unat ?p00 = ?a0 * ?b0" "unat ?p01 = ?a0 * ?b1" "unat ?p10 = ?a1 * ?b0" "unat ?p11 = ?a1 * ?b1"
    using lt by (simp_all only: unat_mult_small unat_low_half unat_high_half)
  have q: "unat (drop_bit 32 ?p00) = ?a0 * ?b0 div ?B" "unat (drop_bit 32 ?p01) = ?a0 * ?b1 div ?B"
    "unat (drop_bit 32 ?p10) = ?a1 * ?b0 div ?B" "unat (?p01 AND 0xFFFFFFFF) = ?a0 * ?b1 mod ?B"
    "unat (?p10 AND 0xFFFFFFFF) = ?a1 * ?b0 mod ?B"
    by (simp_all only: unat_low_half unat_high_half p)
  have small: "?a0 * ?b0 div ?B < ?B" "?a0 * ?b1 mod ?B < ?B" "?a1 * ?b0 mod ?B < ?B"
    using unat_high_less[of ?p00] by (simp_all only: p mod_less_divisor zero_less_power zero_less_numeral)
  have big: "(2 :: nat) ^ 32 + 2 ^ 32 + 2 ^ 32 < 2 ^ 64" by simp
  have m1: "unat (drop_bit 32 ?p00 + (?p01 AND 0xFFFFFFFF)) = ?a0 * ?b0 div ?B + ?a0 * ?b1 mod ?B"
    by (subst unat_add_small) (simp_all only: q, use small big in linarith)
  have m: "unat (drop_bit 32 ?p00 + (?p01 AND 0xFFFFFFFF) + (?p10 AND 0xFFFFFFFF)) = ?mid"
    by (subst unat_add_small) (simp_all only: q m1, use small big in linarith)
  have total: "unat a * unat b div 2 ^ 64 = ?a1 * ?b1 + ?a0 * ?b1 div ?B + ?a1 * ?b0 div ?B + ?mid div ?B"
    using high_product[of ?B ?a1 ?a0 ?b1 ?b0] by simp
  have "unat a * unat b \<le> (2 ^ 64 - 1) * (2 ^ 64 - 1)"
    using unat_lt[of a] unat_lt[of b] by (intro mult_mono) auto
  then have bound: "unat a * unat b div 2 ^ 64 < 2 ^ 64" by (simp add: less_mult_imp_div_less)
  have s1: "unat (?p11 + drop_bit 32 ?p01) = ?a1 * ?b1 + ?a0 * ?b1 div ?B"
    by (subst unat_add_small) (simp_all only: p q, use bound total in linarith)
  have s2: "unat (?p11 + drop_bit 32 ?p01 + drop_bit 32 ?p10) = ?a1 * ?b1 + ?a0 * ?b1 div ?B + ?a1 * ?b0 div ?B"
    by (subst unat_add_small) (simp_all only: s1 q, use bound total in linarith)
  show ?thesis unfolding umulh64_def Let_def total
    by (subst unat_add_small) (simp_all only: s2 unat_high_half m, use bound total in linarith)
qed

lemma top_bit_set: "drop_bit 63 (w :: u64) \<noteq> 0 \<longleftrightarrow> bit w 63"
proof
  assume "bit w 63"
  then have "bit (drop_bit 63 w) 0" by (simp add: bit_drop_bit_eq)
  then show "drop_bit 63 w \<noteq> 0" by (metis bit_0_eq bot_fun_def bot_bool_def)
next
  assume "drop_bit 63 w \<noteq> 0"
  then obtain n where "bit w (63 + n)" by (auto simp: bit_eq_iff bit_drop_bit_eq)
  moreover from this have "63 + n < 64" by (auto dest: bit_imp_le_length)
  then have "n = 0" by simp
  ultimately show "bit w 63" by simp
qed

lemma sint_from_uint: "sint (w :: u64) = uint w - (if drop_bit 63 w \<noteq> 0 then 2 ^ 64 else 0)"
proof -
  have u: "uint w = sint w mod 2 ^ 64" using uint_sint[of w] by (simp only: take_bit_eq_mod len_num1 len_bit0) simp
  have r: "- (2 ^ 63) \<le> sint w" "sint w < 2 ^ 63" using sint_greater_eq[of w] sint_less[of w] by simp_all
  have n: "drop_bit 63 w \<noteq> 0 \<longleftrightarrow> sint w < 0" unfolding top_bit_set using bit_last_iff[of w] by simp
  show ?thesis
  proof (cases "sint w < 0")
    case True
    then have "sint w mod 2 ^ 64 = (sint w + 2 ^ 64) mod 2 ^ 64" by simp
    also have "\<dots> = sint w + 2 ^ 64" by (rule mod_pos_pos_trivial) (use r True in simp_all)
    finally show ?thesis using True n u by simp
  next
    case False
    then show ?thesis using n u r by simp
  qed
qed

text \<open>The high halves of the unsigned and of the signed product are exact.\<close>
lemma smulh64_exact: "smulh64 a b = word_of_int (sint a * sint b div 2 ^ 64)"
proof -
  let ?s = "\<lambda>w :: u64. if drop_bit 63 w \<noteq> 0 then 1 else 0 :: int"
  have s: "sint w = uint w - 2 ^ 64 * ?s w" for w :: u64 by (simp add: sint_from_uint)
  have "uint (umulh64 a b) = uint a * uint b div 2 ^ 64"
    using arg_cong[OF unat_umulh64[of a b], of int] by (simp only: uint_nat zdiv_int of_nat_mult) simp
  then have u: "umulh64 a b = word_of_int (uint a * uint b div 2 ^ 64)" by (metis word_of_int_uint)
  have "sint a * sint b = uint a * uint b + 2 ^ 64 * (2 ^ 64 * (?s a * ?s b) - ?s a * uint b - ?s b * uint a)"
    unfolding s by (simp add: algebra_simps)
  then have "sint a * sint b div 2 ^ 64 =
      uint a * uint b div 2 ^ 64 + (2 ^ 64 * (?s a * ?s b) - ?s a * uint b - ?s b * uint a)"
    by (simp only: div_mult_self2 zero_neq_numeral power_not_zero add.commute not_False_eq_True)
  moreover have "word_of_int (2 ^ 64 * k) = (0 :: u64)" for k
    using word_of_int_eq_iff[of "2 ^ 64 * k" 0, where 'a = 64] by (simp add: take_bit_eq_mod)
  ultimately show ?thesis
    unfolding smulh64_def Let_def u
    by (simp add: wi_hom_add[symmetric] wi_hom_sub[symmetric] wi_hom_mult[symmetric])
qed

section \<open>Masks, rotations and replication\<close>

lemma bit_ones: "bit (ones n) i \<longleftrightarrow> i < n \<and> i < 64"
proof -
  have "n < 64 \<Longrightarrow> push_bit n 1 - 1 = (mask n :: u64)" for n by (simp add: mask_eq_exp_minus_1 push_bit_eq_mult)
  then show ?thesis by (auto simp: ones_def bit_mask_iff bit_not_iff)
qed

lemma bit_ror:
  assumes "0 < width" "width \<le> 64"
  shows "bit (ror v sh width) i \<longleftrightarrow> i < width \<and> bit v ((i + sh) mod width)"
proof (cases "i < width")
  case False
  then show ?thesis using assms by (auto simp: ror_def Let_def bit_and_iff bit_ones)
next
  case True
  define k where "k = sh mod width"
  have k: "k < width" "(i + sh) mod width = (i + k) mod width"
    using assms by (simp_all add: k_def mod_add_right_eq)
  have m: "(i + k) mod width = (if i + k < width then i + k else i + k - width)"
    using True k by (simp add: mod_if)
  show ?thesis
  proof (cases "k = 0")
    case True
    then show ?thesis using assms \<open>i < width\<close> k
      by (auto simp: ror_def Let_def bit_and_iff bit_ones simp flip: k_def)
  next
    case False
    then show ?thesis
      unfolding k m using assms \<open>i < width\<close> k
      by (auto simp: ror_def Let_def bit_and_iff bit_or_iff bit_ones bit_drop_bit_eq bit_push_bit_iff add.commute simp flip: k_def)
  qed
qed

lemma bit_replicate_loop:
  assumes "0 < e" "\<And>i. bit el i \<Longrightarrow> i < e"
  shows "bit (replicate_loop el e d pos out) i \<longleftrightarrow>
    bit out i \<or> i < 64 \<and> pos \<le> i \<and> i - (i - pos) mod e < d \<and> bit el ((i - pos) mod e)"
  using assms
proof (induction el e d pos out rule: replicate_loop.induct)
  case (1 el e d pos out)
  show ?case
  proof (cases "d \<le> pos")
    case True
    have "(i - pos) mod e \<le> i - pos" by simp
    then have "pos \<le> i \<Longrightarrow> \<not> i - (i - pos) mod e < d" using True by linarith
    then show ?thesis using True 1(2) by (auto simp: replicate_loop.simps[of el e d pos])
  next
    case False
    have step: "replicate_loop el e d pos out = replicate_loop el e d (pos + e) (out OR push_bit pos el)"
      using False 1(2) by (simp add: replicate_loop.simps[of el e d pos])
    have IH: "bit (replicate_loop el e d (pos + e) (out OR push_bit pos el)) i \<longleftrightarrow>
        bit (out OR push_bit pos el) i \<or>
        i < 64 \<and> pos + e \<le> i \<and> i - (i - (pos + e)) mod e < d \<and> bit el ((i - (pos + e)) mod e)"
      using 1(1)[of] 1(2,3) False by simp
    consider "i < pos" | "pos \<le> i" "i < pos + e" | "pos + e \<le> i" by linarith
    then show ?thesis
    proof cases
      case 1
      then show ?thesis unfolding step IH by (auto simp: bit_or_iff bit_push_bit_iff)
    next
      case 2
      then have m: "(i - pos) mod e = i - pos" and d: "i - (i - pos) = pos" by simp_all
      have "\<not> pos + e \<le> i" "pos < d" using 2 False by simp_all
      then show ?thesis unfolding step IH m d bit_or_iff bit_push_bit_iff using 2(1)
        by (simp only: possible_bit_word len_num1 len_bit0) auto
    next
      case 3
      then have "i - pos = (i - (pos + e)) + e" by simp
      then have m: "(i - pos) mod e = (i - (pos + e)) mod e" by (simp only: mod_add_self2)
      have "\<not> bit el (i - pos)" using 1(3)[of "i - pos"] 3 by auto
      then show ?thesis unfolding step IH m bit_or_iff bit_push_bit_iff using 3 by simp
    qed
  qed
qed

lemma bit_replicate_elem:
  assumes "0 < e" "e dvd d"
  shows "bit (replicate_elem v e d) i \<longleftrightarrow> i < 64 \<and> i < d \<and> bit v (i mod e)"
proof -
  have "bit (v AND ones e) k \<Longrightarrow> k < e" for k by (simp add: bit_and_iff bit_ones)
  then have loop: "bit (replicate_elem v e d) i \<longleftrightarrow> i < 64 \<and> i - i mod e < d \<and> bit (v AND ones e) (i mod e)"
    using bit_replicate_loop[of e "v AND ones e" d 0 0 i] assms(1) by (simp add: replicate_elem_def)
  moreover have "i - i mod e < d \<longleftrightarrow> i < d"
  proof
    assume "i - i mod e < d"
    then have "e * (i div e) < d" by (simp add: minus_mod_eq_mult_div)
    then have "i div e < d div e" using assms by (auto elim!: dvdE)
    then show "i < d" using assms by (metis div_le_mono leD linorder_not_less)
  qed simp
  ultimately show ?thesis
    using assms bit_imp_le_length[of v "i mod e"]
    unfolding loop by (auto simp: bit_and_iff bit_ones)
qed

lemma bit_take_one: "bit (drop_bit n (v :: u64) AND 1) j \<longleftrightarrow> j = 0 \<and> bit v n"
  by (cases j) (simp_all only: bit_and_iff bit_drop_bit_eq bit_1_iff, auto)

lemma bit_reverse_bits:
  assumes "width \<le> 64"
  shows "bit (bit_reverse v width) i \<longleftrightarrow> i < width \<and> bit v (width - 1 - i)"
proof -
  have "n \<le> 64 \<Longrightarrow> bit (fold (\<lambda>i out. push_bit 1 out OR (drop_bit i v AND 1)) [0..<n] 0) i \<longleftrightarrow>
      i < n \<and> bit v (n - 1 - i)" for n
  proof (induction n arbitrary: i)
    case 0
    then show ?case by simp
  next
    case (Suc n)
    let ?out = "fold (\<lambda>i out. push_bit 1 out OR (drop_bit i v AND 1)) [0..<n] 0"
    have "bit (push_bit 1 ?out OR (drop_bit n v AND 1)) i \<longleftrightarrow>
        1 \<le> i \<and> i < 64 \<and> bit ?out (i - 1) \<or> i = 0 \<and> bit v n"
      by (simp only: bit_or_iff bit_push_bit_iff bit_take_one) simp
    then show ?case using Suc.IH[of "i - 1"] Suc.prems by (cases i) auto
  qed
  then show ?thesis using assms by (simp add: bit_reverse_def)
qed

section \<open>Bitmask immediates\<close>

text \<open>The two masks, read off the fields: an element of \<open>2 ^ len\<close> bits, repeated over the data.\<close>
definition wmask_shape :: "nat \<Rightarrow> nat \<Rightarrow> nat \<Rightarrow> nat \<Rightarrow> nat \<Rightarrow> bool" where
  "wmask_shape e s r d i \<longleftrightarrow> i < d \<and> (i + r) mod e \<le> s mod e"

definition tmask_shape :: "nat \<Rightarrow> nat \<Rightarrow> nat \<Rightarrow> nat \<Rightarrow> nat \<Rightarrow> bool" where
  "tmask_shape e s r d i \<longleftrightarrow> i < d \<and> int (i mod e) \<le> (int s - int r) mod int e"

lemma find_hit: "List.find P xs = Some x \<Longrightarrow> x \<in> set xs \<and> P x"
  by (induction xs) (auto split: if_splits)

lemma highest_bit_le: "highest_bit w = Some len \<Longrightarrow> len \<le> 6 \<and> bit w len"
  unfolding highest_bit_def by (drule find_hit) simp

lemma unat_and_levels:
  assumes "len \<le> 6"
  shows "unat ((w :: u32) AND (push_bit len 1 - 1)) = unat w mod 2 ^ len"
proof -
  have "push_bit len 1 - 1 = (mask len :: u32)" by (simp add: mask_eq_exp_minus_1 push_bit_eq_mult)
  then have "w AND (push_bit len 1 - 1) = take_bit len w" by (simp add: take_bit_eq_mask)
  then show ?thesis using assms by (simp only: unsigned_take_bit_eq) (simp add: take_bit_eq_mod)
qed

lemma unat_sub_levels:
  assumes "len \<le> 6"
  shows "int (unat ((s - r :: u32) AND (push_bit len 1 - 1))) = (uint s - uint r) mod 2 ^ len"
proof -
  have "(2 :: int) ^ len dvd 2 ^ 32" using assms by (intro le_imp_power_dvd) simp
  moreover have "uint (s - r) = (uint s - uint r) mod 2 ^ 32" by (simp only: uint_word_ariths len_num1 len_bit0) simp
  ultimately have "uint (s - r) mod 2 ^ len = (uint s - uint r) mod 2 ^ len" by (simp only: mod_mod_cancel)
  then show ?thesis
    by (simp only: unat_and_levels[OF assms] zmod_int of_nat_power of_nat_numeral flip: uint_nat)
qed

lemma uint_and_levels: "len \<le> 6 \<Longrightarrow> uint ((w :: u32) AND (push_bit len 1 - 1)) = uint w mod 2 ^ len"
  unfolding uint_nat by (simp only: unat_and_levels zmod_int of_nat_power of_nat_numeral)

text \<open>
  A bitmask immediate decodes unless its element would have fewer than two bits, and then the two
  masks have the shapes above.
\<close>
lemma decode_bit_masks_bits:
  assumes len: "highest_bit (push_bit 6 n OR (NOT imms AND 0x3F)) = Some len" "1 \<le> len"
    and d: "2 ^ len dvd datasize" "datasize \<le> 64"
  shows "\<exists>w t. decode_bit_masks n imms immr datasize = Some (w, t) \<and>
    (\<forall>i. bit w i \<longleftrightarrow> wmask_shape (2 ^ len) (unat imms) (unat immr) datasize i) \<and>
    (\<forall>i. bit t i \<longleftrightarrow> tmask_shape (2 ^ len) (unat imms) (unat immr) datasize i)"
proof -
  let ?e = "2 ^ len :: nat" and ?lv = "push_bit len 1 - 1 :: u32"
  let ?s = "imms AND ?lv" and ?r = "immr AND ?lv"
  let ?d = "(?s - ?r) AND ?lv"
  have l: "len \<le> 6" using highest_bit_le len by blast
  have e: "?e \<le> 2 ^ 6" using l by (intro power_increasing) auto
  then have e64: "?e \<le> 64" by simp
  have s: "unat ?s = unat imms mod ?e" and r: "unat ?r = unat immr mod ?e" by (simp_all only: unat_and_levels[OF l])
  have sr: "int (unat ?d) = (int (unat imms) - int (unat immr)) mod int ?e"
    unfolding unat_sub_levels[OF l] uint_and_levels[OF l]
    by (simp only: mod_diff_eq of_nat_power of_nat_numeral flip: uint_nat)
  have "bit (replicate_elem (ror (ones (unat ?s + 1)) (unat ?r) ?e) ?e datasize) i \<longleftrightarrow>
      wmask_shape ?e (unat imms) (unat immr) datasize i" for i
  proof -
    have "(i mod ?e + unat immr mod ?e) mod ?e = (i + unat immr) mod ?e" by (simp add: mod_add_eq)
    moreover have "(i + unat immr) mod ?e < 64" using e64 by (metis mod_less_divisor order_less_le_trans zero_less_numeral zero_less_power)
    ultimately show ?thesis using d e64
      by (simp only: wmask_shape_def bit_replicate_elem bit_ror bit_ones s r zero_less_numeral zero_less_power) auto
  qed
  moreover have "bit (replicate_elem (ones (unat ?d + 1)) ?e datasize) i \<longleftrightarrow>
      tmask_shape ?e (unat imms) (unat immr) datasize i" for i
  proof -
    have "i mod ?e < 64" using e64 by (metis mod_less_divisor order_less_le_trans zero_less_numeral zero_less_power)
    moreover have "i mod ?e < unat ?d + 1 \<longleftrightarrow> int (i mod ?e) \<le> int (unat ?d)"
      by (simp only: zle_int less_Suc_eq_le Suc_eq_plus1[symmetric])
    ultimately show ?thesis using d
      by (simp only: tmask_shape_def bit_replicate_elem bit_ones sr zero_less_numeral zero_less_power) auto
  qed
  ultimately show ?thesis using len by (simp add: decode_bit_masks_def Let_def)
qed

lemma bit_sign_extend:
  assumes "0 < bits" "bits \<le> 64"
  shows "bit (sign_extend v bits) i \<longleftrightarrow> i < 64 \<and> bit v (min i (bits - 1))"
proof (cases "bits = 64")
  case True
  then show ?thesis using bit_imp_le_length[of v i] by (auto simp: sign_extend_def min_def)
next
  case False
  then obtain n where n: "bits = Suc n" "n < 63" using assms by (cases bits) auto
  let ?top = "push_bit n 1 :: u64"
  have top: "?top = 2 ^ n" by (simp add: push_bit_eq_mult)
  have ext: "sign_extend v bits = ((v AND ones (Suc n)) XOR ?top) - ?top" using n by (simp add: sign_extend_def Let_def)
  show ?thesis
  proof (cases "bit v n")
    case True
    have "(v AND ones (Suc n)) XOR ?top = take_bit n v"
      by (rule bit_eqI) (use True n in \<open>auto simp: bit_xor_iff bit_and_iff bit_ones bit_push_bit_iff bit_take_bit_iff bit_exp_iff less_Suc_eq\<close>)
    then have "sign_extend v bits = take_bit n v + NOT (mask n)"
      unfolding ext using minus_exp_eq_not_mask[of n, where 'a = u64] by (simp add: top)
    also have "\<dots> = take_bit n v OR NOT (mask n)"
      by (rule disjunctive_add_eq_or) (rule bit_eqI, simp add: bit_and_iff bit_take_bit_iff bit_not_iff bit_mask_iff)
    finally show ?thesis using True n
      by (auto simp: bit_or_iff bit_take_bit_iff bit_not_iff bit_mask_iff min_def not_less le_less_Suc_eq)
  next
    case False
    have "(v AND ones (Suc n)) XOR ?top = take_bit n v OR ?top"
      by (rule bit_eqI) (use False n in \<open>auto simp: bit_xor_iff bit_or_iff bit_and_iff bit_ones bit_push_bit_iff bit_take_bit_iff bit_exp_iff less_Suc_eq\<close>)
    also have "\<dots> = take_bit n v + ?top"
      by (rule disjunctive_add_eq_or[symmetric]) (rule bit_eqI, auto simp: bit_and_iff bit_take_bit_iff bit_exp_iff)
    finally have "sign_extend v bits = take_bit n v" unfolding ext by simp
    then show ?thesis using False n
      by (auto simp: bit_take_bit_iff min_def le_less)
  qed
qed

lemma sign_extend_via_int32:
  assumes "0 < bits" "bits < 32"
  shows "scast (ucast (sign_extend v bits) :: u32) = sign_extend v bits"
  by (rule bit_eqI) (use assms in \<open>auto simp: bit_signed_iff bit_ucast_iff bit_sign_extend min_def\<close>)

end
