(* ===== verification/Cpu_State.thy ===== *)
theory Cpu_State
  imports Cpu_Bits System_Registers Bus
begin

text \<open>
  The state of \<open>Cpu\<close> (\<open>src/include/aarchvm/cpu.hpp\<close>), its registers and flags, and the operations of
  \<open>src/src/cpu.cpp\<close> that touch only that state: the stack pointer banks, the decode cache, the entry
  into an exception and the debug exceptions. The members \<open>x_\<close> of \<open>Cpu\<close> are the fields \<open>c_x\<close>; the
  members of one prefix (\<open>tlb_\<close>, \<open>dcc_\<close>, \<open>exclusive_\<close>, \<open>decode_\<close>, \<open>last_\<close>) are a record of their own, and the
  \<open>icc_\<close> ones are with \<open>running_priority_\<close> and the \<open>irq_query_\<close> members. The calls made
  through \<open>callbacks_\<close> are recorded in order. Once the C++ leaves a step undefined the flag
  \<open>c_undefined\<close> is set and stays. The environment variables that only print are taken as unset.
\<close>

section \<open>Types\<close>

datatype access_type = Fetch | Read | Write | Unprivileged_Read | Unprivileged_Write

datatype shareability = Non_Shareable | Reserved_Shareability | Outer_Shareable | Inner_Shareable

datatype cacheability = Non_Cacheable | Write_Back_Read_Write_Allocate | Write_Through_Read_Allocate
  | Write_Back_Read_Allocate

datatype memory_type = Device_Memory | Normal_Memory | Unknown_Memory

datatype fault_kind = Translation | Address_Size | Access_Flag | Permission | External_Abort_On_Walk

record fault =
  f_kind :: fault_kind
  f_level :: nat
  f_write :: bool

record walk_attributes =
  wa_inner :: cacheability
  wa_outer :: cacheability
  wa_shareability :: shareability
  wa_ips_bits :: nat

text \<open>The members that \<open>TranslationResult\<close> and \<open>TlbEntry\<close> have in common.\<close>
record page_attributes =
  pg_asid :: u16
  pg_level :: nat
  pg_attr_index :: u8
  pg_mair_attr :: u8
  pg_global :: bool
  pg_writable :: bool
  pg_user_accessible :: bool
  pg_executable :: bool
  pg_pxn :: bool
  pg_uxn :: bool
  pg_memory_type :: memory_type
  pg_leaf_shareability :: shareability
  pg_walk_attrs :: walk_attributes

record translation_result =
  tr_pa :: u64
  tr_page :: page_attributes

record tlb_entry =
  te_valid :: bool
  te_va_page :: u64
  te_pa_page :: u64
  te_page :: page_attributes

record tlb =
  tlb_sets :: "tlb_entry list list"
  tlb_next_replace :: "u8 list"
  tlb_last_fetch :: tlb_entry
  tlb_last_data :: tlb_entry

record mmu_counters =
  mc_translate_calls :: u64
  mc_tlb_lookups :: u64
  mc_tlb_hits :: u64
  mc_tlb_misses :: u64
  mc_tlb_inserts :: u64
  mc_tlb_flush_all :: u64
  mc_tlb_flush_va :: u64
  mc_page_walks :: u64
  mc_page_walk_desc_reads :: u64

datatype decoded_kind = Fallback | B_Imm | B_Cond | Cbz | Tbz | Mov_Wide | Add_Sub_Imm | Add_Sub_Shifted
  | Load_Store_U_Imm | Load_Store | Logical_Shifted | Logical_Imm | Bitfield

text \<open>\<open>d_simm\<close> is the word of the two's complement bits of the \<open>std::int32_t\<close>.\<close>
record decoded =
  d_kind :: decoded_kind
  d_simm :: u32
  d_imm :: u32
  d_rd :: u8
  d_rn :: u8
  d_rm :: u8
  d_aux :: u8
  d_aux2 :: u8
  d_flags :: u16

record decode_page =
  dp_valid :: bool
  dp_context_epoch :: u64
  dp_va_page :: u64
  dp_pa_page :: u64
  dp_raws :: "u32 list"
  dp_valid_words :: "u64 list"
  dp_insns :: "decoded list"

text \<open>\<open>dc_last_page\<close> is the pointer \<open>decode_last_page_\<close> as an index into the pages.\<close>
record decode_cache =
  dc_context_epoch :: u64
  dc_pages :: "decode_page list"
  dc_last_page :: "nat option"

record dcc =
  dcc_rx_data :: u32
  dcc_tx_data :: u32
  dcc_int_enable :: u32
  dcc_rx_full :: bool
  dcc_tx_full :: bool

record exclusive =
  ex_valid :: bool
  ex_addr :: u64
  ex_size :: u8
  ex_pa_count :: u8
  ex_phys_addrs :: "u64 list"

text \<open>Entry \<open>i\<close> of the four parallel arrays of the exception stack.\<close>
record exception_frame =
  ef_is_irq :: bool
  ef_intid :: u32
  ef_prev_prio :: u16
  ef_prio_dropped :: bool

text \<open>Entry \<open>i\<close> of the three parallel arrays of the stack of interrupts acknowledged by hand.\<close>
record manual_frame =
  mf_intid :: u32
  mf_prev_prio :: u16
  mf_prio_dropped :: bool

record icc =
  icc_pmr_el1 :: u64
  icc_running_priority :: u16
  icc_ctlr_el1 :: u64
  icc_sre_el1 :: u64
  icc_bpr1_el1 :: u64
  icc_igrpen1_el1 :: u64
  icc_ap0r_el1 :: "u64 list"
  icc_ap1r_el1 :: "u64 list"
  icc_query_epoch :: u64
  icc_query_threshold :: u16
  icc_delivery_threshold :: u16
  icc_query_negative_valid :: bool

record last_fault =
  last_translation_fault :: "fault option"
  last_data_abort_iss_override :: "u32 option"
  last_data_fault_va :: "u64 option"

text \<open>
  The callbacks a CPU makes, in their order. \<open>smccc_call\<close> is the one with an answer; the machine's definition of
  it records the four registers it was called with, so that its effect on the other CPUs can be applied.
\<close>
datatype cpu_call = Sev_Broadcast | Memory_Write u64 usize | Tlbi_Vmalle1 | Tlbi_Vae1 u64 bool
  | Tlbi_Aside1 u16 | Ic_Ivau | Smccc_Call u64 u64 u64 u64

record 'd cpu =
  c_bus :: "'d bus"
  c_regs :: "u64 list"
  c_qregs :: "(u64 \<times> u64) list"
  c_sysregs :: sysregs
  c_exception_depth :: nat
  c_exception_stack :: "exception_frame list"
  c_manual_irq_depth :: nat
  c_manual_irq_stack :: "manual_frame list"
  c_waiting_for_interrupt :: bool
  c_waiting_for_event :: bool
  c_event_register :: bool
  c_icc :: icc
  c_dcc :: dcc
  c_exclusive :: exclusive
  c_tlb :: tlb
  c_perf :: mmu_counters
  c_last :: last_fault
  c_pc :: u64
  c_steps :: u64
  c_exception_taken_this_step :: bool
  c_stepped_instruction_in_flight :: bool
  c_halted :: bool
  c_predecode_enabled :: bool
  c_cpu_index :: nat
  c_decode :: decode_cache
  c_callbacks :: bool
  c_calls :: "cpu_call list"
  c_debug_slow :: bool
  c_undefined :: bool

definition kExceptionStackCapacity :: nat where "kExceptionStackCapacity = 64"
definition kTlbWays :: nat where "kTlbWays = 4"
definition kTlbSets :: nat where "kTlbSets = 1024"
definition kDecodePageSlots :: nat where "kDecodePageSlots = 1024"
definition kDecodeCachePages :: nat where "kDecodeCachePages = 64"

section \<open>Registers\<close>

definition on_sysregs :: "(sysregs \<Rightarrow> sysregs) \<Rightarrow> 'd cpu \<Rightarrow> 'd cpu" where
  "on_sysregs f c = c\<lparr>c_sysregs := f (c_sysregs c)\<rparr>"

definition reg :: "nat \<Rightarrow> 'd cpu \<Rightarrow> u64" where
  "reg idx c = (if idx \<ge> 31 then 0 else c_regs c ! idx)"

definition reg32 :: "nat \<Rightarrow> 'd cpu \<Rightarrow> u32" where
  "reg32 idx c = ucast (reg idx c AND 0xFFFFFFFF)"

definition set_reg :: "nat \<Rightarrow> u64 \<Rightarrow> 'd cpu \<Rightarrow> 'd cpu" where
  "set_reg idx v c = (if idx \<ge> 31 then c else c\<lparr>c_regs := (c_regs c)[idx := v]\<rparr>)"

definition set_reg32 :: "nat \<Rightarrow> u32 \<Rightarrow> 'd cpu \<Rightarrow> 'd cpu" where
  "set_reg32 idx v = set_reg idx (ucast v)"

definition set_x :: "nat \<Rightarrow> u64 \<Rightarrow> 'd cpu \<Rightarrow> 'd cpu" where
  "set_x idx v c = (if idx < 32 then c\<lparr>c_regs := (c_regs c)[idx := v]\<rparr> else c)"

definition set_sp :: "u64 \<Rightarrow> 'd cpu \<Rightarrow> 'd cpu" where
  "set_sp v c =
    (let c = c\<lparr>c_regs := (c_regs c)[31 := v]\<rparr> in
     if current_uses_sp_el0 (c_sysregs c) then on_sysregs (set_sp_el0 v) c else on_sysregs (set_sp_el1 v) c)"

definition save_current_sp_to_bank :: "'d cpu \<Rightarrow> 'd cpu" where
  "save_current_sp_to_bank c =
    (if current_uses_sp_el0 (c_sysregs c) then on_sysregs (set_sp_el0 (c_regs c ! 31)) c
     else on_sysregs (set_sp_el1 (c_regs c ! 31)) c)"

definition load_current_sp_from_bank :: "'d cpu \<Rightarrow> 'd cpu" where
  "load_current_sp_from_bank c =
    c\<lparr>c_regs := (c_regs c)[31 := if current_uses_sp_el0 (c_sysregs c) then r_sp_el0 (c_sysregs c)
                                 else r_sp_el1 (c_sysregs c)]\<rparr>"

definition sp_or_reg :: "nat \<Rightarrow> 'd cpu \<Rightarrow> u64" where
  "sp_or_reg idx c = (if idx = 31 then c_regs c ! 31 else reg idx c)"

definition set_sp_or_reg :: "nat \<Rightarrow> u64 \<Rightarrow> bool \<Rightarrow> 'd cpu \<Rightarrow> 'd cpu" where
  "set_sp_or_reg idx v is_32bit c =
    (if idx = 31 then set_sp (if is_32bit then ucast (ucast v :: u32) else v) c
     else if is_32bit then set_reg32 idx (ucast v) c
     else set_reg idx v c)"

definition q_reg_lane :: "nat \<Rightarrow> nat \<Rightarrow> 'd cpu \<Rightarrow> u64" where
  "q_reg_lane idx lane c =
    (if idx \<ge> 32 \<or> lane \<ge> 2 then 0
     else if lane = 0 then fst (c_qregs c ! idx) else snd (c_qregs c ! idx))"

definition set_q_reg_lane :: "nat \<Rightarrow> nat \<Rightarrow> u64 \<Rightarrow> 'd cpu \<Rightarrow> 'd cpu" where
  "set_q_reg_lane idx lane v c =
    (if idx \<ge> 32 \<or> lane \<ge> 2 then c
     else c\<lparr>c_qregs := (c_qregs c)[idx := if lane = 0 then (v, snd (c_qregs c ! idx)) else (fst (c_qregs c ! idx), v)]\<rparr>)"

section \<open>Conditions and flags\<close>

definition condition_holds :: "u32 \<Rightarrow> 'd cpu \<Rightarrow> bool" where
  "condition_holds cond c =
    (let p = r_pstate (c_sysregs c); k = cond AND 0xF in
     if k = 0x0 then ps_z p
     else if k = 0x1 then \<not> ps_z p
     else if k = 0x2 then ps_c p
     else if k = 0x3 then \<not> ps_c p
     else if k = 0x4 then ps_n p
     else if k = 0x5 then \<not> ps_n p
     else if k = 0x6 then ps_v p
     else if k = 0x7 then \<not> ps_v p
     else if k = 0x8 then ps_c p \<and> \<not> ps_z p
     else if k = 0x9 then \<not> ps_c p \<or> ps_z p
     else if k = 0xA then ps_n p = ps_v p
     else if k = 0xB then ps_n p \<noteq> ps_v p
     else if k = 0xC then \<not> ps_z p \<and> ps_n p = ps_v p
     else if k = 0xD then ps_z p \<or> ps_n p \<noteq> ps_v p
     else if k = 0xE then True
     else False)"

definition flags_after_add :: "u64 \<Rightarrow> u64 \<Rightarrow> u64 \<Rightarrow> bool \<Rightarrow> pstate \<Rightarrow> pstate" where
  "flags_after_add lhs rhs result is_32bit p =
    (let sign_bit = if is_32bit then 31 else 63;
         m = if is_32bit then 0xFFFFFFFF else NOT 0;
         l = lhs AND m;
         r = rhs AND m;
         res = result AND m;
         lhs_sign = drop_bit sign_bit l AND 1 \<noteq> 0;
         rhs_sign = drop_bit sign_bit r AND 1 \<noteq> 0;
         res_sign = drop_bit sign_bit res AND 1 \<noteq> 0
     in p\<lparr>ps_n := res_sign, ps_z := (res = 0),
          ps_c := (if is_32bit then (ucast res :: u32) < ucast l else res < l),
          ps_v := (lhs_sign = rhs_sign \<and> lhs_sign \<noteq> res_sign)\<rparr>)"

definition flags_after_sub :: "u64 \<Rightarrow> u64 \<Rightarrow> u64 \<Rightarrow> bool \<Rightarrow> pstate \<Rightarrow> pstate" where
  "flags_after_sub lhs rhs result is_32bit p =
    (let sign_bit = if is_32bit then 31 else 63;
         m = if is_32bit then 0xFFFFFFFF else NOT 0;
         l = lhs AND m;
         r = rhs AND m;
         res = result AND m;
         lhs_sign = drop_bit sign_bit l AND 1 \<noteq> 0;
         rhs_sign = drop_bit sign_bit r AND 1 \<noteq> 0;
         res_sign = drop_bit sign_bit res AND 1 \<noteq> 0
     in p\<lparr>ps_n := res_sign, ps_z := (res = 0),
          ps_c := (if is_32bit then (ucast l :: u32) \<ge> ucast r else l \<ge> r),
          ps_v := (lhs_sign \<noteq> rhs_sign \<and> lhs_sign \<noteq> res_sign)\<rparr>)"

definition flags_after_logic :: "u64 \<Rightarrow> bool \<Rightarrow> pstate \<Rightarrow> pstate" where
  "flags_after_logic result is_32bit p =
    (let masked = if is_32bit then result AND 0xFFFFFFFF else result
     in p\<lparr>ps_n := (if is_32bit then drop_bit 31 masked AND 1 \<noteq> 0 else drop_bit 63 masked AND 1 \<noteq> 0),
          ps_z := (masked = 0), ps_c := False, ps_v := False\<rparr>)"

definition set_flags_add :: "u64 \<Rightarrow> u64 \<Rightarrow> u64 \<Rightarrow> bool \<Rightarrow> 'd cpu \<Rightarrow> 'd cpu" where
  "set_flags_add lhs rhs result is_32bit = on_sysregs (pstate_set (flags_after_add lhs rhs result is_32bit))"

definition set_flags_sub :: "u64 \<Rightarrow> u64 \<Rightarrow> u64 \<Rightarrow> bool \<Rightarrow> 'd cpu \<Rightarrow> 'd cpu" where
  "set_flags_sub lhs rhs result is_32bit = on_sysregs (pstate_set (flags_after_sub lhs rhs result is_32bit))"

definition set_flags_logic :: "u64 \<Rightarrow> bool \<Rightarrow> 'd cpu \<Rightarrow> 'd cpu" where
  "set_flags_logic result is_32bit = on_sysregs (pstate_set (flags_after_logic result is_32bit))"

end
