(* ===== verification/Cpu_Exceptions.thy ===== *)
theory Cpu_Exceptions
  imports Cpu_State
begin

text \<open>
  The parts of \<open>src/src/cpu.cpp\<close> that enter exceptions: the syndrome of a fault, the entry itself,
  alignment faults, breakpoints, watchpoints and single steps, with the decode cache they share a
  CPU with, the local monitor and the debug channel. A boolean result is paired with the state after.
\<close>

section \<open>Decode cache\<close>

text \<open>The epoch is never zero, the epoch a page starts with.\<close>
definition invalidate_decode_all :: "decode_cache \<Rightarrow> decode_cache" where
  "invalidate_decode_all d =
    (let epoch = dc_context_epoch d + 1
     in \<lparr>dc_context_epoch = (if epoch = 0 then 1 else epoch),
         dc_pages = map (\<lambda>pg. pg\<lparr>dp_valid := False\<rparr>) (dc_pages d),
         dc_last_page = None\<rparr>)"

definition decode_page_index :: "u64 \<Rightarrow> nat" where
  "decode_page_index va_page = unat (drop_bit 12 va_page AND 63)"

definition drop_decode_page :: "nat \<Rightarrow> decode_cache \<Rightarrow> decode_cache" where
  "drop_decode_page i d =
    d\<lparr>dc_pages := (dc_pages d)[i := (dc_pages d ! i)\<lparr>dp_valid := False\<rparr>],
      dc_last_page := (if dc_last_page d = Some i then None else dc_last_page d)\<rparr>"

definition invalidate_decode_va_page :: "u64 \<Rightarrow> decode_cache \<Rightarrow> decode_cache" where
  "invalidate_decode_va_page va_page d =
    (let i = decode_page_index va_page; page = dc_pages d ! i in
     if dp_valid page \<and> dp_va_page page = va_page then drop_decode_page i d else d)"

definition invalidate_decode_pa_page :: "u64 \<Rightarrow> decode_cache \<Rightarrow> decode_cache" where
  "invalidate_decode_pa_page pa_page d =
    fold (\<lambda>i d. if dp_valid (dc_pages d ! i) \<and> dp_pa_page (dc_pages d ! i) = pa_page
                then drop_decode_page i d else d) [0..<length (dc_pages d)] d"

text \<open>The pages the loops step through, from the one of the first byte to the one of the last.\<close>
definition pages_of :: "u64 \<Rightarrow> usize \<Rightarrow> u64 list" where
  "pages_of addr sz =
    (let first_page = addr AND NOT 0xFFF; last_page = (addr + sz - 1) AND NOT 0xFFF
     in map (\<lambda>k. first_page + of_nat k * 0x1000) [0..<Suc (unat (drop_bit 12 (last_page - first_page)))])"

definition invalidate_decode_va :: "u64 \<Rightarrow> usize \<Rightarrow> decode_cache \<Rightarrow> decode_cache" where
  "invalidate_decode_va va sz = fold invalidate_decode_va_page (pages_of va sz)"

definition invalidate_decode_pa :: "u64 \<Rightarrow> usize \<Rightarrow> decode_cache \<Rightarrow> decode_cache" where
  "invalidate_decode_pa pa sz = fold invalidate_decode_pa_page (pages_of pa sz)"

definition on_decode :: "(decode_cache \<Rightarrow> decode_cache) \<Rightarrow> 'd cpu \<Rightarrow> 'd cpu" where
  "on_decode f c = c\<lparr>c_decode := f (c_decode c)\<rparr>"

definition set_predecode_enabled :: "bool \<Rightarrow> 'd cpu \<Rightarrow> 'd cpu" where
  "set_predecode_enabled enabled c =
    (if c_predecode_enabled c = enabled then c
     else on_decode invalidate_decode_all (c\<lparr>c_predecode_enabled := enabled\<rparr>))"

section \<open>Addresses\<close>

definition effective_tbi :: "u64 \<Rightarrow> 'd cpu \<Rightarrow> bool" where
  "effective_tbi va c =
    (let tcr = r_tcr_el1 (c_sysregs c);
         tbi_bit = if drop_bit 55 va AND 0x1 \<noteq> 0 then 38 else 37
     in drop_bit tbi_bit tcr AND 0x1 \<noteq> 0)"

definition normalize_stage1_address :: "u64 \<Rightarrow> 'd cpu \<Rightarrow> u64" where
  "normalize_stage1_address va c =
    (if \<not> effective_tbi va c then va
     else
       let top = push_bit 56 0xFF;
           masked = va AND NOT top
       in if drop_bit 55 va AND 0x1 \<noteq> 0 then masked OR top else masked)"

definition on_code_write :: "u64 \<Rightarrow> u64 \<Rightarrow> usize \<Rightarrow> 'd cpu \<Rightarrow> 'd cpu" where
  "on_code_write va pa sz c =
    (if \<not> c_predecode_enabled c then c
     else on_decode (invalidate_decode_pa pa sz \<circ> invalidate_decode_va (normalize_stage1_address va c) sz) c)"

section \<open>Access types and fault codes\<close>

definition access_is_write :: "access_type \<Rightarrow> bool" where
  "access_is_write a \<longleftrightarrow> a = Write \<or> a = Unprivileged_Write"

definition access_is_unprivileged :: "access_type \<Rightarrow> bool" where
  "access_is_unprivileged a \<longleftrightarrow> a = Unprivileged_Read \<or> a = Unprivileged_Write"

definition fault_status_code :: "fault \<Rightarrow> u32" where
  "fault_status_code f =
    (let level = of_nat (f_level f) AND 0x3;
         fsc = (case f_kind f of
                  Address_Size \<Rightarrow> level
                | Translation \<Rightarrow> 0x4 + level
                | Access_Flag \<Rightarrow> 0x8 + level
                | Permission \<Rightarrow> 0xC + level
                | External_Abort_On_Walk \<Rightarrow> 0x14 + level)
     in fsc OR (if f_write f then push_bit 6 1 else 0))"

definition data_abort_iss :: "fault \<Rightarrow> bool \<Rightarrow> u32" where
  "data_abort_iss f cache_maintenance_or_translation =
    (let iss = fault_status_code f in
     if cache_maintenance_or_translation then iss OR push_bit 8 1 OR push_bit 6 1 else iss)"

definition sync_external_abort_fsc :: u32 where "sync_external_abort_fsc = 0x10"

definition external_abort_iss :: "bool \<Rightarrow> bool \<Rightarrow> u32" where
  "external_abort_iss wr cache_maintenance_or_translation =
    (let iss = sync_external_abort_fsc OR (if wr then push_bit 6 1 else 0) in
     if cache_maintenance_or_translation then iss OR push_bit 8 1 OR push_bit 6 1 else iss)"

definition no_last_fault :: last_fault where
  "no_last_fault = \<lparr>last_translation_fault = None, last_data_abort_iss_override = None, last_data_fault_va = None\<rparr>"

definition on_last :: "(last_fault \<Rightarrow> last_fault) \<Rightarrow> 'd cpu \<Rightarrow> 'd cpu" where
  "on_last f c = c\<lparr>c_last := f (c_last c)\<rparr>"

definition note_external_data_abort :: "bool \<Rightarrow> bool \<Rightarrow> u64 \<Rightarrow> 'd cpu \<Rightarrow> 'd cpu" where
  "note_external_data_abort wr cache_maintenance_or_translation fault_va c =
    c\<lparr>c_last := \<lparr>last_translation_fault = None,
                  last_data_abort_iss_override = Some (external_abort_iss wr cache_maintenance_or_translation),
                  last_data_fault_va = Some fault_va\<rparr>\<rparr>"

definition set_par_el1_for_fault :: "fault \<Rightarrow> 'd cpu \<Rightarrow> 'd cpu" where
  "set_par_el1_for_fault f =
    on_sysregs (set_par_el1 (1 OR push_bit 1 (ucast (fault_status_code f AND 0x3F)) OR push_bit 11 1))"

section \<open>Exception entry\<close>

definition captured_pstate_for_sync_exception :: "u32 \<Rightarrow> 'd cpu \<Rightarrow> u64" where
  "captured_pstate_for_sync_exception ec c =
    (let saved = pstate_bits (c_sysregs c) in
     if \<not> c_stepped_instruction_in_flight c then saved
     else if ec = 0x15 then saved AND NOT (push_bit 21 1)
     else saved OR push_bit 21 1)"

definition push_exception :: "exception_frame \<Rightarrow> 'd cpu \<Rightarrow> 'd cpu" where
  "push_exception fr c =
    c\<lparr>c_exception_stack := (c_exception_stack c)[c_exception_depth c := fr],
      c_exception_depth := c_exception_depth c + 1\<rparr>"

definition enter_sync_exception :: "u64 \<Rightarrow> u32 \<Rightarrow> u32 \<Rightarrow> bool \<Rightarrow> u64 \<Rightarrow> 'd cpu \<Rightarrow> 'd cpu" where
  "enter_sync_exception fault_pc ec iss far_valid far c =
    (let c = c\<lparr>c_exception_taken_this_step := True\<rparr>;
         return_pc = if ec = 0x15 then fault_pc + 4 else fault_pc
     in if c_exception_depth c \<ge> kExceptionStackCapacity then c\<lparr>c_halted := True\<rparr>
        else
          let from_lower_el = in_el0 (c_sysregs c);
              from_spx = use_sp_elx (c_sysregs c);
              saved_pstate = captured_pstate_for_sync_exception ec c;
              c = (if c_stepped_instruction_in_flight c \<or> software_step_active_not_pending (c_sysregs c)
                   then on_sysregs (set_software_step_state False) c else c);
              c = c\<lparr>c_stepped_instruction_in_flight := False\<rparr>;
              c = save_current_sp_to_bank c;
              c = push_exception \<lparr>ef_is_irq = False, ef_intid = 0,
                    ef_prev_prio = icc_running_priority (c_icc c), ef_prio_dropped = True\<rparr> c;
              c = on_sysregs (exception_enter_sync return_pc saved_pstate ec iss far_valid far) c;
              c = load_current_sp_from_bank c
          in c\<lparr>c_pc := normalize_stage1_address
                 (r_vbar_el1 (c_sysregs c) + (if from_lower_el then 0x400 else if from_spx then 0x200 else 0x0)) c\<rparr>)"

definition data_abort :: "u64 \<Rightarrow> bool \<Rightarrow> 'd cpu \<Rightarrow> 'd cpu" where
  "data_abort va cache_maintenance_or_translation c =
    (if c_exception_taken_this_step c then c
     else
       let iss = (case last_data_abort_iss_override (c_last c) of
                    Some iss \<Rightarrow> iss
                  | None \<Rightarrow> (case last_translation_fault (c_last c) of
                              Some f \<Rightarrow> data_abort_iss f cache_maintenance_or_translation | None \<Rightarrow> 0));
           far = (case last_data_fault_va (c_last c) of Some far \<Rightarrow> far | None \<Rightarrow> va);
           c = enter_sync_exception (c_pc c - 4) (if in_el0 (c_sysregs c) then 0x24 else 0x25) iss True far c
       in on_last (\<lambda>l. l\<lparr>last_data_abort_iss_override := None, last_data_fault_va := None\<rparr>) c)"

definition trap_fp_asimd_access :: "'d cpu \<Rightarrow> 'd cpu" where
  "trap_fp_asimd_access c = enter_sync_exception (c_pc c - 4) 0x07 0 False 0 c"

section \<open>Stack pointer alignment\<close>

definition alignment_check_enabled :: "'d cpu \<Rightarrow> bool" where
  "alignment_check_enabled c \<longleftrightarrow> r_sctlr_el1 (c_sysregs c) AND push_bit 1 1 \<noteq> 0"

definition sp_alignment_check_enabled :: "'d cpu \<Rightarrow> bool" where
  "sp_alignment_check_enabled c \<longleftrightarrow>
    (if in_el0 (c_sysregs c) then r_sctlr_el1 (c_sysregs c) AND push_bit 4 1 \<noteq> 0
     else r_sctlr_el1 (c_sysregs c) AND push_bit 3 1 \<noteq> 0)"

definition maybe_take_sp_alignment_fault :: "nat \<Rightarrow> 'd cpu \<Rightarrow> bool \<times> 'd cpu" where
  "maybe_take_sp_alignment_fault base_reg c =
    (if base_reg \<noteq> 31 \<or> \<not> sp_alignment_check_enabled c \<or> c_regs c ! 31 AND 0xF = 0 then (False, c)
     else
       let c = c\<lparr>c_last := no_last_fault\<rparr>
       in (True, enter_sync_exception (c_pc c - 4) 0x26 0 False 0 c))"

section \<open>Debug exceptions\<close>

definition kDebugExceptionIfsc :: u32 where "kDebugExceptionIfsc = 0x22"
definition kDebugCtrlEnable :: u64 where "kDebugCtrlEnable = 1"
definition kDebugCtrlPrivilegeMask :: u64 where "kDebugCtrlPrivilegeMask = push_bit 1 0x3"
definition kDebugCtrlTypeMask :: u64 where "kDebugCtrlTypeMask = push_bit 3 0x3"
definition kDebugCtrlBreakpointBasMask :: u64 where "kDebugCtrlBreakpointBasMask = push_bit 5 0xF"
definition kDebugCtrlWatchpointBasMask :: u64 where "kDebugCtrlWatchpointBasMask = push_bit 5 0xFF"
definition kDebugCtrlPrivilegeEl1 :: u32 where "kDebugCtrlPrivilegeEl1 = 0x1"
definition kDebugCtrlPrivilegeEl0 :: u32 where "kDebugCtrlPrivilegeEl0 = 0x2"
definition kDebugCtrlTypeExecute :: u64 where "kDebugCtrlTypeExecute = 0x0"
definition kDebugCtrlTypeLoad :: u32 where "kDebugCtrlTypeLoad = 0x1"
definition kDebugCtrlTypeStore :: u32 where "kDebugCtrlTypeStore = 0x2"

definition debug_privilege_matches :: "u64 \<Rightarrow> 'd cpu \<Rightarrow> bool" where
  "debug_privilege_matches ctrl c =
    (let privilege = ucast (drop_bit 1 (ctrl AND kDebugCtrlPrivilegeMask)) :: u32 in
     if in_el0 (c_sysregs c) then privilege AND kDebugCtrlPrivilegeEl0 \<noteq> 0
     else if current_el (c_sysregs c) = 1 then privilege AND kDebugCtrlPrivilegeEl1 \<noteq> 0
     else False)"

definition breakpoint_hits :: "u64 \<Rightarrow> 'd cpu \<Rightarrow> nat \<Rightarrow> bool" where
  "breakpoint_hits fault_pc c i =
    (let ctrl = dbgbcr_el1 i (c_sysregs c) in
     \<not> (ctrl AND kDebugCtrlEnable = 0) \<and>
     \<not> (drop_bit 3 (ctrl AND kDebugCtrlTypeMask) \<noteq> kDebugCtrlTypeExecute) \<and>
     \<not> (ctrl AND kDebugCtrlBreakpointBasMask = 0 \<or> \<not> debug_privilege_matches ctrl c) \<and>
     \<not> (fault_pc AND NOT 0x3 \<noteq> r_dbgbvr_el1 (c_sysregs c) ! i AND NOT 0x3))"

definition maybe_take_breakpoint_exception :: "u64 \<Rightarrow> 'd cpu \<Rightarrow> bool \<times> 'd cpu" where
  "maybe_take_breakpoint_exception fault_pc c =
    (if \<not> breakpoint_watchpoint_enabled_current (c_sysregs c) then (False, c)
     else if \<exists>i \<in> set [0..<unat (breakpoint_resource_count (c_sysregs c))]. breakpoint_hits fault_pc c i then
       (True, enter_sync_exception fault_pc (if in_el0 (c_sysregs c) then 0x30 else 0x31) kDebugExceptionIfsc False 0 c)
     else (False, c))"

text \<open>The first byte of the access that a watchpoint selects.\<close>
definition watchpoint_byte :: "u64 \<Rightarrow> usize \<Rightarrow> bool \<Rightarrow> 'd cpu \<Rightarrow> nat \<Rightarrow> u64 option" where
  "watchpoint_byte va sz wr c i =
    (let ctrl = r_dbgwcr_el1 (c_sysregs c) ! i;
         type = ucast (drop_bit 3 (ctrl AND kDebugCtrlTypeMask)) :: u32;
         required = if wr then kDebugCtrlTypeStore else kDebugCtrlTypeLoad;
         bas = drop_bit 5 (ctrl AND kDebugCtrlWatchpointBasMask);
         base = r_dbgwvr_el1 (c_sysregs c) ! i AND NOT 0x7
     in if ctrl AND kDebugCtrlEnable = 0 \<or> \<not> debug_privilege_matches ctrl c then None
        else if type AND required = 0 then None
        else if bas = 0 then None
        else List.find (\<lambda>byte_va. \<not> (byte_va < base \<or> byte_va \<ge> base + 8) \<and>
                          drop_bit (unat (byte_va - base)) bas AND 1 \<noteq> 0)
               (map (\<lambda>k. va + of_nat k) [0..<unat sz]))"

definition maybe_take_watchpoint_exception :: "u64 \<Rightarrow> usize \<Rightarrow> access_type \<Rightarrow> bool \<Rightarrow> 'd cpu \<Rightarrow> bool \<times> 'd cpu" where
  "maybe_take_watchpoint_exception va sz access cache_maintenance c =
    (if access = Fetch \<or> sz = 0 \<or> \<not> breakpoint_watchpoint_enabled_current (c_sysregs c) then (False, c)
     else
       let wr = access_is_write access in
       case map_option the (List.find (\<lambda>b. b \<noteq> None)
              (map (watchpoint_byte va sz wr c) [0..<unat (watchpoint_resource_count (c_sysregs c))])) of
         None \<Rightarrow> (False, c)
       | Some byte_va \<Rightarrow>
           (True, enter_sync_exception (c_pc c - 4) (if in_el0 (c_sysregs c) then 0x34 else 0x35)
              (kDebugExceptionIfsc OR (if wr then push_bit 6 1 else 0) OR (if cache_maintenance then push_bit 8 1 else 0))
              True byte_va c))"

definition maybe_take_software_step_before_instruction :: "'d cpu \<Rightarrow> bool \<times> 'd cpu" where
  "maybe_take_software_step_before_instruction c =
    (if \<not> software_step_active_pending (c_sysregs c) then (False, c)
     else (True, enter_sync_exception (c_pc c) (if in_el0 (c_sysregs c) then 0x32 else 0x33) kDebugExceptionIfsc False 0 c))"

definition is_load_exclusive_instruction :: "u32 \<Rightarrow> bool" where
  "is_load_exclusive_instruction insn =
    (let tag = insn AND 0xFFE0FC00; pair_tag = insn AND 0xFFE08000 in
     tag = 0x08407C00 \<or> tag = 0x0840FC00 \<or> tag = 0x48407C00 \<or> tag = 0x4840FC00 \<or>
     tag = 0x88407C00 \<or> tag = 0x8840FC00 \<or> tag = 0xC8407C00 \<or> tag = 0xC840FC00 \<or>
     tag = 0x08C0FC00 \<or> tag = 0x48C0FC00 \<or> tag = 0x88C0FC00 \<or> tag = 0xC8C0FC00 \<or>
     pair_tag = 0x88600000 \<or> pair_tag = 0x88608000 \<or> pair_tag = 0xC8600000 \<or> pair_tag = 0xC8608000)"

definition complete_software_step_after_instruction :: "u64 \<Rightarrow> u32 \<Rightarrow> 'd cpu \<Rightarrow> 'd cpu" where
  "complete_software_step_after_instruction next_pc insn c =
    (let c = on_sysregs (set_software_step_state False) c in
     if \<not> software_step_active_pending (c_sysregs c) then c
     else
       let iss = (if is_load_exclusive_instruction insn
                  then kDebugExceptionIfsc OR (push_bit 24 1 OR push_bit 6 1)
                  else kDebugExceptionIfsc OR push_bit 24 1)
       in enter_sync_exception next_pc (if in_el0 (c_sysregs c) then 0x32 else 0x33) iss False 0 c)"

section \<open>Local monitor\<close>

definition no_exclusive :: exclusive where
  "no_exclusive = \<lparr>ex_valid = False, ex_addr = 0, ex_size = 0, ex_pa_count = 0, ex_phys_addrs = replicate 16 0\<rparr>"

definition clear_exclusive_monitor :: "'d cpu \<Rightarrow> 'd cpu" where
  "clear_exclusive_monitor c = c\<lparr>c_exclusive := no_exclusive\<rparr>"

definition exclusive_monitor_overlaps :: "u64 \<Rightarrow> usize \<Rightarrow> 'd cpu \<Rightarrow> bool" where
  "exclusive_monitor_overlaps pa sz c =
    (let e = c_exclusive c in
     if \<not> ex_valid e \<or> sz = 0 then False
     else list_ex (\<lambda>a. ranges_overlap a 1 pa sz)
       (take (min (unat (ex_pa_count e)) (length (ex_phys_addrs e))) (ex_phys_addrs e)))"

definition signal_event :: "'d cpu \<Rightarrow> 'd cpu" where
  "signal_event c = c\<lparr>c_event_register := True\<rparr>"

definition notify_external_memory_write :: "u64 \<Rightarrow> usize \<Rightarrow> 'd cpu \<Rightarrow> 'd cpu" where
  "notify_external_memory_write pa sz c =
    (let c = on_decode (invalidate_decode_pa pa sz) c in
     if exclusive_monitor_overlaps pa sz c then clear_exclusive_monitor (c\<lparr>c_event_register := True\<rparr>) else c)"

section \<open>Debug communication channel\<close>

definition on_dcc :: "(dcc \<Rightarrow> dcc) \<Rightarrow> 'd cpu \<Rightarrow> 'd cpu" where
  "on_dcc f c = c\<lparr>c_dcc := f (c_dcc c)\<rparr>"

definition dcc_el0_access_allowed :: "'d cpu \<Rightarrow> bool" where
  "dcc_el0_access_allowed c \<longleftrightarrow> r_mdscr_el1 (c_sysregs c) AND kMdscrEl1Tdcc = 0"

definition read_mdccsr_el0 :: "'d cpu \<Rightarrow> u64" where
  "read_mdccsr_el0 c = (if dcc_rx_full (c_dcc c) then push_bit 30 1 else 0) OR
    (if dcc_tx_full (c_dcc c) then push_bit 29 1 else 0)"

definition read_mdccint_el1 :: "'d cpu \<Rightarrow> u64" where
  "read_mdccint_el1 c = ucast (dcc_int_enable (c_dcc c) AND (push_bit 30 1 OR push_bit 29 1))"

definition read_dbgdtr_el0 :: "'d cpu \<Rightarrow> u64 \<times> 'd cpu" where
  "read_dbgdtr_el0 c =
    (let d = c_dcc c;
         v = if dcc_rx_full d then push_bit 32 (ucast (dcc_tx_data d)) OR ucast (dcc_rx_data d) else 0
     in (v, on_dcc (\<lambda>d. d\<lparr>dcc_rx_full := False\<rparr>) c))"

definition read_dbgdtrrx_el0 :: "'d cpu \<Rightarrow> u32 \<times> 'd cpu" where
  "read_dbgdtrrx_el0 c =
    (if dcc_rx_full (c_dcc c) then dcc_rx_data (c_dcc c) else 0, on_dcc (\<lambda>d. d\<lparr>dcc_rx_full := False\<rparr>) c)"

definition read_osdtrrx_el1 :: "'d cpu \<Rightarrow> u64" where "read_osdtrrx_el1 c = ucast (dcc_rx_data (c_dcc c))"

definition read_osdtrtx_el1 :: "'d cpu \<Rightarrow> u64" where "read_osdtrtx_el1 c = ucast (dcc_tx_data (c_dcc c))"

definition write_mdccint_el1 :: "u64 \<Rightarrow> 'd cpu \<Rightarrow> 'd cpu" where
  "write_mdccint_el1 v = on_dcc (\<lambda>d. d\<lparr>dcc_int_enable := ucast v AND (push_bit 30 1 OR push_bit 29 1)\<rparr>)"

definition write_dbgdtr_el0 :: "u64 \<Rightarrow> 'd cpu \<Rightarrow> 'd cpu" where
  "write_dbgdtr_el0 v = on_dcc (\<lambda>d. d\<lparr>dcc_rx_data := ucast (drop_bit 32 v), dcc_tx_data := ucast v, dcc_tx_full := True\<rparr>)"

definition write_dbgdtrtx_el0 :: "u32 \<Rightarrow> 'd cpu \<Rightarrow> 'd cpu" where
  "write_dbgdtrtx_el0 v = on_dcc (\<lambda>d. d\<lparr>dcc_tx_data := v, dcc_tx_full := True\<rparr>)"

definition write_osdtrrx_el1 :: "u64 \<Rightarrow> 'd cpu \<Rightarrow> 'd cpu" where
  "write_osdtrrx_el1 v = on_dcc (\<lambda>d. d\<lparr>dcc_rx_data := ucast v\<rparr>)"

definition write_osdtrtx_el1 :: "u64 \<Rightarrow> 'd cpu \<Rightarrow> 'd cpu" where
  "write_osdtrtx_el1 v = on_dcc (\<lambda>d. d\<lparr>dcc_tx_data := ucast v\<rparr>)"

end
