(* ===== verification/Cpu_Mmu.thy ===== *)
theory Cpu_Mmu
  imports Cpu_Exceptions
begin

text \<open>
  The address translation of \<open>src/src/cpu.cpp\<close>: the table walk with its faults, the TLB and its two
  last-entry caches, translation, and the loads, stores and monitor operations that go through it.
  A function with a fault output gives \<open>Inl\<close> the fault or \<open>Inr\<close> the result; a boolean result with an
  output is \<open>None\<close> for false. Every function is paired with the state after.
\<close>

section \<open>Bus accesses of the CPU\<close>

definition cpu_bus_read :: "'d device_io \<Rightarrow> u64 \<Rightarrow> usize \<Rightarrow> 'd cpu \<Rightarrow> u64 option \<times> 'd cpu" where
  "cpu_bus_read io pa sz c =
    (case bus_read io pa sz (c_bus c) of
       Undefined \<Rightarrow> (None, c\<lparr>c_undefined := True\<rparr>)
     | Defined (v, b) \<Rightarrow> (v, c\<lparr>c_bus := b\<rparr>))"

definition cpu_bus_write :: "'d device_io \<Rightarrow> u64 \<Rightarrow> u64 \<Rightarrow> usize \<Rightarrow> 'd cpu \<Rightarrow> bool \<times> 'd cpu" where
  "cpu_bus_write io pa v sz c =
    (case bus_write io pa v sz (c_bus c) of
       Undefined \<Rightarrow> (False, c\<lparr>c_undefined := True\<rparr>)
     | Defined (ok, b) \<Rightarrow> (ok, c\<lparr>c_bus := b\<rparr>))"

definition cpu_write_ram_fast :: "u64 \<Rightarrow> u64 \<Rightarrow> usize \<Rightarrow> 'd cpu \<Rightarrow> bool \<times> 'd cpu" where
  "cpu_write_ram_fast pa v sz c =
    (case write_ram_fast pa v sz (c_bus c) of
       Undefined \<Rightarrow> (False, c\<lparr>c_undefined := True\<rparr>)
     | Defined None \<Rightarrow> (False, c)
     | Defined (Some b) \<Rightarrow> (True, c\<lparr>c_bus := b\<rparr>))"

definition cpu_ram_ptr :: "u64 \<Rightarrow> usize \<Rightarrow> 'd cpu \<Rightarrow> (dev \<times> u64) option \<times> 'd cpu" where
  "cpu_ram_ptr pa sz c = (let (p, b) = bus_ram_ptr pa sz (c_bus c) in (p, c\<lparr>c_bus := b\<rparr>))"

definition on_perf :: "(mmu_counters \<Rightarrow> mmu_counters) \<Rightarrow> 'd cpu \<Rightarrow> 'd cpu" where
  "on_perf f c = c\<lparr>c_perf := f (c_perf c)\<rparr>"

definition on_tlb :: "(tlb \<Rightarrow> tlb) \<Rightarrow> 'd cpu \<Rightarrow> 'd cpu" where
  "on_tlb f c = c\<lparr>c_tlb := f (c_tlb c)\<rparr>"

section \<open>Translation controls\<close>

definition to_cacheability :: "u64 \<Rightarrow> cacheability" where
  "to_cacheability v =
    (if v = 0 then Non_Cacheable else if v = 1 then Write_Back_Read_Write_Allocate
     else if v = 2 then Write_Through_Read_Allocate else Write_Back_Read_Allocate)"

definition to_shareability :: "u64 \<Rightarrow> shareability" where
  "to_shareability v =
    (if v = 0 then Non_Shareable else if v = 1 then Reserved_Shareability
     else if v = 2 then Outer_Shareable else Inner_Shareable)"

definition decode_ips_bits :: "'d cpu \<Rightarrow> nat" where
  "decode_ips_bits c =
    (let ips = drop_bit 32 (r_tcr_el1 (c_sysregs c)) AND 0x7 in
     if ips = 0 then 32 else if ips = 1 then 36 else if ips = 2 then 40 else if ips = 3 then 42
     else if ips = 4 then 44 else if ips = 5 then 48 else if ips = 6 then 52 else 48)"

definition pa_within_ips :: "u64 \<Rightarrow> nat \<Rightarrow> bool" where
  "pa_within_ips pa ips_bits \<longleftrightarrow> (if ips_bits \<ge> 64 then True else drop_bit ips_bits pa = 0)"

definition decode_walk_attributes :: "bool \<Rightarrow> 'd cpu \<Rightarrow> walk_attributes" where
  "decode_walk_attributes va_upper c =
    (let tcr = r_tcr_el1 (c_sysregs c) in
     \<lparr>wa_inner = to_cacheability (drop_bit (if va_upper then 24 else 8) tcr AND 0x3),
      wa_outer = to_cacheability (drop_bit (if va_upper then 26 else 10) tcr AND 0x3),
      wa_shareability = to_shareability (drop_bit (if va_upper then 28 else 12) tcr AND 0x3),
      wa_ips_bits = decode_ips_bits c\<rparr>)"

definition decode_memory_type :: "u8 \<Rightarrow> memory_type" where
  "decode_memory_type mair_attr = (if mair_attr AND 0xF0 = 0 then Device_Memory else Normal_Memory)"

definition dirty_state_hw_update_enabled :: "'d cpu \<Rightarrow> bool" where
  "dirty_state_hw_update_enabled c \<longleftrightarrow> drop_bit 40 (r_tcr_el1 (c_sysregs c)) AND 0x1 \<noteq> 0"

definition mmu_asid_mask :: "'d cpu \<Rightarrow> u16" where
  "mmu_asid_mask c = (if drop_bit 4 (r_id_aa64mmfr0_el1 (c_sysregs c)) AND 0xF = 2 then 0xFFFF else 0x00FF)"

definition ttbr_asid :: "u64 \<Rightarrow> 'd cpu \<Rightarrow> u16" where
  "ttbr_asid ttbr c = ucast (drop_bit 48 ttbr AND ucast (mmu_asid_mask c))"

text \<open>The argument \<open>va_upper\<close> is not used.\<close>
definition current_translation_asid :: "'d cpu \<Rightarrow> u16" where
  "current_translation_asid c =
    (let a1 = drop_bit 22 (r_tcr_el1 (c_sysregs c)) AND 0x1 \<noteq> 0
     in ttbr_asid (if a1 then r_ttbr1_el1 (c_sysregs c) else r_ttbr0_el1 (c_sysregs c)) c)"

definition tlbi_operand_asid :: "u64 \<Rightarrow> 'd cpu \<Rightarrow> u16" where
  "tlbi_operand_asid operand c = ucast (drop_bit 48 operand AND ucast (mmu_asid_mask c))"

definition tlb_page_mask :: u64 where "tlb_page_mask = push_bit 44 1 - 1"

definition tlbi_operand_va_page :: "u64 \<Rightarrow> u64" where
  "tlbi_operand_va_page operand = operand AND tlb_page_mask"

definition tlbi_operand_va_base :: "u64 \<Rightarrow> u64" where
  "tlbi_operand_va_base operand = push_bit 12 (tlbi_operand_va_page operand)"

definition canonicalize_tlbi_operand_va_base :: "u64 \<Rightarrow> u64" where
  "canonicalize_tlbi_operand_va_base operand =
    (let base = tlbi_operand_va_base operand
     in if base AND push_bit 55 1 \<noteq> 0 then base OR push_bit 56 0xFF else base)"

section \<open>Permissions\<close>

text \<open>\<open>None\<close> when the access is permitted, else the fault.\<close>
definition access_permitted :: "page_attributes \<Rightarrow> access_type \<Rightarrow> nat \<Rightarrow> bool \<Rightarrow> 'd cpu \<Rightarrow> fault option" where
  "access_permitted p access level apply_pan c =
    (let permission_fault = (\<lambda>w. Some \<lparr>f_kind = Permission, f_level = level, f_write = w\<rparr>);
         wr = access_is_write access;
         use_el0_permissions = (in_el0 (c_sysregs c) \<or> access_is_unprivileged access)
     in if use_el0_permissions \<and> \<not> pg_user_accessible p then permission_fault wr
        else if apply_pan \<and> \<not> use_el0_permissions \<and> access \<noteq> Fetch \<and> ps_pan (r_pstate (c_sysregs c)) \<and>
                pg_user_accessible p then permission_fault wr
        else if wr \<and> \<not> pg_writable p then permission_fault True
        else if access = Fetch then
          (let wxn = r_sctlr_el1 (c_sysregs c) AND push_bit 19 1 \<noteq> 0;
               execute_blocked =
                 (if use_el0_permissions then pg_uxn p \<or> wxn \<and> pg_user_accessible p \<and> pg_writable p
                  else pg_pxn p \<or> wxn \<and> pg_writable p)
           in if execute_blocked then permission_fault False else None)
        else None)"

section \<open>Table walk\<close>

record table_attrs =
  ta_write_protect :: bool
  ta_user_no_access :: bool
  ta_pxn :: bool
  ta_uxn :: bool

record walk_args =
  wk_va :: u64
  wk_access :: access_type
  wk_check_permissions :: bool
  wk_apply_pan :: bool
  wk_check_access_flag :: bool
  wk_attrs :: walk_attributes

definition table_address_mask :: u64 where "table_address_mask = 0x0000FFFFFFFFF000"

definition walk_fault :: "walk_args \<Rightarrow> fault_kind \<Rightarrow> nat \<Rightarrow> fault" where
  "walk_fault a kind level = \<lparr>f_kind = kind, f_level = level, f_write = access_is_write (wk_access a)\<rparr>"

definition walk_index :: "u64 \<Rightarrow> nat \<Rightarrow> u64" where
  "walk_index va level = drop_bit (39 - 9 * level) va AND 0x1FF"

definition leaf_attributes :: "walk_args \<Rightarrow> nat \<Rightarrow> u64 \<Rightarrow> table_attrs \<Rightarrow> 'd cpu \<Rightarrow> page_attributes" where
  "leaf_attributes a level desc inherited c =
    (let ap = drop_bit 6 desc AND 0x3;
         leaf_ro = ap AND 0x2 \<noteq> 0;
         dbm = drop_bit 51 desc AND 0x1 \<noteq> 0;
         attr_index = ucast (drop_bit 2 desc AND 0x7) :: u8;
         mair_attr = ucast (drop_bit (unat attr_index * 8) (r_mair_el1 (c_sysregs c)) AND 0xFF) :: u8;
         dbm_writeable = (leaf_ro \<and> dbm \<and> dirty_state_hw_update_enabled c);
         pxn = (drop_bit 53 desc AND 0x1 \<noteq> 0 \<or> ta_pxn inherited)
     in \<lparr>pg_asid = current_translation_asid c,
         pg_level = level,
         pg_attr_index = attr_index,
         pg_mair_attr = mair_attr,
         pg_global = (drop_bit 11 desc AND 0x1 = 0),
         pg_writable = (\<not> (ta_write_protect inherited \<or> leaf_ro \<and> \<not> dbm_writeable)),
         pg_user_accessible = (\<not> ta_user_no_access inherited \<and> ap AND 0x1 \<noteq> 0),
         pg_executable = (\<not> pxn),
         pg_pxn = pxn,
         pg_uxn = (drop_bit 54 desc AND 0x1 \<noteq> 0 \<or> ta_uxn inherited),
         pg_memory_type = decode_memory_type mair_attr,
         pg_leaf_shareability = to_shareability (drop_bit 8 desc AND 0x3),
         pg_walk_attrs = wk_attrs a\<rparr>)"

text \<open>A page at level 3 and a block above it: the mask of a level 3 entry is the one of a page.\<close>
definition walk_leaf :: "walk_args \<Rightarrow> nat \<Rightarrow> u64 \<Rightarrow> table_attrs \<Rightarrow> 'd cpu \<Rightarrow> fault + translation_result" where
  "walk_leaf a level desc inherited c =
    (let block_mask = push_bit (12 + 9 * (3 - level)) 1 - 1;
         pa_base = desc AND table_address_mask AND NOT block_mask
     in if \<not> pa_within_ips pa_base (wa_ips_bits (wk_attrs a)) then Inl (walk_fault a Address_Size level)
        else
          let p = leaf_attributes a level desc inherited c in
          if wk_check_access_flag a \<and> drop_bit 10 desc AND 0x1 = 0 then Inl (walk_fault a Access_Flag level)
          else
            case (if wk_check_permissions a then access_permitted p (wk_access a) level (wk_apply_pan a) c else None) of
              Some f \<Rightarrow> Inl f
            | None \<Rightarrow> Inr \<lparr>tr_pa = pa_base OR (wk_va a AND block_mask), tr_page = p\<rparr>)"

definition inherit_table :: "u64 \<Rightarrow> table_attrs \<Rightarrow> table_attrs" where
  "inherit_table desc t =
    \<lparr>ta_write_protect = (ta_write_protect t \<or> drop_bit 62 desc AND 0x1 \<noteq> 0),
     ta_user_no_access = (ta_user_no_access t \<or> drop_bit 61 desc AND 0x1 \<noteq> 0),
     ta_pxn = (ta_pxn t \<or> drop_bit 59 desc AND 0x1 \<noteq> 0),
     ta_uxn = (ta_uxn t \<or> drop_bit 60 desc AND 0x1 \<noteq> 0)\<rparr>"

text \<open>The loop over the levels that remain.\<close>
fun walk_levels ::
  "'d device_io \<Rightarrow> walk_args \<Rightarrow> nat list \<Rightarrow> u64 \<Rightarrow> table_attrs \<Rightarrow> 'd cpu \<Rightarrow> (fault + translation_result) \<times> 'd cpu" where
  "walk_levels io a [] table_base inherited c =
    (Inl \<lparr>f_kind = Translation, f_level = 0, f_write = False\<rparr>, c)"
| "walk_levels io a (level # levels) table_base inherited c =
    (let c = on_perf (\<lambda>p. p\<lparr>mc_page_walk_desc_reads := mc_page_walk_desc_reads p + 1\<rparr>) c in
     case cpu_bus_read io (table_base + walk_index (wk_va a) level * 8) 8 c of
       (None, c) \<Rightarrow> (Inl (walk_fault a External_Abort_On_Walk level), c)
     | (Some desc, c) \<Rightarrow>
         if desc AND 1 = 0 then (Inl (walk_fault a Translation level), c)
         else if level = 3 then
           (if desc AND 2 = 0 then (Inl (walk_fault a Translation level), c)
            else (walk_leaf a level desc inherited c, c))
         else if desc AND 2 \<noteq> 0 then
           (let inherited = inherit_table desc inherited; table_base = desc AND table_address_mask in
            if \<not> pa_within_ips table_base (wa_ips_bits (wk_attrs a)) then (Inl (walk_fault a Address_Size level), c)
            else walk_levels io a levels table_base inherited c)
         else if level = 0 then (Inl (walk_fault a Translation level), c)
         else (walk_leaf a level desc inherited c, c))"

text \<open>The tests before the loop: a fault, or the first level and the first table.\<close>
definition walk_start :: "walk_args \<Rightarrow> 'd cpu \<Rightarrow> fault + (nat \<times> u64)" where
  "walk_start a c =
    (let tcr = r_tcr_el1 (c_sysregs c);
         va_upper = drop_bit 63 (wk_va a) \<noteq> 0;
         txsz = unat (if va_upper then drop_bit 16 tcr AND 0x3F else tcr AND 0x3F);
         va_bits = 64 - txsz;
         tg = (if va_upper then drop_bit 30 tcr AND 0x3 else drop_bit 14 tcr AND 0x3);
         epd = (if va_upper then drop_bit 23 tcr AND 0x1 \<noteq> 0 else drop_bit 7 tcr AND 0x1 \<noteq> 0);
         low_limit = (if va_bits = 64 then NOT 0 else push_bit va_bits 1 - 1);
         table_base = (if va_upper then r_ttbr1_el1 (c_sysregs c) else r_ttbr0_el1 (c_sysregs c)) AND table_address_mask;
         levels = (if va_bits \<le> 12 then 1 else (va_bits - 12 + 8) div 9)
     in if txsz > 39 then Inl (walk_fault a Address_Size 0)
        else if va_bits < 12 \<or> va_bits > 48 then Inl (walk_fault a Address_Size 0)
        else if \<not> va_upper \<and> tg \<noteq> 0 \<or> va_upper \<and> tg \<noteq> 2 then Inl (walk_fault a Translation 0)
        else if epd then Inl (walk_fault a Translation 0)
        else if \<not> va_upper \<and> wk_va a > low_limit then Inl (walk_fault a Address_Size 0)
        else if va_upper \<and> va_bits < 64 \<and> wk_va a AND NOT low_limit \<noteq> NOT low_limit
          then Inl (walk_fault a Address_Size 0)
        else if \<not> pa_within_ips table_base (wa_ips_bits (wk_attrs a)) then Inl (walk_fault a Address_Size 0)
        else if 4 - levels > 3 then Inl (walk_fault a Translation 0)
        else Inr (4 - levels, table_base))"

definition no_table_attrs :: table_attrs where
  "no_table_attrs = \<lparr>ta_write_protect = False, ta_user_no_access = False, ta_pxn = False, ta_uxn = False\<rparr>"

definition walk_page_tables ::
  "'d device_io \<Rightarrow> u64 \<Rightarrow> access_type \<Rightarrow> bool \<Rightarrow> bool \<Rightarrow> bool \<Rightarrow> 'd cpu \<Rightarrow> (fault + translation_result) \<times> 'd cpu" where
  "walk_page_tables io va access check_permissions apply_pan check_access_flag c =
    (let c = on_perf (\<lambda>p. p\<lparr>mc_page_walks := mc_page_walks p + 1\<rparr>) c;
         effective_va = normalize_stage1_address va c;
         va_upper = drop_bit 63 effective_va \<noteq> 0;
         a = \<lparr>wk_va = effective_va, wk_access = access, wk_check_permissions = check_permissions,
              wk_apply_pan = apply_pan, wk_check_access_flag = check_access_flag,
              wk_attrs = decode_walk_attributes va_upper c\<rparr>
     in case walk_start a c of
          Inl f \<Rightarrow> (Inl f, c)
        | Inr (start_level, table_base) \<Rightarrow>
            walk_levels io a [start_level..<4] table_base no_table_attrs c)"

section \<open>TLB\<close>

definition tlb_set_index :: "u64 \<Rightarrow> nat" where
  "tlb_set_index va_page = unat (va_page AND (of_nat kTlbSets - 1))"

definition tlb_entry_matches_asid :: "tlb_entry \<Rightarrow> u16 \<Rightarrow> bool" where
  "tlb_entry_matches_asid e asid \<longleftrightarrow> pg_global (te_page e) \<or> pg_asid (te_page e) = asid"

definition tlb_level_page_span :: "nat \<Rightarrow> u64" where
  "tlb_level_page_span level = (if level \<ge> 3 then 1 else push_bit (9 * (3 - level)) 1)"

definition tlb_level_page_base :: "u64 \<Rightarrow> nat \<Rightarrow> u64" where
  "tlb_level_page_base va_page level = va_page AND NOT (tlb_level_page_span level - 1)"

definition tlb_entry_covers_va_page :: "tlb_entry \<Rightarrow> u64 \<Rightarrow> bool" where
  "tlb_entry_covers_va_page e va_page \<longleftrightarrow>
    tlb_level_page_base (te_va_page e) (pg_level (te_page e)) = tlb_level_page_base va_page (pg_level (te_page e))"

text \<open>The first entry of the address space, else the first global one.\<close>
definition tlb_lookup :: "u64 \<Rightarrow> u16 \<Rightarrow> tlb \<Rightarrow> tlb_entry option" where
  "tlb_lookup va_page asid t =
    (let set = tlb_sets t ! tlb_set_index va_page;
         here = (\<lambda>e. te_valid e \<and> te_va_page e = va_page)
     in case List.find (\<lambda>e. here e \<and> \<not> pg_global (te_page e) \<and> pg_asid (te_page e) = asid) set of
          Some e \<Rightarrow> Some e
        | None \<Rightarrow> List.find (\<lambda>e. here e \<and> pg_global (te_page e)) set)"

definition first_slot :: "('a \<Rightarrow> bool) \<Rightarrow> 'a list \<Rightarrow> nat option" where
  "first_slot P xs = List.find (\<lambda>i. P (xs ! i)) [0..<length xs]"

definition tlb_put :: "nat \<Rightarrow> nat \<Rightarrow> tlb_entry \<Rightarrow> tlb \<Rightarrow> tlb" where
  "tlb_put s way e t = t\<lparr>tlb_sets := (tlb_sets t)[s := (tlb_sets t ! s)[way := e]]\<rparr>"

definition tlb_insert_entry :: "u64 \<Rightarrow> tlb_entry \<Rightarrow> tlb \<Rightarrow> tlb" where
  "tlb_insert_entry va_page e t =
    (let t = (if te_valid e then t\<lparr>tlb_last_data := e, tlb_last_fetch := (tlb_last_fetch t)\<lparr>te_valid := False\<rparr>\<rparr> else t);
         s = tlb_set_index va_page;
         updated = e\<lparr>te_valid := True, te_va_page := va_page\<rparr>;
         same = (\<lambda>slot. te_valid slot \<and> te_va_page slot = va_page \<and>
           pg_global (te_page slot) = pg_global (te_page e) \<and>
           (pg_global (te_page slot) \<or> pg_asid (te_page slot) = pg_asid (te_page e)))
     in case first_slot same (tlb_sets t ! s) of
          Some way \<Rightarrow> tlb_put s way updated t
        | None \<Rightarrow>
            (case first_slot (\<lambda>slot. \<not> te_valid slot) (tlb_sets t ! s) of
               Some way \<Rightarrow> tlb_put s way updated t
             | None \<Rightarrow>
                 let next = unat (tlb_next_replace t ! s); t = tlb_put s (next mod kTlbWays) updated t
                 in t\<lparr>tlb_next_replace := (tlb_next_replace t)[s := of_nat ((next + 1) mod kTlbWays)]\<rparr>))"

definition tlb_insert :: "u64 \<Rightarrow> translation_result \<Rightarrow> 'd cpu \<Rightarrow> 'd cpu" where
  "tlb_insert va_page r c =
    (let c = on_perf (\<lambda>p. p\<lparr>mc_tlb_inserts := mc_tlb_inserts p + 1\<rparr>) c;
         e = \<lparr>te_valid = True, te_va_page = va_page, te_pa_page = drop_bit 12 (tr_pa r),
              te_page = (tr_page r)\<lparr>pg_asid := pg_asid (tr_page r) AND mmu_asid_mask c\<rparr>\<rparr>
     in on_tlb (tlb_insert_entry va_page e) c)"

definition drop_entry_if :: "(tlb_entry \<Rightarrow> bool) \<Rightarrow> tlb_entry \<Rightarrow> tlb_entry" where
  "drop_entry_if P e = (if te_valid e \<and> P e then e\<lparr>te_valid := False\<rparr> else e)"

definition tlb_drop_if :: "(tlb_entry \<Rightarrow> bool) \<Rightarrow> tlb \<Rightarrow> tlb" where
  "tlb_drop_if P t =
    t\<lparr>tlb_last_fetch := drop_entry_if P (tlb_last_fetch t), tlb_last_data := drop_entry_if P (tlb_last_data t),
      tlb_sets := map (map (drop_entry_if P)) (tlb_sets t)\<rparr>"

definition tlb_flush_all :: "'d cpu \<Rightarrow> 'd cpu" where
  "tlb_flush_all c =
    on_tlb (\<lambda>t. (tlb_drop_if (\<lambda>_. True) t)\<lparr>tlb_next_replace := map (\<lambda>_. 0) (tlb_next_replace t)\<rparr>)
      (on_perf (\<lambda>p. p\<lparr>mc_tlb_flush_all := mc_tlb_flush_all p + 1\<rparr>) c)"

definition tlb_flush_asid :: "u16 \<Rightarrow> 'd cpu \<Rightarrow> 'd cpu" where
  "tlb_flush_asid asid c =
    (let asid = asid AND mmu_asid_mask c
     in on_tlb (tlb_drop_if (\<lambda>e. \<not> pg_global (te_page e) \<and> pg_asid (te_page e) = asid)) c)"

definition tlb_invalidate_page :: "u64 \<Rightarrow> u16 \<Rightarrow> bool \<Rightarrow> 'd cpu \<Rightarrow> 'd cpu" where
  "tlb_invalidate_page va_page asid match_asid c =
    (let asid = asid AND mmu_asid_mask c
     in on_tlb (tlb_drop_if (\<lambda>e. tlb_entry_covers_va_page e va_page \<and>
          (\<not> match_asid \<or> tlb_entry_matches_asid e asid))) c)"

definition tlb_flush_va :: "u64 \<Rightarrow> 'd cpu \<Rightarrow> 'd cpu" where
  "tlb_flush_va operand c =
    (let c = on_perf (\<lambda>p. p\<lparr>mc_tlb_flush_va := mc_tlb_flush_va p + 1\<rparr>) c
     in tlb_invalidate_page (tlbi_operand_va_page operand) (tlbi_operand_asid operand c) True c)"

definition perf_flush_tlb_all :: "'d cpu \<Rightarrow> 'd cpu" where
  "perf_flush_tlb_all c = on_decode invalidate_decode_all (tlb_flush_all c)"

definition notify_tlbi_vmalle1 :: "'d cpu \<Rightarrow> 'd cpu" where
  "notify_tlbi_vmalle1 c = on_decode invalidate_decode_all (tlb_flush_all c)"

definition notify_tlbi_vae1 :: "u64 \<Rightarrow> bool \<Rightarrow> 'd cpu \<Rightarrow> 'd cpu" where
  "notify_tlbi_vae1 operand all_asids c =
    (let c = (if all_asids
              then tlb_invalidate_page (tlbi_operand_va_page operand) 0 False
                     (on_perf (\<lambda>p. p\<lparr>mc_tlb_flush_va := mc_tlb_flush_va p + 1\<rparr>) c)
              else tlb_flush_va operand c)
     in on_decode (invalidate_decode_va_page (canonicalize_tlbi_operand_va_base operand)) c)"

definition notify_tlbi_aside1 :: "u16 \<Rightarrow> 'd cpu \<Rightarrow> 'd cpu" where
  "notify_tlbi_aside1 asid c = on_decode invalidate_decode_all (tlb_flush_asid asid c)"

definition notify_ic_ivau :: "'d cpu \<Rightarrow> 'd cpu" where
  "notify_ic_ivau = on_decode invalidate_decode_all"

end
