(* ===== verification/Cpu_Memory.thy ===== *)
theory Cpu_Memory
  imports Cpu_Mmu
begin

text \<open>
  Translation through the TLB, and the loads, stores, alignment faults and exclusive monitor
  operations of \<open>src/src/cpu.cpp\<close> that use it.
\<close>

section \<open>Translation\<close>

definition begin_translation :: "'d cpu \<Rightarrow> 'd cpu" where
  "begin_translation c =
    (on_perf (\<lambda>p. p\<lparr>mc_translate_calls := mc_translate_calls p + 1\<rparr>) c)\<lparr>c_last := no_last_fault\<rparr>"

definition note_translation_fault :: "fault \<Rightarrow> 'd cpu \<Rightarrow> 'd cpu" where
  "note_translation_fault f = on_last (\<lambda>l. l\<lparr>last_translation_fault := Some f\<rparr>)"

definition stage1_disabled_output_pa :: "u64 \<Rightarrow> u64" where
  "stage1_disabled_output_pa va = va AND 0x00FFFFFFFFFFFFFF"

definition stage1_disabled_output :: "u64 \<Rightarrow> access_type \<Rightarrow> 'd cpu \<Rightarrow> translation_result" where
  "stage1_disabled_output effective_va access c =
    (let va_upper = drop_bit 63 effective_va \<noteq> 0 in
     \<lparr>tr_pa = stage1_disabled_output_pa effective_va,
      tr_page = \<lparr>pg_asid = current_translation_asid c, pg_level = 3, pg_attr_index = 0,
        pg_mair_attr = (if access = Fetch
                        then (if r_sctlr_el1 (c_sysregs c) AND push_bit 12 1 \<noteq> 0 then 0xAA else 0x44) else 0x00),
        pg_global = True, pg_writable = True, pg_user_accessible = True, pg_executable = True,
        pg_pxn = False, pg_uxn = False,
        pg_memory_type = (if access = Fetch then Normal_Memory else Device_Memory),
        pg_leaf_shareability = Outer_Shareable, pg_walk_attrs = decode_walk_attributes va_upper c\<rparr>\<rparr>)"

text \<open>
  The entry the caller uses: the last one it used, else the one of the TLB, which becomes the last
  one. Fetches and data accesses keep a last entry each.
\<close>
definition last_entry :: "bool \<Rightarrow> tlb \<Rightarrow> tlb_entry" where
  "last_entry is_fetch t = (if is_fetch then tlb_last_fetch t else tlb_last_data t)"

definition set_last_entry :: "bool \<Rightarrow> tlb_entry \<Rightarrow> tlb \<Rightarrow> tlb" where
  "set_last_entry is_fetch e t = (if is_fetch then t\<lparr>tlb_last_fetch := e\<rparr> else t\<lparr>tlb_last_data := e\<rparr>)"

definition find_entry :: "bool \<Rightarrow> u64 \<Rightarrow> u16 \<Rightarrow> 'd cpu \<Rightarrow> tlb_entry option \<times> 'd cpu" where
  "find_entry is_fetch page asid c =
    (let hot = last_entry is_fetch (c_tlb c) in
     if te_valid hot \<and> te_va_page hot = page \<and> tlb_entry_matches_asid hot asid then (Some hot, c)
     else
       let c = on_perf (\<lambda>p. p\<lparr>mc_tlb_lookups := mc_tlb_lookups p + 1\<rparr>) c in
       case tlb_lookup page asid (c_tlb c) of
         Some e \<Rightarrow> (Some e, on_tlb (set_last_entry is_fetch e) c)
       | None \<Rightarrow> (None, c))"

definition entry_output :: "tlb_entry \<Rightarrow> u64 \<Rightarrow> translation_result" where
  "entry_output e effective_va =
    \<lparr>tr_pa = push_bit 12 (te_pa_page e) OR (effective_va AND 0xFFF), tr_page = te_page e\<rparr>"

definition translate_address ::
  "'d device_io \<Rightarrow> u64 \<Rightarrow> access_type \<Rightarrow> bool \<Rightarrow> bool \<Rightarrow> bool \<Rightarrow> 'd cpu \<Rightarrow> translation_result option \<times> 'd cpu" where
  "translate_address io va access allow_tlb_fill use_tlb apply_pan c =
    (let c = begin_translation c; effective_va = normalize_stage1_address va c in
     if \<not> mmu_enabled (c_sysregs c) then (Some (stage1_disabled_output effective_va access c), c)
     else
       let asid = current_translation_asid c;
           page = drop_bit 12 effective_va AND tlb_page_mask
       in case (if use_tlb then find_entry (access = Fetch) page asid c else (None, c)) of
            (Some e, c) \<Rightarrow>
              let c = on_perf (\<lambda>p. p\<lparr>mc_tlb_hits := mc_tlb_hits p + 1\<rparr>) c; r = entry_output e effective_va in
              (case access_permitted (tr_page r) access (pg_level (tr_page r)) apply_pan c of
                 Some f \<Rightarrow> (None, note_translation_fault f c)
               | None \<Rightarrow> (Some r, c))
          | (None, c) \<Rightarrow>
              let c = (if use_tlb then on_perf (\<lambda>p. p\<lparr>mc_tlb_misses := mc_tlb_misses p + 1\<rparr>) c else c) in
              (case walk_page_tables io effective_va access True apply_pan True c of
                 (Inl f, c) \<Rightarrow> (None, note_translation_fault f c)
               | (Inr r, c) \<Rightarrow> (Some r, if allow_tlb_fill then tlb_insert page r c else c)))"

definition translate_cache_maintenance_address ::
  "'d device_io \<Rightarrow> u64 \<Rightarrow> bool \<Rightarrow> bool \<Rightarrow> bool \<Rightarrow> 'd cpu \<Rightarrow> translation_result option \<times> 'd cpu" where
  "translate_cache_maintenance_address io va fault_on_el0_no_read_permission allow_tlb_fill use_tlb c =
    (let c = begin_translation c; effective_va = normalize_stage1_address va c in
     if \<not> mmu_enabled (c_sysregs c) then (Some (stage1_disabled_output effective_va Read c), c)
     else
       let asid = current_translation_asid c;
           page = drop_bit 12 effective_va AND tlb_page_mask;
           refused = (\<lambda>p. in_el0 (c_sysregs c) \<and> fault_on_el0_no_read_permission \<and> \<not> pg_user_accessible p);
           denied = (\<lambda>p. \<lparr>f_kind = Permission, f_level = pg_level p, f_write = False\<rparr>)
       in case (if use_tlb then find_entry False page asid c else (None, c)) of
            (Some e, c) \<Rightarrow>
              let c = on_perf (\<lambda>p. p\<lparr>mc_tlb_hits := mc_tlb_hits p + 1\<rparr>) c; r = entry_output e effective_va in
              if refused (tr_page r) then (None, note_translation_fault (denied (tr_page r)) c) else (Some r, c)
          | (None, c) \<Rightarrow>
              let c = (if use_tlb then on_perf (\<lambda>p. p\<lparr>mc_tlb_misses := mc_tlb_misses p + 1\<rparr>) c else c) in
              (case walk_page_tables io effective_va Read False True True c of
                 (Inl f, c) \<Rightarrow> (None, note_translation_fault f c)
               | (Inr r, c) \<Rightarrow>
                   if refused (tr_page r) then (None, note_translation_fault (denied (tr_page r)) c)
                   else (Some r, if allow_tlb_fill then tlb_insert page r c else c)))"

definition translate_data_address_fast :: "'d device_io \<Rightarrow> u64 \<Rightarrow> access_type \<Rightarrow> 'd cpu \<Rightarrow> u64 option \<times> 'd cpu" where
  "translate_data_address_fast io va access c =
    (let c = begin_translation c; effective_va = normalize_stage1_address va c in
     if \<not> mmu_enabled (c_sysregs c) then (Some (stage1_disabled_output_pa effective_va), c)
     else
       let asid = current_translation_asid c;
           page = drop_bit 12 effective_va AND tlb_page_mask
       in case find_entry False page asid c of
            (Some e, c) \<Rightarrow>
              let c = on_perf (\<lambda>p. p\<lparr>mc_tlb_hits := mc_tlb_hits p + 1\<rparr>) c; r = entry_output e effective_va in
              (case access_permitted (tr_page r) access (pg_level (tr_page r)) True c of
                 Some f \<Rightarrow> (None, note_translation_fault f c)
               | None \<Rightarrow> (Some (tr_pa r), c))
          | (None, c) \<Rightarrow>
              let c = on_perf (\<lambda>p. p\<lparr>mc_tlb_misses := mc_tlb_misses p + 1\<rparr>) c in
              (case walk_page_tables io effective_va access True True True c of
                 (Inl f, c) \<Rightarrow> (None, note_translation_fault f c)
               | (Inr r, c) \<Rightarrow> (Some (tr_pa r), tlb_insert page r c)))"

section \<open>Alignment\<close>

definition maybe_take_data_alignment_fault ::
  "'d device_io \<Rightarrow> u64 \<Rightarrow> usize \<Rightarrow> access_type \<Rightarrow> bool \<Rightarrow> 'd cpu \<Rightarrow> bool \<times> 'd cpu" where
  "maybe_take_data_alignment_fault io addr align access force_check c =
    (if align \<le> 1 \<or> addr mod align = 0 then (False, c)
     else
       case (if \<not> force_check \<and> \<not> alignment_check_enabled c then
               (if \<not> mmu_enabled (c_sysregs c) then
                  let effective_va = normalize_stage1_address addr c;
                      (p, c) = cpu_ram_ptr (stage1_disabled_output_pa effective_va) 1 c
                  in (p = None, c)
                else
                  let effective_va = normalize_stage1_address addr c in
                  case walk_page_tables io effective_va access False False True c of
                    (Inl f, c) \<Rightarrow> (False, c)
                  | (Inr r, c) \<Rightarrow> (pg_memory_type (tr_page r) = Device_Memory, c))
             else (True, c)) of
         (False, c) \<Rightarrow> (False, c)
       | (True, c) \<Rightarrow>
           let c = c\<lparr>c_last := no_last_fault\<rparr>;
               iss = 0x21 OR (if access_is_write access then push_bit 6 1 else 0)
           in (True, enter_sync_exception (c_pc c - 4) (if in_el0 (c_sysregs c) then 0x24 else 0x25) iss True addr c))"

section \<open>Loads\<close>

definition forget_data_fault :: "'d cpu \<Rightarrow> 'd cpu" where
  "forget_data_fault = on_last (\<lambda>l. l\<lparr>last_data_abort_iss_override := None, last_data_fault_va := None\<rparr>)"

definition note_fault_va :: "u64 \<Rightarrow> 'd cpu \<Rightarrow> 'd cpu" where
  "note_fault_va va = on_last (\<lambda>l. l\<lparr>last_data_fault_va := Some va\<rparr>)"

definition single_page :: "u64 \<Rightarrow> usize \<Rightarrow> bool" where
  "single_page va sz \<longleftrightarrow> (va AND 0xFFF) + sz \<le> 0x1000"

text \<open>The addresses of the bytes \<open>va + i\<close> in order; a fault notes its own byte.\<close>
fun translate_bytes :: "'d device_io \<Rightarrow> u64 \<Rightarrow> access_type \<Rightarrow> nat list \<Rightarrow> 'd cpu \<Rightarrow> u64 list option \<times> 'd cpu" where
  "translate_bytes io va access [] c = (Some [], c)"
| "translate_bytes io va access (i # js) c =
    (case translate_data_address_fast io (va + of_nat i) access c of
       (None, c) \<Rightarrow> (None, note_fault_va (va + of_nat i) c)
     | (Some pa, c) \<Rightarrow>
         (case translate_bytes io va access js c of
            (None, c) \<Rightarrow> (None, c)
          | (Some pas, c) \<Rightarrow> (Some (pa # pas), c)))"

definition note_abort_if :: "bool \<Rightarrow> access_type \<Rightarrow> u64 \<Rightarrow> 'd cpu \<Rightarrow> 'd cpu" where
  "note_abort_if b access va c = (if b then note_external_data_abort (access_is_write access) False va c else c)"

definition watchpoint_if :: "bool \<Rightarrow> u64 \<Rightarrow> usize \<Rightarrow> access_type \<Rightarrow> 'd cpu \<Rightarrow> bool \<times> 'd cpu" where
  "watchpoint_if b va sz access c = (if b then maybe_take_watchpoint_exception va sz access False c else (False, c))"

definition load_fast_value :: "dev \<Rightarrow> u64 \<Rightarrow> usize \<Rightarrow> 'd cpu \<Rightarrow> u64 option \<times> 'd cpu" where
  "load_fast_value d off sz c =
    (case load_ram (ram_of d (c_bus c)) off sz of
       Undefined \<Rightarrow> (None, c\<lparr>c_undefined := True\<rparr>)
     | Defined v \<Rightarrow> (v, c))"

fun read_bytes :: "'d device_io \<Rightarrow> u64 \<Rightarrow> access_type \<Rightarrow> bool \<Rightarrow> nat \<Rightarrow> u64 list \<Rightarrow> u64 \<Rightarrow> 'd cpu \<Rightarrow> u64 option \<times> 'd cpu" where
  "read_bytes io va access check i [] v c = (Some v, c)"
| "read_bytes io va access check i (pa # pas) v c =
    (case cpu_bus_read io pa 1 c of
       (None, c) \<Rightarrow> (None, note_fault_va (va + of_nat i) (note_abort_if check access (va + of_nat i) c))
     | (Some b, c) \<Rightarrow> read_bytes io va access check (i + 1) pas (v OR push_bit (i * 8) (b AND 0xFF)) c)"

definition mmu_read_value :: "'d device_io \<Rightarrow> u64 \<Rightarrow> usize \<Rightarrow> access_type \<Rightarrow> bool \<Rightarrow> 'd cpu \<Rightarrow> u64 option \<times> 'd cpu" where
  "mmu_read_value io va sz access check_watchpoints c =
    (let c = forget_data_fault c in
     if sz = 0 \<or> sz > 8 then (None, c)
     else if single_page va sz then
       (case translate_data_address_fast io va access c of
          (None, c) \<Rightarrow> (None, note_fault_va va c)
        | (Some pa, c) \<Rightarrow>
            (case watchpoint_if check_watchpoints va sz access c of
               (True, c) \<Rightarrow> (None, c)
             | (False, c) \<Rightarrow>
                 (case (if c_debug_slow c then (None, c) else cpu_ram_ptr pa sz c) of
                    (Some (d, off), c) \<Rightarrow> load_fast_value d off sz c
                  | (None, c) \<Rightarrow>
                      (case cpu_bus_read io pa sz c of
                         (None, c) \<Rightarrow> (None, note_fault_va va (note_abort_if check_watchpoints access va c))
                       | (Some v, c) \<Rightarrow> (Some v, c)))))
     else
       (case translate_bytes io va access [0..<unat sz] c of
          (None, c) \<Rightarrow> (None, c)
        | (Some pas, c) \<Rightarrow>
            (case watchpoint_if check_watchpoints va sz access c of
               (True, c) \<Rightarrow> (None, c)
             | (False, c) \<Rightarrow> read_bytes io va access check_watchpoints 0 pas 0 c)))"

section \<open>Stores\<close>

definition call :: "cpu_call \<Rightarrow> 'd cpu \<Rightarrow> 'd cpu" where
  "call k c = (if c_callbacks c then c\<lparr>c_calls := c_calls c @ [k]\<rparr> else c)"

fun write_bytes :: "'d device_io \<Rightarrow> u64 \<Rightarrow> u64 \<Rightarrow> access_type \<Rightarrow> nat \<Rightarrow> u64 list \<Rightarrow> 'd cpu \<Rightarrow> bool \<times> 'd cpu" where
  "write_bytes io va v access i [] c = (True, c)"
| "write_bytes io va v access i (pa # pas) c =
    (case cpu_bus_write io pa (drop_bit (i * 8) v AND 0xFF) 1 c of
       (False, c) \<Rightarrow>
         (False, note_fault_va (va + of_nat i)
                   (note_external_data_abort (access_is_write access) False (va + of_nat i) c))
     | (True, c) \<Rightarrow>
         write_bytes io va v access (i + 1) pas (call (Memory_Write pa 1) (on_code_write (va + of_nat i) pa 1 c)))"

definition mmu_write_value :: "'d device_io \<Rightarrow> u64 \<Rightarrow> u64 \<Rightarrow> usize \<Rightarrow> access_type \<Rightarrow> bool \<Rightarrow> 'd cpu \<Rightarrow> bool \<times> 'd cpu" where
  "mmu_write_value io va v sz access check_watchpoints c =
    (let c = forget_data_fault c in
     if sz = 0 \<or> sz > 8 then (False, c)
     else if single_page va sz then
       (case translate_data_address_fast io va access c of
          (None, c) \<Rightarrow> (False, note_fault_va va c)
        | (Some pa, c) \<Rightarrow>
            (case watchpoint_if check_watchpoints va sz access c of
               (True, c) \<Rightarrow> (False, c)
             | (False, c) \<Rightarrow>
                 (case (case (if c_debug_slow c then (False, c) else cpu_write_ram_fast pa v sz c) of
                          (True, c) \<Rightarrow> (True, c)
                        | (False, c) \<Rightarrow> cpu_bus_write io pa v sz c) of
                    (False, c) \<Rightarrow>
                      (False, note_fault_va va (note_external_data_abort (access_is_write access) False va c))
                  | (True, c) \<Rightarrow>
                      (True, call (Memory_Write pa sz) (clear_exclusive_monitor (on_code_write va pa sz c))))))
     else
       (case translate_bytes io va access [0..<unat sz] c of
          (None, c) \<Rightarrow> (False, c)
        | (Some pas, c) \<Rightarrow>
            (case watchpoint_if check_watchpoints va sz access c of
               (True, c) \<Rightarrow> (False, c)
             | (False, c) \<Rightarrow>
                 (case write_bytes io va v access 0 pas c of
                    (False, c) \<Rightarrow> (False, c)
                  | (True, c) \<Rightarrow> (True, clear_exclusive_monitor c)))))"

section \<open>Exclusive monitor\<close>

text \<open>The addresses are written into the output as they are found, so a fault leaves some of them.\<close>
fun capture_loop :: "'d device_io \<Rightarrow> u64 \<Rightarrow> access_type \<Rightarrow> nat list \<Rightarrow> u64 list \<Rightarrow> 'd cpu \<Rightarrow> bool \<times> u64 list \<times> 'd cpu" where
  "capture_loop io va access [] pas c = (True, pas, c)"
| "capture_loop io va access (i # js) pas c =
    (case translate_data_address_fast io (va + of_nat i) access c of
       (None, c) \<Rightarrow> (False, pas, note_fault_va (va + of_nat i) c)
     | (Some pa, c) \<Rightarrow> capture_loop io va access js (pas[i := pa]) c)"

definition capture_exclusive_phys_addrs ::
  "'d device_io \<Rightarrow> u64 \<Rightarrow> nat \<Rightarrow> bool \<Rightarrow> u64 list \<Rightarrow> 'd cpu \<Rightarrow> bool \<times> u64 list \<times> 'd cpu" where
  "capture_exclusive_phys_addrs io va sz wr out_pas c =
    (if sz = 0 \<or> sz > length out_pas then (False, out_pas, c)
     else capture_loop io va (if wr then Write else Read) [0..<sz] (map (\<lambda>_. 0) out_pas) c)"

definition set_exclusive_monitor :: "'d device_io \<Rightarrow> u64 \<Rightarrow> nat \<Rightarrow> 'd cpu \<Rightarrow> 'd cpu" where
  "set_exclusive_monitor io va sz c =
    (let c = clear_exclusive_monitor c in
     case capture_exclusive_phys_addrs io va sz False (ex_phys_addrs (c_exclusive c)) c of
       (False, pas, c) \<Rightarrow> c\<lparr>c_exclusive := (c_exclusive c)\<lparr>ex_phys_addrs := pas\<rparr>\<rparr>
     | (True, pas, c) \<Rightarrow>
         c\<lparr>c_exclusive := \<lparr>ex_valid = True, ex_addr = va, ex_size = of_nat sz, ex_pa_count = of_nat sz,
                          ex_phys_addrs = pas\<rparr>\<rparr>)"

text \<open>\<open>None\<close> when the function returns false, else the value of \<open>matched\<close>.\<close>
definition check_exclusive_monitor :: "'d device_io \<Rightarrow> u64 \<Rightarrow> nat \<Rightarrow> 'd cpu \<Rightarrow> bool option \<times> 'd cpu" where
  "check_exclusive_monitor io va sz c =
    (let e = c_exclusive c in
     if \<not> ex_valid e \<or> unat (ex_size e) \<noteq> sz \<or> unat (ex_pa_count e) \<noteq> sz then (Some False, c)
     else
       case capture_exclusive_phys_addrs io va sz True (replicate 16 0) c of
         (False, pas, c) \<Rightarrow> (None, c)
       | (True, pas, c) \<Rightarrow> (Some (take sz pas = take sz (ex_phys_addrs e)), c))"

end
