(* ===== verification/Cpu_Decode.thy ===== *)
theory Cpu_Decode
  imports Cpu_Memory
begin

text \<open>
  The predecoder of \<open>src/src/cpu.cpp\<close>: \<open>decode_insn\<close>, the cache of decoded pages and the execution of
  a decoded instruction. A function that returns false without touching the state gives \<open>None\<close>.
\<close>

section \<open>Decoding\<close>

definition kDecodedFlagSf :: u16 where "kDecodedFlagSf = push_bit 0 1"
definition kDecodedFlagSetFlags :: u16 where "kDecodedFlagSetFlags = push_bit 1 1"
definition kDecodedFlagSub :: u16 where "kDecodedFlagSub = push_bit 2 1"
definition kDecodedFlagNonZero :: u16 where "kDecodedFlagNonZero = push_bit 3 1"
definition kDecodedFlagLink :: u16 where "kDecodedFlagLink = push_bit 4 1"
definition kDecodedFlagLoad :: u16 where "kDecodedFlagLoad = push_bit 5 1"
definition kDecodedFlagSigned :: u16 where "kDecodedFlagSigned = push_bit 6 1"
definition kDecodedFlagResult64 :: u16 where "kDecodedFlagResult64 = push_bit 7 1"
definition kDecodedFlagInvert :: u16 where "kDecodedFlagInvert = push_bit 8 1"

lemmas decoded_flag_defs =
  kDecodedFlagSf_def kDecodedFlagSetFlags_def kDecodedFlagSub_def kDecodedFlagNonZero_def kDecodedFlagLink_def
  kDecodedFlagLoad_def kDecodedFlagSigned_def kDecodedFlagResult64_def kDecodedFlagInvert_def

definition no_decode :: decoded where
  "no_decode = \<lparr>d_kind = Fallback, d_simm = 0, d_imm = 0, d_rd = 31, d_rn = 31, d_rm = 31,
    d_aux = 0, d_aux2 = 0, d_flags = 0\<rparr>"

definition is_ldraa_ldrab_encoding :: "u32 \<Rightarrow> bool" where
  "is_ldraa_ldrab_encoding insn \<longleftrightarrow> insn AND 0xFF200400 = 0xF8200400"

definition flag_if :: "bool \<Rightarrow> u16 \<Rightarrow> u16" where "flag_if b f = (if b then f else 0)"

definition insn_rd :: "u32 \<Rightarrow> u8" where "insn_rd insn = ucast (insn AND 0x1F)"
definition insn_rn :: "u32 \<Rightarrow> u8" where "insn_rn insn = ucast (drop_bit 5 insn AND 0x1F)"
definition insn_rm :: "u32 \<Rightarrow> u8" where "insn_rm insn = ucast (drop_bit 16 insn AND 0x1F)"
definition insn_sf :: "u32 \<Rightarrow> bool" where "insn_sf insn \<longleftrightarrow> drop_bit 31 insn \<noteq> 0"

text \<open>The branch offset of a field of \<open>bits\<close> bits, in bytes.\<close>
definition simm_at :: "u32 \<Rightarrow> nat \<Rightarrow> u32" where
  "simm_at field bits = ucast (sign_extend (ucast (push_bit 2 field)) bits)"

text \<open>
  The rows of the loads and stores with an unsigned offset: the tag under the mask \<open>0xFFC00000\<close>, the
  kind, the shift of the offset, the size and the flags, in the order of the tests.
\<close>
definition uimm_rows :: "(u32 \<times> decoded_kind \<times> nat \<times> u8 \<times> u16) list" where
  "uimm_rows =
    [(0xF9400000, Load_Store_U_Imm, 3, 8, kDecodedFlagLoad OR kDecodedFlagResult64),
     (0xF9000000, Load_Store_U_Imm, 3, 8, 0),
     (0xB9400000, Load_Store_U_Imm, 2, 4, kDecodedFlagLoad),
     (0xB9000000, Load_Store_U_Imm, 2, 4, 0),
     (0xB9800000, Load_Store, 2, 4, kDecodedFlagLoad OR kDecodedFlagSigned OR kDecodedFlagResult64),
     (0x39C00000, Load_Store, 0, 1, kDecodedFlagLoad OR kDecodedFlagSigned),
     (0x39800000, Load_Store, 0, 1, kDecodedFlagLoad OR kDecodedFlagSigned OR kDecodedFlagResult64),
     (0x79C00000, Load_Store, 1, 2, kDecodedFlagLoad OR kDecodedFlagSigned),
     (0x79800000, Load_Store, 1, 2, kDecodedFlagLoad OR kDecodedFlagSigned OR kDecodedFlagResult64),
     (0x39400000, Load_Store_U_Imm, 0, 1, kDecodedFlagLoad),
     (0x39000000, Load_Store_U_Imm, 0, 1, 0),
     (0x79400000, Load_Store_U_Imm, 1, 2, kDecodedFlagLoad),
     (0x79000000, Load_Store_U_Imm, 1, 2, 0)]"

text \<open>The post-index and pre-index tags under \<open>0xFFC00C00\<close>: size, whether it loads, and \<open>aux2\<close>.\<close>
definition indexed_rows :: "(u32 \<times> u8 \<times> bool \<times> u8) list" where
  "indexed_rows =
    [(0x38400400, 1, True, 2), (0x38000400, 1, False, 2), (0x38400C00, 1, True, 1), (0x38000C00, 1, False, 1),
     (0x78400400, 2, True, 2), (0x78000400, 2, False, 2), (0x78400C00, 2, True, 1), (0x78000C00, 2, False, 1),
     (0xB8400400, 4, True, 2), (0xB8000400, 4, False, 2), (0xB8400C00, 4, True, 1), (0xB8000C00, 4, False, 1),
     (0xF8400400, 8, True, 2), (0xF8000400, 8, False, 2), (0xF8400C00, 8, True, 1), (0xF8000C00, 8, False, 1)]"

definition decode_memory :: "u32 \<Rightarrow> decoded" where
  "decode_memory insn =
    (case map_of uimm_rows (insn AND 0xFFC00000) of
       Some (kind, shift, sz, flags) \<Rightarrow>
         no_decode\<lparr>d_kind := kind, d_rd := insn_rd insn, d_rn := insn_rn insn,
           d_imm := push_bit shift (drop_bit 10 insn AND 0xFFF), d_aux := sz, d_flags := flags\<rparr>
     | None \<Rightarrow>
         if is_ldraa_ldrab_encoding insn then no_decode
         else
           (case map_of indexed_rows (insn AND 0xFFC00C00) of
              Some (sz, load, aux2) \<Rightarrow>
                no_decode\<lparr>d_kind := Load_Store, d_rd := insn_rd insn, d_rn := insn_rn insn,
                  d_simm := ucast (sign_extend (ucast (drop_bit 12 insn AND 0x1FF)) 9), d_aux := sz, d_aux2 := aux2,
                  d_flags := flag_if load kDecodedFlagLoad OR flag_if (sz = 8 \<and> load) kDecodedFlagResult64\<rparr>
            | None \<Rightarrow> no_decode))"

definition is_b_imm :: "u32 \<Rightarrow> bool" where "is_b_imm insn \<longleftrightarrow> insn AND 0x7C000000 = 0x14000000"
definition is_b_cond :: "u32 \<Rightarrow> bool" where "is_b_cond insn \<longleftrightarrow> insn AND 0xFF000010 = 0x54000000"
definition is_cbz :: "u32 \<Rightarrow> bool" where
  "is_cbz insn \<longleftrightarrow> insn AND 0x7F000000 = 0x34000000 \<or> insn AND 0x7F000000 = 0x35000000"
definition is_tbz :: "u32 \<Rightarrow> bool" where
  "is_tbz insn \<longleftrightarrow> insn AND 0x7F000000 = 0x36000000 \<or> insn AND 0x7F000000 = 0x37000000"
definition is_mov_wide :: "u32 \<Rightarrow> bool" where
  "is_mov_wide insn \<longleftrightarrow> insn AND 0x7F800000 = 0x52800000 \<or> insn AND 0x7F800000 = 0x72800000 \<or>
    insn AND 0x7F800000 = 0x12800000"
definition is_addg_subg :: "u32 \<Rightarrow> bool" where
  "is_addg_subg insn \<longleftrightarrow> insn AND 0x7FC00000 = 0x11800000 \<or> insn AND 0x7FC00000 = 0x51800000"
definition is_add_sub_imm :: "u32 \<Rightarrow> bool" where
  "is_add_sub_imm insn \<longleftrightarrow> insn AND 0x7F000000 = 0x11000000 \<or> insn AND 0x7F000000 = 0x31000000 \<or>
    insn AND 0x7F000000 = 0x51000000 \<or> insn AND 0x7F000000 = 0x71000000"
definition is_logical_shifted :: "u32 \<Rightarrow> bool" where "is_logical_shifted insn \<longleftrightarrow> insn AND 0x1F000000 = 0x0A000000"
definition is_logical_imm :: "u32 \<Rightarrow> bool" where "is_logical_imm insn \<longleftrightarrow> insn AND 0x1F000000 = 0x12000000"
definition is_bitfield :: "u32 \<Rightarrow> bool" where "is_bitfield insn \<longleftrightarrow> insn AND 0x1F800000 = 0x13000000"
definition is_add_sub_shifted :: "u32 \<Rightarrow> bool" where
  "is_add_sub_shifted insn \<longleftrightarrow> insn AND 0x7F200000 = 0x2B000000 \<or> insn AND 0x7F200000 = 0x6B000000 \<or>
    insn AND 0x7F200000 = 0x4B000000"

definition immr_imms :: "u32 \<Rightarrow> u32" where
  "immr_imms insn = (drop_bit 16 insn AND 0x3F) OR push_bit 6 (drop_bit 10 insn AND 0x3F)"

definition decode_b_imm :: "u32 \<Rightarrow> decoded" where
  "decode_b_imm insn =
    no_decode\<lparr>d_kind := B_Imm, d_simm := simm_at (insn AND 0x03FFFFFF) 28,
      d_flags := flag_if (insn AND 0x80000000 \<noteq> 0) kDecodedFlagLink\<rparr>"

definition decode_b_cond :: "u32 \<Rightarrow> decoded" where
  "decode_b_cond insn =
    no_decode\<lparr>d_kind := B_Cond, d_aux := ucast (insn AND 0xF), d_simm := simm_at (drop_bit 5 insn AND 0x7FFFF) 21\<rparr>"

definition decode_cbz :: "u32 \<Rightarrow> decoded" where
  "decode_cbz insn =
    no_decode\<lparr>d_kind := Cbz, d_rd := insn_rd insn, d_simm := simm_at (drop_bit 5 insn AND 0x7FFFF) 21,
      d_flags := flag_if (insn_sf insn) kDecodedFlagSf OR flag_if (insn AND 0x01000000 \<noteq> 0) kDecodedFlagNonZero\<rparr>"

definition decode_tbz :: "u32 \<Rightarrow> decoded" where
  "decode_tbz insn =
    no_decode\<lparr>d_kind := Tbz, d_rd := insn_rd insn,
      d_aux := ucast (push_bit 5 (drop_bit 31 insn AND 0x1) OR (drop_bit 19 insn AND 0x1F)),
      d_simm := simm_at (drop_bit 5 insn AND 0x3FFF) 16,
      d_flags := flag_if (insn AND 0x01000000 \<noteq> 0) kDecodedFlagNonZero\<rparr>"

definition decode_mov_wide :: "u32 \<Rightarrow> decoded" where
  "decode_mov_wide insn =
    no_decode\<lparr>d_kind := Mov_Wide, d_rd := insn_rd insn, d_aux := ucast (drop_bit 29 insn AND 0x3),
      d_aux2 := ucast ((drop_bit 21 insn AND 0x3) * 16), d_imm := drop_bit 5 insn AND 0xFFFF,
      d_flags := flag_if (insn_sf insn) kDecodedFlagSf\<rparr>"

definition decode_add_sub_imm :: "u32 \<Rightarrow> decoded" where
  "decode_add_sub_imm insn =
    no_decode\<lparr>d_kind := Add_Sub_Imm, d_rd := insn_rd insn, d_rn := insn_rn insn,
      d_imm := drop_bit 10 insn AND 0xFFF, d_aux := ucast ((drop_bit 22 insn AND 0x1) * 12),
      d_flags := flag_if (insn_sf insn) kDecodedFlagSf OR flag_if (insn AND 0x40000000 \<noteq> 0) kDecodedFlagSub OR
        flag_if (insn AND 0x20000000 \<noteq> 0) kDecodedFlagSetFlags\<rparr>"

definition decode_logical_shifted :: "u32 \<Rightarrow> decoded" where
  "decode_logical_shifted insn =
    (let imm6 = drop_bit 10 insn AND 0x3F in
     if \<not> insn_sf insn \<and> imm6 AND 0x20 \<noteq> 0 then no_decode
     else no_decode\<lparr>d_kind := Logical_Shifted, d_rd := insn_rd insn, d_rn := insn_rn insn, d_rm := insn_rm insn,
       d_aux := ucast (drop_bit 22 insn AND 0x3), d_aux2 := ucast (drop_bit 29 insn AND 0x3), d_imm := imm6,
       d_flags := flag_if (insn_sf insn) kDecodedFlagSf OR flag_if (insn AND 0x00200000 \<noteq> 0) kDecodedFlagInvert\<rparr>)"

definition decode_logical_imm :: "u32 \<Rightarrow> decoded" where
  "decode_logical_imm insn =
    (let n = drop_bit 22 insn AND 0x1 in
     if \<not> insn_sf insn \<and> n \<noteq> 0 then no_decode
     else no_decode\<lparr>d_kind := Logical_Imm, d_rd := insn_rd insn, d_rn := insn_rn insn,
       d_aux := ucast (drop_bit 29 insn AND 0x3), d_aux2 := ucast n, d_imm := immr_imms insn,
       d_flags := flag_if (insn_sf insn) kDecodedFlagSf\<rparr>)"

definition decode_bitfield :: "u32 \<Rightarrow> decoded" where
  "decode_bitfield insn =
    (let n = drop_bit 22 insn AND 0x1 in
     if insn_sf insn \<and> n \<noteq> 1 \<or> \<not> insn_sf insn \<and> n \<noteq> 0 then no_decode
     else no_decode\<lparr>d_kind := Bitfield, d_rd := insn_rd insn, d_rn := insn_rn insn,
       d_aux := ucast (drop_bit 29 insn AND 0x3), d_aux2 := ucast n, d_imm := immr_imms insn,
       d_flags := flag_if (insn_sf insn) kDecodedFlagSf\<rparr>)"

definition decode_add_sub_shifted :: "u32 \<Rightarrow> decoded" where
  "decode_add_sub_shifted insn =
    (let shift_type = drop_bit 22 insn AND 0x3 in
     if shift_type > 2 then no_decode
     else no_decode\<lparr>d_kind := Add_Sub_Shifted, d_rd := insn_rd insn, d_rn := insn_rn insn, d_rm := insn_rm insn,
       d_aux := ucast shift_type, d_aux2 := ucast (drop_bit 10 insn AND 0x3F),
       d_flags := flag_if (insn_sf insn) kDecodedFlagSf OR flag_if (insn AND 0x40000000 \<noteq> 0) kDecodedFlagSub OR
         flag_if (insn AND 0x20000000 \<noteq> 0) kDecodedFlagSetFlags\<rparr>)"

text \<open>Additions of a shifted register without flags (\<open>0x0B000000\<close>) are left to the slow path.\<close>
definition decode_insn :: "u32 \<Rightarrow> decoded" where
  "decode_insn insn =
    (if is_b_imm insn then decode_b_imm insn
     else if is_b_cond insn then decode_b_cond insn
     else if is_cbz insn then decode_cbz insn
     else if is_tbz insn then decode_tbz insn
     else if is_mov_wide insn then decode_mov_wide insn
     else if is_addg_subg insn then no_decode
     else if is_add_sub_imm insn then decode_add_sub_imm insn
     else if is_logical_shifted insn then decode_logical_shifted insn
     else if is_logical_imm insn then decode_logical_imm insn
     else if is_bitfield insn then decode_bitfield insn
     else if is_add_sub_shifted insn then decode_add_sub_shifted insn
     else decode_memory insn)"

section \<open>The decode cache\<close>

text \<open>
  The page for an address: the last one used, or the slot of its virtual page, emptied when it holds
  another page or is of another context.
\<close>
definition decode_page_matches :: "decode_cache \<Rightarrow> u64 \<Rightarrow> u64 \<Rightarrow> decode_page \<Rightarrow> bool" where
  "decode_page_matches d va_page pa_page pg \<longleftrightarrow> dp_valid pg \<and> dp_context_epoch pg = dc_context_epoch d \<and>
    dp_va_page pg = va_page \<and> dp_pa_page pg = pa_page"

definition claim_decode_page :: "u64 \<Rightarrow> u64 \<Rightarrow> decode_cache \<Rightarrow> nat \<times> decode_cache" where
  "claim_decode_page va_page pa_page d =
    (let i = decode_page_index va_page; pg = dc_pages d ! i in
     (i, if decode_page_matches d va_page pa_page pg then d\<lparr>dc_last_page := Some i\<rparr>
         else d\<lparr>dc_pages := (dc_pages d)[i := pg\<lparr>dp_valid := True, dp_context_epoch := dc_context_epoch d,
                  dp_va_page := va_page, dp_pa_page := pa_page,
                  dp_valid_words := map (\<lambda>_. 0) (dp_valid_words pg)\<rparr>],
                dc_last_page := Some i\<rparr>))"

definition select_decode_page :: "u64 \<Rightarrow> u64 \<Rightarrow> decode_cache \<Rightarrow> nat \<times> decode_cache" where
  "select_decode_page va_page pa_page d =
    (case dc_last_page d of
       Some l \<Rightarrow> if decode_page_matches d va_page pa_page (dc_pages d ! l) then (l, d)
                 else claim_decode_page va_page pa_page d
     | None \<Rightarrow> claim_decode_page va_page pa_page d)"

definition slot_valid :: "decode_page \<Rightarrow> nat \<Rightarrow> bool" where
  "slot_valid pg slot \<longleftrightarrow> dp_valid_words pg ! (slot div 64) AND push_bit (slot mod 64) 1 \<noteq> 0"

definition fill_slot :: "nat \<Rightarrow> u32 \<Rightarrow> decode_page \<Rightarrow> decode_page" where
  "fill_slot slot insn pg =
    (if \<not> slot_valid pg slot \<or> dp_raws pg ! slot \<noteq> insn then
       pg\<lparr>dp_insns := (dp_insns pg)[slot := decode_insn insn], dp_raws := (dp_raws pg)[slot := insn],
          dp_valid_words := (dp_valid_words pg)[slot div 64 :=
            dp_valid_words pg ! (slot div 64) OR push_bit (slot mod 64) 1]\<rparr>
     else pg)"

definition lookup_decoded :: "u64 \<Rightarrow> u64 \<Rightarrow> u32 \<Rightarrow> 'd cpu \<Rightarrow> decoded option \<times> 'd cpu" where
  "lookup_decoded va pa insn c =
    (if \<not> c_predecode_enabled c then (None, c)
     else
       let va_page = va AND NOT 0xFFF;
           pa_page = pa AND NOT 0xFFF;
           slot = unat (drop_bit 2 va AND (of_nat kDecodePageSlots - 1));
           (i, d) = select_decode_page va_page pa_page (c_decode c);
           pg = fill_slot slot insn (dc_pages d ! i)
       in (Some (dp_insns pg ! slot), c\<lparr>c_decode := d\<lparr>dc_pages := (dc_pages d)[i := pg]\<rparr>\<rparr>))"

end
