(* ===== verification/Cpu_Execute.thy ===== *)
theory Cpu_Execute
  imports Cpu_Decode
begin

text \<open>
  Execution in \<open>src/src/cpu.cpp\<close>: the decoded instructions (\<open>exec_decoded\<close> and the functions it calls),
  the branches of the undecoded path (\<open>exec_branch\<close>) and the integer part of
  \<open>exec_data_processing\<close>. \<open>pc_\<close> already points past the instruction. A function that returns false has
  not touched the state and gives \<open>None\<close>; one that returns true gives \<open>Some\<close> the state after.
\<close>

section \<open>Arithmetic shared by the two paths\<close>

definition asr64 :: "u64 \<Rightarrow> nat \<Rightarrow> u64" where "asr64 v sh = signed_drop_bit sh v"

definition asr32 :: "u32 \<Rightarrow> nat \<Rightarrow> u32" where "asr32 v sh = signed_drop_bit sh v"

definition reg_of :: "bool \<Rightarrow> nat \<Rightarrow> 'd cpu \<Rightarrow> u64" where
  "reg_of sf idx c = (if sf then reg idx c else ucast (reg32 idx c))"

definition set_reg_of :: "bool \<Rightarrow> nat \<Rightarrow> u64 \<Rightarrow> 'd cpu \<Rightarrow> 'd cpu" where
  "set_reg_of sf idx v c = (if sf then set_reg idx v c else set_reg32 idx (ucast v) c)"

text \<open>The shifted second operand of an addition; the counts of this form stay below the width.\<close>
definition add_sub_operand :: "bool \<Rightarrow> nat \<Rightarrow> u32 \<Rightarrow> u32 \<Rightarrow> 'd cpu \<Rightarrow> u64" where
  "add_sub_operand sf rm shift_type amount c =
    (if sf then
       let v = reg rm c; sh = unat (amount AND 63)
       in if shift_type = 0 then (if sh \<ge> 64 then 0 else push_bit sh v)
          else if shift_type = 1 then (if sh \<ge> 64 then 0 else drop_bit sh v)
          else asr64 v sh
     else
       let v = reg32 rm c; sh = unat (amount AND 31)
       in ucast (if shift_type = 0 then push_bit sh v else if shift_type = 1 then drop_bit sh v else asr32 v sh))"

definition logical_operand :: "bool \<Rightarrow> bool \<Rightarrow> nat \<Rightarrow> u32 \<Rightarrow> u32 \<Rightarrow> 'd cpu \<Rightarrow> u64" where
  "logical_operand sf invert rm shift_type imm6 c =
    (let width_mask = (if sf then NOT 0 else 0xFFFFFFFF);
         sh = unat (if sf then imm6 AND 63 else imm6 AND 31);
         rhs_src = reg_of sf rm c;
         rhs = (if shift_type = 0 then push_bit sh rhs_src
                else if shift_type = 1 then drop_bit sh (rhs_src AND width_mask)
                else if shift_type = 2 then (if sf then asr64 rhs_src sh else ucast (asr32 (ucast rhs_src) sh))
                else ror rhs_src sh (if sf then 64 else 32)) AND width_mask
     in if invert then NOT rhs AND width_mask else rhs)"

text \<open>The write back of an addition or subtraction, with or without the flags.\<close>
definition finish_add_sub :: "bool \<Rightarrow> bool \<Rightarrow> bool \<Rightarrow> nat \<Rightarrow> u64 \<Rightarrow> u64 \<Rightarrow> u64 \<Rightarrow> 'd cpu \<Rightarrow> 'd cpu" where
  "finish_add_sub sf set_flags is_sub rd lhs rhs v c =
    (if set_flags then
       if sf then
         let c = set_reg rd v c
         in if is_sub then set_flags_sub lhs rhs v False c else set_flags_add lhs rhs v False c
       else
         let c = set_reg32 rd (ucast v) c; l = ucast (ucast lhs :: u32); r = ucast (ucast rhs :: u32);
             w = ucast (ucast v :: u32)
         in if is_sub then set_flags_sub l r w True c else set_flags_add l r w True c
     else set_sp_or_reg rd v (\<not> sf) c)"

section \<open>Decoded instructions\<close>

definition has_flag :: "u16 \<Rightarrow> decoded \<Rightarrow> bool" where "has_flag f d \<longleftrightarrow> d_flags d AND f \<noteq> 0"

abbreviation d_sf :: "decoded \<Rightarrow> bool" where "d_sf \<equiv> has_flag kDecodedFlagSf"

definition decoded_sum :: "bool \<Rightarrow> bool \<Rightarrow> u64 \<Rightarrow> u64 \<Rightarrow> u64" where
  "decoded_sum sf is_sub lhs rhs =
    (if is_sub then (if sf then lhs - rhs else ucast (ucast (lhs - rhs) :: u32))
     else (if sf then lhs + rhs else ucast (ucast (lhs + rhs) :: u32)))"

definition exec_decoded_add_sub_imm :: "decoded \<Rightarrow> 'd cpu \<Rightarrow> 'd cpu option" where
  "exec_decoded_add_sub_imm d c =
    (let sf = d_sf d;
         is_sub = has_flag kDecodedFlagSub d;
         lhs = sp_or_reg (unat (d_rn d)) c;
         rhs = push_bit (unat (d_aux d)) (ucast (d_imm d))
     in Some (finish_add_sub sf (has_flag kDecodedFlagSetFlags d) is_sub (unat (d_rd d)) lhs rhs
          (decoded_sum sf is_sub lhs rhs) c))"

definition exec_decoded_add_sub_shifted :: "decoded \<Rightarrow> 'd cpu \<Rightarrow> 'd cpu option" where
  "exec_decoded_add_sub_shifted d c =
    (let sf = d_sf d;
         is_sub = has_flag kDecodedFlagSub d;
         rhs = add_sub_operand sf (unat (d_rm d)) (ucast (d_aux d)) (ucast (d_aux2 d)) c;
         lhs = reg_of sf (unat (d_rn d)) c
     in Some (finish_add_sub sf (has_flag kDecodedFlagSetFlags d) is_sub (unat (d_rd d)) lhs rhs
          (decoded_sum sf is_sub lhs rhs) c))"

definition exec_decoded_logical_shifted :: "decoded \<Rightarrow> 'd cpu \<Rightarrow> 'd cpu option" where
  "exec_decoded_logical_shifted d c =
    (let sf = d_sf d;
         rd = unat (d_rd d);
         rhs = logical_operand sf (has_flag kDecodedFlagInvert d) (unat (d_rm d)) (ucast (d_aux d)) (d_imm d) c;
         lhs = reg_of sf (unat (d_rn d)) c;
         v = (if d_aux2 d = 0 then lhs AND rhs else if d_aux2 d = 1 then lhs OR rhs
              else if d_aux2 d = 2 then lhs XOR rhs else lhs AND rhs)
     in Some (if d_aux2 d = 3 then
                (let c = set_flags_logic v (\<not> sf) c in if rd \<noteq> 31 then set_reg_of sf rd v c else c)
              else set_reg_of sf rd v c))"

definition exec_decoded_logical_imm :: "decoded \<Rightarrow> 'd cpu \<Rightarrow> 'd cpu option" where
  "exec_decoded_logical_imm d c =
    (let sf = d_sf d;
         rd = unat (d_rd d);
         n = ucast (d_aux2 d AND 1);
         immr = d_imm d AND 0x3F;
         imms = drop_bit 6 (d_imm d) AND 0x3F
     in case decode_bit_masks n imms immr (if sf then 64 else 32) of
          None \<Rightarrow> None
        | Some (wmask, tmask) \<Rightarrow>
            let lhs = reg_of sf (unat (d_rn d)) c
            in if d_aux d = 0 then Some (set_reg_of sf rd (lhs AND wmask) c)
               else if d_aux d = 1 then Some (set_reg_of sf rd (lhs OR wmask) c)
               else if d_aux d = 2 then Some (set_reg_of sf rd (lhs XOR wmask) c)
               else
                 let v = lhs AND wmask; c = set_flags_logic v (\<not> sf) c
                 in Some (if rd = 31 then c else set_reg_of sf rd v c))"

text \<open>The value of a bitfield move; an \<open>opc\<close> of three is refused by the callers.\<close>
definition bitfield_value :: "u32 \<Rightarrow> u64 \<Rightarrow> u64 \<Rightarrow> u32 \<Rightarrow> u32 \<Rightarrow> nat \<Rightarrow> u64 \<Rightarrow> u64 \<Rightarrow> u64" where
  "bitfield_value opc src dst immr imms datasize wmask tmask =
    (let bot = ror src (unat immr) datasize AND wmask in
     if opc = 0 then
       (let sign = drop_bit (unat (imms AND (of_nat datasize - 1))) src AND 1 \<noteq> 0;
            top = if sign then ones datasize else 0
        in (top AND NOT tmask) OR (bot AND tmask))
     else if opc = 1 then
       (let merged = (dst AND NOT wmask) OR bot
        in (dst AND NOT tmask) OR (merged AND tmask))
     else bot AND tmask)"

definition exec_decoded_bitfield :: "decoded \<Rightarrow> 'd cpu \<Rightarrow> 'd cpu option" where
  "exec_decoded_bitfield d c =
    (let sf = d_sf d;
         datasize = if sf then 64 else 32;
         rd = unat (d_rd d);
         n = ucast (d_aux2 d AND 1);
         immr = d_imm d AND 0x3F;
         imms = drop_bit 6 (d_imm d) AND 0x3F
     in case decode_bit_masks n imms immr datasize of
          None \<Rightarrow> None
        | Some (wmask, tmask) \<Rightarrow>
            let src = reg_of sf (unat (d_rn d)) c; dst = reg_of sf rd c
            in if d_aux d > 2 then None
               else Some (set_reg_of sf rd (bitfield_value (ucast (d_aux d)) src dst immr imms datasize wmask tmask) c))"

definition exec_decoded_mov_wide :: "decoded \<Rightarrow> 'd cpu \<Rightarrow> 'd cpu option" where
  "exec_decoded_mov_wide d c =
    (let sf = d_sf d;
         rd = unat (d_rd d);
         shift = unat (d_aux2 d);
         v = push_bit shift (ucast (d_imm d)) :: u64
     in if d_aux d = 2 then Some (set_reg_of sf rd v c)
        else if d_aux d = 3 then
          (if sf then Some (set_reg rd ((reg rd c AND NOT (push_bit shift 0xFFFF)) OR v) c)
           else if d_aux2 d > 16 then None
           else Some (set_reg32 rd ((reg32 rd c AND NOT (push_bit shift 0xFFFF)) OR ucast v) c))
        else if d_aux d = 0 then
          (if sf then Some (set_reg rd (NOT v) c)
           else if d_aux2 d > 16 then None
           else Some (set_reg32 rd (ucast (NOT v)) c))
        else None)"

text \<open>\<open>pc_ + simm - 4\<close>, the offset sign-extended.\<close>
definition branch_by :: "u64 \<Rightarrow> 'd cpu \<Rightarrow> 'd cpu" where
  "branch_by off c = c\<lparr>c_pc := c_pc c + off - 4\<rparr>"

definition exec_decoded_branch :: "decoded \<Rightarrow> 'd cpu \<Rightarrow> 'd cpu option" where
  "exec_decoded_branch d c =
    (let off = scast (d_simm d); nonzero = has_flag kDecodedFlagNonZero d in
     case d_kind d of
       B_Imm \<Rightarrow> Some (branch_by off (if has_flag kDecodedFlagLink d then set_reg 30 (c_pc c) c else c))
     | B_Cond \<Rightarrow> Some (if condition_holds (ucast (d_aux d)) c then branch_by off c else c)
     | Cbz \<Rightarrow>
         (let v = reg_of (d_sf d) (unat (d_rd d)) c
          in Some (if (if nonzero then v \<noteq> 0 else v = 0) then branch_by off c else c))
     | Tbz \<Rightarrow>
         (let bit_set = drop_bit (unat (d_aux d)) (reg (unat (d_rd d)) c) AND 1 \<noteq> 0
          in Some (if (if nonzero then bit_set else \<not> bit_set) then branch_by off c else c))
     | _ \<Rightarrow> None)"

section \<open>Decoded loads and stores\<close>

definition abort_access :: "u64 \<Rightarrow> 'd cpu \<Rightarrow> 'd cpu" where
  "abort_access addr c = (if c_exception_taken_this_step c then c else data_abort addr False c)"

text \<open>The loaded value, or \<open>None\<close> when an exception was taken instead.\<close>
definition decoded_load :: "'d device_io \<Rightarrow> u64 \<Rightarrow> u8 \<Rightarrow> 'd cpu \<Rightarrow> u64 option \<times> 'd cpu" where
  "decoded_load io addr sz c =
    (case maybe_take_data_alignment_fault io addr (ucast sz) Read False c of
       (True, c) \<Rightarrow> (None, c)
     | (False, c) \<Rightarrow>
         (case mmu_read_value io addr (ucast sz) Read True c of
            (None, c) \<Rightarrow> (None, abort_access addr c)
          | (Some v, c) \<Rightarrow> (Some v, c)))"

definition decoded_store :: "'d device_io \<Rightarrow> u64 \<Rightarrow> u64 \<Rightarrow> u8 \<Rightarrow> 'd cpu \<Rightarrow> bool \<times> 'd cpu" where
  "decoded_store io addr v sz c =
    (case maybe_take_data_alignment_fault io addr (ucast sz) Write False c of
       (True, c) \<Rightarrow> (False, c)
     | (False, c) \<Rightarrow>
         (case mmu_write_value io addr v (ucast sz) Write True c of
            (False, c) \<Rightarrow> (False, abort_access addr c)
          | (True, c) \<Rightarrow> (True, c)))"

definition exec_decoded_load_store_uimm :: "'d device_io \<Rightarrow> decoded \<Rightarrow> 'd cpu \<Rightarrow> 'd cpu" where
  "exec_decoded_load_store_uimm io d c =
    (case maybe_take_sp_alignment_fault (unat (d_rn d)) c of
       (True, c) \<Rightarrow> c
     | (False, c) \<Rightarrow>
         let addr = sp_or_reg (unat (d_rn d)) c + ucast (d_imm d); rd = unat (d_rd d) in
         if has_flag kDecodedFlagLoad d then
           (case decoded_load io addr (d_aux d) c of
              (None, c) \<Rightarrow> c
            | (Some v, c) \<Rightarrow>
                if has_flag kDecodedFlagResult64 d then set_reg rd v c
                else if d_aux d = 1 then set_reg32 rd (ucast (ucast v :: u8)) c
                else if d_aux d = 2 then set_reg32 rd (ucast (ucast v :: u16)) c
                else set_reg32 rd (ucast v) c)
         else
           snd (decoded_store io addr (if d_aux d = 8 then reg rd c else ucast (reg32 rd c)) (d_aux d) c))"

definition exec_decoded_load_store :: "'d device_io \<Rightarrow> decoded \<Rightarrow> 'd cpu \<Rightarrow> 'd cpu" where
  "exec_decoded_load_store io d c =
    (case maybe_take_sp_alignment_fault (unat (d_rn d)) c of
       (True, c) \<Rightarrow> c
     | (False, c) \<Rightarrow>
         let base = sp_or_reg (unat (d_rn d)) c;
             rd = unat (d_rd d);
             off = scast (d_simm d);
             addr = (if d_aux2 d = 1 then base + off else if d_aux2 d = 2 then base else base + ucast (d_imm d));
             wb_addr = (if d_aux2 d = 1 then addr else if d_aux2 d = 2 then base + off else 0);
             write_back = (\<lambda>c. if d_aux2 d \<noteq> 0 then set_sp_or_reg (unat (d_rn d)) wb_addr False c else c)
         in if has_flag kDecodedFlagLoad d then
              (case decoded_load io addr (d_aux d) c of
                 (None, c) \<Rightarrow> c
               | (Some v, c) \<Rightarrow>
                   write_back
                     (if has_flag kDecodedFlagSigned d then
                        (let bits = unat (d_aux d) * 8;
                             m = (if bits \<ge> 64 then NOT 0 else push_bit bits 1 - 1);
                             w = sign_extend (v AND m) bits
                         in if has_flag kDecodedFlagResult64 d then set_reg rd w c else set_reg32 rd (ucast w) c)
                      else if has_flag kDecodedFlagResult64 d then set_reg rd v c
                      else set_reg32 rd (ucast v) c))
            else
              (case decoded_store io addr
                  (if d_aux d = 8 then reg rd c
                   else if d_aux d = 4 then ucast (reg32 rd c)
                   else if d_aux d = 2 then ucast (reg32 rd c AND 0xFFFF)
                   else ucast (reg32 rd c AND 0xFF)) (d_aux d) c of
                 (False, c) \<Rightarrow> c
               | (True, c) \<Rightarrow> write_back c))"

definition exec_decoded :: "'d device_io \<Rightarrow> decoded \<Rightarrow> 'd cpu \<Rightarrow> 'd cpu option" where
  "exec_decoded io d c =
    (case d_kind d of
       Fallback \<Rightarrow> None
     | Mov_Wide \<Rightarrow> exec_decoded_mov_wide d c
     | Add_Sub_Imm \<Rightarrow> exec_decoded_add_sub_imm d c
     | Add_Sub_Shifted \<Rightarrow> exec_decoded_add_sub_shifted d c
     | Logical_Shifted \<Rightarrow> exec_decoded_logical_shifted d c
     | Logical_Imm \<Rightarrow> exec_decoded_logical_imm d c
     | Bitfield \<Rightarrow> exec_decoded_bitfield d c
     | Load_Store_U_Imm \<Rightarrow> Some (exec_decoded_load_store_uimm io d c)
     | Load_Store \<Rightarrow> Some (exec_decoded_load_store io d c)
     | _ \<Rightarrow> exec_decoded_branch d c)"

section \<open>Undecoded branches\<close>

definition exec_branch :: "u32 \<Rightarrow> 'd cpu \<Rightarrow> 'd cpu option" where
  "exec_branch insn c =
    (if is_b_imm insn then
       (let off = sign_extend (ucast (push_bit 2 (insn AND 0x03FFFFFF))) 28
        in Some (branch_by off (if insn AND 0x80000000 \<noteq> 0 then set_reg 30 (c_pc c) c else c)))
     else if is_b_cond insn then
       (let off = sign_extend (ucast (push_bit 2 (drop_bit 5 insn AND 0x7FFFF))) 21
        in Some (if condition_holds (insn AND 0xF) c then branch_by off c else c))
     else if is_cbz insn then
       (let nonzero = insn AND 0x01000000 \<noteq> 0;
            off = sign_extend (ucast (push_bit 2 (drop_bit 5 insn AND 0x7FFFF))) 21;
            v = reg_of (insn_sf insn) (unat (insn AND 0x1F)) c
        in Some (if (if nonzero then v \<noteq> 0 else v = 0) then branch_by off c else c))
     else if is_tbz insn then
       (let test_nonzero = insn AND 0x01000000 \<noteq> 0;
            bitpos = push_bit 5 (drop_bit 31 insn AND 0x1) OR (drop_bit 19 insn AND 0x1F);
            off = sign_extend (ucast (push_bit 2 (drop_bit 5 insn AND 0x3FFF))) 16;
            bit_set = drop_bit (unat bitpos) (reg (unat (insn AND 0x1F)) c) AND 1 \<noteq> 0
        in Some (if (if test_nonzero then bit_set else \<not> bit_set) then branch_by off c else c))
     else None)"

end
