(* ===== verification/Cpu_Integer.thy ===== *)
theory Cpu_Integer
  imports Cpu_Execute "HOL-Library.Signed_Division"
begin

text \<open>
  The integer instructions of \<open>Cpu::exec_data_processing\<close> (\<open>src/src/cpu.cpp\<close>), from the additions with
  carry to the end of the function: one definition per test of the source, in its order, and
  \<open>exec_integer\<close>, which tries them. Each gives \<open>None\<close> when the function returns false.
\<close>

definition rd_of :: "u32 \<Rightarrow> nat" where "rd_of insn = unat (insn AND 0x1F)"
definition rn_of :: "u32 \<Rightarrow> nat" where "rn_of insn = unat (drop_bit 5 insn AND 0x1F)"
definition rm_of :: "u32 \<Rightarrow> nat" where "rm_of insn = unat (drop_bit 16 insn AND 0x1F)"
definition ra_of :: "u32 \<Rightarrow> nat" where "ra_of insn = unat (drop_bit 10 insn AND 0x1F)"

section \<open>Additions with carry\<close>

definition is_adc_sbc :: "u32 \<Rightarrow> bool" where
  "is_adc_sbc insn \<longleftrightarrow> insn AND 0x7FE0FC00 \<in> {0x1A000000, 0x3A000000, 0x5A000000, 0x7A000000}"

text \<open>The result, the carry and the overflow, at either width.\<close>
definition adc_result :: "'a::len word \<Rightarrow> 'a word \<Rightarrow> 'a word \<Rightarrow> 'a word \<times> bool \<times> bool" where
  "adc_result lhs rhs carry_in =
    (let sum = lhs + rhs;
         res = sum + carry_in;
         v = NOT (lhs XOR rhs) AND (lhs XOR res) AND push_bit (LENGTH('a) - 1) 1 \<noteq> 0
     in (res, sum < lhs \<or> res < sum, v))"

definition sbc_result :: "'a::len word \<Rightarrow> 'a word \<Rightarrow> 'a word \<Rightarrow> 'a word \<times> bool \<times> bool" where
  "sbc_result lhs rhs carry_in =
    (let borrow = (if carry_in \<noteq> 0 then 0 else 1);
         res = lhs - rhs - borrow;
         borrow_out = (lhs < rhs \<or> borrow \<noteq> 0 \<and> lhs = rhs);
         v = (lhs XOR rhs) AND (lhs XOR res) AND push_bit (LENGTH('a) - 1) 1 \<noteq> 0
     in (res, \<not> borrow_out, v))"

definition set_nzcv_flags :: "bool \<Rightarrow> bool \<Rightarrow> bool \<Rightarrow> bool \<Rightarrow> 'd cpu \<Rightarrow> 'd cpu" where
  "set_nzcv_flags n z cf v = on_sysregs (pstate_set (\<lambda>p. p\<lparr>ps_n := n, ps_z := z, ps_c := cf, ps_v := v\<rparr>))"

definition exec_adc_sbc :: "u32 \<Rightarrow> 'd cpu \<Rightarrow> 'd cpu" where
  "exec_adc_sbc insn c =
    (let is_sub = drop_bit 30 insn AND 1 \<noteq> 0;
         set_flags = drop_bit 29 insn AND 1 \<noteq> 0;
         carry = ps_c (r_pstate (c_sysregs c));
         rd = rd_of insn; rn = rn_of insn; rm = rm_of insn
     in if insn_sf insn then
          (let (res, cf, v) = (if is_sub then sbc_result else adc_result) (reg rn c) (reg rm c) (if carry then 1 else 0);
               c = set_reg rd res c
           in if set_flags then set_nzcv_flags (drop_bit 63 res AND 1 \<noteq> 0) (res = 0) cf v c else c)
        else
          (let (res, cf, v) = (if is_sub then sbc_result else adc_result) (reg32 rn c) (reg32 rm c) (if carry then 1 else 0);
               c = set_reg32 rd res c
           in if set_flags then set_nzcv_flags (drop_bit 31 res AND 1 \<noteq> 0) (res = 0) cf v c else c))"

section \<open>Addresses and constants\<close>

definition adr_imm :: "u32 \<Rightarrow> u64" where
  "adr_imm insn =
    sign_extend (push_bit 2 (ucast (drop_bit 5 insn AND 0x7FFFF)) OR ucast (drop_bit 29 insn AND 0x3)) 21"

definition exec_adr :: "u32 \<Rightarrow> 'd cpu \<Rightarrow> 'd cpu" where
  "exec_adr insn c = set_reg (rd_of insn) ((c_pc c - 4) + adr_imm insn) c"

definition exec_adrp :: "u32 \<Rightarrow> 'd cpu \<Rightarrow> 'd cpu" where
  "exec_adrp insn c = set_reg (rd_of insn) (((c_pc c - 4) AND NOT 0xFFF) + push_bit 12 (adr_imm insn)) c"

definition exec_movz :: "u32 \<Rightarrow> 'd cpu \<Rightarrow> 'd cpu" where
  "exec_movz insn c =
    (let imm16 = ucast (drop_bit 5 insn AND 0xFFFF);
         hw = drop_bit 21 insn AND 0x3
     in set_reg_of (insn_sf insn) (rd_of insn) (push_bit (unat hw * 16) imm16) c)"

definition exec_movk :: "u32 \<Rightarrow> 'd cpu \<Rightarrow> 'd cpu option" where
  "exec_movk insn c =
    (let imm16 = ucast (drop_bit 5 insn AND 0xFFFF) :: u64;
         hw = drop_bit 21 insn AND 0x3;
         shift = unat hw * 16;
         rd = rd_of insn
     in if insn_sf insn then
          Some (set_reg rd ((reg rd c AND NOT (push_bit shift 0xFFFF)) OR push_bit shift imm16) c)
        else if hw > 1 then None
        else Some (set_reg32 rd ((reg32 rd c AND NOT (push_bit shift 0xFFFF)) OR ucast (push_bit shift imm16)) c))"

definition exec_movn :: "u32 \<Rightarrow> 'd cpu \<Rightarrow> 'd cpu option" where
  "exec_movn insn c =
    (let imm16 = ucast (drop_bit 5 insn AND 0xFFFF) :: u64;
         hw = drop_bit 21 insn AND 0x3;
         v = NOT (push_bit (unat hw * 16) imm16);
         rd = rd_of insn
     in if insn_sf insn then Some (set_reg rd v c)
        else if hw > 1 then None
        else Some (set_reg32 rd (ucast v) c))"

section \<open>Additions and subtractions\<close>

definition slow_sum :: "bool \<Rightarrow> bool \<Rightarrow> u64 \<Rightarrow> u64 \<Rightarrow> u64" where
  "slow_sum sf is_sub lhs rhs =
    (if is_sub then (if sf then lhs - rhs else ucast ((ucast lhs :: u32) - ucast rhs))
     else (if sf then lhs + rhs else ucast ((ucast lhs :: u32) + ucast rhs)))"

definition exec_add_sub_imm :: "bool \<Rightarrow> u32 \<Rightarrow> 'd cpu \<Rightarrow> 'd cpu" where
  "exec_add_sub_imm is_sub insn c =
    (let sf = insn_sf insn;
         imm12 = ucast (drop_bit 10 insn AND 0xFFF);
         rhs = push_bit (if drop_bit 22 insn AND 0x1 \<noteq> 0 then 12 else 0) imm12;
         lhs = sp_or_reg (rn_of insn) c
     in finish_add_sub sf (insn AND 0x20000000 \<noteq> 0) is_sub (rd_of insn) lhs rhs (slow_sum sf is_sub lhs rhs) c)"

definition exec_add_sub_shifted :: "bool \<Rightarrow> u32 \<Rightarrow> 'd cpu \<Rightarrow> 'd cpu option" where
  "exec_add_sub_shifted is_sub insn c =
    (let sf = insn_sf insn;
         shift_type = drop_bit 22 insn AND 0x3;
         imm6 = drop_bit 10 insn AND 0x3F
     in if shift_type > 2 then None
        else
          let rhs = add_sub_operand sf (rm_of insn) shift_type imm6 c;
              lhs = reg_of sf (rn_of insn) c
          in Some (finish_add_sub sf (insn AND 0x20000000 \<noteq> 0) is_sub (rd_of insn) lhs rhs
               (slow_sum sf is_sub lhs rhs) c))"

definition extended_operand :: "bool \<Rightarrow> nat \<Rightarrow> u32 \<Rightarrow> 'd cpu \<Rightarrow> u64" where
  "extended_operand sf rm option c =
    (let rm_x = reg rm c; rm_w = ucast (reg32 rm c) in
     if option = 0 then rm_w AND 0xFF
     else if option = 1 then rm_w AND 0xFFFF
     else if option = 2 then rm_w
     else if option = 3 then (if sf then rm_x else rm_w)
     else if option = 4 then sign_extend (rm_w AND 0xFF) 8
     else if option = 5 then sign_extend (rm_w AND 0xFFFF) 16
     else if option = 6 then sign_extend rm_w 32
     else (if sf then rm_x else rm_w))"

definition exec_add_sub_extended :: "u32 \<Rightarrow> 'd cpu \<Rightarrow> 'd cpu option" where
  "exec_add_sub_extended insn c =
    (let sf = insn_sf insn;
         is_sub = drop_bit 30 insn AND 0x1 \<noteq> 0;
         set_flags = drop_bit 29 insn AND 0x1 \<noteq> 0;
         imm3 = drop_bit 10 insn AND 0x7
     in if imm3 > 4 then None
        else
          let rhs = push_bit (unat imm3) (extended_operand sf (rm_of insn) (drop_bit 13 insn AND 0x7) c);
              lhs = sp_or_reg (rn_of insn) c
          in Some (finish_add_sub sf set_flags is_sub (rd_of insn) lhs rhs (decoded_sum sf is_sub lhs rhs) c))"

section \<open>Conditional selects\<close>

definition exec_csel :: "u32 \<Rightarrow> 'd cpu \<Rightarrow> 'd cpu" where
  "exec_csel insn c =
    (let sf = insn_sf insn;
         op = drop_bit 30 insn AND 0x1 \<noteq> 0;
         s = drop_bit 10 insn AND 0x1 \<noteq> 0;
         take_rn = condition_holds (drop_bit 12 insn AND 0xF) c;
         rn_val = reg_of sf (rn_of insn) c;
         rm_val = reg_of sf (rm_of insn) c;
         false_val = (if \<not> op \<and> s then rm_val + 1 else if op \<and> \<not> s then NOT rm_val
                      else if op \<and> s then - rm_val else rm_val)
     in set_reg_of sf (rd_of insn) (if take_rn then rn_val else false_val) c)"

section \<open>Checksums and bit counts\<close>

definition crc_rows :: "(u32 \<times> nat \<times> u32) list" where
  "crc_rows =
    [(0x1AC04000, 1, 0xEDB88320), (0x1AC04400, 2, 0xEDB88320), (0x1AC04800, 4, 0xEDB88320), (0x9AC04C00, 8, 0xEDB88320),
     (0x1AC05000, 1, 0x82F63B78), (0x1AC05400, 2, 0x82F63B78), (0x1AC05800, 4, 0x82F63B78), (0x9AC05C00, 8, 0x82F63B78)]"

definition exec_crc32 :: "nat \<Rightarrow> u32 \<Rightarrow> u32 \<Rightarrow> 'd cpu \<Rightarrow> 'd cpu" where
  "exec_crc32 bytes poly insn c =
    (let rm = rm_of insn; data = (if bytes = 8 then reg rm c else ucast (reg32 rm c))
     in set_reg32 (rd_of insn) (crc32_update (reg32 (rn_of insn) c) data bytes poly) c)"

definition is_one_source :: "u32 \<Rightarrow> bool" where
  "is_one_source insn \<longleftrightarrow> insn AND 0x5FE0FC00 \<in>
    {0x5AC00000, 0x5AC00400, 0x5AC00800, 0x5AC00C00, 0x5AC01000, 0x5AC01400}"

text \<open>\<open>__builtin_bswap32\<close> and \<open>__builtin_bswap64\<close> of the compiler.\<close>
definition bswap32 :: "u32 \<Rightarrow> u32" where "bswap32 w = le_word (rev (le_bytes 4 w))"
definition bswap64 :: "u64 \<Rightarrow> u64" where "bswap64 w = le_word (rev (le_bytes 8 w))"

definition one_source_value :: "bool \<Rightarrow> u32 \<Rightarrow> u64 \<Rightarrow> u64 option" where
  "one_source_value sf opcode src =
    (if opcode = 0 then Some (bit_reverse src (if sf then 64 else 32))
     else if opcode = 1 then
       (if sf then Some (push_bit 8 (src AND 0x00FF00FF00FF00FF) OR drop_bit 8 (src AND 0xFF00FF00FF00FF00))
        else
          let x = ucast src :: u32
          in Some (ucast (push_bit 8 (x AND 0x00FF00FF) OR drop_bit 8 (x AND 0xFF00FF00))))
     else if opcode = 2 then
       (if sf then
          let lo = ucast (src AND 0xFFFFFFFF) :: u32; hi = ucast (drop_bit 32 src AND 0xFFFFFFFF) :: u32
          in Some (push_bit 32 (ucast (bswap32 hi)) OR ucast (bswap32 lo))
        else Some (ucast (bswap32 (ucast src))))
     else if opcode = 3 then (if \<not> sf then None else Some (bswap64 src))
     else if opcode = 4 then
       (if sf then Some (if src = 0 then 64 else of_nat (builtin_clz src))
        else
          let x = ucast src :: u32
          in Some (if x = 0 then 32 else of_nat (builtin_clz x)))
     else if opcode = 5 then Some (if sf then cls64 src else ucast (cls32 (ucast src)))
     else None)"

definition exec_one_source :: "u32 \<Rightarrow> 'd cpu \<Rightarrow> 'd cpu option" where
  "exec_one_source insn c =
    (let sf = insn_sf insn in
     case one_source_value sf (drop_bit 10 insn AND 0x3F) (reg_of sf (rn_of insn) c) of
       None \<Rightarrow> None
     | Some v \<Rightarrow> Some (set_reg_of sf (rd_of insn) v c))"

section \<open>Divisions, shifts and products\<close>

text \<open>The quotient at either width: zero for a zero divisor, the dividend for the one overflow.\<close>
definition divide :: "bool \<Rightarrow> 'a::len word \<Rightarrow> 'a word \<Rightarrow> 'a word" where
  "divide is_signed lhs rhs =
    (if rhs = 0 then 0
     else if is_signed then
       (if lhs = push_bit (LENGTH('a) - 1) 1 \<and> sint rhs = - 1 then lhs else word_of_int (sint lhs sdiv sint rhs))
     else lhs div rhs)"

definition exec_div :: "u32 \<Rightarrow> 'd cpu \<Rightarrow> 'd cpu" where
  "exec_div insn c =
    (let is_signed = insn AND 0x00000400 \<noteq> 0; rd = rd_of insn; rn = rn_of insn; rm = rm_of insn in
     if insn_sf insn then set_reg rd (divide is_signed (reg rn c) (reg rm c)) c
     else set_reg32 rd (divide is_signed (reg32 rn c) (reg32 rm c)) c)"

definition variable_shift :: "bool \<Rightarrow> u32 \<Rightarrow> u64 \<Rightarrow> nat \<Rightarrow> u64" where
  "variable_shift sf shift_type src amount =
    (let width = (if sf then 64 else 32); m = ones width in
     if shift_type = 0 then push_bit amount src AND m
     else if shift_type = 1 then drop_bit amount (src AND m)
     else if shift_type = 2 then (if sf then asr64 src amount else ucast (asr32 (ucast src) amount))
     else ror src amount width)"

definition exec_shift :: "u32 \<Rightarrow> 'd cpu \<Rightarrow> 'd cpu" where
  "exec_shift insn c =
    (let sf = insn_sf insn;
         amount = unat (reg_of sf (rm_of insn) c AND (if sf then 63 else 31))
     in set_reg_of sf (rd_of insn)
          (variable_shift sf (drop_bit 10 insn AND 0x3) (reg_of sf (rn_of insn) c) amount) c)"

definition exec_madd_msub :: "u32 \<Rightarrow> 'd cpu \<Rightarrow> 'd cpu" where
  "exec_madd_msub insn c =
    (let is_sub = drop_bit 15 insn AND 0x1 \<noteq> 0; rd = rd_of insn; rn = rn_of insn; rm = rm_of insn; ra = ra_of insn in
     if insn_sf insn then
       (let prod = reg rn c * reg rm c; acc = reg ra c in set_reg rd (if is_sub then acc - prod else acc + prod) c)
     else
       (let prod = reg32 rn c * reg32 rm c; acc = reg32 ra c
        in set_reg32 rd (if is_sub then acc - prod else acc + prod) c))"

definition exec_maddl_msubl :: "u32 \<Rightarrow> 'd cpu \<Rightarrow> 'd cpu" where
  "exec_maddl_msubl insn c =
    (let is_unsigned = insn AND 0x00800000 \<noteq> 0;
         is_sub = insn AND 0x00008000 \<noteq> 0;
         l = reg32 (rn_of insn) c; r = reg32 (rm_of insn) c;
         acc = reg (ra_of insn) c;
         prod = (if is_unsigned then ucast l * ucast r else scast l * scast r)
     in set_reg (rd_of insn) (if is_sub then acc - prod else acc + prod) c)"

definition exec_mulh :: "u32 \<Rightarrow> 'd cpu \<Rightarrow> 'd cpu" where
  "exec_mulh insn c =
    (let l = reg (rn_of insn) c; r = reg (rm_of insn) c
     in set_reg (rd_of insn) (if insn AND 0x00800000 \<noteq> 0 then umulh64 l r else smulh64 l r) c)"

section \<open>Conditional compares\<close>

text \<open>The flags of the comparison at either width.\<close>
definition compare_flags :: "bool \<Rightarrow> 'a::len word \<Rightarrow> 'a word \<Rightarrow> pstate \<Rightarrow> pstate" where
  "compare_flags is_ccmn lhs rhs p =
    (let top = (\<lambda>w :: 'a word. drop_bit (LENGTH('a) - 1) w AND 1 \<noteq> 0);
         result = (if is_ccmn then lhs + rhs else lhs - rhs)
     in p\<lparr>ps_n := top result, ps_z := (result = 0),
          ps_c := (if is_ccmn then result < lhs else lhs \<ge> rhs),
          ps_v := (if is_ccmn then top lhs = top rhs \<and> top lhs \<noteq> top result
                   else top lhs \<noteq> top rhs \<and> top lhs \<noteq> top result)\<rparr>)"

definition exec_ccmp :: "u32 \<Rightarrow> 'd cpu \<Rightarrow> 'd cpu" where
  "exec_ccmp insn c =
    (let sf = insn_sf insn;
         is_ccmn = drop_bit 30 insn AND 0x1 = 0;
         imm_form = drop_bit 11 insn AND 0x1 \<noteq> 0;
         lhs = reg_of sf (rn_of insn) c;
         rhs = (if imm_form then ucast (drop_bit 16 insn AND 0x1F) else reg_of sf (rm_of insn) c)
     in if condition_holds (drop_bit 12 insn AND 0xF) c then
          on_sysregs (pstate_set (if sf then compare_flags is_ccmn lhs rhs
            else compare_flags is_ccmn (ucast lhs :: u32) (ucast rhs))) c
        else on_sysregs (set_nzcv (push_bit 28 (ucast (insn AND 0xF)))) c)"

section \<open>Extracts, logic and bitfields\<close>

definition exec_extr :: "u32 \<Rightarrow> 'd cpu \<Rightarrow> 'd cpu option" where
  "exec_extr insn c =
    (let sf = insn_sf insn;
         n = drop_bit 22 insn AND 0x1;
         lsb = unat (drop_bit 10 insn AND 0x3F);
         width = (if sf then 64 else 32)
     in if sf \<and> n \<noteq> 1 \<or> \<not> sf \<and> n \<noteq> 0 then None
        else if \<not> sf \<and> lsb \<ge> 32 \<or> lsb \<ge> 64 then None
        else
          let m = ones width;
              rn_val = reg_of sf (rn_of insn) c AND m;
              rm_val = reg_of sf (rm_of insn) c AND m;
              result = (if lsb = 0 then rm_val
                        else drop_bit lsb rm_val OR (push_bit (width - lsb) rn_val AND m))
          in Some (set_reg_of sf (rd_of insn) result c))"

definition exec_logical_shifted :: "u32 \<Rightarrow> 'd cpu \<Rightarrow> 'd cpu option" where
  "exec_logical_shifted insn c =
    (let sf = insn_sf insn;
         n = drop_bit 21 insn AND 0x1 \<noteq> 0;
         imm6 = drop_bit 10 insn AND 0x3F;
         rd = rd_of insn;
         opc = drop_bit 29 insn AND 0x3
     in if \<not> sf \<and> imm6 AND 0x20 \<noteq> 0 then None
        else
          let rhs = logical_operand sf n (rm_of insn) (drop_bit 22 insn AND 0x3) imm6 c;
              lhs = reg_of sf (rn_of insn) c;
              v = (if opc = 0 then lhs AND rhs else if opc = 1 then lhs OR rhs
                   else if opc = 2 then lhs XOR rhs else lhs AND rhs)
          in Some (if opc = 3 then
                     (let c = set_flags_logic v (\<not> sf) c in if rd \<noteq> 31 then set_reg_of sf rd v c else c)
                   else set_reg_of sf rd v c))"

definition exec_logical_imm :: "u32 \<Rightarrow> 'd cpu \<Rightarrow> 'd cpu option" where
  "exec_logical_imm insn c =
    (let sf = insn_sf insn;
         opc = drop_bit 29 insn AND 0x3;
         n = drop_bit 22 insn AND 0x1;
         immr = drop_bit 16 insn AND 0x3F;
         imms = drop_bit 10 insn AND 0x3F;
         rd = rd_of insn
     in if \<not> sf \<and> n \<noteq> 0 then None
        else case decode_bit_masks n imms immr (if sf then 64 else 32) of
          None \<Rightarrow> None
        | Some (wmask, tmask) \<Rightarrow>
            let lhs = reg_of sf (rn_of insn) c
            in if opc = 0 then Some (set_reg_of sf rd (lhs AND wmask) c)
               else if opc = 1 then Some (set_reg_of sf rd (lhs OR wmask) c)
               else if opc = 2 then Some (set_reg_of sf rd (lhs XOR wmask) c)
               else
                 let v = lhs AND wmask; c = set_flags_logic v (\<not> sf) c
                 in Some (if rd = 31 then c else set_reg_of sf rd v c))"

definition exec_bitfield :: "u32 \<Rightarrow> 'd cpu \<Rightarrow> 'd cpu option" where
  "exec_bitfield insn c =
    (let sf = insn_sf insn;
         opc = drop_bit 29 insn AND 0x3;
         n = drop_bit 22 insn AND 0x1;
         immr = drop_bit 16 insn AND 0x3F;
         imms = drop_bit 10 insn AND 0x3F;
         datasize = (if sf then 64 else 32);
         rd = rd_of insn
     in if sf \<and> n \<noteq> 1 \<or> \<not> sf \<and> n \<noteq> 0 then None
        else case decode_bit_masks n imms immr datasize of
          None \<Rightarrow> None
        | Some (wmask, tmask) \<Rightarrow>
            let src = reg_of sf (rn_of insn) c; dst = reg_of sf rd c
            in if opc > 2 then None
               else Some (set_reg_of sf rd (bitfield_value opc src dst immr imms datasize wmask tmask) c))"

section \<open>The chain of tests\<close>

definition exec_integer :: "u32 \<Rightarrow> 'd cpu \<Rightarrow> 'd cpu option" where
  "exec_integer insn c =
    (let wide = insn AND 0x7F800000; imm = insn AND 0x7F000000; shifted = insn AND 0x7F200000; two = insn AND 0x7FE0FC00 in
     if is_adc_sbc insn then Some (exec_adc_sbc insn c)
     else if insn AND 0x9F000000 = 0x10000000 then Some (exec_adr insn c)
     else if insn AND 0x9F000000 = 0x90000000 then Some (exec_adrp insn c)
     else if wide = 0x52800000 then Some (exec_movz insn c)
     else if wide = 0x72800000 then exec_movk insn c
     else if wide = 0x12800000 then exec_movn insn c
     else if is_addg_subg insn then Some (enter_sync_exception (c_pc c - 4) 0x00 0 False 0 c)
     else if imm = 0x11000000 \<or> imm = 0x31000000 then Some (exec_add_sub_imm False insn c)
     else if imm = 0x51000000 \<or> imm = 0x71000000 then Some (exec_add_sub_imm True insn c)
     else if shifted = 0x0B000000 \<or> shifted = 0x2B000000 then exec_add_sub_shifted False insn c
     else if shifted = 0x4B000000 \<or> shifted = 0x6B000000 then exec_add_sub_shifted True insn c
     else if insn AND 0x1F200000 = 0x0B200000 then exec_add_sub_extended insn c
     else if insn AND 0x1FE00C00 = 0x1A800000 \<or> insn AND 0x1FE00C00 = 0x1A800400 then Some (exec_csel insn c)
     else case map_of crc_rows (insn AND 0xFFC0FC00) of
       Some (bytes, poly) \<Rightarrow> Some (exec_crc32 bytes poly insn c)
     | None \<Rightarrow>
         if is_one_source insn then exec_one_source insn c
         else if two = 0x1AC00800 \<or> two = 0x1AC00C00 then Some (exec_div insn c)
         else if two = 0x1AC02000 \<or> two = 0x1AC02400 \<or> two = 0x1AC02800 \<or> two = 0x1AC02C00 then Some (exec_shift insn c)
         else if insn AND 0x1FE08000 = 0x1B000000 \<or> insn AND 0x1FE08000 = 0x1B008000 then Some (exec_madd_msub insn c)
         else if insn AND 0xFFE08000 \<in> {0x9B200000, 0x9B208000, 0x9BA00000, 0x9BA08000} then Some (exec_maddl_msubl insn c)
         else if insn AND 0xFFE0FC00 = 0x9BC07C00 \<or> insn AND 0xFFE0FC00 = 0x9B407C00 then Some (exec_mulh insn c)
         else if insn AND 0x1FE00010 = 0x1A400000 then Some (exec_ccmp insn c)
         else if insn AND 0x1F800000 = 0x13800000 then exec_extr insn c
         else if is_logical_shifted insn then exec_logical_shifted insn c
         else if is_logical_imm insn then exec_logical_imm insn c
         else if is_bitfield insn then exec_bitfield insn c
         else None)"

end
