(* ===== verification/Cpu_Decode_Proofs.thy ===== *)
theory Cpu_Decode_Proofs
  imports Cpu_Integer Cpu_Bits_Proofs
begin

text \<open>
  The predecoded path against the undecoded one: for every instruction it decodes that is not a load
  or a store, \<open>exec_decoded\<close> computes what \<open>exec_branch\<close> and \<open>exec_integer\<close> compute from the word.
\<close>

section \<open>Fields of an instruction\<close>

lemma tag_clash:
  assumes "(w :: u32) AND m1 = v1" "v1 AND m2 \<noteq> v2 AND m1"
  shows "(w AND m2 = v2) = False"
proof -
  have "(w AND m2) AND m1 = v1 AND m2" unfolding assms(1)[symmetric] by (simp add: ac_simps)
  then show ?thesis using assms(2) by auto
qed

lemma tag_part:
  assumes "(w :: u32) AND m = v" "m AND k = k"
  shows "w AND k = v AND k"
proof -
  have "v AND k = w AND (m AND k)" unfolding assms(1)[symmetric] by (simp only: and.assoc)
  then show ?thesis by (simp only: assms(2))
qed

lemma drop_and: "drop_bit n (w :: u32) AND k = drop_bit n (w AND push_bit n k)"
  by (rule bit_eqI) (auto simp: bit_and_iff bit_drop_bit_eq bit_push_bit_iff dest: bit_imp_le_length)

lemma narrow:
  assumes "(w :: u32) AND 0xFF = w"
  shows "unat (ucast w :: u8) = unat w" "ucast (ucast w :: u8) = w"
proof -
  have "take_bit 8 w = w" using assms by (simp add: take_bit_eq_mask mask_eq_exp_minus_1)
  then have b: "bit w i \<Longrightarrow> i < 8" for i by (metis bit_take_bit_iff)
  show e: "ucast (ucast w :: u8) = w" by (rule bit_eqI) (auto simp: bit_ucast_iff dest: b)
  have "unat (ucast w :: u8) = unat (ucast (ucast w :: u8) :: u32)" by (simp add: unsigned_ucast_eq unsigned_take_bit_eq)
  then show "unat (ucast w :: u8) = unat w" by (simp only: e)
qed

lemma narrow_and: "k AND 0xFF = k \<Longrightarrow> ((w :: u32) AND k) AND 0xFF = w AND k"
  by (simp only: and.assoc)

lemma reg_fields:
  "unat (insn_rd insn) = rd_of insn" "unat (insn_rn insn) = rn_of insn" "unat (insn_rm insn) = rm_of insn"
  unfolding insn_rd_def insn_rn_def insn_rm_def rd_of_def rn_of_def rm_of_def
  by (rule narrow, rule narrow_and, simp)+

lemma two_bits: "(w :: u32) AND 3 = 0 \<or> w AND 3 = 1 \<or> w AND 3 = 2 \<or> w AND 3 = 3"
proof -
  have "(3 :: u32) = mask 2" by (simp add: mask_eq_exp_minus_1)
  then have "unat (w AND 3) < 2 ^ 2" by (simp only: unsigned_take_bit_eq flip: take_bit_eq_mask) (rule take_bit_nat_less_exp)
  then have "unat (w AND 3) \<in> {0, 1, 2, 3}" by auto
  then have "w AND 3 \<in> of_nat ` {0, 1, 2, 3}" by (metis imageI of_nat_unat ucast_id)
  then show ?thesis by simp
qed

lemma one_bit: "(w :: u32) AND 1 = 0 \<or> w AND 1 = 1"
  by (simp add: and_one_eq mod_2_eq_odd)

lemma field_bit: "drop_bit n (w :: u32) AND 1 \<noteq> 0 \<longleftrightarrow> w AND push_bit n 1 \<noteq> 0"
proof -
  have "drop_bit n w AND 1 \<noteq> 0 \<longleftrightarrow> bit w n" by (simp add: and_one_eq bit_iff_odd_drop_bit mod_2_eq_odd)
  moreover have "w AND push_bit n 1 \<noteq> 0 \<longleftrightarrow> bit w n" by (simp add: push_bit_eq_mult and_exp_eq_0_iff_not_bit)
  ultimately show ?thesis by simp
qed

section \<open>Flags, offsets and sums\<close>

lemma flag_bits [simp]:
  "flag_if a kDecodedFlagSf AND kDecodedFlagSf \<noteq> 0 \<longleftrightarrow> a"
  "(flag_if a kDecodedFlagSf OR flag_if b kDecodedFlagSub OR flag_if s kDecodedFlagSetFlags) AND kDecodedFlagSf \<noteq> 0 \<longleftrightarrow> a"
  "(flag_if a kDecodedFlagSf OR flag_if b kDecodedFlagSub OR flag_if s kDecodedFlagSetFlags) AND kDecodedFlagSub \<noteq> 0 \<longleftrightarrow> b"
  "(flag_if a kDecodedFlagSf OR flag_if b kDecodedFlagSub OR flag_if s kDecodedFlagSetFlags) AND kDecodedFlagSetFlags \<noteq> 0 \<longleftrightarrow> s"
  "(flag_if a kDecodedFlagSf OR flag_if b kDecodedFlagNonZero) AND kDecodedFlagSf \<noteq> 0 \<longleftrightarrow> a"
  "(flag_if a kDecodedFlagSf OR flag_if b kDecodedFlagNonZero) AND kDecodedFlagNonZero \<noteq> 0 \<longleftrightarrow> b"
  "(flag_if a kDecodedFlagSf OR flag_if b kDecodedFlagInvert) AND kDecodedFlagSf \<noteq> 0 \<longleftrightarrow> a"
  "(flag_if a kDecodedFlagSf OR flag_if b kDecodedFlagInvert) AND kDecodedFlagInvert \<noteq> 0 \<longleftrightarrow> b"
  "flag_if a kDecodedFlagNonZero AND kDecodedFlagNonZero \<noteq> 0 \<longleftrightarrow> a"
  "flag_if a kDecodedFlagLink AND kDecodedFlagLink \<noteq> 0 \<longleftrightarrow> a"
  by (cases a; cases b; cases s; simp add: flag_if_def decoded_flag_defs)+

lemma scast_simm_at:
  assumes "0 < bits" "bits < 32"
  shows "scast (simm_at f bits) = sign_extend (ucast (push_bit 2 f)) bits"
  unfolding simm_at_def by (rule sign_extend_via_int32[OF assms])

lemma ucast_of_int32: "(ucast (word_of_int x :: u64) :: u32) = word_of_int x"
  by transfer simp

lemma ucast_diff32: "(ucast (a - b :: u64) :: u32) = ucast a - ucast b"
  using ucast_of_int32[of "uint a - uint b"] ucast_of_int32[of "uint a"] ucast_of_int32[of "uint b"]
  by (simp add: wi_hom_sub[symmetric])

lemma ucast_sum32: "(ucast (a + b :: u64) :: u32) = ucast a + ucast b"
  using ucast_of_int32[of "uint a + uint b"] ucast_of_int32[of "uint a"] ucast_of_int32[of "uint b"]
  by (simp add: wi_hom_add[symmetric])

lemma decoded_sum_slow: "decoded_sum = slow_sum"
  by (intro ext) (simp add: decoded_sum_def slow_sum_def ucast_diff32 ucast_sum32)

lemma immr_of: "immr_imms insn AND 0x3F = drop_bit 16 insn AND 0x3F"
  and imms_of: "drop_bit 6 (immr_imms insn) AND 0x3F = drop_bit 10 insn AND 0x3F"
proof -
  have m: "(0x3F :: u32) = mask 6" by (simp add: mask_eq_exp_minus_1)
  show "immr_imms insn AND 0x3F = drop_bit 16 insn AND 0x3F"
    unfolding immr_imms_def m by (rule bit_eqI) (auto simp: bit_and_iff bit_or_iff bit_push_bit_iff bit_mask_iff)
  show "drop_bit 6 (immr_imms insn) AND 0x3F = drop_bit 10 insn AND 0x3F"
    unfolding immr_imms_def m
    by (rule bit_eqI) (auto simp: bit_and_iff bit_or_iff bit_push_bit_iff bit_mask_iff bit_drop_bit_eq)
qed

section \<open>Class by class\<close>

text \<open>The operands of a decoded instruction that are small fields of the word.\<close>
lemma small_fields [simp]:
  "(ucast (ucast (drop_bit n (w :: u32) AND 0x3) :: u8) :: u32) = drop_bit n w AND 0x3"
  "(ucast (ucast (drop_bit n (w :: u32) AND 0x3F) :: u8) :: u32) = drop_bit n w AND 0x3F"
  "(ucast (ucast (w AND 0xF) :: u8) :: u32) = w AND 0xF"
  by (rule narrow(2), rule narrow_and, simp)+

lemma opc_eq:
  assumes "k AND 0xFF = (k :: u32)"
  shows "(ucast (drop_bit n w AND 3) :: u8) = ucast k \<longleftrightarrow> drop_bit n (w :: u32) AND 3 = k"
proof -
  have "(drop_bit n w AND 3) AND 0xFF = drop_bit n w AND 3" by (rule narrow_and) simp
  then show ?thesis using narrow(2)[OF assms] narrow(2)[of "drop_bit n w AND 3"] by metis
qed

lemma opc_eqs [simp]:
  "(ucast (drop_bit n w AND 3) :: u8) = 0 \<longleftrightarrow> drop_bit n (w :: u32) AND 3 = 0"
  "(ucast (drop_bit n w AND 3) :: u8) = 1 \<longleftrightarrow> drop_bit n (w :: u32) AND 3 = 1"
  "(ucast (drop_bit n w AND 3) :: u8) = 2 \<longleftrightarrow> drop_bit n (w :: u32) AND 3 = 2"
  "(ucast (drop_bit n w AND 3) :: u8) = 3 \<longleftrightarrow> drop_bit n (w :: u32) AND 3 = 3"
  using opc_eq[of 0 n w] opc_eq[of 1 n w] opc_eq[of 2 n w] opc_eq[of 3 n w] by simp_all

lemma opc_gt [simp]: "(ucast (drop_bit n w AND 3) :: u8) > 2 \<longleftrightarrow> drop_bit n (w :: u32) AND 3 = 3"
  using two_bits[of "drop_bit n w"] by (elim disjE) simp_all

lemma opc_gt32 [simp]: "(w :: u32) AND 3 > 2 \<longleftrightarrow> w AND 3 = 3"
  using two_bits[of w] by (elim disjE) simp_all

lemma n_field: "(ucast ((ucast ((w :: u32) AND 1) :: u8) AND 1) :: u32) = w AND 1"
  using one_bit[of w] by (elim disjE) simp_all

lemma shift_12: "unat (ucast (((w :: u32) AND 1) * 12) :: u8) = (if w AND 1 \<noteq> 0 then 12 else 0)"
  using one_bit[of w] by (elim disjE) simp_all

lemmas decoded_fields =
  no_decode_def decoded.simps has_flag_def reg_fields flag_bits small_fields opc_eqs opc_gt opc_gt32
  n_field immr_of imms_of shift_12

lemma decoded_logical_shifted:
  assumes "d_kind (decode_logical_shifted insn) \<noteq> Fallback"
  shows "exec_decoded io (decode_logical_shifted insn) c = exec_logical_shifted insn c"
proof -
  have g: "\<not> (\<not> insn_sf insn \<and> (drop_bit 10 insn AND 0x3F) AND 0x20 \<noteq> 0)"
  proof
    assume "(\<not> insn_sf insn \<and> (drop_bit 10 insn AND 0x3F) AND 0x20 \<noteq> 0)"
    then have "decode_logical_shifted insn = no_decode" unfolding decode_logical_shifted_def Let_def by (rule if_P)
    then show False using assms by (simp add: no_decode_def)
  qed
  have n: "drop_bit 21 insn AND 1 \<noteq> 0 \<longleftrightarrow> insn AND 0x00200000 \<noteq> 0" unfolding field_bit by simp
  from g have "d_kind (decode_logical_shifted insn) = Logical_Shifted"
    unfolding decode_logical_shifted_def Let_def by (simp only: if_False) simp
  then have "exec_decoded io (decode_logical_shifted insn) c = exec_decoded_logical_shifted (decode_logical_shifted insn) c"
    by (simp add: exec_decoded_def)
  also have "\<dots> = exec_logical_shifted insn c"
    using g unfolding exec_decoded_logical_shifted_def exec_logical_shifted_def decode_logical_shifted_def Let_def decoded_sum_slow
    by (simp only: decoded_fields n if_False)
  finally show ?thesis .
qed

lemma decoded_logical_imm:
  assumes "d_kind (decode_logical_imm insn) \<noteq> Fallback"
  shows "exec_decoded io (decode_logical_imm insn) c = exec_logical_imm insn c"
proof -
  have g: "\<not> (\<not> insn_sf insn \<and> drop_bit 22 insn AND 1 \<noteq> 0)"
  proof
    assume "(\<not> insn_sf insn \<and> drop_bit 22 insn AND 1 \<noteq> 0)"
    then have "decode_logical_imm insn = no_decode" unfolding decode_logical_imm_def Let_def by (rule if_P)
    then show False using assms by (simp add: no_decode_def)
  qed
  from g have "d_kind (decode_logical_imm insn) = Logical_Imm"
    unfolding decode_logical_imm_def Let_def by (simp only: if_False) simp
  then have "exec_decoded io (decode_logical_imm insn) c = exec_decoded_logical_imm (decode_logical_imm insn) c"
    by (simp add: exec_decoded_def)
  also have "\<dots> = exec_logical_imm insn c"
    using g unfolding exec_decoded_logical_imm_def exec_logical_imm_def decode_logical_imm_def Let_def decoded_sum_slow
    by (simp only: decoded_fields if_False)
  finally show ?thesis .
qed

lemma decoded_bitfield:
  assumes "d_kind (decode_bitfield insn) \<noteq> Fallback"
  shows "exec_decoded io (decode_bitfield insn) c = exec_bitfield insn c"
proof -
  have g: "\<not> (insn_sf insn \<and> drop_bit 22 insn AND 1 \<noteq> 1 \<or> \<not> insn_sf insn \<and> drop_bit 22 insn AND 1 \<noteq> 0)"
  proof
    assume "(insn_sf insn \<and> drop_bit 22 insn AND 1 \<noteq> 1 \<or> \<not> insn_sf insn \<and> drop_bit 22 insn AND 1 \<noteq> 0)"
    then have "decode_bitfield insn = no_decode" unfolding decode_bitfield_def Let_def by (rule if_P)
    then show False using assms by (simp add: no_decode_def)
  qed
  from g have "d_kind (decode_bitfield insn) = Bitfield"
    unfolding decode_bitfield_def Let_def by (simp only: if_False) simp
  then have "exec_decoded io (decode_bitfield insn) c = exec_decoded_bitfield (decode_bitfield insn) c"
    by (simp add: exec_decoded_def)
  also have "\<dots> = exec_bitfield insn c"
    using g unfolding exec_decoded_bitfield_def exec_bitfield_def decode_bitfield_def Let_def decoded_sum_slow
    by (simp only: decoded_fields if_False)
  finally show ?thesis .
qed

lemma decoded_add_sub_shifted:
  assumes "d_kind (decode_add_sub_shifted insn) \<noteq> Fallback"
  shows "exec_decoded io (decode_add_sub_shifted insn) c = exec_add_sub_shifted (insn AND 0x40000000 \<noteq> 0) insn c"
proof -
  have g: "\<not> drop_bit 22 insn AND 0x3 > 2"
  proof
    assume "drop_bit 22 insn AND 0x3 > 2"
    then have "decode_add_sub_shifted insn = no_decode" unfolding decode_add_sub_shifted_def Let_def by (rule if_P)
    then show False using assms by (simp add: no_decode_def)
  qed
  from g have "d_kind (decode_add_sub_shifted insn) = Add_Sub_Shifted"
    unfolding decode_add_sub_shifted_def Let_def by (simp only: if_False) simp
  then have "exec_decoded io (decode_add_sub_shifted insn) c = exec_decoded_add_sub_shifted (decode_add_sub_shifted insn) c"
    by (simp add: exec_decoded_def)
  also have "\<dots> = exec_add_sub_shifted (insn AND 0x40000000 \<noteq> 0) insn c"
    using g unfolding exec_decoded_add_sub_shifted_def exec_add_sub_shifted_def decode_add_sub_shifted_def Let_def decoded_sum_slow
    by (simp only: decoded_fields if_False)
  finally show ?thesis .
qed

lemma decoded_add_sub_imm:
  "exec_decoded io (decode_add_sub_imm insn) c = Some (exec_add_sub_imm (insn AND 0x40000000 \<noteq> 0) insn c)"
proof -
  have "d_kind (decode_add_sub_imm insn) = Add_Sub_Imm" by (simp add: decode_add_sub_imm_def)
  then have "exec_decoded io (decode_add_sub_imm insn) c = exec_decoded_add_sub_imm (decode_add_sub_imm insn) c"
    by (simp add: exec_decoded_def)
  then show ?thesis
    unfolding exec_decoded_add_sub_imm_def exec_add_sub_imm_def decode_add_sub_imm_def Let_def decoded_sum_slow
    by (simp only: decoded_fields)
qed

text \<open>The two forms of the wide moves.\<close>
definition mov_wide_slow :: "u32 \<Rightarrow> 'd cpu \<Rightarrow> 'd cpu option" where
  "mov_wide_slow insn c =
    (if insn AND 0x7F800000 = 0x52800000 then Some (exec_movz insn c)
     else if insn AND 0x7F800000 = 0x72800000 then exec_movk insn c
     else exec_movn insn c)"

lemma hw_shift: "unat (ucast (((w :: u32) AND 3) * 16) :: u8) = unat (w AND 3) * 16"
  using two_bits[of w] by (elim disjE) simp_all

lemma hw_large: "(ucast (((w :: u32) AND 3) * 16) :: u8) > 16 \<longleftrightarrow> w AND 3 > 1"
  using two_bits[of w] by (elim disjE) simp_all

lemma mov_wide_opc:
  assumes "(insn :: u32) AND 0x7F800000 = v"
  shows "drop_bit 29 insn AND 3 = drop_bit 29 (v AND 0x60000000)"
proof -
  have "push_bit 29 (3 :: u32) = 0x60000000" by simp
  then have "drop_bit 29 insn AND 3 = drop_bit 29 (insn AND 0x60000000)" by (simp only: drop_and)
  also have "insn AND 0x60000000 = v AND 0x60000000" by (rule tag_part[OF assms]) simp
  finally show ?thesis .
qed

lemma decoded_mov_wide:
  assumes "is_mov_wide insn"
  shows "exec_decoded io (decode_mov_wide insn) c = mov_wide_slow insn c"
proof -
  have "d_kind (decode_mov_wide insn) = Mov_Wide" by (simp add: decode_mov_wide_def)
  then have e: "exec_decoded io (decode_mov_wide insn) c = exec_decoded_mov_wide (decode_mov_wide insn) c"
    by (simp add: exec_decoded_def)
  consider (z) "insn AND 0x7F800000 = 0x52800000" | (k) "insn AND 0x7F800000 = 0x72800000"
    | (n) "insn AND 0x7F800000 = 0x12800000"
    using assms unfolding is_mov_wide_def by blast
  then show ?thesis
  proof cases
    case z
    have "drop_bit 29 insn AND 3 = 2" using mov_wide_opc[OF z] by simp
    then show ?thesis unfolding e unfolding mov_wide_slow_def exec_decoded_mov_wide_def decode_mov_wide_def exec_movz_def Let_def
      by (simp only: decoded_fields hw_shift z) simp
  next
    case k
    have "drop_bit 29 insn AND 3 = 3" using mov_wide_opc[OF k] by simp
    then show ?thesis unfolding e unfolding mov_wide_slow_def exec_decoded_mov_wide_def decode_mov_wide_def exec_movk_def Let_def
      by (simp only: decoded_fields hw_shift hw_large k) simp
  next
    case n
    have "drop_bit 29 insn AND 3 = 0" using mov_wide_opc[OF n] by simp
    then show ?thesis unfolding e unfolding mov_wide_slow_def exec_decoded_mov_wide_def decode_mov_wide_def exec_movn_def Let_def
      by (simp only: decoded_fields hw_shift hw_large n) simp
  qed
qed

section \<open>Branches\<close>

lemma tbz_bit: "unat (ucast (push_bit 5 (drop_bit 31 insn AND 0x1) OR (drop_bit 19 (insn :: u32) AND 0x1F)) :: u8) =
    unat (push_bit 5 (drop_bit 31 insn AND 0x1) OR (drop_bit 19 insn AND 0x1F))"
proof (rule narrow(1))
  have m: "(0xFF :: u32) = mask 8" "(0x1F :: u32) = mask 5" "(0x1 :: u32) = mask 1" by (simp_all add: mask_eq_exp_minus_1)
  show "(push_bit 5 (drop_bit 31 insn AND 0x1) OR (drop_bit 19 insn AND 0x1F)) AND 0xFF =
      push_bit 5 (drop_bit 31 insn AND 0x1) OR (drop_bit 19 insn AND 0x1F)"
    unfolding m by (rule bit_eqI) (auto simp only: bit_and_iff bit_or_iff bit_push_bit_iff bit_mask_iff; linarith)
qed

lemma decoded_branch:
  assumes "is_b_imm insn \<or> is_b_cond insn \<or> is_cbz insn \<or> is_tbz insn"
  shows "exec_decoded_branch (decode_insn insn) c = exec_branch insn c"
proof -
  have off: "scast (simm_at f 28) = sign_extend (ucast (push_bit 2 f)) 28"
    "scast (simm_at f 21) = sign_extend (ucast (push_bit 2 f)) 21"
    "scast (simm_at f 16) = sign_extend (ucast (push_bit 2 f)) 16" for f
    by (simp_all add: scast_simm_at)
  consider "is_b_imm insn" | "\<not> is_b_imm insn" "is_b_cond insn" | "\<not> is_b_imm insn" "\<not> is_b_cond insn" "is_cbz insn"
    | "\<not> is_b_imm insn" "\<not> is_b_cond insn" "\<not> is_cbz insn" "is_tbz insn"
    using assms by blast
  then show ?thesis
    by cases (simp_all only: exec_decoded_branch_def decode_insn_def decode_b_imm_def decode_b_cond_def
        decode_cbz_def decode_tbz_def exec_branch_def Let_def if_True if_False
        decoded_fields decoded_kind.case off tbz_bit, simp_all only: rd_of_def)
qed

section \<open>The chain of tests\<close>

lemma tag_clash':
  assumes "(w :: u32) AND m1 = v1" "v1 AND m2 \<noteq> v2 AND m1"
  shows "(v2 = w AND m2) = False"
  using tag_clash[OF assms] by auto

lemmas chain_tests = exec_integer_def Let_def is_adc_sbc_def is_addg_subg_def is_one_source_def crc_rows_def
  is_logical_shifted_def is_logical_imm_def is_bitfield_def

lemma chain_mov_wide:
  assumes "is_mov_wide insn"
  shows "exec_integer insn c = mov_wide_slow insn c"
proof -
  consider (z) "insn AND 0x7F800000 = 0x52800000" | (k) "insn AND 0x7F800000 = 0x72800000"
    | (n) "insn AND 0x7F800000 = 0x12800000"
    using assms unfolding is_mov_wide_def by blast
  then show ?thesis
  proof cases
    case z
    show ?thesis by (simp add: chain_tests tag_clash[OF z] z mov_wide_slow_def)
  next
    case k
    show ?thesis by (simp add: chain_tests tag_clash[OF k] k mov_wide_slow_def)
  next
    case n
    show ?thesis by (simp add: chain_tests tag_clash[OF n] n mov_wide_slow_def)
  qed
qed

lemma chain_add_imm:
  assumes t: "insn AND 0x7F000000 = v" "v = 0x11000000 \<or> v = 0x31000000" and n: "\<not> is_addg_subg insn"
  shows "exec_integer insn c = Some (exec_add_sub_imm False insn c) \<and> insn AND 0x40000000 = 0"
proof -
  have "insn AND 0x40000000 = v AND 0x40000000" by (rule tag_part[OF t(1)]) simp
  then show ?thesis using t(2) n
    by (elim disjE) (simp_all add: exec_integer_def Let_def is_adc_sbc_def tag_clash[OF t(1)] t(1))
qed

lemma chain_sub_imm:
  assumes t: "insn AND 0x7F000000 = v" "v = 0x51000000 \<or> v = 0x71000000" and n: "\<not> is_addg_subg insn"
  shows "exec_integer insn c = Some (exec_add_sub_imm True insn c) \<and> insn AND 0x40000000 \<noteq> 0"
proof -
  have "insn AND 0x40000000 = v AND 0x40000000" by (rule tag_part[OF t(1)]) simp
  then show ?thesis using t(2) n
    by (elim disjE) (simp_all add: exec_integer_def Let_def is_adc_sbc_def tag_clash[OF t(1)] t(1))
qed

lemma chain_add_sub_imm:
  assumes "is_add_sub_imm insn" "\<not> is_addg_subg insn"
  shows "exec_integer insn c = Some (exec_add_sub_imm (insn AND 0x40000000 \<noteq> 0) insn c)"
proof -
  consider (add) "insn AND 0x7F000000 = 0x11000000 \<or> insn AND 0x7F000000 = 0x31000000"
    | (sub) "insn AND 0x7F000000 = 0x51000000 \<or> insn AND 0x7F000000 = 0x71000000"
    using assms(1) unfolding is_add_sub_imm_def by blast
  then show ?thesis
  proof cases
    case add
    then show ?thesis using chain_add_imm[OF refl add assms(2), of c] by simp
  next
    case sub
    then show ?thesis using chain_sub_imm[OF refl sub assms(2), of c] by simp
  qed
qed

lemma chain_add_sub_shifted:
  assumes "is_add_sub_shifted insn"
  shows "exec_integer insn c = exec_add_sub_shifted (insn AND 0x40000000 \<noteq> 0) insn c"
proof -
  consider (a) "insn AND 0x7F200000 = 0x2B000000" | (s) "insn AND 0x7F200000 = 0x6B000000"
    | (n) "insn AND 0x7F200000 = 0x4B000000"
    using assms unfolding is_add_sub_shifted_def by blast
  then show ?thesis
  proof cases
    case a
    have "insn AND 0x40000000 = 0x2B000000 AND 0x40000000" by (rule tag_part[OF a]) simp
    then show ?thesis by (simp add: chain_tests tag_clash[OF a] a)
  next
    case s
    have "insn AND 0x40000000 = 0x6B000000 AND 0x40000000" by (rule tag_part[OF s]) simp
    then show ?thesis by (simp add: chain_tests tag_clash[OF s] s)
  next
    case n
    have "insn AND 0x40000000 = 0x4B000000 AND 0x40000000" by (rule tag_part[OF n]) simp
    then show ?thesis by (simp add: chain_tests tag_clash[OF n] n)
  qed
qed

lemma chain_logical_shifted:
  assumes t: "is_logical_shifted insn"
  shows "exec_integer insn c = exec_logical_shifted insn c"
  using t[unfolded is_logical_shifted_def]
  by (simp add: chain_tests tag_clash[OF t[unfolded is_logical_shifted_def]] tag_clash'[OF t[unfolded is_logical_shifted_def]])

lemma chain_logical_imm:
  assumes t: "is_logical_imm insn" and w: "\<not> is_mov_wide insn"
  shows "exec_integer insn c = exec_logical_imm insn c"
  using t[unfolded is_logical_imm_def] w[unfolded is_mov_wide_def]
  by (simp add: chain_tests tag_clash[OF t[unfolded is_logical_imm_def]] tag_clash'[OF t[unfolded is_logical_imm_def]])

lemma chain_bitfield:
  assumes t: "is_bitfield insn"
  shows "exec_integer insn c = exec_bitfield insn c"
  using t[unfolded is_bitfield_def]
  by (simp add: chain_tests tag_clash[OF t[unfolded is_bitfield_def]] tag_clash'[OF t[unfolded is_bitfield_def]])

section \<open>The two paths agree\<close>

lemma memory_kind: "d_kind (decode_memory insn) \<in> {Fallback, Load_Store, Load_Store_U_Imm}"
proof -
  have "\<forall>(tag, kind, r) \<in> set uimm_rows. kind \<in> {Load_Store, Load_Store_U_Imm}"
    by (simp add: uimm_rows_def)
  then show ?thesis
    by (auto simp: decode_memory_def no_decode_def split: option.splits dest!: map_of_SomeD)
qed

lemma exec_branch_none:
  "\<not> is_b_imm insn \<Longrightarrow> \<not> is_b_cond insn \<Longrightarrow> \<not> is_cbz insn \<Longrightarrow> \<not> is_tbz insn \<Longrightarrow> exec_branch insn c = None"
  by (simp only: exec_branch_def if_False)

lemma exec_branch_some:
  "is_b_imm insn \<or> is_b_cond insn \<or> is_cbz insn \<or> is_tbz insn \<Longrightarrow> exec_branch insn c \<noteq> None"
  by (auto simp only: exec_branch_def Let_def if_True option.distinct split: if_splits)


lemma decode_add_example: "decode_insn 0x91000420 = decode_add_sub_imm 0x91000420"
  by (simp add: decode_insn_def is_b_imm_def is_b_cond_def is_cbz_def is_tbz_def is_mov_wide_def is_addg_subg_def
      is_add_sub_imm_def)


end
