(* ===== verification/Decode_Cache_Proofs.thy ===== *)
theory Decode_Cache_Proofs
  imports Cpu_Decode
begin

text \<open>
  The decode cache is transparent: its invariant says that a valid slot holds the decoding of the
  word it was filled with, every operation keeps it, and a lookup compares that word.
\<close>

section \<open>The invariant\<close>

definition decode_page_ok :: "decode_page \<Rightarrow> bool" where
  "decode_page_ok pg \<longleftrightarrow> length (dp_raws pg) = kDecodePageSlots \<and> length (dp_insns pg) = kDecodePageSlots \<and>
    length (dp_valid_words pg) = kDecodePageSlots div 64 \<and>
    (\<forall>slot < kDecodePageSlots. slot_valid pg slot \<longrightarrow> dp_insns pg ! slot = decode_insn (dp_raws pg ! slot))"

definition decode_ok :: "decode_cache \<Rightarrow> bool" where
  "decode_ok d \<longleftrightarrow> length (dc_pages d) = kDecodeCachePages \<and> (\<forall>pg \<in> set (dc_pages d). decode_page_ok pg) \<and>
    (\<forall>l. dc_last_page d = Some l \<longrightarrow> l < kDecodeCachePages)"

lemma slot_valid_bit: "slot_valid pg slot \<longleftrightarrow> bit (dp_valid_words pg ! (slot div 64)) (slot mod 64)"
  unfolding slot_valid_def by (simp add: push_bit_eq_mult and_exp_eq_0_iff_not_bit)

lemma decode_page_ok_flags [simp]:
  "decode_page_ok (pg\<lparr>dp_valid := v\<rparr>) = decode_page_ok pg"
  by (simp add: decode_page_ok_def slot_valid_def)

lemma decode_page_ok_claimed:
  "decode_page_ok pg \<Longrightarrow>
    decode_page_ok (pg\<lparr>dp_valid := v, dp_context_epoch := e, dp_va_page := va, dp_pa_page := pa,
      dp_valid_words := map (\<lambda>_. 0) (dp_valid_words pg)\<rparr>)"
  by (simp add: decode_page_ok_def slot_valid_def kDecodePageSlots_def div_less_iff_less_mult)

lemma decode_page_ok_filled:
  assumes "decode_page_ok pg" "slot < kDecodePageSlots"
  shows "decode_page_ok (fill_slot slot insn pg)" "dp_insns (fill_slot slot insn pg) ! slot = decode_insn insn"
proof -
  let ?pg = "pg\<lparr>dp_insns := (dp_insns pg)[slot := decode_insn insn], dp_raws := (dp_raws pg)[slot := insn],
    dp_valid_words := (dp_valid_words pg)[slot div 64 := dp_valid_words pg ! (slot div 64) OR push_bit (slot mod 64) 1]\<rparr>"
  have len: "length (dp_raws pg) = 1024" "length (dp_insns pg) = 1024" "length (dp_valid_words pg) = 16"
    and slot: "slot < 1024" "slot div 64 < 16"
    using assms by (simp_all add: decode_page_ok_def kDecodePageSlots_def)
  have old: "s < 1024 \<Longrightarrow> slot_valid pg s \<Longrightarrow> dp_insns pg ! s = decode_insn (dp_raws pg ! s)" for s
    using assms(1) by (simp add: decode_page_ok_def kDecodePageSlots_def)
  have other: "slot_valid ?pg s \<Longrightarrow> s \<noteq> slot \<Longrightarrow> slot_valid pg s" for s
  proof -
    assume "slot_valid ?pg s" "s \<noteq> slot"
    moreover have "slot div 64 = s div 64 \<Longrightarrow> slot mod 64 \<noteq> s mod 64" using \<open>s \<noteq> slot\<close> by (metis mult_div_mod_eq)
    ultimately show "slot_valid pg s"
      using slot len by (auto simp: slot_valid_bit nth_list_update bit_or_iff bit_push_bit_iff bit_exp_iff split: if_splits)
  qed
  have new: "decode_page_ok ?pg"
    unfolding decode_page_ok_def kDecodePageSlots_def
    using len slot old other by (auto simp: nth_list_update)
  show "decode_page_ok (fill_slot slot insn pg)" using new assms(1) by (simp add: fill_slot_def)
  show "dp_insns (fill_slot slot insn pg) ! slot = decode_insn insn"
    using old[OF slot(1)] len slot by (auto simp: fill_slot_def)
qed

section \<open>Operations\<close>

lemma decode_ok_page: "decode_ok d \<Longrightarrow> i < kDecodeCachePages \<Longrightarrow> decode_page_ok (dc_pages d ! i)"
  by (auto simp: decode_ok_def)

lemma decode_ok_length: "decode_ok d \<Longrightarrow> length (dc_pages d) = kDecodeCachePages"
  by (simp add: decode_ok_def)

lemma decode_ok_update:
  "decode_ok d \<Longrightarrow> decode_page_ok pg \<Longrightarrow> (l = None \<or> (\<exists>k. l = Some k \<and> k < kDecodeCachePages)) \<Longrightarrow>
    decode_ok (d\<lparr>dc_pages := (dc_pages d)[i := pg], dc_last_page := l\<rparr>)"
  by (auto simp: decode_ok_def dest!: set_update_subset_insert[THEN subsetD])

lemma decode_ok_put:
  assumes "decode_ok d" "decode_page_ok pg"
  shows "decode_ok (d\<lparr>dc_pages := (dc_pages d)[i := pg]\<rparr>)"
  using assms by (auto simp: decode_ok_def dest!: set_update_subset_insert[THEN subsetD])

lemma decode_page_index_less: "decode_page_index va < kDecodeCachePages"
proof -
  have "(63 :: u64) = mask 6" by (simp add: mask_eq_exp_minus_1)
  then have "decode_page_index va < 2 ^ 6"
    unfolding decode_page_index_def
    by (simp only: unsigned_take_bit_eq flip: take_bit_eq_mask) (rule take_bit_nat_less_exp)
  then show ?thesis by (simp add: kDecodeCachePages_def)
qed

lemma decode_ok_invalidate_all: "decode_ok d \<Longrightarrow> decode_ok (invalidate_decode_all d)"
  by (auto simp: decode_ok_def invalidate_decode_all_def Let_def)

lemma decode_ok_drop: "decode_ok d \<Longrightarrow> i < kDecodeCachePages \<Longrightarrow> decode_ok (drop_decode_page i d)"
  unfolding drop_decode_page_def by (rule decode_ok_update) (auto simp: decode_ok_page, auto simp: decode_ok_def)

lemma decode_ok_va_page: "decode_ok d \<Longrightarrow> decode_ok (invalidate_decode_va_page p d)"
  by (simp add: invalidate_decode_va_page_def Let_def decode_ok_drop decode_page_index_less)

lemma decode_ok_fold: "(\<And>x d. x \<in> set xs \<Longrightarrow> decode_ok d \<Longrightarrow> decode_ok (f x d)) \<Longrightarrow> decode_ok d \<Longrightarrow> decode_ok (fold f xs d)"
  by (induction xs arbitrary: d) auto

lemma decode_ok_pa_page: "decode_ok d \<Longrightarrow> decode_ok (invalidate_decode_pa_page p d)"
  unfolding invalidate_decode_pa_page_def
  by (rule decode_ok_fold) (auto simp: decode_ok_drop decode_ok_length)

lemma decode_ok_va: "decode_ok d \<Longrightarrow> decode_ok (invalidate_decode_va va sz d)"
  unfolding invalidate_decode_va_def by (rule decode_ok_fold) (simp add: decode_ok_va_page)

lemma decode_ok_pa: "decode_ok d \<Longrightarrow> decode_ok (invalidate_decode_pa pa sz d)"
  unfolding invalidate_decode_pa_def by (rule decode_ok_fold) (simp add: decode_ok_pa_page)

lemma decode_ok_claim:
  assumes "decode_ok d"
  shows "decode_ok (snd (claim_decode_page va pa d))" "fst (claim_decode_page va pa d) < kDecodeCachePages"
proof -
  let ?i = "decode_page_index va"
  have i: "?i < kDecodeCachePages" by (rule decode_page_index_less)
  have "decode_ok (d\<lparr>dc_last_page := Some ?i\<rparr>)" using assms i by (auto simp: decode_ok_def)
  moreover have "decode_ok (d\<lparr>dc_pages := (dc_pages d)[?i := (dc_pages d ! ?i)\<lparr>dp_valid := True,
      dp_context_epoch := dc_context_epoch d, dp_va_page := va, dp_pa_page := pa,
      dp_valid_words := map (\<lambda>_. 0) (dp_valid_words (dc_pages d ! ?i))\<rparr>], dc_last_page := Some ?i\<rparr>)"
    using assms i by (intro decode_ok_update decode_page_ok_claimed decode_ok_page) auto
  ultimately show "decode_ok (snd (claim_decode_page va pa d))" by (simp add: claim_decode_page_def Let_def)
  show "fst (claim_decode_page va pa d) < kDecodeCachePages" using i by (simp add: claim_decode_page_def Let_def)
qed

lemma decode_ok_select:
  assumes "decode_ok d"
  shows "decode_ok (snd (select_decode_page va pa d))" "fst (select_decode_page va pa d) < kDecodeCachePages"
  using assms decode_ok_claim[OF assms] by (auto simp: select_decode_page_def decode_ok_def split: option.splits)

lemma decode_slot_less: "unat (drop_bit 2 va AND (of_nat kDecodePageSlots - 1) :: u64) < kDecodePageSlots"
proof -
  have "(of_nat kDecodePageSlots - 1 :: u64) = mask 10" by (simp add: kDecodePageSlots_def mask_eq_exp_minus_1)
  then have "unat (drop_bit 2 va AND (of_nat kDecodePageSlots - 1) :: u64) < 2 ^ 10"
    by (simp only: unsigned_take_bit_eq flip: take_bit_eq_mask) (rule take_bit_nat_less_exp)
  then show ?thesis by (simp add: kDecodePageSlots_def)
qed

lemma lookup_decoded_ok:
  assumes "decode_ok (c_decode c)"
  shows "decode_ok (c_decode (snd (lookup_decoded va pa insn c)))"
    "c_predecode_enabled c \<Longrightarrow> fst (lookup_decoded va pa insn c) = Some (decode_insn insn)"
proof -
  let ?slot = "unat (drop_bit 2 va AND (of_nat kDecodePageSlots - 1) :: u64)"
  obtain i d where sel: "select_decode_page (va AND NOT 0xFFF) (pa AND NOT 0xFFF) (c_decode c) = (i, d)"
    by (cases "select_decode_page (va AND NOT 0xFFF) (pa AND NOT 0xFFF) (c_decode c)")
  have d: "decode_ok d" "i < kDecodeCachePages"
    using decode_ok_select[OF assms, of "va AND NOT 0xFFF" "pa AND NOT 0xFFF"] by (simp_all only: sel fst_conv snd_conv)
  note filled = decode_page_ok_filled[OF decode_ok_page[OF d] decode_slot_less[of va], of insn]
  show "decode_ok (c_decode (snd (lookup_decoded va pa insn c)))"
    unfolding lookup_decoded_def Let_def sel using assms decode_ok_put[OF d(1) filled(1)] by simp
  show "c_predecode_enabled c \<Longrightarrow> fst (lookup_decoded va pa insn c) = Some (decode_insn insn)"
    unfolding lookup_decoded_def Let_def sel using filled(2) by simp
qed

text \<open>
  C4. The decode cache never changes what an instruction is. While its invariant holds, a lookup
  gives the decoding of the word that was fetched, whatever the slot held before and whether or not
  code was written since; and the lookup and every invalidation keep the invariant.
\<close>
theorem decode_cache_exact:
  assumes "decode_ok (c_decode c)"
  shows "(c_predecode_enabled c \<longrightarrow> fst (lookup_decoded va pa insn c) = Some (decode_insn insn)) \<and>
    decode_ok (c_decode (snd (lookup_decoded va pa insn c))) \<and>
    decode_ok (invalidate_decode_all (c_decode c)) \<and>
    decode_ok (invalidate_decode_va_page va (c_decode c)) \<and>
    decode_ok (c_decode (on_code_write va pa sz c)) \<and>
    decode_ok (c_decode (set_predecode_enabled e c)) \<and>
    decode_ok (c_decode (notify_external_memory_write pa sz c))"
  using lookup_decoded_ok[OF assms] assms
  by (auto simp: decode_ok_invalidate_all decode_ok_va_page decode_ok_va decode_ok_pa on_code_write_def on_decode_def
      set_predecode_enabled_def notify_external_memory_write_def clear_exclusive_monitor_def Let_def)

definition empty_decode_page :: decode_page where
  "empty_decode_page = \<lparr>dp_valid = False, dp_context_epoch = 0, dp_va_page = 0, dp_pa_page = 0,
    dp_raws = replicate kDecodePageSlots 0, dp_valid_words = replicate (kDecodePageSlots div 64) 0,
    dp_insns = replicate kDecodePageSlots no_decode\<rparr>"

definition empty_decode_cache :: decode_cache where
  "empty_decode_cache = \<lparr>dc_context_epoch = 1, dc_pages = replicate kDecodeCachePages empty_decode_page, dc_last_page = None\<rparr>"

lemma decode_ok_empty: "decode_ok empty_decode_cache"
  by (simp add: decode_ok_def empty_decode_cache_def decode_page_ok_def empty_decode_page_def slot_valid_def
      kDecodePageSlots_def kDecodeCachePages_def div_less_iff_less_mult)

theorem decode_cache_exact_witness:
  "\<forall>c. fst (lookup_decoded 0x80000 0x80000 0x91000420
      (c\<lparr>c_decode := empty_decode_cache, c_predecode_enabled := True\<rparr> :: unit cpu)) = Some (decode_insn 0x91000420)"
proof
  fix c :: "unit cpu"
  show "fst (lookup_decoded 0x80000 0x80000 0x91000420 (c\<lparr>c_decode := empty_decode_cache, c_predecode_enabled := True\<rparr>)) =
      Some (decode_insn 0x91000420)"
    using decode_cache_exact[of "c\<lparr>c_decode := empty_decode_cache, c_predecode_enabled := True\<rparr>"
        "0x80000" "0x80000" "0x91000420"] decode_ok_empty by simp
qed

end
