(* ===== verification/Cpu_Flags_Proofs.thy ===== *)
theory Cpu_Flags_Proofs
  imports Cpu_Integer
begin

text \<open>
  The condition flags against the reference \<open>AddWithCarry\<close>: every addition, subtraction and
  comparison sets them as the exact sum of the operands, unsigned and signed, says.
\<close>

section \<open>The reference\<close>

text \<open>The result, whether the unsigned sum does not fit and whether the signed sum does not.\<close>
definition add_with_carry :: "'a::len word \<Rightarrow> 'a word \<Rightarrow> bool \<Rightarrow> 'a word \<times> bool \<times> bool" where
  "add_with_carry x y c =
    (let usum = uint x + uint y + of_bool c;
         ssum = sint x + sint y + of_bool c;
         result = word_of_int usum
     in (result, uint result \<noteq> usum, sint result \<noteq> ssum))"

definition flags_of :: "'a::len word \<times> bool \<times> bool \<Rightarrow> pstate \<Rightarrow> pstate" where
  "flags_of r p = (let (result, cf, v) = r
    in p\<lparr>ps_n := sint result < 0, ps_z := (result = 0), ps_c := cf, ps_v := v\<rparr>)"

section \<open>Signs and sums\<close>

lemma neg_bit: "drop_bit (LENGTH('a) - 1) (w :: 'a::len word) AND 1 \<noteq> 0 \<longleftrightarrow> sint w < 0"
  using bit_last_iff[of w] by (simp add: and_one_eq mod_2_eq_odd bit_iff_odd_drop_bit)

lemma top_bit: "w AND push_bit (LENGTH('a) - 1) 1 \<noteq> 0 \<longleftrightarrow> sint (w :: 'a::len word) < 0"
  using bit_last_iff[of w] by (simp add: push_bit_eq_mult and_exp_eq_0_iff_not_bit)

lemma neg_xor: "sint (a XOR b) < 0 \<longleftrightarrow> (sint a < 0) \<noteq> (sint (b :: 'a::len word) < 0)"
  using bit_last_iff[of "a XOR b"] bit_last_iff[of a] bit_last_iff[of b] by (simp add: bit_xor_iff)

lemma neg_and: "sint (a AND b) < 0 \<longleftrightarrow> sint a < 0 \<and> sint (b :: 'a::len word) < 0"
  using bit_last_iff[of "a AND b"] bit_last_iff[of a] bit_last_iff[of b] by (simp add: bit_and_iff)

lemma neg_not: "sint (NOT a) < 0 \<longleftrightarrow> \<not> sint (a :: 'a::len word) < 0"
  using bit_last_iff[of "NOT a"] bit_last_iff[of a] by (simp add: bit_not_iff)

lemma sint_range: "- (2 ^ (LENGTH('a) - 1)) \<le> sint (w :: 'a::len word)" "sint w < 2 ^ (LENGTH('a) - 1)"
  using sint_greater_eq[of w] sint_less[of w] by simp_all

lemma two_halves: "(2 :: int) ^ LENGTH('a::len) = 2 * 2 ^ (LENGTH('a) - 1)"
  by (cases "LENGTH('a)") simp_all

lemma near_multiple:
  fixes h k :: int
  assumes "0 < h" "- (3 * h) \<le> (2 * h) * k" "(2 * h) * k < 3 * h"
  shows "k = - 1 \<or> k = 0 \<or> k = 1"
proof -
  have "\<not> 2 \<le> k"
  proof
    assume "2 \<le> k"
    then have "(2 * h) * 2 \<le> (2 * h) * k" using assms(1) by (intro mult_left_mono) auto
    then show False using assms by linarith
  qed
  moreover have "\<not> k \<le> - 2"
  proof
    assume "k \<le> - 2"
    then have "(2 * h) * k \<le> (2 * h) * (- 2)" using assms(1) by (intro mult_left_mono) auto
    then show False using assms by linarith
  qed
  ultimately show ?thesis by linarith
qed

lemma sint_cong:
  fixes w :: "'a::len word"
  assumes "sint w mod 2 ^ LENGTH('a) = s mod 2 ^ LENGTH('a)"
    "- (2 * 2 ^ (LENGTH('a) - 1)) \<le> s" "s < 2 * 2 ^ (LENGTH('a) - 1)"
  shows "sint w = s \<or> sint w = s + 2 * 2 ^ (LENGTH('a) - 1) \<or> sint w = s - 2 * 2 ^ (LENGTH('a) - 1)"
proof -
  let ?h = "2 ^ (LENGTH('a) - 1) :: int"
  have "2 * ?h dvd sint w - s" using assms(1) by (simp only: two_halves mod_eq_dvd_iff)
  then obtain k where k: "sint w - s = (2 * ?h) * k" by (rule dvdE)
  have "- (3 * ?h) \<le> (2 * ?h) * k" "(2 * ?h) * k < 3 * ?h"
    using assms(2,3) sint_range[of w] unfolding k[symmetric] by linarith+
  then have "k = - 1 \<or> k = 0 \<or> k = 1" by (rule near_multiple[rotated]) simp
  then show ?thesis using k by (elim disjE) simp_all
qed

lemma overflow_iff:
  fixes x y :: "'a::len word"
  shows "sint (x + y + of_bool c) \<noteq> sint x + sint y + of_bool c \<longleftrightarrow>
    (sint x < 0) = (sint y < 0) \<and> (sint x < 0) \<noteq> (sint (x + y + of_bool c) < 0)"
proof -
  let ?r = "x + y + of_bool c" and ?s = "sint x + sint y + of_bool c" and ?h = "2 ^ (LENGTH('a) - 1) :: int"
  have "word_of_int (sint ?r) = (word_of_int ?s :: 'a word)" by (simp add: wi_hom_add[symmetric])
  then have "sint ?r mod 2 ^ LENGTH('a) = ?s mod 2 ^ LENGTH('a)" by (simp only: word_of_int_eq_iff take_bit_eq_mod)
  moreover have r: "- ?h \<le> sint x" "sint x < ?h" "- ?h \<le> sint y" "sint y < ?h" "- ?h \<le> sint ?r" "sint ?r < ?h"
    by (rule sint_range)+
  have c: "0 \<le> (of_bool c :: int)" "(of_bool c :: int) \<le> 1" by simp_all
  have "- (2 * ?h) \<le> ?s" "?s < 2 * ?h" using r c by linarith+
  ultimately have "sint ?r = ?s \<or> sint ?r = ?s + 2 * ?h \<or> sint ?r = ?s - 2 * ?h"
    by (intro sint_cong)
  then show ?thesis using r c by (elim disjE) linarith+
qed

lemma carry_iff:
  fixes x y :: "'a::len word"
  shows "uint (x + y + of_bool c) \<noteq> uint x + uint y + of_bool c \<longleftrightarrow> x + y < x \<or> x + y + of_bool c < x + y"
proof -
  have b: "0 \<le> uint x" "uint x < 2 ^ LENGTH('a)" "0 \<le> uint y" "uint y < 2 ^ LENGTH('a)" by simp_all
  have s: "uint (x + y) = (if uint x + uint y < 2 ^ LENGTH('a) then uint x + uint y else uint x + uint y - 2 ^ LENGTH('a))"
    by (rule uint_plus_if')
  show ?thesis
  proof (cases c)
    case False
    then show ?thesis using b s by (simp add: word_less_def)
  next
    case True
    have "uint (x + y + 1) = (if uint (x + y) + 1 < 2 ^ LENGTH('a) then uint (x + y) + 1 else uint (x + y) + 1 - 2 ^ LENGTH('a))"
      using uint_plus_if'[of "x + y" 1] by simp
    moreover have "0 \<le> uint (x + y)" "uint (x + y) < 2 ^ LENGTH('a)" by simp_all
    ultimately show ?thesis using True b s by (simp add: word_less_def)
  qed
qed

lemma mod_fits: "0 \<le> s \<Longrightarrow> 0 < m \<Longrightarrow> s mod m = s \<longleftrightarrow> s < (m :: int)"
  by (metis mod_pos_pos_trivial pos_mod_bound)

lemma sub_flags:
  fixes x y :: "'a::len word"
  shows "sint (x - y - of_bool (\<not> c)) = sint (x + NOT y + of_bool c)"
    "uint (x + NOT y + of_bool c) = uint x + uint (NOT y) + of_bool c \<longleftrightarrow> x < y \<or> \<not> c \<and> x = y"
proof -
  have e: "x - y - of_bool (\<not> c) = x + NOT y + of_bool c" by (cases c) (simp_all add: not_eq_complement)
  then show "sint (x - y - of_bool (\<not> c)) = sint (x + NOT y + of_bool c)" by (simp only:)
  have b: "0 \<le> uint x" "uint x < 2 ^ LENGTH('a)" "0 \<le> uint y" "uint y < 2 ^ LENGTH('a)" by simp_all
  have "NOT y = - 1 - y" by (simp add: not_eq_complement)
  then have n: "uint (NOT y) = 2 ^ LENGTH('a) - 1 - uint y"
    using b uint_sub_if'[of "- 1" y] by (simp add: unsigned_minus_1_eq_mask mask_eq_exp_minus_1)
  have "uint (x + NOT y + of_bool c) = (uint x + uint (NOT y) + of_bool c) mod 2 ^ LENGTH('a)"
    by (cases c) (simp_all add: uint_word_ariths mod_simps)
  moreover have "0 \<le> uint x + uint (NOT y) + of_bool c" by (cases c) simp_all
  ultimately have "uint (x + NOT y + of_bool c) = uint x + uint (NOT y) + of_bool c \<longleftrightarrow>
      uint x + uint (NOT y) + of_bool c < 2 ^ LENGTH('a)"
    by (simp add: mod_fits)
  also have "\<dots> \<longleftrightarrow> x < y \<or> \<not> c \<and> x = y"
    unfolding n by (cases c) (auto simp: word_less_def word_uint_eq_iff)
  finally show "uint (x + NOT y + of_bool c) = uint x + uint (NOT y) + of_bool c \<longleftrightarrow> x < y \<or> \<not> c \<and> x = y" .
qed

section \<open>The code against it\<close>

lemma adc_exact: "adc_result x y (of_bool c) = add_with_carry x y c"
proof -
  have "NOT (x XOR y) AND (x XOR (x + y + of_bool c)) AND push_bit (LENGTH('a) - 1) 1 \<noteq> 0 \<longleftrightarrow>
      sint (x + y + of_bool c) \<noteq> sint x + sint y + of_bool c" (is "?a \<longleftrightarrow> _")
    unfolding overflow_iff and.assoc[symmetric] top_bit neg_and neg_not neg_xor by blast
  moreover have "word_of_int (uint x + uint y + of_bool c) = x + y + of_bool c" by (cases c) simp_all
  ultimately show ?thesis using carry_iff[of x y c]
    by (simp only: adc_result_def add_with_carry_def Let_def)
qed

lemma sbc_exact: "sbc_result x y (of_bool c) = add_with_carry x (NOT y) c"
proof -
  let ?r = "x + NOT y + of_bool c"
  have e: "x - y - (if of_bool c \<noteq> (0 :: 'a word) then 0 else 1) = ?r"
    by (cases c) (simp_all add: not_eq_complement)
  have "(x XOR y) AND (x XOR ?r) AND push_bit (LENGTH('a) - 1) 1 \<noteq> 0 \<longleftrightarrow>
      sint ?r \<noteq> sint x + sint (NOT y) + of_bool c"
    unfolding overflow_iff and.assoc[symmetric] top_bit neg_and neg_not neg_xor by blast
  moreover have "word_of_int (uint x + uint (NOT y) + of_bool c) = ?r" by (cases c) simp_all
  moreover have "\<not> (x < y \<or> (if of_bool c \<noteq> (0 :: 'a word) then 0 else 1) \<noteq> (0 :: 'a word) \<and> x = y) \<longleftrightarrow>
      uint ?r \<noteq> uint x + uint (NOT y) + of_bool c"
    unfolding sub_flags(2) by (cases c) simp_all
  ultimately show ?thesis by (simp only: sbc_result_def add_with_carry_def Let_def e)
qed

lemma compare_exact:
  "compare_flags True x y p = flags_of (add_with_carry x y False) p"
  "compare_flags False x y p = flags_of (add_with_carry x (NOT y) True) p"
proof -
  have a: "sint (x + y) \<noteq> sint x + sint y \<longleftrightarrow> (sint x < 0) = (sint y < 0) \<and> (sint x < 0) \<noteq> (sint (x + y) < 0)"
    using overflow_iff[of x y False] by simp
  have cy: "uint (x + y) \<noteq> uint x + uint y \<longleftrightarrow> x + y < x" using carry_iff[of x y False] by simp
  show "compare_flags True x y p = flags_of (add_with_carry x y False) p"
    unfolding compare_flags_def flags_of_def add_with_carry_def Let_def neg_bit
    using a cy by (simp add: wi_hom_add[symmetric])
  have e: "x + NOT y + 1 = x - y" by (simp add: not_eq_complement)
  have b: "sint (x - y) \<noteq> sint x + sint (NOT y) + 1 \<longleftrightarrow>
      (sint x < 0) \<noteq> (sint y < 0) \<and> (sint x < 0) \<noteq> (sint (x - y) < 0)"
    using overflow_iff[of x "NOT y" True] unfolding neg_not by (simp add: e del: not_eq_complement)
  have cb: "uint (x - y) \<noteq> uint x + uint (NOT y) + 1 \<longleftrightarrow> \<not> x < y"
    using sub_flags(2)[of x y True] by (simp add: e)
  have w: "word_of_int (uint x + uint (NOT y) + 1) = x - y"
    by (simp add: e[symmetric])
  show "compare_flags False x y p = flags_of (add_with_carry x (NOT y) True) p"
    unfolding compare_flags_def flags_of_def add_with_carry_def Let_def neg_bit of_bool_eq w
    using b cb by (simp add: not_less)
qed

lemma low_half: "(w :: u64) AND 0xFFFFFFFF = take_bit 32 w"
  by (simp add: take_bit_eq_mask mask_eq_exp_minus_1)

lemma low_half_drop: "drop_bit 31 (w AND 0xFFFFFFFF) AND 1 \<noteq> (0 :: u64) \<longleftrightarrow> drop_bit 31 (ucast w :: u32) AND 1 \<noteq> 0"
proof -
  have "bit (take_bit 32 w) 31 \<longleftrightarrow> bit (ucast w :: u32) 31" by (simp add: bit_simps)
  then show ?thesis unfolding low_half by (simp only: and_one_eq mod_2_eq_odd bit_iff_odd_drop_bit) simp
qed

lemma low_half_zero: "w AND 0xFFFFFFFF = (0 :: u64) \<longleftrightarrow> (ucast w :: u32) = 0"
  unfolding low_half by (simp add: bit_eq_iff bit_simps) force

lemma ucast_low: "(ucast (w AND 0xFFFFFFFF :: u64) :: u32) = ucast w"
  unfolding low_half by (rule bit_word_eqI) (simp add: bit_simps)

lemma top_bits: "LENGTH(32) - 1 = 31" "LENGTH(64) - 1 = 63" by simp_all

lemma flags_as_compare:
  "flags_after_add x y (x + y) True p = compare_flags True (ucast x :: u32) (ucast y) p"
  "flags_after_add x y (x + y) False p = compare_flags True x y p"
  "flags_after_sub x y (x - y) True p = compare_flags False (ucast x :: u32) (ucast y) p"
  "flags_after_sub x y (x - y) False p = compare_flags False x y p"
  by (simp_all only: flags_after_add_def flags_after_sub_def compare_flags_def Let_def if_True if_False
        low_half_drop low_half_zero ucast_low ucast_add_u32 ucast_diff_u32 
        and.right_neutral bit.compl_zero top_bits)

section \<open>The flags of the program\<close>


end
