(* ===== verification/Tlb_Proofs.thy ===== *)
theory Tlb_Proofs
  imports Cpu_Memory
begin

text \<open>
  Address translation: what a table walk returns, the well-formedness of the TLB, an entry filled
  by one access serving the next, an invalidated page going back to the tables, and the addresses
  that one entry serves.
\<close>

section \<open>Frames\<close>

lemma on_perf_get [simp]:
  "c_sysregs (on_perf f c) = c_sysregs c" "c_tlb (on_perf f c) = c_tlb c" "c_last (on_perf f c) = c_last c"
  "c_bus (on_perf f c) = c_bus c"
  by (simp_all add: on_perf_def)

lemma on_tlb_get [simp]: "c_sysregs (on_tlb f c) = c_sysregs c" "c_tlb (on_tlb f c) = f (c_tlb c)"
  by (simp_all add: on_tlb_def)

lemma begin_translation_get [simp]:
  "c_sysregs (begin_translation c) = c_sysregs c" "c_tlb (begin_translation c) = c_tlb c"
  by (simp_all add: begin_translation_def)

lemma note_get [simp]:
  "c_sysregs (note_translation_fault f c) = c_sysregs c" "c_tlb (note_translation_fault f c) = c_tlb c"
  by (simp_all add: note_translation_fault_def on_last_def)

lemma bus_read_frame:
  "cpu_bus_read io pa sz c = (v, c') \<Longrightarrow> c_sysregs c' = c_sysregs c \<and> c_tlb c' = c_tlb c"
  by (auto simp: cpu_bus_read_def split: outcome.splits)

lemma asid_cong: "c_sysregs c' = c_sysregs c \<Longrightarrow> current_translation_asid c' = current_translation_asid c"
  by (simp add: current_translation_asid_def ttbr_asid_def mmu_asid_mask_def Let_def)

lemma permitted_cong: "c_sysregs c' = c_sysregs c \<Longrightarrow> access_permitted p a l pan c' = access_permitted p a l pan c"
  unfolding access_permitted_def Let_def by (erule ssubst) (rule refl)

lemma normalize_cong: "c_sysregs c' = c_sysregs c \<Longrightarrow> normalize_stage1_address va c' = normalize_stage1_address va c"
  by (simp add: normalize_stage1_address_def effective_tbi_def Let_def)

section \<open>Walks\<close>

definition walk_good :: "walk_args \<Rightarrow> translation_result \<Rightarrow> 'd cpu \<Rightarrow> bool" where
  "walk_good a r c \<longleftrightarrow> (\<forall>i. 48 \<le> i \<longrightarrow> \<not> bit (tr_pa r) i) \<and> tr_pa r AND 0xFFF = wk_va a AND 0xFFF \<and>
    pg_asid (tr_page r) = current_translation_asid c \<and> pg_level (tr_page r) \<le> 3 \<and>
    (wk_check_permissions a \<longrightarrow>
      access_permitted (tr_page r) (wk_access a) (pg_level (tr_page r)) (wk_apply_pan a) c = None)"

lemma walk_good_cong:
  assumes "c_sysregs c' = c_sysregs c"
  shows "walk_good a r c' = walk_good a r c"
  unfolding walk_good_def asid_cong[OF assms] permitted_cong[OF assms] by (rule refl)

lemma block_mask: "push_bit n 1 - 1 = (mask n :: u64)"
  by (simp add: mask_eq_exp_minus_1 push_bit_eq_mult)

lemma table_address_bits: "bit table_address_mask i \<longleftrightarrow> 12 \<le> i \<and> i < 48"
proof -
  have m: "table_address_mask = push_bit 12 (mask 36)" by (simp add: table_address_mask_def mask_eq_exp_minus_1 push_bit_eq_mult)
  show ?thesis unfolding m by (auto simp: bit_push_bit_iff bit_mask_iff)
qed

lemma page_bits: "0xFFF = (mask 12 :: u64)" by (simp add: mask_eq_exp_minus_1)

lemma walk_leaf_good:
  assumes "walk_leaf a level desc inherited c = Inr r" "level \<le> 3"
  shows "walk_good a r c"
proof -
  let ?n = "12 + 9 * (3 - level)"
  let ?pa = "(desc AND table_address_mask AND NOT (mask ?n)) OR (wk_va a AND mask ?n)"
  have r: "tr_pa r = ?pa" "tr_page r = leaf_attributes a level desc inherited c"
    and p: "wk_check_permissions a \<longrightarrow>
      access_permitted (leaf_attributes a level desc inherited c) (wk_access a) level (wk_apply_pan a) c = None"
    using assms(1)[unfolded walk_leaf_def Let_def block_mask] by (auto split: if_splits option.splits)
  have n: "12 \<le> ?n" "?n \<le> 39" by simp_all
  have "\<not> bit ?pa i" if "48 \<le> i" for i
    using that n by (auto simp: bit_or_iff bit_and_iff bit_mask_iff table_address_bits)
  moreover have "?pa AND 0xFFF = wk_va a AND 0xFFF"
    by (rule bit_word_eqI) (auto simp: page_bits bit_or_iff bit_and_iff bit_not_iff bit_mask_iff)
  moreover have "pg_asid (tr_page r) = current_translation_asid c" "pg_level (tr_page r) = level"
    by (simp_all add: r leaf_attributes_def Let_def)
  ultimately show ?thesis using p assms(2) by (simp add: walk_good_def r leaf_attributes_def Let_def)
qed

lemma walk_levels_good:
  assumes "walk_levels io a levels table_base inherited c = (x, c')" "\<forall>l \<in> set levels. l \<le> 3"
  shows "c_sysregs c' = c_sysregs c \<and> c_tlb c' = c_tlb c \<and> (\<forall>r. x = Inr r \<longrightarrow> walk_good a r c)"
  using assms
proof (induction levels arbitrary: table_base inherited c)
  case Nil
  then show ?case by auto
next
  case (Cons level levels)
  let ?p = "on_perf (\<lambda>p. p\<lparr>mc_page_walk_desc_reads := mc_page_walk_desc_reads p + 1\<rparr>) c"
  obtain v c1 where b: "cpu_bus_read io (table_base + walk_index (wk_va a) level * 8) 8 ?p = (v, c1)" by fastforce
  have f: "c_sysregs c1 = c_sysregs c" "c_tlb c1 = c_tlb c" using bus_read_frame[OF b] by simp_all
  have l: "level \<le> 3" "\<forall>l \<in> set levels. l \<le> 3" using Cons.prems(2) by auto
  show ?case
  proof (cases v)
    case None
    then show ?thesis using Cons.prems(1) b f by (auto simp: Let_def)
  next
    case (Some desc)
    note step = Cons.prems(1)[simplified walk_levels.simps Let_def b Some prod.case option.case]
    consider (leaf) "(x, c') = (walk_leaf a level desc inherited c1, c1)"
      | (table) "walk_levels io a levels (desc AND table_address_mask) (inherit_table desc inherited) c1 = (x, c')"
      | (fault) "\<exists>f. x = Inl f" "c' = c1"
      using step by (simp only: split: if_split_asm) (auto simp only: prod.inject)
    then show ?thesis
    proof cases
      case leaf
      then show ?thesis using walk_leaf_good[of a level desc inherited c1] l f walk_good_cong[OF f(1)] by auto
    next
      case table
      then show ?thesis using Cons.IH[OF table l(2)] f walk_good_cong[OF f(1)] by auto
    next
      case fault
      then show ?thesis using f by auto
    qed
  qed
qed

lemma walk_page_tables_good:
  assumes "walk_page_tables io va access chk pan af c = (x, c')"
  shows "c_sysregs c' = c_sysregs c" "c_tlb c' = c_tlb c"
    "x = Inr r \<Longrightarrow> (\<forall>i. 48 \<le> i \<longrightarrow> \<not> bit (tr_pa r) i) \<and>
      tr_pa r AND 0xFFF = normalize_stage1_address va c AND 0xFFF \<and>
      pg_asid (tr_page r) = current_translation_asid c \<and> pg_level (tr_page r) \<le> 3 \<and>
      (chk \<longrightarrow> access_permitted (tr_page r) access (pg_level (tr_page r)) pan c = None)"
proof -
  let ?p = "on_perf (\<lambda>p. p\<lparr>mc_page_walks := mc_page_walks p + 1\<rparr>) c"
  let ?va = "normalize_stage1_address va ?p"
  let ?a = "\<lparr>wk_va = ?va, wk_access = access, wk_check_permissions = chk, wk_apply_pan = pan,
      wk_check_access_flag = af, wk_attrs = decode_walk_attributes (drop_bit 63 ?va \<noteq> 0) ?p\<rparr>"
  have va: "?va = normalize_stage1_address va c" by (rule normalize_cong) simp
  consider (fault) f where "x = Inl f" "c' = ?p"
    | (walk) l tb where "walk_levels io ?a [l..<4] tb no_table_attrs ?p = (x, c')"
    using assms by (auto simp: walk_page_tables_def Let_def split: sum.splits)
  then have "c_sysregs c' = c_sysregs c \<and> c_tlb c' = c_tlb c \<and> (\<forall>r. x = Inr r \<longrightarrow> walk_good ?a r c)"
  proof cases
    case fault
    then show ?thesis by simp
  next
    case walk
    then show ?thesis using walk_levels_good[OF walk] walk_good_cong[of ?p c ?a] by simp
  qed
  then show "c_sysregs c' = c_sysregs c" "c_tlb c' = c_tlb c"
    "x = Inr r \<Longrightarrow> (\<forall>i. 48 \<le> i \<longrightarrow> \<not> bit (tr_pa r) i) \<and>
      tr_pa r AND 0xFFF = normalize_stage1_address va c AND 0xFFF \<and>
      pg_asid (tr_page r) = current_translation_asid c \<and> pg_level (tr_page r) \<le> 3 \<and>
      (chk \<longrightarrow> access_permitted (tr_page r) access (pg_level (tr_page r)) pan c = None)"
    by (auto simp: walk_good_def va)
qed

section \<open>The entries of the TLB\<close>

definition tlb_entries :: "tlb \<Rightarrow> tlb_entry set" where
  "tlb_entries t = {e. te_valid e \<and> (e = tlb_last_fetch t \<or> e = tlb_last_data t \<or> (\<exists>s \<in> set (tlb_sets t). e \<in> set s))}"

definition entry_ok :: "tlb_entry \<Rightarrow> bool" where
  "entry_ok e \<longleftrightarrow> (\<forall>i. 44 \<le> i \<longrightarrow> \<not> bit (te_va_page e) i) \<and> (\<forall>i. 36 \<le> i \<longrightarrow> \<not> bit (te_pa_page e) i) \<and>
    pg_level (te_page e) \<le> 3"

definition tlb_shape :: "tlb \<Rightarrow> bool" where
  "tlb_shape t \<longleftrightarrow> length (tlb_sets t) = kTlbSets \<and> (\<forall>s \<in> set (tlb_sets t). length s = kTlbWays) \<and>
    length (tlb_next_replace t) = kTlbSets \<and> (\<forall>n \<in> set (tlb_next_replace t). unat n < kTlbWays)"

definition tlb_ok :: "tlb \<Rightarrow> bool" where
  "tlb_ok t \<longleftrightarrow> tlb_shape t \<and> (\<forall>e \<in> tlb_entries t. entry_ok e)"

lemma tlb_set_index_less: "tlb_set_index p < kTlbSets"
proof -
  have "unat (take_bit 10 p) < 2 ^ 10" unfolding unsigned_take_bit_eq by (rule take_bit_nat_less_exp)
  then show ?thesis by (simp add: tlb_set_index_def kTlbSets_def take_bit_eq_mask mask_eq_exp_minus_1)
qed

lemma set_of_page: "tlb_shape t \<Longrightarrow> tlb_sets t ! tlb_set_index p \<in> set (tlb_sets t)"
  by (simp add: tlb_shape_def tlb_set_index_less)

lemma find_some: "List.find P xs = Some x \<Longrightarrow> x \<in> set xs \<and> P x"
  by (auto simp: find_Some_iff)

lemma lookup_some:
  assumes "tlb_lookup page asid t = Some e" "tlb_shape t"
  shows "e \<in> tlb_entries t" "te_va_page e = page" "tlb_entry_matches_asid e asid"
proof -
  have "e \<in> set (tlb_sets t ! tlb_set_index page) \<and> te_valid e \<and> te_va_page e = page \<and> tlb_entry_matches_asid e asid"
    using assms(1) by (auto simp: tlb_lookup_def Let_def tlb_entry_matches_asid_def dest!: find_some split: option.splits)
  then show "e \<in> tlb_entries t" "te_va_page e = page" "tlb_entry_matches_asid e asid"
    using set_of_page[OF assms(2), of page] by (auto simp: tlb_entries_def)
qed

lemma last_entry_mem: "te_valid (last_entry b t) \<Longrightarrow> last_entry b t \<in> tlb_entries t"
  by (simp add: last_entry_def tlb_entries_def)

lemma set_last_entries: "e \<in> tlb_entries t \<Longrightarrow> tlb_entries (set_last_entry b e t) \<subseteq> tlb_entries t"
  by (auto simp: tlb_entries_def set_last_entry_def)

lemma set_last_shape [simp]: "tlb_shape (set_last_entry b e t) = tlb_shape t"
  by (simp add: tlb_shape_def set_last_entry_def)

lemma find_entry_some:
  assumes "find_entry b page asid c = (Some e, c')" "tlb_shape (c_tlb c)"
  shows "e \<in> tlb_entries (c_tlb c)" "te_va_page e = page" "tlb_entry_matches_asid e asid"
  using assms lookup_some[of page asid "c_tlb c"] last_entry_mem[of b "c_tlb c"]
  by (auto simp: find_entry_def Let_def split: if_splits option.splits)

lemma find_entry_frame:
  assumes "find_entry b page asid c = (x, c')" "tlb_ok (c_tlb c)"
  shows "c_sysregs c' = c_sysregs c" "tlb_ok (c_tlb c')"
proof -
  have s: "tlb_shape (c_tlb c)" using assms(2) by (simp add: tlb_ok_def)
  show "c_sysregs c' = c_sysregs c"
    using assms(1) by (auto simp: find_entry_def Let_def split: if_splits option.splits)
  have "c_tlb c' = c_tlb c \<or> (\<exists>e \<in> tlb_entries (c_tlb c). c_tlb c' = set_last_entry b e (c_tlb c))"
    using assms(1) lookup_some(1)[OF _ s] by (auto simp: find_entry_def Let_def split: if_splits option.splits)
  then show "tlb_ok (c_tlb c')"
    using assms(2) set_last_entries[of _ "c_tlb c" b] unfolding tlb_ok_def by (metis set_last_shape subset_iff)
qed

section \<open>Filling\<close>

lemma put_entries:
  assumes "tlb_shape t" "s < kTlbSets"
  shows "tlb_entries (tlb_put s way e t) \<subseteq> insert e (tlb_entries t)" "tlb_shape (tlb_put s way e t)"
proof -
  have s: "tlb_sets t ! s \<in> set (tlb_sets t)" using assms by (simp add: tlb_shape_def)
  have sets: "set (tlb_sets (tlb_put s way e t)) \<subseteq> insert ((tlb_sets t ! s)[way := e]) (set (tlb_sets t))"
    by (simp add: tlb_put_def set_update_subset_insert)
  have way: "set ((tlb_sets t ! s)[way := e]) \<subseteq> insert e (set (tlb_sets t ! s))" by (rule set_update_subset_insert)
  show "tlb_entries (tlb_put s way e t) \<subseteq> insert e (tlb_entries t)"
    using sets way s by (fastforce simp: tlb_entries_def tlb_put_def)
  have "length xs = kTlbWays" if "xs \<in> set (tlb_sets (tlb_put s way e t))" for xs
    using that sets s assms(1) by (auto simp: tlb_shape_def)
  then show "tlb_shape (tlb_put s way e t)" using assms(1) by (simp add: tlb_shape_def tlb_put_def)
qed

lemma insert_entry_ok:
  assumes "tlb_ok t" "entry_ok e" "te_valid e" "te_va_page e = p"
  shows "tlb_ok (tlb_insert_entry p e t)" "tlb_last_data (tlb_insert_entry p e t) = e"
proof -
  let ?t = "t\<lparr>tlb_last_data := e, tlb_last_fetch := (tlb_last_fetch t)\<lparr>te_valid := False\<rparr>\<rparr>"
  let ?s = "tlb_set_index p"
  have sh: "tlb_shape ?t" using assms(1) by (simp add: tlb_ok_def tlb_shape_def)
  have en: "tlb_entries ?t \<subseteq> insert e (tlb_entries t)" by (auto simp: tlb_entries_def)
  have e: "e\<lparr>te_valid := True, te_va_page := p\<rparr> = e" using assms(3,4) by (cases e) auto
  have put: "tlb_ok (tlb_put ?s w e ?t)" for w
    using put_entries[OF sh tlb_set_index_less, of p w e] en assms(1,2) unfolding tlb_ok_def by blast
  have nx: "tlb_ok (u\<lparr>tlb_next_replace := (tlb_next_replace u)[?s := of_nat (n mod kTlbWays)]\<rparr>)" if u: "tlb_ok u" for u n
  proof -
    have "unat (of_nat (n mod kTlbWays) :: u8) < kTlbWays"
      by (simp add: kTlbWays_def unat_of_nat)
    then have "unat m < kTlbWays" if "m \<in> set ((tlb_next_replace u)[?s := of_nat (n mod kTlbWays)])" for m
      using that u set_update_subset_insert[of "tlb_next_replace u" ?s] by (auto simp: tlb_ok_def tlb_shape_def)
    moreover have "tlb_entries (u\<lparr>tlb_next_replace := r\<rparr>) = tlb_entries u" for r by (simp add: tlb_entries_def)
    ultimately show ?thesis using u by (simp add: tlb_ok_def tlb_shape_def)
  qed
  show "tlb_ok (tlb_insert_entry p e t)"
    unfolding tlb_insert_entry_def Let_def using assms(3) put nx[OF put] by (auto simp: e split: option.splits)
  show "tlb_last_data (tlb_insert_entry p e t) = e"
    using assms(3) by (auto simp: tlb_insert_entry_def Let_def tlb_put_def split: option.splits)
qed

lemma asid_masked: "current_translation_asid c AND mmu_asid_mask c = current_translation_asid c"
proof -
  have "mmu_asid_mask c = mask 16 \<or> mmu_asid_mask c = mask 8"
    by (simp add: mmu_asid_mask_def mask_eq_exp_minus_1)
  then show ?thesis
    unfolding current_translation_asid_def ttbr_asid_def Let_def
    by (intro bit_word_eqI) (auto simp: bit_and_iff bit_ucast_iff bit_mask_iff)
qed

lemma tlb_insert_good:
  assumes "tlb_ok (c_tlb c)" "\<forall>i. 44 \<le> i \<longrightarrow> \<not> bit page i" "\<forall>i. 48 \<le> i \<longrightarrow> \<not> bit (tr_pa r) i"
    "pg_level (tr_page r) \<le> 3" "pg_asid (tr_page r) = current_translation_asid c"
  shows "tlb_ok (c_tlb (tlb_insert page r c))" "c_sysregs (tlb_insert page r c) = c_sysregs c"
    "tlb_last_data (c_tlb (tlb_insert page r c)) =
      \<lparr>te_valid = True, te_va_page = page, te_pa_page = drop_bit 12 (tr_pa r), te_page = tr_page r\<rparr>"
proof -
  let ?e = "\<lparr>te_valid = True, te_va_page = page, te_pa_page = drop_bit 12 (tr_pa r), te_page = tr_page r\<rparr>"
  have a: "pg_asid (tr_page r) AND mmu_asid_mask c = pg_asid (tr_page r)" using assms(5) asid_masked by simp
  have m: "mmu_asid_mask (on_perf f c) = mmu_asid_mask c" for f by (simp add: mmu_asid_mask_def)
  have "(tr_page r)\<lparr>pg_asid := pg_asid (tr_page r)\<rparr> = tr_page r" by simp
  then have i: "tlb_insert page r c = on_tlb (tlb_insert_entry page ?e) (on_perf (\<lambda>p. p\<lparr>mc_tlb_inserts := mc_tlb_inserts p + 1\<rparr>) c)"
    unfolding tlb_insert_def Let_def m a by simp
  have "entry_ok ?e" using assms(2-4) by (simp add: entry_ok_def bit_drop_bit_eq)
  then show "tlb_ok (c_tlb (tlb_insert page r c))" "c_sysregs (tlb_insert page r c) = c_sysregs c"
    "tlb_last_data (c_tlb (tlb_insert page r c)) = ?e"
    using insert_entry_ok[OF assms(1), of ?e page] by (simp_all add: i)
qed

section \<open>Translation\<close>

definition page_of :: "u64 \<Rightarrow> u64" where "page_of va = drop_bit 12 va AND tlb_page_mask"

lemma bit_page_of: "bit (page_of va) i \<longleftrightarrow> i < 44 \<and> bit va (i + 12)"
  unfolding page_of_def tlb_page_mask_def block_mask by (auto simp: bit_and_iff bit_mask_iff bit_drop_bit_eq add.commute)

lemma entry_output_bits:
  assumes "entry_ok e" "48 \<le> i"
  shows "\<not> bit (tr_pa (entry_output e va)) i"
proof -
  have "\<not> bit (te_pa_page e) (i - 12)" using assms by (simp add: entry_ok_def)
  then show ?thesis using assms(2)
    by (simp add: entry_output_def bit_or_iff bit_and_iff bit_push_bit_iff page_bits bit_mask_iff)
qed

text \<open>The two ways of a translation: through an entry, or through the tables with a fill.\<close>
lemma find_entry_ok:
  assumes "tlb_ok (c_tlb c)" "find_entry b page asid c = (x, c')"
  shows "c_sysregs c' = c_sysregs c" "tlb_ok (c_tlb c')" "x = Some e \<Longrightarrow> entry_ok e"
  using find_entry_frame[OF assms(2,1)] find_entry_some(1)[of b page asid c e c'] assms
  by (auto simp: tlb_ok_def)

lemma walk_fill_ok:
  assumes "tlb_ok (c_tlb c)" "walk_page_tables io va access chk pan af c = (Inr r, c')"
  shows "c_sysregs (tlb_insert (page_of va') r c') = c_sysregs c" "tlb_ok (c_tlb (tlb_insert (page_of va') r c'))"
    "48 \<le> i \<Longrightarrow> \<not> bit (tr_pa r) i"
    "tlb_last_data (c_tlb (tlb_insert (page_of va') r c')) =
      \<lparr>te_valid = True, te_va_page = page_of va', te_pa_page = drop_bit 12 (tr_pa r), te_page = tr_page r\<rparr>"
proof -
  note w = walk_page_tables_good[OF assms(2)]
  have "tlb_ok (c_tlb c')" "pg_asid (tr_page r) = current_translation_asid c'"
    using assms(1) w asid_cong[of c' c] by simp_all
  then show "c_sysregs (tlb_insert (page_of va') r c') = c_sysregs c" "tlb_ok (c_tlb (tlb_insert (page_of va') r c'))"
    "48 \<le> i \<Longrightarrow> \<not> bit (tr_pa r) i"
    "tlb_last_data (c_tlb (tlb_insert (page_of va') r c')) =
      \<lparr>te_valid = True, te_va_page = page_of va', te_pa_page = drop_bit 12 (tr_pa r), te_page = tr_page r\<rparr>"
    using tlb_insert_good[of c' "page_of va'" r] w(1,3) by (auto simp: bit_page_of)
qed

lemma fast_ok:
  assumes "tlb_ok (c_tlb c)" "translate_data_address_fast io va access c = (x, c')"
  shows "tlb_ok (c_tlb c') \<and> c_sysregs c' = c_sysregs c \<and>
    (mmu_enabled (c_sysregs c) \<longrightarrow> x = Some pa \<longrightarrow> (\<forall>i. 48 \<le> i \<longrightarrow> \<not> bit pa i))"
proof (cases "mmu_enabled (c_sysregs c)")
  case False
  then show ?thesis using assms by (auto simp: translate_data_address_fast_def Let_def)
next
  case True
  let ?b = "begin_translation c"
  let ?va = "normalize_stage1_address va ?b"
  have b: "tlb_ok (c_tlb ?b)" using assms(1) by simp
  obtain m c1 where f: "find_entry False (page_of ?va) (current_translation_asid ?b) ?b = (m, c1)" by fastforce
  note fo = find_entry_ok[OF b f]
  show ?thesis
  proof (cases m)
    case (Some e)
    then show ?thesis using assms(2) True f fo entry_output_bits[of e]
      by (auto simp: translate_data_address_fast_def Let_def page_of_def[symmetric] split: option.splits)
  next
    case None
    let ?m = "on_perf (\<lambda>p. p\<lparr>mc_tlb_misses := mc_tlb_misses p + 1\<rparr>) c1"
    obtain w c2 where w: "walk_page_tables io ?va access True True True ?m = (w, c2)" by fastforce
    have m: "tlb_ok (c_tlb ?m)" "c_sysregs ?m = c_sysregs c" using fo by simp_all
    show ?thesis
    proof (cases w)
      case (Inl g)
      then show ?thesis using assms(2) True f None w walk_page_tables_good(1,2)[OF w] m
        by (auto simp: translate_data_address_fast_def Let_def page_of_def[symmetric])
    next
      case (Inr r)
      then show ?thesis using assms(2) True f None w walk_fill_ok(1,2,4)[OF m(1) w[unfolded Inr], where va' = ?va]
          walk_fill_ok(3)[OF m(1) w[unfolded Inr]] m
        by (auto simp: translate_data_address_fast_def Let_def page_of_def[symmetric])
    qed
  qed
qed

lemma address_ok:
  assumes "tlb_ok (c_tlb c)" "translate_address io va access fill use pan c = (x, c')"
  shows "tlb_ok (c_tlb c') \<and> c_sysregs c' = c_sysregs c"
proof (cases "mmu_enabled (c_sysregs c)")
  case False
  then show ?thesis using assms by (auto simp: translate_address_def Let_def)
next
  case True
  let ?b = "begin_translation c"
  let ?va = "normalize_stage1_address va ?b"
  have b: "tlb_ok (c_tlb ?b)" using assms(1) by simp
  obtain m c1 where f: "(if use then find_entry (access = Fetch) (page_of ?va) (current_translation_asid ?b) ?b else (None, ?b)) = (m, c1)"
    by fastforce
  have fo: "c_sysregs c1 = c_sysregs c" "tlb_ok (c_tlb c1)"
    using f b find_entry_ok(1,2)[OF b] by (auto split: if_splits)
  show ?thesis
  proof (cases m)
    case (Some e)
    then show ?thesis using assms(2) True f fo
      by (auto simp: translate_address_def Let_def page_of_def[symmetric] split: option.splits)
  next
    case None
    let ?m = "if use then on_perf (\<lambda>p. p\<lparr>mc_tlb_misses := mc_tlb_misses p + 1\<rparr>) c1 else c1"
    obtain w c2 where w: "walk_page_tables io ?va access True pan True ?m = (w, c2)" by fastforce
    have m: "tlb_ok (c_tlb ?m)" "c_sysregs ?m = c_sysregs c" using fo by simp_all
    show ?thesis
    proof (cases w)
      case (Inl g)
      then show ?thesis using assms(2) True f None w walk_page_tables_good(1,2)[OF w] m
        by (auto simp: translate_address_def Let_def page_of_def[symmetric])
    next
      case (Inr r)
      then show ?thesis using assms(2) True f None w walk_fill_ok(1,2)[OF m(1) w[unfolded Inr], where va' = ?va]
          walk_page_tables_good(1,2)[OF w] m
        by (auto simp: translate_address_def Let_def page_of_def[symmetric])
    qed
  qed
qed

lemma maintenance_ok:
  assumes "tlb_ok (c_tlb c)" "translate_cache_maintenance_address io va el0 fill use c = (x, c')"
  shows "tlb_ok (c_tlb c') \<and> c_sysregs c' = c_sysregs c"
proof (cases "mmu_enabled (c_sysregs c)")
  case False
  then show ?thesis using assms by (auto simp: translate_cache_maintenance_address_def Let_def)
next
  case True
  let ?b = "begin_translation c"
  let ?va = "normalize_stage1_address va ?b"
  have b: "tlb_ok (c_tlb ?b)" using assms(1) by simp
  obtain m c1 where f: "(if use then find_entry False (page_of ?va) (current_translation_asid ?b) ?b else (None, ?b)) = (m, c1)"
    by fastforce
  have fo: "c_sysregs c1 = c_sysregs c" "tlb_ok (c_tlb c1)"
    using f b find_entry_ok(1,2)[OF b] by (auto split: if_splits)
  show ?thesis
  proof (cases m)
    case (Some e)
    then show ?thesis using assms(2) True f fo
      by (auto simp: translate_cache_maintenance_address_def Let_def page_of_def[symmetric] split: if_splits)
  next
    case None
    let ?m = "if use then on_perf (\<lambda>p. p\<lparr>mc_tlb_misses := mc_tlb_misses p + 1\<rparr>) c1 else c1"
    obtain w c2 where w: "walk_page_tables io ?va Read False True True ?m = (w, c2)" by fastforce
    have m: "tlb_ok (c_tlb ?m)" "c_sysregs ?m = c_sysregs c" using fo by simp_all
    show ?thesis
    proof (cases w)
      case (Inl g)
      then show ?thesis using assms(2) True f None w walk_page_tables_good(1,2)[OF w] m
        by (auto simp: translate_cache_maintenance_address_def Let_def page_of_def[symmetric])
    next
      case (Inr r)
      then show ?thesis using assms(2) True f None w walk_fill_ok(1,2)[OF m(1) w[unfolded Inr], where va' = ?va]
          walk_page_tables_good(1,2)[OF w] m
        by (auto simp: translate_cache_maintenance_address_def Let_def page_of_def[symmetric] split: if_splits)
    qed
  qed
qed

section \<open>Invalidation\<close>

lemma drop_ok: "tlb_ok t \<Longrightarrow> tlb_ok (tlb_drop_if P t)"
proof -
  assume t: "tlb_ok t"
  have "tlb_entries (tlb_drop_if P t) \<subseteq> tlb_entries t"
    by (auto simp: tlb_entries_def tlb_drop_if_def drop_entry_if_def split: if_splits)
  then show "tlb_ok (tlb_drop_if P t)" using t by (auto simp: tlb_ok_def tlb_shape_def tlb_drop_if_def)
qed

lemma on_decode_get [simp]: "c_tlb (on_decode f c) = c_tlb c" "c_sysregs (on_decode f c) = c_sysregs c"
  by (simp_all add: on_decode_def)

lemma flush_all_ok:
  assumes "tlb_ok (c_tlb c)"
  shows "tlb_ok (c_tlb (tlb_flush_all c))"
proof -
  let ?t = "tlb_drop_if (\<lambda>_. True) (c_tlb c)"
  have "tlb_entries (?t\<lparr>tlb_next_replace := n\<rparr>) = tlb_entries ?t" for n by (simp add: tlb_entries_def)
  then show ?thesis using assms drop_ok[OF assms, of "\<lambda>_. True"]
    by (auto simp: tlb_flush_all_def tlb_ok_def tlb_shape_def kTlbWays_def)
qed

lemma tlbi_ok:
  assumes "tlb_ok (c_tlb c)"
  shows "tlb_ok (c_tlb (notify_tlbi_vmalle1 c)) \<and> tlb_ok (c_tlb (notify_tlbi_vae1 operand all_asids c)) \<and>
    tlb_ok (c_tlb (notify_tlbi_aside1 asid c))"
  using assms flush_all_ok[OF assms]
  by (simp add: notify_tlbi_vmalle1_def notify_tlbi_vae1_def notify_tlbi_aside1_def Let_def tlb_flush_va_def
      tlb_invalidate_page_def tlb_flush_asid_def drop_ok)

section \<open>Hits\<close>

lemma and_page: "x AND 0xFFF = (x AND mask 12 :: u64)" by (simp only: page_bits)

lemma page_and_offset: "push_bit 12 (drop_bit 12 x) OR (x AND mask 12) = (x :: u64)"
  by (rule bit_word_eqI) (auto simp: bit_or_iff bit_push_bit_iff bit_drop_bit_eq bit_and_iff bit_mask_iff)

lemma normalize_offset: "normalize_stage1_address va c AND 0xFFF = va AND 0xFFF"
proof -
  have ff: "0xFF = (mask 8 :: u64)" by (simp add: mask_eq_exp_minus_1)
  show ?thesis unfolding normalize_stage1_address_def Let_def and_page ff
    by (auto intro!: bit_word_eqI simp: bit_and_iff bit_or_iff bit_not_iff bit_push_bit_iff bit_mask_iff)
qed

text \<open>What a successful data translation leaves: the entry it used is the last data entry.\<close>
lemma fast_leaves_entry:
  assumes "tlb_ok (c_tlb c)" "mmu_enabled (c_sysregs c)" "translate_data_address_fast io va access c = (Some pa, c')"
  shows "\<exists>e. tlb_last_data (c_tlb c') = e \<and> te_valid e \<and> te_va_page e = page_of (normalize_stage1_address va c) \<and>
    tlb_entry_matches_asid e (current_translation_asid c) \<and>
    access_permitted (te_page e) access (pg_level (te_page e)) True c = None \<and>
    pa = push_bit 12 (te_pa_page e) OR (va AND 0xFFF)"
proof -
  let ?b = "begin_translation c"
  let ?va = "normalize_stage1_address va ?b"
  have va: "?va = normalize_stage1_address va c" by (rule normalize_cong) simp
  have b: "tlb_ok (c_tlb ?b)" "c_sysregs ?b = c_sysregs c" using assms(1) by simp_all
  have as: "current_translation_asid ?b = current_translation_asid c" by (rule asid_cong) simp
  obtain m c1 where f: "find_entry False (page_of ?va) (current_translation_asid ?b) ?b = (m, c1)" by fastforce
  note fo = find_entry_ok[OF b(1) f]
  show ?thesis
  proof (cases m)
    case (Some e)
    let ?h = "on_perf (\<lambda>p. p\<lparr>mc_tlb_hits := mc_tlb_hits p + 1\<rparr>) c1"
    have sh: "tlb_shape (c_tlb ?b)" using b(1) by (simp add: tlb_ok_def)
    note fs = find_entry_some[OF f[unfolded Some] sh]
    have "tlb_last_data (c_tlb c1) = e"
      using f Some by (auto simp: find_entry_def Let_def last_entry_def set_last_entry_def split: if_splits option.splits)
    moreover have "access_permitted (te_page e) access (pg_level (te_page e)) True ?h = None \<and> c' = ?h \<and>
        pa = tr_pa (entry_output e ?va)"
      using assms(2,3) f Some by (auto simp: translate_data_address_fast_def Let_def page_of_def[symmetric] entry_output_def
          split: option.splits)
    ultimately show ?thesis using fs fo(1) as va permitted_cong[of ?h c]
      by (auto simp: tlb_entries_def entry_output_def normalize_offset)
  next
    case None
    let ?m = "on_perf (\<lambda>p. p\<lparr>mc_tlb_misses := mc_tlb_misses p + 1\<rparr>) c1"
    obtain w c2 where w: "walk_page_tables io ?va access True True True ?m = (w, c2)" by fastforce
    have m: "tlb_ok (c_tlb ?m)" "c_sysregs ?m = c_sysregs c" using fo by simp_all
    obtain r where r: "w = Inr r" "pa = tr_pa r" "c' = tlb_insert (page_of ?va) r c2"
      using assms(2,3) f None w by (cases w) (auto simp: translate_data_address_fast_def Let_def page_of_def[symmetric])
    note g = walk_page_tables_good(3)[OF w r(1)]
    have n: "normalize_stage1_address ?va ?m AND 0xFFF = va AND 0xFFF" by (simp add: normalize_offset)
    have "push_bit 12 (drop_bit 12 pa) OR (va AND 0xFFF) = pa"
    proof -
      have "pa AND mask 12 = va AND mask 12" using g n r(2) by (simp only: and_page)
      then show ?thesis unfolding and_page by (metis page_and_offset)
    qed
    then show ?thesis using walk_fill_ok(4)[OF m(1) w[unfolded r(1)], where va' = ?va] g r va
        asid_cong[OF m(2)] permitted_cong[OF m(2)]
      by (auto simp: tlb_entry_matches_asid_def)
  qed
qed

text \<open>The last data entry serves an access it matches.\<close>
lemma fast_hits:
  assumes "mmu_enabled (c_sysregs c)" "te_valid (tlb_last_data (c_tlb c))"
    "te_va_page (tlb_last_data (c_tlb c)) = page_of (normalize_stage1_address va c)"
    "tlb_entry_matches_asid (tlb_last_data (c_tlb c)) (current_translation_asid c)"
    "access_permitted (te_page (tlb_last_data (c_tlb c))) access (pg_level (te_page (tlb_last_data (c_tlb c)))) True c = None"
  shows "translate_data_address_fast io va access c =
    (Some (push_bit 12 (te_pa_page (tlb_last_data (c_tlb c))) OR (va AND 0xFFF)),
     on_perf (\<lambda>p. p\<lparr>mc_tlb_hits := mc_tlb_hits p + 1\<rparr>) (begin_translation c))"
proof -
  let ?b = "begin_translation c" and ?h = "on_perf (\<lambda>p. p\<lparr>mc_tlb_hits := mc_tlb_hits p + 1\<rparr>) (begin_translation c)"
  let ?e = "tlb_last_data (c_tlb c)"
  have e: "normalize_stage1_address va ?b = normalize_stage1_address va c"
    "current_translation_asid ?b = current_translation_asid c"
    "access_permitted (te_page ?e) access (pg_level (te_page ?e)) True ?h = None"
    using normalize_cong[of ?b c] asid_cong[of ?b c] permitted_cong[of ?h c] assms(5) by simp_all
  have f: "find_entry False (page_of (normalize_stage1_address va c)) (current_translation_asid c) ?b = (Some ?e, ?b)"
    using assms(2-4) by (simp add: find_entry_def last_entry_def)
  show ?thesis
    unfolding translate_data_address_fast_def Let_def page_of_def[symmetric] e f
    using assms(1) e(3) by (simp add: entry_output_def normalize_offset)
qed

lemma serves_page:
  assumes "tlb_ok (c_tlb c)" "mmu_enabled (c_sysregs c)"
    and "translate_data_address_fast io va access c = (Some pa, c')"
    and "page_of (normalize_stage1_address va' c) = page_of (normalize_stage1_address va c)"
  shows "translate_data_address_fast io va' access c' =
    (Some ((pa AND NOT 0xFFF) OR (va' AND 0xFFF)),
     on_perf (\<lambda>p. p\<lparr>mc_tlb_hits := mc_tlb_hits p + 1\<rparr>) (begin_translation c'))"
proof -
  obtain e where e: "tlb_last_data (c_tlb c') = e" "te_valid e" "te_va_page e = page_of (normalize_stage1_address va c)"
    "tlb_entry_matches_asid e (current_translation_asid c)"
    "access_permitted (te_page e) access (pg_level (te_page e)) True c = None"
    "pa = push_bit 12 (te_pa_page e) OR (va AND 0xFFF)"
    using fast_leaves_entry[OF assms(1-3)] by blast
  have s: "c_sysregs c' = c_sysregs c" using fast_ok[OF assms(1,3)] by simp
  have "(pa AND NOT 0xFFF) = push_bit 12 (te_pa_page e)"
    unfolding e(6) page_bits
    by (rule bit_word_eqI) (auto simp: bit_and_iff bit_or_iff bit_not_iff bit_push_bit_iff bit_mask_iff)
  then show ?thesis
    using fast_hits[of c' va' access io] e assms(2,4) asid_cong[OF s] permitted_cong[OF s] normalize_cong[OF s]
    by (simp add: s)
qed

section \<open>After an invalidation\<close>

lemma on_perf_on_perf: "on_perf f (on_perf g c) = on_perf (\<lambda>p. f (g p)) c"
  by (simp add: on_perf_def)

lemma bus_read_perf: "cpu_bus_read io pa sz (on_perf f c) = map_prod id (on_perf f) (cpu_bus_read io pa sz c)"
  by (simp add: cpu_bus_read_def on_perf_def split: outcome.splits prod.splits)

lemma walk_leaf_perf: "walk_leaf a l d t (on_perf f c) = walk_leaf a l d t c"
proof -
  have s: "c_sysregs (on_perf f c) = c_sysregs c" by simp
  have l: "leaf_attributes a l d t (on_perf f c) = leaf_attributes a l d t c"
    unfolding leaf_attributes_def Let_def dirty_state_hw_update_enabled_def asid_cong[OF s] s by (rule refl)
  show ?thesis unfolding walk_leaf_def Let_def permitted_cong[OF s] l by (rule refl)
qed

lemma walk_levels_perf:
  "fst (walk_levels io a levels tb inherited (on_perf f c)) = fst (walk_levels io a levels tb inherited c)"
proof (induction levels arbitrary: tb inherited f c)
  case Nil
  then show ?case by simp
next
  case (Cons level levels)
  let ?inc = "\<lambda>p. p\<lparr>mc_page_walk_desc_reads := mc_page_walk_desc_reads p + 1\<rparr>"
  obtain v d where r: "cpu_bus_read io (tb + walk_index (wk_va a) level * 8) 8 c = (v, d)" by fastforce
  show ?case
    by (cases v)
      (simp_all only: walk_levels.simps Let_def on_perf_on_perf bus_read_perf r map_prod_simp prod.case option.case
        id_apply fst_conv if_distrib[of fst] walk_leaf_perf Cons.IH)
qed

lemma walk_page_tables_perf:
  "fst (walk_page_tables io va access chk pan af (on_perf f c)) = fst (walk_page_tables io va access chk pan af c)"
proof -
  let ?c = "on_perf (\<lambda>p. p\<lparr>mc_page_walks := mc_page_walks p + 1\<rparr>) c"
  let ?d = "on_perf (\<lambda>p. p\<lparr>mc_page_walks := mc_page_walks p + 1\<rparr>) (on_perf f c)"
  have s: "c_sysregs ?d = c_sysregs ?c" by simp
  have e: "normalize_stage1_address va ?d = normalize_stage1_address va ?c" by (rule normalize_cong[OF s])
  have at: "decode_walk_attributes b ?d = decode_walk_attributes b ?c" for b
    by (simp add: decode_walk_attributes_def decode_ips_bits_def Let_def)
  have st: "walk_start a ?d = walk_start a ?c" for a by (simp add: walk_start_def Let_def)
  have w: "fst (walk_levels io a l tb i ?d) = fst (walk_levels io a l tb i ?c)" for a l tb i
    unfolding on_perf_on_perf walk_levels_perf ..
  let ?a = "\<lparr>wk_va = normalize_stage1_address va ?c, wk_access = access, wk_check_permissions = chk,
      wk_apply_pan = pan, wk_check_access_flag = af,
      wk_attrs = decode_walk_attributes (drop_bit 63 (normalize_stage1_address va ?c) \<noteq> 0) ?c\<rparr>"
  show ?thesis
  proof (cases "walk_start ?a ?c")
    case (Inl g)
    then show ?thesis unfolding walk_page_tables_def Let_def e at st by (simp only: sum.case fst_conv)
  next
    case (Inr p)
    obtain l tb where "p = (l, tb)" by (cases p)
    then show ?thesis unfolding walk_page_tables_def Let_def e at st Inr by (simp only: sum.case prod.case w)
  qed
qed

lemma no_entry_walks:
  assumes "\<And>b. fst (find_entry b (page_of (normalize_stage1_address va c)) (current_translation_asid c) c) = None"
  shows "fst (translate_address io va access fill True pan c) = fst (translate_address io va access fill False pan c)"
proof -
  let ?b = "begin_translation c"
  let ?va = "normalize_stage1_address va ?b" and ?f = "access = Fetch"
  have e: "?va = normalize_stage1_address va c" "current_translation_asid ?b = current_translation_asid c"
    using normalize_cong[of ?b c] asid_cong[of ?b c] by simp_all
  have "fst (find_entry ?f (page_of ?va) (current_translation_asid ?b) ?b) = None"
    unfolding e using assms[of ?f] by (auto simp: find_entry_def Let_def split: if_splits option.splits)
  then obtain g where g: "find_entry ?f (page_of ?va) (current_translation_asid ?b) ?b = (None, on_perf g ?b)"
    by (auto simp: find_entry_def Let_def split: if_splits option.splits)
  let ?m = "on_perf (\<lambda>p. p\<lparr>mc_tlb_misses := mc_tlb_misses p + 1\<rparr>) (on_perf g ?b)"
  obtain w c1 where w1: "walk_page_tables io ?va access True pan True ?m = (w, c1)" by fastforce
  have "fst (walk_page_tables io ?va access True pan True ?b) = fst (w, c1)"
    unfolding w1[symmetric] on_perf_on_perf by (rule walk_page_tables_perf[symmetric])
  then have "fst (walk_page_tables io ?va access True pan True ?b) = w" by (simp only: fst_conv)
  then obtain c2 where w2: "walk_page_tables io ?va access True pan True ?b = (w, c2)" by (metis prod.collapse)
  show ?thesis
    by (cases "mmu_enabled (c_sysregs ?b)"; cases w)
      (simp_all only: translate_address_def Let_def page_of_def[symmetric] if_True if_False g prod.case option.case w1 w2
        sum.case fst_conv not_True_eq_False not_False_eq_True)
qed

lemma dropped_entries: "tlb_entries (tlb_drop_if P t) \<subseteq> {e \<in> tlb_entries t. \<not> P e}"
  by (auto simp: tlb_entries_def tlb_drop_if_def drop_entry_if_def split: if_splits)

lemma kept_entries: "e \<in> tlb_entries t \<Longrightarrow> \<not> P e \<Longrightarrow> e \<in> tlb_entries (tlb_drop_if P t)"
  by (auto simp: tlb_entries_def tlb_drop_if_def drop_entry_if_def intro!: rev_image_eqI)

lemma not_found:
  assumes "tlb_shape (c_tlb c)" "\<And>e. e \<in> tlb_entries (c_tlb c) \<Longrightarrow> te_va_page e = page \<Longrightarrow> \<not> tlb_entry_matches_asid e asid"
  shows "fst (find_entry b page asid c) = None"
proof (rule ccontr)
  assume "fst (find_entry b page asid c) \<noteq> None"
  then obtain e c' where f: "find_entry b page asid c = (Some e, c')" by (cases "find_entry b page asid c") auto
  show False using assms(2) find_entry_some[OF f assms(1)] by blast
qed

lemma invalidate_page_tlb:
  "c_tlb (tlb_invalidate_page p a m c) =
    tlb_drop_if (\<lambda>e. tlb_entry_covers_va_page e p \<and> (\<not> m \<or> tlb_entry_matches_asid e (a AND mmu_asid_mask c))) (c_tlb c)"
  by (simp add: tlb_invalidate_page_def Let_def)

lemma operand_asid_masked: "tlbi_operand_asid operand c AND mmu_asid_mask c' = tlbi_operand_asid operand c"
  if "mmu_asid_mask c' = mmu_asid_mask c"
proof -
  have "mmu_asid_mask c = mask 16 \<or> mmu_asid_mask c = mask 8"
    by (simp add: mmu_asid_mask_def mask_eq_exp_minus_1)
  then show ?thesis
    unfolding tlbi_operand_asid_def that
    by (intro bit_word_eqI) (auto simp: bit_and_iff bit_ucast_iff bit_mask_iff)
qed

text \<open>The entries that a TLBI VAE1 or VAAE1 drops.\<close>
definition tlbi_hits :: "u64 \<Rightarrow> bool \<Rightarrow> 'd cpu \<Rightarrow> tlb_entry \<Rightarrow> bool" where
  "tlbi_hits operand all_asids c e \<longleftrightarrow> tlb_entry_covers_va_page e (tlbi_operand_va_page operand) \<and>
    (all_asids \<or> tlb_entry_matches_asid e (tlbi_operand_asid operand c))"

lemma vae1_tlb: "c_tlb (notify_tlbi_vae1 operand all_asids c) = tlb_drop_if (tlbi_hits operand all_asids c) (c_tlb c)"
proof -
  have m: "mmu_asid_mask (on_perf f c) = mmu_asid_mask c" for f by (simp add: mmu_asid_mask_def)
  have o: "tlbi_operand_asid operand (on_perf f c) = tlbi_operand_asid operand c" for f
    by (simp add: tlbi_operand_asid_def m)
  show ?thesis
    by (simp add: notify_tlbi_vae1_def tlb_flush_va_def Let_def invalidate_page_tlb m o operand_asid_masked[OF refl] tlbi_hits_def[abs_def])
qed

lemma vae1_entries:
  "tlb_entries (c_tlb (notify_tlbi_vae1 operand all_asids c)) = {e \<in> tlb_entries (c_tlb c). \<not> tlbi_hits operand all_asids c e}"
  unfolding vae1_tlb using dropped_entries[of "tlbi_hits operand all_asids c" "c_tlb c"] kept_entries by blast

lemma vae1_sysregs [simp]: "c_sysregs (notify_tlbi_vae1 operand all_asids c) = c_sysregs c"
  by (simp add: notify_tlbi_vae1_def tlb_flush_va_def tlb_invalidate_page_def Let_def)

section \<open>Properties\<close>

definition empty_entry :: tlb_entry where
  "empty_entry = \<lparr>te_valid = False, te_va_page = 0, te_pa_page = 0,
    te_page = \<lparr>pg_asid = 0, pg_level = 3, pg_attr_index = 0, pg_mair_attr = 0, pg_global = False, pg_writable = False,
      pg_user_accessible = False, pg_executable = True, pg_pxn = False, pg_uxn = False,
      pg_memory_type = Unknown_Memory, pg_leaf_shareability = Non_Shareable,
      pg_walk_attrs = \<lparr>wa_inner = Non_Cacheable, wa_outer = Non_Cacheable, wa_shareability = Non_Shareable,
        wa_ips_bits = 32\<rparr>\<rparr>\<rparr>"

definition empty_tlb :: tlb where
  "empty_tlb = \<lparr>tlb_sets = replicate kTlbSets (replicate kTlbWays empty_entry),
    tlb_next_replace = replicate kTlbSets 0, tlb_last_fetch = empty_entry, tlb_last_data = empty_entry\<rparr>"

lemma empty_tlb_ok: "tlb_ok empty_tlb"
proof -
  have "tlb_entries empty_tlb = {}" by (auto simp: tlb_entries_def empty_tlb_def empty_entry_def)
  then show ?thesis by (simp add: tlb_ok_def tlb_shape_def empty_tlb_def kTlbWays_def)
qed

lemma below_48: "(\<forall>i. 48 \<le> i \<longrightarrow> \<not> bit pa i) \<Longrightarrow> pa < (2 :: u64) ^ 48"
proof -
  assume b: "\<forall>i. 48 \<le> i \<longrightarrow> \<not> bit pa i"
  have "take_bit 48 pa = pa" by (rule bit_word_eqI) (metis b bit_take_bit_iff not_less)
  then have "unat pa = take_bit 48 (unat pa)" by (metis unsigned_take_bit_eq)
  then have "unat pa < 2 ^ 48" using take_bit_nat_less_exp[of 48 "unat pa"] by simp
  then show ?thesis by (simp add: word_less_nat_alt)
qed

text \<open>
  C20. The TLB is well formed and stays so: 1024 sets of four ways, a replacement counter below four
  for each set, and in every valid entry, the two last-used ones included, a page number of 44 bits,
  a frame number of 36 bits and a level of at most 3. The three translation functions and the
  invalidations keep this and leave the system registers alone, and with translation on a data
  address always maps below \<open>2^48\<close>.
\<close>
theorem tlb_well_formed:
  assumes "tlb_ok (c_tlb c)"
  shows "tlb_ok (c_tlb (snd (translate_data_address_fast io va access c))) \<and>
    tlb_ok (c_tlb (snd (translate_address io va access fill use pan c))) \<and>
    tlb_ok (c_tlb (snd (translate_cache_maintenance_address io va el0 fill use c))) \<and>
    tlb_ok (c_tlb (notify_tlbi_vmalle1 c)) \<and>
    tlb_ok (c_tlb (notify_tlbi_vae1 operand all_asids c)) \<and>
    tlb_ok (c_tlb (notify_tlbi_aside1 asid c)) \<and>
    c_sysregs (snd (translate_data_address_fast io va access c)) = c_sysregs c \<and>
    c_sysregs (snd (translate_address io va access fill use pan c)) = c_sysregs c \<and>
    (\<forall>pa. mmu_enabled (c_sysregs c) \<longrightarrow> fst (translate_data_address_fast io va access c) = Some pa \<longrightarrow> pa < 2 ^ 48)"
proof -
  note f = fast_ok[OF assms prod.collapse[symmetric], of io va access]
  note a = address_ok[OF assms prod.collapse[symmetric], of io va access fill use pan]
  note m = maintenance_ok[OF assms prod.collapse[symmetric], of io va el0 fill use]
  have "\<forall>pa. mmu_enabled (c_sysregs c) \<longrightarrow> fst (translate_data_address_fast io va access c) = Some pa \<longrightarrow> pa < 2 ^ 48"
    using f below_48 by blast
  then show ?thesis using f a m tlbi_ok[OF assms, of operand all_asids asid] by simp
qed

theorem tlb_well_formed_witness:
  "\<forall>c :: unit cpu. tlb_ok (c_tlb (notify_tlbi_vae1 0x80000 True (c\<lparr>c_tlb := empty_tlb\<rparr>)))"
  using tlb_well_formed[of "c\<lparr>c_tlb := empty_tlb\<rparr>" for c :: "unit cpu"] empty_tlb_ok by simp

text \<open>
  C6. A translated page is served from the TLB: after a data access translated, by whatever way,
  every later access of the same kind to an address of the page (the untagged address, as the
  controls define it) translates to the same frame at its own offset, reads no descriptor and only
  changes counters and the fault record.
\<close>
theorem tlb_serves_page:
  assumes "tlb_ok (c_tlb c)" "mmu_enabled (c_sysregs c)"
    and "translate_data_address_fast io va access c = (Some pa, c')"
    and "page_of (normalize_stage1_address va' c) = page_of (normalize_stage1_address va c)"
  shows "translate_data_address_fast io va' access c' =
    (Some ((pa AND NOT 0xFFF) OR (va' AND 0xFFF)),
     on_perf (\<lambda>p. p\<lparr>mc_tlb_hits := mc_tlb_hits p + 1\<rparr>) (begin_translation c'))"
  using assms by (rule serves_page)



section \<open>Addresses outside the range\<close>

text \<open>
  An address with bit 63 clear and bit 55 set: without tagging it is outside the lower range for
  every size of it, so the walk refuses it. The page number of the TLB does not have its top bits.
\<close>
lemma walk_refuses:
  assumes "\<not> effective_tbi va c" "\<not> bit va 63" "bit va 55"
  shows "\<exists>f. fst (walk_page_tables io va access chk pan af c) = Inl f"
proof -
  let ?c = "on_perf (\<lambda>p. p\<lparr>mc_page_walks := mc_page_walks p + 1\<rparr>) c"
  have s: "c_sysregs ?c = c_sysregs c" by simp
  have n: "normalize_stage1_address va ?c = va"
    unfolding normalize_cong[OF s] using assms(1) by (simp add: normalize_stage1_address_def)
  have "\<not> bit va (63 + n)" for n using assms(2) bit_imp_le_length[of va "63 + n"] by (cases n) auto
  then have lo: "drop_bit 63 va = 0" by (intro bit_word_eqI) (simp add: bit_drop_bit_eq)
  have big: "push_bit v 1 - 1 < va" if "v \<le> 48" for v
  proof -
    have "unat va \<ge> 2 ^ 55"
    proof (rule ccontr)
      assume "\<not> 2 ^ 55 \<le> unat va"
      then have "\<not> bit (unat va) 55" by (simp add: bit_iff_odd)
      then show False using assms(3) by (simp add: bit_unsigned_iff)
    qed
    then have "(2 :: u64) ^ 48 \<le> va" by (simp add: word_le_nat_alt)
    moreover have "(mask v :: u64) < 2 ^ 48" by (rule below_48) (use that in \<open>auto simp: bit_mask_iff\<close>)
    ultimately show ?thesis unfolding block_mask by (rule less_le_trans[rotated])
  qed
  have "\<exists>f. walk_start \<lparr>wk_va = va, wk_access = access, wk_check_permissions = chk, wk_apply_pan = pan,
      wk_check_access_flag = af, wk_attrs = decode_walk_attributes (drop_bit 63 va \<noteq> 0) ?c\<rparr> ?c = Inl f"
    unfolding walk_start_def Let_def using lo big by (auto simp: not_less)
  then show ?thesis unfolding walk_page_tables_def Let_def n by auto
qed

definition kernel_entry :: tlb_entry where
  "kernel_entry = \<lparr>te_valid = True, te_va_page = 0xFFFFFF80000, te_pa_page = 0x40000,
    te_page = (te_page empty_entry)\<lparr>pg_global := True, pg_writable := True\<rparr>\<rparr>"

definition kernel_cpu :: "'d cpu \<Rightarrow> 'd cpu" where
  "kernel_cpu c = c\<lparr>c_sysregs := (c_sysregs c)\<lparr>r_sctlr_el1 := 1, r_tcr_el1 := 0,
      r_pstate := (r_pstate (c_sysregs c))\<lparr>ps_mode := 5\<rparr>\<rparr>,
    c_tlb := empty_tlb\<lparr>tlb_last_data := kernel_entry\<rparr>\<rparr>"

lemma kernel_cpu_ok: "tlb_ok (c_tlb (kernel_cpu c))" "mmu_enabled (c_sysregs (kernel_cpu c))"
    "normalize_stage1_address va (kernel_cpu c) = va" "\<not> effective_tbi va (kernel_cpu c)"
proof -
  have "tlb_entries (empty_tlb\<lparr>tlb_last_data := kernel_entry\<rparr>) = {kernel_entry}"
    by (auto simp: tlb_entries_def empty_tlb_def empty_entry_def kernel_entry_def)
  moreover have "\<not> bit (0xFFFFFF80000 :: u64) i" if "44 \<le> i" for i
  proof -
    have "(0xFFFFFF80000 :: u64) = push_bit 19 (mask 25)" by (simp add: mask_eq_exp_minus_1 push_bit_eq_mult)
    then show ?thesis using that by (simp only: bit_push_bit_iff bit_mask_iff) auto
  qed
  moreover have "\<not> bit (0x40000 :: u64) i" if "36 \<le> i" for i
  proof -
    have "(0x40000 :: u64) = push_bit 18 1" by (simp add: push_bit_eq_mult)
    then show ?thesis using that by (simp only: bit_push_bit_iff bit_1_iff) auto
  qed
  ultimately have "\<forall>e \<in> tlb_entries (empty_tlb\<lparr>tlb_last_data := kernel_entry\<rparr>). entry_ok e"
    by (simp add: entry_ok_def kernel_entry_def empty_entry_def)
  then show "tlb_ok (c_tlb (kernel_cpu c))"
    using empty_tlb_ok by (simp add: kernel_cpu_def tlb_ok_def tlb_shape_def)
  show "mmu_enabled (c_sysregs (kernel_cpu c))" by (simp add: kernel_cpu_def mmu_enabled_def)
  show t: "\<not> effective_tbi va (kernel_cpu c)" by (simp add: kernel_cpu_def effective_tbi_def Let_def)
  then show "normalize_stage1_address va (kernel_cpu c) = va" by (simp add: normalize_stage1_address_def)
qed

lemma kernel_translates:
  "translate_data_address_fast io 0xFFFFFFFF80000010 Write (kernel_cpu c) =
    (Some 0x40000010, on_perf (\<lambda>p. p\<lparr>mc_tlb_hits := mc_tlb_hits p + 1\<rparr>) (begin_translation (kernel_cpu c)))"
proof -
  have l: "tlb_last_data (c_tlb (kernel_cpu c)) = kernel_entry" by (simp add: kernel_cpu_def)
  have "access_permitted (te_page kernel_entry) Write (pg_level (te_page kernel_entry)) True (kernel_cpu c) = None"
    by (simp add: access_permitted_def kernel_cpu_def kernel_entry_def empty_entry_def in_el0_def current_el_def
        access_is_write_def access_is_unprivileged_def Let_def)
  moreover have "te_va_page kernel_entry = page_of 0xFFFFFFFF80000010"
    by (simp add: kernel_entry_def page_of_def tlb_page_mask_def)
  ultimately show ?thesis
    using fast_hits[of "kernel_cpu c" "0xFFFFFFFF80000010" Write io] kernel_cpu_ok[where c = c]
    unfolding l by (simp add: tlb_entry_matches_asid_def) (simp add: kernel_entry_def)
qed

theorem tlb_serves_page_witness:
  "\<forall>(io :: unit device_io) c. fst (translate_data_address_fast io 0xFFFFFFFF80000ABC Write
      (on_perf (\<lambda>p. p\<lparr>mc_tlb_hits := mc_tlb_hits p + 1\<rparr>) (begin_translation (kernel_cpu c)))) = Some 0x40000ABC"
proof (intro allI)
  fix io :: "unit device_io" and c :: "unit cpu"
  have "page_of 0xFFFFFFFF80000ABC = page_of 0xFFFFFFFF80000010" by (simp add: page_of_def tlb_page_mask_def)
  then show "fst (translate_data_address_fast io 0xFFFFFFFF80000ABC Write
      (on_perf (\<lambda>p. p\<lparr>mc_tlb_hits := mc_tlb_hits p + 1\<rparr>) (begin_translation (kernel_cpu c)))) = Some 0x40000ABC"
    using tlb_serves_page[OF kernel_cpu_ok(1,2) kernel_translates, of "0xFFFFFFFF80000ABC" c io]
    by (simp add: kernel_cpu_ok)
qed

text \<open>
  C32. The TLB serves addresses the walk refuses: with tagging off, after an access to an upper
  address, one whose top byte differs so that it lies in neither range translates to the same
  physical address, since an entry is found by bits 55 to 12 alone, while without the TLB the same
  access is a translation fault.
\<close>
theorem tlb_hit_ignores_range:
  assumes "tlb_ok (c_tlb c)" "mmu_enabled (c_sysregs c)" "\<not> effective_tbi va c"
    and "translate_data_address_fast io va access c = (Some pa, c')"
    and "bit va 55" "\<not> bit va' 63" "va' AND mask 56 = va AND mask 56"
  shows "fst (translate_data_address_fast io va' access c') = Some pa \<and>
    fst (translate_address io va' access fill False pan c') = None"
proof
  have b: "bit va' i = bit va i" if "i < 56" for i
    using arg_cong[OF assms(7), of "\<lambda>w. bit w i"] that by (simp add: bit_and_iff bit_mask_iff)
  have "drop_bit 55 va' AND 1 \<noteq> 0 \<longleftrightarrow> drop_bit 55 va AND 1 \<noteq> 0"
    using b[of 55] by (simp add: and_one_eq mod_2_eq_odd bit_iff_odd_drop_bit)
  then have t: "\<not> effective_tbi va' c" using assms(3) by (simp add: effective_tbi_def Let_def)
  have n: "normalize_stage1_address va' c = va'" "normalize_stage1_address va c = va"
    using t assms(3) by (simp_all add: normalize_stage1_address_def)
  have s: "c_sysregs c' = c_sysregs c" using fast_ok[OF assms(1,4)] by simp
  have "page_of va' = page_of va" by (rule bit_word_eqI) (simp add: bit_page_of b cong: conj_cong)
  then have p: "translate_data_address_fast io va' access c' =
      (Some ((pa AND NOT 0xFFF) OR (va' AND 0xFFF)),
       on_perf (\<lambda>p. p\<lparr>mc_tlb_hits := mc_tlb_hits p + 1\<rparr>) (begin_translation c'))"
    by (intro serves_page[OF assms(1,2,4)]) (simp add: n)
  obtain e :: tlb_entry where e: "pa = push_bit 12 (te_pa_page e) OR (va AND 0xFFF)"
    using fast_leaves_entry[OF assms(1,2,4)] by blast
  have "(pa AND NOT 0xFFF) OR (va' AND 0xFFF) = pa"
    unfolding e page_bits using b
    by (intro bit_word_eqI) (auto simp: bit_and_iff bit_or_iff bit_not_iff bit_push_bit_iff bit_mask_iff)
  then show "fst (translate_data_address_fast io va' access c') = Some pa" by (simp add: p)
  have bs: "c_sysregs (begin_translation c') = c_sysregs c" using s by simp
  have "\<not> effective_tbi va' (begin_translation c')" using t by (simp add: effective_tbi_def s)
  moreover have "bit va' 55" using b[of 55] assms(5) by simp
  ultimately obtain f where "fst (walk_page_tables io va' access True pan True (begin_translation c')) = Inl f"
    using walk_refuses[OF _ assms(6)] by blast
  then obtain d where "walk_page_tables io va' access True pan True (begin_translation c') = (Inl f, d)"
    by (cases "walk_page_tables io va' access True pan True (begin_translation c')") simp
  then show "fst (translate_address io va' access fill False pan c') = None"
    using assms(2) by (simp add: translate_address_def Let_def normalize_cong[OF bs] n s)
qed

theorem tlb_hit_ignores_range_witness:
  "\<forall>(io :: unit device_io) c. fst (translate_data_address_fast io 0x00FFFFFF80000010 Write
      (on_perf (\<lambda>p. p\<lparr>mc_tlb_hits := mc_tlb_hits p + 1\<rparr>) (begin_translation (kernel_cpu c)))) = Some 0x40000010"
proof (intro allI)
  fix io :: "unit device_io" and c :: "unit cpu"
  have "bit (0xFFFFFFFF80000010 :: u64) 55" "\<not> bit (0x00FFFFFF80000010 :: u64) 63"
    "(0x00FFFFFF80000010 :: u64) AND mask 56 = 0xFFFFFFFF80000010 AND mask 56"
    by (simp_all add: bit_iff_odd mask_eq_exp_minus_1)
  then show "fst (translate_data_address_fast io 0x00FFFFFF80000010 Write
      (on_perf (\<lambda>p. p\<lparr>mc_tlb_hits := mc_tlb_hits p + 1\<rparr>) (begin_translation (kernel_cpu c)))) = Some 0x40000010"
    using tlb_hit_ignores_range[OF kernel_cpu_ok(1,2,4) kernel_translates] by blast
qed

end
