(* ===== verification/Exclusive_Proofs.thy ===== *)
theory Exclusive_Proofs
  imports Cpu_Memory
begin

text \<open>
  The exclusive monitor against the writes of the other CPUs and of the devices
  (\<open>notify_external_memory_write\<close>): it survives exactly the writes that miss its bytes.
\<close>

definition monitored :: "'d cpu \<Rightarrow> u64 set" where
  "monitored c = set (take (unat (ex_pa_count (c_exclusive c))) (ex_phys_addrs (c_exclusive c)))"

text \<open>The bytes that a write of \<open>sz\<close> bytes at \<open>pa\<close> touches.\<close>
definition touched :: "u64 \<times> usize \<Rightarrow> nat set" where
  "touched w = {unat (fst w) ..< unat (fst w) + unat (snd w)}"

definition notify_all :: "(u64 \<times> usize) list \<Rightarrow> 'd cpu \<Rightarrow> 'd cpu" where
  "notify_all = fold (\<lambda>(pa, sz). notify_external_memory_write pa sz)"

lemma notify_exclusive:
  "c_exclusive (notify_external_memory_write pa sz c) =
    (if exclusive_monitor_overlaps pa sz c then no_exclusive else c_exclusive c)"
  by (simp add: notify_external_memory_write_def Let_def exclusive_monitor_overlaps_def on_decode_def
      clear_exclusive_monitor_def)

lemma byte_overlap:
  assumes "unat pa + unat sz < 2 ^ 64" "unat a < 2 ^ 64 - 1"
  shows "ranges_overlap a 1 pa sz \<longleftrightarrow> unat a \<in> {unat pa ..< unat pa + unat sz}"
proof -
  have "unat (pa + sz) = unat pa + unat sz" by (rule unat_plus_no_wrap) (use assms in simp)
  moreover have "unat (a + 1) = unat a + 1" using unat_plus_no_wrap[of a 1] assms(2) by simp
  moreover have "sz = 0 \<longleftrightarrow> unat sz = 0" by (simp add: unat_eq_0)
  ultimately show ?thesis by (auto simp: ranges_overlap_def word_less_nat_alt)
qed

lemma overlaps_iff:
  assumes "unat pa + unat sz < 2 ^ 64" "\<forall>a \<in> monitored c. unat a < 2 ^ 64 - 1"
  shows "exclusive_monitor_overlaps pa sz c \<longleftrightarrow>
    ex_valid (c_exclusive c) \<and> (\<exists>a \<in> monitored c. unat a \<in> touched (pa, sz))"
proof -
  have m: "set (take (min (unat (ex_pa_count (c_exclusive c))) (length (ex_phys_addrs (c_exclusive c))))
      (ex_phys_addrs (c_exclusive c))) = monitored c"
    by (simp add: monitored_def min_def)
  have "ranges_overlap a 1 pa sz \<longleftrightarrow> unat a \<in> touched (pa, sz)" if "a \<in> monitored c" for a
    unfolding touched_def fst_conv snd_conv by (rule byte_overlap[OF assms(1)]) (use assms(2) that in blast)
  then have "(\<exists>a \<in> monitored c. ranges_overlap a 1 pa sz) \<longleftrightarrow> (\<exists>a \<in> monitored c. unat a \<in> touched (pa, sz))"
    by blast
  moreover have "exclusive_monitor_overlaps pa sz c \<longleftrightarrow>
      ex_valid (c_exclusive c) \<and> sz \<noteq> 0 \<and> (\<exists>a \<in> monitored c. ranges_overlap a 1 pa sz)"
    unfolding exclusive_monitor_overlaps_def Let_def list_ex_iff m by (rule if_bool_eq_conj[THEN trans]) blast
  moreover have "\<exists>a \<in> monitored c. ranges_overlap a 1 pa sz \<Longrightarrow> sz \<noteq> 0"
    unfolding ranges_overlap_def by blast
  ultimately show ?thesis by blast
qed

lemma cleared_stays: "\<not> ex_valid (c_exclusive c) \<Longrightarrow> \<not> ex_valid (c_exclusive (notify_all ws c))"
proof (induction ws arbitrary: c)
  case Nil
  then show ?case by (simp add: notify_all_def)
next
  case (Cons w ws)
  have "\<not> ex_valid (c_exclusive (notify_external_memory_write (fst w) (snd w) c))"
    using Cons.prems by (simp add: notify_exclusive exclusive_monitor_overlaps_def)
  from Cons.IH[OF this] show ?case by (cases w) (simp add: notify_all_def)
qed

text \<open>
  C18. The exclusive monitor survives a sequence of writes by the other observers exactly when
  none of them touches one of its bytes: a store exclusive that finds the monitor set knows that the
  bytes it loaded have not been written, and a write elsewhere never clears it. No write runs past
  the end of the address space and no monitored byte is its last one.
\<close>
theorem exclusive_monitor_exact:
  assumes "\<And>pa sz. (pa, sz) \<in> set ws \<Longrightarrow> unat pa + unat sz < 2 ^ 64"
    and "\<And>a. a \<in> monitored c \<Longrightarrow> unat a < 2 ^ 64 - 1"
  shows "ex_valid (c_exclusive (notify_all ws c)) \<longleftrightarrow>
    ex_valid (c_exclusive c) \<and> \<not> (\<exists>w \<in> set ws. \<exists>a \<in> monitored c. unat a \<in> touched w)"
  using assms
proof (induction ws arbitrary: c)
  case Nil
  then show ?case by (simp add: notify_all_def)
next
  case (Cons w ws)
  obtain pa sz where w: "w = (pa, sz)" by (cases w)
  let ?c = "notify_external_memory_write pa sz c"
  have o: "exclusive_monitor_overlaps pa sz c \<longleftrightarrow>
      ex_valid (c_exclusive c) \<and> (\<exists>a \<in> monitored c. unat a \<in> touched w)"
    unfolding w by (rule overlaps_iff) (use Cons.prems w in auto)
  have s: "notify_all (w # ws) c = notify_all ws ?c" by (simp add: notify_all_def w)
  show ?case
  proof (cases "exclusive_monitor_overlaps pa sz c")
    case True
    then have "\<not> ex_valid (c_exclusive ?c)" by (simp add: notify_exclusive no_exclusive_def)
    then show ?thesis using cleared_stays[of ?c ws] True o unfolding s by auto
  next
    case False
    then have e: "c_exclusive ?c = c_exclusive c" by (simp add: notify_exclusive)
    have "ex_valid (c_exclusive (notify_all ws ?c)) \<longleftrightarrow>
        ex_valid (c_exclusive ?c) \<and> \<not> (\<exists>w \<in> set ws. \<exists>a \<in> monitored ?c. unat a \<in> touched w)"
      by (rule Cons.IH) (use Cons.prems e in \<open>auto simp: monitored_def\<close>)
    then show ?thesis using False o unfolding s by (auto simp: monitored_def e)
  qed
qed

theorem exclusive_monitor_exact_witness:
  "\<forall>c :: unit cpu. \<not> ex_valid (c_exclusive (notify_all [(0x40000000, 8), (0x40001004, 1)]
    (c\<lparr>c_exclusive := \<lparr>ex_valid = True, ex_addr = 0x1004, ex_size = 1, ex_pa_count = 1,
      ex_phys_addrs = 0x40001004 # replicate 15 0\<rparr>\<rparr>)))"
proof
  fix c :: "unit cpu"
  let ?c = "c\<lparr>c_exclusive := \<lparr>ex_valid = True, ex_addr = 0x1004, ex_size = 1, ex_pa_count = 1,
      ex_phys_addrs = 0x40001004 # replicate 15 0\<rparr>\<rparr>"
  have m: "monitored ?c = {0x40001004}" by (simp add: monitored_def)
  show "\<not> ex_valid (c_exclusive (notify_all [(0x40000000, 8), (0x40001004, 1)] ?c))"
  proof (subst exclusive_monitor_exact)
    show "unat pa + unat sz < 2 ^ 64" if "(pa, sz) \<in> set [(0x40000000, 8), (0x40001004, 1)]" for pa sz :: u64
      using that by auto
    show "unat a < 2 ^ 64 - 1" if "a \<in> monitored ?c" for a using that unfolding m by simp
    show "\<not> (ex_valid (c_exclusive ?c) \<and>
        \<not> (\<exists>w \<in> set [(0x40000000, 8), (0x40001004, 1)]. \<exists>a \<in> monitored ?c. unat a \<in> touched w))"
      unfolding m by (simp add: touched_def)
  qed
qed

end
