(* ===== verification/Cpu_Irq.thy ===== *)
theory Cpu_Irq
  imports Cpu_Integer Gic_V3 Generic_Timer
begin

text \<open>
  The interrupt side of the CPU (\<open>src/src/cpu.cpp\<close>): the \<open>ICC_*\<close> operations on the interrupt
  controller, the entry into an interrupt, waiting and waking up, and \<open>reset\<close>. The references
  \<open>gic_\<close> and \<open>timer_\<close> are the controller and the timer among the devices of the bus: the type of the
  devices is an extension of the record \<open>irq_devices\<close>.
\<close>

record irq_devices =
  dv_gic :: gic
  dv_timer :: timer

section \<open>The controller and the timer\<close>

definition cpu_gic :: "'x irq_devices_scheme cpu \<Rightarrow> gic" where
  "cpu_gic c = dv_gic (bus_devices (c_bus c))"

definition on_gic :: "(gic \<Rightarrow> gic) \<Rightarrow> 'x irq_devices_scheme cpu \<Rightarrow> 'x irq_devices_scheme cpu" where
  "on_gic f c = (let b = c_bus c; d = bus_devices b in c\<lparr>c_bus := b\<lparr>bus_devices := d\<lparr>dv_gic := f (dv_gic d)\<rparr>\<rparr>\<rparr>)"

definition cpu_timer :: "'x irq_devices_scheme cpu \<Rightarrow> timer" where
  "cpu_timer c = dv_timer (bus_devices (c_bus c))"

definition on_timer :: "(timer \<Rightarrow> timer) \<Rightarrow> 'x irq_devices_scheme cpu \<Rightarrow> 'x irq_devices_scheme cpu" where
  "on_timer f c = (let b = c_bus c; d = bus_devices b in c\<lparr>c_bus := b\<lparr>bus_devices := d\<lparr>dv_timer := f (dv_timer d)\<rparr>\<rparr>\<rparr>)"

definition on_icc :: "(icc \<Rightarrow> icc) \<Rightarrow> 'd cpu \<Rightarrow> 'd cpu" where
  "on_icc f c = c\<lparr>c_icc := f (c_icc c)\<rparr>"

section \<open>The priority threshold\<close>

definition compute_irq_threshold :: "icc \<Rightarrow> u16" where
  "compute_irq_threshold i = min (ucast (icc_pmr_el1 i AND 0xFF)) (icc_running_priority i)"

definition refresh_irq_threshold_cache :: "icc \<Rightarrow> icc" where
  "refresh_irq_threshold_cache i = i\<lparr>icc_delivery_threshold := compute_irq_threshold i\<rparr>"

definition set_running_priority :: "u16 \<Rightarrow> 'd cpu \<Rightarrow> 'd cpu" where
  "set_running_priority p = on_icc (\<lambda>i. refresh_irq_threshold_cache (i\<lparr>icc_running_priority := p\<rparr>))"

definition delivery_pmr :: "'d cpu \<Rightarrow> u8" where
  "delivery_pmr c = ucast (icc_delivery_threshold (c_icc c) AND 0xFF)"

text \<open>The cache of a negative answer of the controller, taken at an epoch and a threshold.\<close>
definition note_negative_query :: "u64 \<Rightarrow> u16 \<Rightarrow> icc \<Rightarrow> icc" where
  "note_negative_query epoch threshold i =
    i\<lparr>icc_query_epoch := epoch, icc_query_threshold := threshold, icc_query_negative_valid := True\<rparr>"

definition query_known_negative :: "'x irq_devices_scheme cpu \<Rightarrow> bool" where
  "query_known_negative c \<longleftrightarrow> (let i = c_icc c in
    icc_query_negative_valid i \<and> icc_query_epoch i = gic_epoch (cpu_gic c) \<and>
    icc_query_threshold i = icc_delivery_threshold i)"

definition should_try_irq :: "'x irq_devices_scheme cpu \<Rightarrow> bool" where
  "should_try_irq c \<longleftrightarrow>
    (if irq_masked (c_sysregs c) \<or> icc_igrpen1_el1 (c_icc c) = 0 then False else \<not> query_known_negative c)"

section \<open>Acknowledge, priority drop and deactivation\<close>

definition exception_top :: "'d cpu \<Rightarrow> exception_frame" where
  "exception_top c = c_exception_stack c ! (c_exception_depth c - 1)"

definition manual_top :: "'d cpu \<Rightarrow> manual_frame" where
  "manual_top c = c_manual_irq_stack c ! (c_manual_irq_depth c - 1)"

definition push_manual :: "manual_frame \<Rightarrow> 'd cpu \<Rightarrow> 'd cpu" where
  "push_manual fr c =
    c\<lparr>c_manual_irq_stack := (c_manual_irq_stack c)[c_manual_irq_depth c := fr],
      c_manual_irq_depth := c_manual_irq_depth c + 1\<rparr>"

definition read_icc_iar1_el1 :: "'x irq_devices_scheme cpu \<Rightarrow> u64 \<times> 'x irq_devices_scheme cpu" where
  "read_icc_iar1_el1 c =
    (if c_exception_depth c \<noteq> 0 \<and> ef_is_irq (exception_top c) then (ucast (ef_intid (exception_top c)), c)
     else if icc_igrpen1_el1 (c_icc c) = 0 \<or> c_manual_irq_depth c \<ge> kExceptionStackCapacity then (1023, c)
     else
       case acknowledge (c_cpu_index c) (delivery_pmr c) (cpu_gic c) of ((found, intid), g) \<Rightarrow>
         let c = on_gic (\<lambda>_. g) c in
         if \<not> found then
           (1023, on_icc (\<lambda>i. note_negative_query (gic_epoch g) (icc_delivery_threshold i) i) c)
         else
           let c = on_icc (\<lambda>i. i\<lparr>icc_query_negative_valid := False\<rparr>) c;
               c = push_manual \<lparr>mf_intid = of_nat intid, mf_prev_prio = icc_running_priority (c_icc c),
                     mf_prio_dropped = False\<rparr> c
           in (of_nat intid, set_running_priority (ucast (gic_priority (c_cpu_index c) intid (cpu_gic c))) c))"

definition read_icc_hppir1_el1 :: "'x irq_devices_scheme cpu \<Rightarrow> u64" where
  "read_icc_hppir1_el1 c =
    (if icc_igrpen1_el1 (c_icc c) = 0 then 1023
     else case highest_pending (c_cpu_index c) (delivery_pmr c) (cpu_gic c) of
            (found, intid) \<Rightarrow> if found then of_nat intid else 1023)"

definition eoi_drop_dir :: "'d cpu \<Rightarrow> bool" where
  "eoi_drop_dir c \<longleftrightarrow> drop_bit 1 (icc_ctlr_el1 (c_icc c)) AND 0x1 \<noteq> 0"

definition icc_priority_drop :: "u32 \<Rightarrow> 'x irq_devices_scheme cpu \<Rightarrow> 'x irq_devices_scheme cpu" where
  "icc_priority_drop intid c =
    (if c_exception_depth c \<noteq> 0 \<and> ef_is_irq (exception_top c) \<and> ef_intid (exception_top c) = intid then
       let idx = c_exception_depth c - 1;
           c = set_running_priority (ef_prev_prio (exception_top c)) c;
           c = c\<lparr>c_exception_stack := (c_exception_stack c)[idx := (exception_top c)\<lparr>ef_prio_dropped := True\<rparr>]\<rparr>
       in if eoi_drop_dir c then c else on_gic (eoi (c_cpu_index c) (unat intid)) c
     else if c_manual_irq_depth c = 0 then c
     else if mf_intid (manual_top c) \<noteq> intid then c
     else
       let idx = c_manual_irq_depth c - 1;
           c = set_running_priority (mf_prev_prio (manual_top c)) c;
           c = c\<lparr>c_manual_irq_stack := (c_manual_irq_stack c)[idx := (manual_top c)\<lparr>mf_prio_dropped := True\<rparr>]\<rparr>
       in if eoi_drop_dir c then c
          else (on_gic (eoi (c_cpu_index c) (unat intid)) c)\<lparr>c_manual_irq_depth := idx\<rparr>)"

definition icc_deactivate :: "u32 \<Rightarrow> 'x irq_devices_scheme cpu \<Rightarrow> 'x irq_devices_scheme cpu" where
  "icc_deactivate intid c =
    (let c = on_gic (eoi (c_cpu_index c) (unat intid)) c in
     if c_manual_irq_depth c = 0 then c
     else if mf_intid (manual_top c) = intid \<and> mf_prio_dropped (manual_top c)
       then c\<lparr>c_manual_irq_depth := c_manual_irq_depth c - 1\<rparr>
     else c)"

section \<open>Entry into an interrupt\<close>

definition try_take_irq :: "'x irq_devices_scheme cpu \<Rightarrow> bool \<times> 'x irq_devices_scheme cpu" where
  "try_take_irq c =
    (let c = c\<lparr>c_exception_taken_this_step := True\<rparr>;
         irq_threshold = icc_delivery_threshold (c_icc c);
         irq_epoch = gic_epoch (cpu_gic c)
     in case acknowledge (c_cpu_index c) (ucast (irq_threshold AND 0xFF)) (cpu_gic c) of ((found, intid), g) \<Rightarrow>
       let c = on_gic (\<lambda>_. g) c in
       if \<not> found then (False, on_icc (note_negative_query irq_epoch irq_threshold) c)
       else
         let c = on_icc (\<lambda>i. i\<lparr>icc_query_negative_valid := False\<rparr>) c;
             from_lower_el = in_el0 (c_sysregs c);
             from_spx = use_sp_elx (c_sysregs c)
         in if c_exception_depth c \<ge> kExceptionStackCapacity then (False, c\<lparr>c_halted := True\<rparr>)
            else
              let c = save_current_sp_to_bank c;
                  fr = \<lparr>ef_is_irq = True, ef_intid = of_nat intid, ef_prev_prio = icc_running_priority (c_icc c),
                        ef_prio_dropped = False\<rparr>;
                  c = set_running_priority (ucast (gic_priority (c_cpu_index c) intid (cpu_gic c))) c;
                  c = push_exception fr c;
                  saved_pstate = pstate_bits (c_sysregs c);
                  c = (if software_step_active_not_pending (c_sysregs c)
                       then on_sysregs (set_software_step_state False) c else c);
                  c = on_sysregs (exception_enter_irq (c_pc c) saved_pstate) c;
                  c = load_current_sp_from_bank c
              in (True, c\<lparr>c_pc := normalize_stage1_address
                   (r_vbar_el1 (c_sysregs c) + (if from_lower_el then 0x480 else if from_spx then 0x280 else 0x80)) c\<rparr>))"

section \<open>Waiting\<close>

definition query_pending :: "u8 \<Rightarrow> 'x irq_devices_scheme cpu \<Rightarrow> bool \<times> 'x irq_devices_scheme cpu" where
  "query_pending pmr c =
    (case has_pending (c_cpu_index c) pmr (cpu_gic c) of (p, g) \<Rightarrow> (p, on_gic (\<lambda>_. g) c))"

definition irq_wakeup_ready :: "'x irq_devices_scheme cpu \<Rightarrow> bool \<times> 'x irq_devices_scheme cpu" where
  "irq_wakeup_ready c =
    (if irq_masked (c_sysregs c) \<or> icc_igrpen1_el1 (c_icc c) = 0 then (False, c)
     else
       let irq_threshold = icc_delivery_threshold (c_icc c); irq_epoch = gic_epoch (cpu_gic c) in
       if query_known_negative c then (False, c)
       else case query_pending (ucast (irq_threshold AND 0xFF)) c of
              (False, c) \<Rightarrow> (False, on_icc (note_negative_query irq_epoch irq_threshold) c)
            | (True, c) \<Rightarrow> (True, c))"

definition ready_to_run :: "'x irq_devices_scheme cpu \<Rightarrow> bool \<times> 'x irq_devices_scheme cpu" where
  "ready_to_run c =
    (if c_halted c then (False, c)
     else if \<not> c_waiting_for_interrupt c \<and> \<not> c_waiting_for_event c then (True, c)
     else if c_waiting_for_interrupt c then query_pending 0xFF c
     else if c_event_register c then (True, c)
     else irq_wakeup_ready c)"

definition kTimerVirtPpiIntId :: nat where "kTimerVirtPpiIntId = 27"
definition kTimerPhysPpiIntId :: nat where "kTimerPhysPpiIntId = 30"

definition refresh_local_timer_irq_lines :: "'x irq_devices_scheme cpu \<Rightarrow> 'x irq_devices_scheme cpu" where
  "refresh_local_timer_irq_lines c =
    (let t = cpu_timer c; i = c_cpu_index c;
         timer_virt_level = timer_irq_pending t \<or> irq_pending_virtual i t;
         timer_phys_level = irq_pending_physical i t
     in on_gic (set_level_on i kTimerPhysPpiIntId timer_phys_level)
          (on_gic (set_level_on i kTimerVirtPpiIntId timer_virt_level) c))"

section \<open>Reset\<close>

definition reset_icc :: icc where
  "reset_icc = refresh_irq_threshold_cache
    \<lparr>icc_pmr_el1 = 0xFF, icc_running_priority = 0x100, icc_ctlr_el1 = 0, icc_sre_el1 = 0, icc_bpr1_el1 = 0,
     icc_igrpen1_el1 = 0, icc_ap0r_el1 = replicate 4 0, icc_ap1r_el1 = replicate 4 0, icc_query_epoch = 0,
     icc_query_threshold = 0, icc_delivery_threshold = 0xFF, icc_query_negative_valid = False\<rparr>"

definition reset_exception_frame :: exception_frame where
  "reset_exception_frame = \<lparr>ef_is_irq = False, ef_intid = 0, ef_prev_prio = 0x100, ef_prio_dropped = False\<rparr>"

definition reset_manual_frame :: manual_frame where
  "reset_manual_frame = \<lparr>mf_intid = 0, mf_prev_prio = 0x100, mf_prio_dropped = False\<rparr>"

definition cpu_reset :: "u64 \<Rightarrow> 'd cpu \<Rightarrow> 'd cpu" where
  "cpu_reset pc c =
    (let sp_saved = c_regs c ! 31;
         c = c\<lparr>c_regs := (replicate 32 0)[31 := sp_saved], c_qregs := replicate 32 (0, 0),
               c_sysregs := set_sp_el1 sp_saved (sysregs_reset (c_sysregs c)),
               c_exception_depth := 0, c_exception_stack := replicate kExceptionStackCapacity reset_exception_frame,
               c_manual_irq_depth := 0, c_manual_irq_stack := replicate kExceptionStackCapacity reset_manual_frame,
               c_waiting_for_interrupt := False, c_waiting_for_event := False, c_event_register := False,
               c_icc := reset_icc,
               c_dcc := \<lparr>dcc_rx_data = 0, dcc_tx_data = 0, dcc_int_enable = 0, dcc_rx_full = False,
                         dcc_tx_full = False\<rparr>\<rparr>;
         c = clear_exclusive_monitor c;
         c = tlb_flush_all c;
         c = on_decode invalidate_decode_all c
     in c\<lparr>c_last := no_last_fault, c_pc := pc, c_steps := 0, c_halted := False\<rparr>)"

end
