(* ===== verification/Cpu_System.thy ===== *)
theory Cpu_System
  imports Cpu_Irq
begin

text \<open>
  \<open>Cpu::exec_system\<close> of \<open>src/src/cpu.cpp\<close>: hints and barriers, the cache, TLB and address translation
  instructions, \<open>MSR\<close> (immediate) and the reads and writes of the system registers with their
  EL0 checks. \<open>None\<close> is a false result, which never follows a change of the state. The environment
  of a step holds the virtual functions of the devices, the SoC's step counter and the two host clock
  readings that a timer access may take.
\<close>

record 'd cpu_env =
  env_io :: "'d device_io"
  env_time_steps :: "u64 option"
  env_now1 :: u64
  env_now2 :: u64

definition shared_timer_steps :: "'d cpu_env \<Rightarrow> 'd cpu \<Rightarrow> u64" where
  "shared_timer_steps env c = (case env_time_steps env of Some s \<Rightarrow> s | None \<Rightarrow> c_steps c)"

definition kDataCacheLineBytes :: usize where "kDataCacheLineBytes = 64"

section \<open>Keys\<close>

definition sysreg_key :: "u32 \<Rightarrow> u32 \<Rightarrow> u32 \<Rightarrow> u32 \<Rightarrow> u32 \<Rightarrow> u32" where
  "sysreg_key op0 op1 crn crm op2 =
    push_bit 14 op0 OR push_bit 11 op1 OR push_bit 7 crn OR push_bit 3 crm OR op2"

definition sysreg_trap_iss :: "bool \<Rightarrow> u32 \<Rightarrow> u32 \<Rightarrow> u32 \<Rightarrow> u32 \<Rightarrow> u32 \<Rightarrow> u32 \<Rightarrow> u32" where
  "sysreg_trap_iss is_read op0 op1 crn crm op2 rt =
    push_bit 20 (op0 AND 0x3) OR push_bit 17 (op2 AND 0x7) OR push_bit 14 (op1 AND 0x7) OR
    push_bit 10 (crn AND 0xF) OR push_bit 5 (rt AND 0x1F) OR push_bit 1 (crm AND 0xF) OR (if is_read then 1 else 0)"

definition key_op0 :: "u32 \<Rightarrow> u32" where "key_op0 key = drop_bit 14 key AND 0x3"
definition key_op1 :: "u32 \<Rightarrow> u32" where "key_op1 key = drop_bit 11 key AND 0x7"
definition key_crn :: "u32 \<Rightarrow> u32" where "key_crn key = drop_bit 7 key AND 0xF"
definition key_crm :: "u32 \<Rightarrow> u32" where "key_crm key = drop_bit 3 key AND 0xF"
definition key_op2 :: "u32 \<Rightarrow> u32" where "key_op2 key = key AND 0x7"

definition insn_op0 :: "u32 \<Rightarrow> u32" where "insn_op0 insn = drop_bit 19 insn AND 0x3"
definition insn_op1 :: "u32 \<Rightarrow> u32" where "insn_op1 insn = drop_bit 16 insn AND 0x7"
definition insn_crn :: "u32 \<Rightarrow> u32" where "insn_crn insn = drop_bit 12 insn AND 0xF"
definition insn_crm :: "u32 \<Rightarrow> u32" where "insn_crm insn = drop_bit 8 insn AND 0xF"
definition insn_op2 :: "u32 \<Rightarrow> u32" where "insn_op2 insn = drop_bit 5 insn AND 0x7"

definition insn_key :: "u32 \<Rightarrow> u32" where
  "insn_key insn = sysreg_key (insn_op0 insn) (insn_op1 insn) (insn_crn insn) (insn_crm insn) (insn_op2 insn)"

definition insn_trap_iss :: "bool \<Rightarrow> u32 \<Rightarrow> u32" where
  "insn_trap_iss is_read insn = sysreg_trap_iss is_read (insn_op0 insn) (insn_op1 insn) (insn_crn insn)
    (insn_crm insn) (insn_op2 insn) (insn AND 0x1F)"

section \<open>Undefined and trapped instructions\<close>

definition undefined_current_instruction :: "'d cpu \<Rightarrow> 'd cpu" where
  "undefined_current_instruction c = enter_sync_exception (c_pc c - 4) 0x00 0 False 0 c"

definition trap_current_system_instruction :: "u32 \<Rightarrow> 'd cpu \<Rightarrow> 'd cpu" where
  "trap_current_system_instruction insn c = enter_sync_exception (c_pc c - 4) 0x18 (insn_trap_iss False insn) False 0 c"

definition undef_system_insns :: "u32 list" where
  "undef_system_insns = [0xD500401F, 0xD500405F, 0xD500403F, 0xD50330FF, 0xD508779F, 0xD50877DF, 0xD50877BF]"

definition undef_system_rt_insns :: "u32 list" where
  "undef_system_rt_insns = [0xD5087900, 0xD5087920, 0xD5031000, 0xD5031020, 0xD50B7380, 0xD50B73A0, 0xD50B73C0,
    0xD50B73E0, 0xD50B7700, 0xD50B7740, 0xD52B7760, 0xD52B7720]"

definition el0_enabled :: "u64 \<Rightarrow> 'd cpu \<Rightarrow> bool" where
  "el0_enabled flag c \<longleftrightarrow> \<not> in_el0 (c_sysregs c) \<or> r_sctlr_el1 (c_sysregs c) AND flag \<noteq> 0"

section \<open>Hints\<close>

definition trap_wfx :: "u32 \<Rightarrow> 'd cpu \<Rightarrow> 'd cpu" where
  "trap_wfx iss c = enter_sync_exception (c_pc c - 4) 0x01 iss False 0 c"

definition exec_hint :: "u32 \<Rightarrow> 'd cpu \<Rightarrow> 'd cpu" where
  "exec_hint insn c =
    (let op = drop_bit 5 insn AND 0x7F;
         denied = (\<lambda>flag. in_el0 (c_sysregs c) \<and> r_sctlr_el1 (c_sysregs c) AND flag = 0)
     in if op = 0x02 then
          (if denied kSctlrEl1NTwe then trap_wfx 0x1 c
           else if c_event_register c then c\<lparr>c_event_register := False\<rparr>
           else c\<lparr>c_waiting_for_event := True\<rparr>)
        else if op = 0x03 then
          (if denied kSctlrEl1NTwi then trap_wfx 0x0 c else c\<lparr>c_waiting_for_interrupt := True\<rparr>)
        else if op = 0x04 then
          (if c_callbacks c then call Sev_Broadcast c else c\<lparr>c_event_register := True\<rparr>)
        else if op = 0x05 then c\<lparr>c_event_register := True\<rparr>
        else c)"

section \<open>Access to the system registers\<close>

definition key_in :: "u32 \<Rightarrow> (u32 \<times> u32 \<times> u32 \<times> u32 \<times> u32) list \<Rightarrow> bool" where
  "key_in key rows \<longleftrightarrow> list_ex (\<lambda>(op0, op1, crn, crm, op2). key = sysreg_key op0 op1 crn crm op2) rows"

definition el0_timer_sysreg_allowed :: "u32 \<Rightarrow> bool \<Rightarrow> 'd cpu \<Rightarrow> bool" where
  "el0_timer_sysreg_allowed key wr c =
    (if \<not> in_el0 (c_sysregs c) then True
     else
       let cntkctl = (case sysreg_read 3 0 14 1 0 (c_sysregs c) of Some v \<Rightarrow> v | None \<Rightarrow> 0)
       in if key_in key [(3,3,14,0,2), (3,3,14,0,1)] then
            (if wr then False
             else cntkctl AND push_bit (if key = sysreg_key 3 3 14 0 2 then 1 else 0) 1 \<noteq> 0)
          else if key_in key [(3,3,14,3,0), (3,3,14,3,1), (3,3,14,3,2)] then cntkctl AND push_bit 8 1 \<noteq> 0
          else if key_in key [(3,3,14,2,0), (3,3,14,2,1), (3,3,14,2,2)] then cntkctl AND push_bit 9 1 \<noteq> 0
          else False)"

definition el0_sysreg_access_allowed :: "u32 \<Rightarrow> bool \<Rightarrow> 'd cpu \<Rightarrow> bool" where
  "el0_sysreg_access_allowed key wr c =
    (if \<not> in_el0 (c_sysregs c) then True
     else if el0_timer_sysreg_allowed key wr c then True
     else if key_in key [(2,3,0,1,0), (2,3,0,4,0), (2,3,0,5,0)] then dcc_el0_access_allowed c
     else if key_in key [(3,3,4,2,0), (3,3,4,4,0), (3,3,4,4,1), (3,3,13,0,2)] then True
     else if key_in key [(3,3,4,2,1)] then el0_enabled kSctlrEl1Uma c
     else if key_in key [(3,3,0,0,7), (3,3,13,0,3), (3,3,14,0,0)] then \<not> wr
     else if key_in key [(3,3,0,0,1)] then \<not> wr \<and> el0_enabled kSctlrEl1Uct c
     else False)"

definition amu_feature_level :: "'d cpu \<Rightarrow> u32" where
  "amu_feature_level c = ucast (drop_bit 44 (r_id_aa64pfr0_el1 (c_sysregs c)) AND 0xF)"

definition is_break_watch_sysreg :: "u32 \<Rightarrow> bool" where
  "is_break_watch_sysreg key \<longleftrightarrow> key_op0 key = 2 \<and> key_op1 key = 0 \<and> key_crn key = 0 \<and> key_crm key < 16 \<and>
    key_op2 key \<in> {4, 5, 6, 7}"

definition software_access_debug_event_should_halt :: "u32 \<Rightarrow> 'd cpu \<Rightarrow> bool" where
  "software_access_debug_event_should_halt key c =
    (if \<not> is_break_watch_sysreg key \<or> r_mdscr_el1 (c_sysregs c) AND kMdscrEl1Tda = 0 then False
     else case sysreg_read 2 0 1 1 4 (c_sysregs c) of None \<Rightarrow> False | Some oslsr \<Rightarrow> oslsr AND push_bit 1 1 = 0)"

definition read_mdscr_el1 :: "'d cpu \<Rightarrow> u64" where
  "read_mdscr_el1 c =
    (let v = r_mdscr_el1 (c_sysregs c) AND NOT (kMdscrEl1Rxfull OR kMdscrEl1Txfull);
         v = (if dcc_rx_full (c_dcc c) then v OR kMdscrEl1Rxfull else v)
     in if dcc_tx_full (c_dcc c) then v OR kMdscrEl1Txfull else v)"

definition sysregs_write_or :: "u32 \<Rightarrow> u32 \<Rightarrow> u32 \<Rightarrow> u32 \<Rightarrow> u32 \<Rightarrow> u64 \<Rightarrow> sysregs \<Rightarrow> sysregs" where
  "sysregs_write_or op0 op1 crn crm op2 v r =
    (case sysreg_write op0 op1 crn crm op2 v r of Some r' \<Rightarrow> r' | None \<Rightarrow> r)"

definition write_mdscr_el1 :: "u64 \<Rightarrow> 'd cpu \<Rightarrow> 'd cpu" where
  "write_mdscr_el1 v c =
    (let os_lock = (case sysreg_read 2 0 1 1 4 (c_sysregs c) of None \<Rightarrow> False | Some oslsr \<Rightarrow> oslsr AND push_bit 1 1 \<noteq> 0);
         c = on_sysregs (sysregs_write_or 2 0 0 2 2 v) c
     in if os_lock then on_dcc (\<lambda>d. d\<lparr>dcc_rx_full := (v AND kMdscrEl1Rxfull \<noteq> 0),
                                       dcc_tx_full := (v AND kMdscrEl1Txfull \<noteq> 0)\<rparr>) c
        else c)"

definition is_amu_v1_sysreg :: "u32 \<Rightarrow> bool" where
  "is_amu_v1_sysreg key =
    (let crm = key_crm key; op2 = key_op2 key in
     if key_op0 key \<noteq> 3 \<or> key_op1 key \<noteq> 3 \<or> key_crn key \<noteq> 13 then False
     else if crm = 2 then op2 \<le> 5
     else if crm = 3 then op2 \<le> 1
     else crm \<in> {4, 5, 6, 7, 12, 13, 14, 15})"

definition is_amu_v1p1_sysreg :: "u32 \<Rightarrow> bool" where
  "is_amu_v1p1_sysreg key =
    (let op0 = key_op0 key; op1 = key_op1 key; crn = key_crn key; crm = key_crm key in
     if op0 = 3 \<and> op1 = 3 \<and> crn = 13 \<and> crm = 2 \<and> key_op2 key = 6 then True
     else if op0 \<noteq> 3 \<or> op1 \<noteq> 4 \<or> crn \<noteq> 13 then False
     else crm \<in> {8, 9, 10, 11})"

definition absent_sysregs :: "(u32 \<times> u32 \<times> u32 \<times> u32 \<times> u32) list" where
  "absent_sysregs =
    [(3,3,13,0,5), (3,3,2,5,1), (3,3,2,4,0), (3,3,2,4,1), (3,3,14,15,7), (3,3,9,13,0), (3,3,9,12,6), (3,3,9,12,7),
     (3,3,9,12,2), (3,3,9,12,1), (3,3,9,12,0), (3,0,9,14,2), (3,0,9,14,1), (3,0,9,14,6), (3,0,9,14,5), (3,0,9,14,7),
     (2,0,14,11,7), (3,3,9,6,0), (3,3,9,4,0), (2,0,14,12,0), (3,0,9,14,4), (3,3,9,12,3), (3,3,9,14,3), (3,3,9,12,5),
     (3,3,9,12,4), (3,3,9,13,4), (3,0,9,9,0), (3,4,9,9,0), (3,0,9,10,4), (3,0,9,9,5), (3,0,9,9,4), (3,0,9,9,2),
     (3,0,9,9,7), (3,0,9,9,3), (3,0,9,9,6), (3,0,9,9,1), (3,0,9,10,7), (3,0,9,10,0), (3,0,9,10,5), (3,0,9,10,1),
     (3,0,9,10,3), (3,4,9,10,3), (3,6,9,10,3), (3,3,13,0,7), (3,0,13,0,7), (3,0,13,0,6), (3,0,13,0,3), (3,3,10,2,4),
     (3,0,1,2,1), (3,3,4,2,2), (3,0,1,2,6), (3,4,1,2,6), (3,6,1,2,6), (3,3,9,13,2), (3,3,9,13,1), (3,3,9,14,0),
     (3,0,4,3,0), (3,0,4,3,1), (3,0,4,2,4), (3,3,4,2,5), (3,3,4,2,6), (3,3,4,2,7)]"

definition sysreg_present :: "u32 \<Rightarrow> 'd cpu \<Rightarrow> bool" where
  "sysreg_present key c =
    (if amu_feature_level c < 1 \<and> is_amu_v1_sysreg key then False
     else if amu_feature_level c < 2 \<and> is_amu_v1p1_sysreg key then False
     else
       let crm = key_crm key; op2 = key_op2 key;
           debug = key_op0 key = 2 \<and> key_op1 key = 0 \<and> key_crn key = 0 \<and> crm < 16
       in if debug \<and> (op2 = 4 \<or> op2 = 5) then crm < breakpoint_resource_count (c_sysregs c)
          else if debug \<and> (op2 = 6 \<or> op2 = 7) then crm < watchpoint_resource_count (c_sysregs c)
          else \<not> key_in key absent_sysregs)"

definition linux_el0_cpuid_trap_sysreg :: "u32 \<Rightarrow> bool" where
  "linux_el0_cpuid_trap_sysreg key =
    (let crm = key_crm key; op2 = key_op2 key in
     if key_op0 key \<noteq> 3 \<or> key_op1 key \<noteq> 0 \<or> key_crn key \<noteq> 0 then False
     else if crm = 0 then op2 = 0 \<or> op2 = 5 \<or> op2 = 6
     else crm \<ge> 2 \<and> crm \<le> 7)"

definition el0_undefined_sysregs :: "(u32 \<times> u32 \<times> u32 \<times> u32 \<times> u32) list" where
  "el0_undefined_sysregs =
    [(3,0,4,2,0), (3,0,4,1,0), (3,4,4,1,0), (3,0,4,2,2), (3,0,4,2,3), (2,0,0,0,2), (2,0,0,2,0), (2,0,0,2,2),
     (2,0,0,3,2), (2,0,0,6,2), (2,0,1,0,0), (2,0,1,4,4), (2,0,1,0,4), (2,0,1,1,4), (2,0,1,3,4), (2,0,7,8,6),
     (2,0,7,9,6), (2,0,7,14,6), (3,3,4,5,0), (3,3,4,5,1)]"

definition el0_undefined_id_sysregs :: "(u32 \<times> u32 \<times> u32 \<times> u32 \<times> u32) list" where
  "el0_undefined_id_sysregs =
    [(3,0,0,0,0), (3,0,0,0,5), (3,0,0,0,6), (3,1,0,0,0), (3,1,0,0,1), (3,0,0,4,0), (3,0,0,4,1), (3,0,0,4,2),
     (3,0,0,4,4), (3,0,0,4,5), (3,0,0,4,7), (3,0,0,5,0), (3,0,0,5,1), (3,0,0,6,0), (3,0,0,6,1), (3,0,0,6,2),
     (3,0,0,6,3), (3,0,0,7,0), (3,0,0,7,1), (3,0,0,7,2), (3,0,0,7,3), (3,0,0,7,4)]"

definition el0_sysreg_undefined :: "u32 \<Rightarrow> bool \<Rightarrow> 'd cpu \<Rightarrow> bool" where
  "el0_sysreg_undefined key wr c =
    (if \<not> in_el0 (c_sysregs c) then False
     else if key_in key el0_undefined_sysregs then True
     else \<not> wr \<and> \<not> linux_el0_cpuid_trap_sysreg key \<and> key_in key el0_undefined_id_sysregs)"

section \<open>Cache and TLB maintenance\<close>

definition rt_masked :: "u32 \<Rightarrow> u32" where "rt_masked insn = insn AND 0xFFFFFFE0"

definition exec_tlbi :: "u32 \<Rightarrow> 'd cpu \<Rightarrow> 'd cpu option" where
  "exec_tlbi insn c =
    (let el0 = in_el0 (c_sysregs c); operand = reg (rd_of insn) c; all_asids = insn AND 0x40 \<noteq> 0 in
     if insn \<in> {0xD508871F, 0xD508831F} then
       Some (if el0 then undefined_current_instruction c else call Tlbi_Vmalle1 (notify_tlbi_vmalle1 c))
     else if rt_masked insn \<in> {0xD5088720, 0xD5088320, 0xD50887A0, 0xD50883A0, 0xD5088760, 0xD5088360,
                               0xD50887E0, 0xD50883E0} then
       Some (if el0 then undefined_current_instruction c
             else call (Tlbi_Vae1 operand all_asids) (notify_tlbi_vae1 operand all_asids c))
     else if rt_masked insn \<in> {0xD5088740, 0xD5088340} then
       Some (if el0 then undefined_current_instruction c
             else call (Tlbi_Aside1 (tlbi_operand_asid operand c)) (notify_tlbi_aside1 (tlbi_operand_asid operand c) c))
     else if insn \<in> {0xD508751F, 0xD508711F} then
       Some (if el0 then undefined_current_instruction c else call Ic_Ivau (on_decode invalidate_decode_all c))
     else None)"

definition exec_dc_ivac :: "'d cpu_env \<Rightarrow> u32 \<Rightarrow> 'd cpu \<Rightarrow> 'd cpu" where
  "exec_dc_ivac env insn c =
    (if in_el0 (c_sysregs c) then undefined_current_instruction c
     else
       let va = reg (rd_of insn) c; line_base = va AND NOT (kDataCacheLineBytes - 1) in
       case translate_address (env_io env) va Write True True False c of
         (None, c) \<Rightarrow> data_abort va True c
       | (Some r, c) \<Rightarrow> snd (maybe_take_watchpoint_exception line_base kDataCacheLineBytes Write True c))"

definition exec_dc_by_va :: "'d cpu_env \<Rightarrow> bool \<Rightarrow> u32 \<Rightarrow> 'd cpu \<Rightarrow> 'd cpu" where
  "exec_dc_by_va env is_ic insn c =
    (if \<not> el0_enabled kSctlrEl1Uci c then trap_current_system_instruction insn c
     else
       let va = reg (rd_of insn) c in
       case translate_cache_maintenance_address (env_io env) va True True True c of
         (None, c) \<Rightarrow> data_abort va True c
       | (Some r, c) \<Rightarrow>
           if is_ic then call Ic_Ivau (on_decode (invalidate_decode_va (normalize_stage1_address va c) 1) c) else c)"

text \<open>The eight translations of the block: \<open>None\<close> once a fault has been taken.\<close>
fun zva_translate :: "'d device_io \<Rightarrow> u64 list \<Rightarrow> 'd cpu \<Rightarrow> u64 list option \<times> 'd cpu" where
  "zva_translate io [] c = (Some [], c)"
| "zva_translate io (va # vas) c =
    (case translate_address io va Write True True True c of
       (None, c) \<Rightarrow> (None, data_abort va False c)
     | (Some r, c) \<Rightarrow>
         if pg_memory_type (tr_page r) = Device_Memory then
           (None, enter_sync_exception (c_pc c - 4) (if in_el0 (c_sysregs c) then 0x24 else 0x25)
                    (0x21 OR push_bit 6 1) True va c)
         else case zva_translate io vas c of
                (None, c) \<Rightarrow> (None, c)
              | (Some pas, c) \<Rightarrow> (Some (tr_pa r # pas), c))"

fun zva_store :: "'d device_io \<Rightarrow> (u64 \<times> u64) list \<Rightarrow> 'd cpu \<Rightarrow> bool \<times> 'd cpu" where
  "zva_store io [] c = (True, c)"
| "zva_store io ((va, pa) # rest) c =
    (case cpu_bus_write io pa 0 8 c of
       (False, c) \<Rightarrow>
         (False, enter_sync_exception (c_pc c - 4) (if in_el0 (c_sysregs c) then 0x24 else 0x25)
                   (external_abort_iss True False) True va c)
     | (True, c) \<Rightarrow> zva_store io rest (call (Memory_Write pa 8) (on_code_write va pa 8 c)))"

definition exec_dc_zva :: "'d cpu_env \<Rightarrow> u32 \<Rightarrow> 'd cpu \<Rightarrow> 'd cpu" where
  "exec_dc_zva env insn c =
    (if \<not> el0_enabled kSctlrEl1Dze c then trap_current_system_instruction insn c
     else
       let base = reg (rd_of insn) c AND NOT (kDataCacheLineBytes - 1);
           vas = map (\<lambda>i. base + of_nat (8 * i)) [0..<8]
       in case zva_translate (env_io env) vas c of
            (None, c) \<Rightarrow> c
          | (Some pas, c) \<Rightarrow>
              (case maybe_take_watchpoint_exception base kDataCacheLineBytes Write False c of
                 (True, c) \<Rightarrow> c
               | (False, c) \<Rightarrow>
                   (case zva_store (env_io env) (zip vas pas) c of
                      (False, c) \<Rightarrow> c
                    | (True, c) \<Rightarrow> clear_exclusive_monitor c)))"

definition exec_cache :: "'d cpu_env \<Rightarrow> u32 \<Rightarrow> 'd cpu \<Rightarrow> 'd cpu option" where
  "exec_cache env insn c =
    (let op = rt_masked insn in
     if op = 0xD50B7520 then Some (exec_dc_by_va env True insn c)
     else if op = 0xD5087620 then Some (exec_dc_ivac env insn c)
     else if op \<in> {0xD50B7A20, 0xD50B7B20, 0xD50B7E20} then Some (exec_dc_by_va env False insn c)
     else if op \<in> {0xD50B7C20, 0xD50B7D20} then Some (undefined_current_instruction c)
     else if op = 0xD50B7420 then Some (exec_dc_zva env insn c)
     else if op \<in> {0xD5087640, 0xD5087A40, 0xD5087E40} then
       Some (if in_el0 (c_sysregs c) then undefined_current_instruction c else c)
     else None)"

section \<open>Address translation instructions\<close>

definition par_reported_shareability :: "page_attributes \<Rightarrow> u64" where
  "par_reported_shareability p =
    (if pg_memory_type p = Device_Memory \<or> pg_mair_attr p = 0x44 then 0x2
     else case pg_leaf_shareability p of
            Non_Shareable \<Rightarrow> 0x0 | Outer_Shareable \<Rightarrow> 0x2 | Inner_Shareable \<Rightarrow> 0x3 | Reserved_Shareability \<Rightarrow> 0x0)"

definition par_success_value :: "translation_result \<Rightarrow> u64" where
  "par_success_value r =
    (tr_pa r AND 0x0000FFFFFFFFF000) OR push_bit 11 1 OR push_bit 7 (par_reported_shareability (tr_page r)) OR
    push_bit 56 (ucast (pg_mair_attr (tr_page r)))"

definition update_par_from_translation :: "u64 \<Rightarrow> translation_result option \<Rightarrow> 'd cpu \<Rightarrow> 'd cpu" where
  "update_par_from_translation va result c =
    (case result of
       Some r \<Rightarrow> on_sysregs (set_par_el1 (par_success_value r)) c
     | None \<Rightarrow>
         (case last_translation_fault (c_last c) of
            Some f \<Rightarrow> if f_kind f = External_Abort_On_Walk then data_abort va True c else set_par_el1_for_fault f c
          | None \<Rightarrow> on_sysregs (set_par_el1 1) c))"

definition exec_at :: "'d cpu_env \<Rightarrow> u32 \<Rightarrow> 'd cpu \<Rightarrow> 'd cpu option" where
  "exec_at env insn c =
    (let va = reg (rd_of insn) c;
         run = (\<lambda>access pan. case translate_address (env_io env) va access False False pan c of
                  (r, c) \<Rightarrow> update_par_from_translation va r c);
         go = (\<lambda>access pan. Some (if in_el0 (c_sysregs c) then undefined_current_instruction c else run access pan));
         op = rt_masked insn
     in if op = 0xD5087800 then go Read False
        else if op = 0xD5087820 then go Write False
        else if op = 0xD5087840 then go Unprivileged_Read True
        else if op = 0xD5087860 then go Unprivileged_Write True
        else None)"

section \<open>MSR (immediate)\<close>

definition exec_msr_imm :: "u32 \<Rightarrow> 'd cpu \<Rightarrow> 'd cpu option" where
  "exec_msr_imm insn c =
    (let el0 = in_el0 (c_sysregs c);
         crm = insn_crm insn;
         field = push_bit 3 (insn_op1 insn) OR insn_op2 insn
     in if field = 4 then (if el0 then None else Some (on_sysregs (set_pan (crm AND 0x1 \<noteq> 0)) c))
        else if field = 5 then
          (if el0 then None
           else Some (load_current_sp_from_bank (on_sysregs (set_spsel (ucast (crm AND 0x1))) (save_current_sp_to_bank c))))
        else if field = 30 then
          Some (if \<not> el0_enabled kSctlrEl1Uma c then trap_current_system_instruction insn c
                else on_sysregs (daif_set (ucast crm)) c)
        else if field = 31 then
          Some (if \<not> el0_enabled kSctlrEl1Uma c then trap_current_system_instruction insn c
                else on_sysregs (daif_clr (ucast crm)) c)
        else Some (undefined_current_instruction c))"

section \<open>MRS\<close>

text \<open>The registers that the CPU keeps itself: the value and the state after the read.\<close>
definition mrs_local ::
  "'x irq_devices_scheme cpu_env \<Rightarrow> u32 \<Rightarrow> 'x irq_devices_scheme cpu \<Rightarrow> (u64 \<times> 'x irq_devices_scheme cpu) option" where
  "mrs_local env key c =
    (let i = c_icc c; cpu = c_cpu_index c; t = cpu_timer c; steps = shared_timer_steps env c; now = env_now1 env in
     if key = sysreg_key 3 0 12 12 0 then Some (read_icc_iar1_el1 c)
     else if key = sysreg_key 3 0 12 12 2 then Some (read_icc_hppir1_el1 c, c)
     else if key = sysreg_key 3 0 12 11 3 then
       Some (if icc_running_priority i \<ge> 0x100 then 0xFF else ucast (icc_running_priority i AND 0xFF), c)
     else if key = sysreg_key 2 3 0 1 0 then Some (read_mdccsr_el0 c, c)
     else if key = sysreg_key 2 0 0 2 0 then Some (read_mdccint_el1 c, c)
     else if key = sysreg_key 2 0 0 2 2 then Some (read_mdscr_el1 c, c)
     else if key = sysreg_key 2 3 0 4 0 then Some (read_dbgdtr_el0 c)
     else if key = sysreg_key 2 3 0 5 0 then (case read_dbgdtrrx_el0 c of (v, c) \<Rightarrow> Some (ucast v, c))
     else if key = sysreg_key 2 0 0 0 2 then Some (read_osdtrrx_el1 c, c)
     else if key = sysreg_key 2 0 0 3 2 then Some (read_osdtrtx_el1 c, c)
     else if key = sysreg_key 3 0 4 6 0 then Some (icc_pmr_el1 i, c)
     else if key = sysreg_key 3 0 12 12 4 then Some (icc_ctlr_el1 i, c)
     else if key = sysreg_key 3 0 12 12 5 then Some (icc_sre_el1 i, c)
     else if key = sysreg_key 3 0 12 12 3 then Some (icc_bpr1_el1 i, c)
     else if key = sysreg_key 3 0 12 9 0 then Some (icc_ap1r_el1 i ! 0, c)
     else if key = sysreg_key 3 0 12 9 1 then Some (icc_ap1r_el1 i ! 1, c)
     else if key = sysreg_key 3 0 12 9 2 then Some (icc_ap1r_el1 i ! 2, c)
     else if key = sysreg_key 3 0 12 9 3 then Some (icc_ap1r_el1 i ! 3, c)
     else if key = sysreg_key 3 3 14 0 1 \<or> key = sysreg_key 3 3 14 0 2 then Some (counter_at_steps now steps t, c)
     else if key = sysreg_key 3 3 14 3 1 then Some (read_cntv_ctl_el0 cpu steps now t, c)
     else if key = sysreg_key 3 3 14 3 2 then Some (read_cntv_cval_el0 cpu t, c)
     else if key = sysreg_key 3 3 14 3 0 then Some (read_cntv_tval_el0 cpu steps now t, c)
     else if key = sysreg_key 3 3 14 2 1 then Some (read_cntp_ctl_el0 cpu steps now t, c)
     else if key = sysreg_key 3 3 14 2 2 then Some (read_cntp_cval_el0 cpu t, c)
     else if key = sysreg_key 3 3 14 2 0 then Some (read_cntp_tval_el0 cpu steps now t, c)
     else None)"

definition insn_sysreg_read :: "u32 \<Rightarrow> 'd cpu \<Rightarrow> u64 option" where
  "insn_sysreg_read insn c =
    sysreg_read (insn_op0 insn) (insn_op1 insn) (insn_crn insn) (insn_crm insn) (insn_op2 insn) (c_sysregs c)"

definition mrs_value ::
  "'x irq_devices_scheme cpu_env \<Rightarrow> u32 \<Rightarrow> 'x irq_devices_scheme cpu \<Rightarrow> (u64 \<times> 'x irq_devices_scheme cpu) option" where
  "mrs_value env insn c =
    (let key = insn_key insn in
     case mrs_local env key c of
       Some x \<Rightarrow> Some x
     | None \<Rightarrow>
         if key = sysreg_key 3 3 0 0 7 then
           (case insn_sysreg_read insn c of
              None \<Rightarrow> None
            | Some v \<Rightarrow> Some (if \<not> el0_enabled kSctlrEl1Dze c then v OR push_bit 4 1 else v, c))
         else if key = sysreg_key 3 0 4 1 0 then
           (if current_uses_sp_el0 (c_sysregs c) then None else Some (r_sp_el0 (c_sysregs c), c))
         else if key = sysreg_key 3 4 4 1 0 then None
         else (case insn_sysreg_read insn c of None \<Rightarrow> None | Some v \<Rightarrow> Some (v, c)))"

text \<open>The tests that come before the access: \<open>Inl\<close> the result when one of them decides.\<close>
definition sysreg_gate :: "bool \<Rightarrow> u32 \<Rightarrow> 'd cpu \<Rightarrow> 'd cpu option + unit" where
  "sysreg_gate is_read insn c =
    (let key = insn_key insn in
     if \<not> sysreg_present key c then Inl None
     else if el0_sysreg_undefined key (\<not> is_read) c then Inl None
     else if \<not> el0_sysreg_access_allowed key (\<not> is_read) c then
       Inl (Some (enter_sync_exception (c_pc c - 4) 0x18 (insn_trap_iss is_read insn) False 0 c))
     else if software_access_debug_event_should_halt key c then Inl (Some (c\<lparr>c_halted := True\<rparr>))
     else Inr ())"

definition exec_mrs ::
  "'x irq_devices_scheme cpu_env \<Rightarrow> u32 \<Rightarrow> 'x irq_devices_scheme cpu \<Rightarrow> 'x irq_devices_scheme cpu option" where
  "exec_mrs env insn c =
    (case sysreg_gate True insn c of
       Inl r \<Rightarrow> r
     | Inr _ \<Rightarrow> (case mrs_value env insn c of None \<Rightarrow> None | Some (v, c) \<Rightarrow> Some (set_reg (rd_of insn) v c)))"

section \<open>MSR (register)\<close>

definition set_ap :: "nat \<Rightarrow> u64 \<Rightarrow> u64 list \<Rightarrow> u64 list" where
  "set_ap i v aps = aps[i := v]"

definition msr_local ::
  "'x irq_devices_scheme cpu_env \<Rightarrow> u32 \<Rightarrow> u64 \<Rightarrow> 'x irq_devices_scheme cpu \<Rightarrow> 'x irq_devices_scheme cpu option" where
  "msr_local env key v c =
    (let cpu = c_cpu_index c; steps = shared_timer_steps env c; t1 = env_now1 env; t2 = env_now2 env;
         timed = (\<lambda>f. Some (refresh_local_timer_irq_lines (on_timer f c)))
     in if key = sysreg_key 3 0 12 12 1 then Some (icc_priority_drop (ucast v) c)
        else if key = sysreg_key 3 0 4 2 0 then
          Some (load_current_sp_from_bank (on_sysregs (set_spsel v) (save_current_sp_to_bank c)))
        else if key = sysreg_key 2 3 0 4 0 then Some (write_dbgdtr_el0 v c)
        else if key = sysreg_key 2 3 0 5 0 then Some (write_dbgdtrtx_el0 (ucast v) c)
        else if key = sysreg_key 2 0 0 2 0 then Some (write_mdccint_el1 v c)
        else if key = sysreg_key 2 0 0 2 2 then Some (write_mdscr_el1 v c)
        else if key = sysreg_key 2 0 0 0 2 then Some (write_osdtrrx_el1 v c)
        else if key = sysreg_key 2 0 0 3 2 then Some (write_osdtrtx_el1 v c)
        else if key = sysreg_key 3 0 4 6 0 then
          Some (on_icc (\<lambda>i. refresh_irq_threshold_cache (i\<lparr>icc_pmr_el1 := v\<rparr>)) c)
        else if key = sysreg_key 3 0 12 12 4 then Some (on_icc (\<lambda>i. i\<lparr>icc_ctlr_el1 := v\<rparr>) c)
        else if key = sysreg_key 3 0 12 12 5 then Some (on_icc (\<lambda>i. i\<lparr>icc_sre_el1 := v\<rparr>) c)
        else if key = sysreg_key 3 0 12 12 3 then Some (on_icc (\<lambda>i. i\<lparr>icc_bpr1_el1 := v\<rparr>) c)
        else if key = sysreg_key 3 0 12 8 4 then Some (on_icc (\<lambda>i. i\<lparr>icc_ap0r_el1 := set_ap 0 v (icc_ap0r_el1 i)\<rparr>) c)
        else if key = sysreg_key 3 0 12 8 5 then Some (on_icc (\<lambda>i. i\<lparr>icc_ap0r_el1 := set_ap 1 v (icc_ap0r_el1 i)\<rparr>) c)
        else if key = sysreg_key 3 0 12 8 6 then Some (on_icc (\<lambda>i. i\<lparr>icc_ap0r_el1 := set_ap 2 v (icc_ap0r_el1 i)\<rparr>) c)
        else if key = sysreg_key 3 0 12 8 7 then Some (on_icc (\<lambda>i. i\<lparr>icc_ap0r_el1 := set_ap 3 v (icc_ap0r_el1 i)\<rparr>) c)
        else if key = sysreg_key 3 0 12 9 0 then Some (on_icc (\<lambda>i. i\<lparr>icc_ap1r_el1 := set_ap 0 v (icc_ap1r_el1 i)\<rparr>) c)
        else if key = sysreg_key 3 0 12 9 1 then Some (on_icc (\<lambda>i. i\<lparr>icc_ap1r_el1 := set_ap 1 v (icc_ap1r_el1 i)\<rparr>) c)
        else if key = sysreg_key 3 0 12 9 2 then Some (on_icc (\<lambda>i. i\<lparr>icc_ap1r_el1 := set_ap 2 v (icc_ap1r_el1 i)\<rparr>) c)
        else if key = sysreg_key 3 0 12 9 3 then Some (on_icc (\<lambda>i. i\<lparr>icc_ap1r_el1 := set_ap 3 v (icc_ap1r_el1 i)\<rparr>) c)
        else if key = sysreg_key 3 0 12 12 7 then Some (on_icc (\<lambda>i. i\<lparr>icc_igrpen1_el1 := v AND 1\<rparr>) c)
        else if key = sysreg_key 3 0 12 11 5 then Some (on_gic (send_sgi cpu v) c)
        else if key = sysreg_key 3 0 12 11 1 then Some (icc_deactivate (ucast v) c)
        else if key = sysreg_key 3 3 14 3 1 then timed (write_cntv_ctl_el0 cpu steps v t1 t2)
        else if key = sysreg_key 3 3 14 3 2 then timed (write_cntv_cval_el0 cpu steps v t1 t2)
        else if key = sysreg_key 3 3 14 3 0 then timed (write_cntv_tval_el0 cpu steps v t1 t2)
        else if key = sysreg_key 3 3 14 2 1 then timed (write_cntp_ctl_el0 cpu steps v t1 t2)
        else if key = sysreg_key 3 3 14 2 2 then timed (write_cntp_cval_el0 cpu steps v t1 t2)
        else if key = sysreg_key 3 3 14 2 0 then timed (write_cntp_tval_el0 cpu steps v t1 t2)
        else None)"

text \<open>What a write of a translation control invalidates.\<close>
definition after_sysreg_write :: "u32 \<Rightarrow> 'd cpu \<Rightarrow> 'd cpu" where
  "after_sysreg_write key c =
    (let c = (if key_in key [(3,0,2,0,0), (3,0,2,0,1)] then on_decode invalidate_decode_all c else c)
     in if key_in key [(3,0,1,0,0), (3,0,2,0,2), (3,0,10,2,0)] then on_decode invalidate_decode_all (tlb_flush_all c) else c)"

definition exec_msr ::
  "'x irq_devices_scheme cpu_env \<Rightarrow> u32 \<Rightarrow> 'x irq_devices_scheme cpu \<Rightarrow> 'x irq_devices_scheme cpu option" where
  "exec_msr env insn c =
    (let key = insn_key insn; v = reg (rd_of insn) c in
     case sysreg_gate False insn c of
       Inl r \<Rightarrow> r
     | Inr _ \<Rightarrow>
         (case msr_local env key v c of
            Some c \<Rightarrow> Some c
          | None \<Rightarrow>
              if key = sysreg_key 3 0 4 1 0 then
                (if current_uses_sp_el0 (c_sysregs c) then None else Some (on_sysregs (set_sp_el0 v) c))
              else if key = sysreg_key 3 4 4 1 0 then None
              else (case sysreg_write (insn_op0 insn) (insn_op1 insn) (insn_crn insn) (insn_crm insn) (insn_op2 insn) v
                           (c_sysregs c) of
                      None \<Rightarrow> None
                    | Some r \<Rightarrow> Some (after_sysreg_write key (on_sysregs (\<lambda>_. r) c)))))"

section \<open>The dispatch\<close>

definition exec_system ::
  "'x irq_devices_scheme cpu_env \<Rightarrow> u32 \<Rightarrow> 'x irq_devices_scheme cpu \<Rightarrow> 'x irq_devices_scheme cpu option" where
  "exec_system env insn c =
    (let barrier = insn AND 0xFFFFF0FF in
     if insn AND 0xFFFFF01F = 0xD503201F then Some (exec_hint insn c)
     else if barrier \<in> {0xD50330BF, 0xD503309F, 0xD50330DF} then Some c
     else if barrier = 0xD503305F then Some (clear_exclusive_monitor c)
     else if insn \<in> set undef_system_insns \<or> rt_masked insn \<in> set undef_system_rt_insns
       then Some (undefined_current_instruction c)
     else
       case exec_tlbi insn c of Some c \<Rightarrow> Some c
     | None \<Rightarrow>
       (case exec_cache env insn c of Some c \<Rightarrow> Some c
        | None \<Rightarrow>
          (case exec_at env insn c of Some c \<Rightarrow> Some c
           | None \<Rightarrow>
             if insn AND 0xFFF8E01F = 0xD500401F then exec_msr_imm insn c
             else if insn AND 0xFFE00000 = 0xD5200000 then exec_mrs env insn c
             else if insn AND 0xFFE00000 = 0xD5000000 then exec_msr env insn c
             else None)))"

end
