(* ===== verification/Cpu_Features.thy ===== *)
theory Cpu_Features
  imports Cpu_System
begin

text \<open>
  Which SIMD and floating-point encodings \<open>src/src/cpu.cpp\<close> treats as absent, by the fields of the ID
  registers, and which instructions the trap of \<open>CPACR_EL1.FPEN\<close> covers. The tables list masks and values.
\<close>

definition matches_any :: "(u32 \<times> u32) list \<Rightarrow> u32 \<Rightarrow> bool" where
  "matches_any rows insn \<longleftrightarrow> list_ex (\<lambda>(m, v). insn AND m = v) rows"

section \<open>Absent features\<close>

definition scalar_half_rows :: "(u32 \<times> u32) list" where
  "scalar_half_rows =
    [(0xFF20FC00, 0x1E202800), (0xFF20FC00, 0x1E203800), (0xFF20FC00, 0x1E200800), (0xFF20FC00, 0x1E201800),
     (0xFF20FC00, 0x1E204800), (0xFF20FC00, 0x1E205800), (0xFF20FC00, 0x1E206800), (0xFF20FC00, 0x1E207800),
     (0xFF20FC00, 0x1E208800), (0xFF3FFC00, 0x5E39D800), (0xFF3FFC00, 0x5E39F800), (0xFF3FFC00, 0x7E39D800),
     (0xFFE0FC00, 0x5EC03C00), (0xFF208000, 0x1F000000), (0xFF208000, 0x1F008000), (0xFF208000, 0x1F200000),
     (0xFF208000, 0x1F208000), (0xFF201FE0, 0x1E201000), (0xFF3FFC00, 0x1E204000), (0xFF3FFC00, 0x1E20C000),
     (0xFF3FFC00, 0x1E214000), (0xFF3FFC00, 0x1E21C000), (0xFF3FFC00, 0x1E220000), (0xFF3FFC00, 0x9E220000),
     (0xFF3FFC00, 0x1E230000), (0xFF3FFC00, 0x9E230000), (0xFF3FFC00, 0x1E244000), (0xFF3FFC00, 0x1E24C000),
     (0xFF3FFC00, 0x1E254000), (0xFF3FFC00, 0x1E25C000), (0xFF3FFC00, 0x1E264000), (0xFF3FFC00, 0x1E274000),
     (0xFF3FFC00, 0x1E27C000), (0xFF3FFC00, 0x1E380000), (0xFF3FFC00, 0x9E380000), (0xFF3FFC00, 0x1E390000),
     (0xFF3FFC00, 0x9E390000), (0xFF20FC00, 0x1E200000), (0xFF3FFC00, 0x1E260000), (0xFF3FFC00, 0x1E270000),
     (0xFF200C00, 0x1E200C00), (0xFF3CAF00, 0x1E200400), (0xFF20FC1F, 0x1E202000), (0xFF20FC1F, 0x1E202010),
     (0xFF20FC1F, 0x1E202008), (0xFF20FC1F, 0x1E202018), (0xFFFFFC00, 0x7EC21400), (0xFFFFFC00, 0x5EF8D800),
     (0xFFFFFC00, 0x7EF8C800), (0xFFFFFC00, 0x5EF8C800), (0xFFFFFC00, 0x7EF8D800), (0xFFFFFC00, 0x5EF8E800)]"

definition scalar_half_compare_rows :: "(u32 \<times> u32) list" where
  "scalar_half_compare_rows =
    [(0xFFFFFC00, 0x5E422400), (0xFFFFFC00, 0x7E422400), (0xFFFFFC00, 0x7EC22400), (0xFFFFFC00, 0x7E422C00),
     (0xFFFFFC00, 0x7EC22C00)]"

definition vector_half_rows :: "(u32 \<times> u32) list" where
  "vector_half_rows =
    [(0xFF20FC00, 0x5E001C00), (0xFFE0FC00, 0x5E403C00), (0xBF20FC00, 0x0E001400), (0xBF20FC00, 0x2E001C00),
     (0xBFE0FC00, 0x2E403C00), (0xBFFFFC00, 0x2EC21400), (0xBFFFFC00, 0x0E422400), (0xBFFFFC00, 0x2E422400),
     (0xBFFFFC00, 0x2EC22400), (0xBFFFFC00, 0x0EF8D800), (0xBFFFFC00, 0x2EF8C800), (0xBFFFFC00, 0x0EF8C800),
     (0xBFFFFC00, 0x2EF8D800), (0xBFFFFC00, 0x0EF8E800), (0x9F20FC00, 0x0E003400), (0xBF80F400, 0x2F009000)]"

definition absent_frintts_rows :: "(u32 \<times> u32) list" where
  "absent_frintts_rows =
    [(0xFFFFFC00, 0x1E284000), (0xFFFFFC00, 0x1E684000), (0xFFFFFC00, 0x1E28C000), (0xFFFFFC00, 0x1E68C000),
     (0xFFFFFC00, 0x1E294000), (0xFFFFFC00, 0x1E694000), (0xFFFFFC00, 0x1E29C000), (0xFFFFFC00, 0x1E69C000),
     (0xFFFFFC00, 0x0E21E800), (0xFFFFFC00, 0x4E21E800), (0xFFFFFC00, 0x4E61E800), (0xFFFFFC00, 0x2E21E800),
     (0xFFFFFC00, 0x6E21E800), (0xFFFFFC00, 0x6E61E800), (0xFFFFFC00, 0x0E21F800), (0xFFFFFC00, 0x4E21F800),
     (0xFFFFFC00, 0x4E61F800), (0xFFFFFC00, 0x2E21F800), (0xFFFFFC00, 0x6E21F800), (0xFFFFFC00, 0x6E61F800)]"

definition absent_bf16_rows :: "(u32 \<times> u32) list" where
  "absent_bf16_rows =
    [(0xFFFFFC00, 0x1E634000), (0xBFF8FF5C, 0x2EC0FC00), (0xBFF8FF5C, 0x2E40FC00), (0xBFF8FF5C, 0x2E40EC00)]"

definition absent_fcma_rows :: "(u32 \<times> u32) list" where
  "absent_fcma_rows =
    [(0xBF20EC00, 0x2E00E400), (0xBF20EC00, 0x2E00CC00), (0xBF809400, 0x2F001000), (0xBF809400, 0x2F801000)]"

definition absent_rdm_rows :: "(u32 \<times> u32) list" where
  "absent_rdm_rows =
    [(0xBF20FC00, 0x2E008400), (0xBF20FC00, 0x2E008C00), (0xFF20FC00, 0x7E008400), (0xFF20FC00, 0x7E008C00),
     (0xFF00F400, 0x6F00D000), (0xFF00F400, 0x6F00F000), (0xFF00F400, 0x7F00D000), (0xFF00F400, 0x7F00F000)]"

definition absent_dotprod_rows :: "(u32 \<times> u32) list" where
  "absent_dotprod_rows =
    [(0xBFF8FF5C, 0x2E809400), (0xBFF8FF5C, 0x0E809400)]"

definition absent_fhm_rows :: "(u32 \<times> u32) list" where
  "absent_fhm_rows =
    [(0xBFF8FF5C, 0x0E20EC00), (0xFFFCFE50, 0x6E28CC40), (0xBFE0FC5C, 0x0EA0EC0C), (0xFFFCFF58, 0x6EB4CE50),
     (0xBFC0F800, 0x0F800000), (0xBFC0F800, 0x0F804000)]"

definition absent_i8mm_rows :: "(u32 \<times> u32) list" where
  "absent_i8mm_rows =
    [(0xFFF0FC00, 0x4E80A400), (0xFFF0FC00, 0x6E80A400), (0xFFF0FC00, 0x4E80AC00), (0xBFF0FC00, 0x0E809C00),
     (0xFF80F400, 0x4F80F000), (0xFF80F400, 0x4F00F000)]"

definition absent_aes_rows :: "(u32 \<times> u32) list" where
  "absent_aes_rows =
    [(0xFFFFFC00, 0x4E284800), (0xFFFFFC00, 0x4E285800), (0xFFFFFC00, 0x4E286800), (0xFFFFFC00, 0x4E287800)]"

definition absent_sha1_rows :: "(u32 \<times> u32) list" where
  "absent_sha1_rows =
    [(0xFFF8FF5C, 0x5E000000), (0xFFF8FF5C, 0x5E001000), (0xFFF8FF5C, 0x5E002000), (0xFFF8FF5C, 0x5E003000),
     (0xFFFFFC00, 0x5E280800), (0xFFFFFC00, 0x5E281800)]"

definition absent_sha3_rows :: "(u32 \<times> u32) list" where
  "absent_sha3_rows =
    [(0xFFE08000, 0xCE000000), (0xFFE08000, 0xCE200000), (0xFFE0FC00, 0xCE608C00), (0xFFE00000, 0xCE800000)]"

definition absent_sm3_rows :: "(u32 \<times> u32) list" where
  "absent_sm3_rows =
    [(0xFFE08000, 0xCE400000), (0xFFE0CC00, 0xCE408000), (0xFFE0CC00, 0xCE408400), (0xFFE0CC00, 0xCE408800),
     (0xFFE0CC00, 0xCE408C00), (0xFFE0FC00, 0xCE60C000), (0xFFE0FC00, 0xCE60C400)]"

definition absent_sm4_rows :: "(u32 \<times> u32) list" where
  "absent_sm4_rows =
    [(0xFFFFFC00, 0xCEC08400), (0xFFE0FC00, 0xCE60C800)]"

definition absent_sha256_rows :: "(u32 \<times> u32) list" where
  "absent_sha256_rows =
    [(0xFFF8FF5C, 0x5E004000), (0xFFF8FF5C, 0x5E005000), (0xFFF8FF5C, 0x5E006000), (0xFFFFFC00, 0x5E282800)]"

definition absent_pmull_rows :: "(u32 \<times> u32) list" where
  "absent_pmull_rows =
    [(0xBF20FC00, 0x2E209C00), (0xBF20FC00, 0x0E20E000)]"

definition absent_sha512_rows :: "(u32 \<times> u32) list" where
  "absent_sha512_rows =
    [(0xFFE0FC00, 0xCE608000), (0xFFE0FC00, 0xCE608400), (0xFFFFFC00, 0xCEC08000), (0xFFE0FC00, 0xCE608800)]"

definition feat_fp16_absent :: "u64 \<Rightarrow> bool" where
  "feat_fp16_absent pfr0 \<longleftrightarrow> drop_bit 16 pfr0 AND 0xF = 0"

definition insn_requires_fp16_feature :: "u32 \<Rightarrow> bool" where
  "insn_requires_fp16_feature insn \<longleftrightarrow>
    (let ftype = drop_bit 22 insn AND 0x3;
         scalar_half = ftype = 3 \<and> matches_any scalar_half_rows insn;
         vector_half = matches_any vector_half_rows insn \<or>
           insn AND 0xBF20FC00 = 0x0E001C00 \<and> drop_bit 22 insn AND 1 \<noteq> 0 \<or>
           insn AND 0x9F20FC00 = 0x0E000400 \<and> drop_bit 22 insn AND 1 \<noteq> 0
     in scalar_half \<or> matches_any scalar_half_compare_rows insn \<or> vector_half)"

definition isar_field :: "nat \<Rightarrow> u64 \<Rightarrow> u32" where
  "isar_field pos isar = ucast (drop_bit pos isar AND 0xF)"

text \<open>The two BF16 narrowings are recognised by their type field.\<close>
definition bf16_narrow :: "u32 \<Rightarrow> bool" where
  "bf16_narrow insn \<longleftrightarrow> drop_bit 22 insn AND 0x3 = 2 \<and>
    (insn AND 0xFF3FFC00 = 0x0E216800 \<or> insn AND 0xFF3FFC00 = 0x4E216800)"

definition insn_undef_due_to_absent_fp_asimd_feature :: "u32 \<Rightarrow> u64 \<Rightarrow> u64 \<Rightarrow> u64 \<Rightarrow> bool" where
  "insn_undef_due_to_absent_fp_asimd_feature insn pfr0 isar0 isar1 \<longleftrightarrow>
    isar_field 12 isar1 = 0 \<and> insn AND 0xFFFFFC00 = 0x1E7E0000 \<or>
    feat_fp16_absent pfr0 \<and> insn_requires_fp16_feature insn \<or>
    isar_field 32 isar1 = 0 \<and> matches_any absent_frintts_rows insn \<or>
    isar_field 44 isar1 = 0 \<and> (matches_any absent_bf16_rows insn \<or> bf16_narrow insn) \<or>
    isar_field 16 isar1 = 0 \<and> matches_any absent_fcma_rows insn \<or>
    isar_field 28 isar0 = 0 \<and> matches_any absent_rdm_rows insn \<or>
    isar_field 44 isar0 = 0 \<and> matches_any absent_dotprod_rows insn \<or>
    isar_field 48 isar0 = 0 \<and> matches_any absent_fhm_rows insn \<or>
    isar_field 52 isar1 = 0 \<and> matches_any absent_i8mm_rows insn \<or>
    isar_field 4 isar0 = 0 \<and> matches_any absent_aes_rows insn \<or>
    isar_field 4 isar0 < 2 \<and> matches_any absent_pmull_rows insn \<or>
    isar_field 8 isar0 = 0 \<and> matches_any absent_sha1_rows insn \<or>
    isar_field 12 isar0 = 0 \<and> matches_any absent_sha256_rows insn \<or>
    isar_field 32 isar0 = 0 \<and> matches_any absent_sha3_rows insn \<or>
    isar_field 36 isar0 = 0 \<and> matches_any absent_sm3_rows insn \<or>
    isar_field 40 isar0 = 0 \<and> matches_any absent_sm4_rows insn \<or>
    isar_field 12 isar0 < 2 \<and> matches_any absent_sha512_rows insn"

definition insn_absent :: "u32 \<Rightarrow> 'd cpu \<Rightarrow> bool" where
  "insn_absent insn c = (let r = c_sysregs c in
    insn_undef_due_to_absent_fp_asimd_feature insn (r_id_aa64pfr0_el1 r) (r_id_aa64isar0_el1 r) (r_id_aa64isar1_el1 r))"

section \<open>The trap of the SIMD and floating-point instructions\<close>

definition fp_ls_unsigned_imm_rows :: "(u32 \<times> u32) list" where
  "fp_ls_unsigned_imm_rows =
    [(0xFFC00000, 0x3D800000), (0xFFC00000, 0x3DC00000), (0xFFC00000, 0x3D000000), (0xFFC00000, 0x3D400000),
     (0xFFC00000, 0x7D000000), (0xFFC00000, 0x7D400000), (0xFFC00000, 0xBD000000), (0xFFC00000, 0xBD400000),
     (0xFFC00000, 0xFD000000), (0xFFC00000, 0xFD400000)]"

definition fp_ls_pre_post_rows :: "(u32 \<times> u32) list" where
  "fp_ls_pre_post_rows =
    [(0xFFC00C00, 0x3C800C00), (0xFFC00C00, 0x3CC00C00), (0xFFC00C00, 0x3C800400), (0xFFC00C00, 0x3CC00400),
     (0xFFC00C00, 0x3C400C00), (0xFFC00C00, 0x3C000C00), (0xFFC00C00, 0x3C400400), (0xFFC00C00, 0x3C000400),
     (0xFFC00C00, 0x7C400C00), (0xFFC00C00, 0x7C000C00), (0xFFC00C00, 0x7C400400), (0xFFC00C00, 0x7C000400),
     (0xFFC00C00, 0xBC400C00), (0xFFC00C00, 0xBC000C00), (0xFFC00C00, 0xBC400400), (0xFFC00C00, 0xBC000400),
     (0xFFC00C00, 0xFC400C00), (0xFFC00C00, 0xFC000C00), (0xFFC00C00, 0xFC400400), (0xFFC00C00, 0xFC000400)]"

definition fp_ls_regoffset_rows :: "(u32 \<times> u32) list" where
  "fp_ls_regoffset_rows =
    [(0xFFE00C00, 0x3CA00800), (0xFFE00C00, 0x3CE00800), (0xFFE00C00, 0x3C200800), (0xFFE00C00, 0x3C600800),
     (0xFFE00C00, 0x7C200800), (0xFFE00C00, 0x7C600800), (0xFFE00C00, 0xBC200800), (0xFFE00C00, 0xBC600800),
     (0xFFE00C00, 0xFC200800), (0xFFE00C00, 0xFC600800)]"

definition fp_ls_unscaled_rows :: "(u32 \<times> u32) list" where
  "fp_ls_unscaled_rows =
    [(0xFFC00C00, 0x3C800000), (0xFFC00C00, 0x3CC00000), (0xFFC00C00, 0x3C000000), (0xFFC00C00, 0x3C400000),
     (0xFFC00C00, 0x7C000000), (0xFFC00C00, 0x7C400000), (0xFFC00C00, 0xBC000000), (0xFFC00C00, 0xBC400000),
     (0xFFC00C00, 0xFC000000), (0xFFC00C00, 0xFC400000)]"

definition fp_ls_pair_rows :: "(u32 \<times> u32) list" where
  "fp_ls_pair_rows =
    [(0xFFC00000, 0x2D800000), (0xFFC00000, 0x2C800000), (0xFFC00000, 0x2D000000), (0xFFC00000, 0x2C000000),
     (0xFFC00000, 0x2DC00000), (0xFFC00000, 0x2CC00000), (0xFFC00000, 0x2D400000), (0xFFC00000, 0x2C400000),
     (0xFFC00000, 0x6D800000), (0xFFC00000, 0x6C800000), (0xFFC00000, 0x6D000000), (0xFFC00000, 0x6C000000),
     (0xFFC00000, 0x6DC00000), (0xFFC00000, 0x6CC00000), (0xFFC00000, 0x6D400000), (0xFFC00000, 0x6C400000),
     (0xFFC00000, 0xAD800000), (0xFFC00000, 0xAC800000), (0xFFC00000, 0xAD000000), (0xFFC00000, 0xAC000000),
     (0xFFC00000, 0xADC00000), (0xFFC00000, 0xACC00000), (0xFFC00000, 0xAD400000), (0xFFC00000, 0xAC400000)]"

definition asimd_structured_ls_rows :: "(u32 \<times> u32) list" where
  "asimd_structured_ls_rows =
    [(0xBFFFFC00, 0x0C407000), (0xBFFFFC00, 0x0C007000), (0xBFE0FC00, 0x0CC07000), (0xBFE0FC00, 0x0C807000),
     (0xBFFFFC00, 0x0C40A000), (0xBFFFFC00, 0x0C00A000), (0xBFE0FC00, 0x0CC0A000), (0xBFE0FC00, 0x0C80A000),
     (0xBFFFFC00, 0x0C406000), (0xBFFFFC00, 0x0C006000), (0xBFE0FC00, 0x0CC06000), (0xBFE0FC00, 0x0C806000),
     (0xBFFFFC00, 0x0C402000), (0xBFFFFC00, 0x0C002000), (0xBFE0FC00, 0x0CC02000), (0xBFE0FC00, 0x0C802000),
     (0xBFFFFC00, 0x0C408000), (0xBFFFFC00, 0x0C008000), (0xBFE0FC00, 0x0CC08000), (0xBFE0FC00, 0x0C808000),
     (0xBFFFFC00, 0x0C404000), (0xBFFFFC00, 0x0C004000), (0xBFE0FC00, 0x0CC04000), (0xBFE0FC00, 0x0C804000),
     (0xBFFFFC00, 0x0C400000), (0xBFFFFC00, 0x0C000000), (0xBFE0FC00, 0x0CC00000), (0xBFE0FC00, 0x0C800000),
     (0xBF9F0000, 0x0D000000), (0xBF800000, 0x0D800000)]"

definition fp_asimd_traps_enabled_for_current_el :: "'d cpu \<Rightarrow> bool" where
  "fp_asimd_traps_enabled_for_current_el c =
    (let fpen = ucast (drop_bit 20 (r_cpacr_el1 (c_sysregs c)) AND 0x3) :: u32
     in if in_el0 (c_sysregs c) then fpen \<noteq> 0x3 else fpen = 0x0 \<or> fpen = 0x2)"

definition insn_uses_fp_asimd :: "u32 \<Rightarrow> 'd cpu \<Rightarrow> bool" where
  "insn_uses_fp_asimd insn c =
    (if insn_absent insn c then False
     else if insn AND 0x0E000000 = 0x0E000000 \<or> insn AND 0x1E000000 = 0x1E000000 then True
     else if insn AND 0x3F000000 = 0x1C000000 \<and> drop_bit 30 insn AND 0x3 \<noteq> 0x3 then True
     else if insn AND 0xFFE00000 = 0xD5200000 \<or> insn AND 0xFFE00000 = 0xD5000000
       then key_in (insn_key insn) [(3,3,4,4,0), (3,3,4,4,1)]
     else matches_any fp_ls_unsigned_imm_rows insn \<or> matches_any fp_ls_pre_post_rows insn \<or>
       matches_any fp_ls_regoffset_rows insn \<or> matches_any fp_ls_unscaled_rows insn \<or>
       matches_any fp_ls_pair_rows insn \<or> matches_any asimd_structured_ls_rows insn)"

end
