(* ===== verification/Cpu_Vector.thy ===== *)
theory Cpu_Vector
  imports Cpu_Bits
begin

text \<open>
  The SIMD registers as pairs of 64-bit lanes and their bit fields (\<open>vector_get_bits\<close>,
  \<open>vector_set_bits\<close> and the element accessors of \<open>src/src/cpu.cpp\<close>).
\<close>

type_synonym qreg = "u64 \<times> u64"

definition vector_get_bits :: "qreg \<Rightarrow> nat \<Rightarrow> nat \<Rightarrow> u64" where
  "vector_get_bits q lsb width =
    (if width = 0 \<or> width > 64 \<or> lsb \<ge> 128 then 0
     else if lsb \<ge> 64 then drop_bit (lsb - 64) (snd q) AND ones width
     else if lsb + width \<le> 64 then drop_bit lsb (fst q) AND ones width
     else
       let low_bits = 64 - lsb;
           low = drop_bit lsb (fst q) AND ones low_bits;
           high = snd q AND ones (width - low_bits)
       in low OR push_bit low_bits high)"

definition vector_set_bits :: "nat \<Rightarrow> nat \<Rightarrow> u64 \<Rightarrow> qreg \<Rightarrow> qreg" where
  "vector_set_bits lsb width value q =
    (if width = 0 \<or> width > 64 \<or> lsb \<ge> 128 then q
     else
       let v = value AND ones width in
       if lsb \<ge> 64 then
         (let off = lsb - 64; m = (if width = 64 then NOT 0 else push_bit off (ones width))
          in (fst q, (snd q AND NOT m) OR (push_bit off v AND m)))
       else if lsb + width \<le> 64 then
         (let m = (if width = 64 then NOT 0 else push_bit lsb (ones width))
          in ((fst q AND NOT m) OR (push_bit lsb v AND m), snd q))
       else
         (let low_bits = 64 - lsb;
              high_bits = width - low_bits;
              low_mask = push_bit lsb (ones low_bits);
              high_mask = ones high_bits
          in ((fst q AND NOT low_mask) OR push_bit lsb (v AND ones low_bits),
              (snd q AND NOT high_mask) OR (drop_bit low_bits v AND high_mask))))"

definition vector_get_elem :: "qreg \<Rightarrow> nat \<Rightarrow> nat \<Rightarrow> u64" where
  "vector_get_elem q esize_bits index = vector_get_bits q (esize_bits * index) esize_bits"

definition vector_set_elem :: "nat \<Rightarrow> nat \<Rightarrow> u64 \<Rightarrow> qreg \<Rightarrow> qreg" where
  "vector_set_elem esize_bits index value q = vector_set_bits (esize_bits * index) esize_bits value q"

end
