(* ===== verification/Cpu_Load_Store.thy ===== *)
theory Cpu_Load_Store
  imports Cpu_Integer Cpu_Vector
begin

text \<open>
  \<open>Cpu::exec_load_store\<close> of \<open>src/src/cpu.cpp\<close>: the undecoded loads and stores of the general and the
  SIMD registers, the exclusive accesses and the atomics. A group of instructions answers \<open>None\<close> when
  the word is not one of its own, \<open>Some None\<close> when the function returns false and \<open>Some (Some c)\<close> when
  it returns true. The source keeps a flag \<open>access_failed\<close> that skips the accesses after a failed one: here
  the failed access ends the sequence. Its flag \<open>sync_exception_taken\<close> is raised only after an exception
  was entered in the same step, when \<open>Cpu::data_abort\<close> does nothing anyway.
\<close>

type_synonym 'd handled = "'d cpu option option"

section \<open>Fields\<close>

definition rt2_of :: "u32 \<Rightarrow> nat" where "rt2_of insn = unat (drop_bit 10 insn AND 0x1F)"
definition rs_of :: "u32 \<Rightarrow> nat" where "rs_of insn = unat (drop_bit 16 insn AND 0x1F)"
definition simm9_of :: "u32 \<Rightarrow> u64" where "simm9_of insn = sign_extend (ucast (drop_bit 12 insn AND 0x1FF)) 9"
definition simm7_of :: "u32 \<Rightarrow> u64" where "simm7_of insn = sign_extend (ucast (drop_bit 15 insn AND 0x7F)) 7"
definition imm12_of :: "u32 \<Rightarrow> u64" where "imm12_of insn = ucast (drop_bit 10 insn AND 0xFFF)"

definition literal_of :: "u32 \<Rightarrow> 'd cpu \<Rightarrow> u64" where
  "literal_of insn c = c_pc c - 4 + push_bit 2 (sign_extend (ucast (drop_bit 5 insn AND 0x7FFFF)) 19)"

text \<open>The register offset, \<open>None\<close> for an option the code refuses.\<close>
definition register_offset :: "u32 \<Rightarrow> 'd cpu \<Rightarrow> u64 option" where
  "register_offset insn c =
    (let rm = rm_of insn; option = drop_bit 13 insn AND 0x7 in
     if option = 0x2 then Some (ucast (reg32 rm c))
     else if option = 0x3 then Some (reg rm c)
     else if option = 0x6 then Some (sign_extend (ucast (reg32 rm c)) 32)
     else if option = 0x7 then Some (reg rm c)
     else None)"

section \<open>Accesses\<close>

definition raw_mmu_read :: "'d device_io \<Rightarrow> u64 \<Rightarrow> usize \<Rightarrow> 'd cpu \<Rightarrow> u64 option \<times> 'd cpu" where
  "raw_mmu_read io va sz = mmu_read_value io va sz Read True"

definition raw_mmu_write :: "'d device_io \<Rightarrow> u64 \<Rightarrow> u64 \<Rightarrow> usize \<Rightarrow> 'd cpu \<Rightarrow> bool \<times> 'd cpu" where
  "raw_mmu_write io va v sz = mmu_write_value io va v sz Write True"

text \<open>The checks before an access: an exception was taken.\<close>
definition access_faults :: "'d device_io \<Rightarrow> nat \<Rightarrow> u64 \<Rightarrow> usize \<Rightarrow> access_type \<Rightarrow> bool \<Rightarrow> 'd cpu \<Rightarrow> bool \<times> 'd cpu" where
  "access_faults io rn va align access strict c =
    (case maybe_take_sp_alignment_fault rn c of
       (True, c) \<Rightarrow> (True, c)
     | (False, c) \<Rightarrow> maybe_take_data_alignment_fault io va align access strict c)"

definition mmu_read :: "'d device_io \<Rightarrow> nat \<Rightarrow> bool \<Rightarrow> u64 \<Rightarrow> usize \<Rightarrow> 'd cpu \<Rightarrow> u64 option \<times> 'd cpu" where
  "mmu_read io rn strict va sz c =
    (case access_faults io rn va sz Read strict c of
       (True, c) \<Rightarrow> (None, c)
     | (False, c) \<Rightarrow> raw_mmu_read io va sz c)"

definition mmu_write :: "'d device_io \<Rightarrow> nat \<Rightarrow> bool \<Rightarrow> u64 \<Rightarrow> u64 \<Rightarrow> usize \<Rightarrow> 'd cpu \<Rightarrow> bool \<times> 'd cpu" where
  "mmu_write io rn strict va v sz c =
    (case access_faults io rn va sz Write strict c of
       (True, c) \<Rightarrow> (False, c)
     | (False, c) \<Rightarrow> raw_mmu_write io va v sz c)"

text \<open>Two reads in a row, the second only after the first.\<close>
definition mmu_read_pair :: "'d device_io \<Rightarrow> nat \<Rightarrow> bool \<Rightarrow> u64 \<Rightarrow> usize \<Rightarrow> 'd cpu \<Rightarrow> (u64 \<times> u64) option \<times> 'd cpu" where
  "mmu_read_pair io rn strict va sz c =
    (case mmu_read io rn strict va sz c of
       (None, c) \<Rightarrow> (None, c)
     | (Some v1, c) \<Rightarrow>
         (case mmu_read io rn strict (va + sz) sz c of
            (None, c) \<Rightarrow> (None, c)
          | (Some v2, c) \<Rightarrow> (Some (v1, v2), c)))"

definition mmu_write_pair :: "'d device_io \<Rightarrow> nat \<Rightarrow> u64 \<Rightarrow> u64 \<Rightarrow> u64 \<Rightarrow> usize \<Rightarrow> 'd cpu \<Rightarrow> bool \<times> 'd cpu" where
  "mmu_write_pair io rn va v1 v2 sz c =
    (case mmu_write io rn False va v1 sz c of
       (False, c) \<Rightarrow> (False, c)
     | (True, c) \<Rightarrow> mmu_write io rn False (va + sz) v2 sz c)"

fun write_pair_bytes :: "'d device_io \<Rightarrow> (u64 \<times> u64 \<times> u64) list \<Rightarrow> 'd cpu \<Rightarrow> bool \<times> 'd cpu" where
  "write_pair_bytes io [] c = (True, c)"
| "write_pair_bytes io ((va, pa, b) # rest) c =
    (case cpu_bus_write io pa b 1 c of
       (False, c) \<Rightarrow> (False, note_fault_va va (note_external_data_abort True False va c))
     | (True, c) \<Rightarrow> write_pair_bytes io rest (call (Memory_Write pa 1) (on_code_write va pa 1 c)))"

definition pair_bytes :: "u64 \<Rightarrow> u64 \<Rightarrow> nat \<Rightarrow> u64 list" where
  "pair_bytes first second elem_size =
    map (\<lambda>i. if i < elem_size then drop_bit (i * 8) first AND 0xFF else drop_bit ((i - elem_size) * 8) second AND 0xFF)
      [0..<2 * elem_size]"

definition raw_mmu_write_pair_atomic :: "'d device_io \<Rightarrow> u64 \<Rightarrow> u64 \<Rightarrow> u64 \<Rightarrow> nat \<Rightarrow> 'd cpu \<Rightarrow> bool \<times> 'd cpu" where
  "raw_mmu_write_pair_atomic io addr first second elem_size c =
    (let c = on_last (\<lambda>l. l\<lparr>last_data_fault_va := None\<rparr>) c;
         total_size = elem_size * 2
     in if elem_size = 0 \<or> total_size > 16 then (False, c)
        else
          case translate_bytes io addr Write [0..<total_size] c of
            (None, c) \<Rightarrow> (False, c)
          | (Some pas, c) \<Rightarrow>
              (case maybe_take_watchpoint_exception addr (of_nat total_size) Write False c of
                 (True, c) \<Rightarrow> (False, c)
               | (False, c) \<Rightarrow>
                   (case write_pair_bytes io
                       (zip (map (\<lambda>i. addr + of_nat i) [0..<total_size]) (zip pas (pair_bytes first second elem_size))) c of
                      (False, c) \<Rightarrow> (False, c)
                    | (True, c) \<Rightarrow> (True, clear_exclusive_monitor c))))"

definition undefined_insn :: "'d cpu \<Rightarrow> 'd cpu" where
  "undefined_insn c = enter_sync_exception (c_pc c - 4) 0x00 0 False 0 c"

definition reg_sized :: "usize \<Rightarrow> nat \<Rightarrow> 'd cpu \<Rightarrow> u64" where
  "reg_sized sz r c = (if sz = 8 then reg r c else ucast (reg32 r c))"

definition set_reg_sized :: "usize \<Rightarrow> nat \<Rightarrow> u64 \<Rightarrow> 'd cpu \<Rightarrow> 'd cpu" where
  "set_reg_sized sz r v c = (if sz = 8 then set_reg r v c else set_reg32 r (ucast v) c)"

text \<open>The value a store of the size takes from a register.\<close>
definition store_value :: "usize \<Rightarrow> nat \<Rightarrow> 'd cpu \<Rightarrow> u64" where
  "store_value sz r c =
    (if sz = 8 then reg r c
     else if sz = 4 then ucast (reg32 r c)
     else if sz = 2 then ucast (reg32 r c AND 0xFFFF)
     else ucast (reg32 r c AND 0xFF))"

section \<open>Unprivileged accesses\<close>

datatype load_extend = Zero | Sign32 | Sign64

definition sign_of_size :: "usize \<Rightarrow> u64 \<Rightarrow> u64" where
  "sign_of_size sz v =
    (if sz = 1 then scast (ucast v :: u8) else if sz = 2 then scast (ucast v :: u16) else scast (ucast v :: u32))"

text \<open>What a load of the size writes: the three results of the enumeration \<open>LoadExtend\<close>.\<close>
definition write_loaded :: "load_extend \<Rightarrow> usize \<Rightarrow> nat \<Rightarrow> u64 \<Rightarrow> 'd cpu \<Rightarrow> 'd cpu" where
  "write_loaded ext sz rt v c =
    (case ext of
       Zero \<Rightarrow> if sz = 8 then set_reg rt v c else set_reg32 rt (ucast v) c
     | Sign32 \<Rightarrow> set_reg32 rt (ucast (sign_of_size sz v)) c
     | Sign64 \<Rightarrow> set_reg rt (sign_of_size sz v) c)"

text \<open>Size, and the extension of a load or \<open>None\<close> for a store, by the tag \<open>insn & 0xFFE00C00\<close>.\<close>
definition unprivileged_rows :: "(u32 \<times> usize \<times> load_extend option) list" where
  "unprivileged_rows =
    [(0x38400800, 1, Some Zero), (0x38C00800, 1, Some Sign32), (0x38800800, 1, Some Sign64),
     (0x78400800, 2, Some Zero), (0x78C00800, 2, Some Sign32), (0x78800800, 2, Some Sign64),
     (0xB8400800, 4, Some Zero), (0xB8800800, 4, Some Sign64), (0xF8400800, 8, Some Zero),
     (0x38000800, 1, None), (0x78000800, 2, None), (0xB8000800, 4, None), (0xF8000800, 8, None)]"

definition exec_unprivileged :: "'d device_io \<Rightarrow> u32 \<Rightarrow> 'd cpu \<Rightarrow> 'd handled" where
  "exec_unprivileged io insn c =
    (let rt = rd_of insn; rn = rn_of insn in
     case map_of unprivileged_rows (insn AND 0xFFE00C00) of
       None \<Rightarrow> None
     | Some (sz, kind) \<Rightarrow> Some (Some
         (let addr = sp_or_reg rn c + simm9_of insn in
          case maybe_take_sp_alignment_fault rn c of
            (True, c) \<Rightarrow> c
          | (False, c) \<Rightarrow>
              (case kind of
                 Some ext \<Rightarrow>
                   (case maybe_take_data_alignment_fault io addr sz Unprivileged_Read False c of
                      (True, c) \<Rightarrow> c
                    | (False, c) \<Rightarrow>
                        (case mmu_read_value io addr sz Unprivileged_Read True c of
                           (None, c) \<Rightarrow> data_abort addr False c
                         | (Some v, c) \<Rightarrow> write_loaded ext sz rt v c))
               | None \<Rightarrow>
                   (let v = store_value sz rt c in
                    case maybe_take_data_alignment_fault io addr sz Unprivileged_Write False c of
                      (True, c) \<Rightarrow> c
                    | (False, c) \<Rightarrow>
                        (case mmu_write_value io addr v sz Unprivileged_Write True c of
                           (False, c) \<Rightarrow> data_abort addr False c
                         | (True, c) \<Rightarrow> c))))))"

definition is_prefetch :: "u32 \<Rightarrow> bool" where
  "is_prefetch insn \<longleftrightarrow> insn AND 0xFF000000 = 0xD8000000 \<or> insn AND 0xFFC00000 = 0xF9800000 \<or>
    insn AND 0xFFE00C00 = 0xF8A00800 \<or> insn AND 0xFFE00C00 = 0xF8800000"

section \<open>Exclusive accesses\<close>

definition load_exclusive_rows :: "(u32 \<times> usize) list" where
  "load_exclusive_rows =
    [(0x08407C00, 1), (0x0840FC00, 1), (0x48407C00, 2), (0x4840FC00, 2), (0x88407C00, 4), (0x8840FC00, 4),
     (0xC8407C00, 8), (0xC840FC00, 8)]"

definition exec_load_exclusive :: "'d device_io \<Rightarrow> u32 \<Rightarrow> 'd cpu \<Rightarrow> 'd handled" where
  "exec_load_exclusive io insn c =
    (case map_of load_exclusive_rows (insn AND 0xFFE0FC00) of
       None \<Rightarrow> None
     | Some sz \<Rightarrow> Some (Some
         (let addr = sp_or_reg (rn_of insn) c in
          case mmu_read io (rn_of insn) True addr sz c of
            (None, c) \<Rightarrow> data_abort addr False c
          | (Some v, c) \<Rightarrow> set_exclusive_monitor io addr (unat sz) (set_reg_sized sz (rd_of insn) v c))))"

text \<open>The checks a store exclusive makes before it writes: \<open>Inl\<close> the result when one of them ends it.\<close>
definition store_exclusive_gate :: "'d device_io \<Rightarrow> u32 \<Rightarrow> u64 \<Rightarrow> usize \<Rightarrow> 'd cpu \<Rightarrow> 'd cpu + 'd cpu" where
  "store_exclusive_gate io insn addr sz c =
    (case access_faults io (rn_of insn) addr sz Write True c of
       (True, c) \<Rightarrow> Inl (clear_exclusive_monitor c)
     | (False, c) \<Rightarrow>
         (case check_exclusive_monitor io addr (unat sz) c of
            (None, c) \<Rightarrow> Inl (data_abort addr False (clear_exclusive_monitor c))
          | (Some matched, c) \<Rightarrow>
              (let c = clear_exclusive_monitor c
               in if \<not> matched then Inl (set_reg32 (rs_of insn) 1 c) else Inr c)))"

definition store_exclusive_rows :: "(u32 \<times> usize) list" where
  "store_exclusive_rows =
    [(0x08007C00, 1), (0x0800FC00, 1), (0x48007C00, 2), (0x4800FC00, 2), (0x88007C00, 4), (0x8800FC00, 4),
     (0xC8007C00, 8), (0xC800FC00, 8)]"

definition exec_store_exclusive :: "'d device_io \<Rightarrow> u32 \<Rightarrow> 'd cpu \<Rightarrow> 'd handled" where
  "exec_store_exclusive io insn c =
    (case map_of store_exclusive_rows (insn AND 0xFFE0FC00) of
       None \<Rightarrow> None
     | Some sz \<Rightarrow> Some (Some
         (let addr = sp_or_reg (rn_of insn) c in
          case store_exclusive_gate io insn addr sz c of
            Inl c \<Rightarrow> c
          | Inr c \<Rightarrow>
              (case raw_mmu_write io addr (reg_sized sz (rd_of insn) c) sz c of
                 (False, c) \<Rightarrow> data_abort addr False c
               | (True, c) \<Rightarrow> set_reg32 (rs_of insn) 0 c))))"

text \<open>Element size, and whether it is a load.\<close>
definition pair_exclusive_rows :: "(u32 \<times> usize \<times> bool) list" where
  "pair_exclusive_rows =
    [(0x88600000, 4, True), (0x88608000, 4, True), (0x88200000, 4, False), (0x88208000, 4, False),
     (0xC8600000, 8, True), (0xC8608000, 8, True), (0xC8200000, 8, False), (0xC8208000, 8, False)]"

definition exec_pair_exclusive :: "'d device_io \<Rightarrow> u32 \<Rightarrow> 'd cpu \<Rightarrow> 'd handled" where
  "exec_pair_exclusive io insn c =
    (let rt = rd_of insn; rt2 = rt2_of insn; rn = rn_of insn in
     case map_of pair_exclusive_rows (insn AND 0xFFE08000) of
       None \<Rightarrow> None
     | Some (elem_size, is_load) \<Rightarrow> Some (Some
         (let addr = sp_or_reg rn c; total_size = elem_size * 2 in
          if is_load then
            (case access_faults io rn addr total_size Read True c of
               (True, c) \<Rightarrow> c
             | (False, c) \<Rightarrow>
                 (case mmu_read_pair io rn True addr elem_size c of
                    (None, c) \<Rightarrow> data_abort addr False c
                  | (Some (v1, v2), c) \<Rightarrow>
                      set_exclusive_monitor io addr (unat total_size)
                        (set_reg_sized elem_size rt2 v2 (set_reg_sized elem_size rt v1 c))))
          else
            (case store_exclusive_gate io insn addr total_size c of
               Inl c \<Rightarrow> c
             | Inr c \<Rightarrow>
                 (case raw_mmu_write_pair_atomic io addr (reg_sized elem_size rt c) (reg_sized elem_size rt2 c)
                    (unat elem_size) c of
                    (False, c) \<Rightarrow> data_abort addr False c
                  | (True, c) \<Rightarrow> set_reg32 (rs_of insn) 0 c)))))"

section \<open>Atomics\<close>

definition atomic_size :: "u32 \<Rightarrow> usize" where
  "atomic_size insn =
    (let size_code = drop_bit 30 insn AND 0x3
     in if size_code = 0 then 1 else if size_code = 1 then 2 else if size_code = 2 then 4 else 8)"

definition atomic_mask :: "usize \<Rightarrow> u64" where
  "atomic_mask sz = (if sz = 8 then NOT 0 else 0xFFFFFFFF)"

definition is_casp :: "u32 \<Rightarrow> bool" where "is_casp insn \<longleftrightarrow> insn AND 0x3FA07C00 = 0x08207C00"

definition exec_casp :: "'d device_io \<Rightarrow> u32 \<Rightarrow> 'd cpu \<Rightarrow> 'd cpu" where
  "exec_casp io insn c =
    (let elem_size = (if drop_bit 30 insn AND 0x1 \<noteq> 0 then 8 else 4);
         rs = rs_of insn; rt = rd_of insn; rn = rn_of insn;
         m = atomic_mask elem_size;
         addr = sp_or_reg rn c
     in case access_faults io rn addr (elem_size * 2) Read True c of
          (True, c) \<Rightarrow> c
        | (False, c) \<Rightarrow>
            (case mmu_read_pair io rn True addr elem_size c of
               (None, c) \<Rightarrow> data_abort addr False c
             | (Some (lo, hi), c) \<Rightarrow>
                 let old_lo = lo AND m; old_hi = hi AND m;
                     compare_lo = reg_sized elem_size rs c AND m;
                     compare_hi = reg_sized elem_size (rs + 1) c AND m;
                     desired_lo = reg_sized elem_size rt c AND m;
                     desired_hi = reg_sized elem_size (rt + 1) c AND m
                 in case (if old_lo = compare_lo \<and> old_hi = compare_hi
                          then raw_mmu_write_pair_atomic io addr desired_lo desired_hi (unat elem_size) c
                          else (True, c)) of
                      (False, c) \<Rightarrow> data_abort addr False c
                    | (True, c) \<Rightarrow>
                        set_reg_sized elem_size (rs + 1) old_hi (set_reg_sized elem_size rs old_lo c)))"

definition is_cas :: "u32 \<Rightarrow> bool" where "is_cas insn \<longleftrightarrow> insn AND 0x3FA07C00 = 0x08A07C00"

definition exec_cas :: "'d device_io \<Rightarrow> u32 \<Rightarrow> 'd cpu \<Rightarrow> 'd cpu" where
  "exec_cas io insn c =
    (let sz = atomic_size insn; rs = rs_of insn; rn = rn_of insn;
         m = atomic_mask sz;
         addr = sp_or_reg rn c
     in case mmu_read io rn True addr sz c of
          (None, c) \<Rightarrow> data_abort addr False c
        | (Some v, c) \<Rightarrow>
            let old_value = v AND m;
                compare_value = reg_sized sz rs c AND m;
                desired_value = reg_sized sz (rd_of insn) c AND m
            in case (if old_value = compare_value then mmu_write io rn True addr desired_value sz c else (True, c)) of
                 (False, c) \<Rightarrow> data_abort addr False c
               | (True, c) \<Rightarrow> set_reg_sized sz rs old_value c)"

definition atomic_tags :: "u32 list" where
  "atomic_tags = [0x38208000, 0x38200000, 0x38201000, 0x38202000, 0x38203000]"

definition atomic_tag :: "u32 \<Rightarrow> u32" where "atomic_tag insn = insn AND 0x3F20FC00"

definition atomic_result :: "u32 \<Rightarrow> u64 \<Rightarrow> u64 \<Rightarrow> u64 \<Rightarrow> u64" where
  "atomic_result tag m old src =
    (if tag = 0x38208000 then src
     else if tag = 0x38200000 then (old + src) AND m
     else if tag = 0x38201000 then old AND (NOT src AND m)
     else if tag = 0x38202000 then (old XOR src) AND m
     else if tag = 0x38203000 then (old OR src) AND m
     else old)"

definition exec_atomic :: "'d device_io \<Rightarrow> u32 \<Rightarrow> 'd cpu \<Rightarrow> 'd cpu" where
  "exec_atomic io insn c =
    (let sz = atomic_size insn; rn = rn_of insn;
         m = atomic_mask sz;
         addr = sp_or_reg rn c
     in case mmu_read io rn True addr sz c of
          (None, c) \<Rightarrow> data_abort addr False c
        | (Some v, c) \<Rightarrow>
            let old_value = v AND m;
                src_value = reg_sized sz (rs_of insn) c AND m
            in case mmu_write io rn True addr (atomic_result (atomic_tag insn) m old_value src_value) sz c of
                 (False, c) \<Rightarrow> data_abort addr False c
               | (True, c) \<Rightarrow> set_reg_sized sz (rd_of insn) old_value c)"

section \<open>Ordered accesses and absent instructions\<close>

definition ordered_rows :: "(u32 \<times> usize \<times> bool) list" where
  "ordered_rows =
    [(0x08C0FC00, 1, True), (0x48C0FC00, 2, True), (0x88C0FC00, 4, True), (0xC8C0FC00, 8, True),
     (0x0880FC00, 1, False), (0x4880FC00, 2, False), (0x8880FC00, 4, False), (0xC880FC00, 8, False)]"

definition exec_ordered :: "'d device_io \<Rightarrow> u32 \<Rightarrow> 'd cpu \<Rightarrow> 'd handled" where
  "exec_ordered io insn c =
    (let rt = rd_of insn; rn = rn_of insn in
     case map_of ordered_rows (insn AND 0xFFE0FC00) of
       None \<Rightarrow> None
     | Some (sz, is_load) \<Rightarrow> Some (Some
         (let addr = sp_or_reg rn c in
          if is_load then
            (case mmu_read io rn True addr sz c of
               (None, c) \<Rightarrow> data_abort addr False c
             | (Some v, c) \<Rightarrow> set_reg_sized sz rt v c)
          else
            (case mmu_write io rn True addr (reg_sized sz rt c) sz c of
               (False, c) \<Rightarrow> data_abort addr False c
             | (True, c) \<Rightarrow> c))))"

definition absent_load_store_1 :: "u32 list" where
  "absent_load_store_1 = [0x38A0C000, 0x78A0C000, 0xB8A0C000, 0xF8A0C000]"

definition absent_load_store_2 :: "u32 list" where
  "absent_load_store_2 =
    [0x19400000, 0x19C00000, 0x19800000, 0x59400000, 0x59C00000, 0x59800000, 0x99400000, 0x99800000,
     0x19000000, 0x59000000, 0x99000000]"

definition absent_load_store_3 :: "u32 list" where
  "absent_load_store_3 = [0xF820D000, 0xF8209000, 0xF820B000, 0xF820A000]"

definition is_absent_load_store :: "u32 \<Rightarrow> bool" where
  "is_absent_load_store insn \<longleftrightarrow>
    insn AND 0xFFE0FC00 \<in> set absent_load_store_1 \<or> insn AND 0xFFE00C00 \<in> set absent_load_store_2 \<or>
    insn AND 0xFFE0FC00 \<in> set absent_load_store_3"

section \<open>Loads and stores of one general register\<close>

text \<open>The load of a narrow value; a byte or a halfword is cut to its width first.\<close>
definition write_narrow :: "load_extend \<Rightarrow> usize \<Rightarrow> nat \<Rightarrow> u64 \<Rightarrow> 'd cpu \<Rightarrow> 'd cpu" where
  "write_narrow ext sz rt v c =
    (if ext = Zero \<and> sz = 1 then set_reg32 rt (ucast (ucast v :: u8)) c
     else if ext = Zero \<and> sz = 2 then set_reg32 rt (ucast (ucast v :: u16)) c
     else write_loaded ext sz rt v c)"

text \<open>A load with its extension, or a store (\<open>None\<close>), at the address.\<close>
definition access_reg ::
  "'d device_io \<Rightarrow> u32 \<Rightarrow> u64 \<Rightarrow> usize \<Rightarrow> load_extend option \<Rightarrow> ('d cpu \<Rightarrow> 'd cpu) \<Rightarrow> 'd cpu \<Rightarrow> 'd cpu" where
  "access_reg io insn addr sz kind write_back c =
    (case kind of
       Some ext \<Rightarrow>
         (case mmu_read io (rn_of insn) False addr sz c of
            (None, c) \<Rightarrow> data_abort addr False c
          | (Some v, c) \<Rightarrow> write_back (write_narrow ext sz (rd_of insn) v c))
     | None \<Rightarrow>
         (case mmu_write io (rn_of insn) False addr (store_value sz (rd_of insn) c) sz c of
            (False, c) \<Rightarrow> data_abort addr False c
          | (True, c) \<Rightarrow> write_back c))"

definition signed_offset_rows :: "(u32 \<times> usize \<times> load_extend) list" where
  "signed_offset_rows =
    [(0x38E00800, 1, Sign32), (0x38A00800, 1, Sign64), (0x78E00800, 2, Sign32), (0x78A00800, 2, Sign64),
     (0xB8A00800, 4, Sign64)]"

definition insn_s :: "u32 \<Rightarrow> bool" where "insn_s insn \<longleftrightarrow> drop_bit 12 insn AND 0x1 \<noteq> 0"

definition exec_signed_offset :: "'d device_io \<Rightarrow> u32 \<Rightarrow> 'd cpu \<Rightarrow> 'd handled" where
  "exec_signed_offset io insn c =
    (case map_of signed_offset_rows (insn AND 0xFFE00C00) of
       None \<Rightarrow> None
     | Some (sz, ext) \<Rightarrow> Some
         (case register_offset insn c of
            None \<Rightarrow> None
          | Some off \<Rightarrow>
              let off = push_bit (if insn_s insn then (if sz = 2 then 1 else if sz = 4 then 2 else 0) else 0) off
              in Some (access_reg io insn (sp_or_reg (rn_of insn) c + off) sz (Some ext) (\<lambda>c. c) c)))"

definition exec_register_offset :: "'d device_io \<Rightarrow> u32 \<Rightarrow> 'd cpu \<Rightarrow> 'd handled" where
  "exec_register_offset io insn c =
    (if insn AND 0x3FE00C00 \<notin> {0x38200800, 0x38600800} then None
     else case register_offset insn c of
            None \<Rightarrow> None
          | Some off \<Rightarrow>
              let is_load = drop_bit 22 insn AND 0x1 \<noteq> 0;
                  size_code = drop_bit 30 insn AND 0x3;
                  off = push_bit (if insn_s insn then unat size_code else 0) off
              in Some (Some (access_reg io insn (sp_or_reg (rn_of insn) c + off) (atomic_size insn)
                               (if is_load then Some Zero else None) (\<lambda>c. c) c)))"

text \<open>The literal loads read without the checks of the base register.\<close>
definition exec_literal :: "'d device_io \<Rightarrow> u32 \<Rightarrow> 'd cpu \<Rightarrow> 'd handled" where
  "exec_literal io insn c =
    (let addr = literal_of insn c; rt = rd_of insn;
         go = (\<lambda>sz k. Some (Some (case raw_mmu_read io addr sz c of
                                     (None, c) \<Rightarrow> data_abort addr False c | (Some v, c) \<Rightarrow> k v c)));
         op = insn AND 0xFF000000
     in if op = 0x58000000 then go 8 (\<lambda>v. set_reg rt v)
        else if op = 0x18000000 then go 4 (\<lambda>v. set_reg32 rt (ucast v))
        else if op = 0x98000000 then go 4 (\<lambda>v. set_reg rt (sign_of_size 4 v))
        else None)"

datatype addressing = Unsigned_Offset | Unscaled | Pre_Index | Post_Index

text \<open>The first row whose mask and tag fit the instruction.\<close>
definition find_row :: "(u32 \<times> u32 \<times> 'a) list \<Rightarrow> u32 \<Rightarrow> 'a option" where
  "find_row rows insn = map_option (snd \<circ> snd) (List.find (\<lambda>(m, tag, _). insn AND m = tag) rows)"

definition size_shift :: "usize \<Rightarrow> nat" where
  "size_shift sz = (if sz = 8 then 3 else if sz = 4 then 2 else if sz = 2 then 1 else 0)"

definition row_address :: "addressing \<Rightarrow> usize \<Rightarrow> u32 \<Rightarrow> u64 \<Rightarrow> u64" where
  "row_address mode sz insn base =
    (case mode of
       Unsigned_Offset \<Rightarrow> base + push_bit (size_shift sz) (imm12_of insn)
     | Unscaled \<Rightarrow> base + simm9_of insn
     | Pre_Index \<Rightarrow> base + simm9_of insn
     | Post_Index \<Rightarrow> base)"

definition row_write_back :: "addressing \<Rightarrow> u32 \<Rightarrow> u64 \<Rightarrow> 'd cpu \<Rightarrow> 'd cpu" where
  "row_write_back mode insn base c =
    (if mode \<in> {Pre_Index, Post_Index} then set_sp_or_reg (rn_of insn) (base + simm9_of insn) False c else c)"

type_synonym int_row = "usize \<times> load_extend option \<times> addressing"

definition indexed_int_rows :: "(u32 \<times> u32 \<times> int_row) list" where
  "indexed_int_rows =
    [(0xFFC00C00, 0x38400400, 1, Some Zero, Post_Index), (0xFFC00C00, 0x38000400, 1, None, Post_Index),
     (0xFFC00C00, 0x38400C00, 1, Some Zero, Pre_Index), (0xFFC00C00, 0x38000C00, 1, None, Pre_Index),
     (0xFFC00C00, 0x78400400, 2, Some Zero, Post_Index), (0xFFC00C00, 0x78000400, 2, None, Post_Index),
     (0xFFC00C00, 0x78400C00, 2, Some Zero, Pre_Index), (0xFFC00C00, 0x78000C00, 2, None, Pre_Index),
     (0xFFC00C00, 0xB8400400, 4, Some Zero, Post_Index), (0xFFC00C00, 0xB8000400, 4, None, Post_Index),
     (0xFFC00C00, 0xB8400C00, 4, Some Zero, Pre_Index), (0xFFC00C00, 0xB8000C00, 4, None, Pre_Index),
     (0xFFC00C00, 0xF8400400, 8, Some Zero, Post_Index), (0xFFC00C00, 0xF8000400, 8, None, Post_Index),
     (0xFFC00C00, 0xF8400C00, 8, Some Zero, Pre_Index), (0xFFC00C00, 0xF8000C00, 8, None, Pre_Index)]"

definition signed_indexed_rows :: "(u32 \<times> u32 \<times> int_row) list" where
  "signed_indexed_rows =
    [(0xFFE00C00, 0x38C00400, 1, Some Sign32, Post_Index), (0xFFE00C00, 0x38800400, 1, Some Sign64, Post_Index),
     (0xFFE00C00, 0x38C00C00, 1, Some Sign32, Pre_Index), (0xFFE00C00, 0x38800C00, 1, Some Sign64, Pre_Index),
     (0xFFE00C00, 0x78C00400, 2, Some Sign32, Post_Index), (0xFFE00C00, 0x78800400, 2, Some Sign64, Post_Index),
     (0xFFE00C00, 0x78C00C00, 2, Some Sign32, Pre_Index), (0xFFE00C00, 0x78800C00, 2, Some Sign64, Pre_Index)]"

definition unscaled_rows :: "(u32 \<times> u32 \<times> int_row) list" where
  "unscaled_rows =
    [(0xFFC00C00, 0xF8400000, 8, Some Zero, Unscaled), (0xFFC00C00, 0x38400000, 1, Some Zero, Unscaled),
     (0xFFC00C00, 0x38C00000, 1, Some Sign32, Unscaled), (0xFFC00C00, 0x38800000, 1, Some Sign64, Unscaled),
     (0xFFC00C00, 0x38000000, 1, None, Unscaled), (0xFFC00C00, 0x78400000, 2, Some Zero, Unscaled),
     (0xFFC00C00, 0x78C00000, 2, Some Sign32, Unscaled), (0xFFC00C00, 0x78800000, 2, Some Sign64, Unscaled),
     (0xFFC00C00, 0x78000000, 2, None, Unscaled), (0xFFC00C00, 0xF8000000, 8, None, Unscaled),
     (0xFFC00C00, 0xB8400000, 4, Some Zero, Unscaled), (0xFFC00C00, 0xB8000000, 4, None, Unscaled)]"

definition word_offset_rows :: "(u32 \<times> u32 \<times> int_row) list" where
  "word_offset_rows =
    [(0xFFC00000, 0xF9400000, 8, Some Zero, Unsigned_Offset), (0xFFC00000, 0xF9000000, 8, None, Unsigned_Offset),
     (0xFFC00000, 0xB9400000, 4, Some Zero, Unsigned_Offset), (0xFFC00000, 0xB9800000, 4, Some Sign64, Unsigned_Offset),
     (0xFFC00C00, 0xB8800000, 4, Some Sign64, Unscaled), (0xFFC00C00, 0xB8800C00, 4, Some Sign64, Pre_Index),
     (0xFFC00C00, 0xB8800400, 4, Some Sign64, Post_Index), (0xFFC00000, 0xB9000000, 4, None, Unsigned_Offset)]"

definition narrow_offset_rows :: "(u32 \<times> u32 \<times> int_row) list" where
  "narrow_offset_rows =
    [(0xFFC00000, 0x39C00000, 1, Some Sign32, Unsigned_Offset), (0xFFC00000, 0x39800000, 1, Some Sign64, Unsigned_Offset),
     (0xFFC00000, 0x79C00000, 2, Some Sign32, Unsigned_Offset), (0xFFC00000, 0x79800000, 2, Some Sign64, Unsigned_Offset),
     (0xFFC00000, 0x39400000, 1, Some Zero, Unsigned_Offset), (0xFFC00000, 0x39000000, 1, None, Unsigned_Offset),
     (0xFFC00000, 0x79400000, 2, Some Zero, Unsigned_Offset), (0xFFC00000, 0x79000000, 2, None, Unsigned_Offset)]"

definition exec_int_row :: "'d device_io \<Rightarrow> u32 \<Rightarrow> int_row \<Rightarrow> 'd cpu \<Rightarrow> 'd cpu" where
  "exec_int_row io insn row c =
    (case row of (sz, kind, mode) \<Rightarrow>
       let base = sp_or_reg (rn_of insn) c
       in access_reg io insn (row_address mode sz insn base) sz kind (row_write_back mode insn base) c)"

definition exec_int_rows :: "(u32 \<times> u32 \<times> int_row) list \<Rightarrow> 'd device_io \<Rightarrow> u32 \<Rightarrow> 'd cpu \<Rightarrow> 'd handled" where
  "exec_int_rows rows io insn c = map_option (\<lambda>row. Some (exec_int_row io insn row c)) (find_row rows insn)"

section \<open>Pairs of general registers\<close>

datatype pair_kind = Store_Pair | Load_Pair | Load_Pair_Signed

text \<open>By \<open>insn & 0xFFC00000\<close>: the kind, the element size and the addressing (\<open>Unscaled\<close>: an offset without write back).\<close>
definition store_pair_rows :: "(u32 \<times> pair_kind \<times> usize \<times> addressing) list" where
  "store_pair_rows =
    [(0xA9800000, Store_Pair, 8, Pre_Index), (0x29800000, Store_Pair, 4, Pre_Index),
     (0xA8800000, Store_Pair, 8, Post_Index), (0x28800000, Store_Pair, 4, Post_Index),
     (0xA9000000, Store_Pair, 8, Unscaled), (0xA8000000, Store_Pair, 8, Unscaled),
     (0x29000000, Store_Pair, 4, Unscaled), (0x28000000, Store_Pair, 4, Unscaled)]"

definition load_pair_rows :: "(u32 \<times> pair_kind \<times> usize \<times> addressing) list" where
  "load_pair_rows =
    [(0xA9C00000, Load_Pair, 8, Pre_Index), (0x29C00000, Load_Pair, 4, Pre_Index),
     (0xA8C00000, Load_Pair, 8, Post_Index), (0x28C00000, Load_Pair, 4, Post_Index),
     (0xA9400000, Load_Pair, 8, Unscaled), (0xA8400000, Load_Pair, 8, Unscaled),
     (0x29400000, Load_Pair, 4, Unscaled), (0x28400000, Load_Pair, 4, Unscaled),
     (0x69C00000, Load_Pair_Signed, 4, Pre_Index), (0x68C00000, Load_Pair_Signed, 4, Post_Index),
     (0x69400000, Load_Pair_Signed, 4, Unscaled)]"

definition exec_pair :: "'d device_io \<Rightarrow> u32 \<Rightarrow> 'd cpu \<Rightarrow> 'd handled" where
  "exec_pair io insn c =
    (let rt = rd_of insn; rt2 = rt2_of insn; rn = rn_of insn in
     case map_of (store_pair_rows @ load_pair_rows) (insn AND 0xFFC00000) of
       None \<Rightarrow> None
     | Some (kind, sz, mode) \<Rightarrow> Some (Some
         (let imm7 = push_bit (size_shift sz) (simm7_of insn);
              base = sp_or_reg rn c;
              addr = (if mode = Post_Index then base else base + imm7);
              write_back = (\<lambda>c. if mode \<in> {Pre_Index, Post_Index} then set_sp_or_reg rn (base + imm7) False c else c)
          in case kind of
               Store_Pair \<Rightarrow>
                 (case mmu_write_pair io rn addr (reg_sized sz rt c) (reg_sized sz rt2 c) sz c of
                    (False, c) \<Rightarrow> data_abort addr False c
                  | (True, c) \<Rightarrow> write_back c)
             | Load_Pair \<Rightarrow>
                 (case mmu_read_pair io rn False addr sz c of
                    (None, c) \<Rightarrow> data_abort addr False c
                  | (Some (v1, v2), c) \<Rightarrow> write_back (set_reg_sized sz rt2 v2 (set_reg_sized sz rt v1 c)))
             | Load_Pair_Signed \<Rightarrow>
                 (case mmu_read_pair io rn False addr sz c of
                    (None, c) \<Rightarrow> data_abort addr False c
                  | (Some (v1, v2), c) \<Rightarrow>
                      write_back (set_reg rt2 (sign_of_size 4 v2) (set_reg rt (sign_of_size 4 v1) c))))))"

end
