(* ===== verification/Cpu_Load_Store_Simd.thy ===== *)
theory Cpu_Load_Store_Simd
  imports Cpu_Load_Store
begin

text \<open>
  The SIMD and floating-point part of \<open>Cpu::exec_load_store\<close> and the dispatch of the whole function.
  An access of vector registers answers \<open>None\<close> when it succeeds, else the address it passes to
  \<open>data_abort\<close>.
\<close>

section \<open>Whole registers\<close>

definition set_qreg :: "nat \<Rightarrow> qreg \<Rightarrow> 'd cpu \<Rightarrow> 'd cpu" where
  "set_qreg i q c = c\<lparr>c_qregs := (c_qregs c)[i := q]\<rparr>"

definition fault_va_or :: "u64 \<Rightarrow> 'd cpu \<Rightarrow> u64" where
  "fault_va_or va c = (case last_data_fault_va (c_last c) of Some fa \<Rightarrow> fa | None \<Rightarrow> va)"

text \<open>One check of the base register and of the alignment to the whole size, then one or two accesses.\<close>
definition load_vec_whole :: "'d device_io \<Rightarrow> nat \<Rightarrow> u64 \<Rightarrow> nat \<Rightarrow> nat \<Rightarrow> 'd cpu \<Rightarrow> u64 option \<times> 'd cpu" where
  "load_vec_whole io rn addr vt sz c =
    (case access_faults io rn addr (of_nat sz) Read False c of
       (True, c) \<Rightarrow> (Some addr, c)
     | (False, c) \<Rightarrow>
         if sz = 16 then
           (case raw_mmu_read io addr 8 c of
              (None, c) \<Rightarrow> (Some (fault_va_or addr c), c)
            | (Some lo, c) \<Rightarrow>
                (case raw_mmu_read io (addr + 8) 8 c of
                   (None, c) \<Rightarrow> (Some (fault_va_or (addr + 8) c), c)
                 | (Some hi, c) \<Rightarrow> (None, set_qreg vt (lo, hi) c)))
         else
           (case raw_mmu_read io addr (of_nat sz) c of
              (None, c) \<Rightarrow> (Some (fault_va_or addr c), c)
            | (Some v, c) \<Rightarrow> (None, set_qreg vt (v AND ones (8 * sz), 0) c)))"

definition store_vec_whole :: "'d device_io \<Rightarrow> nat \<Rightarrow> u64 \<Rightarrow> nat \<Rightarrow> nat \<Rightarrow> 'd cpu \<Rightarrow> u64 option \<times> 'd cpu" where
  "store_vec_whole io rn addr vt sz c =
    (case access_faults io rn addr (of_nat sz) Write False c of
       (True, c) \<Rightarrow> (Some addr, c)
     | (False, c) \<Rightarrow>
         let q = c_qregs c ! vt in
         if sz = 16 then
           (case raw_mmu_write io addr (fst q) 8 c of
              (False, c) \<Rightarrow> (Some (fault_va_or addr c), c)
            | (True, c) \<Rightarrow>
                (case raw_mmu_write io (addr + 8) (snd q) 8 c of
                   (False, c) \<Rightarrow> (Some (fault_va_or (addr + 8) c), c)
                 | (True, c) \<Rightarrow> (None, c)))
         else
           (case raw_mmu_write io addr (fst q AND ones (8 * sz)) (of_nat sz) c of
              (False, c) \<Rightarrow> (Some (fault_va_or addr c), c)
            | (True, c) \<Rightarrow> (None, c)))"

definition vec_whole :: "bool \<Rightarrow> 'd device_io \<Rightarrow> nat \<Rightarrow> u64 \<Rightarrow> nat \<Rightarrow> nat \<Rightarrow> 'd cpu \<Rightarrow> u64 option \<times> 'd cpu" where
  "vec_whole is_load = (if is_load then load_vec_whole else store_vec_whole)"

definition vec_pair :: "bool \<Rightarrow> 'd device_io \<Rightarrow> nat \<Rightarrow> u64 \<Rightarrow> nat \<Rightarrow> nat \<Rightarrow> nat \<Rightarrow> 'd cpu \<Rightarrow> u64 option \<times> 'd cpu" where
  "vec_pair is_load io rn addr vt vt2 elem_size c =
    (case vec_whole is_load io rn addr vt elem_size c of
       (Some fa, c) \<Rightarrow> (Some fa, c)
     | (None, c) \<Rightarrow> vec_whole is_load io rn (addr + of_nat elem_size) vt2 elem_size c)"

text \<open>The older accessors, which check each access of at most eight bytes.\<close>
definition load_vec :: "'d device_io \<Rightarrow> nat \<Rightarrow> u64 \<Rightarrow> nat \<Rightarrow> nat \<Rightarrow> 'd cpu \<Rightarrow> bool \<times> 'd cpu" where
  "load_vec io rn addr vt sz c =
    (if sz = 16 then
       (case mmu_read_pair io rn False addr 8 c of
          (None, c) \<Rightarrow> (False, c)
        | (Some q, c) \<Rightarrow> (True, set_qreg vt q c))
     else
       (case mmu_read io rn False addr (of_nat sz) c of
          (None, c) \<Rightarrow> (False, c)
        | (Some v, c) \<Rightarrow> (True, set_qreg vt (v AND ones (8 * sz), 0) c)))"

definition store_vec :: "'d device_io \<Rightarrow> nat \<Rightarrow> u64 \<Rightarrow> nat \<Rightarrow> nat \<Rightarrow> 'd cpu \<Rightarrow> bool \<times> 'd cpu" where
  "store_vec io rn addr vt sz c =
    (let q = c_qregs c ! vt
     in if sz = 16 then mmu_write_pair io rn addr (fst q) (snd q) 8 c
        else mmu_write io rn False addr (fst q AND ones (8 * sz)) (of_nat sz) c)"

section \<open>Structures of bytes\<close>

text \<open>The places of the bytes in the order of the loops: address, register and lane.\<close>
definition seq_places :: "u64 \<Rightarrow> nat \<Rightarrow> nat \<Rightarrow> (u64 \<times> nat \<times> nat) list" where
  "seq_places addr reg_bytes reg_count =
    concat (map (\<lambda>r. map (\<lambda>lane. (addr + of_nat (r * reg_bytes + lane), r, lane)) [0..<reg_bytes]) [0..<reg_count])"

definition struct_places :: "u64 \<Rightarrow> nat \<Rightarrow> nat \<Rightarrow> (u64 \<times> nat \<times> nat) list" where
  "struct_places addr reg_bytes reg_count =
    concat (map (\<lambda>lane. map (\<lambda>r. (addr + of_nat (lane * reg_count + r), r, lane)) [0..<reg_count]) [0..<reg_bytes])"

fun load_places ::
  "'d device_io \<Rightarrow> nat \<Rightarrow> (u64 \<times> nat \<times> nat) list \<Rightarrow> qreg list \<Rightarrow> 'd cpu \<Rightarrow> (qreg list + u64) \<times> 'd cpu" where
  "load_places io rn [] regs c = (Inl regs, c)"
| "load_places io rn ((va, r, lane) # places) regs c =
    (case mmu_read io rn False va 1 c of
       (None, c) \<Rightarrow> (Inr va, c)
     | (Some v, c) \<Rightarrow> load_places io rn places (regs[r := vector_set_elem 8 lane (v AND 0xFF) (regs ! r)]) c)"

fun store_places ::
  "'d device_io \<Rightarrow> nat \<Rightarrow> (u64 \<times> nat \<times> nat) list \<Rightarrow> qreg list \<Rightarrow> 'd cpu \<Rightarrow> u64 option \<times> 'd cpu" where
  "store_places io rn [] regs c = (None, c)"
| "store_places io rn ((va, r, lane) # places) regs c =
    (case mmu_write io rn False va (vector_get_elem (regs ! r) 8 lane AND 0xFF) 1 c of
       (False, c) \<Rightarrow> (Some va, c)
     | (True, c) \<Rightarrow> store_places io rn places regs c)"

text \<open>Consecutive registers, modulo 32.\<close>
definition vec_index :: "nat \<Rightarrow> nat \<Rightarrow> nat" where "vec_index vt i = (vt + i) mod 32"

definition set_qregs :: "nat \<Rightarrow> nat \<Rightarrow> qreg list \<Rightarrow> 'd cpu \<Rightarrow> 'd cpu" where
  "set_qregs vt reg_count regs c = fold (\<lambda>i. set_qreg (vec_index vt i) (regs ! i)) [0..<reg_count] c"

definition vec_places ::
  "bool \<Rightarrow> 'd device_io \<Rightarrow> nat \<Rightarrow> nat \<Rightarrow> nat \<Rightarrow> (u64 \<times> nat \<times> nat) list \<Rightarrow> 'd cpu \<Rightarrow> u64 option \<times> 'd cpu" where
  "vec_places is_load io rn vt reg_count places c =
    (if is_load then
       (case load_places io rn places (replicate 4 (0, 0)) c of
          (Inr fa, c) \<Rightarrow> (Some fa, c)
        | (Inl regs, c) \<Rightarrow> (None, set_qregs vt reg_count regs c))
     else store_places io rn places (map (\<lambda>i. c_qregs c ! vec_index vt i) [0..<reg_count]) c)"

section \<open>Single structures\<close>

record single_struct =
  ss_is_load :: bool
  ss_replicate :: bool
  ss_reg_count :: nat
  ss_esize_bits :: nat
  ss_lane_index :: nat
  ss_datasize_bits :: nat

text \<open>Lane index, element scale and replication; \<open>None\<close> for the encodings the code refuses.\<close>
definition single_lane :: "bool \<Rightarrow> u32 \<Rightarrow> (u32 \<times> u32 \<times> bool) option" where
  "single_lane is_load insn =
    (let q = drop_bit 30 insn AND 1; s = drop_bit 12 insn AND 1; size = drop_bit 10 insn AND 0x3;
         scale = drop_bit 1 (drop_bit 13 insn AND 0x7) AND 0x3
     in if scale = 3 then (if \<not> is_load \<or> s \<noteq> 0 then None else Some (0, size, True))
        else if scale = 0 then Some (push_bit 3 q OR push_bit 2 s OR size, scale, False)
        else if scale = 1 then
          (if size AND 1 \<noteq> 0 then None else Some (push_bit 2 q OR push_bit 1 s OR drop_bit 1 size, scale, False))
        else if size AND 2 \<noteq> 0 then None
        else if size AND 1 = 0 then Some (push_bit 1 q OR s, scale, False)
        else if s \<noteq> 0 then None
        else Some (q, 3, False))"

definition decode_vec_single_struct :: "u32 \<Rightarrow> single_struct option" where
  "decode_vec_single_struct insn =
    (let q = drop_bit 30 insn AND 1; is_load = drop_bit 22 insn AND 1 \<noteq> 0; r = drop_bit 21 insn AND 1;
         opcode = drop_bit 13 insn AND 0x7
     in case single_lane is_load insn of
          None \<Rightarrow> None
        | Some (lane, scale, replicated) \<Rightarrow>
            Some \<lparr>ss_is_load = is_load, ss_replicate = replicated,
                  ss_reg_count = unat ((push_bit 1 (opcode AND 1) OR r) + 1),
                  ss_esize_bits = unat (push_bit (unat scale) (8 :: u32)), ss_lane_index = unat lane,
                  ss_datasize_bits = unat (push_bit (unat q) (64 :: u32))\<rparr>)"

text \<open>The bytes of an element, each with its own raw access.\<close>
fun read_elem_bytes :: "'d device_io \<Rightarrow> u64 \<Rightarrow> nat list \<Rightarrow> u64 \<Rightarrow> 'd cpu \<Rightarrow> (u64 + u64) \<times> 'd cpu" where
  "read_elem_bytes io addr [] v c = (Inl v, c)"
| "read_elem_bytes io addr (i # js) v c =
    (case raw_mmu_read io (addr + of_nat i) 1 c of
       (None, c) \<Rightarrow> (Inr (addr + of_nat i), c)
     | (Some b, c) \<Rightarrow> read_elem_bytes io addr js (v OR push_bit (i * 8) (b AND 0xFF)) c)"

fun write_elem_bytes :: "'d device_io \<Rightarrow> u64 \<Rightarrow> u64 \<Rightarrow> nat list \<Rightarrow> 'd cpu \<Rightarrow> u64 option \<times> 'd cpu" where
  "write_elem_bytes io addr v [] c = (None, c)"
| "write_elem_bytes io addr v (i # js) c =
    (case raw_mmu_write io (addr + of_nat i) (drop_bit (i * 8) v AND 0xFF) 1 c of
       (False, c) \<Rightarrow> (Some (addr + of_nat i), c)
     | (True, c) \<Rightarrow> write_elem_bytes io addr v js c)"

definition single_loaded :: "single_struct \<Rightarrow> u64 \<Rightarrow> qreg \<Rightarrow> qreg" where
  "single_loaded s v q =
    (let e = ss_esize_bits s in
     if ss_replicate s then
       fold (\<lambda>lane. vector_set_elem e lane (v AND ones e)) [0..<ss_datasize_bits s div e] (0, 0)
     else vector_set_elem e (ss_lane_index s) (v AND ones e) q)"

fun load_single :: "'d device_io \<Rightarrow> nat \<Rightarrow> u64 \<Rightarrow> nat \<Rightarrow> single_struct \<Rightarrow> nat list \<Rightarrow> 'd cpu \<Rightarrow> (qreg list + u64) \<times> 'd cpu" where
  "load_single io rn addr vt s [] c = (Inl [], c)"
| "load_single io rn addr vt s (i # js) c =
    (let ebytes = ss_esize_bits s div 8; elem_addr = addr + of_nat (i * ebytes) in
     case access_faults io rn elem_addr (of_nat ebytes) Read False c of
       (True, c) \<Rightarrow> (Inr elem_addr, c)
     | (False, c) \<Rightarrow>
         (case read_elem_bytes io elem_addr [0..<ebytes] 0 c of
            (Inr fa, c) \<Rightarrow> (Inr fa, c)
          | (Inl v, c) \<Rightarrow>
              (let q = single_loaded s v (c_qregs c ! vec_index vt i) in
               case load_single io rn addr vt s js c of
                 (Inr fa, c) \<Rightarrow> (Inr fa, c)
               | (Inl regs, c) \<Rightarrow> (Inl (q # regs), c))))"

fun store_single :: "'d device_io \<Rightarrow> nat \<Rightarrow> u64 \<Rightarrow> nat \<Rightarrow> single_struct \<Rightarrow> nat list \<Rightarrow> 'd cpu \<Rightarrow> u64 option \<times> 'd cpu" where
  "store_single io rn addr vt s [] c = (None, c)"
| "store_single io rn addr vt s (i # js) c =
    (let ebytes = ss_esize_bits s div 8; elem_addr = addr + of_nat (i * ebytes) in
     case access_faults io rn elem_addr (of_nat ebytes) Write False c of
       (True, c) \<Rightarrow> (Some elem_addr, c)
     | (False, c) \<Rightarrow>
         let elem = vector_get_elem (c_qregs c ! vec_index vt i) (ss_esize_bits s) (ss_lane_index s) AND ones (ss_esize_bits s)
         in (case write_elem_bytes io elem_addr elem [0..<ebytes] c of
               (Some fa, c) \<Rightarrow> (Some fa, c)
             | (None, c) \<Rightarrow> store_single io rn addr vt s js c))"

text \<open>The counts and sizes that a decoded structure has all pass the test at the head of the function.\<close>
definition access_vec_single_struct :: "'d device_io \<Rightarrow> nat \<Rightarrow> u64 \<Rightarrow> nat \<Rightarrow> single_struct \<Rightarrow> 'd cpu \<Rightarrow> u64 option \<times> 'd cpu" where
  "access_vec_single_struct io rn addr vt s c =
    (let n = ss_reg_count s in
     if n = 0 \<or> n > 4 \<or> ss_esize_bits s \<notin> {8, 16, 32, 64} then (Some addr, c)
     else if ss_is_load s then
       (case load_single io rn addr vt s [0..<n] c of
          (Inr fa, c) \<Rightarrow> (Some fa, c)
        | (Inl regs, c) \<Rightarrow> (None, set_qregs vt n regs c))
     else store_single io rn addr vt s [0..<n] c)"

section \<open>The SIMD loads and stores\<close>

text \<open>The base register after its alignment check; an exception ends the instruction.\<close>
definition with_fp_base :: "u32 \<Rightarrow> (u64 \<Rightarrow> 'd cpu \<Rightarrow> 'd cpu) \<Rightarrow> 'd cpu \<Rightarrow> 'd cpu" where
  "with_fp_base insn f c =
    (case maybe_take_sp_alignment_fault (rn_of insn) c of
       (True, c) \<Rightarrow> c
     | (False, c) \<Rightarrow> f (sp_or_reg (rn_of insn) c) c)"

definition finish_vec :: "(u64 option \<times> 'd cpu) \<Rightarrow> ('d cpu \<Rightarrow> 'd cpu) \<Rightarrow> 'd cpu" where
  "finish_vec r write_back = (case r of (Some fa, c) \<Rightarrow> data_abort fa False c | (None, c) \<Rightarrow> write_back c)"

definition fp_is_load :: "u32 \<Rightarrow> bool" where "fp_is_load insn \<longleftrightarrow> insn AND 0x00400000 \<noteq> 0"

definition set_base :: "u32 \<Rightarrow> u64 \<Rightarrow> 'd cpu \<Rightarrow> 'd cpu" where
  "set_base insn v = set_sp_or_reg (rn_of insn) v False"

definition fp_uimm_rows :: "(u32 \<times> nat) list" where
  "fp_uimm_rows =
    [(0x3D800000, 16), (0x3DC00000, 16), (0x3D000000, 1), (0x3D400000, 1), (0x7D000000, 2), (0x7D400000, 2),
     (0xBD000000, 4), (0xBD400000, 4), (0xFD000000, 8), (0xFD400000, 8)]"

definition exec_fp_uimm :: "'d device_io \<Rightarrow> u32 \<Rightarrow> 'd cpu \<Rightarrow> 'd handled" where
  "exec_fp_uimm io insn c =
    (case map_of fp_uimm_rows (insn AND 0xFFC00000) of
       None \<Rightarrow> None
     | Some sz \<Rightarrow> Some (Some (with_fp_base insn
         (\<lambda>base c. finish_vec (vec_whole (fp_is_load insn) io (rn_of insn) (base + imm12_of insn * of_nat sz)
                                (rd_of insn) sz c) (\<lambda>c. c)) c)))"

definition exec_q_indexed :: "'d device_io \<Rightarrow> u32 \<Rightarrow> 'd cpu \<Rightarrow> 'd handled" where
  "exec_q_indexed io insn c =
    (let op = insn AND 0xFFC00C00; pre_index = op \<in> {0x3C800C00, 0x3CC00C00} in
     if op \<notin> {0x3C800C00, 0x3CC00C00, 0x3C800400, 0x3CC00400} then None
     else Some (Some (with_fp_base insn
       (\<lambda>base c. finish_vec
          (vec_whole (fp_is_load insn) io (rn_of insn) (if pre_index then base + simm9_of insn else base) (rd_of insn) 16 c)
          (set_base insn (base + simm9_of insn))) c)))"

definition fp_register_rows :: "(u32 \<times> nat) list" where
  "fp_register_rows =
    [(0x3C200800, 1), (0x3C600800, 1), (0x7C200800, 2), (0x7C600800, 2), (0xBC200800, 4), (0xBC600800, 4),
     (0xFC200800, 8), (0xFC600800, 8), (0x3CA00800, 16), (0x3CE00800, 16)]"

definition fp_size_shift :: "nat \<Rightarrow> nat" where
  "fp_size_shift sz = (if sz = 16 then 4 else if sz = 8 then 3 else if sz = 4 then 2 else if sz = 2 then 1 else 0)"

definition exec_fp_register :: "'d device_io \<Rightarrow> u32 \<Rightarrow> 'd cpu \<Rightarrow> 'd handled" where
  "exec_fp_register io insn c =
    (case map_of fp_register_rows (insn AND 0xFFE00C00) of
       None \<Rightarrow> None
     | Some sz \<Rightarrow> Some
         (case register_offset insn c of
            None \<Rightarrow> None
          | Some off \<Rightarrow>
              (let off = (if insn_s insn then push_bit (fp_size_shift sz) off else off)
               in Some (with_fp_base insn
                    (\<lambda>base c. finish_vec (vec_whole (fp_is_load insn) io (rn_of insn) (base + off) (rd_of insn) sz c)
                                (\<lambda>c. c)) c))))"

definition fp_unscaled_rows :: "(u32 \<times> nat) list" where
  "fp_unscaled_rows =
    [(0x3C000000, 1), (0x3C400000, 1), (0x7C000000, 2), (0x7C400000, 2), (0x3C800000, 16), (0x3CC00000, 16),
     (0xBC000000, 4), (0xBC400000, 4), (0xFC000000, 8), (0xFC400000, 8)]"

definition exec_fp_unscaled :: "'d device_io \<Rightarrow> u32 \<Rightarrow> 'd cpu \<Rightarrow> 'd handled" where
  "exec_fp_unscaled io insn c =
    (case map_of fp_unscaled_rows (insn AND 0xFFC00C00) of
       None \<Rightarrow> None
     | Some sz \<Rightarrow> Some (Some (with_fp_base insn
         (\<lambda>base c. finish_vec (vec_whole (fp_is_load insn) io (rn_of insn) (base + simm9_of insn) (rd_of insn) sz c)
                     (\<lambda>c. c)) c)))"

text \<open>The post-index of a structure: a register, or the size when the register is 31.\<close>
definition structure_step :: "u32 \<Rightarrow> u64 \<Rightarrow> 'd cpu \<Rightarrow> u64" where
  "structure_step insn imm c = (if rm_of insn = 31 then imm else reg (rm_of insn) c)"

definition exec_single_struct :: "'d device_io \<Rightarrow> u32 \<Rightarrow> 'd cpu \<Rightarrow> 'd handled" where
  "exec_single_struct io insn c =
    (if insn AND 0xBF9F0000 \<noteq> 0x0D000000 \<and> insn AND 0xBF800000 \<noteq> 0x0D800000 then None
     else Some
       (case decode_vec_single_struct insn of
          None \<Rightarrow> None
        | Some s \<Rightarrow> Some (with_fp_base insn
            (\<lambda>base c. finish_vec (access_vec_single_struct io (rn_of insn) base (rd_of insn) s c)
               (\<lambda>c. if insn AND 0x00800000 \<noteq> 0
                    then set_base insn (base + structure_step insn
                           (of_nat (ss_reg_count s) * of_nat (ss_esize_bits s div 8)) c) c
                    else c)) c)))"

text \<open>The number of registers, by \<open>insn & 0xBFFFFC00\<close>, and with a post-index by \<open>insn & 0xBFE0FC00\<close>.\<close>
definition seq_rows :: "(u32 \<times> nat) list" where
  "seq_rows =
    [(0x0C407000, 1), (0x0C007000, 1), (0x0C40A000, 2), (0x0C00A000, 2), (0x0C406000, 3), (0x0C006000, 3),
     (0x0C402000, 4), (0x0C002000, 4)]"

definition seq_post_rows :: "(u32 \<times> nat) list" where
  "seq_post_rows =
    [(0x0CC07000, 1), (0x0C807000, 1), (0x0CC0A000, 2), (0x0C80A000, 2), (0x0CC06000, 3), (0x0C806000, 3),
     (0x0CC02000, 4), (0x0C802000, 4)]"

definition struct_rows :: "(u32 \<times> nat) list" where
  "struct_rows =
    [(0x0C408000, 2), (0x0C008000, 2), (0x0C404000, 3), (0x0C004000, 3), (0x0C400000, 4), (0x0C000000, 4)]"

definition struct_post_rows :: "(u32 \<times> nat) list" where
  "struct_post_rows =
    [(0x0CC08000, 2), (0x0C808000, 2), (0x0CC04000, 3), (0x0C804000, 3), (0x0CC00000, 4), (0x0C800000, 4)]"

definition multi_access ::
  "(u64 \<Rightarrow> nat \<Rightarrow> nat \<Rightarrow> (u64 \<times> nat \<times> nat) list) \<Rightarrow> bool \<Rightarrow> 'd device_io \<Rightarrow> u32 \<Rightarrow> nat \<Rightarrow> 'd cpu \<Rightarrow> 'd cpu" where
  "multi_access places post_index io insn reg_count c =
    (let reg_bytes = (if drop_bit 30 insn AND 1 \<noteq> 0 then 16 else 8)
     in with_fp_base insn
          (\<lambda>base c. finish_vec
             (vec_places (fp_is_load insn) io (rn_of insn) (rd_of insn) reg_count (places base reg_bytes reg_count) c)
             (\<lambda>c. if post_index
                  then set_base insn (base + structure_step insn (of_nat (reg_bytes * reg_count)) c) c else c)) c)"

definition exec_seq_struct :: "'d device_io \<Rightarrow> u32 \<Rightarrow> 'd cpu \<Rightarrow> 'd handled" where
  "exec_seq_struct io insn c =
    (case map_of seq_rows (insn AND 0xBFFFFC00) of
       Some n \<Rightarrow> Some (Some (multi_access seq_places False io insn n c))
     | None \<Rightarrow>
         (case map_of seq_post_rows (insn AND 0xBFE0FC00) of
            Some n \<Rightarrow> Some (Some (multi_access seq_places True io insn n c))
          | None \<Rightarrow> None))"

definition exec_interleaved_struct :: "'d device_io \<Rightarrow> u32 \<Rightarrow> 'd cpu \<Rightarrow> 'd handled" where
  "exec_interleaved_struct io insn c =
    (case map_of struct_rows (insn AND 0xBFFFFC00) of
       Some n \<Rightarrow> Some (Some (multi_access struct_places False io insn n c))
     | None \<Rightarrow>
         (case map_of struct_post_rows (insn AND 0xBFE0FC00) of
            Some n \<Rightarrow> Some (Some (multi_access struct_places True io insn n c))
          | None \<Rightarrow> None))"

definition exec_fp_literal :: "'d device_io \<Rightarrow> u32 \<Rightarrow> 'd cpu \<Rightarrow> 'd handled" where
  "exec_fp_literal io insn c =
    (let opc = drop_bit 30 insn AND 0x3; addr = literal_of insn c in
     if insn AND 0x3F000000 = 0x1C000000 \<and> opc \<noteq> 3 then
       Some (Some (case load_vec io (rn_of insn) addr (rd_of insn) (4 * 2 ^ unat opc) c of
                     (False, c) \<Rightarrow> data_abort (fault_va_or addr c) False c
                   | (True, c) \<Rightarrow> c))
     else None)"

text \<open>By \<open>insn & 0xFFC00C00\<close>: size, load and pre-index.\<close>
definition fp_indexed_rows :: "(u32 \<times> nat \<times> bool \<times> bool) list" where
  "fp_indexed_rows =
    [(0xBC400400, 4, True, False), (0xBC000400, 4, False, False), (0xBC400C00, 4, True, True), (0xBC000C00, 4, False, True),
     (0x3C400400, 1, True, False), (0x3C000400, 1, False, False), (0x3C400C00, 1, True, True), (0x3C000C00, 1, False, True),
     (0x7C400400, 2, True, False), (0x7C000400, 2, False, False), (0x7C400C00, 2, True, True), (0x7C000C00, 2, False, True),
     (0xFC400400, 8, True, False), (0xFC000400, 8, False, False), (0xFC400C00, 8, True, True), (0xFC000C00, 8, False, True)]"

text \<open>Encodings that are treated as accesses of eight bytes.\<close>
definition fp_indexed_rows_8 :: "(u32 \<times> nat \<times> bool \<times> bool) list" where
  "fp_indexed_rows_8 =
    [(0x7C800C00, 8, False, True), (0x7CC00C00, 8, True, True), (0x7C800400, 8, False, False), (0x7CC00400, 8, True, False)]"

definition exec_fp_indexed :: "(u32 \<times> nat \<times> bool \<times> bool) list \<Rightarrow> 'd device_io \<Rightarrow> u32 \<Rightarrow> 'd cpu \<Rightarrow> 'd handled" where
  "exec_fp_indexed rows io insn c =
    (let rn = rn_of insn; base = sp_or_reg rn c in
     case map_of rows (insn AND 0xFFC00C00) of
       None \<Rightarrow> None
     | Some (sz, is_load, is_pre) \<Rightarrow> Some (Some
         (let addr = (if is_pre then base + simm9_of insn else base) in
          case (if is_load then load_vec else store_vec) io rn addr (rd_of insn) sz c of
            (False, c) \<Rightarrow> data_abort addr False c
          | (True, c) \<Rightarrow> set_base insn (base + simm9_of insn) c)))"

text \<open>By \<open>insn & 0xFFC00000\<close>: element size, load, write back and post-index.\<close>
definition fp_pair_rows :: "(u32 \<times> nat \<times> bool \<times> bool \<times> bool) list" where
  "fp_pair_rows =
    [(0x2D800000, 4, False, True, False), (0x2C800000, 4, False, True, True), (0x2D000000, 4, False, False, False),
     (0x2C000000, 4, False, False, False), (0x2DC00000, 4, True, True, False), (0x2CC00000, 4, True, True, True),
     (0x2D400000, 4, True, False, False), (0x2C400000, 4, True, False, False),
     (0x6D800000, 8, False, True, False), (0x6C800000, 8, False, True, True), (0x6D000000, 8, False, False, False),
     (0x6C000000, 8, False, False, False), (0x6DC00000, 8, True, True, False), (0x6CC00000, 8, True, True, True),
     (0x6D400000, 8, True, False, False), (0x6C400000, 8, True, False, False),
     (0xAD800000, 16, False, True, False), (0xAC800000, 16, False, True, True), (0xAD000000, 16, False, False, False),
     (0xAC000000, 16, False, False, False), (0xADC00000, 16, True, True, False), (0xACC00000, 16, True, True, True),
     (0xAD400000, 16, True, False, False), (0xAC400000, 16, True, False, False)]"

definition exec_fp_pair :: "'d device_io \<Rightarrow> u32 \<Rightarrow> 'd cpu \<Rightarrow> 'd handled" where
  "exec_fp_pair io insn c =
    (case map_of fp_pair_rows (insn AND 0xFFC00000) of
       None \<Rightarrow> None
     | Some (elem_size, is_load, write_back, post_index) \<Rightarrow> Some (Some (with_fp_base insn
         (\<lambda>base c.
            let imm7 = simm7_of insn * of_nat elem_size; addr = (if post_index then base else base + imm7)
            in finish_vec (vec_pair is_load io (rn_of insn) addr (rd_of insn) (rt2_of insn) elem_size c)
                 (\<lambda>c. if write_back then set_base insn (base + imm7) c else c)) c)))"

section \<open>The dispatch\<close>

definition or_next :: "'d handled \<Rightarrow> 'd handled \<Rightarrow> 'd handled" where
  "or_next a b = (case a of Some r \<Rightarrow> Some r | None \<Rightarrow> b)"

definition when_insn :: "bool \<Rightarrow> 'd cpu \<Rightarrow> 'd handled" where
  "when_insn b c = (if b then Some (Some c) else None)"

definition exec_simd_memory :: "'d device_io \<Rightarrow> u32 \<Rightarrow> 'd cpu \<Rightarrow> 'd handled" where
  "exec_simd_memory io insn c =
    or_next (exec_fp_uimm io insn c) (or_next (exec_q_indexed io insn c) (or_next (exec_fp_register io insn c)
    (or_next (exec_fp_unscaled io insn c) (or_next (exec_single_struct io insn c)
    (or_next (exec_seq_struct io insn c) (exec_interleaved_struct io insn c))))))"

definition exec_ordered_memory :: "'d device_io \<Rightarrow> u32 \<Rightarrow> 'd cpu \<Rightarrow> 'd handled" where
  "exec_ordered_memory io insn c =
    or_next (exec_unprivileged io insn c) (or_next (when_insn (is_prefetch insn) c)
    (or_next (exec_load_exclusive io insn c) (or_next (exec_store_exclusive io insn c)
    (or_next (when_insn (is_casp insn) (exec_casp io insn c)) (or_next (when_insn (is_cas insn) (exec_cas io insn c))
    (or_next (when_insn (atomic_tag insn \<in> set atomic_tags) (exec_atomic io insn c)) (or_next (exec_ordered io insn c)
    (or_next (when_insn (is_absent_load_store insn) (undefined_insn c)) (exec_pair_exclusive io insn c)))))))))"

definition exec_plain_memory :: "'d device_io \<Rightarrow> u32 \<Rightarrow> 'd cpu \<Rightarrow> 'd handled" where
  "exec_plain_memory io insn c =
    or_next (exec_signed_offset io insn c) (or_next (exec_register_offset io insn c)
    (or_next (exec_literal io insn c) (or_next (exec_fp_literal io insn c)
    (or_next (exec_int_rows indexed_int_rows io insn c) (or_next (exec_fp_indexed fp_indexed_rows io insn c)
    (or_next (exec_int_rows (signed_indexed_rows @ unscaled_rows) io insn c)
    (or_next (exec_fp_indexed fp_indexed_rows_8 io insn c) (or_next (exec_fp_pair io insn c)
    (or_next (exec_pair io insn c) (exec_int_rows (word_offset_rows @ narrow_offset_rows) io insn c))))))))))"

definition exec_load_store :: "'d device_io \<Rightarrow> u32 \<Rightarrow> 'd cpu \<Rightarrow> 'd cpu option" where
  "exec_load_store io insn c =
    (if is_ldraa_ldrab_encoding insn then Some (undefined_insn c)
     else case or_next (exec_simd_memory io insn c)
                 (or_next (exec_ordered_memory io insn c) (exec_plain_memory io insn c)) of
            Some r \<Rightarrow> r
          | None \<Rightarrow> None)"

end
