(* ===== verification/Cpu_Simd_Arith.thy ===== *)
theory Cpu_Simd_Arith
  imports Cpu_Load_Store_Simd
begin

text \<open>
  The integer helpers of the SIMD instructions in \<open>src/src/cpu.cpp\<close> (saturation, rounding shifts,
  narrowing, saturating sums, doubling and long products) and the shape the instructions share: the
  fields of the word, a loop over the lanes of a register and the cumulative saturation flag.
  The 128-bit intermediate values of the source are integers here: none of them leaves its type.
\<close>

section \<open>Bits\<close>

definition highest_set_bit :: "u32 \<Rightarrow> nat" where
  "highest_set_bit v = (case filter (bit v) (rev [0..<32]) of [] \<Rightarrow> 0 | b # _ \<Rightarrow> b)"

text \<open>\<open>__builtin_ctz\<close> of the compiler, which no caller gives a zero.\<close>
definition builtin_ctz :: "u32 \<Rightarrow> nat" where
  "builtin_ctz v = length (takeWhile (\<lambda>i. \<not> bit v i) [0..<32])"

section \<open>Saturation\<close>

definition signed_min :: "nat \<Rightarrow> int" where "signed_min w = - (2 ^ (w - 1))"
definition signed_max :: "nat \<Rightarrow> int" where "signed_max w = 2 ^ (w - 1) - 1"
definition unsigned_max :: "nat \<Rightarrow> int" where "unsigned_max w = 2 ^ w - 1"

definition outside_signed :: "nat \<Rightarrow> int \<Rightarrow> bool" where
  "outside_signed w v \<longleftrightarrow> v < signed_min w \<or> v > signed_max w"

definition saturate_signed_value :: "nat \<Rightarrow> int \<Rightarrow> int" where
  "saturate_signed_value w v =
    (if v < signed_min w then signed_min w else if v > signed_max w then signed_max w else v)"

definition saturate_unsigned_value :: "nat \<Rightarrow> int \<Rightarrow> int" where
  "saturate_unsigned_value w v = (if v > unsigned_max w then unsigned_max w else v)"

definition saturate_signed_to_unsigned_value :: "nat \<Rightarrow> int \<Rightarrow> int" where
  "saturate_signed_to_unsigned_value w v =
    (if v \<le> 0 then 0 else if v > unsigned_max w then unsigned_max w else v)"

text \<open>A value cast to the unsigned type of \<open>w\<close> bits and then to 64 bits.\<close>
definition as_unsigned :: "nat \<Rightarrow> int \<Rightarrow> u64" where
  "as_unsigned w v = word_of_int v AND ones w"

section \<open>Shifts\<close>

definition rounding_constant :: "nat \<Rightarrow> bool \<Rightarrow> int" where
  "rounding_constant shift round = (if round then 2 ^ (shift - 1) else 0)"

definition round_shift_right_unsigned :: "u64 \<Rightarrow> nat \<Rightarrow> bool \<Rightarrow> u64" where
  "round_shift_right_unsigned v shift round = word_of_int (drop_bit shift (uint v + rounding_constant shift round))"

definition round_shift_right_signed_wide :: "int \<Rightarrow> nat \<Rightarrow> bool \<Rightarrow> int" where
  "round_shift_right_signed_wide v shift round = drop_bit shift (v + rounding_constant shift round)"

definition round_shift_right_signed :: "int \<Rightarrow> nat \<Rightarrow> bool \<Rightarrow> int" where
  "round_shift_right_signed v shift round = sint (word_of_int (round_shift_right_signed_wide v shift round) :: u64)"

definition sign_extend_bits :: "u64 \<Rightarrow> nat \<Rightarrow> int" where
  "sign_extend_bits v bits =
    (if bits = 0 \<or> bits \<ge> 64 then sint v
     else let shift = 64 - bits in sint (signed_drop_bit shift (push_bit shift v)))"

section \<open>Narrowing\<close>

datatype shift_right_narrow_mode =
  PlainUnsigned | SignedToSignedSaturating | UnsignedToUnsignedSaturating | SignedToUnsignedSaturating

text \<open>The result with the flag \<open>saturated\<close>; a width the switch does not know gives a zero.\<close>
definition shift_right_narrow_result ::
  "u64 \<Rightarrow> nat \<Rightarrow> nat \<Rightarrow> nat \<Rightarrow> bool \<Rightarrow> shift_right_narrow_mode \<Rightarrow> u64 \<times> bool" where
  "shift_right_narrow_result v src_esize dst_esize shift round mode =
    (let known = dst_esize \<in> {8, 16, 32} in
     case mode of
       PlainUnsigned \<Rightarrow> (round_shift_right_unsigned v shift round AND ones dst_esize, False)
     | SignedToSignedSaturating \<Rightarrow>
         (let shifted = round_shift_right_signed (sign_extend_bits v src_esize) shift round
          in if known then (as_unsigned dst_esize (saturate_signed_value dst_esize shifted),
                            outside_signed dst_esize shifted)
             else (0, False))
     | UnsignedToUnsignedSaturating \<Rightarrow>
         (let shifted = uint (round_shift_right_unsigned v shift round)
          in if known then (word_of_int (saturate_unsigned_value dst_esize shifted), shifted > unsigned_max dst_esize)
             else (0, False))
     | SignedToUnsignedSaturating \<Rightarrow>
         (let shifted = round_shift_right_signed (sign_extend_bits v src_esize) shift round
          in if known then (word_of_int (saturate_signed_to_unsigned_value dst_esize shifted),
                            shifted < 0 \<or> shifted > unsigned_max dst_esize)
             else (0, False)))"

section \<open>Saturating sums\<close>

definition sat_unsigned_add_sub :: "u64 \<Rightarrow> u64 \<Rightarrow> nat \<Rightarrow> bool \<Rightarrow> u64 \<times> bool" where
  "sat_unsigned_add_sub lhs rhs esize subtract =
    (let m = ones esize; lhs = lhs AND m; rhs = rhs AND m in
     if subtract then (if lhs < rhs then (0, True) else ((lhs - rhs) AND m, False))
     else
       let max_value = (if esize = 64 then uint (NOT 0 :: u64) else 2 ^ esize - 1);
           sum = uint lhs + uint rhs
       in if sum > max_value then (word_of_int max_value AND m, True) else (word_of_int sum AND m, False))"

definition sat_signed_add_sub :: "u64 \<Rightarrow> u64 \<Rightarrow> nat \<Rightarrow> bool \<Rightarrow> u64 \<times> bool" where
  "sat_signed_add_sub lhs rhs esize subtract =
    (let l = sign_extend_bits lhs esize; r = sign_extend_bits rhs esize;
         result = (if subtract then l - r else l + r)
     in (word_of_int (saturate_signed_value esize result) AND ones esize, outside_signed esize result))"

section \<open>Products\<close>

definition sqdmulh_result :: "u64 \<Rightarrow> u64 \<Rightarrow> nat \<Rightarrow> bool \<Rightarrow> u64 \<times> bool" where
  "sqdmulh_result lhs rhs esize round =
    (let product = round_shift_right_signed_wide
           (2 * sign_extend_bits lhs esize * sign_extend_bits rhs esize) esize round
     in if esize \<in> {16, 32}
        then (as_unsigned esize (saturate_signed_value esize product), outside_signed esize product)
        else (0, False))"

definition sqdmull_product_result :: "u64 \<Rightarrow> u64 \<Rightarrow> nat \<Rightarrow> u64 \<times> bool" where
  "sqdmull_product_result lhs rhs esize =
    (let product = 2 * sign_extend_bits lhs esize * sign_extend_bits rhs esize
     in if esize \<in> {16, 32}
        then (as_unsigned (2 * esize) (saturate_signed_value (2 * esize) product), outside_signed (2 * esize) product)
        else (0, False))"

definition sqdml_long_accumulate_result :: "u64 \<Rightarrow> u64 \<Rightarrow> u64 \<Rightarrow> nat \<Rightarrow> bool \<Rightarrow> u64 \<times> bool" where
  "sqdml_long_accumulate_result acc lhs rhs esize subtract =
    (let (product, sat_product) = sqdmull_product_result lhs rhs esize;
         (result, sat_acc) = sat_signed_add_sub acc product (esize * 2) subtract
     in (result, sat_product \<or> sat_acc))"

definition long_multiply_result :: "u64 \<Rightarrow> u64 \<Rightarrow> nat \<Rightarrow> bool \<Rightarrow> u64" where
  "long_multiply_result lhs rhs src_esize is_unsigned =
    (let dst_mask = ones (src_esize * 2); src_mask = ones src_esize in
     if is_unsigned then word_of_int (uint (lhs AND src_mask) * uint (rhs AND src_mask)) AND dst_mask
     else word_of_int (sign_extend_bits lhs src_esize * sign_extend_bits rhs src_esize) AND dst_mask)"

text \<open>The unsigned difference wraps in the source at 128 bits and keeps its low 64 bits, as here.\<close>
definition long_multiply_accumulate_result :: "u64 \<Rightarrow> u64 \<Rightarrow> u64 \<Rightarrow> nat \<Rightarrow> bool \<Rightarrow> bool \<Rightarrow> u64" where
  "long_multiply_accumulate_result acc lhs rhs src_esize subtract is_unsigned =
    (let dst_esize = src_esize * 2;
         dst_mask = ones dst_esize;
         product = long_multiply_result lhs rhs src_esize is_unsigned;
         (a, p) = (if is_unsigned then (uint (acc AND dst_mask), uint product)
                   else (sign_extend_bits acc dst_esize, sign_extend_bits product dst_esize))
     in word_of_int (if subtract then a - p else a + p) AND dst_mask)"

section \<open>Fields of the word\<close>

definition insn_q :: "u32 \<Rightarrow> bool" where "insn_q insn \<longleftrightarrow> drop_bit 30 insn AND 1 \<noteq> 0"
definition insn_u :: "u32 \<Rightarrow> bool" where "insn_u insn \<longleftrightarrow> drop_bit 29 insn AND 1 \<noteq> 0"
definition insn_size :: "u32 \<Rightarrow> nat" where "insn_size insn = unat (drop_bit 22 insn AND 0x3)"
definition insn_esize :: "u32 \<Rightarrow> nat" where "insn_esize insn = 8 * 2 ^ insn_size insn"
definition insn_bits :: "u32 \<Rightarrow> nat" where "insn_bits insn = (if insn_q insn then 128 else 64)"

text \<open>The lane and the register of an instruction by element; none for the other sizes.\<close>
definition element_operand :: "u32 \<Rightarrow> (nat \<times> nat) option" where
  "element_operand insn =
    (let l = drop_bit 21 insn AND 1; m = drop_bit 20 insn AND 1; h = drop_bit 11 insn AND 1;
         low = drop_bit 16 insn AND 0xF
     in if insn_size insn = 1 then Some (unat (push_bit 2 h OR push_bit 1 l OR m), unat low)
        else if insn_size insn = 2 then Some (unat (push_bit 1 h OR l), unat (low OR push_bit 4 m))
        else None)"

section \<open>Lanes\<close>

definition qreg_at :: "nat \<Rightarrow> 'd cpu \<Rightarrow> qreg" where "qreg_at i c = c_qregs c ! i"

text \<open>The loop that writes \<open>n\<close> lanes of a register from lane \<open>base\<close> on.\<close>
definition set_lanes :: "nat \<Rightarrow> nat \<Rightarrow> nat \<Rightarrow> (nat \<Rightarrow> u64) \<Rightarrow> qreg \<Rightarrow> qreg" where
  "set_lanes esize base n f q = fold (\<lambda>i. vector_set_elem esize (base + i) (f i)) [0..<n] q"

text \<open>The same loop where a lane can saturate: the flag of any of them is kept.\<close>
definition set_lanes_sat :: "nat \<Rightarrow> nat \<Rightarrow> nat \<Rightarrow> (nat \<Rightarrow> u64 \<times> bool) \<Rightarrow> qreg \<Rightarrow> qreg \<times> bool" where
  "set_lanes_sat esize base n f q = (set_lanes esize base n (\<lambda>i. fst (f i)) q, list_ex (\<lambda>i. snd (f i)) [0..<n])"

definition no_match :: "'d handled" where "no_match = None"
definition not_handled :: "'d handled" where "not_handled = Some None"

definition done_with :: "nat \<Rightarrow> qreg \<Rightarrow> 'd cpu \<Rightarrow> 'd handled" where
  "done_with rd q c = Some (Some (set_qreg rd q c))"

definition kFpsrQc :: u64 where "kFpsrQc = push_bit 27 1"

definition done_sat :: "nat \<Rightarrow> qreg \<times> bool \<Rightarrow> 'd cpu \<Rightarrow> 'd handled" where
  "done_sat rd qs c =
    (let c = set_qreg rd (fst qs) c
     in Some (Some (if snd qs then on_sysregs (fp_or_fpsr kFpsrQc) c else c)))"

end
