(* ===== verification/Big_Uint.thy ===== *)
theory Big_Uint
  imports Prelude
begin

text \<open>
  The class \<open>BigUInt\<close> of \<open>src/src/cpu.cpp\<close>: an unsigned integer as a vector of 32-bit limbs, the least
  significant first and no zero limb at the top. The operations are the loops of the source, one limb at
  a time with 64-bit intermediate values; the lemmas show that each computes what it names on the
  natural numbers and keeps the representation normal.
\<close>

type_synonym biguint = "u32 list"

section \<open>Operations\<close>

definition big_of_u64 :: "u64 \<Rightarrow> biguint" where
  "big_of_u64 v =
    (if v = 0 then []
     else let high = ucast (drop_bit 32 v) in if high \<noteq> 0 then [ucast v, high] else [ucast v])"

definition big_is_zero :: "biguint \<Rightarrow> bool" where "big_is_zero xs \<longleftrightarrow> xs = []"

definition big_normalize :: "biguint \<Rightarrow> biguint" where
  "big_normalize xs = rev (dropWhile (\<lambda>x. x = 0) (rev xs))"

text \<open>\<open>std::countl_zero\<close> of the last limb; no caller asks for the index of a zero.\<close>
definition big_msb_index :: "biguint \<Rightarrow> nat" where
  "big_msb_index xs = (length xs - 1) * 32 + (31 - length (takeWhile (\<lambda>i. \<not> bit (last xs) i) (rev [0..<32])))"

fun shift_limbs :: "nat \<Rightarrow> u32 \<Rightarrow> biguint \<Rightarrow> biguint" where
  "shift_limbs b carry [] = [carry]"
| "shift_limbs b carry (x # xs) =
    (let wide = push_bit b (ucast x :: u64) OR ucast carry
     in ucast wide # shift_limbs b (ucast (drop_bit 32 wide)) xs)"

definition big_shift_left :: "nat \<Rightarrow> biguint \<Rightarrow> biguint" where
  "big_shift_left shift xs =
    (if big_is_zero xs \<or> shift = 0 then xs
     else if shift mod 32 = 0 then replicate (shift div 32) 0 @ xs
     else big_normalize (replicate (shift div 32) 0 @ shift_limbs (shift mod 32) 0 xs))"

text \<open>The limbs are compared from the top.\<close>
fun compare_limbs :: "u32 list \<Rightarrow> u32 list \<Rightarrow> int" where
  "compare_limbs (x # xs) (y # ys) = (if x \<noteq> y then (if x < y then -1 else 1) else compare_limbs xs ys)"
| "compare_limbs _ _ = 0"

definition big_compare :: "biguint \<Rightarrow> biguint \<Rightarrow> int" where
  "big_compare xs ys =
    (if length xs \<noteq> length ys then (if length xs < length ys then -1 else 1)
     else compare_limbs (rev xs) (rev ys))"

definition big_less :: "biguint \<Rightarrow> biguint \<Rightarrow> bool" where "big_less xs ys \<longleftrightarrow> big_compare xs ys < 0"

text \<open>A missing limb is a zero; the last carry is a limb of its own.\<close>
fun add_limbs :: "u64 \<Rightarrow> biguint \<Rightarrow> biguint \<Rightarrow> biguint" where
  "add_limbs carry [] [] = [ucast carry]"
| "add_limbs carry (x # xs) [] =
    (let wide = ucast x + 0 + carry in ucast wide # add_limbs (drop_bit 32 wide) xs [])"
| "add_limbs carry [] (y # ys) =
    (let wide = 0 + ucast y + carry in ucast wide # add_limbs (drop_bit 32 wide) [] ys)"
| "add_limbs carry (x # xs) (y # ys) =
    (let wide = ucast x + ucast y + carry in ucast wide # add_limbs (drop_bit 32 wide) xs ys)"

definition big_add :: "biguint \<Rightarrow> biguint \<Rightarrow> biguint" where
  "big_add xs ys = big_normalize (add_limbs 0 xs ys)"

text \<open>The result has the limbs of the left operand, which is not the smaller one.\<close>
fun sub_limbs :: "u64 \<Rightarrow> biguint \<Rightarrow> biguint \<Rightarrow> biguint" where
  "sub_limbs borrow [] ys = []"
| "sub_limbs borrow (x # xs) ys =
    (let lhs = ucast x :: u64; subtrahend = (case ys of [] \<Rightarrow> 0 | y # _ \<Rightarrow> ucast y) + borrow
     in ucast (lhs - subtrahend) # sub_limbs (if lhs < subtrahend then 1 else 0) xs (tl ys))"

definition big_sub :: "biguint \<Rightarrow> biguint \<Rightarrow> biguint" where
  "big_sub xs ys = big_normalize (sub_limbs 0 xs ys)"

text \<open>The carry of a row runs on until it is gone; the product is long enough for it to end.\<close>
fun carry_limbs :: "u64 \<Rightarrow> biguint \<Rightarrow> biguint" where
  "carry_limbs carry [] = []"
| "carry_limbs carry (p # ps) =
    (if carry = 0 then p # ps
     else let wide = ucast p + carry in ucast wide # carry_limbs (drop_bit 32 wide) ps)"

fun mul_row :: "u32 \<Rightarrow> biguint \<Rightarrow> u64 \<Rightarrow> biguint \<Rightarrow> biguint" where
  "mul_row x (y # ys) carry (p # ps) =
    (let wide = ucast x * ucast y + ucast p + carry in ucast wide # mul_row x ys (drop_bit 32 wide) ps)"
| "mul_row x [] carry ps = carry_limbs carry ps"
| "mul_row x (y # ys) carry [] = []"

fun mul_rows :: "biguint \<Rightarrow> biguint \<Rightarrow> biguint \<Rightarrow> biguint" where
  "mul_rows [] ys ps = ps"
| "mul_rows (x # xs) ys ps =
    (case mul_row x ys 0 ps of [] \<Rightarrow> [] | q # qs \<Rightarrow> q # mul_rows xs ys qs)"

definition big_mul :: "biguint \<Rightarrow> biguint \<Rightarrow> biguint" where
  "big_mul xs ys =
    (if big_is_zero xs \<or> big_is_zero ys then []
     else big_normalize (mul_rows xs ys (replicate (length xs + length ys) 0)))"

section \<open>The number a vector stands for\<close>

fun big_val :: "biguint \<Rightarrow> nat" where
  "big_val [] = 0"
| "big_val (x # xs) = unat x + 2 ^ 32 * big_val xs"

definition big_wf :: "biguint \<Rightarrow> bool" where "big_wf xs \<longleftrightarrow> xs = [] \<or> last xs \<noteq> 0"

lemma big_val_append: "big_val (xs @ ys) = big_val xs + 2 ^ (32 * length xs) * big_val ys"
  by (induction xs) (simp_all add: power_add algebra_simps)

lemma big_val_replicate [simp]: "big_val (replicate n 0) = 0"
  by (induction n) simp_all

lemma big_val_bound: "big_val xs < 2 ^ (32 * length xs)"
proof (induction xs)
  case Nil
  then show ?case by simp
next
  case (Cons x xs)
  have x: "unat x < 2 ^ 32" using unat_less_u32 [of x] by simp
  have "unat x + 2 ^ 32 * big_val xs < 2 ^ 32 + 2 ^ 32 * big_val xs" using x by simp
  also have "\<dots> = 2 ^ 32 * Suc (big_val xs)" by simp
  also have "\<dots> \<le> 2 ^ 32 * 2 ^ (32 * length xs)"
    by (rule mult_le_mono2) (use Cons in simp)
  finally show ?case by (simp add: power_add)
qed

lemma big_val_normalize [simp]: "big_val (big_normalize xs) = big_val xs"
proof (induction xs rule: rev_induct)
  case Nil
  then show ?case by (simp add: big_normalize_def)
next
  case (snoc x xs)
  then show ?case by (simp add: big_normalize_def big_val_append)
qed

lemma big_wf_normalize [simp]: "big_wf (big_normalize xs)"
proof (induction xs rule: rev_induct)
  case Nil
  then show ?case by (simp add: big_normalize_def big_wf_def)
next
  case (snoc x xs)
  then show ?case by (simp add: big_normalize_def big_wf_def)
qed

lemma big_val_zero_iff: "big_wf xs \<Longrightarrow> big_val xs = 0 \<longleftrightarrow> xs = []"
proof (induction xs)
  case Nil
  then show ?case by simp
next
  case (Cons x xs)
  show ?case
  proof (cases "xs = []")
    case True
    then show ?thesis using Cons.prems by (simp add: big_wf_def unat_eq_0)
  next
    case False
    then show ?thesis using Cons by (simp add: big_wf_def)
  qed
qed

text \<open>The top limb of a normal vector bounds its value from below.\<close>
lemma big_val_lower: "big_wf xs \<Longrightarrow> xs \<noteq> [] \<Longrightarrow> 2 ^ (32 * (length xs - 1)) \<le> big_val xs"
proof (induction xs rule: rev_induct)
  case Nil
  then show ?case by simp
next
  case (snoc x xs)
  then have "1 \<le> unat x" by (simp add: big_wf_def unat_gt_0 Suc_le_eq)
  then have "2 ^ (32 * length xs) * 1 \<le> 2 ^ (32 * length xs) * unat x" by (rule mult_le_mono2)
  then show ?case by (simp add: big_val_append trans_le_add2)
qed

section \<open>Correctness\<close>

lemma unat_high_limb: "unat (drop_bit 32 (w :: u64)) = unat w div 2 ^ 32"
proof -
  have "unat (drop_bit 32 w) = drop_bit 32 (unat w)"
    using unat_less_u64 [of w] by (simp only: unsigned_drop_bit_eq) (simp add: take_bit_nat_eq_self)
  then show ?thesis by (simp only: drop_bit_eq_div)
qed

lemma unat_low_limb: "unat (ucast (w :: u64) :: u32) = unat w mod 2 ^ 32"
  by (simp add: unsigned_ucast_eq take_bit_eq_mod)

lemma wide_split:
  fixes w :: u64
  shows "unat (ucast w :: u32) + 2 ^ 32 * unat (drop_bit 32 w) = unat w"
  unfolding unat_high_limb unat_low_limb by (rule mod_mult_div_eq)

lemma drop_bit_lt_limb: "unat (drop_bit 32 (w :: u64)) < 2 ^ 32"
  unfolding unat_high_limb using unat_less_u64 [of w] by (simp add: less_mult_imp_div_less)

theorem big_of_u64_val: "big_val (big_of_u64 v) = unat v \<and> big_wf (big_of_u64 v)"
proof -
  have hi: "unat (ucast (drop_bit 32 v) :: u32) = unat (drop_bit 32 v)"
    using drop_bit_lt_limb [of v] by (simp add: unsigned_ucast_eq take_bit_nat_eq_self)
  have "unat v = unat (ucast v :: u32) + 2 ^ 32 * unat (drop_bit 32 v)" by (simp only: wide_split)
  then show ?thesis
    using hi by (auto simp: big_of_u64_def Let_def big_wf_def unat_eq_0 simp flip: unat_eq_0)
qed

lemma add_wide:
  fixes c :: u64
  assumes "a < 2 ^ 32" "b < 2 ^ 32" "unat c \<le> 1" "unat x = a" "unat y = b"
  shows "unat (x + y + c :: u64) = a + b + unat c" "unat (drop_bit 32 (x + y + c)) \<le> 1"
proof -
  have "a + b + unat c < 2 ^ 64" using assms by simp
  then show s: "unat (x + y + c) = a + b + unat c"
    using assms by (simp add: unat_word_ariths)
  show "unat (drop_bit 32 (x + y + c)) \<le> 1"
    unfolding unat_high_limb s using assms by simp
qed

lemma add_limbs_val: "unat c \<le> 1 \<Longrightarrow> big_val (add_limbs c xs ys) = big_val xs + big_val ys + unat c"
proof (induction c xs ys rule: add_limbs.induct)
  case (1 c)
  then show ?case by (simp add: unsigned_ucast_eq take_bit_nat_eq_self)
next
  case (2 c x xs)
  note w = add_wide [OF unat_less_u32 [of x], of 0 c "ucast x" 0]
  show ?case using 2 w wide_split [of "ucast x + 0 + c"] by (simp add: Let_def)
next
  case (3 c y ys)
  note w = add_wide [of 0 "unat y" c 0 "ucast y"]
  show ?case using 3 w wide_split [of "0 + ucast y + c"] unat_less_u32 [of y] by (simp add: Let_def)
next
  case (4 c x xs y ys)
  note w = add_wide [OF unat_less_u32 [of x] unat_less_u32 [of y] 4(2), of "ucast x" "ucast y"]
  show ?case using 4 w wide_split [of "ucast x + ucast y + c"] by (simp add: Let_def)
qed

theorem big_add_val: "big_val (big_add xs ys) = big_val xs + big_val ys \<and> big_wf (big_add xs ys)"
  by (simp add: big_add_def add_limbs_val)

lemma sub_step:
  fixes l s :: u64
  assumes "unat l < 2 ^ 32" "unat s \<le> 2 ^ 32"
  shows "unat (ucast (l - s) :: u32) + unat s = unat l + (if l < s then 2 ^ 32 else 0)"
proof (cases "l < s")
  case False
  then have "unat (l - s) = unat l - unat s" "unat s \<le> unat l"
    by (simp_all add: unat_sub word_le_nat_alt not_less)
  then show ?thesis using False assms by (simp add: unat_low_limb)
next
  case True
  then have lt: "unat l < unat s" by (simp add: word_less_nat_alt)
  have "unat (l - s) = 2 ^ 64 + unat l - unat s"
    using True lt unat_less_u64 [of s] by (simp add: unat_sub_if_size word_size not_le word_less_nat_alt)
  also have "\<dots> = (2 ^ 32 + unat l - unat s) + 2 ^ 32 * (2 ^ 32 - 1)" using lt assms by simp
  finally have "unat (ucast (l - s) :: u32) = (2 ^ 32 + unat l - unat s) mod 2 ^ 32"
    unfolding unat_low_limb by (simp only: mod_mult_self2)
  also have "\<dots> = 2 ^ 32 + unat l - unat s" using lt assms by simp
  finally show ?thesis using True lt assms by simp
qed

lemma sub_limbs_val:
  "unat b \<le> 1 \<Longrightarrow> length ys \<le> length xs \<Longrightarrow>
    \<exists>k. big_val (sub_limbs b xs ys) + big_val ys + unat b = big_val xs + k * 2 ^ (32 * length xs)"
proof (induction b xs ys rule: sub_limbs.induct)
  case (1 b ys)
  then show ?case by simp
next
  case (2 b x xs ys)
  define y where "y = (case ys of [] \<Rightarrow> 0 | y # _ \<Rightarrow> y)"
  define s where "s = (ucast y + b :: u64)"
  have s': "(case ys of [] \<Rightarrow> 0 | y # _ \<Rightarrow> ucast y) + b = s" by (simp add: s_def y_def split: list.splits)
  have us: "unat s = unat y + unat b"
    unfolding s_def using 2(2) unat_less_u32 [of y] by (subst unat_plus_no_wrap) simp_all
  have vy: "big_val ys = unat y + 2 ^ 32 * big_val (tl ys)" by (simp add: y_def split: list.splits)
  have le1: "unat (if q then 1 else 0 :: u64) \<le> 1" for q by simp
  have le: "unat s \<le> 2 ^ 32" using us 2(2) unat_less_u32 [of y] by simp
  obtain k where k: "big_val (sub_limbs (if (ucast x :: u64) < s then 1 else 0) xs (tl ys)) + big_val (tl ys) +
      unat (if (ucast x :: u64) < s then 1 else 0 :: u64) = big_val xs + k * 2 ^ (32 * length xs)"
    using 2(1) [of "ucast x" s] 2(3) s' le1 by (cases ys) (simp_all only: list.simps list.sel list.size, auto)
  have cons: "sub_limbs b (x # xs) ys =
      ucast (ucast x - s) # sub_limbs (if (ucast x :: u64) < s then 1 else 0) xs (tl ys)"
    by (simp only: sub_limbs.simps Let_def s')
  have st: "unat (ucast (ucast x - s) :: u32) + unat s = unat x + (if (ucast x :: u64) < s then 2 ^ 32 else 0)"
    using sub_step [of "ucast x" s] le unat_less_u32 [of x] by simp
  have "big_val (sub_limbs b (x # xs) ys) + big_val ys + unat b =
      (unat (ucast (ucast x - s) :: u32) + unat s) + 2 ^ 32 *
        (big_val (sub_limbs (if (ucast x :: u64) < s then 1 else 0) xs (tl ys)) + big_val (tl ys))"
    unfolding vy cons big_val.simps us by (simp only: distrib_left ac_simps)
  also have "\<dots> = unat x + 2 ^ 32 * (big_val xs + k * 2 ^ (32 * length xs))"
    unfolding st k [symmetric] by (simp add: algebra_simps)
  also have "\<dots> = big_val (x # xs) + k * 2 ^ (32 * length (x # xs))"
    by (simp add: algebra_simps power_add)
  finally show ?case by blast
qed

lemma length_sub_limbs [simp]: "length (sub_limbs b xs ys) = length xs"
  by (induction b xs ys rule: sub_limbs.induct) (simp_all add: Let_def)

theorem big_sub_val:
  assumes "length ys \<le> length xs" "big_val ys \<le> big_val xs"
  shows "big_val (big_sub xs ys) = big_val xs - big_val ys \<and> big_wf (big_sub xs ys)"
proof -
  obtain k where k: "big_val (sub_limbs 0 xs ys) + big_val ys = big_val xs + k * 2 ^ (32 * length xs)"
    using sub_limbs_val [of 0 ys xs] assms(1) by auto
  have "big_val (sub_limbs 0 xs ys) < 2 ^ (32 * length xs)"
    using big_val_bound [of "sub_limbs 0 xs ys"] by simp
  then have "k * 2 ^ (32 * length xs) < 1 * 2 ^ (32 * length xs)" using k assms(2) by linarith
  then have "k = 0" by (simp only: mult_less_cancel2) simp
  then show ?thesis using k by (simp add: big_sub_def)
qed

lemma shift_wide:
  fixes x c :: u32
  assumes "b < 32" "unat c < 2 ^ b"
  shows "unat (push_bit b (ucast x :: u64) OR ucast c) = 2 ^ b * unat x + unat c"
proof -
  have lt: "unat x * 2 ^ b < 2 ^ 32 * 2 ^ b" using unat_less_u32 [of x] by simp
  also have "\<dots> = (2 :: nat) ^ (32 + b)" by (simp only: power_add)
  also have "\<dots> \<le> 2 ^ 64" by (rule power_increasing) (use assms in simp_all)
  finally have lt: "unat x * 2 ^ b < 2 ^ 64" .
  have p: "unat (push_bit b (ucast x :: u64)) = unat x * 2 ^ b"
    using lt by (simp only: unsigned_push_bit_eq unat_ucast_u32) (simp add: take_bit_nat_eq_self push_bit_eq_mult)
  have z: "push_bit b (ucast x :: u64) AND ucast c = 0"
  proof (rule bit_eqI)
    fix n
    show "bit (push_bit b (ucast x :: u64) AND ucast c) n = bit (0 :: u64) n"
    proof (cases "n < b")
      case True
      then show ?thesis by (simp add: bit_simps)
    next
      case False
      have "\<not> bit c n"
      proof
        assume "bit c n"
        then have "bit (unat c) n" by (simp add: bit_unsigned_iff)
        then have "2 ^ n \<le> unat c" by - (rule ccontr, simp add: bit_iff_odd not_le)
        moreover have "(2 :: nat) ^ b \<le> 2 ^ n" using False by (intro power_increasing) simp_all
        ultimately show False using assms(2) by simp
      qed
      then show ?thesis by (simp add: bit_simps)
    qed
  qed
  have "unat (push_bit b (ucast x :: u64) + ucast c) = unat x * 2 ^ b + unat c"
  proof -
    have "(unat x + 1) * 2 ^ b \<le> 2 ^ 32 * 2 ^ b"
      by (rule mult_le_mono1) (use unat_less_u32 [of x] in simp)
    also have "\<dots> = (2 :: nat) ^ (32 + b)" by (simp only: power_add)
    also have "\<dots> \<le> 2 ^ 63" by (rule power_increasing) (use assms in simp_all)
    finally have "unat x * 2 ^ b + 2 ^ b \<le> 2 ^ 63" by (simp only: distrib_right mult_1)
    moreover have "(2 :: nat) ^ 63 < 2 ^ 64" by simp
    ultimately have "unat x * 2 ^ b + unat c < 2 ^ 64" using assms(2) by linarith
    then show ?thesis by (subst unat_plus_no_wrap) (simp_all add: p)
  qed
  then show ?thesis
    using word_plus_and_or [of "push_bit b (ucast x :: u64)" "ucast c"] z by (simp add: mult.commute)
qed

lemma shift_limbs_val:
  "0 < b \<Longrightarrow> b < 32 \<Longrightarrow> unat c < 2 ^ b \<Longrightarrow> big_val (shift_limbs b c xs) = 2 ^ b * big_val xs + unat c"
proof (induction b c xs rule: shift_limbs.induct)
  case (1 b c)
  then show ?case by simp
next
  case (2 b c x xs)
  define w where "w = push_bit b (ucast x :: u64) OR ucast c"
  have uw: "unat w = 2 ^ b * unat x + unat c" unfolding w_def using 2 by (intro shift_wide)
  have "unat w < 2 ^ b * 2 ^ 32"
  proof -
    have "2 ^ b * (unat x + 1) \<le> 2 ^ b * 2 ^ 32" by (rule mult_le_mono2) (use unat_less_u32 [of x] in simp)
    then show ?thesis using uw 2(4) by (simp only: distrib_left mult_1_right)
  qed
  then have hi: "unat (drop_bit 32 w) < 2 ^ b"
    unfolding unat_high_limb by (simp add: less_mult_imp_div_less)
  have "unat (ucast (drop_bit 32 w) :: u32) = unat (drop_bit 32 w)"
    using drop_bit_lt_limb by (rule unat_ucast_u64_small)
  then show ?case
    using 2(1) [OF w_def] 2 hi uw wide_split [of w] by (simp add: w_def [symmetric] Let_def algebra_simps)
qed

theorem big_shift_left_val:
  assumes "big_wf xs"
  shows "big_val (big_shift_left n xs) = 2 ^ n * big_val xs \<and> big_wf (big_shift_left n xs)"
proof (cases "xs = [] \<or> n = 0")
  case True
  then show ?thesis using assms by (auto simp: big_shift_left_def big_is_zero_def)
next
  case False
  have n: "(2 :: nat) ^ n = 2 ^ (32 * (n div 32)) * 2 ^ (n mod 32)"
    by (simp only: power_add [symmetric] mult_div_mod_eq)
  show ?thesis
  proof (cases "n mod 32 = 0")
    case True
    then show ?thesis using False assms n
      by (auto simp: big_shift_left_def big_is_zero_def big_val_append big_wf_def)
  next
    case nz: False
    then show ?thesis using False n
      by (simp add: big_shift_left_def big_is_zero_def big_val_append shift_limbs_val)
  qed
qed

lemma compare_limbs_val:
  "length xs = length ys \<Longrightarrow>
    compare_limbs xs ys = sgn (int (big_val (rev xs)) - int (big_val (rev ys)))"
proof (induction xs ys rule: list_induct2)
  case Nil
  then show ?case by simp
next
  case (Cons x xs y ys)
  define P where "P = (2 :: nat) ^ (32 * length ys)"
  have b: "big_val (rev xs) < P" "big_val (rev ys) < P"
    using big_val_bound [of "rev xs"] big_val_bound [of "rev ys"] Cons by (simp_all add: P_def)
  have v: "big_val (rev (x # xs)) = big_val (rev xs) + P * unat x"
      "big_val (rev (y # ys)) = big_val (rev ys) + P * unat y"
    using Cons(1) by (simp_all add: big_val_append P_def)
  have less: "big_val (rev xs) + P * unat a < big_val (rev ys) + P * unat b'"
      "big_val (rev ys) + P * unat a < big_val (rev xs) + P * unat b'"
    if "unat a < unat b'" for a b' :: u32
  proof -
    have "P * (unat a + 1) \<le> P * unat b'" by (rule mult_le_mono2) (use that in simp)
    then show "big_val (rev xs) + P * unat a < big_val (rev ys) + P * unat b'"
        "big_val (rev ys) + P * unat a < big_val (rev xs) + P * unat b'"
      using b by (simp_all only: distrib_left mult_1_right)
  qed
  consider "x = y" | "unat x < unat y" | "unat y < unat x"
    by (metis linorder_neqE_nat unsigned_word_eqI)
  then show ?case
  proof cases
    case 1
    then show ?thesis using Cons v by simp
  next
    case 2
    then have "big_val (rev (x # xs)) < big_val (rev (y # ys))" unfolding v by (rule less)
    then have "sgn (int (big_val (rev (x # xs))) - int (big_val (rev (y # ys)))) = -1" by (simp only: sgn_if) simp
    then show ?thesis using 2 by (simp only: compare_limbs.simps) (auto simp: word_less_nat_alt)
  next
    case 3
    then have "big_val (rev (y # ys)) < big_val (rev (x # xs))" unfolding v by (rule less)
    then have "sgn (int (big_val (rev (x # xs))) - int (big_val (rev (y # ys)))) = 1" by (simp only: sgn_if) simp
    then show ?thesis using 3 by (simp only: compare_limbs.simps) (auto simp: word_less_nat_alt)
  qed
qed

theorem big_compare_val:
  assumes "big_wf xs" "big_wf ys"
  shows "big_compare xs ys = sgn (int (big_val xs) - int (big_val ys))"
proof -
  have lt: "big_val as < big_val bs" if "length as < length bs" "big_wf bs" for as bs
  proof -
    have "big_val as < 2 ^ (32 * length as)" by (rule big_val_bound)
    also have "\<dots> \<le> 2 ^ (32 * (length bs - 1))" by (rule power_increasing) (use that in auto)
    also have "\<dots> \<le> big_val bs" by (rule big_val_lower) (use that in auto)
    finally show ?thesis .
  qed
  show ?thesis
    using lt [of xs ys] lt [of ys xs] assms compare_limbs_val [of "rev xs" "rev ys"]
    by (auto simp: big_compare_def)
qed

lemma big_less_val: "big_wf xs \<Longrightarrow> big_wf ys \<Longrightarrow> big_less xs ys \<longleftrightarrow> big_val xs < big_val ys"
  by (simp add: big_less_def big_compare_val sgn_if)

lemma carry_limbs_val:
  "unat c < 2 ^ 32 \<Longrightarrow> big_val ps + unat c < 2 ^ (32 * length ps) \<Longrightarrow>
    big_val (carry_limbs c ps) = big_val ps + unat c \<and> length (carry_limbs c ps) = length ps"
proof (induction c ps rule: carry_limbs.induct)
  case (1 c)
  then show ?case by simp
next
  case (2 c p ps)
  show ?case
  proof (cases "c = 0")
    case True
    then show ?thesis by simp
  next
    case False
    define w where "w = (ucast p + c :: u64)"
    have w: "unat w = unat p + unat c"
      unfolding w_def using 2(2) unat_less_u32 [of p] by (subst unat_plus_no_wrap) simp_all
    have hi: "unat (drop_bit 32 w) < 2 ^ 32" by (rule drop_bit_lt_limb)
    have sum: "unat (ucast w :: u32) + 2 ^ 32 * (big_val ps + unat (drop_bit 32 w)) = big_val (p # ps) + unat c"
      using w wide_split [of w] by (simp add: distrib_left)
    have "2 ^ 32 * (big_val ps + unat (drop_bit 32 w)) < 2 ^ 32 * 2 ^ (32 * length ps)"
      using 2(3) sum by (simp add: power_add)
    then have "big_val ps + unat (drop_bit 32 w) < 2 ^ (32 * length ps)" by simp
    then show ?thesis using 2(1) [OF False w_def] hi False sum
      by (simp add: w_def [symmetric] Let_def)
  qed
qed

lemma mul_wide:
  fixes x y p :: u32 and c :: u64
  assumes "unat c < 2 ^ 32"
  shows "unat (ucast x * ucast y + ucast p + c :: u64) = unat x * unat y + unat p + unat c"
proof -
  have "unat x * unat y \<le> (2 ^ 32 - 1) * (2 ^ 32 - 1)"
    by (rule mult_le_mono) (use unat_less_u32 [of x] unat_less_u32 [of y] in simp_all)
  then have "unat x * unat y + unat p + unat c < 2 ^ 64" using assms unat_less_u32 [of p] by simp
  then show ?thesis by (simp add: unat_word_ariths)
qed

lemma mul_row_val:
  "unat c < 2 ^ 32 \<Longrightarrow> unat x * big_val ys + big_val ps + unat c < 2 ^ (32 * length ps) \<Longrightarrow> length ys \<le> length ps \<Longrightarrow>
    big_val (mul_row x ys c ps) = unat x * big_val ys + big_val ps + unat c \<and> length (mul_row x ys c ps) = length ps"
proof (induction x ys c ps rule: mul_row.induct)
  case (1 x y ys c p ps)
  define w where "w = (ucast x * ucast y + ucast p + c :: u64)"
  have w: "unat w = unat x * unat y + unat p + unat c" unfolding w_def using 1(2) by (rule mul_wide)
  have hi: "unat (drop_bit 32 w) < 2 ^ 32" by (rule drop_bit_lt_limb)
  have sum: "unat (ucast w :: u32) + 2 ^ 32 * (unat x * big_val ys + big_val ps + unat (drop_bit 32 w)) =
      unat x * big_val (y # ys) + big_val (p # ps) + unat c"
    using w wide_split [of w] by (simp add: distrib_left algebra_simps)
  have "2 ^ 32 * (unat x * big_val ys + big_val ps + unat (drop_bit 32 w)) < 2 ^ 32 * 2 ^ (32 * length ps)"
    using 1(3) sum by (simp add: power_add)
  then have "unat x * big_val ys + big_val ps + unat (drop_bit 32 w) < 2 ^ (32 * length ps)" by simp
  then show ?case using 1(1) [OF w_def] 1(4) hi sum by (simp add: w_def [symmetric] Let_def)
next
  case (2 x c ps)
  then show ?case by (simp add: carry_limbs_val)
next
  case (3 x y ys c)
  then show ?case by simp
qed

lemma mul_rows_val:
  "length ps = length xs + length ys \<Longrightarrow> big_val ps < 2 ^ (32 * length ys) \<Longrightarrow>
    big_val (mul_rows xs ys ps) = big_val xs * big_val ys + big_val ps"
proof (induction xs ys ps rule: mul_rows.induct)
  case (1 ys ps)
  then show ?case by simp
next
  case (2 x xs ys ps)
  define P where "P = (2 :: nat) ^ (32 * length ys)"
  have vy: "big_val ys + 1 \<le> P" using big_val_bound [of ys] by (simp add: P_def)
  have "unat x * big_val ys + big_val ps + 1 \<le> unat x * big_val ys + P" using 2(3) by (simp add: P_def)
  also have "\<dots> \<le> unat x * P + P" using vy by simp
  also have "\<dots> \<le> 2 ^ 32 * P"
    using mult_le_mono1 [of "unat x + 1" "2 ^ 32" P] unat_less_u32 [of x] by (simp add: Suc_le_eq)
  finally have less: "unat x * big_val ys + big_val ps < 2 ^ 32 * P" by simp
  also have "\<dots> = 2 ^ (32 * (length ys + 1))" by (simp add: P_def power_add)
  also have "\<dots> \<le> 2 ^ (32 * length ps)" by (rule power_increasing) (use 2(2) in simp_all)
  finally have row: "big_val (mul_row x ys 0 ps) = unat x * big_val ys + big_val ps"
      "length (mul_row x ys 0 ps) = length ps"
    using mul_row_val [of 0 x ys ps] 2(2) by simp_all
  then obtain q qs where q: "mul_row x ys 0 ps = q # qs" using 2(2) by (cases "mul_row x ys 0 ps") auto
  have "2 ^ 32 * big_val qs < 2 ^ 32 * P" using row less q by simp
  then have "big_val qs < P" by simp
  then have "big_val (mul_rows xs ys qs) = big_val xs * big_val ys + big_val qs"
    using 2(1) [OF q] row q 2(2) by (simp add: P_def)
  then show ?case using q row by (simp add: algebra_simps)
qed

theorem big_mul_val: "big_val (big_mul xs ys) = big_val xs * big_val ys \<and> big_wf (big_mul xs ys)"
proof (cases "xs = [] \<or> ys = []")
  case True
  then show ?thesis by (auto simp: big_mul_def big_is_zero_def big_wf_def)
next
  case False
  then show ?thesis
    using mul_rows_val [of "replicate (length xs + length ys) 0" xs ys]
    by (simp add: big_mul_def big_is_zero_def)
qed

end
