(* ===== verification/Cpu_Fp_Format.thy ===== *)
theory Cpu_Fp_Format
  imports Big_Uint
begin

text \<open>
  The floating-point formats of \<open>src/src/cpu.cpp\<close>: the templates over the unsigned type of 16, 32 or 64
  bits that holds a value, with the fields, the classes of values, the modes of FPCR and the bits of
  FPSR. A template parameter is the width of the word; a template with no argument takes the type.
\<close>

section \<open>Modes and flags\<close>

definition kFpsrIoc :: u64 where "kFpsrIoc = 1"
definition kFpsrDzc :: u64 where "kFpsrDzc = 2"
definition kFpsrOfc :: u64 where "kFpsrOfc = 4"
definition kFpsrUfc :: u64 where "kFpsrUfc = 8"
definition kFpsrIxc :: u64 where "kFpsrIxc = 16"
definition kFpsrIdc :: u64 where "kFpsrIdc = 128"

datatype fp_to_int_rounding_mode = TieEven | PosInf | NegInf | RoundZero | TieAway

datatype host_rounding = FE_TONEAREST | FE_UPWARD | FE_DOWNWARD | FE_TOWARDZERO

definition fpcr_rounding_mode_to_host :: "u32 \<Rightarrow> host_rounding" where
  "fpcr_rounding_mode_to_host fpcr_mode =
    (let m = fpcr_mode AND 0x3
     in if m = 0 then FE_TONEAREST else if m = 1 then FE_UPWARD else if m = 2 then FE_DOWNWARD else FE_TOWARDZERO)"

definition kFpcrCtlDn :: u32 where "kFpcrCtlDn = push_bit 2 1"
definition kFpcrCtlFz :: u32 where "kFpcrCtlFz = push_bit 3 1"
definition kFpcrCtlAhp :: u32 where "kFpcrCtlAhp = push_bit 4 1"

definition fpcr_default_nan_enabled :: "u32 \<Rightarrow> bool" where
  "fpcr_default_nan_enabled fpcr_mode \<longleftrightarrow> fpcr_mode AND kFpcrCtlDn \<noteq> 0"

definition fpcr_flush_to_zero_enabled :: "u32 \<Rightarrow> bool" where
  "fpcr_flush_to_zero_enabled fpcr_mode \<longleftrightarrow> fpcr_mode AND kFpcrCtlFz \<noteq> 0"

definition fpcr_alternative_half_enabled :: "u32 \<Rightarrow> bool" where
  "fpcr_alternative_half_enabled fpcr_mode \<longleftrightarrow> fpcr_mode AND kFpcrCtlAhp \<noteq> 0"

section \<open>Fields\<close>

definition fp_sign_mask_bits :: "'a::len word" where
  "fp_sign_mask_bits =
    (if LENGTH('a) = 16 then 0x8000 else if LENGTH('a) = 32 then 0x80000000 else 0x8000000000000000)"

definition fp_exp_mask_bits :: "'a::len word" where
  "fp_exp_mask_bits =
    (if LENGTH('a) = 16 then 0x7C00 else if LENGTH('a) = 32 then 0x7F800000 else 0x7FF0000000000000)"

definition fp_frac_mask_bits :: "'a::len word" where
  "fp_frac_mask_bits =
    (if LENGTH('a) = 16 then 0x03FF else if LENGTH('a) = 32 then 0x007FFFFF else 0x000FFFFFFFFFFFFF)"

definition fp_frac_bits_count :: "'a::len itself \<Rightarrow> nat" where
  "fp_frac_bits_count _ = (if LENGTH('a) = 16 then 10 else if LENGTH('a) = 32 then 23 else 52)"

definition fp_exp_bits_count :: "'a::len itself \<Rightarrow> nat" where
  "fp_exp_bits_count _ = (if LENGTH('a) = 16 then 5 else if LENGTH('a) = 32 then 8 else 11)"

definition fp_exp_bias :: "'a::len itself \<Rightarrow> int" where
  "fp_exp_bias _ = (if LENGTH('a) = 16 then 15 else if LENGTH('a) = 32 then 127 else 1023)"

definition fp_quiet_nan_bit :: "'a::len word" where
  "fp_quiet_nan_bit =
    (if LENGTH('a) = 16 then 0x0200 else if LENGTH('a) = 32 then 0x00400000 else 0x0008000000000000)"

definition fp_quiet_nan_bits :: "'a::len word \<Rightarrow> 'a word" where "fp_quiet_nan_bits b = b OR fp_quiet_nan_bit"
definition fp_default_nan_bits :: "'a::len word" where "fp_default_nan_bits = fp_exp_mask_bits OR fp_quiet_nan_bit"

section \<open>Classes\<close>

definition fp_is_nan_bits :: "'a::len word \<Rightarrow> bool" where
  "fp_is_nan_bits b \<longleftrightarrow> b AND fp_exp_mask_bits = fp_exp_mask_bits \<and> b AND fp_frac_mask_bits \<noteq> 0"

definition fp_is_signaling_nan_bits :: "'a::len word \<Rightarrow> bool" where
  "fp_is_signaling_nan_bits b \<longleftrightarrow> fp_is_nan_bits b \<and> b AND fp_quiet_nan_bit = 0"

definition fp_is_inf_bits :: "'a::len word \<Rightarrow> bool" where
  "fp_is_inf_bits b \<longleftrightarrow> b AND fp_exp_mask_bits = fp_exp_mask_bits \<and> b AND fp_frac_mask_bits = 0"

definition fp_is_subnormal_bits :: "'a::len word \<Rightarrow> bool" where
  "fp_is_subnormal_bits b \<longleftrightarrow> b AND fp_exp_mask_bits = 0 \<and> b AND fp_frac_mask_bits \<noteq> 0"

definition fp_is_negative :: "'a::len word \<Rightarrow> bool" where "fp_is_negative b \<longleftrightarrow> b AND fp_sign_mask_bits \<noteq> 0"
definition fp_is_zero :: "'a::len word \<Rightarrow> bool" where "fp_is_zero b \<longleftrightarrow> b AND NOT fp_sign_mask_bits = 0"

definition fp_inf_bits :: "bool \<Rightarrow> 'a::len word" where
  "fp_inf_bits sign = (if sign then fp_sign_mask_bits else 0) OR fp_exp_mask_bits"

definition fp_zero_bits :: "bool \<Rightarrow> 'a::len word" where
  "fp_zero_bits sign = (if sign then fp_sign_mask_bits else 0)"

definition fp_abs_bits :: "'a::len word \<Rightarrow> 'a word" where "fp_abs_bits b = b AND NOT fp_sign_mask_bits"
definition fp_neg_bits :: "'a::len word \<Rightarrow> 'a word" where "fp_neg_bits b = b XOR fp_sign_mask_bits"

definition fp_max_normal_bits :: "bool \<Rightarrow> 'a::len word" where
  "fp_max_normal_bits sign =
    (if LENGTH('a) = 32 then (if sign then 0x80000000 else 0) OR 0x7F7FFFFF
     else (if sign then 0x8000000000000000 else 0) OR 0x7FEFFFFFFFFFFFFF)"

definition fp_two_bits :: "'a::len word" where
  "fp_two_bits = (if LENGTH('a) = 32 then 0x40000000 else 0x4000000000000000)"

definition fp_one_point_five_bits :: "'a::len word" where
  "fp_one_point_five_bits = (if LENGTH('a) = 32 then 0x3FC00000 else 0x3FF8000000000000)"

text \<open>The exponent and fraction fields, shifted down.\<close>
definition fp_exp_field :: "'a::len word \<Rightarrow> 'a word" where
  "fp_exp_field b = drop_bit (fp_frac_bits_count TYPE('a)) (b AND fp_exp_mask_bits)"

definition fp_frac_field :: "'a::len word \<Rightarrow> 'a word" where "fp_frac_field b = b AND fp_frac_mask_bits"

section \<open>NaN operands\<close>

text \<open>The FPSR bits, a reference parameter of the source, are the second result.\<close>
definition fp_process_nan_operand_bits :: "'a::len word \<Rightarrow> u32 \<Rightarrow> bool \<Rightarrow> u64 \<Rightarrow> 'a word \<times> u64" where
  "fp_process_nan_operand_bits b fpcr_mode raise_invalid fpsr =
    (if fp_is_signaling_nan_bits b then
       (if fpcr_default_nan_enabled fpcr_mode then fp_default_nan_bits else fp_quiet_nan_bits b,
        if raise_invalid then fpsr OR kFpsrIoc else fpsr)
     else if fp_is_nan_bits b then
       (if fpcr_default_nan_enabled fpcr_mode then fp_default_nan_bits else b, fpsr)
     else (b, fpsr))"

definition fp_process_nan_unary :: "'a::len word \<Rightarrow> u32 \<Rightarrow> bool \<Rightarrow> u64 \<Rightarrow> ('a word \<times> u64) option" where
  "fp_process_nan_unary b fpcr_mode raise_invalid fpsr =
    (if \<not> fp_is_nan_bits b then None else Some (fp_process_nan_operand_bits b fpcr_mode raise_invalid fpsr))"

definition fp_process_nan_binary :: "'a::len word \<Rightarrow> 'a word \<Rightarrow> u32 \<Rightarrow> u64 \<Rightarrow> ('a word \<times> u64) option" where
  "fp_process_nan_binary lhs rhs fpcr_mode fpsr =
    (if fp_is_signaling_nan_bits lhs then Some (fp_process_nan_operand_bits lhs fpcr_mode True fpsr)
     else if fp_is_signaling_nan_bits rhs then Some (fp_process_nan_operand_bits rhs fpcr_mode True fpsr)
     else if fp_is_nan_bits lhs then Some (fp_process_nan_operand_bits lhs fpcr_mode False fpsr)
     else if fp_is_nan_bits rhs then Some (fp_process_nan_operand_bits rhs fpcr_mode False fpsr)
     else None)"

definition fp_process_nan_ternary ::
  "'a::len word \<Rightarrow> 'a word \<Rightarrow> 'a word \<Rightarrow> u32 \<Rightarrow> u64 \<Rightarrow> ('a word \<times> u64) option" where
  "fp_process_nan_ternary op1 op2 op3 fpcr_mode fpsr =
    (if fp_is_signaling_nan_bits op1 then Some (fp_process_nan_operand_bits op1 fpcr_mode True fpsr)
     else if fp_is_signaling_nan_bits op2 then Some (fp_process_nan_operand_bits op2 fpcr_mode True fpsr)
     else if fp_is_signaling_nan_bits op3 then Some (fp_process_nan_operand_bits op3 fpcr_mode True fpsr)
     else if fp_is_nan_bits op1 then Some (fp_process_nan_operand_bits op1 fpcr_mode False fpsr)
     else if fp_is_nan_bits op2 then Some (fp_process_nan_operand_bits op2 fpcr_mode False fpsr)
     else if fp_is_nan_bits op3 then Some (fp_process_nan_operand_bits op3 fpcr_mode False fpsr)
     else None)"

definition fp_compare_fpsr_bits :: "'a::len word \<Rightarrow> 'a word \<Rightarrow> bool \<Rightarrow> u64" where
  "fp_compare_fpsr_bits lhs rhs signaling_compare =
    (if fp_is_signaling_nan_bits lhs \<or> fp_is_signaling_nan_bits rhs \<or>
        signaling_compare \<and> (fp_is_nan_bits lhs \<or> fp_is_nan_bits rhs)
     then kFpsrIoc else 0)"

section \<open>Flushing\<close>

definition fp_flush_input_denormal_bits :: "'a::len word \<Rightarrow> u32 \<Rightarrow> u64 \<Rightarrow> 'a word \<times> u64" where
  "fp_flush_input_denormal_bits b fpcr_mode fpsr =
    (if fpcr_flush_to_zero_enabled fpcr_mode \<and> fp_is_subnormal_bits b
     then (fp_zero_bits (fp_is_negative b), fpsr OR kFpsrIdc) else (b, fpsr))"

definition fp_flush_output_denormal_bits :: "'a::len word \<Rightarrow> u32 \<Rightarrow> u64 \<Rightarrow> 'a word \<times> u64" where
  "fp_flush_output_denormal_bits b fpcr_mode fpsr =
    (if fpcr_flush_to_zero_enabled fpcr_mode \<and> fp_is_subnormal_bits b
     then (fp_zero_bits (fp_is_negative b), (fpsr AND NOT kFpsrIxc) OR kFpsrUfc) else (b, fpsr))"

section \<open>Exact values\<close>

record exact_fp_value =
  ev_finite :: bool
  ev_zero :: bool
  ev_negative :: bool
  ev_magnitude :: biguint
  ev_exp2 :: int

definition fp_exact_value_bits :: "'a::len word \<Rightarrow> exact_fp_value" where
  "fp_exact_value_bits b =
    (let value = \<lparr>ev_finite = True, ev_zero = True, ev_negative = fp_is_negative b, ev_magnitude = [], ev_exp2 = 0\<rparr>;
         frac_bits = fp_frac_bits_count TYPE('a);
         ex = unat (fp_exp_field b); frac = fp_frac_field b; bias = fp_exp_bias TYPE('a)
     in if ex = 2 ^ fp_exp_bits_count TYPE('a) - 1 then value\<lparr>ev_finite := False\<rparr>
        else if ex = 0 then
          (if frac = 0 then value
           else value\<lparr>ev_zero := False, ev_magnitude := big_of_u64 (ucast frac), ev_exp2 := 1 - bias - int frac_bits\<rparr>)
        else value\<lparr>ev_zero := False,
               ev_magnitude := big_add (big_shift_left frac_bits (big_of_u64 1)) (big_of_u64 (ucast frac)),
               ev_exp2 := int ex - bias - int frac_bits\<rparr>)"

definition exact_scale_pow2 :: "biguint \<Rightarrow> nat \<Rightarrow> biguint" where
  "exact_scale_pow2 v shift = big_shift_left shift v"

definition exact_abs_lt_power_of_two :: "biguint \<Rightarrow> int \<Rightarrow> int \<Rightarrow> bool" where
  "exact_abs_lt_power_of_two magnitude exp2 threshold \<longleftrightarrow>
    \<not> big_is_zero magnitude \<and> exp2 < threshold \<and> big_msb_index magnitude < nat (threshold - exp2)"

text \<open>The result carries the sign that the source stores through its pointer, where it stores one.\<close>
definition fp_exact_tiny_sum_terms ::
  "int \<Rightarrow> bool \<Rightarrow> biguint \<Rightarrow> int \<Rightarrow> bool \<Rightarrow> biguint \<Rightarrow> int \<Rightarrow> bool \<times> bool" where
  "fp_exact_tiny_sum_terms threshold lneg lmag lexp rneg rmag rexp =
    (let common = min lexp rexp;
         lhs = exact_scale_pow2 lmag (nat (lexp - common));
         rhs = exact_scale_pow2 rmag (nat (rexp - common));
         order = big_compare lhs rhs
     in if lneg = rneg then (exact_abs_lt_power_of_two (big_add lhs rhs) common threshold, lneg)
        else if order = 0 then (False, False)
        else if order > 0 then (exact_abs_lt_power_of_two (big_sub lhs rhs) common threshold, lneg)
        else (exact_abs_lt_power_of_two (big_sub rhs lhs) common threshold, rneg))"

definition fp_min_exp :: "'a::len itself \<Rightarrow> int" where "fp_min_exp t = 1 - fp_exp_bias t"

definition fp_add_sub_tiny_before_round :: "'a::len word \<Rightarrow> 'a word \<Rightarrow> bool \<Rightarrow> bool \<times> bool" where
  "fp_add_sub_tiny_before_round lhs_bits rhs_bits subtract_rhs =
    (let lhs = fp_exact_value_bits lhs_bits; rhs = fp_exact_value_bits rhs_bits in
     if \<not> ev_finite lhs \<or> \<not> ev_finite rhs \<or> ev_zero lhs \<and> ev_zero rhs then (False, False)
     else fp_exact_tiny_sum_terms (fp_min_exp TYPE('a)) (ev_negative lhs) (ev_magnitude lhs) (ev_exp2 lhs)
            (if subtract_rhs then \<not> ev_negative rhs else ev_negative rhs) (ev_magnitude rhs) (ev_exp2 rhs))"

definition fp_mul_tiny_before_round :: "'a::len word \<Rightarrow> 'a word \<Rightarrow> bool \<times> bool" where
  "fp_mul_tiny_before_round lhs_bits rhs_bits =
    (let lhs = fp_exact_value_bits lhs_bits; rhs = fp_exact_value_bits rhs_bits in
     if \<not> ev_finite lhs \<or> \<not> ev_finite rhs \<or> ev_zero lhs \<or> ev_zero rhs then (False, False)
     else (exact_abs_lt_power_of_two (big_mul (ev_magnitude lhs) (ev_magnitude rhs)) (ev_exp2 lhs + ev_exp2 rhs)
             (fp_min_exp TYPE('a)), ev_negative lhs \<noteq> ev_negative rhs))"

definition fp_div_tiny_before_round :: "'a::len word \<Rightarrow> 'a word \<Rightarrow> bool \<times> bool" where
  "fp_div_tiny_before_round lhs_bits rhs_bits =
    (let lhs = fp_exact_value_bits lhs_bits; rhs = fp_exact_value_bits rhs_bits;
         delta = ev_exp2 lhs - ev_exp2 rhs - fp_min_exp TYPE('a) in
     if \<not> ev_finite lhs \<or> \<not> ev_finite rhs \<or> ev_zero lhs \<or> ev_zero rhs then (False, False)
     else (if delta \<ge> 0 then big_less (exact_scale_pow2 (ev_magnitude lhs) (nat delta)) (ev_magnitude rhs)
           else big_less (ev_magnitude lhs) (exact_scale_pow2 (ev_magnitude rhs) (nat (- delta))),
           ev_negative lhs \<noteq> ev_negative rhs))"

definition fp_fma_tiny_before_round :: "'a::len word \<Rightarrow> 'a word \<Rightarrow> 'a word \<Rightarrow> bool \<times> bool" where
  "fp_fma_tiny_before_round lhs_bits rhs_bits addend_bits =
    (let lhs = fp_exact_value_bits lhs_bits; rhs = fp_exact_value_bits rhs_bits;
         addend = fp_exact_value_bits addend_bits; threshold = fp_min_exp TYPE('a);
         product = big_mul (ev_magnitude lhs) (ev_magnitude rhs); product_exp = ev_exp2 lhs + ev_exp2 rhs;
         product_neg = (ev_negative lhs \<noteq> ev_negative rhs) in
     if \<not> ev_finite lhs \<or> \<not> ev_finite rhs \<or> \<not> ev_finite addend then (False, False)
     else if ev_zero lhs \<or> ev_zero rhs then
       (if ev_zero addend then (False, False)
        else (exact_abs_lt_power_of_two (ev_magnitude addend) (ev_exp2 addend) threshold, ev_negative addend))
     else if ev_zero addend then (exact_abs_lt_power_of_two product product_exp threshold, product_neg)
     else fp_exact_tiny_sum_terms threshold product_neg product product_exp
            (ev_negative addend) (ev_magnitude addend) (ev_exp2 addend))"

definition fp_sqrt_tiny_before_round :: "'a::len word \<Rightarrow> bool" where
  "fp_sqrt_tiny_before_round b =
    (let v = fp_exact_value_bits b in
     ev_finite v \<and> \<not> ev_zero v \<and> \<not> ev_negative v \<and>
     exact_abs_lt_power_of_two (ev_magnitude v) (ev_exp2 v) (2 * fp_min_exp TYPE('a)))"

end
