(* ===== verification/Host_Float.thy ===== *)
theory Host_Float
  imports Cpu_Fp_Format
begin

text \<open>
  The C++ operations on \<open>float\<close> and \<open>double\<close> that \<open>src/src/cpu.cpp\<close> uses, on the bits of the values: the
  IEEE 754 arithmetic of the host in one of its four rounding modes with the exceptions it raises. A
  result is computed exactly, as a natural number times a power of two (with a sticky bit where division
  and square root go on), and rounded once. What the standards leave open is a parameter: the sign of the
  NaN an invalid operation makes, whether tininess is detected after or before rounding, the precision
  of \<open>long double\<close> (at least 64 bits on the hosts of the program) and the shift of a 64-bit value by 64.
\<close>

record host =
  h_ushr64 :: "u64 \<Rightarrow> u64"
  h_sshr64 :: "u64 \<Rightarrow> u64"
  h_nan_negative :: bool
  h_tiny_after :: bool
  h_long_double_bits :: nat

section \<open>Numbers\<close>

fun bit_length :: "nat \<Rightarrow> nat" where
  "bit_length n = (if n = 0 then 0 else Suc (bit_length (n div 2)))"

declare bit_length.simps [simp del]

text \<open>The bits of the integer square root, from the top.\<close>
fun isqrt_from :: "nat \<Rightarrow> nat \<Rightarrow> nat \<Rightarrow> nat" where
  "isqrt_from n 0 r = r"
| "isqrt_from n (Suc k) r = isqrt_from n k (if (r + 2 ^ k) ^ 2 \<le> n then r + 2 ^ k else r)"

definition isqrt :: "nat \<Rightarrow> nat" where "isqrt n = isqrt_from n (bit_length n) 0"

text \<open>A finite value is its sign, its magnitude and the exponent of the magnitude's unit.\<close>
definition fp_mantissa :: "'a::len word \<Rightarrow> nat" where
  "fp_mantissa b =
    (let frac = unat (fp_frac_field b) in if fp_exp_field b = 0 then frac else 2 ^ fp_frac_bits_count TYPE('a) + frac)"

definition fp_exponent :: "'a::len word \<Rightarrow> int" where
  "fp_exponent b =
    (if fp_exp_field b = 0 then 1 else int (unat (fp_exp_field b))) - fp_exp_bias TYPE('a) - int (fp_frac_bits_count TYPE('a))"

text \<open>A magnitude at a lower exponent.\<close>
definition at_exponent :: "int \<Rightarrow> nat \<Rightarrow> int \<Rightarrow> nat" where
  "at_exponent c m e = m * 2 ^ nat (e - c)"

definition signed_mag :: "bool \<Rightarrow> nat \<Rightarrow> int" where
  "signed_mag neg m = (if neg then - int m else int m)"

section \<open>Rounding\<close>

text \<open>Whether the cut-off part moves the result up: twice the remainder is compared with the unit.\<close>
definition rounds_up :: "host_rounding \<Rightarrow> bool \<Rightarrow> nat \<Rightarrow> nat \<Rightarrow> nat \<Rightarrow> bool \<Rightarrow> bool" where
  "rounds_up mode neg q r unit sticky =
    (case mode of
       FE_TONEAREST \<Rightarrow> 2 * r > unit \<or> 2 * r = unit \<and> (sticky \<or> odd q)
     | FE_UPWARD \<Rightarrow> (r \<noteq> 0 \<or> sticky) \<and> \<not> neg
     | FE_DOWNWARD \<Rightarrow> (r \<noteq> 0 \<or> sticky) \<and> neg
     | FE_TOWARDZERO \<Rightarrow> False)"

text \<open>The magnitude in units of \<open>2 ^ ulp\<close>, and whether it is inexact.\<close>
definition round_at :: "host_rounding \<Rightarrow> bool \<Rightarrow> nat \<Rightarrow> int \<Rightarrow> bool \<Rightarrow> int \<Rightarrow> nat \<times> bool" where
  "round_at mode neg m e sticky ulp =
    (if ulp \<le> e then (m * 2 ^ nat (e - ulp), sticky)
     else
       let unit = 2 ^ nat (ulp - e); q = m div unit; r = m mod unit
       in (if rounds_up mode neg q r unit sticky then q + 1 else q, r \<noteq> 0 \<or> sticky))"

record host_exceptions =
  fe_invalid :: bool
  fe_divbyzero :: bool
  fe_overflow :: bool
  fe_underflow :: bool
  fe_inexact :: bool

definition no_exceptions :: host_exceptions where
  "no_exceptions = \<lparr>fe_invalid = False, fe_divbyzero = False, fe_overflow = False, fe_underflow = False, fe_inexact = False\<rparr>"

definition overflow_to_inf :: "host_rounding \<Rightarrow> bool \<Rightarrow> bool" where
  "overflow_to_inf mode neg =
    (case mode of FE_TONEAREST \<Rightarrow> True | FE_UPWARD \<Rightarrow> \<not> neg | FE_DOWNWARD \<Rightarrow> neg | FE_TOWARDZERO \<Rightarrow> False)"

definition fp_sign_word :: "bool \<Rightarrow> 'a::len word" where
  "fp_sign_word neg = (if neg then fp_sign_mask_bits else 0)"

text \<open>Sign, biased exponent and fraction put together; a magnitude below the hidden bit is subnormal.\<close>
definition fp_encode :: "bool \<Rightarrow> nat \<Rightarrow> int \<Rightarrow> 'a::len word" where
  "fp_encode neg m ulp =
    (let F = fp_frac_bits_count TYPE('a) in
     if m < 2 ^ F then fp_sign_word neg OR of_nat m
     else fp_sign_word neg OR of_nat (nat (ulp + int F + fp_exp_bias TYPE('a)) * 2 ^ F + (m - 2 ^ F)))"

text \<open>A nonzero magnitude rounded to the format, with the exceptions.\<close>
definition host_round ::
  "'h host_scheme \<Rightarrow> host_rounding \<Rightarrow> bool \<Rightarrow> nat \<Rightarrow> int \<Rightarrow> bool \<Rightarrow> 'a::len word \<times> host_exceptions" where
  "host_round h mode neg m e sticky =
    (let F = int (fp_frac_bits_count TYPE('a)); bias = fp_exp_bias TYPE('a); emin = 1 - bias;
         top = e + int (bit_length m) - 1;
         ulp = max (top - F) (emin - F);
         (q, inexact) = round_at mode neg m e sticky ulp;
         (q, ulp) = (if q = 2 ^ nat (F + 1) then (2 ^ nat F, ulp + 1) else (q, ulp));
         tiny = (if h_tiny_after h
                 then top < emin \<and> \<not> (top + 1 = emin \<and> fst (round_at mode neg m e sticky (top - F)) = 2 ^ nat (F + 1))
                 else top < emin)
     in if q \<ge> 2 ^ nat F \<and> ulp + F > bias
        then (fp_sign_word neg OR (if overflow_to_inf mode neg then fp_exp_mask_bits else fp_exp_mask_bits - 1),
              no_exceptions\<lparr>fe_overflow := True, fe_inexact := True\<rparr>)
        else (fp_encode neg q ulp, no_exceptions\<lparr>fe_underflow := tiny \<and> inexact, fe_inexact := inexact\<rparr>))"

definition host_nan :: "'h host_scheme \<Rightarrow> 'a::len word" where
  "host_nan h = fp_sign_word (h_nan_negative h) OR fp_default_nan_bits"

definition invalid_result :: "'h host_scheme \<Rightarrow> 'a::len word \<times> host_exceptions" where
  "invalid_result h = (host_nan h, no_exceptions\<lparr>fe_invalid := True\<rparr>)"

section \<open>Arithmetic\<close>

text \<open>The sum of two exact terms; an exact zero has the terms' common sign, else the sign of the mode.\<close>
definition host_sum ::
  "'h host_scheme \<Rightarrow> host_rounding \<Rightarrow> bool \<Rightarrow> nat \<Rightarrow> int \<Rightarrow> bool \<Rightarrow> nat \<Rightarrow> int \<Rightarrow> 'a::len word \<times> host_exceptions" where
  "host_sum h mode na ma ea nb mb eb =
    (let c = min ea eb; v = signed_mag na (at_exponent c ma ea) + signed_mag nb (at_exponent c mb eb)
     in if v = 0 then (fp_zero_bits (if na = nb then na else mode = FE_DOWNWARD), no_exceptions)
        else host_round h mode (v < 0) (nat \<bar>v\<bar>) c False)"

text \<open>No caller passes a NaN to the operations below.\<close>
definition host_add :: "'h host_scheme \<Rightarrow> host_rounding \<Rightarrow> 'a::len word \<Rightarrow> 'a word \<Rightarrow> 'a word \<times> host_exceptions" where
  "host_add h mode a b =
    (if fp_is_inf_bits a then
       (if fp_is_inf_bits b \<and> fp_is_negative a \<noteq> fp_is_negative b then invalid_result h else (a, no_exceptions))
     else if fp_is_inf_bits b then (b, no_exceptions)
     else host_sum h mode (fp_is_negative a) (fp_mantissa a) (fp_exponent a)
            (fp_is_negative b) (fp_mantissa b) (fp_exponent b))"

definition host_sub :: "'h host_scheme \<Rightarrow> host_rounding \<Rightarrow> 'a::len word \<Rightarrow> 'a word \<Rightarrow> 'a word \<times> host_exceptions" where
  "host_sub h mode a b = host_add h mode a (fp_neg_bits b)"

definition host_mul :: "'h host_scheme \<Rightarrow> host_rounding \<Rightarrow> 'a::len word \<Rightarrow> 'a word \<Rightarrow> 'a word \<times> host_exceptions" where
  "host_mul h mode a b =
    (let neg = (fp_is_negative a \<noteq> fp_is_negative b) in
     if fp_is_inf_bits a \<or> fp_is_inf_bits b then
       (if fp_is_zero a \<or> fp_is_zero b then invalid_result h else (fp_inf_bits neg, no_exceptions))
     else if fp_is_zero a \<or> fp_is_zero b then (fp_zero_bits neg, no_exceptions)
     else host_round h mode neg (fp_mantissa a * fp_mantissa b) (fp_exponent a + fp_exponent b) False)"

text \<open>The quotient has at least four bits more than the format before the sticky bit.\<close>
definition host_div :: "'h host_scheme \<Rightarrow> host_rounding \<Rightarrow> 'a::len word \<Rightarrow> 'a word \<Rightarrow> 'a word \<times> host_exceptions" where
  "host_div h mode a b =
    (let neg = (fp_is_negative a \<noteq> fp_is_negative b) in
     if fp_is_inf_bits a then (if fp_is_inf_bits b then invalid_result h else (fp_inf_bits neg, no_exceptions))
     else if fp_is_inf_bits b then (fp_zero_bits neg, no_exceptions)
     else if fp_is_zero b then
       (if fp_is_zero a then invalid_result h else (fp_inf_bits neg, no_exceptions\<lparr>fe_divbyzero := True\<rparr>))
     else if fp_is_zero a then (fp_zero_bits neg, no_exceptions)
     else
       let k = fp_frac_bits_count TYPE('a) + 5 + bit_length (fp_mantissa b); n = fp_mantissa a * 2 ^ k
       in host_round h mode neg (n div fp_mantissa b) (fp_exponent a - fp_exponent b - int k)
            (n mod fp_mantissa b \<noteq> 0))"

text \<open>The argument is not negative.\<close>
definition host_sqrt :: "'h host_scheme \<Rightarrow> host_rounding \<Rightarrow> 'a::len word \<Rightarrow> 'a word \<times> host_exceptions" where
  "host_sqrt h mode a =
    (if fp_is_inf_bits a \<or> fp_is_zero a then (a, no_exceptions)
     else
       let k = 2 * (fp_frac_bits_count TYPE('a) + 5) + (if even (fp_exponent a) then 0 else 1);
           n = fp_mantissa a * 2 ^ k; r = isqrt n
       in host_round h mode False r ((fp_exponent a - int k) div 2) (r * r \<noteq> n))"

definition host_fma ::
  "'h host_scheme \<Rightarrow> host_rounding \<Rightarrow> 'a::len word \<Rightarrow> 'a word \<Rightarrow> 'a word \<Rightarrow> 'a word \<times> host_exceptions" where
  "host_fma h mode a b c =
    (let neg = (fp_is_negative a \<noteq> fp_is_negative b) in
     if fp_is_inf_bits a \<or> fp_is_inf_bits b then
       (if fp_is_zero a \<or> fp_is_zero b \<or> fp_is_inf_bits c \<and> fp_is_negative c \<noteq> neg then invalid_result h
        else (fp_inf_bits neg, no_exceptions))
     else if fp_is_inf_bits c then (c, no_exceptions)
     else host_sum h mode neg (fp_mantissa a * fp_mantissa b) (fp_exponent a + fp_exponent b)
            (fp_is_negative c) (fp_mantissa c) (fp_exponent c))"

text \<open>\<open>std::ldexp\<close> by minus one.\<close>
definition host_halve :: "'h host_scheme \<Rightarrow> host_rounding \<Rightarrow> 'a::len word \<Rightarrow> 'a word \<times> host_exceptions" where
  "host_halve h mode a =
    (if fp_is_inf_bits a \<or> fp_is_nan_bits a \<or> fp_is_zero a then (a, no_exceptions)
     else host_round h mode (fp_is_negative a) (fp_mantissa a) (fp_exponent a - 1) False)"

text \<open>A \<open>float\<close> as a \<open>double\<close>, which is exact; the argument is finite and not zero.\<close>
definition host_widen :: "'h host_scheme \<Rightarrow> u32 \<Rightarrow> u64" where
  "host_widen h a = fst (host_round h FE_TONEAREST (fp_is_negative a) (fp_mantissa a) (fp_exponent a) False)"

definition joined_exceptions :: "host_exceptions \<Rightarrow> host_exceptions \<Rightarrow> host_exceptions" where
  "joined_exceptions x y =
    \<lparr>fe_invalid = fe_invalid x \<or> fe_invalid y, fe_divbyzero = fe_divbyzero x \<or> fe_divbyzero y,
     fe_overflow = fe_overflow x \<or> fe_overflow y, fe_underflow = fe_underflow x \<or> fe_underflow y,
     fe_inexact = fe_inexact x \<or> fe_inexact y\<rparr>"

section \<open>Comparisons\<close>

text \<open>The operators are false when an operand is a NaN.\<close>
definition host_less :: "'a::len word \<Rightarrow> 'a word \<Rightarrow> bool" where
  "host_less a b =
    (if fp_is_nan_bits a \<or> fp_is_nan_bits b then False
     else if fp_is_inf_bits a then fp_is_negative a \<and> \<not> (fp_is_inf_bits b \<and> fp_is_negative b)
     else if fp_is_inf_bits b then \<not> fp_is_negative b
     else
       let c = min (fp_exponent a) (fp_exponent b)
       in signed_mag (fp_is_negative a) (at_exponent c (fp_mantissa a) (fp_exponent a)) <
          signed_mag (fp_is_negative b) (at_exponent c (fp_mantissa b) (fp_exponent b)))"

definition host_equal :: "'a::len word \<Rightarrow> 'a word \<Rightarrow> bool" where
  "host_equal a b =
    (if fp_is_nan_bits a \<or> fp_is_nan_bits b then False
     else a = b \<or> fp_is_zero a \<and> fp_is_zero b)"

end
