(* ===== verification/Cpu_Simd_Move.thy ===== *)
theory Cpu_Simd_Move
  imports Cpu_Simd_Arith Host_Float
begin

text \<open>
  The first integer SIMD instructions of \<open>Cpu::exec_data_processing\<close> (\<open>src/src/cpu.cpp\<close>): moves between
  lanes and general registers, immediates, shifts, reversals, counts, comparisons, table look-ups and the
  bitwise operations. Each definition is one test of the source and answers \<open>no_match\<close> when the source goes
  on to its next test. C++ leaves a shift of a 64-bit value by 64 undefined: what the host does is
  an argument.
\<close>

definition host_ushr :: "'h host_scheme \<Rightarrow> nat \<Rightarrow> u64 \<Rightarrow> u64" where
  "host_ushr h shift v = (if shift < 64 then drop_bit shift v else h_ushr64 h v)"

definition host_sshr :: "'h host_scheme \<Rightarrow> nat \<Rightarrow> u64 \<Rightarrow> u64" where
  "host_sshr h shift v = (if shift < 64 then signed_drop_bit shift v else h_sshr64 h v)"

section \<open>Moves of lanes\<close>

definition insn_imm5 :: "u32 \<Rightarrow> u32" where "insn_imm5 insn = drop_bit 16 insn AND 0x1F"
definition insn_imm4 :: "u32 \<Rightarrow> u32" where "insn_imm4 insn = drop_bit 11 insn AND 0xF"

definition exec_umov :: "u32 \<Rightarrow> 'd cpu \<Rightarrow> 'd handled" where
  "exec_umov insn c =
    (if insn AND 0xBF20FC00 \<noteq> 0x0E003C00 then no_match
     else
       let imm5 = insn_imm5 insn; size_shift = builtin_ctz imm5; esize = 8 * 2 ^ size_shift;
           lane = unat (drop_bit (size_shift + 1) imm5); lanes = 128 div esize
       in if imm5 = 0 \<or> esize > 64 \<or> lane \<ge> lanes then not_handled
          else
            let el = vector_get_elem (qreg_at (rn_of insn) c) esize lane
            in Some (Some (if esize < 64 then set_reg32 (rd_of insn) (ucast el) c else set_reg (rd_of insn) el c)))"

text \<open>A half-precision encoding inside the space of \<open>DUP\<close> or \<open>INS\<close>.\<close>
definition half_precision_overlap :: "'d cpu \<Rightarrow> 'd handled" where
  "half_precision_overlap c =
    (if ucast (drop_bit 16 (r_id_aa64pfr0_el1 (c_sysregs c)) AND 0xF) = (0 :: u32)
     then Some (Some (undefined_insn c)) else not_handled)"

definition exec_dup_element :: "u32 \<Rightarrow> 'd cpu \<Rightarrow> 'd handled" where
  "exec_dup_element insn c =
    (if insn AND 0xBF20FC00 \<noteq> 0x0E000400 then no_match
     else if insn AND 0x9F20FC00 = 0x0E000400 \<and> drop_bit 22 insn AND 1 \<noteq> 0 then half_precision_overlap c
     else
       let imm5 = insn_imm5 insn; size_shift = builtin_ctz imm5; esize = 8 * 2 ^ size_shift;
           lane = unat (drop_bit (size_shift + 1) imm5); lanes = insn_bits insn div esize
       in if imm5 = 0 \<or> insn_imm4 insn \<noteq> 0 \<or> esize > 64 \<or> esize > insn_bits insn \<or> lane \<ge> lanes then not_handled
          else
            let el = vector_get_elem (qreg_at (rn_of insn) c) esize lane
            in done_with (rd_of insn) (set_lanes esize 0 lanes (\<lambda>_. el) (0, 0)) c)"

definition general_elem :: "nat \<Rightarrow> nat \<Rightarrow> 'd cpu \<Rightarrow> u64" where
  "general_elem esize rn c = (if esize = 64 then reg rn c else ucast (reg32 rn c) AND ones esize)"

definition exec_dup_general :: "u32 \<Rightarrow> 'd cpu \<Rightarrow> 'd handled" where
  "exec_dup_general insn c =
    (if insn AND 0xBF20FC00 \<noteq> 0x0E000C00 then no_match
     else
       let imm5 = insn_imm5 insn; esize = 8 * 2 ^ builtin_ctz imm5; lanes = insn_bits insn div esize
       in if imm5 = 0 \<or> imm5 AND (imm5 - 1) \<noteq> 0 \<or> esize > 64 then not_handled
          else done_with (rd_of insn) (set_lanes esize 0 lanes (\<lambda>_. general_elem esize (rn_of insn) c) (0, 0)) c)"

definition exec_ins_element :: "u32 \<Rightarrow> 'd cpu \<Rightarrow> 'd handled" where
  "exec_ins_element insn c =
    (if insn AND 0xFFE08400 \<noteq> 0x6E000400 then no_match
     else if insn AND 0xBF20FC00 = 0x0E001C00 \<and> drop_bit 22 insn AND 1 \<noteq> 0 then half_precision_overlap c
     else
       let imm5 = insn_imm5 insn; imm4 = insn_imm4 insn; size_shift = builtin_ctz imm5; esize = 8 * 2 ^ size_shift;
           lanes = 128 div esize;
           dst_lane = unat (drop_bit (size_shift + 1) imm5); src_lane = unat (drop_bit size_shift imm4)
       in if imm5 = 0 \<or> esize > 64 \<or> imm4 AND (push_bit size_shift 1 - 1) \<noteq> 0 \<or> dst_lane \<ge> lanes \<or> src_lane \<ge> lanes
          then not_handled
          else done_with (rd_of insn)
                 (vector_set_elem esize dst_lane (vector_get_elem (qreg_at (rn_of insn) c) esize src_lane)
                    (qreg_at (rd_of insn) c)) c)"

definition exec_ins_general :: "u32 \<Rightarrow> 'd cpu \<Rightarrow> 'd handled" where
  "exec_ins_general insn c =
    (if insn AND 0xFFE08400 \<noteq> 0x4E000400 then no_match
     else
       let imm5 = insn_imm5 insn; size_shift = builtin_ctz imm5; esize = 8 * 2 ^ size_shift;
           lane = unat (drop_bit (size_shift + 1) imm5); lanes = 128 div esize
       in if imm5 = 0 \<or> insn_imm4 insn \<noteq> 0x3 \<or> esize > 64 \<or> lane \<ge> lanes then not_handled
          else done_with (rd_of insn)
                 (vector_set_elem esize lane (general_elem esize (rn_of insn) c) (qreg_at (rd_of insn) c)) c)"

section \<open>Immediates\<close>

definition insn_imm8 :: "u32 \<Rightarrow> u8" where
  "insn_imm8 insn = ucast (push_bit 5 (drop_bit 16 insn AND 0x7) OR drop_bit 5 insn AND 0x1F)"

definition insn_cmode :: "u32 \<Rightarrow> u32" where "insn_cmode insn = drop_bit 12 insn AND 0xF"

definition exec_movi_scalar :: "u32 \<Rightarrow> 'd cpu \<Rightarrow> 'd handled" where
  "exec_movi_scalar insn c =
    (if insn AND 0xBF80FC00 \<noteq> 0x2F00E400 then no_match
     else done_with (rd_of insn) (scalar_byte_mask_imm (insn_imm8 insn), 0) c)"

definition low_or_both :: "bool \<Rightarrow> u64 \<Rightarrow> u64 \<Rightarrow> qreg" where
  "low_or_both q lo hi = (lo, if q then hi else 0)"

definition exec_movi_byte :: "u32 \<Rightarrow> 'd cpu \<Rightarrow> 'd handled" where
  "exec_movi_byte insn c =
    (if insn AND 0xBF80FC00 \<noteq> 0x0F00E400 then no_match
     else
       let imm64 = advsimd_expand_imm (insn_u insn) (insn_cmode insn) (insn_imm8 insn)
       in done_with (rd_of insn) (low_or_both (insn_q insn) imm64 imm64) c)"

definition exec_modified_immediate :: "u32 \<Rightarrow> 'd cpu \<Rightarrow> 'd handled" where
  "exec_modified_immediate insn c =
    (if insn AND 0x9FF80400 \<noteq> 0x0F000400 then no_match
     else
       let q = insn_q insn; oper = insn_u insn; cmode = insn_cmode insn;
           imm64 = advsimd_expand_imm False cmode (insn_imm8 insn);
           (lo, hi) = qreg_at (rd_of insn) c
       in if cmode \<le> 11 then
            done_with (rd_of insn)
              (if \<not> oper then
                 (if cmode AND 1 = 0 then low_or_both q imm64 imm64
                  else low_or_both q (lo OR imm64) (hi OR imm64))
               else if cmode AND 1 = 0 then low_or_both q (NOT imm64) (NOT imm64)
               else low_or_both q (lo AND NOT imm64) (hi AND NOT imm64)) c
          else if cmode = 12 \<or> cmode = 13 then
            done_with (rd_of insn)
              (if \<not> oper then low_or_both q imm64 imm64 else low_or_both q (NOT imm64) (NOT imm64)) c
          else no_match)"

section \<open>Shifts by an immediate\<close>

definition insn_immh :: "u32 \<Rightarrow> u32" where "insn_immh insn = drop_bit 19 insn AND 0xF"
definition insn_immhb :: "u32 \<Rightarrow> nat" where
  "insn_immhb insn = unat (push_bit 3 (insn_immh insn) OR drop_bit 16 insn AND 0x7)"

definition exec_sshll :: "u32 \<Rightarrow> 'd cpu \<Rightarrow> 'd handled" where
  "exec_sshll insn c =
    (if insn AND 0x9F80FC00 \<noteq> 0x0F00A400 \<or> insn_immh insn = 0 then no_match
     else
       let src_esize = 8 * 2 ^ highest_set_bit (insn_immh insn); immhb = insn_immhb insn in
       if src_esize < 8 \<or> src_esize > 32 \<or> immhb < src_esize \<or> immhb \<ge> src_esize * 2 then not_handled
       else
         let shift = immhb - src_esize; lanes = 64 div src_esize; src_base = (if insn_q insn then lanes else 0);
             src = qreg_at (rn_of insn) c
         in done_with (rd_of insn)
              (set_lanes (src_esize * 2) 0 lanes
                 (\<lambda>lane. let v = vector_get_elem src src_esize (lane + src_base)
                   in push_bit shift (if insn_u insn then v AND ones src_esize else sign_extend v src_esize)) (0, 0)) c)"

definition exec_ushr :: "'h host_scheme \<Rightarrow> u32 \<Rightarrow> 'd cpu \<Rightarrow> 'd handled" where
  "exec_ushr h insn c =
    (if insn AND 0xBF80FC00 \<noteq> 0x2F000400 \<and> insn AND 0xBF80FC00 \<noteq> 0x0F000400 \<or> insn_immh insn = 0 then no_match
     else
       let esize = 8 * 2 ^ highest_set_bit (insn_immh insn); shift = esize * 2 - insn_immhb insn in
       if esize > insn_bits insn \<or> shift = 0 \<or> shift > esize then not_handled
       else
         let src = qreg_at (rn_of insn) c
         in done_with (rd_of insn)
              (set_lanes esize 0 (insn_bits insn div esize)
                 (\<lambda>lane. let v = vector_get_elem src esize lane
                   in (if insn_u insn then host_ushr h shift v else host_sshr h shift (sign_extend v esize)) AND ones esize)
                 (0, 0)) c)"

section \<open>Reversals and counts\<close>

text \<open>The loop over the containers and over the elements of each writes the lanes in order.\<close>
definition reversed_lanes :: "nat \<Rightarrow> nat \<Rightarrow> nat \<Rightarrow> qreg \<Rightarrow> qreg" where
  "reversed_lanes esize container_bits total_bits src =
    (let elems = container_bits div esize
     in set_lanes esize 0 (total_bits div container_bits * elems)
          (\<lambda>lane. vector_get_elem src esize (lane div elems * elems + (elems - 1 - lane mod elems))) (0, 0))"

definition exec_rev16_vector :: "u32 \<Rightarrow> 'd cpu \<Rightarrow> 'd handled" where
  "exec_rev16_vector insn c =
    (if insn AND 0xBF20FC00 = 0x0E201800 \<and> drop_bit 16 insn AND 0x1F = 0 \<and> insn_size insn = 0
     then done_with (rd_of insn) (reversed_lanes 8 16 (insn_bits insn) (qreg_at (rn_of insn) c)) c
     else no_match)"

definition exec_rev_vector :: "u32 \<Rightarrow> 'd cpu \<Rightarrow> 'd handled" where
  "exec_rev_vector insn c =
    (let rev32 = insn_u insn; size = insn_size insn; esize = insn_esize insn; container = (if rev32 then 32 else 64) in
     if (insn AND 0xBF20FC00 = 0x0E200800 \<or> insn AND 0xBF20FC00 = 0x2E200800) \<and> drop_bit 16 insn AND 0x1F = 0 \<and>
        \<not> (rev32 \<and> size > 1 \<or> \<not> rev32 \<and> size > 2 \<or> esize \<ge> container)
     then done_with (rd_of insn) (reversed_lanes esize container (insn_bits insn) (qreg_at (rn_of insn) c)) c
     else no_match)"

definition exec_cls_clz :: "u32 \<Rightarrow> 'd cpu \<Rightarrow> 'd handled" where
  "exec_cls_clz insn c =
    (if (insn AND 0xBF21FC00 = 0x0E204800 \<or> insn AND 0xBF21FC00 = 0x2E204800) \<and>
        drop_bit 16 insn AND 0x1F = 0 \<and> insn_size insn \<le> 2
     then
       let esize = insn_esize insn; src = qreg_at (rn_of insn) c
       in done_with (rd_of insn)
            (set_lanes esize 0 (insn_bits insn div esize)
               (\<lambda>lane. let v = vector_get_elem src esize lane
                 in if insn_u insn then clz_bits v esize else cls_bits v esize) (0, 0)) c
     else no_match)"

definition exec_cnt :: "u32 \<Rightarrow> 'd cpu \<Rightarrow> 'd handled" where
  "exec_cnt insn c =
    (if insn AND 0xBF3FFC00 \<noteq> 0x0E205800 then no_match
     else if insn_size insn \<noteq> 0 then not_handled
     else
       let src = qreg_at (rn_of insn) c
       in done_with (rd_of insn)
            (set_lanes 8 0 (if insn_q insn then 16 else 8)
               (\<lambda>lane. of_nat (length (filter (bit (ucast (vector_get_elem src 8 lane) :: u8)) [0..<8]))) (0, 0)) c)"

section \<open>Comparisons\<close>

definition lane_mask :: "nat \<Rightarrow> bool \<Rightarrow> u64" where "lane_mask esize p = (if p then ones esize else 0)"

text \<open>A comparison with zero: the word says which.\<close>
definition compare_zero :: "u32 \<Rightarrow> nat \<Rightarrow> u64 \<Rightarrow> bool" where
  "compare_zero tag esize el =
    (let s = sint (sign_extend el esize) in
     if tag = 0x0E208800 then s > 0 else if tag = 0x2E208800 then s \<ge> 0 else if tag = 0x0E209800 then el = 0
     else if tag = 0x2E209800 then s \<le> 0 else s < 0)"

definition exec_cm_zero :: "u32 \<Rightarrow> 'd cpu \<Rightarrow> 'd handled" where
  "exec_cm_zero insn c =
    (let tag = insn AND 0xBF3FFC00; esize = insn_esize insn; src = qreg_at (rn_of insn) c in
     if tag \<notin> {0x0E208800, 0x2E208800, 0x0E209800, 0x2E209800, 0x0E20A800} then no_match
     else if \<not> insn_q insn \<and> esize = 64 then not_handled
     else done_with (rd_of insn)
            (set_lanes esize 0 (insn_bits insn div esize)
               (\<lambda>lane. lane_mask esize (compare_zero tag esize (vector_get_elem src esize lane))) (0, 0)) c)"

text \<open>A lane of both operands compared at a time.\<close>
definition compare_lanes :: "(nat \<Rightarrow> u64 \<Rightarrow> u64 \<Rightarrow> bool) \<Rightarrow> u32 \<Rightarrow> 'd cpu \<Rightarrow> 'd handled" where
  "compare_lanes p insn c =
    (let esize = insn_esize insn; lhs = qreg_at (rn_of insn) c; rhs = qreg_at (rm_of insn) c in
     if \<not> insn_q insn \<and> esize = 64 then not_handled
     else done_with (rd_of insn)
            (set_lanes esize 0 (insn_bits insn div esize)
               (\<lambda>lane. lane_mask esize (p esize (vector_get_elem lhs esize lane) (vector_get_elem rhs esize lane)))
               (0, 0)) c)"

definition exec_cmeq_register :: "u32 \<Rightarrow> 'd cpu \<Rightarrow> 'd handled" where
  "exec_cmeq_register insn c =
    (if insn AND 0xBF20FC00 \<noteq> 0x2E208C00 then no_match else compare_lanes (\<lambda>_ a b. a = b) insn c)"

definition exec_cmtst :: "u32 \<Rightarrow> 'd cpu \<Rightarrow> 'd handled" where
  "exec_cmtst insn c =
    (if insn AND 0xBF20FC00 \<noteq> 0x0E208C00 then no_match else compare_lanes (\<lambda>_ a b. a AND b \<noteq> 0) insn c)"

definition compare_register :: "u32 \<Rightarrow> nat \<Rightarrow> u64 \<Rightarrow> u64 \<Rightarrow> bool" where
  "compare_register tag esize a b =
    (let sa = sint (sign_extend a esize); sb = sint (sign_extend b esize) in
     if tag = 0x2E203400 then a > b else if tag = 0x0E203400 then sa > sb
     else if tag = 0x2E203C00 then a \<ge> b else sa \<ge> sb)"

definition exec_cm_register :: "u32 \<Rightarrow> 'd cpu \<Rightarrow> 'd handled" where
  "exec_cm_register insn c =
    (let tag = insn AND 0xBF20FC00 in
     if tag \<notin> {0x2E203400, 0x0E203400, 0x2E203C00, 0x0E203C00} then no_match
     else compare_lanes (compare_register tag) insn c)"

section \<open>Tables and extraction\<close>

definition reg_bytes :: "nat \<Rightarrow> qreg \<Rightarrow> u8 list" where
  "reg_bytes n q = map (\<lambda>i. ucast (vector_get_elem q 8 i)) [0..<n]"

definition exec_tbl :: "u32 \<Rightarrow> 'd cpu \<Rightarrow> 'd handled" where
  "exec_tbl insn c =
    (if insn AND 0xBFE08C00 \<noteq> 0x0E000000 then no_match
     else
       let is_tbx = drop_bit 12 insn AND 1 \<noteq> 0; regs = unat (drop_bit 13 insn AND 0x3) + 1;
           table = concat (map (\<lambda>i. reg_bytes 16 (qreg_at ((rn_of insn + i) mod 32) c)) [0..<regs]);
           old = (if is_tbx then qreg_at (rd_of insn) c else (0, 0));
           dst = (fst old, if insn_q insn then snd old else 0);
           index = (\<lambda>lane. unat (vector_get_elem (qreg_at (rm_of insn) c) 8 lane AND 0xFF))
       in done_with (rd_of insn)
            (fold (\<lambda>lane dst. if index lane < regs * 16 then vector_set_elem 8 lane (ucast (table ! index lane)) dst else dst)
               [0..<insn_bits insn div 8] dst) c)"

definition exec_ext :: "u32 \<Rightarrow> 'd cpu \<Rightarrow> 'd handled" where
  "exec_ext insn c =
    (if insn AND 0xBFE08400 \<noteq> 0x2E000000 then no_match
     else
       let total = (if insn_q insn then 16 else 8); imm4 = unat (insn_imm4 insn);
           bytes = reg_bytes total (qreg_at (rn_of insn) c) @ reg_bytes total (qreg_at (rm_of insn) c)
       in if imm4 \<ge> total then not_handled
          else done_with (rd_of insn) (set_lanes 8 0 total (\<lambda>i. ucast (bytes ! (imm4 + i))) (0, 0)) c)"

section \<open>Bitwise operations\<close>

text \<open>The operation on each half: the old destination, the first and the second operand.\<close>
definition bitwise_op :: "u32 \<Rightarrow> (u64 \<Rightarrow> u64 \<Rightarrow> u64 \<Rightarrow> u64) option" where
  "bitwise_op tag =
    (if tag = 0x0E201C00 then Some (\<lambda>d a b. a AND b)
     else if tag = 0x0E601C00 then Some (\<lambda>d a b. a AND NOT b)
     else if tag = 0x0EA01C00 then Some (\<lambda>d a b. a OR b)
     else if tag = 0x2E201C00 then Some (\<lambda>d a b. a XOR b)
     else if tag = 0x2EA01C00 then Some (\<lambda>d a b. (d AND NOT b) OR (a AND b))
     else if tag = 0x2EE01C00 then Some (\<lambda>d a b. (d AND b) OR (a AND NOT b))
     else if tag = 0x2E601C00 then Some (\<lambda>d a b. (d AND a) OR (NOT d AND b))
     else None)"

definition exec_bitwise :: "u32 \<Rightarrow> 'd cpu \<Rightarrow> 'd handled" where
  "exec_bitwise insn c =
    (case bitwise_op (insn AND 0xBFE0FC00) of
       None \<Rightarrow> no_match
     | Some f \<Rightarrow>
         let d = qreg_at (rd_of insn) c; a = qreg_at (rn_of insn) c; b = qreg_at (rm_of insn) c
         in done_with (rd_of insn) (low_or_both (insn_q insn) (f (fst d) (fst a) (fst b)) (f (snd d) (snd a) (snd b))) c)"

end
