(* ===== verification/Cpu_Simd_Lanes.thy ===== *)
theory Cpu_Simd_Lanes
  imports Cpu_Simd_Move
begin

text \<open>
  The integer SIMD arithmetic of \<open>Cpu::exec_data_processing\<close> (\<open>src/src/cpu.cpp\<close>): the instructions by
  element, the sums, differences and products lane by lane, the permutations, the reductions, the
  narrowing and widening forms, their scalar forms and the moves between a scalar and a general register.
\<close>

section \<open>Shapes\<close>

text \<open>An operation on the lanes of both operands; \<open>acc\<close> is what the destination held.\<close>
definition three_same :: "(nat \<Rightarrow> u64 \<Rightarrow> u64 \<Rightarrow> u64 \<Rightarrow> u64) \<Rightarrow> qreg \<Rightarrow> u32 \<Rightarrow> 'd cpu \<Rightarrow> 'd handled" where
  "three_same f dst insn c =
    (let esize = insn_esize insn; acc = qreg_at (rd_of insn) c;
         lhs = qreg_at (rn_of insn) c; rhs = qreg_at (rm_of insn) c
     in done_with (rd_of insn)
          (set_lanes esize 0 (insn_bits insn div esize)
             (\<lambda>lane. f esize (vector_get_elem acc esize lane) (vector_get_elem lhs esize lane)
                (vector_get_elem rhs esize lane)) dst) c)"

definition three_same_sat :: "(nat \<Rightarrow> u64 \<Rightarrow> u64 \<Rightarrow> u64 \<times> bool) \<Rightarrow> u32 \<Rightarrow> 'd cpu \<Rightarrow> 'd handled" where
  "three_same_sat f insn c =
    (let esize = insn_esize insn; lhs = qreg_at (rn_of insn) c; rhs = qreg_at (rm_of insn) c
     in done_sat (rd_of insn)
          (set_lanes_sat esize 0 (insn_bits insn div esize)
             (\<lambda>lane. f esize (vector_get_elem lhs esize lane) (vector_get_elem rhs esize lane)) (0, 0)) c)"

text \<open>The second forms of the long instructions read the upper half of their narrow operands.\<close>
definition src_base :: "u32 \<Rightarrow> nat \<Rightarrow> nat" where
  "src_base insn lanes = (if insn_q insn then lanes else 0)"

text \<open>The second forms of the narrowing instructions keep the lower half of the destination.\<close>
definition narrow_dst :: "u32 \<Rightarrow> 'd cpu \<Rightarrow> qreg" where
  "narrow_dst insn c = (if insn_q insn then qreg_at (rd_of insn) c else (0, 0))"

section \<open>By element\<close>

definition exec_mul_by_element :: "u32 \<Rightarrow> 'd cpu \<Rightarrow> 'd handled" where
  "exec_mul_by_element insn c =
    (let tag = insn AND 0xBF00F400; accumulate = tag \<noteq> 0x0F008000; subtract = tag = 0x2F004000 in
     if tag \<notin> {0x0F008000, 0x2F000000, 0x2F004000} then no_match
     else case element_operand insn of
       None \<Rightarrow> not_handled
     | Some (index, rm) \<Rightarrow>
         let esize = insn_esize insn; m = ones esize; acc = qreg_at (rd_of insn) c; lhs = qreg_at (rn_of insn) c;
             el = vector_get_elem (qreg_at rm c) esize index
         in done_with (rd_of insn)
              (set_lanes esize 0 (insn_bits insn div esize)
                 (\<lambda>lane. let prod = (vector_get_elem lhs esize lane * el) AND m; a = vector_get_elem acc esize lane
                   in if accumulate then (if subtract then a - prod else a + prod) AND m else prod) (0, 0)) c)"

definition exec_sqdmulh_by_element :: "u32 \<Rightarrow> 'd cpu \<Rightarrow> 'd handled" where
  "exec_sqdmulh_by_element insn c =
    (let tag = insn AND 0xBF00F400; round = insn AND 0x00001000 \<noteq> 0 in
     if tag \<notin> {0x0F00C000, 0x0F00D000} then no_match
     else case element_operand insn of
       None \<Rightarrow> not_handled
     | Some (index, rm) \<Rightarrow>
         let esize = insn_esize insn; lhs = qreg_at (rn_of insn) c; el = vector_get_elem (qreg_at rm c) esize index
         in done_sat (rd_of insn)
              (set_lanes_sat esize 0 (insn_bits insn div esize)
                 (\<lambda>lane. sqdmulh_result (vector_get_elem lhs esize lane) el esize round) (0, 0)) c)"

text \<open>A doubling long product, alone or added to the accumulator.\<close>
definition sqdml_long :: "bool \<Rightarrow> bool \<Rightarrow> nat \<Rightarrow> u64 \<Rightarrow> u64 \<Rightarrow> u64 \<Rightarrow> u64 \<times> bool" where
  "sqdml_long accumulate subtract esize acc a b =
    (if accumulate then sqdml_long_accumulate_result acc a b esize subtract else sqdmull_product_result a b esize)"

definition exec_sqdmull_by_element :: "u32 \<Rightarrow> 'd cpu \<Rightarrow> 'd handled" where
  "exec_sqdmull_by_element insn c =
    (let tag = insn AND 0xBF00F400; accumulate = tag \<noteq> 0x0F00B000; subtract = tag = 0x0F007000 in
     if tag \<notin> {0x0F00B000, 0x0F003000, 0x0F007000} then no_match
     else case element_operand insn of
       None \<Rightarrow> not_handled
     | Some (index, rm) \<Rightarrow>
         let esize = insn_esize insn; lanes = 64 div esize; acc = qreg_at (rd_of insn) c; lhs = qreg_at (rn_of insn) c;
             el = vector_get_elem (qreg_at rm c) esize index
         in done_sat (rd_of insn)
              (set_lanes_sat (esize * 2) 0 lanes
                 (\<lambda>lane. sqdml_long accumulate subtract esize (vector_get_elem acc (esize * 2) lane)
                    (vector_get_elem lhs esize (src_base insn lanes + lane)) el) (0, 0)) c)"

definition mul_long :: "bool \<Rightarrow> bool \<Rightarrow> bool \<Rightarrow> nat \<Rightarrow> u64 \<Rightarrow> u64 \<Rightarrow> u64 \<Rightarrow> u64" where
  "mul_long accumulate subtract is_unsigned esize acc a b =
    (if accumulate then long_multiply_accumulate_result acc a b esize subtract is_unsigned
     else long_multiply_result a b esize is_unsigned)"

definition exec_mull_by_element :: "u32 \<Rightarrow> 'd cpu \<Rightarrow> 'd handled" where
  "exec_mull_by_element insn c =
    (let tag = insn AND 0x9F00F400; accumulate = tag \<noteq> 0x0F00A000; subtract = tag = 0x0F006000 in
     if insn AND 0xBF00F400 \<notin> {0x0F00A000, 0x0F002000, 0x0F006000, 0x2F00A000, 0x2F002000, 0x2F006000} then no_match
     else case element_operand insn of
       None \<Rightarrow> not_handled
     | Some (index, rm) \<Rightarrow>
         let esize = insn_esize insn; lanes = 64 div esize; acc = qreg_at (rd_of insn) c; lhs = qreg_at (rn_of insn) c;
             el = vector_get_elem (qreg_at rm c) esize index
         in done_with (rd_of insn)
              (set_lanes (esize * 2) 0 lanes
                 (\<lambda>lane. mul_long accumulate subtract (insn_u insn) esize (vector_get_elem acc (esize * 2) lane)
                    (vector_get_elem lhs esize (src_base insn lanes + lane)) el) (0, 0)) c)"

section \<open>Sums, differences, products\<close>

definition exec_add_vector :: "u32 \<Rightarrow> 'd cpu \<Rightarrow> 'd handled" where
  "exec_add_vector insn c =
    (if insn AND 0xBF20FC00 \<noteq> 0x0E208400 then no_match
     else if insn_esize insn > insn_bits insn then not_handled
     else three_same (\<lambda>esize _ a b. (a + b) AND ones esize) (0, 0) insn c)"

definition vector_unsigned_abs_diff :: "u64 \<Rightarrow> u64 \<Rightarrow> u64" where
  "vector_unsigned_abs_diff a b = (if a \<ge> b then a - b else b - a)"

definition vector_signed_abs_diff :: "u64 \<Rightarrow> u64 \<Rightarrow> nat \<Rightarrow> u64" where
  "vector_signed_abs_diff a b esize =
    (let diff = sign_extend_bits a esize - sign_extend_bits b esize
     in word_of_int (if diff < 0 then - diff else diff))"

definition lane_abs_diff :: "bool \<Rightarrow> nat \<Rightarrow> u64 \<Rightarrow> u64 \<Rightarrow> u64" where
  "lane_abs_diff is_unsigned esize a b =
    (if is_unsigned then vector_unsigned_abs_diff a b else vector_signed_abs_diff a b esize)"

definition halving_lane :: "bool \<Rightarrow> bool \<Rightarrow> bool \<Rightarrow> nat \<Rightarrow> u64 \<Rightarrow> u64 \<Rightarrow> u64" where
  "halving_lane is_unsigned is_subtract is_rounded esize a b =
    (let (x, y) = (if is_unsigned then (uint a, uint b) else (sign_extend_bits a esize, sign_extend_bits b esize));
         r = (if is_subtract then x - y else x + y)
     in word_of_int (drop_bit 1 (if is_rounded then r + 1 else r)) AND ones esize)"

definition too_wide_lane :: "u32 \<Rightarrow> bool" where
  "too_wide_lane insn \<longleftrightarrow> insn_esize insn > 32 \<or> insn_esize insn > insn_bits insn"

definition exec_halving :: "u32 \<Rightarrow> 'd cpu \<Rightarrow> 'd handled" where
  "exec_halving insn c =
    (let tag = insn AND 0x9F20FC00 in
     if tag \<notin> {0x0E200400, 0x0E201400, 0x0E202400} then no_match
     else if too_wide_lane insn then not_handled
     else three_same (\<lambda>esize _. halving_lane (insn_u insn) (tag = 0x0E202400) (tag = 0x0E201400) esize) (0, 0) insn c)"

text \<open>The destination starts as the accumulator: the short form keeps its upper half.\<close>
definition exec_saba :: "u32 \<Rightarrow> 'd cpu \<Rightarrow> 'd handled" where
  "exec_saba insn c =
    (if insn AND 0x9F20FC00 \<noteq> 0x0E207C00 then no_match
     else if too_wide_lane insn then not_handled
     else three_same (\<lambda>esize acc a b. (acc + lane_abs_diff (insn_u insn) esize a b) AND ones esize)
            (qreg_at (rd_of insn) c) insn c)"

definition exec_sabd :: "u32 \<Rightarrow> 'd cpu \<Rightarrow> 'd handled" where
  "exec_sabd insn c =
    (if insn AND 0x9F20FC00 \<noteq> 0x0E207400 then no_match
     else if too_wide_lane insn then not_handled
     else three_same (\<lambda>esize _ a b. lane_abs_diff (insn_u insn) esize a b AND ones esize) (0, 0) insn c)"

definition minmax_lane :: "bool \<Rightarrow> bool \<Rightarrow> nat \<Rightarrow> u64 \<Rightarrow> u64 \<Rightarrow> u64" where
  "minmax_lane is_unsigned is_min esize a b =
    (if is_unsigned then (if is_min then min a b else max a b)
     else
       let sa = sint (sign_extend a esize); sb = sint (sign_extend b esize)
       in word_of_int (if is_min then min sa sb else max sa sb) AND ones esize)"

definition exec_smax :: "u32 \<Rightarrow> 'd cpu \<Rightarrow> 'd handled" where
  "exec_smax insn c =
    (if insn AND 0x9F20FC00 \<notin> {0x0E206400, 0x0E206C00} then no_match
     else if too_wide_lane insn then not_handled
     else three_same (\<lambda>esize _. minmax_lane (insn_u insn) (insn AND 0x00000800 \<noteq> 0) esize) (0, 0) insn c)"

definition exec_sqdmulh :: "u32 \<Rightarrow> 'd cpu \<Rightarrow> 'd handled" where
  "exec_sqdmulh insn c =
    (if insn AND 0x9F20FC00 \<noteq> 0x0E20B400 then no_match
     else if insn_size insn = 0 \<or> insn_size insn = 3 then not_handled
     else three_same_sat (\<lambda>esize a b. sqdmulh_result a b esize (insn_u insn)) insn c)"

definition exec_sqdmull :: "u32 \<Rightarrow> 'd cpu \<Rightarrow> 'd handled" where
  "exec_sqdmull insn c =
    (let tag = insn AND 0x9F20FC00; esize = insn_esize insn; lanes = 64 div esize; base = src_base insn lanes;
         acc = qreg_at (rd_of insn) c; lhs = qreg_at (rn_of insn) c; rhs = qreg_at (rm_of insn) c in
     if tag \<notin> {0x0E20D000, 0x0E209000, 0x0E20B000} then no_match
     else if insn_size insn = 0 \<or> insn_size insn = 3 then not_handled
     else done_sat (rd_of insn)
            (set_lanes_sat (esize * 2) 0 lanes
               (\<lambda>lane. sqdml_long (tag \<noteq> 0x0E20D000) (tag = 0x0E20B000) esize (vector_get_elem acc (esize * 2) lane)
                  (vector_get_elem lhs esize (base + lane)) (vector_get_elem rhs esize (base + lane))) (0, 0)) c)"

definition exec_mull :: "u32 \<Rightarrow> 'd cpu \<Rightarrow> 'd handled" where
  "exec_mull insn c =
    (let tag = insn AND 0x9F20FC00; esize = insn_esize insn; lanes = 64 div esize; base = src_base insn lanes;
         acc = qreg_at (rd_of insn) c; lhs = qreg_at (rn_of insn) c; rhs = qreg_at (rm_of insn) c in
     if insn AND 0xBF20FC00 \<notin> {0x0E20C000, 0x0E208000, 0x0E20A000, 0x2E20C000, 0x2E208000, 0x2E20A000} then no_match
     else if esize > 32 then not_handled
     else done_with (rd_of insn)
            (set_lanes (esize * 2) 0 lanes
               (\<lambda>lane. mul_long (tag \<noteq> 0x0E20C000) (tag = 0x0E20A000) (insn_u insn) esize
                  (vector_get_elem acc (esize * 2) lane)
                  (vector_get_elem lhs esize (base + lane)) (vector_get_elem rhs esize (base + lane))) (0, 0)) c)"

definition exec_sub_vector :: "u32 \<Rightarrow> 'd cpu \<Rightarrow> 'd handled" where
  "exec_sub_vector insn c =
    (if insn AND 0xBF20FC00 \<noteq> 0x2E208400 then no_match
     else if insn_esize insn > insn_bits insn then not_handled
     else three_same (\<lambda>esize _ a b. (a - b) AND ones esize) (0, 0) insn c)"

definition exec_mla_vector :: "u32 \<Rightarrow> 'd cpu \<Rightarrow> 'd handled" where
  "exec_mla_vector insn c =
    (if insn AND 0x9F20FC00 \<noteq> 0x0E209400 then no_match
     else if insn_size insn = 3 then not_handled
     else three_same (\<lambda>esize acc a b. let prod = (a * b) AND ones esize
            in (if insn_u insn then acc - prod else acc + prod) AND ones esize) (0, 0) insn c)"

definition exec_mul_vector :: "u32 \<Rightarrow> 'd cpu \<Rightarrow> 'd handled" where
  "exec_mul_vector insn c =
    (if insn AND 0xBF20FC00 \<noteq> 0x0E209C00 then no_match
     else if insn_size insn = 3 then not_handled
     else three_same (\<lambda>esize _ a b. (a * b) AND ones esize) (0, 0) insn c)"

section \<open>Permutations\<close>

text \<open>The loop of a permutation over half the lanes writes two of them at a time.\<close>
definition permute_pairs ::
  "(nat \<Rightarrow> nat \<Rightarrow> nat) \<Rightarrow> (nat \<Rightarrow> nat \<Rightarrow> nat) \<Rightarrow> (nat \<Rightarrow> nat \<Rightarrow> nat) \<Rightarrow> u32 \<Rightarrow> 'd cpu \<Rightarrow> 'd handled" where
  "permute_pairs dst_a dst_b src insn c =
    (let esize = insn_esize insn; lanes = insn_bits insn div esize; half = lanes div 2;
         lhs = qreg_at (rn_of insn) c; rhs = qreg_at (rm_of insn) c
     in if esize > insn_bits insn \<or> lanes mod 2 \<noteq> 0 then not_handled
        else done_with (rd_of insn)
               (fold (\<lambda>i q. vector_set_elem esize (dst_b half i) (vector_get_elem rhs esize (src half i))
                        (vector_set_elem esize (dst_a half i) (vector_get_elem lhs esize (src half i)) q))
                  [0..<half] (0, 0)) c)"

definition exec_zip1 :: "u32 \<Rightarrow> 'd cpu \<Rightarrow> 'd handled" where
  "exec_zip1 insn c =
    (if insn AND 0xBF20FC00 \<noteq> 0x0E003800 then no_match
     else permute_pairs (\<lambda>_ i. i * 2) (\<lambda>_ i. i * 2 + 1) (\<lambda>_ i. i) insn c)"

definition exec_uzp1 :: "u32 \<Rightarrow> 'd cpu \<Rightarrow> 'd handled" where
  "exec_uzp1 insn c =
    (if insn AND 0xBF20FC00 \<noteq> 0x0E001800 then no_match
     else permute_pairs (\<lambda>_ i. i) (\<lambda>half i. i + half) (\<lambda>_ i. i * 2) insn c)"

definition exec_trn1 :: "u32 \<Rightarrow> 'd cpu \<Rightarrow> 'd handled" where
  "exec_trn1 insn c =
    (if insn AND 0xBF20FC00 \<noteq> 0x0E002800 then no_match
     else permute_pairs (\<lambda>_ i. i * 2) (\<lambda>_ i. i * 2 + 1) (\<lambda>_ i. i * 2) insn c)"

definition exec_zip2 :: "u32 \<Rightarrow> 'd cpu \<Rightarrow> 'd handled" where
  "exec_zip2 insn c =
    (if insn AND 0xBF20FC00 \<noteq> 0x0E007800 then no_match
     else permute_pairs (\<lambda>_ i. i * 2) (\<lambda>_ i. i * 2 + 1) (\<lambda>half i. half + i) insn c)"

definition exec_uzp2 :: "u32 \<Rightarrow> 'd cpu \<Rightarrow> 'd handled" where
  "exec_uzp2 insn c =
    (if insn AND 0xBF20FC00 \<noteq> 0x0E005800 then no_match
     else permute_pairs (\<lambda>_ i. i) (\<lambda>half i. i + half) (\<lambda>_ i. i * 2 + 1) insn c)"

definition exec_trn2 :: "u32 \<Rightarrow> 'd cpu \<Rightarrow> 'd handled" where
  "exec_trn2 insn c =
    (if insn AND 0xBF20FC00 \<noteq> 0x0E006800 then no_match
     else permute_pairs (\<lambda>_ i. i * 2) (\<lambda>_ i. i * 2 + 1) (\<lambda>_ i. i * 2 + 1) insn c)"

section \<open>Reductions and pairs\<close>

definition write_vec_scalar :: "nat \<Rightarrow> u64 \<Rightarrow> nat \<Rightarrow> 'd cpu \<Rightarrow> 'd handled" where
  "write_vec_scalar rd v esize c = done_with rd (v AND ones esize, 0) c"

definition exec_addp_scalar :: "u32 \<Rightarrow> 'd cpu \<Rightarrow> 'd handled" where
  "exec_addp_scalar insn c =
    (if insn AND 0xFFFFFC00 \<noteq> 0x5EF1B800 then no_match
     else
       let src = qreg_at (rn_of insn) c
       in done_with (rd_of insn) (vector_get_elem src 64 0 + vector_get_elem src 64 1, 0) c)"

definition across_lanes :: "u32 \<Rightarrow> nat \<Rightarrow> u64 list \<Rightarrow> u64 \<times> nat" where
  "across_lanes tag esize els =
    (let signed = map (\<lambda>e. sign_extend e esize) els;
         pick = (\<lambda>better. foldl (\<lambda>best v. if better v best then v else best))
     in if tag = 0x0E31B800 then (foldl (\<lambda>sum e. (sum + e) AND ones esize) 0 els, esize)
        else if tag = 0x2E303800 then (foldl (+) 0 els, esize * 2)
        else if tag = 0x0E303800 then (foldl (+) 0 signed, esize * 2)
        else if tag = 0x0E30A800 then (pick (\<lambda>v best. sint v > sint best) (hd signed) (tl signed), esize)
        else if tag = 0x0E31A800 then (pick (\<lambda>v best. sint v < sint best) (hd signed) (tl signed), esize)
        else if tag = 0x2E30A800 then (pick (\<lambda>v best. v > best) (hd els) (tl els), esize)
        else (pick (\<lambda>v best. v < best) (hd els) (tl els), esize))"

definition across_tags :: "u32 list" where
  "across_tags = [0x0E31B800, 0x0E303800, 0x2E303800, 0x0E30A800, 0x0E31A800, 0x2E30A800, 0x2E31A800]"

definition exec_across :: "u32 \<Rightarrow> 'd cpu \<Rightarrow> 'd handled" where
  "exec_across insn c =
    (let tag = insn AND 0xBF3FFC00; esize = insn_esize insn; src = qreg_at (rn_of insn) c in
     if \<not> List.member across_tags tag then no_match
     else if insn_size insn = 3 \<or> insn_size insn = 2 \<and> \<not> insn_q insn then not_handled
     else
       let (v, w) = across_lanes tag esize (map (vector_get_elem src esize) [0..<insn_bits insn div esize])
       in write_vec_scalar (rd_of insn) v w c)"

definition pair_sum :: "bool \<Rightarrow> nat \<Rightarrow> u64 \<Rightarrow> u64 \<Rightarrow> u64" where
  "pair_sum is_unsigned esize a b =
    (if is_unsigned then (a + b) AND ones (esize * 2)
     else (sign_extend a esize + sign_extend b esize) AND ones (esize * 2))"

definition exec_saddlp :: "u32 \<Rightarrow> 'd cpu \<Rightarrow> 'd handled" where
  "exec_saddlp insn c =
    (let esize = insn_esize insn; src = qreg_at (rn_of insn) c in
     if insn AND 0x9F3FFC00 \<noteq> 0x0E202800 then no_match
     else if esize > 32 then not_handled
     else done_with (rd_of insn)
            (set_lanes (esize * 2) 0 (insn_bits insn div esize div 2)
               (\<lambda>lane. pair_sum (insn_u insn) esize (vector_get_elem src esize (lane * 2))
                  (vector_get_elem src esize (lane * 2 + 1))) (0, 0)) c)"

text \<open>The sums are added to the lanes of the destination while they are written.\<close>
definition exec_sadalp :: "u32 \<Rightarrow> 'd cpu \<Rightarrow> 'd handled" where
  "exec_sadalp insn c =
    (let esize = insn_esize insn; src = qreg_at (rn_of insn) c; old = qreg_at (rd_of insn) c in
     if insn AND 0x9F3FFC00 \<noteq> 0x0E206800 then no_match
     else if esize > 32 then not_handled
     else done_with (rd_of insn)
            (fold (\<lambda>lane dst. vector_set_elem (esize * 2) lane
                     ((vector_get_elem dst (esize * 2) lane +
                       pair_sum (insn_u insn) esize (vector_get_elem src esize (lane * 2))
                         (vector_get_elem src esize (lane * 2 + 1))) AND ones (esize * 2)) dst)
               [0..<insn_bits insn div esize div 2] (fst old, if insn_q insn then snd old else 0)) c)"

definition pairwise_result :: "u32 \<Rightarrow> nat \<Rightarrow> u64 \<Rightarrow> u64 \<Rightarrow> u64" where
  "pairwise_result tag esize a b =
    (if tag = 0x0E20A400 then minmax_lane False False esize a b
     else if tag = 0x0E20AC00 then minmax_lane False True esize a b
     else if tag = 0x2E20A400 then max a b
     else if tag = 0x2E20AC00 then min a b
     else (a + b) AND ones esize)"

definition exec_pairwise :: "u32 \<Rightarrow> 'd cpu \<Rightarrow> 'd handled" where
  "exec_pairwise insn c =
    (let tag = insn AND 0xBF20FC00; esize = insn_esize insn; half = insn_bits insn div esize div 2;
         pairs = (\<lambda>src lane. pairwise_result tag esize (vector_get_elem src esize (lane * 2))
                    (vector_get_elem src esize (lane * 2 + 1)))
     in if tag \<in> {0x0E20A400, 0x0E20AC00, 0x2E20A400, 0x2E20AC00, 0x0E20BC00} \<and> insn_size insn < 3
        then done_with (rd_of insn)
               (set_lanes esize half half (pairs (qreg_at (rm_of insn) c))
                  (set_lanes esize 0 half (pairs (qreg_at (rn_of insn) c)) (0, 0))) c
        else no_match)"

section \<open>Narrowing\<close>

definition shrn_mode :: "u32 \<Rightarrow> shift_right_narrow_mode" where
  "shrn_mode tag =
    (if tag = 0x0F008400 \<or> tag = 0x0F008C00 then PlainUnsigned
     else if tag = 0x0F009400 \<or> tag = 0x0F009C00 then SignedToSignedSaturating
     else if tag = 0x2F009400 \<or> tag = 0x2F009C00 then UnsignedToUnsignedSaturating
     else SignedToUnsignedSaturating)"

definition shrn_tags :: "u32 list" where
  "shrn_tags = [0x0F008400, 0x0F008C00, 0x0F009400, 0x2F009400, 0x0F009C00, 0x2F009C00, 0x2F008400, 0x2F008C00]"

definition exec_shrn :: "u32 \<Rightarrow> 'd cpu \<Rightarrow> 'd handled" where
  "exec_shrn insn c =
    (let tag = insn AND 0xBF80FC00; src_esize = 16 * 2 ^ highest_set_bit (insn_immh insn);
         shift = src_esize - insn_immhb insn; dst_esize = src_esize div 2; lanes = 64 div dst_esize;
         round = (tag \<in> {0x0F008C00, 0x0F009C00, 0x2F009C00, 0x2F008C00}); src = qreg_at (rn_of insn) c
     in if \<not> List.member shrn_tags tag then no_match
        else if insn_immh insn = 0 \<or> src_esize < 16 \<or> src_esize > 64 \<or> shift = 0 \<or> shift > src_esize div 2
        then not_handled
        else done_sat (rd_of insn)
               (set_lanes_sat dst_esize (src_base insn lanes) lanes
                  (\<lambda>lane. shift_right_narrow_result (vector_get_elem src src_esize lane) src_esize dst_esize shift round
                     (shrn_mode tag)) (narrow_dst insn c)) c)"

definition exec_addhn :: "u32 \<Rightarrow> 'd cpu \<Rightarrow> 'd handled" where
  "exec_addhn insn c =
    (let src_esize = 16 * 2 ^ insn_size insn; dst_esize = src_esize div 2; lanes = 64 div dst_esize;
         rounding = (if insn_u insn then push_bit (dst_esize - 1) 1 else 0);
         lhs = qreg_at (rn_of insn) c; rhs = qreg_at (rm_of insn) c
     in if insn AND 0xBF20FC00 \<notin> {0x0E204000, 0x2E204000, 0x0E206000, 0x2E206000} then no_match
        else if src_esize < 16 \<or> src_esize > 64 then not_handled
        else done_with (rd_of insn)
               (set_lanes dst_esize (src_base insn lanes) lanes
                  (\<lambda>lane. let a = vector_get_elem lhs src_esize lane; b = vector_get_elem rhs src_esize lane;
                              v = ((if insn AND 0x00002000 \<noteq> 0 then a - b else a + b) + rounding) AND ones src_esize
                    in drop_bit dst_esize v AND ones dst_esize) (narrow_dst insn c)) c)"

definition exec_xtn :: "u32 \<Rightarrow> 'd cpu \<Rightarrow> 'd handled" where
  "exec_xtn insn c =
    (let src_esize = 16 * 2 ^ insn_size insn; dst_esize = src_esize div 2; lanes = 64 div dst_esize;
         src = qreg_at (rn_of insn) c
     in if insn AND 0xBF3FFC00 \<noteq> 0x0E212800 then no_match
        else if src_esize < 16 \<or> src_esize > 64 then not_handled
        else done_with (rd_of insn)
               (set_lanes dst_esize (src_base insn lanes) lanes
                  (\<lambda>lane. vector_get_elem src src_esize lane AND ones dst_esize) (narrow_dst insn c)) c)"

definition saturating_narrow :: "bool \<Rightarrow> nat \<Rightarrow> nat \<Rightarrow> u64 \<Rightarrow> u64 \<times> bool" where
  "saturating_narrow is_unsigned src_esize dst_esize v =
    (if is_unsigned then (word_of_int (saturate_unsigned_value dst_esize (uint v)), uint v > unsigned_max dst_esize)
     else
       let s = sint (sign_extend v src_esize)
       in (as_unsigned dst_esize (saturate_signed_value dst_esize s), outside_signed dst_esize s))"

definition exec_sqxtn :: "u32 \<Rightarrow> 'd cpu \<Rightarrow> 'd handled" where
  "exec_sqxtn insn c =
    (let src_esize = 16 * 2 ^ insn_size insn; dst_esize = src_esize div 2; lanes = 64 div dst_esize;
         src = qreg_at (rn_of insn) c
     in if insn AND 0x9F3FFC00 \<noteq> 0x0E214800 then no_match
        else if src_esize < 16 \<or> src_esize > 64 then not_handled
        else done_sat (rd_of insn)
               (set_lanes_sat dst_esize (src_base insn lanes) lanes
                  (\<lambda>lane. saturating_narrow (insn_u insn) src_esize dst_esize (vector_get_elem src src_esize lane))
                  (narrow_dst insn c)) c)"

section \<open>Widening\<close>

definition exec_saddl :: "u32 \<Rightarrow> 'd cpu \<Rightarrow> 'd handled" where
  "exec_saddl insn c =
    (let esize = insn_esize insn; lanes = 64 div esize; base = src_base insn lanes; subtract = insn AND 0x00002000 \<noteq> 0;
         lhs = qreg_at (rn_of insn) c; rhs = qreg_at (rm_of insn) c
     in if insn AND 0x9F20FC00 \<notin> {0x0E200000, 0x0E202000} then no_match
        else if esize > 32 then not_handled
        else done_with (rd_of insn)
               (set_lanes (esize * 2) 0 lanes
                  (\<lambda>lane. let a = vector_get_elem lhs esize (base + lane); b = vector_get_elem rhs esize (base + lane)
                    in if insn_u insn then (if subtract then a - b else a + b) AND ones (esize * 2)
                       else
                         let l = sign_extend_bits a esize; r = sign_extend_bits b esize
                         in as_unsigned (esize * 2) (if subtract then l - r else l + r)) (0, 0)) c)"

text \<open>The accumulator is the destination while it is written.\<close>
definition exec_sabal :: "u32 \<Rightarrow> 'd cpu \<Rightarrow> 'd handled" where
  "exec_sabal insn c =
    (let esize = insn_esize insn; lanes = 64 div esize; base = src_base insn lanes; accumulate = insn AND 0x00002000 = 0;
         lhs = qreg_at (rn_of insn) c; rhs = qreg_at (rm_of insn) c
     in if insn AND 0x9F20FC00 \<notin> {0x0E205000, 0x0E207000} then no_match
        else if esize > 32 then not_handled
        else done_with (rd_of insn)
               (fold (\<lambda>lane dst. vector_set_elem (esize * 2) lane
                        (((if accumulate then vector_get_elem dst (esize * 2) lane else 0) +
                          lane_abs_diff (insn_u insn) esize (vector_get_elem lhs esize (base + lane))
                            (vector_get_elem rhs esize (base + lane))) AND ones (esize * 2)) dst)
                  [0..<lanes] (if accumulate then qreg_at (rd_of insn) c else (0, 0))) c)"

definition exec_saddw :: "u32 \<Rightarrow> 'd cpu \<Rightarrow> 'd handled" where
  "exec_saddw insn c =
    (let esize = insn_esize insn; lanes = 64 div esize; base = src_base insn lanes; subtract = insn AND 0x00002000 \<noteq> 0;
         m = ones (esize * 2); lhs = qreg_at (rn_of insn) c; rhs = qreg_at (rm_of insn) c
     in if insn AND 0x9F20FC00 \<notin> {0x0E201000, 0x0E203000} then no_match
        else if esize > 32 then not_handled
        else done_with (rd_of insn)
               (set_lanes (esize * 2) 0 lanes
                  (\<lambda>lane. let wide = vector_get_elem lhs (esize * 2) lane; narrow = vector_get_elem rhs esize (base + lane);
                              (a, b) = (if insn_u insn then (wide, narrow)
                                        else (wide AND m, word_of_int (sign_extend_bits narrow esize) AND m))
                    in (if subtract then a - b else a + b) AND m) (0, 0)) c)"

section \<open>Saturating sums and scalar forms\<close>

definition saturating_lane :: "u32 \<Rightarrow> nat \<Rightarrow> u64 \<Rightarrow> u64 \<Rightarrow> u64 \<times> bool" where
  "saturating_lane insn esize a b =
    (let subtract = insn AND 0x00002000 \<noteq> 0
     in if insn_u insn then sat_unsigned_add_sub a b esize subtract else sat_signed_add_sub a b esize subtract)"

definition exec_sqadd :: "u32 \<Rightarrow> 'd cpu \<Rightarrow> 'd handled" where
  "exec_sqadd insn c =
    (if insn AND 0x9F20FC00 \<notin> {0x0E200C00, 0x0E202C00} then no_match
     else if insn_esize insn > insn_bits insn then not_handled
     else three_same_sat (saturating_lane insn) insn c)"

definition scalar_at :: "nat \<Rightarrow> nat \<Rightarrow> 'd cpu \<Rightarrow> u64" where
  "scalar_at i esize c = fst (qreg_at i c) AND ones esize"

definition done_scalar_sat :: "nat \<Rightarrow> nat \<Rightarrow> u64 \<times> bool \<Rightarrow> 'd cpu \<Rightarrow> 'd handled" where
  "done_scalar_sat rd esize vs c = done_sat rd ((fst vs AND ones esize, 0), snd vs) c"

definition exec_sqadd_scalar :: "u32 \<Rightarrow> 'd cpu \<Rightarrow> 'd handled" where
  "exec_sqadd_scalar insn c =
    (let esize = insn_esize insn in
     if insn AND 0xDF20FC00 \<notin> {0x5E200C00, 0x5E202C00} then no_match
     else done_scalar_sat (rd_of insn) esize
            (saturating_lane insn esize (scalar_at (rn_of insn) esize c) (scalar_at (rm_of insn) esize c)) c)"

definition exec_sqdmulh_scalar :: "u32 \<Rightarrow> 'd cpu \<Rightarrow> 'd handled" where
  "exec_sqdmulh_scalar insn c =
    (let esize = insn_esize insn in
     if insn AND 0xDF20FC00 \<noteq> 0x5E20B400 then no_match
     else if insn_size insn = 0 \<or> insn_size insn = 3 then not_handled
     else done_scalar_sat (rd_of insn) esize
            (sqdmulh_result (scalar_at (rn_of insn) esize c) (scalar_at (rm_of insn) esize c) esize (insn_u insn)) c)"

definition exec_sqdmull_scalar :: "u32 \<Rightarrow> 'd cpu \<Rightarrow> 'd handled" where
  "exec_sqdmull_scalar insn c =
    (let tag = insn AND 0xDF20FC00; esize = insn_esize insn in
     if tag \<notin> {0x5E20D000, 0x5E209000, 0x5E20B000} then no_match
     else if insn_size insn = 0 \<or> insn_size insn = 3 then not_handled
     else done_scalar_sat (rd_of insn) (esize * 2)
            (sqdml_long (tag \<noteq> 0x5E20D000) (tag = 0x5E20B000) esize (scalar_at (rd_of insn) (esize * 2) c)
               (scalar_at (rn_of insn) esize c) (scalar_at (rm_of insn) esize c)) c)"

definition exec_sqdmulh_element_scalar :: "u32 \<Rightarrow> 'd cpu \<Rightarrow> 'd handled" where
  "exec_sqdmulh_element_scalar insn c =
    (if insn AND 0xFF00F400 \<notin> {0x5F00C000, 0x5F00D000} then no_match
     else case element_operand insn of
       None \<Rightarrow> not_handled
     | Some (index, rm) \<Rightarrow>
         let esize = insn_esize insn
         in done_scalar_sat (rd_of insn) esize
              (sqdmulh_result (scalar_at (rn_of insn) esize c) (vector_get_elem (qreg_at rm c) esize index) esize
                 (insn AND 0x00001000 \<noteq> 0)) c)"

definition exec_sqdmull_element_scalar :: "u32 \<Rightarrow> 'd cpu \<Rightarrow> 'd handled" where
  "exec_sqdmull_element_scalar insn c =
    (let tag = insn AND 0xDF00F400 in
     if tag \<notin> {0x5F00B000, 0x5F003000, 0x5F007000} then no_match
     else case element_operand insn of
       None \<Rightarrow> not_handled
     | Some (index, rm) \<Rightarrow>
         let esize = insn_esize insn
         in done_scalar_sat (rd_of insn) (esize * 2)
              (sqdml_long (tag \<noteq> 0x5F00B000) (tag = 0x5F007000) esize (scalar_at (rd_of insn) (esize * 2) c)
                 (scalar_at (rn_of insn) esize c) (vector_get_elem (qreg_at rm c) esize index)) c)"

section \<open>Moves between a scalar and a general register\<close>

definition exec_fmov_general :: "u32 \<Rightarrow> 'd cpu \<Rightarrow> 'd handled" where
  "exec_fmov_general insn c =
    (let tag = insn AND 0xFFFFFC00; rd = rd_of insn; rn = rn_of insn; v = fst (qreg_at rn c) in
     if tag = 0x9E660000 then Some (Some (set_reg rd v c))
     else if tag = 0x9E670000 then done_with rd (reg rn c, 0) c
     else if tag = 0x1E260000 then Some (Some (set_reg32 rd (ucast (v AND 0xFFFFFFFF)) c))
     else if tag = 0x1E270000 then done_with rd (ucast (reg32 rn c), 0) c
     else no_match)"

end
