(* ===== verification/Cpu_Fp_Arith.thy ===== *)
theory Cpu_Fp_Arith
  imports Host_Float Cpu_Bits
begin

text \<open>
  The floating-point arithmetic of \<open>src/src/cpu.cpp\<close> on bit patterns: NaN processing, flushing of
  denormal operands and results, the host operation between them, the estimates and steps of the
  reciprocals. A function returns the pattern and the bits it raises in FPSR.
\<close>

section \<open>Host evaluation\<close>

definition host_fp_exceptions_to_fpsr :: "host_exceptions \<Rightarrow> u64" where
  "host_fp_exceptions_to_fpsr e =
    (if fe_invalid e then kFpsrIoc else 0) OR (if fe_divbyzero e then kFpsrDzc else 0) OR
    (if fe_overflow e then kFpsrOfc else 0) OR (if fe_underflow e then kFpsrUfc else 0) OR
    (if fe_inexact e then kFpsrIxc else 0)"

text \<open>The end of every operation: the exceptions are added, then a denormal result is flushed.\<close>
definition fp_finish :: "'a::len word \<times> host_exceptions \<Rightarrow> u32 \<Rightarrow> u64 \<Rightarrow> 'a word \<times> u64" where
  "fp_finish re fpcr_mode fpsr =
    fp_flush_output_denormal_bits (fst re) fpcr_mode (fpsr OR host_fp_exceptions_to_fpsr (snd re))"

section \<open>Sums, products and quotients\<close>

datatype host_fp_binary_op = FpAdd | FpSub | FpMul | FpDiv

definition fp_binary_tiny :: "host_fp_binary_op \<Rightarrow> 'a::len word \<Rightarrow> 'a word \<Rightarrow> bool \<times> bool" where
  "fp_binary_tiny oper lhs rhs =
    (case oper of
       FpAdd \<Rightarrow> fp_add_sub_tiny_before_round lhs rhs False
     | FpSub \<Rightarrow> fp_add_sub_tiny_before_round lhs rhs True
     | FpMul \<Rightarrow> fp_mul_tiny_before_round lhs rhs
     | FpDiv \<Rightarrow> fp_div_tiny_before_round lhs rhs)"

definition host_binary ::
  "host_fp_binary_op \<Rightarrow> 'h host_scheme \<Rightarrow> host_rounding \<Rightarrow> 'a::len word \<Rightarrow> 'a word \<Rightarrow> 'a word \<times> host_exceptions" where
  "host_binary oper = (case oper of FpAdd \<Rightarrow> host_add | FpSub \<Rightarrow> host_sub | FpMul \<Rightarrow> host_mul | FpDiv \<Rightarrow> host_div)"

definition fp_binary_arith_bits ::
  "'h host_scheme \<Rightarrow> 'a::len word \<Rightarrow> 'a word \<Rightarrow> u32 \<Rightarrow> host_fp_binary_op \<Rightarrow> 'a word \<times> u64" where
  "fp_binary_arith_bits h lhs rhs fpcr_mode oper =
    (case fp_process_nan_binary lhs rhs fpcr_mode 0 of
       Some r \<Rightarrow> r
     | None \<Rightarrow>
         let (lhs, fpsr) = fp_flush_input_denormal_bits lhs fpcr_mode 0;
             (rhs, fpsr) = fp_flush_input_denormal_bits rhs fpcr_mode fpsr;
             (tiny, negative_result) =
               (if fpcr_flush_to_zero_enabled fpcr_mode then fp_binary_tiny oper lhs rhs else (False, False))
         in if tiny then (fp_zero_bits negative_result, fpsr OR kFpsrUfc)
            else fp_finish (host_binary oper h (fpcr_rounding_mode_to_host fpcr_mode) lhs rhs) fpcr_mode fpsr)"

definition fp_mulx_bits :: "'h host_scheme \<Rightarrow> 'a::len word \<Rightarrow> 'a word \<Rightarrow> u32 \<Rightarrow> 'a word \<times> u64" where
  "fp_mulx_bits h lhs rhs fpcr_mode =
    (case fp_process_nan_binary lhs rhs fpcr_mode 0 of
       Some r \<Rightarrow> r
     | None \<Rightarrow>
         let (lhs, fpsr) = fp_flush_input_denormal_bits lhs fpcr_mode 0;
             (rhs, fpsr) = fp_flush_input_denormal_bits rhs fpcr_mode fpsr;
             (tiny, negative_result) =
               (if fpcr_flush_to_zero_enabled fpcr_mode then fp_mul_tiny_before_round lhs rhs else (False, False))
         in if tiny then (fp_zero_bits negative_result, fpsr OR kFpsrUfc)
            else if fp_is_zero lhs \<and> fp_is_inf_bits rhs \<or> fp_is_zero rhs \<and> fp_is_inf_bits lhs then
              (if (lhs XOR rhs) AND fp_sign_mask_bits \<noteq> 0 then fp_two_bits OR fp_sign_mask_bits else fp_two_bits, fpsr)
            else fp_finish (host_mul h (fpcr_rounding_mode_to_host fpcr_mode) lhs rhs) fpcr_mode fpsr)"

definition fp_fma_bits ::
  "'h host_scheme \<Rightarrow> 'a::len word \<Rightarrow> 'a word \<Rightarrow> 'a word \<Rightarrow> u32 \<Rightarrow> bool \<Rightarrow> bool \<Rightarrow> 'a word \<times> u64" where
  "fp_fma_bits h lhs rhs addend fpcr_mode negate_product negate_addend =
    (let lhs = (if negate_product then lhs XOR fp_sign_mask_bits else lhs);
         addend = (if negate_addend then addend XOR fp_sign_mask_bits else addend) in
     case fp_process_nan_ternary lhs rhs addend fpcr_mode 0 of
       Some r \<Rightarrow> r
     | None \<Rightarrow>
         let (lhs, fpsr) = fp_flush_input_denormal_bits lhs fpcr_mode 0;
             (rhs, fpsr) = fp_flush_input_denormal_bits rhs fpcr_mode fpsr;
             (addend, fpsr) = fp_flush_input_denormal_bits addend fpcr_mode fpsr;
             (tiny, negative_result) =
               (if fpcr_flush_to_zero_enabled fpcr_mode then fp_fma_tiny_before_round lhs rhs addend else (False, False))
         in if tiny then (fp_zero_bits negative_result, fpsr OR kFpsrUfc)
            else fp_finish (host_fma h (fpcr_rounding_mode_to_host fpcr_mode) lhs rhs addend) fpcr_mode fpsr)"

definition fp_sqrt_bits :: "'h host_scheme \<Rightarrow> 'a::len word \<Rightarrow> u32 \<Rightarrow> 'a word \<times> u64" where
  "fp_sqrt_bits h b fpcr_mode =
    (case fp_process_nan_unary b fpcr_mode True 0 of
       Some r \<Rightarrow> r
     | None \<Rightarrow>
         let (b, fpsr) = fp_flush_input_denormal_bits b fpcr_mode 0; sign = fp_is_negative b in
         if fp_is_zero b then (b, fpsr)
         else if fp_is_inf_bits b then (if \<not> sign then (b, fpsr) else (fp_default_nan_bits, fpsr OR kFpsrIoc))
         else if sign then (fp_default_nan_bits, fpsr OR kFpsrIoc)
         else if fpcr_flush_to_zero_enabled fpcr_mode \<and> fp_sqrt_tiny_before_round b
              then (fp_zero_bits False, fpsr OR kFpsrUfc)
         else fp_finish (host_sqrt h (fpcr_rounding_mode_to_host fpcr_mode) b) fpcr_mode fpsr)"

section \<open>Minimum and maximum\<close>

definition fp_minmax_result_bits :: "'a::len word \<Rightarrow> 'a word \<Rightarrow> u32 \<Rightarrow> bool \<Rightarrow> bool \<Rightarrow> 'a word \<times> u64" where
  "fp_minmax_result_bits lhs rhs fpcr_mode is_min numeric_variant =
    (let (lhs, fpsr) = fp_flush_input_denormal_bits lhs fpcr_mode 0;
         (rhs, fpsr) = fp_flush_input_denormal_bits rhs fpcr_mode fpsr;
         default_nan = fpcr_default_nan_enabled fpcr_mode;
         finalize = (\<lambda>r fpsr. if numeric_variant then fp_flush_output_denormal_bits r fpcr_mode fpsr else (r, fpsr))
     in if fp_is_signaling_nan_bits lhs then
          finalize (if default_nan then fp_default_nan_bits else fp_quiet_nan_bits lhs) (fpsr OR kFpsrIoc)
        else if fp_is_signaling_nan_bits rhs then
          finalize (if default_nan then fp_default_nan_bits else fp_quiet_nan_bits rhs) (fpsr OR kFpsrIoc)
        else if numeric_variant \<and> fp_is_nan_bits lhs \<and> fp_is_nan_bits rhs then
          finalize (if default_nan then fp_default_nan_bits else lhs) fpsr
        else if numeric_variant \<and> fp_is_nan_bits lhs then finalize rhs fpsr
        else if numeric_variant \<and> fp_is_nan_bits rhs then finalize lhs fpsr
        else if fp_is_nan_bits lhs \<or> fp_is_nan_bits rhs then
          finalize (if default_nan then fp_default_nan_bits else if fp_is_nan_bits lhs then lhs else rhs) fpsr
        else if host_less lhs rhs then finalize (if is_min then lhs else rhs) fpsr
        else if host_less rhs lhs then finalize (if is_min then rhs else lhs) fpsr
        else if fp_is_zero lhs \<and> fp_is_zero rhs then finalize (if is_min then lhs OR rhs else lhs AND rhs) fpsr
        else finalize lhs fpsr)"

section \<open>Estimates\<close>

definition fp_recip_estimate_integer :: "u32 \<Rightarrow> bool \<Rightarrow> u32" where
  "fp_recip_estimate_integer a_in increased_precision =
    (let a = ucast a_in * 2 + 1 :: u64;
         b = (if increased_precision then push_bit 26 1 else push_bit 19 1) div a
     in ucast ((b + 1) div 2))"

text \<open>The loop that counts up to the root; its operand is never zero and its numbers stay far below \<open>2 ^ 64\<close>.\<close>
function rsqrt_estimate_loop :: "nat \<Rightarrow> nat \<Rightarrow> nat \<Rightarrow> nat" where
  "rsqrt_estimate_loop limit a b =
    (if a \<noteq> 0 \<and> a * (b + 1) * (b + 1) < limit then rsqrt_estimate_loop limit a (b + 1) else b)"
  by auto
termination
proof (relation "measure (\<lambda>(limit, a, b). limit - b)")
  fix limit a b :: nat
  assume c: "a \<noteq> 0 \<and> a * (b + 1) * (b + 1) < limit"
  have "b + 1 \<le> (b + 1) * (b + 1)" by simp
  also have "\<dots> \<le> a * ((b + 1) * (b + 1))"
    using mult_le_mono1 [of 1 a "(b + 1) * (b + 1)"] c by (simp only: mult_1 One_nat_def) linarith
  finally have "b < limit" using c by (simp only: mult.assoc) linarith
  then show "((limit, a, b + 1), limit, a, b) \<in> measure (\<lambda>(limit, a, b). limit - b)" by simp
qed simp

declare rsqrt_estimate_loop.simps [simp del]

definition fp_rsqrt_estimate_integer :: "u32 \<Rightarrow> bool \<Rightarrow> u32" where
  "fp_rsqrt_estimate_integer a_in increased_precision =
    (let a = unat a_in;
         small = (if increased_precision then 2048 else 256);
         a = (if a < small then a * 2 + 1 else (a - a mod 2 + 1) * 2);
         b = rsqrt_estimate_loop (if increased_precision then 2 ^ 39 else 2 ^ 28) a
               (if increased_precision then 8192 else 512)
     in of_nat ((b + 1) div 2))"

definition advsimd_unsigned_recip_estimate_bits :: "u32 \<Rightarrow> u32" where
  "advsimd_unsigned_recip_estimate_bits operand =
    (if drop_bit 31 operand = 0 then 0xFFFFFFFF
     else push_bit 23 (fp_recip_estimate_integer (drop_bit 23 operand AND 0x1FF) False AND 0x1FF))"

definition advsimd_unsigned_rsqrt_estimate_bits :: "u32 \<Rightarrow> u32" where
  "advsimd_unsigned_rsqrt_estimate_bits operand =
    (if drop_bit 30 operand AND 0x3 = 0 then 0xFFFFFFFF
     else push_bit 23 (fp_rsqrt_estimate_integer (drop_bit 23 operand AND 0x1FF) False AND 0x1FF))"

definition fp_round_overflow_to_inf :: "u32 \<Rightarrow> bool \<Rightarrow> bool" where
  "fp_round_overflow_to_inf mode sign =
    (let m = mode AND 0x3 in if m = 0 then True else if m = 1 then \<not> sign else if m = 2 then sign else False)"

text \<open>The fraction as 52 bits, whatever the format.\<close>
definition fp_fraction52 :: "'a::len word \<Rightarrow> u64" where
  "fp_fraction52 b = (if LENGTH('a) = 32 then push_bit 29 (ucast (fp_frac_field b)) else ucast (fp_frac_field b))"

text \<open>The increased precision of the source is a constant false.\<close>
definition fp_recip_estimate_bits :: "'a::len word \<Rightarrow> u32 \<Rightarrow> 'a word \<times> u64" where
  "fp_recip_estimate_bits b fpcr_mode =
    (case fp_process_nan_unary b fpcr_mode True 0 of
       Some r \<Rightarrow> r
     | None \<Rightarrow>
         let (b, fpsr) = fp_flush_input_denormal_bits b fpcr_mode 0; sign = fp_is_negative b;
             ex = fp_exp_field b; frac = fp_frac_field b;
             huge = (if LENGTH('a) = 32 then push_bit 21 1 else push_bit 50 1)
         in if ex = drop_bit (fp_frac_bits_count TYPE('a)) fp_exp_mask_bits \<and> frac = 0 then (fp_zero_bits sign, fpsr)
            else if ex = 0 \<and> frac = 0 then (fp_inf_bits sign, fpsr OR kFpsrDzc)
            else if ex = 0 \<and> frac < huge then
              (if fp_round_overflow_to_inf fpcr_mode sign then fp_inf_bits sign else fp_max_normal_bits sign,
               fpsr OR kFpsrOfc OR kFpsrIxc)
            else
              let fraction = fp_fraction52 b;
                  (exp_value, fraction) =
                    (if ex = 0 then
                       (if fraction AND push_bit 51 1 = 0 then (-1, push_bit 2 (fraction AND (push_bit 50 1 - 1)))
                        else (0, push_bit 1 (fraction AND (push_bit 51 1 - 1))))
                     else (int (unat ex), fraction));
                  scaled = 0x100 OR ucast (drop_bit 44 fraction AND 0xFF);
                  result_exp = (if LENGTH('a) = 32 then 253 else 2045) - exp_value;
                  estimate = fp_recip_estimate_integer scaled False;
                  fraction = push_bit 44 (ucast (estimate AND 0xFF)) :: u64;
                  (result_exp, fraction) =
                    (if result_exp = 0 then (0, push_bit 51 1 OR drop_bit 1 fraction)
                     else if result_exp = -1 then (0, push_bit 50 1 OR drop_bit 2 fraction)
                     else (result_exp, fraction));
                  result = (if LENGTH('a) = 32
                            then fp_zero_bits sign OR push_bit 23 (of_int result_exp) OR
                                 ucast (drop_bit 29 fraction AND 0x007FFFFF)
                            else fp_zero_bits sign OR push_bit 52 (of_int result_exp) OR
                                 ucast (fraction AND 0x000FFFFFFFFFFFFF))
              in fp_flush_output_denormal_bits result fpcr_mode fpsr)"

text \<open>The loop that moves the first set bit of a nonzero fraction to bit 51; 52 steps are enough.\<close>
fun normalize_fraction :: "nat \<Rightarrow> u64 \<Rightarrow> int \<Rightarrow> u64 \<times> int" where
  "normalize_fraction 0 fraction exp_value = (fraction, exp_value)"
| "normalize_fraction (Suc n) fraction exp_value =
    (if fraction AND push_bit 51 1 = 0 then normalize_fraction n (push_bit 1 fraction) (exp_value - 1)
     else (fraction, exp_value))"

definition fp_rsqrt_estimate_bits :: "'a::len word \<Rightarrow> u32 \<Rightarrow> 'a word \<times> u64" where
  "fp_rsqrt_estimate_bits b fpcr_mode =
    (case fp_process_nan_unary b fpcr_mode True 0 of
       Some r \<Rightarrow> r
     | None \<Rightarrow>
         let (b, fpsr) = fp_flush_input_denormal_bits b fpcr_mode 0; sign = fp_is_negative b;
             ex = fp_exp_field b; frac = fp_frac_field b
         in if ex = drop_bit (fp_frac_bits_count TYPE('a)) fp_exp_mask_bits \<and> frac = 0 then
              (if sign then (fp_default_nan_bits, fpsr OR kFpsrIoc) else (fp_zero_bits False, fpsr))
            else if ex = 0 \<and> frac = 0 then (fp_inf_bits sign, fpsr OR kFpsrDzc)
            else if sign then (fp_default_nan_bits, fpsr OR kFpsrIoc)
            else
              let (fraction, exp_value) =
                    (if ex = 0 then (case normalize_fraction 52 (fp_fraction52 b) 0 of (f, x) \<Rightarrow> (push_bit 1 f, x))
                     else (fp_fraction52 b, int (unat ex)));
                  scaled = (if even exp_value then 0x100 OR ucast (drop_bit 44 fraction AND 0xFF)
                            else 0x080 OR ucast (drop_bit 45 fraction AND 0x7F));
                  estimate = fp_rsqrt_estimate_integer scaled False;
                  result = (if LENGTH('a) = 32
                            then push_bit 23 (of_int ((380 - exp_value) div 2)) OR ucast (push_bit 15 (estimate AND 0xFF))
                            else push_bit 52 (of_int ((3068 - exp_value) div 2)) OR
                                 ucast (push_bit 44 (ucast (estimate AND 0xFF) :: u64)))
              in fp_flush_output_denormal_bits result fpcr_mode fpsr)"

definition fp_recip_exponent_bits :: "'a::len word \<Rightarrow> u32 \<Rightarrow> 'a word \<times> u64" where
  "fp_recip_exponent_bits b fpcr_mode =
    (if fp_is_nan_bits b then fp_process_nan_operand_bits b fpcr_mode True 0
     else
       let (b, fpsr) = fp_flush_input_denormal_bits b fpcr_mode 0; frac_bits = fp_frac_bits_count TYPE('a);
           all_ones = drop_bit frac_bits fp_exp_mask_bits; ex = fp_exp_field b;
           result_exp = (if ex = 0 then all_ones - 1 else NOT ex AND all_ones)
       in ((b AND fp_sign_mask_bits) OR push_bit frac_bits result_exp, fpsr))"

section \<open>Steps\<close>

text \<open>The product of two finite values in \<open>long double\<close>, rounded to nearest, is minus the number \<open>k\<close>:
  the test of the source that the product plus \<open>k\<close> is zero.\<close>
definition long_double_product_is_minus :: "'h host_scheme \<Rightarrow> 'a::len word \<Rightarrow> 'a word \<Rightarrow> nat \<Rightarrow> bool" where
  "long_double_product_is_minus h a b k =
    (let m = fp_mantissa a * fp_mantissa b; e = fp_exponent a + fp_exponent b;
         neg = (fp_is_negative a \<noteq> fp_is_negative b);
         ulp = e + int (bit_length m) - int (h_long_double_bits h);
         q = fst (round_at FE_TONEAREST neg m e False ulp)
     in neg \<and> m \<noteq> 0 \<and> (if ulp \<ge> 0 then q * 2 ^ nat ulp = k else q = k * 2 ^ nat (- ulp)))"

text \<open>The float of a small number: 2 and 3.\<close>
definition fp_small_number :: "nat \<Rightarrow> 'a::len word" where
  "fp_small_number k = (if k = 2 then fp_two_bits else fp_two_bits OR fp_quiet_nan_bit)"

definition fp_step_fused ::
  "nat \<Rightarrow> 'a::len word \<Rightarrow> ('a word \<Rightarrow> 'a word \<Rightarrow> 'a word \<times> host_exceptions) \<Rightarrow>
   'h host_scheme \<Rightarrow> 'a word \<Rightarrow> 'a word \<Rightarrow> u32 \<Rightarrow> 'a word \<times> u64" where
  "fp_step_fused k special f h op1_in op2 fpcr_mode =
    (let op1 = op1_in XOR fp_sign_mask_bits in
     case fp_process_nan_binary op1 op2 fpcr_mode 0 of
       Some r \<Rightarrow> r
     | None \<Rightarrow>
         let (lhs, fpsr) = fp_flush_input_denormal_bits op1 fpcr_mode 0;
             (rhs, fpsr) = fp_flush_input_denormal_bits op2 fpcr_mode fpsr
         in if fp_is_inf_bits lhs \<and> fp_is_zero rhs \<or> fp_is_zero lhs \<and> fp_is_inf_bits rhs then (special, fpsr)
            else if fp_is_inf_bits lhs \<or> fp_is_inf_bits rhs then
              (fp_inf_bits (fp_is_negative lhs \<noteq> fp_is_negative rhs), fpsr)
            else if long_double_product_is_minus h lhs rhs k then (fp_zero_bits (fpcr_mode AND 0x3 = 2), fpsr)
            else fp_finish (f lhs rhs) fpcr_mode fpsr)"

definition fp_recip_step_fused_bits :: "'h host_scheme \<Rightarrow> 'a::len word \<Rightarrow> 'a word \<Rightarrow> u32 \<Rightarrow> 'a word \<times> u64" where
  "fp_recip_step_fused_bits h op1 op2 fpcr_mode =
    fp_step_fused 2 fp_two_bits
      (\<lambda>a b. host_fma h (fpcr_rounding_mode_to_host fpcr_mode) a b (fp_small_number 2)) h op1 op2 fpcr_mode"

definition fp_rsqrt_step_fused_bits :: "'h host_scheme \<Rightarrow> 'a::len word \<Rightarrow> 'a word \<Rightarrow> u32 \<Rightarrow> 'a word \<times> u64" where
  "fp_rsqrt_step_fused_bits h op1 op2 fpcr_mode =
    fp_step_fused 3 fp_one_point_five_bits
      (\<lambda>a b. let mode = fpcr_rounding_mode_to_host fpcr_mode;
                 (numerator, e1) = host_fma h mode a b (fp_small_number 3);
                 (result, e2) = host_halve h mode numerator
             in (result, joined_exceptions e1 e2)) h op1 op2 fpcr_mode"

end
