(* ===== verification/Cpu_Fp_Convert.thy ===== *)
theory Cpu_Fp_Convert
  imports Cpu_Fp_Arith
begin

text \<open>
  The conversions of \<open>src/src/cpu.cpp\<close> between the floating-point formats and between them and the
  integers. The conversions to integers go through \<open>long double\<close>, in which a float or a double is exact:
  such a value is the pattern it came from.
\<close>

section \<open>Rounding a significand\<close>

text \<open>The quotient rounded, with the flag \<open>inexact\<close>.\<close>
definition fp_round_shift_right :: "u64 \<Rightarrow> nat \<Rightarrow> u32 \<Rightarrow> bool \<Rightarrow> u64 \<times> bool" where
  "fp_round_shift_right v shift mode sign =
    (let m = mode AND 0x3 in
     if shift = 0 then (v, False)
     else if v = 0 then (0, False)
     else if shift \<ge> 128 then
       (if m = 1 then if sign then 0 else 1 else if m = 2 then if sign then 1 else 0 else 0, True)
     else
       let (quotient, remainder) = (if shift \<ge> 64 then (0, v) else (drop_bit shift v, v AND ones shift));
           half = push_bit (shift - 1) 1;
           round_up = (if m = 0 then shift < 64 \<and> (remainder > half \<or> remainder = half \<and> quotient AND 1 \<noteq> 0)
                       else if m = 1 then \<not> sign else if m = 2 then sign else False)
       in if remainder = 0 then (quotient, False) else (quotient + (if round_up then 1 else 0), True))"

definition round_shift_right_odd :: "u64 \<Rightarrow> nat \<Rightarrow> u64 \<times> bool" where
  "round_shift_right_odd v shift =
    (let (quotient, remainder) = (if shift \<ge> 64 then (0, v) else (drop_bit shift v, v AND ones shift));
         inexact = (remainder \<noteq> 0)
     in (if inexact \<and> quotient AND 1 = 0 then quotient + 1 else quotient, inexact))"

section \<open>Double to single\<close>

text \<open>An infinity or a NaN.\<close>
definition fp64_special_to_fp32 :: "u64 \<Rightarrow> u32 \<Rightarrow> u32 \<times> u64" where
  "fp64_special_to_fp32 b fpcr_mode =
    (let sign_bit = fp_zero_bits (fp_is_negative b); frac = fp_frac_field b;
         fpsr = (if fp_is_signaling_nan_bits b then kFpsrIoc else 0);
         payload = ucast (drop_bit 29 frac) OR 0x00400000
     in if frac = 0 then (sign_bit OR 0x7F800000, 0)
        else if fpcr_default_nan_enabled fpcr_mode then (fp_default_nan_bits, fpsr)
        else
          let payload = (if payload AND 0x003FFFFF = 0 then payload OR 1 else payload)
          in (sign_bit OR 0x7F800000 OR (payload AND 0x007FFFFF), fpsr))"

text \<open>The significand of a finite nonzero value with its top bit at \<open>frac_bits\<close>, and the exponent of that bit.\<close>
definition fp_unpack :: "'a::len word \<Rightarrow> u64 \<times> int" where
  "fp_unpack b =
    (let frac_bits = fp_frac_bits_count TYPE('a); frac = ucast (fp_frac_field b) :: u64 in
     if fp_exp_field b = 0 then
       (let msb = 63 - builtin_clz frac; normalize_shift = frac_bits - msb
        in (push_bit normalize_shift frac, 1 - fp_exp_bias TYPE('a) - int normalize_shift))
     else (push_bit frac_bits 1 OR frac, int (unat (fp_exp_field b)) - fp_exp_bias TYPE('a)))"

definition fp64_to_fp32_overflow :: "u32 \<Rightarrow> bool \<Rightarrow> u64 \<Rightarrow> u32 \<times> u64" where
  "fp64_to_fp32_overflow fpcr_mode sign fpsr =
    (let m = fpcr_mode AND 0x3; to_inf = (m = 0 \<or> m = 1 \<and> \<not> sign \<or> m = 2 \<and> sign)
     in (fp_zero_bits sign OR (if to_inf then 0x7F800000 else 0x7F7FFFFF), fpsr OR kFpsrOfc OR kFpsrIxc))"

text \<open>The common end: the significand rounded by \<open>f\<close> for the exponent, the overflow and the underflow.\<close>
definition fp64_round_to_fp32 ::
  "(u64 \<Rightarrow> nat \<Rightarrow> u64 \<times> bool) \<Rightarrow> (u64 \<Rightarrow> u32 \<times> u64) \<Rightarrow> bool \<Rightarrow> u64 \<Rightarrow> u32 \<Rightarrow> u64 \<Rightarrow> u32 \<times> u64" where
  "fp64_round_to_fp32 f overflow_result to_normal b fpcr_mode fpsr =
    (let sign_bit = fp_zero_bits (fp_is_negative b); (significand, exponent) = fp_unpack b in
     if exponent > 127 then overflow_result fpsr
     else if fpcr_flush_to_zero_enabled fpcr_mode \<and> exponent < -126 then (sign_bit, fpsr OR kFpsrUfc)
     else if exponent \<ge> -126 then
       (let (rounded, inexact) = f significand 29;
            (rounded, exponent) = (if rounded = push_bit 24 1 then (drop_bit 1 rounded, exponent + 1) else (rounded, exponent))
        in if exponent > 127 then overflow_result fpsr
           else fp_flush_output_denormal_bits
                  (sign_bit OR push_bit 23 (of_int (exponent + 127)) OR (ucast rounded AND 0x007FFFFF)) fpcr_mode
                  (if inexact then fpsr OR kFpsrIxc else fpsr))
     else
       let (rounded, inexact) = f significand (29 + nat (-126 - exponent));
           fpsr = (if inexact then fpsr OR kFpsrUfc OR kFpsrIxc else fpsr)
       in if to_normal \<and> rounded \<ge> push_bit 23 1 then (sign_bit OR 0x00800000, fpsr)
          else fp_flush_output_denormal_bits (sign_bit OR ucast rounded) fpcr_mode fpsr)"

definition fp64_to_fp32_bits :: "u64 \<Rightarrow> u32 \<Rightarrow> u32 \<times> u64" where
  "fp64_to_fp32_bits b fpcr_mode =
    (if fp_exp_field b = 0x7FF then fp64_special_to_fp32 b fpcr_mode
     else
       let (b, fpsr) = fp_flush_input_denormal_bits b fpcr_mode 0; sign = fp_is_negative b
       in if fp_exp_field b = 0 \<and> fp_frac_field b = 0 then (fp_zero_bits sign, fpsr)
          else fp64_round_to_fp32 (\<lambda>s shift. fp_round_shift_right s shift fpcr_mode sign)
                 (fp64_to_fp32_overflow fpcr_mode sign) True b fpcr_mode fpsr)"

definition fp64_to_fp32_bits_round_to_odd :: "u64 \<Rightarrow> u32 \<Rightarrow> u32 \<times> u64" where
  "fp64_to_fp32_bits_round_to_odd b fpcr_mode =
    (if fp_exp_field b = 0x7FF then fp64_special_to_fp32 b fpcr_mode
     else
       let (b, fpsr) = fp_flush_input_denormal_bits b fpcr_mode 0; sign = fp_is_negative b
       in if fp_exp_field b = 0 \<and> fp_frac_field b = 0 then (fp_zero_bits sign, fpsr)
          else fp64_round_to_fp32 round_shift_right_odd
                 (\<lambda>fpsr. (fp_zero_bits sign OR 0x7F7FFFFF, fpsr OR kFpsrOfc OR kFpsrIxc)) False b fpcr_mode fpsr)"

section \<open>Single to double\<close>

definition fp32_to_fp64_bits :: "'h host_scheme \<Rightarrow> u32 \<Rightarrow> u32 \<Rightarrow> u64 \<times> u64" where
  "fp32_to_fp64_bits h b fpcr_mode =
    (let sign_bit = fp_zero_bits (fp_is_negative b); frac = fp_frac_field b;
         ioc = (if fp_is_signaling_nan_bits b then kFpsrIoc else 0)
     in if fp_exp_field b = 0xFF then
          (if frac = 0 then (sign_bit OR 0x7FF0000000000000, 0)
           else if fpcr_default_nan_enabled fpcr_mode then (fp_default_nan_bits, ioc)
           else
             let payload = push_bit 29 (ucast frac) OR 0x0008000000000000
             in (sign_bit OR 0x7FF0000000000000 OR (payload AND 0x000FFFFFFFFFFFFF), ioc))
        else
          let (b, fpsr) = fp_flush_input_denormal_bits b fpcr_mode 0
          in if fp_exp_field b = 0 \<and> fp_frac_field b = 0 then (fp_zero_bits (fp_is_negative b), fpsr)
             else (host_widen h b, fpsr))"

section \<open>Half precision\<close>

text \<open>The loop that normalises a half-precision fraction, which is not zero; ten steps are enough.\<close>
fun normalize_half :: "nat \<Rightarrow> u32 \<Rightarrow> int \<Rightarrow> u32 \<times> int" where
  "normalize_half 0 frac exponent = (frac, exponent)"
| "normalize_half (Suc n) frac exponent =
    (if frac AND 0x400 = 0 then normalize_half n (push_bit 1 frac) (exponent - 1) else (frac, exponent))"

definition fp16_nan_to_fp :: "u16 \<Rightarrow> u32 \<Rightarrow> 'a::len word \<times> u64" where
  "fp16_nan_to_fp b fpcr_mode =
    (let fpsr = (if b AND 0x0200 = 0 then kFpsrIoc else 0);
         shift = fp_frac_bits_count TYPE('a) - 10;
         payload = push_bit shift (ucast (b AND 0x03FF)) OR fp_quiet_nan_bit
     in if fpcr_default_nan_enabled fpcr_mode then (fp_default_nan_bits, fpsr)
        else
          let payload = (if payload AND (fp_quiet_nan_bit - 1) = 0 then payload OR 1 else payload)
          in (fp_zero_bits (fp_is_negative b) OR fp_exp_mask_bits OR (payload AND fp_frac_mask_bits), fpsr))"

definition fp16_to_fp_bits :: "u16 \<Rightarrow> u32 \<Rightarrow> 'a::len word \<times> u64" where
  "fp16_to_fp_bits b fpcr_mode =
    (let alt_hp = fpcr_alternative_half_enabled fpcr_mode;
         sign_bit = fp_zero_bits (fp_is_negative b);
         ex = ucast (drop_bit 10 (b AND 0x7C00)) :: u32; frac = ucast (b AND 0x03FF) :: u32;
         shift = fp_frac_bits_count TYPE('a)
     in if ex = 31 \<and> \<not> alt_hp then
          (if frac = 0 then (sign_bit OR fp_exp_mask_bits, 0) else fp16_nan_to_fp b fpcr_mode)
        else if ex = 0 \<and> frac = 0 then (sign_bit, 0)
        else
          let (normalized_frac, exponent) =
                (if ex = 0 then (case normalize_half 10 frac (-14) of (f, x) \<Rightarrow> (f AND 0x03FF, x))
                 else (frac, if alt_hp \<and> ex = 31 then 16 else int (unat ex) - 15))
          in (sign_bit OR push_bit shift (of_int (exponent + fp_exp_bias TYPE('a))) OR
              push_bit (shift - 10) (ucast normalized_frac), 0))"

definition fp_special_to_fp16 :: "'a::len word \<Rightarrow> u32 \<Rightarrow> u16 \<times> u64" where
  "fp_special_to_fp16 b fpcr_mode =
    (let alt_hp = fpcr_alternative_half_enabled fpcr_mode; frac = fp_frac_field b;
         sign_bit = fp_zero_bits (fp_is_negative b);
         fpsr = (if fp_is_signaling_nan_bits b then kFpsrIoc else 0);
         payload = ucast (drop_bit (fp_frac_bits_count TYPE('a) - 10) frac) OR 0x0200
     in if frac = 0 then (if alt_hp then (sign_bit OR 0x7FFF, kFpsrIoc) else (sign_bit OR 0x7C00, 0))
        else if alt_hp then (sign_bit, kFpsrIoc)
        else if fpcr_default_nan_enabled fpcr_mode then (fp_default_nan_bits, fpsr)
        else
          let payload = (if payload AND 0x03FF = 0x0200 then payload OR 1 else payload)
          in (sign_bit OR 0x7C00 OR (payload AND 0x03FF), fpsr))"

definition fp_to_fp16_overflow :: "u32 \<Rightarrow> bool \<Rightarrow> u64 \<Rightarrow> u16 \<times> u64" where
  "fp_to_fp16_overflow fpcr_mode sign fpsr =
    (if fpcr_alternative_half_enabled fpcr_mode then (fp_zero_bits sign OR 0x7FFF, fpsr OR kFpsrIoc)
     else (fp_zero_bits sign OR (if fp_round_overflow_to_inf fpcr_mode sign then 0x7C00 else 0x7BFF),
           fpsr OR kFpsrOfc OR kFpsrIxc))"

definition fp_to_fp16_bits :: "'a::len word \<Rightarrow> u32 \<Rightarrow> u16 \<times> u64" where
  "fp_to_fp16_bits b fpcr_mode =
    (let frac_bits = fp_frac_bits_count TYPE('a); half_max_exp = (if fpcr_alternative_half_enabled fpcr_mode then 16 else 15) in
     if unat (fp_exp_field b) = 2 ^ fp_exp_bits_count TYPE('a) - 1 then fp_special_to_fp16 b fpcr_mode
     else
       let (b, fpsr) = fp_flush_input_denormal_bits b fpcr_mode 0; sign = fp_is_negative b;
           sign_bit = fp_zero_bits sign; round_shift = frac_bits - 10; (significand, exponent) = fp_unpack b
       in if fp_exp_field b = 0 \<and> fp_frac_field b = 0 then (sign_bit, fpsr)
          else if exponent > half_max_exp then fp_to_fp16_overflow fpcr_mode sign fpsr
          else if exponent \<ge> -14 then
            (let (rounded, inexact) = fp_round_shift_right significand round_shift fpcr_mode sign;
                 (rounded, exponent) = (if rounded = push_bit 11 1 then (drop_bit 1 rounded, exponent + 1) else (rounded, exponent))
             in if exponent > half_max_exp then fp_to_fp16_overflow fpcr_mode sign fpsr
                else (sign_bit OR push_bit 10 (of_int (exponent + 15)) OR ucast (rounded AND 0x03FF),
                      if inexact then fpsr OR kFpsrIxc else fpsr))
          else
            let (rounded, inexact) = fp_round_shift_right significand (round_shift + nat (-14 - exponent)) fpcr_mode sign;
                fpsr = (if inexact then fpsr OR kFpsrUfc OR kFpsrIxc else fpsr)
            in if rounded \<ge> push_bit 10 1 then (sign_bit OR 0x0400, fpsr) else (sign_bit OR ucast rounded, fpsr))"

section \<open>Integers to floating point\<close>

text \<open>An integer of any of the source's types: its sign and its magnitude.\<close>
definition fp_int_to_fp_bits :: "int \<Rightarrow> u32 \<Rightarrow> 'a::len word \<times> u64" where
  "fp_int_to_fp_bits v fpcr_mode =
    (let frac_bits = fp_frac_bits_count TYPE('a); bias = fp_exp_bias TYPE('a); sign = v < 0;
         sign_bit = fp_zero_bits sign; magnitude = word_of_int \<bar>v\<bar> :: u64; leading = 63 - builtin_clz magnitude
     in if magnitude = 0 then (0, 0)
        else if leading \<le> frac_bits then
          (sign_bit OR push_bit frac_bits (of_int (int leading + bias)) OR
           (ucast (push_bit (frac_bits - leading) magnitude) AND fp_frac_mask_bits), 0)
        else
          let (rounded, inexact) = fp_round_shift_right magnitude (leading - frac_bits) fpcr_mode sign;
              (rounded, exponent) =
                (if rounded = push_bit (frac_bits + 1) 1 then (drop_bit 1 rounded, int leading + 1) else (rounded, int leading))
          in (sign_bit OR push_bit frac_bits (of_int (exponent + bias)) OR (ucast rounded AND fp_frac_mask_bits),
              if inexact then kFpsrIxc else 0))"

section \<open>Floating point to integers\<close>

definition fp_to_int_input_value :: "'a::len word \<Rightarrow> u32 \<Rightarrow> u64 \<Rightarrow> 'a word \<times> u64" where
  "fp_to_int_input_value b fpcr_mode fpsr = fp_flush_input_denormal_bits b fpcr_mode fpsr"

text \<open>A finite value as an integer over a power of two.\<close>
definition fp_numerator :: "'a::len word \<Rightarrow> int" where
  "fp_numerator b =
    (let m = signed_mag (fp_is_negative b) (fp_mantissa b) in if fp_exponent b \<ge> 0 then m * 2 ^ nat (fp_exponent b) else m)"

definition fp_denominator :: "'a::len word \<Rightarrow> int" where
  "fp_denominator b = (if fp_exponent b \<ge> 0 then 1 else 2 ^ nat (- fp_exponent b))"

text \<open>\<open>std::floor\<close>, \<open>std::trunc\<close> and the difference from the floor, in units of the denominator.\<close>
definition fp_floor_int :: "'a::len word \<Rightarrow> int" where "fp_floor_int b = fp_numerator b div fp_denominator b"
definition fp_floor_error :: "'a::len word \<Rightarrow> int" where "fp_floor_error b = fp_numerator b mod fp_denominator b"
definition fp_trunc_int :: "'a::len word \<Rightarrow> int" where
  "fp_trunc_int b = sgn (fp_numerator b) * (\<bar>fp_numerator b\<bar> div fp_denominator b)"

definition fp_below_zero :: "'a::len word \<Rightarrow> bool" where
  "fp_below_zero b \<longleftrightarrow> fp_is_negative b \<and> \<not> fp_is_zero b"

text \<open>The results are the words of the integers; \<open>w\<close> is the width of the integer type.\<close>
definition fp_to_unsigned_rtz :: "nat \<Rightarrow> 'a::len word \<Rightarrow> u64 \<times> u64" where
  "fp_to_unsigned_rtz w b =
    (if fp_is_nan_bits b then (0, kFpsrIoc)
     else if fp_is_inf_bits b \<or> fp_below_zero b \<or> fp_numerator b \<ge> 2 ^ w * fp_denominator b then
       (if fp_below_zero b then 0 else ones w, kFpsrIoc)
     else (word_of_int (fp_trunc_int b), if fp_trunc_int b * fp_denominator b \<noteq> fp_numerator b then kFpsrIxc else 0))"

definition fp_to_signed_rtz :: "nat \<Rightarrow> 'a::len word \<Rightarrow> u64 \<times> u64" where
  "fp_to_signed_rtz w b =
    (if fp_is_nan_bits b then (0, kFpsrIoc)
     else if fp_is_inf_bits b \<or> fp_numerator b < - (2 ^ (w - 1)) * fp_denominator b \<or>
             fp_numerator b \<ge> 2 ^ (w - 1) * fp_denominator b then
       (word_of_int (if fp_below_zero b then - (2 ^ (w - 1)) else 2 ^ (w - 1) - 1), kFpsrIoc)
     else (word_of_int (fp_trunc_int b), if fp_trunc_int b * fp_denominator b \<noteq> fp_numerator b then kFpsrIxc else 0))"

text \<open>The error is compared with one half: its numerator twice with the denominator.\<close>
definition fp_round_up_from_floor :: "int \<Rightarrow> int \<Rightarrow> int \<Rightarrow> fp_to_int_rounding_mode \<Rightarrow> bool" where
  "fp_round_up_from_floor error denominator floor_value rounding =
    (case rounding of
       TieEven \<Rightarrow> 2 * error > denominator \<or> 2 * error = denominator \<and> odd floor_value
     | PosInf \<Rightarrow> error \<noteq> 0
     | NegInf \<Rightarrow> False
     | RoundZero \<Rightarrow> error \<noteq> 0 \<and> floor_value < 0
     | TieAway \<Rightarrow> 2 * error > denominator \<or> 2 * error = denominator \<and> floor_value \<ge> 0)"

definition fp_round_to_int :: "fp_to_int_rounding_mode \<Rightarrow> 'a::len word \<Rightarrow> int" where
  "fp_round_to_int rounding b =
    (let f = fp_floor_int b
     in if fp_round_up_from_floor (fp_floor_error b) (fp_denominator b) f rounding then f + 1 else f)"

definition fp_to_unsigned_round :: "nat \<Rightarrow> 'a::len word \<Rightarrow> fp_to_int_rounding_mode \<Rightarrow> u64 \<times> u64" where
  "fp_to_unsigned_round w b rounding =
    (let int_result = fp_round_to_int rounding b in
     if fp_is_nan_bits b then (0, kFpsrIoc)
     else if fp_is_inf_bits b then (if fp_below_zero b then 0 else ones w, kFpsrIoc)
     else if int_result < 0 \<or> int_result > 2 ^ w - 1 then (if int_result < 0 then 0 else ones w, kFpsrIoc)
     else (word_of_int int_result, if fp_floor_error b \<noteq> 0 then kFpsrIxc else 0))"

definition fp_to_signed_round :: "nat \<Rightarrow> 'a::len word \<Rightarrow> fp_to_int_rounding_mode \<Rightarrow> u64 \<times> u64" where
  "fp_to_signed_round w b rounding =
    (let int_result = fp_round_to_int rounding b; lo = - (2 ^ (w - 1)); hi = 2 ^ (w - 1) - 1 in
     if fp_is_nan_bits b then (0, kFpsrIoc)
     else if fp_is_inf_bits b then (word_of_int (if fp_below_zero b then lo else hi), kFpsrIoc)
     else if int_result < lo \<or> int_result > hi then (word_of_int (if int_result < 0 then lo else hi), kFpsrIoc)
     else (word_of_int int_result, if fp_floor_error b \<noteq> 0 then kFpsrIxc else 0))"

section \<open>Rounding to an integral value\<close>

text \<open>An integer magnitude with the sign of the operand, as \<open>std::copysign\<close> gives it.\<close>
definition fp_integral :: "'h host_scheme \<Rightarrow> bool \<Rightarrow> nat \<Rightarrow> 'a::len word" where
  "fp_integral h neg n = (if n = 0 then fp_zero_bits neg else fst (host_round h FE_TONEAREST neg n 0 False))"

text \<open>\<open>std::floor\<close>, \<open>std::ceil\<close> and \<open>std::trunc\<close>: a zero result takes the sign of the operand.\<close>
definition fp_floor :: "'h host_scheme \<Rightarrow> 'a::len word \<Rightarrow> 'a word" where
  "fp_floor h b = fp_integral h (fp_is_negative b) (nat \<bar>fp_floor_int b\<bar>)"

definition fp_ceil :: "'h host_scheme \<Rightarrow> 'a::len word \<Rightarrow> 'a word" where
  "fp_ceil h b =
    fp_integral h (fp_is_negative b) (nat \<bar>if fp_floor_error b = 0 then fp_floor_int b else fp_floor_int b + 1\<bar>)"

definition fp_trunc :: "'h host_scheme \<Rightarrow> 'a::len word \<Rightarrow> 'a word" where
  "fp_trunc h b = fp_integral h (fp_is_negative b) (nat \<bar>fp_trunc_int b\<bar>)"

definition fp_round_ties_even :: "'h host_scheme \<Rightarrow> 'a::len word \<Rightarrow> 'a word" where
  "fp_round_ties_even h v =
    (let abs_value = fp_abs_bits v; floor_value = fp_floor_int abs_value; frac = fp_floor_error abs_value;
         unit = fp_denominator v
     in if fp_is_nan_bits v \<or> fp_is_inf_bits v \<or> fp_is_zero v then v
        else fp_integral h (fp_is_negative v)
               (nat (floor_value + (if 2 * frac > unit \<or> 2 * frac = unit \<and> odd floor_value then 1 else 0))))"

definition fp_round_ties_away :: "'h host_scheme \<Rightarrow> 'a::len word \<Rightarrow> 'a word" where
  "fp_round_ties_away h v =
    (let abs_value = fp_abs_bits v; floor_value = fp_floor_int abs_value; frac = fp_floor_error abs_value
     in if fp_is_nan_bits v \<or> fp_is_inf_bits v \<or> fp_is_zero v then v
        else fp_integral h (fp_is_negative v)
               (nat (floor_value + (if 2 * frac \<ge> fp_denominator v then 1 else 0))))"

definition fp_round_by_mode :: "'h host_scheme \<Rightarrow> 'a::len word \<Rightarrow> u32 \<Rightarrow> 'a word" where
  "fp_round_by_mode h v mode =
    (let m = mode AND 0x3
     in if m = 0 then fp_round_ties_even h v else if m = 1 then fp_ceil h v else if m = 2 then fp_floor h v else fp_trunc h v)"

definition fp_round_int_bits :: "'a::len word \<Rightarrow> u32 \<Rightarrow> ('a word \<Rightarrow> 'a word) \<Rightarrow> bool \<Rightarrow> 'a word \<times> u64" where
  "fp_round_int_bits b fpcr_mode round_fn exact =
    (case fp_process_nan_unary b fpcr_mode True 0 of
       Some r \<Rightarrow> r
     | None \<Rightarrow>
         let (b, fpsr) = fp_flush_input_denormal_bits b fpcr_mode 0
         in if fp_is_inf_bits b \<or> fp_is_zero b then (b, fpsr)
            else
              let rounded = round_fn b;
                  rounded = (if fp_is_zero rounded then fp_zero_bits (fp_is_negative b) else rounded)
              in (rounded, if exact \<and> \<not> host_equal rounded b then fpsr OR kFpsrIxc else fpsr))"

end
