(* ===== verification/Cpu_Simd_Fp.thy ===== *)
theory Cpu_Simd_Fp
  imports Cpu_Simd_Lanes Cpu_Fp_Convert
begin

text \<open>
  The floating-point SIMD instructions of \<open>Cpu::exec_data_processing\<close> (\<open>src/src/cpu.cpp\<close>). The source
  writes each loop twice, for lanes of 32 and of 64 bits; here an operation on patterns of either width
  is a value of a datatype and the loop applies it at the width of the instruction. The bits raised in
  FPSR by the lanes are collected and added once.
\<close>

section \<open>Shared lambdas\<close>

definition current_fpcr_ctl :: "'d cpu \<Rightarrow> u32" where
  "current_fpcr_ctl c =
    (let fpcr = r_fpcr (c_sysregs c)
     in ucast ((drop_bit 22 fpcr AND 0x3) OR push_bit 2 (drop_bit 25 fpcr AND 0x1) OR
               push_bit 3 (drop_bit 24 fpcr AND 0x1) OR push_bit 4 (drop_bit 26 fpcr AND 0x1)))"

definition vector_fp_shape :: "u32 \<Rightarrow> (nat \<times> nat) option" where
  "vector_fp_shape insn =
    (let q = insn_q insn; esize = (if drop_bit 22 insn AND 1 \<noteq> 0 then 64 else 32)
     in if esize = 64 \<and> \<not> q then None else Some (esize, (if q then 128 else 64) div esize))"

definition done_fp :: "nat \<Rightarrow> qreg \<Rightarrow> u64 \<Rightarrow> 'd cpu \<Rightarrow> 'd handled" where
  "done_fp rd q fpsr c = Some (Some (set_qreg rd q (on_sysregs (fp_or_fpsr fpsr) c)))"

text \<open>A loop over lanes whose results carry FPSR bits.\<close>
definition set_lanes_fp :: "nat \<Rightarrow> nat \<Rightarrow> nat \<Rightarrow> (nat \<Rightarrow> u64 \<times> u64) \<Rightarrow> qreg \<Rightarrow> qreg \<times> u64" where
  "set_lanes_fp esize base n f q =
    (set_lanes esize base n (\<lambda>i. fst (f i)) q, fold (\<lambda>i fpsr. fpsr OR snd (f i)) [0..<n] 0)"

definition wide_result :: "'a::len word \<times> u64 \<Rightarrow> u64 \<times> u64" where
  "wide_result r = (ucast (fst r), snd r)"

section \<open>Operations on two lanes\<close>

datatype fp_lane_op =
    LaneBinary host_fp_binary_op
  | LaneMulx
  | LaneMinMax bool bool
  | LaneRecipStep
  | LaneRsqrtStep
  | LaneAbsDiff
  | LaneNegMul

definition fp_lane :: "'h host_scheme \<Rightarrow> fp_lane_op \<Rightarrow> u32 \<Rightarrow> 'a::len word \<Rightarrow> 'a word \<Rightarrow> 'a word \<times> u64" where
  "fp_lane h oper fpcr a b =
    (case oper of
       LaneBinary x \<Rightarrow> fp_binary_arith_bits h a b fpcr x
     | LaneMulx \<Rightarrow> fp_mulx_bits h a b fpcr
     | LaneMinMax is_min numeric \<Rightarrow> fp_minmax_result_bits a b fpcr is_min numeric
     | LaneRecipStep \<Rightarrow> fp_recip_step_fused_bits h a b fpcr
     | LaneRsqrtStep \<Rightarrow> fp_rsqrt_step_fused_bits h a b fpcr
     | LaneAbsDiff \<Rightarrow> (case fp_binary_arith_bits h a b fpcr FpSub of (r, s) \<Rightarrow> (r AND NOT fp_sign_mask_bits, s))
     | LaneNegMul \<Rightarrow> (case fp_binary_arith_bits h a b fpcr FpMul of (r, s) \<Rightarrow> (r XOR fp_sign_mask_bits, s)))"

text \<open>At the width of a lane.\<close>
definition fp_lane_at :: "'h host_scheme \<Rightarrow> fp_lane_op \<Rightarrow> u32 \<Rightarrow> nat \<Rightarrow> u64 \<Rightarrow> u64 \<Rightarrow> u64 \<times> u64" where
  "fp_lane_at h oper fpcr esize a b =
    (if esize = 32 then wide_result (fp_lane h oper fpcr (ucast a :: u32) (ucast b)) else fp_lane h oper fpcr a b)"

definition fp_fma_at :: "'h host_scheme \<Rightarrow> bool \<Rightarrow> bool \<Rightarrow> u32 \<Rightarrow> nat \<Rightarrow> u64 \<Rightarrow> u64 \<Rightarrow> u64 \<Rightarrow> u64 \<times> u64" where
  "fp_fma_at h negate_product negate_addend fpcr esize a b addend =
    (if esize = 32
     then wide_result (fp_fma_bits h (ucast a :: u32) (ucast b) (ucast addend) fpcr negate_product negate_addend)
     else fp_fma_bits h a b addend fpcr negate_product negate_addend)"

definition fp_three_same :: "'h host_scheme \<Rightarrow> fp_lane_op \<Rightarrow> u32 \<Rightarrow> 'd cpu \<Rightarrow> 'd handled" where
  "fp_three_same h oper insn c =
    (case vector_fp_shape insn of
       None \<Rightarrow> not_handled
     | Some (esize, lanes) \<Rightarrow>
         let lhs = qreg_at (rn_of insn) c; rhs = qreg_at (rm_of insn) c;
             (dst, fpsr) = set_lanes_fp esize 0 lanes
               (\<lambda>i. fp_lane_at h oper (current_fpcr_ctl c) esize (vector_get_elem lhs esize i) (vector_get_elem rhs esize i)) (0, 0)
         in done_fp (rd_of insn) dst fpsr c)"

text \<open>The index and the register of an operation by element; none for a reserved encoding.\<close>
definition fp_element_operand :: "u32 \<Rightarrow> (nat \<times> nat) option" where
  "fp_element_operand insn =
    (let sz = drop_bit 22 insn AND 1; l = drop_bit 21 insn AND 1; hb = drop_bit 11 insn AND 1
     in if sz \<noteq> 0 \<and> l \<noteq> 0 then None
        else Some (unat (if sz = 0 then push_bit 1 hb OR l else hb),
                   unat ((drop_bit 16 insn AND 0xF) OR push_bit 4 (drop_bit 20 insn AND 1))))"

definition fp_by_element :: "'h host_scheme \<Rightarrow> fp_lane_op \<Rightarrow> u32 \<Rightarrow> 'd cpu \<Rightarrow> 'd handled" where
  "fp_by_element h oper insn c =
    (case fp_element_operand insn of
       None \<Rightarrow> not_handled
     | Some (index, rm) \<Rightarrow>
         (case vector_fp_shape insn of
            None \<Rightarrow> not_handled
          | Some (esize, lanes) \<Rightarrow>
              let lhs = qreg_at (rn_of insn) c; el = vector_get_elem (qreg_at rm c) esize index;
                  (dst, fpsr) = set_lanes_fp esize 0 lanes
                    (\<lambda>i. fp_lane_at h oper (current_fpcr_ctl c) esize (vector_get_elem lhs esize i) el) (0, 0)
              in done_fp (rd_of insn) dst fpsr c))"

section \<open>Pairs and reductions\<close>

text \<open>The pairwise instructions of the first switch.\<close>
definition fp_pairwise_rows :: "(u32 \<times> fp_lane_op) list" where
  "fp_pairwise_rows =
    [(0x2E20D400, LaneBinary FpAdd), (0x6E20D400, LaneBinary FpAdd), (0x6E60D400, LaneBinary FpAdd),
     (0x2E20F400, LaneMinMax False False), (0x6E20F400, LaneMinMax False False), (0x6E60F400, LaneMinMax False False),
     (0x2EA0F400, LaneMinMax True False), (0x6EA0F400, LaneMinMax True False), (0x6EE0F400, LaneMinMax True False),
     (0x2E20C400, LaneMinMax False True), (0x6E20C400, LaneMinMax False True), (0x6E60C400, LaneMinMax False True),
     (0x2EA0C400, LaneMinMax True True), (0x6EA0C400, LaneMinMax True True), (0x6EE0C400, LaneMinMax True True)]"

definition exec_fp_pairwise :: "'h host_scheme \<Rightarrow> u32 \<Rightarrow> 'd cpu \<Rightarrow> 'd handled" where
  "exec_fp_pairwise h insn c =
    (case map_of fp_pairwise_rows (insn AND 0xFFE0FC00) of
       None \<Rightarrow> no_match
     | Some oper \<Rightarrow>
         (case vector_fp_shape insn of
            None \<Rightarrow> not_handled
          | Some (esize, lanes) \<Rightarrow>
              if odd lanes then not_handled
              else
                let half = lanes div 2; pair = (\<lambda>src i. fp_lane_at h oper (current_fpcr_ctl c) esize
                      (vector_get_elem src esize (i * 2)) (vector_get_elem src esize (i * 2 + 1)));
                    (dst, s1) = set_lanes_fp esize 0 half (pair (qreg_at (rn_of insn) c)) (0, 0);
                    (dst, s2) = set_lanes_fp esize half half (pair (qreg_at (rm_of insn) c)) dst
                in done_fp (rd_of insn) dst (s1 OR s2) c))"

definition exec_fmaxv :: "u32 \<Rightarrow> 'd cpu \<Rightarrow> 'd handled" where
  "exec_fmaxv insn c =
    (let opcode = insn AND 0xFFB0FC00; is_min = (opcode = 0x6EB0F800 \<or> opcode = 0x6EB0C800);
         numeric = (opcode = 0x6E30C800 \<or> opcode = 0x6EB0C800);
         elem = (\<lambda>i. ucast (vector_get_elem (qreg_at (rn_of insn) c) 32 i) :: u32);
         reduce_pair = (\<lambda>a b. fp_minmax_result_bits a b (current_fpcr_ctl c) is_min numeric);
         (lo, s1) = reduce_pair (elem 0) (elem 1);
         (hi, s2) = reduce_pair (elem 2) (elem 3);
         (acc, s3) = reduce_pair lo hi
     in if opcode \<notin> {0x6E30F800, 0x6EB0F800, 0x6E30C800, 0x6EB0C800} then no_match
        else done_fp (rd_of insn) (ucast acc, 0) (s1 OR s2 OR s3) c)"

section \<open>Arithmetic on vectors\<close>

definition exec_fadd_vector :: "'h host_scheme \<Rightarrow> u32 \<Rightarrow> 'd cpu \<Rightarrow> 'd handled" where
  "exec_fadd_vector h insn c =
    (if insn AND 0xBF20FC00 \<noteq> 0x0E20D400 then no_match
     else fp_three_same h (LaneBinary (if drop_bit 23 insn AND 1 \<noteq> 0 then FpSub else FpAdd)) insn c)"

definition exec_fmulx_vector :: "'h host_scheme \<Rightarrow> u32 \<Rightarrow> 'd cpu \<Rightarrow> 'd handled" where
  "exec_fmulx_vector h insn c =
    (if insn AND 0xBF20FC00 \<noteq> 0x0E20DC00 then no_match else fp_three_same h LaneMulx insn c)"

definition exec_fmul_vector :: "'h host_scheme \<Rightarrow> u32 \<Rightarrow> 'd cpu \<Rightarrow> 'd handled" where
  "exec_fmul_vector h insn c =
    (if insn AND 0xBF20FC00 \<noteq> 0x2E20DC00 then no_match else fp_three_same h (LaneBinary FpMul) insn c)"

definition exec_fmul_by_element :: "'h host_scheme \<Rightarrow> u32 \<Rightarrow> 'd cpu \<Rightarrow> 'd handled" where
  "exec_fmul_by_element h insn c =
    (if insn AND 0xBF80F400 \<noteq> 0x0F809000 then no_match else fp_by_element h (LaneBinary FpMul) insn c)"

definition exec_fmulx_by_element :: "'h host_scheme \<Rightarrow> u32 \<Rightarrow> 'd cpu \<Rightarrow> 'd handled" where
  "exec_fmulx_by_element h insn c =
    (if insn AND 0xBF80F400 \<noteq> 0x2F809000 then no_match else fp_by_element h LaneMulx insn c)"

definition exec_fmla_by_element :: "'h host_scheme \<Rightarrow> u32 \<Rightarrow> 'd cpu \<Rightarrow> 'd handled" where
  "exec_fmla_by_element h insn c =
    (if insn AND 0xBF80F400 \<noteq> 0x0F801000 \<and> insn AND 0xBF80F400 \<noteq> 0x0F805000 then no_match
     else case fp_element_operand insn of
       None \<Rightarrow> not_handled
     | Some (index, rm) \<Rightarrow>
         (case vector_fp_shape insn of
            None \<Rightarrow> not_handled
          | Some (esize, lanes) \<Rightarrow>
              let acc = qreg_at (rd_of insn) c; lhs = qreg_at (rn_of insn) c; el = vector_get_elem (qreg_at rm c) esize index;
                  (dst, fpsr) = set_lanes_fp esize 0 lanes
                    (\<lambda>i. fp_fma_at h (insn AND 0x00004000 \<noteq> 0) False (current_fpcr_ctl c) esize
                       (vector_get_elem lhs esize i) el (vector_get_elem acc esize i)) (0, 0)
              in done_fp (rd_of insn) dst fpsr c))"

definition exec_frecps_vector :: "'h host_scheme \<Rightarrow> u32 \<Rightarrow> 'd cpu \<Rightarrow> 'd handled" where
  "exec_frecps_vector h insn c =
    (if insn AND 0xBFA0FC00 \<noteq> 0x0E20FC00 \<and> insn AND 0xBFA0FC00 \<noteq> 0x0EA0FC00 then no_match
     else fp_three_same h (if insn AND 0x00800000 \<noteq> 0 then LaneRsqrtStep else LaneRecipStep) insn c)"

definition exec_fdiv_vector :: "'h host_scheme \<Rightarrow> u32 \<Rightarrow> 'd cpu \<Rightarrow> 'd handled" where
  "exec_fdiv_vector h insn c =
    (if insn AND 0x9F20FC00 \<noteq> 0x0E20FC00 then no_match else fp_three_same h (LaneBinary FpDiv) insn c)"

definition exec_fmax_vector :: "'h host_scheme \<Rightarrow> u32 \<Rightarrow> 'd cpu \<Rightarrow> 'd handled" where
  "exec_fmax_vector h insn c =
    (if insn AND 0x9F20FC00 \<noteq> 0x0E20F400 then no_match
     else fp_three_same h (LaneMinMax (drop_bit 23 insn AND 1 \<noteq> 0) False) insn c)"

definition exec_fmla_vector :: "'h host_scheme \<Rightarrow> u32 \<Rightarrow> 'd cpu \<Rightarrow> 'd handled" where
  "exec_fmla_vector h insn c =
    (if insn AND 0x9F20FC00 \<noteq> 0x0E20CC00 then no_match
     else case vector_fp_shape insn of
       None \<Rightarrow> not_handled
     | Some (esize, lanes) \<Rightarrow>
         let acc = qreg_at (rd_of insn) c; lhs = qreg_at (rn_of insn) c; rhs = qreg_at (rm_of insn) c;
             (dst, fpsr) = set_lanes_fp esize 0 lanes
               (\<lambda>i. fp_fma_at h (drop_bit 23 insn AND 1 \<noteq> 0) False (current_fpcr_ctl c) esize
                  (vector_get_elem lhs esize i) (vector_get_elem rhs esize i) (vector_get_elem acc esize i)) (0, 0)
         in done_fp (rd_of insn) dst fpsr c)"

definition exec_fmaxnm_vector :: "'h host_scheme \<Rightarrow> u32 \<Rightarrow> 'd cpu \<Rightarrow> 'd handled" where
  "exec_fmaxnm_vector h insn c =
    (if insn AND 0x9F20FC00 \<noteq> 0x0E20C400 then no_match
     else fp_three_same h (LaneMinMax (drop_bit 23 insn AND 1 \<noteq> 0) True) insn c)"

definition exec_fabd_vector :: "'h host_scheme \<Rightarrow> u32 \<Rightarrow> 'd cpu \<Rightarrow> 'd handled" where
  "exec_fabd_vector h insn c =
    (if insn AND 0xBF20FC00 \<noteq> 0x2E20D400 then no_match else fp_three_same h LaneAbsDiff insn c)"

section \<open>Comparisons\<close>

datatype fp_relation = RelEq | RelGe | RelGt | RelLe | RelLt | RelAbsGe | RelAbsGt

definition fp_relation_holds :: "fp_relation \<Rightarrow> 'a::len word \<Rightarrow> 'a word \<Rightarrow> bool" where
  "fp_relation_holds rel a b =
    (\<not> fp_is_nan_bits a \<and> \<not> fp_is_nan_bits b \<and>
     (case rel of
        RelEq \<Rightarrow> host_equal a b
      | RelGe \<Rightarrow> \<not> host_less a b
      | RelGt \<Rightarrow> host_less b a
      | RelLe \<Rightarrow> \<not> host_less b a
      | RelLt \<Rightarrow> host_less a b
      | RelAbsGe \<Rightarrow> \<not> host_less (fp_abs_bits a) (fp_abs_bits b)
      | RelAbsGt \<Rightarrow> host_less (fp_abs_bits b) (fp_abs_bits a)))"

text \<open>The operands are flushed first; the comparison of a quiet NaN raises nothing.\<close>
definition fp_compare_lane :: "fp_relation \<Rightarrow> u32 \<Rightarrow> 'a::len word \<Rightarrow> 'a word \<Rightarrow> bool \<times> u64" where
  "fp_compare_lane rel fpcr a b =
    (let (a, fpsr) = fp_flush_input_denormal_bits a fpcr 0; (b, fpsr) = fp_flush_input_denormal_bits b fpcr fpsr
     in (fp_relation_holds rel a b, fpsr OR fp_compare_fpsr_bits a b False))"

definition fp_compare_at :: "fp_relation \<Rightarrow> u32 \<Rightarrow> nat \<Rightarrow> u64 \<Rightarrow> u64 \<Rightarrow> u64 \<times> u64" where
  "fp_compare_at rel fpcr esize a b =
    (case if esize = 32 then fp_compare_lane rel fpcr (ucast a :: u32) (ucast b) else fp_compare_lane rel fpcr a b of
       (p, fpsr) \<Rightarrow> (lane_mask esize p, fpsr))"

definition fp_compare_vector :: "fp_relation \<Rightarrow> (nat \<Rightarrow> nat \<Rightarrow> u64) \<Rightarrow> u32 \<Rightarrow> 'd cpu \<Rightarrow> 'd handled" where
  "fp_compare_vector rel rhs insn c =
    (case vector_fp_shape insn of
       None \<Rightarrow> not_handled
     | Some (esize, lanes) \<Rightarrow>
         let (dst, fpsr) = set_lanes_fp esize 0 lanes
               (\<lambda>i. fp_compare_at rel (current_fpcr_ctl c) esize (vector_get_elem (qreg_at (rn_of insn) c) esize i) (rhs esize i))
               (0, 0)
         in done_fp (rd_of insn) dst fpsr c)"

definition exec_facge_vector :: "u32 \<Rightarrow> 'd cpu \<Rightarrow> 'd handled" where
  "exec_facge_vector insn c =
    (if insn AND 0xDF20FC00 \<noteq> 0x4E20EC00 then no_match
     else fp_compare_vector (if drop_bit 23 insn AND 1 \<noteq> 0 then RelAbsGt else RelAbsGe)
            (vector_get_elem (qreg_at (rm_of insn) c)) insn c)"

definition exec_fcm_vector :: "u32 \<Rightarrow> 'd cpu \<Rightarrow> 'd handled" where
  "exec_fcm_vector insn c =
    (if insn AND 0x9F20FC00 \<noteq> 0x0E20E400 then no_match
     else fp_compare_vector (if \<not> insn_u insn then RelEq else if drop_bit 23 insn AND 1 \<noteq> 0 then RelGt else RelGe)
            (vector_get_elem (qreg_at (rm_of insn) c)) insn c)"

definition fcm_zero_rows :: "(u32 \<times> fp_relation) list" where
  "fcm_zero_rows = [(0x0E20D800, RelEq), (0x2E20C800, RelGe), (0x0E20C800, RelGt), (0x2E20D800, RelLe), (0x0E20E800, RelLt)]"

definition exec_fcm_zero_vector :: "u32 \<Rightarrow> 'd cpu \<Rightarrow> 'd handled" where
  "exec_fcm_zero_vector insn c =
    (case map_of fcm_zero_rows (insn AND 0xBF3FFC00) of
       None \<Rightarrow> no_match
     | Some rel \<Rightarrow> fp_compare_vector rel (\<lambda>_ _. 0) insn c)"

section \<open>Conversions of vectors\<close>

text \<open>Narrow results side by side in one half of the destination.\<close>
definition fp_packed :: "nat \<Rightarrow> nat \<Rightarrow> (nat \<Rightarrow> u64 \<times> u64) \<Rightarrow> u64 \<times> u64" where
  "fp_packed width n f =
    (fold (\<lambda>i r. r OR push_bit (i * width) (fst (f i))) [0..<n] 0, fold (\<lambda>i fpsr. fpsr OR snd (f i)) [0..<n] 0)"

definition exec_fcvt_vector :: "'h host_scheme \<Rightarrow> u32 \<Rightarrow> 'd cpu \<Rightarrow> 'd handled" where
  "exec_fcvt_vector h insn c =
    (let opcode = insn AND 0xFF3FFC00; ftype = insn_size insn; upper = insn_q insn; fpcr = current_fpcr_ctl c;
         src = qreg_at (rn_of insn) c; old = qreg_at (rd_of insn) c;
         round_to_odd = (opcode = 0x2E216800 \<or> opcode = 0x6E216800);
         narrow = (opcode \<in> {0x0E216800, 0x4E216800, 0x2E216800, 0x6E216800});
         place = (\<lambda>r. if upper then (fst old, r) else (r, 0))
     in if opcode \<notin> {0x0E216800, 0x4E216800, 0x2E216800, 0x6E216800, 0x0E217800, 0x4E217800} then no_match
        else if narrow then
          (if ftype = 2 \<and> \<not> round_to_odd then
             (if ucast (drop_bit 44 (r_id_aa64isar1_el1 (c_sysregs c)) AND 0xF) = (0 :: u32)
              then Some (Some (undefined_insn c)) else not_handled)
           else if ftype = 1 then
             (let (r, fpsr) = fp_packed 32 2 (\<lambda>i. wide_result
                    ((if round_to_odd then fp64_to_fp32_bits_round_to_odd else fp64_to_fp32_bits) (vector_get_elem src 64 i) fpcr))
              in done_fp (rd_of insn) (place r) fpsr c)
           else if ftype = 0 \<and> \<not> round_to_odd then
             (let (r, fpsr) = fp_packed 16 4
                    (\<lambda>i. wide_result (fp_to_fp16_bits (ucast (vector_get_elem src 32 i) :: u32) fpcr))
              in done_fp (rd_of insn) (place r) fpsr c)
           else not_handled)
        else if ftype = 1 then
          (let (dst, fpsr) = set_lanes_fp 64 0 2
                 (\<lambda>i. fp32_to_fp64_bits h (ucast (vector_get_elem src 32 (if upper then i + 2 else i))) fpcr) (0, 0)
           in done_fp (rd_of insn) dst fpsr c)
        else if ftype = 0 then
          (let (dst, fpsr) = set_lanes_fp 32 0 4
                 (\<lambda>i. wide_result (fp16_to_fp_bits (ucast (vector_get_elem src 16 (if upper then i + 4 else i))) fpcr :: u32 \<times> u64))
                 (0, 0)
           in done_fp (rd_of insn) dst fpsr c)
        else not_handled)"

text \<open>A value of either format to an integer of \<open>w\<close> bits: toward zero, or in a given direction.\<close>
definition fp_to_int :: "fp_to_int_rounding_mode option \<Rightarrow> bool \<Rightarrow> u32 \<Rightarrow> nat \<Rightarrow> 'a::len word \<Rightarrow> u64 \<times> u64" where
  "fp_to_int rounding is_unsigned fpcr w b =
    (let (v, fpsr) = fp_to_int_input_value b fpcr 0;
         (r, convert_fpsr) =
           (case rounding of
              None \<Rightarrow> if is_unsigned then fp_to_unsigned_rtz w v else fp_to_signed_rtz w v
            | Some m \<Rightarrow> if is_unsigned then fp_to_unsigned_round w v m else fp_to_signed_round w v m)
     in (r, fpsr OR convert_fpsr))"

definition fp_to_int_at :: "fp_to_int_rounding_mode option \<Rightarrow> bool \<Rightarrow> u32 \<Rightarrow> nat \<Rightarrow> nat \<Rightarrow> u64 \<Rightarrow> u64 \<times> u64" where
  "fp_to_int_at rounding is_unsigned fpcr w esize b =
    (if esize = 32 then fp_to_int rounding is_unsigned fpcr w (ucast b :: u32) else fp_to_int rounding is_unsigned fpcr w b)"

definition fp_to_int_vector :: "fp_to_int_rounding_mode option \<Rightarrow> bool \<Rightarrow> u32 \<Rightarrow> 'd cpu \<Rightarrow> 'd handled" where
  "fp_to_int_vector rounding is_unsigned insn c =
    (case vector_fp_shape insn of
       None \<Rightarrow> not_handled
     | Some (esize, lanes) \<Rightarrow>
         let (dst, fpsr) = set_lanes_fp esize 0 lanes
               (\<lambda>i. fp_to_int_at rounding is_unsigned (current_fpcr_ctl c) esize esize
                  (vector_get_elem (qreg_at (rn_of insn) c) esize i)) (0, 0)
         in done_fp (rd_of insn) dst fpsr c)"

definition exec_fcvtz_vector :: "u32 \<Rightarrow> 'd cpu \<Rightarrow> 'd handled" where
  "exec_fcvtz_vector insn c =
    (let opcode = insn AND 0xBFF1FC00 in
     if opcode \<notin> {0x0EA1B800, 0x2EA1B800, 0x0EE1B800, 0x2EE1B800} then no_match
     else fp_to_int_vector None (opcode AND 0x20000000 \<noteq> 0) insn c)"

definition fcvt_int_vector_rows :: "(u32 \<times> fp_to_int_rounding_mode) list" where
  "fcvt_int_vector_rows =
    [(0x0E20A800, TieEven), (0x2E20A800, TieEven), (0x0EA0A800, PosInf), (0x2EA0A800, PosInf),
     (0x0E20B800, NegInf), (0x2E20B800, NegInf), (0x0E20C800, TieAway), (0x2E20C800, TieAway),
     (0x0E60A800, TieEven), (0x2E60A800, TieEven), (0x0EE0A800, PosInf), (0x2EE0A800, PosInf),
     (0x0E60B800, NegInf), (0x2E60B800, NegInf), (0x0E60C800, TieAway), (0x2E60C800, TieAway)]"

definition exec_fcvt_int_vector :: "u32 \<Rightarrow> 'd cpu \<Rightarrow> 'd handled" where
  "exec_fcvt_int_vector insn c =
    (case map_of fcvt_int_vector_rows (insn AND 0xBFF0FC00) of
       None \<Rightarrow> no_match
     | Some rounding \<Rightarrow> fp_to_int_vector (Some rounding) (insn AND 0x20000000 \<noteq> 0) insn c)"

definition exec_urecpe :: "u32 \<Rightarrow> 'd cpu \<Rightarrow> 'd handled" where
  "exec_urecpe insn c =
    (let tag = insn AND 0xBFE1FC00; src = qreg_at (rn_of insn) c in
     if tag \<noteq> 0x0EA1C800 \<and> tag \<noteq> 0x2EA1C800 then no_match
     else done_with (rd_of insn)
            (set_lanes 32 0 (if insn_q insn then 4 else 2)
               (\<lambda>i. let operand = ucast (vector_get_elem src 32 i)
                 in ucast (if insn_u insn then advsimd_unsigned_rsqrt_estimate_bits operand
                           else advsimd_unsigned_recip_estimate_bits operand)) (0, 0)) c)"

section \<open>Unary operations\<close>

datatype fp_unary_op = UnaryRecipEstimate | UnaryRsqrtEstimate | UnaryAbs | UnaryNeg | UnarySqrt

definition fp_unary :: "'h host_scheme \<Rightarrow> fp_unary_op \<Rightarrow> u32 \<Rightarrow> 'a::len word \<Rightarrow> 'a word \<times> u64" where
  "fp_unary h oper fpcr b =
    (case oper of
       UnaryRecipEstimate \<Rightarrow> fp_recip_estimate_bits b fpcr
     | UnaryRsqrtEstimate \<Rightarrow> fp_rsqrt_estimate_bits b fpcr
     | UnaryAbs \<Rightarrow> (fp_abs_bits b, 0)
     | UnaryNeg \<Rightarrow> (fp_neg_bits b, 0)
     | UnarySqrt \<Rightarrow> fp_sqrt_bits h b fpcr)"

definition fp_unary_rows :: "(u32 \<times> fp_unary_op) list" where
  "fp_unary_rows =
    [(0x0EA1D800, UnaryRecipEstimate), (0x2EA1D800, UnaryRsqrtEstimate), (0x0EE1D800, UnaryRecipEstimate),
     (0x2EE1D800, UnaryRsqrtEstimate), (0x0EA0F800, UnaryAbs), (0x2EA0F800, UnaryNeg), (0x2EA1F800, UnarySqrt),
     (0x0EE0F800, UnaryAbs), (0x2EE0F800, UnaryNeg), (0x2EE1F800, UnarySqrt)]"

text \<open>How an instruction rounds to an integral value: the function, and whether it raises inexact.\<close>
datatype fp_integral_op = IntegralEven | IntegralCeil | IntegralFloor | IntegralTrunc | IntegralAway | IntegralByMode bool

definition fp_integral_fn :: "'h host_scheme \<Rightarrow> fp_integral_op \<Rightarrow> u32 \<Rightarrow> 'a::len word \<Rightarrow> 'a word" where
  "fp_integral_fn h oper fpcr =
    (case oper of
       IntegralEven \<Rightarrow> fp_round_ties_even h
     | IntegralCeil \<Rightarrow> fp_ceil h
     | IntegralFloor \<Rightarrow> fp_floor h
     | IntegralTrunc \<Rightarrow> fp_trunc h
     | IntegralAway \<Rightarrow> fp_round_ties_away h
     | IntegralByMode _ \<Rightarrow> (\<lambda>v. fp_round_by_mode h v fpcr))"

definition fp_round_integral :: "'h host_scheme \<Rightarrow> fp_integral_op \<Rightarrow> u32 \<Rightarrow> 'a::len word \<Rightarrow> 'a word \<times> u64" where
  "fp_round_integral h oper fpcr b =
    fp_round_int_bits b fpcr (fp_integral_fn h oper fpcr) (case oper of IntegralByMode exact \<Rightarrow> exact | _ \<Rightarrow> False)"

definition frint_vector_rows :: "(u32 \<times> fp_integral_op) list" where
  "frint_vector_rows =
    [(0x0E218800, IntegralEven), (0x0EA18800, IntegralCeil), (0x0E219800, IntegralFloor), (0x0EA19800, IntegralTrunc),
     (0x2E218800, IntegralAway), (0x2E219800, IntegralByMode True), (0x2EA19800, IntegralByMode False),
     (0x0E618800, IntegralEven), (0x0EE18800, IntegralCeil), (0x0E619800, IntegralFloor), (0x0EE19800, IntegralTrunc),
     (0x2E618800, IntegralAway), (0x2E619800, IntegralByMode True), (0x2EE19800, IntegralByMode False)]"

definition fp_unary_vector :: "(nat \<Rightarrow> u64 \<Rightarrow> u64 \<times> u64) \<Rightarrow> u32 \<Rightarrow> 'd cpu \<Rightarrow> 'd handled" where
  "fp_unary_vector f insn c =
    (case vector_fp_shape insn of
       None \<Rightarrow> not_handled
     | Some (esize, lanes) \<Rightarrow>
         let (dst, fpsr) = set_lanes_fp esize 0 lanes (\<lambda>i. f esize (vector_get_elem (qreg_at (rn_of insn) c) esize i)) (0, 0)
         in done_fp (rd_of insn) dst fpsr c)"

definition fp_unary_at :: "'h host_scheme \<Rightarrow> fp_unary_op \<Rightarrow> u32 \<Rightarrow> nat \<Rightarrow> u64 \<Rightarrow> u64 \<times> u64" where
  "fp_unary_at h oper fpcr esize v =
    (if esize = 32 then wide_result (fp_unary h oper fpcr (ucast v :: u32)) else fp_unary h oper fpcr v)"

definition fp_round_integral_at :: "'h host_scheme \<Rightarrow> fp_integral_op \<Rightarrow> u32 \<Rightarrow> nat \<Rightarrow> u64 \<Rightarrow> u64 \<times> u64" where
  "fp_round_integral_at h oper fpcr esize v =
    (if esize = 32 then wide_result (fp_round_integral h oper fpcr (ucast v :: u32)) else fp_round_integral h oper fpcr v)"

definition exec_fp_unary_vector :: "'h host_scheme \<Rightarrow> u32 \<Rightarrow> 'd cpu \<Rightarrow> 'd handled" where
  "exec_fp_unary_vector h insn c =
    (let opcode = insn AND 0xBFF1FC00; fpcr = current_fpcr_ctl c in
     case map_of fp_unary_rows opcode of
       Some oper \<Rightarrow> fp_unary_vector (fp_unary_at h oper fpcr) insn c
     | None \<Rightarrow>
         (case map_of frint_vector_rows opcode of
            Some oper \<Rightarrow> fp_unary_vector (fp_round_integral_at h oper fpcr) insn c
          | None \<Rightarrow> no_match))"

end
