(* ===== verification/Cpu_Scalar_Fp.thy ===== *)
theory Cpu_Scalar_Fp
  imports Cpu_Simd_Fp
begin

text \<open>
  The scalar floating-point instructions of \<open>Cpu::exec_data_processing\<close> (\<open>src/src/cpu.cpp\<close>), and
  \<open>exec_simd\<close>: all SIMD and floating-point tests of the function, in its order.
\<close>

section \<open>Shapes\<close>

definition scalar_raw :: "nat \<Rightarrow> 'd cpu \<Rightarrow> u64" where "scalar_raw i c = fst (qreg_at i c)"

text \<open>The width that the two type bits name; the source returns false for the others.\<close>
definition fp_width :: "u32 \<Rightarrow> nat option" where
  "fp_width insn = (if insn_size insn = 0 then Some 32 else if insn_size insn = 1 then Some 64 else None)"

definition fp_scalar_done :: "u32 \<Rightarrow> u64 \<times> u64 \<Rightarrow> 'd cpu \<Rightarrow> 'd handled" where
  "fp_scalar_done insn r c = done_fp (rd_of insn) (fst r, 0) (snd r) c"

definition fp_scalar_two :: "'h host_scheme \<Rightarrow> fp_lane_op \<Rightarrow> u32 \<Rightarrow> 'd cpu \<Rightarrow> 'd handled" where
  "fp_scalar_two h oper insn c =
    (case fp_width insn of
       None \<Rightarrow> not_handled
     | Some esize \<Rightarrow>
         fp_scalar_done insn
           (fp_lane_at h oper (current_fpcr_ctl c) esize (scalar_raw (rn_of insn) c) (scalar_raw (rm_of insn) c)) c)"

text \<open>The width from one bit of the word.\<close>
definition fp_sz :: "u32 \<Rightarrow> nat" where "fp_sz insn = (if drop_bit 22 insn AND 1 \<noteq> 0 then 64 else 32)"

definition fp_scalar_by_element :: "'h host_scheme \<Rightarrow> fp_lane_op \<Rightarrow> u32 \<Rightarrow> 'd cpu \<Rightarrow> 'd handled" where
  "fp_scalar_by_element h oper insn c =
    (case fp_element_operand insn of
       None \<Rightarrow> not_handled
     | Some (index, rm) \<Rightarrow>
         fp_scalar_done insn
           (fp_lane_at h oper (current_fpcr_ctl c) (fp_sz insn) (scalar_raw (rn_of insn) c)
              (vector_get_elem (qreg_at rm c) (fp_sz insn) index)) c)"

section \<open>Conversions between formats\<close>

definition exec_fcvtxn :: "u32 \<Rightarrow> 'd cpu \<Rightarrow> 'd handled" where
  "exec_fcvtxn insn c =
    (if insn AND 0xFFFFFC00 \<noteq> 0x7E616800 then no_match
     else fp_scalar_done insn
            (wide_result (fp64_to_fp32_bits_round_to_odd (scalar_raw (rn_of insn) c) (current_fpcr_ctl c))) c)"

definition exec_fcvt :: "'h host_scheme \<Rightarrow> u32 \<Rightarrow> 'd cpu \<Rightarrow> 'd handled" where
  "exec_fcvt h insn c =
    (let tag = insn AND 0xFFFFFC00; v = scalar_raw (rn_of insn) c; fpcr = current_fpcr_ctl c in
     if tag = 0x1EE24000 then fp_scalar_done insn (wide_result (fp16_to_fp_bits (ucast v) fpcr :: u32 \<times> u64)) c
     else if tag = 0x1EE2C000 then fp_scalar_done insn (fp16_to_fp_bits (ucast v) fpcr) c
     else if tag = 0x1E22C000 then fp_scalar_done insn (fp32_to_fp64_bits h (ucast v) fpcr) c
     else if tag = 0x1E624000 then fp_scalar_done insn (wide_result (fp64_to_fp32_bits v fpcr)) c
     else if insn AND 0xFF3FFC00 = 0x1E23C000 then
       (if insn_size insn = 0 then fp_scalar_done insn (wide_result (fp_to_fp16_bits (ucast v :: u32) fpcr)) c
        else if insn_size insn = 1 then fp_scalar_done insn (wide_result (fp_to_fp16_bits v fpcr)) c
        else not_handled)
     else no_match)"

section \<open>Square root, steps and estimates\<close>

definition exec_fsqrt_scalar :: "'h host_scheme \<Rightarrow> u32 \<Rightarrow> 'd cpu \<Rightarrow> 'd handled" where
  "exec_fsqrt_scalar h insn c =
    (let tag = insn AND 0xFF3FFC00; ftype = insn_size insn; v = scalar_raw (rn_of insn) c; fpcr = current_fpcr_ctl c in
     if tag = 0x1E21C000 then
       (case fp_width insn of None \<Rightarrow> not_handled | Some esize \<Rightarrow> fp_scalar_done insn (fp_unary_at h UnarySqrt fpcr esize v) c)
     else if tag = 0x5E21F800 then
       (if ftype = 2 then fp_scalar_done insn (wide_result (fp_recip_exponent_bits (ucast v :: u32) fpcr)) c
        else if ftype = 3 then fp_scalar_done insn (fp_recip_exponent_bits v fpcr) c
        else not_handled)
     else no_match)"

definition exec_frecps_scalar :: "'h host_scheme \<Rightarrow> u32 \<Rightarrow> 'd cpu \<Rightarrow> 'd handled" where
  "exec_frecps_scalar h insn c =
    (let opcode = insn AND 0xFFE0FC00; is_double = (opcode = 0x5E60FC00 \<or> opcode = 0x5EE0FC00);
         is_rsqrt = (opcode = 0x5EA0FC00 \<or> opcode = 0x5EE0FC00)
     in if opcode \<notin> {0x5E20FC00, 0x5E60FC00, 0x5EA0FC00, 0x5EE0FC00} then no_match
        else fp_scalar_done insn
               (fp_lane_at h (if is_rsqrt then LaneRsqrtStep else LaneRecipStep) (current_fpcr_ctl c)
                  (if is_double then 64 else 32) (scalar_raw (rn_of insn) c) (scalar_raw (rm_of insn) c)) c)"

text \<open>An integer to either format.\<close>
definition fp_from_int_at :: "u32 \<Rightarrow> nat \<Rightarrow> int \<Rightarrow> u64 \<times> u64" where
  "fp_from_int_at fpcr esize v =
    (if esize = 32 then wide_result (fp_int_to_fp_bits v fpcr :: u32 \<times> u64) else fp_int_to_fp_bits v fpcr)"

definition exec_scvtf_scalar :: "'h host_scheme \<Rightarrow> u32 \<Rightarrow> 'd cpu \<Rightarrow> 'd handled" where
  "exec_scvtf_scalar h insn c =
    (let tag = insn AND 0xFF3FFC00; ftype = insn_size insn; v = scalar_raw (rn_of insn) c; fpcr = current_fpcr_ctl c;
         is_unsigned = (tag = 0x7E21D800);
         i32 = (if is_unsigned then uint (ucast v :: u32) else sint (ucast v :: u32));
         i64 = (if is_unsigned then uint v else sint v)
     in if tag \<noteq> 0x5E21D800 \<and> tag \<noteq> 0x7E21D800 then no_match
        else fp_scalar_done insn
               (if ftype = 0 then fp_from_int_at fpcr 32 i32
                else if ftype = 1 then fp_from_int_at fpcr 64 i64
                else fp_unary_at h (if is_unsigned then UnaryRsqrtEstimate else UnaryRecipEstimate) fpcr
                       (if ftype = 2 then 32 else 64) v) c)"

definition frint_scalar_rows :: "(u32 \<times> fp_integral_op) list" where
  "frint_scalar_rows =
    [(0x1E244000, IntegralEven), (0x1E24C000, IntegralCeil), (0x1E254000, IntegralFloor), (0x1E25C000, IntegralTrunc),
     (0x1E264000, IntegralAway), (0x1E274000, IntegralByMode True), (0x1E27C000, IntegralByMode False)]"

definition exec_frint_scalar :: "'h host_scheme \<Rightarrow> u32 \<Rightarrow> 'd cpu \<Rightarrow> 'd handled" where
  "exec_frint_scalar h insn c =
    (case map_of frint_scalar_rows (insn AND 0xFF3FFC00) of
       None \<Rightarrow> no_match
     | Some oper \<Rightarrow>
         (case fp_width insn of
            None \<Rightarrow> not_handled
          | Some esize \<Rightarrow>
              fp_scalar_done insn (fp_round_integral_at h oper (current_fpcr_ctl c) esize (scalar_raw (rn_of insn) c)) c))"

section \<open>Moves\<close>

definition exec_fmov_imm :: "u32 \<Rightarrow> 'd cpu \<Rightarrow> 'd handled" where
  "exec_fmov_imm insn c =
    (if insn AND 0xFF201FE0 \<noteq> 0x1E201000 then no_match
     else
       let imm8 = ucast (drop_bit 13 insn AND 0xFF)
       in if insn_size insn = 0 then done_with (rd_of insn) (vfp_expand_imm False imm8, 0) c
          else if insn_size insn = 1 then done_with (rd_of insn) (vfp_expand_imm True imm8, 0) c
          else not_handled)"

definition exec_fmov_register :: "u32 \<Rightarrow> 'd cpu \<Rightarrow> 'd handled" where
  "exec_fmov_register insn c =
    (let tag = insn AND 0xFFFFFC00; v = scalar_raw (rn_of insn) c in
     if tag = 0x1E204000 then done_with (rd_of insn) (v AND 0xFFFFFFFF, 0) c
     else if tag = 0x1E604000 then done_with (rd_of insn) (v, 0) c
     else no_match)"

section \<open>Arithmetic\<close>

definition exec_fmul_scalar :: "'h host_scheme \<Rightarrow> u32 \<Rightarrow> 'd cpu \<Rightarrow> 'd handled" where
  "exec_fmul_scalar h insn c =
    (if insn AND 0xFF20FC00 \<noteq> 0x1E200800 then no_match else fp_scalar_two h (LaneBinary FpMul) insn c)"

definition exec_fmulx_scalar :: "'h host_scheme \<Rightarrow> u32 \<Rightarrow> 'd cpu \<Rightarrow> 'd handled" where
  "exec_fmulx_scalar h insn c =
    (if insn AND 0xFF20FC00 \<noteq> 0x5E20DC00 then no_match else fp_scalar_two h LaneMulx insn c)"

definition exec_fmul_element_scalar :: "'h host_scheme \<Rightarrow> u32 \<Rightarrow> 'd cpu \<Rightarrow> 'd handled" where
  "exec_fmul_element_scalar h insn c =
    (if insn AND 0xFF80F400 \<noteq> 0x5F809000 then no_match else fp_scalar_by_element h (LaneBinary FpMul) insn c)"

definition exec_fmulx_element_scalar :: "'h host_scheme \<Rightarrow> u32 \<Rightarrow> 'd cpu \<Rightarrow> 'd handled" where
  "exec_fmulx_element_scalar h insn c =
    (if insn AND 0xFF80F400 \<noteq> 0x7F809000 then no_match else fp_scalar_by_element h LaneMulx insn c)"

definition exec_fmla_element_scalar :: "'h host_scheme \<Rightarrow> u32 \<Rightarrow> 'd cpu \<Rightarrow> 'd handled" where
  "exec_fmla_element_scalar h insn c =
    (if insn AND 0xFF80F400 \<noteq> 0x5F801000 \<and> insn AND 0xFF80F400 \<noteq> 0x5F805000 then no_match
     else case fp_element_operand insn of
       None \<Rightarrow> not_handled
     | Some (index, rm) \<Rightarrow>
         fp_scalar_done insn
           (fp_fma_at h (insn AND 0x00004000 \<noteq> 0) False (current_fpcr_ctl c) (fp_sz insn) (scalar_raw (rn_of insn) c)
              (vector_get_elem (qreg_at rm c) (fp_sz insn) index) (scalar_raw (rd_of insn) c)) c)"

definition exec_fnmul :: "'h host_scheme \<Rightarrow> u32 \<Rightarrow> 'd cpu \<Rightarrow> 'd handled" where
  "exec_fnmul h insn c =
    (if insn AND 0xFF20FC00 \<noteq> 0x1E208800 then no_match else fp_scalar_two h LaneNegMul insn c)"

definition exec_fabd_scalar :: "'h host_scheme \<Rightarrow> u32 \<Rightarrow> 'd cpu \<Rightarrow> 'd handled" where
  "exec_fabd_scalar h insn c =
    (if insn AND 0xFF20FC00 \<noteq> 0x7E20D400 then no_match
     else fp_scalar_done insn
            (fp_lane_at h LaneAbsDiff (current_fpcr_ctl c) (fp_sz insn) (scalar_raw (rn_of insn) c) (scalar_raw (rm_of insn) c)) c)"

definition exec_fdiv_scalar :: "'h host_scheme \<Rightarrow> u32 \<Rightarrow> 'd cpu \<Rightarrow> 'd handled" where
  "exec_fdiv_scalar h insn c =
    (if insn AND 0xFF20FC00 \<noteq> 0x1E201800 then no_match else fp_scalar_two h (LaneBinary FpDiv) insn c)"

definition fp_pair_scalar_rows :: "(u32 \<times> fp_lane_op) list" where
  "fp_pair_scalar_rows =
    [(0x7E30D800, LaneBinary FpAdd), (0x7E70D800, LaneBinary FpAdd),
     (0x7E30F800, LaneMinMax False False), (0x7E70F800, LaneMinMax False False),
     (0x7EB0F800, LaneMinMax True False), (0x7EF0F800, LaneMinMax True False),
     (0x7E30C800, LaneMinMax False True), (0x7E70C800, LaneMinMax False True),
     (0x7EB0C800, LaneMinMax True True), (0x7EF0C800, LaneMinMax True True)]"

definition exec_fp_pair_scalar :: "'h host_scheme \<Rightarrow> u32 \<Rightarrow> 'd cpu \<Rightarrow> 'd handled" where
  "exec_fp_pair_scalar h insn c =
    (case map_of fp_pair_scalar_rows (insn AND 0xFFFFFC00) of
       None \<Rightarrow> no_match
     | Some oper \<Rightarrow>
         let src = qreg_at (rn_of insn) c
         in fp_scalar_done insn
              (fp_lane_at h oper (current_fpcr_ctl c) (fp_sz insn) (vector_get_elem src (fp_sz insn) 0)
                 (vector_get_elem src (fp_sz insn) 1)) c)"

definition exec_fmax_scalar :: "'h host_scheme \<Rightarrow> u32 \<Rightarrow> 'd cpu \<Rightarrow> 'd handled" where
  "exec_fmax_scalar h insn c =
    (let opcode = insn AND 0xFF20FC00; is_min = (opcode = 0x1E205800 \<or> opcode = 0x1E207800);
         numeric = (opcode = 0x1E206800 \<or> opcode = 0x1E207800)
     in if opcode \<notin> {0x1E204800, 0x1E205800, 0x1E206800, 0x1E207800} then no_match
        else fp_scalar_two h (LaneMinMax is_min numeric) insn c)"

definition exec_fadd_scalar :: "'h host_scheme \<Rightarrow> u32 \<Rightarrow> 'd cpu \<Rightarrow> 'd handled" where
  "exec_fadd_scalar h insn c =
    (if insn AND 0xFF20FC00 \<noteq> 0x1E202800 then no_match else fp_scalar_two h (LaneBinary FpAdd) insn c)"

definition exec_fsub_scalar :: "'h host_scheme \<Rightarrow> u32 \<Rightarrow> 'd cpu \<Rightarrow> 'd handled" where
  "exec_fsub_scalar h insn c =
    (if insn AND 0xFF20FC00 \<noteq> 0x1E203800 then no_match else fp_scalar_two h (LaneBinary FpSub) insn c)"

definition exec_fmadd :: "'h host_scheme \<Rightarrow> u32 \<Rightarrow> 'd cpu \<Rightarrow> 'd handled" where
  "exec_fmadd h insn c =
    (let negate_addend = (insn AND 0x00200000 \<noteq> 0); negate_product = (negate_addend \<noteq> (insn AND 0x00008000 \<noteq> 0))
     in if insn AND 0xFF208000 \<notin> {0x1F000000, 0x1F008000, 0x1F200000, 0x1F208000} then no_match
        else case fp_width insn of
          None \<Rightarrow> not_handled
        | Some esize \<Rightarrow>
            fp_scalar_done insn
              (fp_fma_at h negate_product negate_addend (current_fpcr_ctl c) esize (scalar_raw (rn_of insn) c)
                 (scalar_raw (rm_of insn) c) (scalar_raw (ra_of insn) c)) c)"

definition exec_fabs_fneg_scalar :: "u32 \<Rightarrow> 'd cpu \<Rightarrow> 'd handled" where
  "exec_fabs_fneg_scalar insn c =
    (let tag = insn AND 0xFFFFFC00; v = scalar_raw (rn_of insn) c in
     if tag = 0x1E20C000 then done_with (rd_of insn) (ucast (fp_abs_bits (ucast v :: u32)), 0) c
     else if tag = 0x1E60C000 then done_with (rd_of insn) (fp_abs_bits v, 0) c
     else if tag = 0x1E214000 then done_with (rd_of insn) (ucast (fp_neg_bits (ucast v :: u32)), 0) c
     else if tag = 0x1E614000 then done_with (rd_of insn) (fp_neg_bits v, 0) c
     else no_match)"

section \<open>Comparisons\<close>

definition fp_compare_scalar :: "fp_relation \<Rightarrow> u64 \<Rightarrow> u32 \<Rightarrow> 'd cpu \<Rightarrow> 'd handled" where
  "fp_compare_scalar rel rhs insn c =
    fp_scalar_done insn (fp_compare_at rel (current_fpcr_ctl c) (fp_sz insn) (scalar_raw (rn_of insn) c) rhs) c"

definition exec_fcm_scalar :: "u32 \<Rightarrow> 'd cpu \<Rightarrow> 'd handled" where
  "exec_fcm_scalar insn c =
    (case map_of [(0x5E20E400, RelEq), (0x7E20E400, RelGe), (0x7EA0E400, RelGt)] (insn AND 0xFFA0FC00) of
       None \<Rightarrow> no_match
     | Some rel \<Rightarrow> fp_compare_scalar rel (scalar_raw (rm_of insn) c) insn c)"

definition exec_facge_scalar :: "u32 \<Rightarrow> 'd cpu \<Rightarrow> 'd handled" where
  "exec_facge_scalar insn c =
    (case map_of [(0x7E20EC00, RelAbsGe), (0x7EA0EC00, RelAbsGt)] (insn AND 0xFFA0FC00) of
       None \<Rightarrow> no_match
     | Some rel \<Rightarrow> fp_compare_scalar rel (scalar_raw (rm_of insn) c) insn c)"

definition exec_fcm_zero_scalar :: "u32 \<Rightarrow> 'd cpu \<Rightarrow> 'd handled" where
  "exec_fcm_zero_scalar insn c =
    (case map_of [(0x5EA0D800, RelEq), (0x7EA0C800, RelGe), (0x5EA0C800, RelGt), (0x7EA0D800, RelLe), (0x5EA0E800, RelLt)]
            (insn AND 0xFFA0FC00) of
       None \<Rightarrow> no_match
     | Some rel \<Rightarrow> fp_compare_scalar rel 0 insn c)"

definition set_fp_compare_flags :: "bool \<Rightarrow> bool \<Rightarrow> bool \<Rightarrow> 'd cpu \<Rightarrow> 'd cpu" where
  "set_fp_compare_flags unordered is_less is_equal =
    (if unordered then set_nzcv_flags False False True True
     else if is_less then set_nzcv_flags True False False False
     else if is_equal then set_nzcv_flags False True True False
     else set_nzcv_flags False False True False)"

text \<open>The flags and the FPSR bits of a comparison.\<close>
definition fp_compare_flags :: "bool \<Rightarrow> u32 \<Rightarrow> 'a::len word \<Rightarrow> 'a word \<Rightarrow> 'd cpu \<Rightarrow> 'd cpu" where
  "fp_compare_flags signaling fpcr lhs rhs c =
    (let (lhs, fpsr) = fp_flush_input_denormal_bits lhs fpcr 0;
         (rhs, fpsr) = fp_flush_input_denormal_bits rhs fpcr fpsr;
         c = (if fp_is_nan_bits lhs \<or> fp_is_nan_bits rhs then set_fp_compare_flags True False False c
              else set_fp_compare_flags False (host_less lhs rhs) (host_equal lhs rhs) c)
     in on_sysregs (fp_or_fpsr (fpsr OR fp_compare_fpsr_bits lhs rhs signaling)) c)"

definition fp_compare_flags_at :: "nat \<Rightarrow> u32 \<Rightarrow> u64 \<Rightarrow> u64 \<Rightarrow> 'd cpu \<Rightarrow> 'd handled" where
  "fp_compare_flags_at esize insn lhs rhs c =
    (let signaling = (insn AND 0x10 \<noteq> 0); fpcr = current_fpcr_ctl c
     in Some (Some (if esize = 32 then fp_compare_flags signaling fpcr (ucast lhs :: u32) (ucast rhs) c
                    else fp_compare_flags signaling fpcr lhs rhs c)))"

definition exec_fcsel :: "u32 \<Rightarrow> 'd cpu \<Rightarrow> 'd handled" where
  "exec_fcsel insn c =
    (let v = scalar_raw (if condition_holds (drop_bit 12 insn AND 0xF) c then rn_of insn else rm_of insn) c in
     if insn AND 0xFF200C00 \<noteq> 0x1E200C00 then no_match
     else case fp_width insn of
       None \<Rightarrow> not_handled
     | Some esize \<Rightarrow> done_with (rd_of insn) (if esize = 32 then v AND 0xFFFFFFFF else v, 0) c)"

definition exec_fccmp :: "u32 \<Rightarrow> 'd cpu \<Rightarrow> 'd handled" where
  "exec_fccmp insn c =
    (if insn AND 0xFFB80F20 \<noteq> 0x1E200400 then no_match
     else if \<not> condition_holds (drop_bit 12 insn AND 0xF) c then
       Some (Some (on_sysregs (set_nzcv (push_bit 28 (ucast (insn AND 0xF)))) c))
     else fp_compare_flags_at (fp_sz insn) insn (scalar_raw (rn_of insn) c) (scalar_raw (rm_of insn) c) c)"

definition exec_fcmp :: "u32 \<Rightarrow> 'd cpu \<Rightarrow> 'd handled" where
  "exec_fcmp insn c =
    (if insn AND 0xFF20FC1F \<noteq> 0x1E202000 \<and> insn AND 0xFF20FC1F \<noteq> 0x1E202010 then no_match
     else case fp_width insn of
       None \<Rightarrow> not_handled
     | Some esize \<Rightarrow> fp_compare_flags_at esize insn (scalar_raw (rn_of insn) c) (scalar_raw (rm_of insn) c) c)"

definition exec_fcmp_zero :: "u32 \<Rightarrow> 'd cpu \<Rightarrow> 'd handled" where
  "exec_fcmp_zero insn c =
    (if insn AND 0xFF20FC1F \<noteq> 0x1E202008 \<and> insn AND 0xFF20FC1F \<noteq> 0x1E202018 then no_match
     else case fp_width insn of
       None \<Rightarrow> not_handled
     | Some esize \<Rightarrow> fp_compare_flags_at esize insn (scalar_raw (rn_of insn) c) 0 c)"

section \<open>Integers\<close>

definition exec_fcvtzs_simd_scalar :: "u32 \<Rightarrow> 'd cpu \<Rightarrow> 'd handled" where
  "exec_fcvtzs_simd_scalar insn c =
    (let v = scalar_raw (rn_of insn) c; fpcr = current_fpcr_ctl c in
     if insn AND 0xFF3FFC00 \<noteq> 0x5E21B800 then no_match
     else if insn_size insn = 2 then
       (case fp_to_int_at None False fpcr 32 32 v of (r, s) \<Rightarrow> fp_scalar_done insn (r AND 0xFFFFFFFF, s) c)
     else if insn_size insn = 3 then fp_scalar_done insn (fp_to_int_at None False fpcr 64 64 v) c
     else not_handled)"

text \<open>The integer in a general register: 64 bits when the top bit of the word is set.\<close>
definition general_int :: "bool \<Rightarrow> u32 \<Rightarrow> 'd cpu \<Rightarrow> int" where
  "general_int is_unsigned insn c =
    (if drop_bit 31 insn \<noteq> 0 then (if is_unsigned then uint (reg (rn_of insn) c) else sint (reg (rn_of insn) c))
     else if is_unsigned then uint (reg32 (rn_of insn) c) else sint (reg32 (rn_of insn) c))"

definition exec_cvtf_general :: "u32 \<Rightarrow> 'd cpu \<Rightarrow> 'd handled" where
  "exec_cvtf_general insn c =
    (let tag = insn AND 0xFF3FFC00 in
     if tag \<notin> {0x1E220000, 0x9E220000, 0x1E230000, 0x9E230000} then no_match
     else case fp_width insn of
       None \<Rightarrow> not_handled
     | Some esize \<Rightarrow>
         fp_scalar_done insn
           (fp_from_int_at (current_fpcr_ctl c) esize (general_int (tag = 0x1E230000 \<or> tag = 0x9E230000) insn c)) c)"

text \<open>A scalar to a general register.\<close>
definition fp_to_general :: "fp_to_int_rounding_mode option \<Rightarrow> bool \<Rightarrow> u32 \<Rightarrow> 'd cpu \<Rightarrow> 'd handled" where
  "fp_to_general rounding is_unsigned insn c =
    (case fp_width insn of
       None \<Rightarrow> not_handled
     | Some esize \<Rightarrow>
         let to_x = drop_bit 31 insn \<noteq> 0;
             (r, fpsr) = fp_to_int_at rounding is_unsigned (current_fpcr_ctl c) (if to_x then 64 else 32) esize
                           (scalar_raw (rn_of insn) c);
             c = on_sysregs (fp_or_fpsr fpsr) c
         in Some (Some (if to_x then set_reg (rd_of insn) r c else set_reg32 (rd_of insn) (ucast r) c)))"

definition exec_fcvtzs_general :: "u32 \<Rightarrow> 'd cpu \<Rightarrow> 'd handled" where
  "exec_fcvtzs_general insn c =
    (if insn AND 0xFF3FFC00 \<noteq> 0x1E380000 \<and> insn AND 0xFF3FFC00 \<noteq> 0x9E380000 then no_match
     else fp_to_general None False insn c)"

definition exec_fcvtzu_general :: "u32 \<Rightarrow> 'd cpu \<Rightarrow> 'd handled" where
  "exec_fcvtzu_general insn c =
    (if insn AND 0xFF3FFC00 \<noteq> 0x1E390000 \<and> insn AND 0xFF3FFC00 \<noteq> 0x9E390000 then no_match
     else fp_to_general None True insn c)"

text \<open>The labels of the switch; the type bits are masked out of the word, so the labels of doubles never match.\<close>
definition fcvt_general_tags :: "u32 list" where
  "fcvt_general_tags =
    [0x1E200000, 0x1E210000, 0x1E240000, 0x1E250000, 0x1E280000, 0x1E290000, 0x1E300000, 0x1E310000,
     0x1E600000, 0x1E610000, 0x1E640000, 0x1E650000, 0x1E680000, 0x1E690000, 0x1E700000, 0x1E710000,
     0x9E200000, 0x9E210000, 0x9E240000, 0x9E250000, 0x9E280000, 0x9E290000, 0x9E300000, 0x9E310000,
     0x9E600000, 0x9E610000, 0x9E640000, 0x9E650000, 0x9E680000, 0x9E690000, 0x9E700000, 0x9E710000]"

definition exec_fcvt_general :: "u32 \<Rightarrow> 'd cpu \<Rightarrow> 'd handled" where
  "exec_fcvt_general insn c =
    (let opcode = insn AND 0xFF3FFC00; kind = opcode AND 0x001E0000 in
     if \<not> List.member fcvt_general_tags opcode then no_match
     else if kind = 0 then fp_to_general (Some TieEven) (opcode AND 0x00010000 \<noteq> 0) insn c
     else if kind = 0x00040000 then fp_to_general (Some TieAway) (opcode AND 0x00010000 \<noteq> 0) insn c
     else if kind = 0x00080000 then fp_to_general (Some PosInf) (opcode AND 0x00010000 \<noteq> 0) insn c
     else if kind = 0x00100000 then fp_to_general (Some NegInf) (opcode AND 0x00010000 \<noteq> 0) insn c
     else not_handled)"

definition exec_shrn_scalar :: "u32 \<Rightarrow> 'd cpu \<Rightarrow> 'd handled" where
  "exec_shrn_scalar insn c =
    (let tag = insn AND 0xFF80FC00; src_esize = 16 * 2 ^ highest_set_bit (insn_immh insn);
         shift = src_esize - insn_immhb insn; dst_esize = src_esize div 2;
         round = (tag \<in> {0x5F009C00, 0x7F009C00, 0x7F008C00});
         mode = (if tag = 0x5F009400 \<or> tag = 0x5F009C00 then SignedToSignedSaturating
                 else if tag = 0x7F009400 \<or> tag = 0x7F009C00 then UnsignedToUnsignedSaturating
                 else SignedToUnsignedSaturating)
     in if tag \<notin> {0x5F009400, 0x7F009400, 0x5F009C00, 0x7F009C00, 0x7F008400, 0x7F008C00} then no_match
        else if insn_immh insn = 0 \<or> src_esize < 16 \<or> src_esize > 64 \<or> shift = 0 \<or> shift > src_esize div 2
        then not_handled
        else done_scalar_sat (rd_of insn) dst_esize
               (shift_right_narrow_result (scalar_at (rn_of insn) src_esize c) src_esize dst_esize shift round mode) c)"

section \<open>All tests of the function\<close>

text \<open>The first test that does not go on decides.\<close>
definition first_match :: "(u32 \<Rightarrow> 'd cpu \<Rightarrow> 'd handled) list \<Rightarrow> u32 \<Rightarrow> 'd cpu \<Rightarrow> 'd handled" where
  "first_match tests insn c = foldr (\<lambda>t r. or_next (t insn c) r) tests no_match"

definition simd_tests_1 :: "'h host_scheme \<Rightarrow> (u32 \<Rightarrow> 'd cpu \<Rightarrow> 'd handled) list" where
  "simd_tests_1 h =
    [exec_umov, exec_dup_element, exec_dup_general, exec_ins_element, exec_movi_scalar, exec_ins_general,
     exec_sshll, exec_ushr h, exec_movi_byte, exec_modified_immediate, exec_rev16_vector, exec_rev_vector,
     exec_cls_clz, exec_cm_zero, exec_cmeq_register, exec_cmtst, exec_tbl, exec_ext, exec_cnt, exec_bitwise,
     exec_cm_register, exec_fp_pairwise h, exec_fmaxv, exec_fcvtxn, exec_addp_scalar, exec_fcvt h,
     exec_fadd_vector h, exec_fmulx_vector h, exec_fmul_vector h, exec_fmul_by_element h, exec_fmulx_by_element h,
     exec_mul_by_element, exec_sqdmulh_by_element, exec_sqdmull_by_element, exec_mull_by_element]"

definition simd_tests_2 :: "'h host_scheme \<Rightarrow> (u32 \<Rightarrow> 'd cpu \<Rightarrow> 'd handled) list" where
  "simd_tests_2 h =
    [exec_fmla_by_element h, exec_frecps_vector h, exec_fdiv_vector h, exec_fmax_vector h, exec_fmla_vector h,
     exec_fmaxnm_vector h, exec_fabd_vector h, exec_facge_vector, exec_fcm_vector, exec_fcm_zero_vector,
     exec_fcvt_vector h, exec_fcvtz_vector, exec_fcvt_int_vector, exec_urecpe, exec_fp_unary_vector h,
     exec_add_vector, exec_halving, exec_saba, exec_sabd, exec_smax, exec_sqdmulh, exec_sqdmull, exec_mull,
     exec_sub_vector, exec_mla_vector, exec_mul_vector, exec_zip1, exec_uzp1, exec_trn1, exec_zip2, exec_uzp2,
     exec_trn2, exec_across, exec_saddlp, exec_sadalp, exec_pairwise, exec_shrn, exec_addhn, exec_xtn, exec_sqxtn,
     exec_saddl, exec_sabal, exec_saddw, exec_sqadd, exec_sqadd_scalar, exec_sqdmulh_scalar, exec_sqdmull_scalar]"

definition simd_tests_3 :: "'h host_scheme \<Rightarrow> (u32 \<Rightarrow> 'd cpu \<Rightarrow> 'd handled) list" where
  "simd_tests_3 h =
    [exec_fsqrt_scalar h, exec_frecps_scalar h, exec_scvtf_scalar h, exec_frint_scalar h, exec_fmov_imm,
     exec_fmov_register, exec_fmul_scalar h, exec_fmulx_scalar h, exec_fmul_element_scalar h,
     exec_fmulx_element_scalar h, exec_sqdmulh_element_scalar, exec_sqdmull_element_scalar,
     exec_fmla_element_scalar h, exec_fnmul h, exec_fabd_scalar h, exec_fdiv_scalar h, exec_fp_pair_scalar h,
     exec_fmax_scalar h, exec_fadd_scalar h, exec_fsub_scalar h, exec_fmadd h, exec_fabs_fneg_scalar,
     exec_fcm_scalar, exec_facge_scalar, exec_fcm_zero_scalar, exec_fcvtzs_simd_scalar, exec_cvtf_general,
     exec_fcsel, exec_fccmp, exec_fcmp, exec_fcmp_zero, exec_shrn_scalar, exec_fcvtzs_general,
     exec_fcvt_general, exec_fcvtzu_general, exec_fmov_general]"

definition exec_simd :: "'h host_scheme \<Rightarrow> u32 \<Rightarrow> 'd cpu \<Rightarrow> 'd handled" where
  "exec_simd h = first_match (simd_tests_1 h @ simd_tests_2 h @ simd_tests_3 h)"

end
