(* ===== verification/Cpu_Step.thy ===== *)
theory Cpu_Step
  imports Cpu_Features Cpu_Scalar_Fp
begin

text \<open>
  \<open>Cpu::step\<close> of \<open>src/src/cpu.cpp\<close>: waiting, the interrupt, the software step, the fetch, the dispatch of
  an instruction and its end. The environment of a step extends the one of the system instructions by the
  callback \<open>smccc_call\<close> (absent, or its result with the state it leaves), by what the host's arithmetic leaves
  open (\<open>host\<close>) and by the choice of the environment variable that makes \<open>BRK\<close> halt. The trace output is
  left out.
\<close>

record 'd step_env = "'d cpu_env" +
  se_smccc :: "(bool \<Rightarrow> u16 \<Rightarrow> 'd cpu \<Rightarrow> bool \<times> 'd cpu) option"
  se_host :: host
  se_brk_halts :: bool

section \<open>Data processing\<close>

definition absent_integer_rows :: "(u32 \<times> u32) list" where
  "absent_integer_rows =
    [(0xFFE07C10, 0xBA000400), (0xFFFFBC1F, 0x3A00080D),
     (0xFFFFFFE0, 0xDAC143E0), (0xFFFFFFE0, 0xDAC147E0), (0xFFFFFC00, 0xDAC10000), (0xFFFFFFE0, 0xDAC123E0),
     (0xFFFFFC00, 0xDAC10400), (0xFFFFFFE0, 0xDAC127E0), (0xFFFFFC00, 0xDAC10800), (0xFFFFFFE0, 0xDAC12BE0),
     (0xFFFFFC00, 0xDAC10C00), (0xFFFFFFE0, 0xDAC12FE0), (0xFFFFFC00, 0xDAC11000), (0xFFFFFFE0, 0xDAC133E0),
     (0xFFFFFC00, 0xDAC11400), (0xFFFFFFE0, 0xDAC137E0), (0xFFFFFC00, 0xDAC11800), (0xFFFFFFE0, 0xDAC13BE0),
     (0xFFFFFC00, 0xDAC11C00), (0xFFFFFFE0, 0xDAC13FE0), (0xFFE0FC00, 0x9AC03000)]"

definition exec_data_processing :: "'d step_env \<Rightarrow> u32 \<Rightarrow> 'd cpu \<Rightarrow> 'd cpu option" where
  "exec_data_processing env insn c =
    (if matches_any absent_integer_rows insn \<or>
        feat_fp16_absent (r_id_aa64pfr0_el1 (c_sysregs c)) \<and> insn_requires_fp16_feature insn
       then Some (undefined_insn c)
     else case exec_simd (se_host env) insn c of
            Some r \<Rightarrow> r
          | None \<Rightarrow> exec_integer insn c)"

section \<open>Instructions of the dispatcher itself\<close>

definition undefined_at :: "u64 \<Rightarrow> 'd cpu \<Rightarrow> 'd cpu" where
  "undefined_at this_pc c = enter_sync_exception this_pc 0x00 0 False 0 c"

definition is_ret :: "u32 \<Rightarrow> bool" where "is_ret insn \<longleftrightarrow> insn AND 0xFFFFFC1F = 0xD65F0000"
definition is_br :: "u32 \<Rightarrow> bool" where "is_br insn \<longleftrightarrow> insn AND 0xFFFFFC1F = 0xD61F0000"
definition is_blr :: "u32 \<Rightarrow> bool" where "is_blr insn \<longleftrightarrow> insn AND 0xFFFFFC1F = 0xD63F0000"

definition exec_branch_register :: "u32 \<Rightarrow> 'd cpu \<Rightarrow> 'd cpu" where
  "exec_branch_register insn c =
    (let target = reg (rn_of insn) c; c = (if is_blr insn then set_reg 30 (c_pc c) c else c)
     in c\<lparr>c_pc := target\<rparr>)"

text \<open>The return of the interrupt on top of the exception stack that was not ended by software.\<close>
definition finish_irq_frame :: "'x irq_devices_scheme cpu \<Rightarrow> 'x irq_devices_scheme cpu" where
  "finish_irq_frame c =
    (let fr = exception_top c in
     if ef_is_irq fr \<and> \<not> ef_prio_dropped fr
     then on_gic (eoi (c_cpu_index c) (unat (ef_intid fr))) (set_running_priority (ef_prev_prio fr) c)
     else c)"

definition exec_eret :: "u64 \<Rightarrow> 'x irq_devices_scheme cpu \<Rightarrow> 'x irq_devices_scheme cpu" where
  "exec_eret this_pc c =
    (if in_el0 (c_sysregs c) then undefined_at this_pc c
     else
       let c = clear_exclusive_monitor (save_current_sp_to_bank c);
           (pc, r) = exception_return (illegal_exception_return (c_sysregs c)) (c_sysregs c);
           c = load_current_sp_from_bank (c\<lparr>c_sysregs := r, c_pc := pc\<rparr>)
       in if c_exception_depth c = 0 then c
          else (let c = finish_irq_frame c in c\<lparr>c_exception_depth := c_exception_depth c - 1\<rparr>))"

definition insn_imm16 :: "u32 \<Rightarrow> u32" where "insn_imm16 insn = drop_bit 5 insn AND 0xFFFF"

definition exec_smccc :: "'d step_env \<Rightarrow> bool \<Rightarrow> u64 \<Rightarrow> u32 \<Rightarrow> 'd cpu \<Rightarrow> 'd cpu" where
  "exec_smccc env is_hvc this_pc insn c =
    (if in_el0 (c_sysregs c) then undefined_at this_pc c
     else
       case (case se_smccc env of None \<Rightarrow> (False, c) | Some f \<Rightarrow> f is_hvc (ucast (insn_imm16 insn)) c) of
         (True, c) \<Rightarrow> c
       | (False, c) \<Rightarrow> undefined_at this_pc c)"

text \<open>The exception-generating and returning instructions: the result of the step and the state.\<close>
definition exec_control ::
  "'x irq_devices_scheme step_env \<Rightarrow> u64 \<Rightarrow> u32 \<Rightarrow> 'x irq_devices_scheme cpu \<Rightarrow>
   (bool \<times> 'x irq_devices_scheme cpu) option" where
  "exec_control env this_pc insn c =
    (let op = insn AND 0xFFE0001F; go = (\<lambda>c. Some (True, c)) in
     if insn = 0xD503201F then go c
     else if is_ret insn \<or> is_br insn \<or> is_blr insn then go (exec_branch_register insn c)
     else if insn = 0xD69F03E0 then go (exec_eret this_pc c)
     else if op \<in> {0xD4A00001, 0xD4A00002, 0xD4A00003} \<or> insn = 0xD6BF03E0 then go (undefined_at this_pc c)
     else if op = 0xD4200000 then
       (if se_brk_halts env then Some (False, c\<lparr>c_halted := True\<rparr>)
        else go (enter_sync_exception this_pc 0x3C (insn_imm16 insn) False 0 c))
     else if op = 0xD4400000 then go (undefined_at this_pc c)
     else if op = 0xD4000002 then go (exec_smccc env True this_pc insn c)
     else if op = 0xD4000003 then go (exec_smccc env False this_pc insn c)
     else if op = 0xD4000001 then go (enter_sync_exception this_pc 0x15 (insn_imm16 insn) False 0 c)
     else None)"

section \<open>The dispatch\<close>

text \<open>The decoded instruction, when the cache is on; the source tries the frequent kinds by name before it
  calls \<open>exec_decoded\<close>, which calls the same functions.\<close>
definition exec_predecoded :: "'d step_env \<Rightarrow> u64 \<Rightarrow> u64 \<Rightarrow> u32 \<Rightarrow> 'd cpu \<Rightarrow> 'd cpu option \<times> 'd cpu" where
  "exec_predecoded env this_pc pa insn c =
    (case lookup_decoded this_pc pa insn c of
       (None, c) \<Rightarrow> (None, c)
     | (Some d, c) \<Rightarrow> (exec_decoded (env_io env) d c, c))"

definition exec_undecoded ::
  "'x irq_devices_scheme step_env \<Rightarrow> u64 \<Rightarrow> u32 \<Rightarrow> 'x irq_devices_scheme cpu \<Rightarrow> 'x irq_devices_scheme cpu" where
  "exec_undecoded env this_pc insn c =
    (case exec_branch insn c of Some c \<Rightarrow> c
     | None \<Rightarrow>
       (case exec_system (cpu_env.truncate env) insn c of Some c \<Rightarrow> c
        | None \<Rightarrow>
          (case exec_data_processing env insn c of Some c \<Rightarrow> c
           | None \<Rightarrow>
             (case exec_load_store (env_io env) insn c of Some c \<Rightarrow> c
              | None \<Rightarrow> undefined_at this_pc c))))"

definition exec_insn ::
  "'x irq_devices_scheme step_env \<Rightarrow> u64 \<Rightarrow> u64 \<Rightarrow> u32 \<Rightarrow> 'x irq_devices_scheme cpu \<Rightarrow> bool \<times> 'x irq_devices_scheme cpu" where
  "exec_insn env this_pc pa insn c =
    (case exec_control env this_pc insn c of
       Some r \<Rightarrow> r
     | None \<Rightarrow>
         if fp_asimd_traps_enabled_for_current_el c \<and> insn_uses_fp_asimd insn c then (True, trap_fp_asimd_access c)
         else if insn_absent insn c then (True, undefined_at this_pc c)
         else
           case exec_predecoded env this_pc pa insn c of
             (Some c, _) \<Rightarrow> (True, c)
           | (None, c) \<Rightarrow> (True, exec_undecoded env this_pc insn c))"

definition finish_instruction :: "bool \<Rightarrow> u32 \<Rightarrow> bool \<times> 'd cpu \<Rightarrow> bool \<times> 'd cpu" where
  "finish_instruction stepped_instruction insn result =
    (case result of (ok, c) \<Rightarrow>
       let c = c\<lparr>c_stepped_instruction_in_flight := False\<rparr>;
           c = c\<lparr>c_pc := normalize_stage1_address (c_pc c) c\<rparr>
       in (ok, if stepped_instruction \<and> \<not> c_exception_taken_this_step c \<and> \<not> c_halted c
               then complete_software_step_after_instruction (c_pc c) insn c else c))"

section \<open>One step\<close>

definition count_step :: "'d cpu \<Rightarrow> 'd cpu" where "count_step c = c\<lparr>c_steps := c_steps c + 1\<rparr>"

definition offer_irq :: "'x irq_devices_scheme cpu \<Rightarrow> bool \<times> 'x irq_devices_scheme cpu" where
  "offer_irq c = (if should_try_irq c then try_take_irq c else (False, c))"

definition step_waiting_for_interrupt :: "'x irq_devices_scheme cpu \<Rightarrow> 'x irq_devices_scheme cpu" where
  "step_waiting_for_interrupt c =
    (case query_pending 0xFF c of
       (True, c) \<Rightarrow> count_step (snd (offer_irq (c\<lparr>c_waiting_for_interrupt := False\<rparr>)))
     | (False, c) \<Rightarrow> count_step c)"

definition step_waiting_for_event :: "'x irq_devices_scheme cpu \<Rightarrow> 'x irq_devices_scheme cpu" where
  "step_waiting_for_event c =
    (if c_event_register c then count_step (c\<lparr>c_event_register := False, c_waiting_for_event := False\<rparr>)
     else
       case irq_wakeup_ready c of
         (False, c) \<Rightarrow> count_step c
       | (True, c) \<Rightarrow>
           (case offer_irq c of
              (False, c) \<Rightarrow> count_step c
            | (True, c) \<Rightarrow> count_step (c\<lparr>c_waiting_for_event := False\<rparr>)))"

definition instruction_abort :: "u32 \<Rightarrow> 'd cpu \<Rightarrow> 'd cpu" where
  "instruction_abort iss c =
    (enter_sync_exception (c_pc c) (if in_el0 (c_sysregs c) then 0x20 else 0x21) iss True (c_pc c) c)
      \<lparr>c_stepped_instruction_in_flight := False\<rparr>"

text \<open>Translation and fetch at the program counter: the physical address and the word, or the state after
  the exception.\<close>
definition fetch_insn :: "'d device_io \<Rightarrow> 'd cpu \<Rightarrow> (u64 \<times> u32) option \<times> 'd cpu" where
  "fetch_insn io c =
    (case translate_address io (c_pc c) Fetch True True True c of
       (None, c) \<Rightarrow>
         (None, instruction_abort (case last_translation_fault (c_last c) of Some f \<Rightarrow> fault_status_code f | None \<Rightarrow> 0) c)
     | (Some r, c) \<Rightarrow>
         (case cpu_bus_read io (tr_pa r) 4 c of
            (None, c) \<Rightarrow> (None, instruction_abort sync_external_abort_fsc c)
          | (Some w, c) \<Rightarrow> (Some (tr_pa r, ucast w), c)))"

definition step_instruction ::
  "'x irq_devices_scheme step_env \<Rightarrow> 'x irq_devices_scheme cpu \<Rightarrow> bool \<times> 'x irq_devices_scheme cpu" where
  "step_instruction env c =
    (if c_pc c AND 0x3 \<noteq> 0 then (True, enter_sync_exception (c_pc c) 0x22 0 True (c_pc c) c)
     else if illegal_execution_state (c_sysregs c) then (True, enter_sync_exception (c_pc c) 0x0E 0 False 0 c)
     else
       let stepped = software_step_active_not_pending (c_sysregs c);
           c = c\<lparr>c_stepped_instruction_in_flight := stepped\<rparr>
       in case fetch_insn (env_io env) c of
            (None, c) \<Rightarrow> (True, c)
          | (Some (pa, insn), c) \<Rightarrow>
              let this_pc = c_pc c in
              (case maybe_take_breakpoint_exception this_pc c of
                 (True, c) \<Rightarrow> (True, c\<lparr>c_stepped_instruction_in_flight := False\<rparr>)
               | (False, c) \<Rightarrow>
                   finish_instruction stepped insn
                     (exec_insn env this_pc pa insn (count_step (c\<lparr>c_pc := c_pc c + 4\<rparr>)))))"

definition begin_step :: "'d cpu \<Rightarrow> 'd cpu" where
  "begin_step c =
    (let c = c\<lparr>c_exception_taken_this_step := False, c_stepped_instruction_in_flight := False\<rparr>
     in c\<lparr>c_pc := normalize_stage1_address (c_pc c) c\<rparr>)"

definition step ::
  "'x irq_devices_scheme step_env \<Rightarrow> 'x irq_devices_scheme cpu \<Rightarrow> bool \<times> 'x irq_devices_scheme cpu" where
  "step env c =
    (if c_halted c then (False, c)
     else
       let c = begin_step c
       in if c_waiting_for_interrupt c then (True, step_waiting_for_interrupt c)
          else if c_waiting_for_event c then (True, step_waiting_for_event c)
          else
            case offer_irq c of
              (True, c) \<Rightarrow> (True, count_step c)
            | (False, c) \<Rightarrow>
                (case maybe_take_software_step_before_instruction c of
                   (True, c) \<Rightarrow> (True, c)
                 | (False, c) \<Rightarrow> step_instruction env c))"

end
