(* ===== verification/Cpu_Frames.thy ===== *)
theory Cpu_Frames
  imports Cpu_Memory
begin

text \<open>
  What the memory accesses of the CPU leave alone. The architectural part of the state (registers, system
  registers, program counter, exception and interrupt bookkeeping) is one projection, and every access
  without a watchpoint keeps it.
\<close>

type_synonym core_state =
  "(u64 list \<times> (u64 \<times> u64) list \<times> sysregs \<times> u64 \<times> u64) \<times>
   (nat \<times> exception_frame list \<times> nat \<times> manual_frame list) \<times> (bool \<times> bool \<times> bool \<times> bool) \<times> (bool \<times> bool) \<times>
   (icc \<times> dcc \<times> nat \<times> bool \<times> bool \<times> bool)"

definition core :: "'d cpu \<Rightarrow> core_state" where
  "core c =
    ((c_regs c, c_qregs c, c_sysregs c, c_pc c, c_steps c),
     (c_exception_depth c, c_exception_stack c, c_manual_irq_depth c, c_manual_irq_stack c),
     (c_waiting_for_interrupt c, c_waiting_for_event c, c_event_register c, c_halted c),
     (c_exception_taken_this_step c, c_stepped_instruction_in_flight c),
     (c_icc c, c_dcc c, c_cpu_index c, c_predecode_enabled c, c_callbacks c, c_debug_slow c))"

lemma core_fields:
  assumes "core c' = core c"
  shows "c_regs c' = c_regs c" "c_qregs c' = c_qregs c" "c_sysregs c' = c_sysregs c" "c_pc c' = c_pc c"
    "c_exception_depth c' = c_exception_depth c" "c_exception_stack c' = c_exception_stack c"
    "c_exception_taken_this_step c' = c_exception_taken_this_step c" "c_halted c' = c_halted c" "c_icc c' = c_icc c"
    "c_stepped_instruction_in_flight c' = c_stepped_instruction_in_flight c"
    "c_predecode_enabled c' = c_predecode_enabled c" "c_steps c' = c_steps c" "c_cpu_index c' = c_cpu_index c"
    "c_manual_irq_depth c' = c_manual_irq_depth c"
  using assms by (simp_all add: core_def)

lemma core_updates [simp]:
  "core (on_perf f c) = core c" "core (on_tlb g c) = core c" "core (on_decode d c) = core c" "core (on_last l c) = core c"
  "core (begin_translation c) = core c" "core (note_translation_fault ft c) = core c"
  "core (note_external_data_abort wr cm va c) = core c" "core (note_fault_va va c) = core c"
  "core (forget_data_fault c) = core c" "core (clear_exclusive_monitor c) = core c" "core (call k c) = core c"
  "core (on_code_write va pa sz c) = core c" "core (note_abort_if b a va c) = core c"
  by (simp_all add: core_def on_perf_def on_tlb_def on_decode_def on_last_def begin_translation_def
      note_translation_fault_def note_external_data_abort_def note_fault_va_def forget_data_fault_def
      clear_exclusive_monitor_def call_def on_code_write_def note_abort_if_def)

lemma core_bus [simp]:
  "core (snd (cpu_bus_read io pa sz c)) = core c" "core (snd (cpu_bus_write io pa v sz c)) = core c"
  "core (snd (cpu_write_ram_fast pa v sz c)) = core c" "core (snd (cpu_ram_ptr pa sz c)) = core c"
  by (auto simp: cpu_bus_read_def cpu_bus_write_def cpu_write_ram_fast_def cpu_ram_ptr_def core_def Let_def
      split: outcome.splits option.splits prod.splits)

lemma core_bus_pair:
  "cpu_bus_read io pa sz c = (x, c') \<Longrightarrow> core c' = core c" "cpu_bus_write io pa v sz c = (ok, c') \<Longrightarrow> core c' = core c"
  "cpu_write_ram_fast pa v sz c = (ok, c') \<Longrightarrow> core c' = core c" "cpu_ram_ptr pa sz c = (p, c') \<Longrightarrow> core c' = core c"
  by (metis core_bus(1) snd_conv, metis core_bus(2) snd_conv, metis core_bus(3) snd_conv, metis core_bus(4) snd_conv)

section \<open>Translation\<close>

lemma core_walk_levels: "core (snd (walk_levels io a levels table_base inherited c)) = core c"
proof (induction levels arbitrary: table_base inherited c)
  case (Cons level levels)
  let ?p = "on_perf (\<lambda>p. p\<lparr>mc_page_walk_desc_reads := mc_page_walk_desc_reads p + 1\<rparr>) c"
  obtain v c1 where b: "cpu_bus_read io (table_base + walk_index (wk_va a) level * 8) 8 ?p = (v, c1)" by fastforce
  have f: "core c1 = core c" using core_bus_pair(1)[OF b] by simp
  show ?case
    by (cases v) (simp_all add: Let_def b f Cons.IH)
qed simp

lemma core_walk [simp]: "core (snd (walk_page_tables io va access chk pan af c)) = core c"
  by (simp add: walk_page_tables_def Let_def core_walk_levels split: sum.split prod.split)

lemma core_find_entry [simp]: "core (snd (find_entry b page asid c)) = core c"
  by (auto simp: find_entry_def Let_def split: option.splits)

lemma core_tlb_insert [simp]: "core (tlb_insert page r c) = core c"
  by (simp add: tlb_insert_def Let_def)

lemma core_pairs:
  "walk_page_tables io va access chk pan af c = (x, c') \<Longrightarrow> core c' = core c"
  "find_entry b page asid c = (e, c') \<Longrightarrow> core c' = core c"
  using core_walk[of io va access chk pan af c] core_find_entry[of b page asid c] by auto

lemma core_translate [simp]: "core (snd (translate_address io va access fill use pan c)) = core c"
proof -
  let ?asid = "current_translation_asid (begin_translation c)"
  let ?va = "normalize_stage1_address va (begin_translation c)"
  let ?page = "drop_bit 12 ?va AND tlb_page_mask"
  obtain e c1 where e: "(if use then find_entry (access = Fetch) ?page ?asid (begin_translation c)
      else (None, begin_translation c)) = (e, c1)" by fastforce
  have 1: "core c1 = core c" using e core_pairs(2) by (fastforce split: if_split_asm)
  let ?m = "if use then on_perf (\<lambda>p. p\<lparr>mc_tlb_misses := mc_tlb_misses p + 1\<rparr>) c1 else c1"
  obtain w c2 where w: "walk_page_tables io ?va access True pan True ?m = (w, c2)" by fastforce
  have 2: "core c2 = core c" using core_pairs(1)[OF w] 1 by (cases "use") simp_all
  show ?thesis
    by (cases e; cases w) (simp_all add: translate_address_def Let_def e w 1 2 split: option.split)
qed

lemma core_translate_fast [simp]: "core (snd (translate_data_address_fast io va access c)) = core c"
proof -
  let ?asid = "current_translation_asid (begin_translation c)"
  let ?va = "normalize_stage1_address va (begin_translation c)"
  obtain e c1 where e: "find_entry False (drop_bit 12 ?va AND tlb_page_mask) ?asid (begin_translation c) = (e, c1)"
    by fastforce
  have 1: "core c1 = core c" using core_pairs(2)[OF e] by simp
  obtain w c2 where w: "walk_page_tables io ?va access True True True
      (on_perf (\<lambda>p. p\<lparr>mc_tlb_misses := mc_tlb_misses p + 1\<rparr>) c1) = (w, c2)" by fastforce
  have 2: "core c2 = core c" using core_pairs(1)[OF w] 1 by simp
  show ?thesis
    by (cases e; cases w) (simp_all add: translate_data_address_fast_def Let_def e w 1 2 split: option.split)
qed

lemma core_translate_pairs:
  "translate_address io va access fill use pan c = (x, c') \<Longrightarrow> core c' = core c"
  "translate_data_address_fast io va access c = (y, c') \<Longrightarrow> core c' = core c"
  using core_translate[of io va access fill "use" pan c] core_translate_fast[of io va access c] by auto

lemma core_translate_bytes: "core (snd (translate_bytes io va access js c)) = core c"
proof (induction js arbitrary: c)
  case (Cons i js)
  obtain x c1 where x: "translate_data_address_fast io (va + of_nat i) access c = (x, c1)" by fastforce
  obtain y c2 where y: "translate_bytes io va access js c1 = (y, c2)" by fastforce
  have "core c1 = core c" "core c2 = core c1" using core_translate_pairs(2)[OF x] Cons.IH[of c1] y by auto
  then show ?case by (cases x; cases y) (simp_all add: x y)
qed simp

section \<open>Loads and stores\<close>

abbreviation no_debug :: "'d cpu \<Rightarrow> bool" where "no_debug c \<equiv> \<not> breakpoint_watchpoint_enabled_current (c_sysregs c)"

lemma watchpoint_none: "no_debug c \<Longrightarrow> watchpoint_if b va sz access c = (False, c)"
  by (simp add: watchpoint_if_def maybe_take_watchpoint_exception_def)

lemma core_read_bytes: "core (snd (read_bytes io va access check i pas v c)) = core c"
proof (induction pas arbitrary: i v c)
  case (Cons pa pas)
  obtain x c1 where x: "cpu_bus_read io pa 1 c = (x, c1)" by fastforce
  then show ?case using core_bus_pair(1)[OF x] by (cases x) (simp_all add: Cons.IH)
qed simp

lemma core_write_bytes: "core (snd (write_bytes io va v access i pas c)) = core c"
proof (induction pas arbitrary: i c)
  case (Cons pa pas)
  obtain x c1 where x: "cpu_bus_write io pa (drop_bit (i * 8) v AND 0xFF) 1 c = (x, c1)" by fastforce
  then show ?case using core_bus_pair(2)[OF x] by (cases x) (simp_all add: Cons.IH)
qed simp

lemma core_load_fast [simp]: "core (snd (load_fast_value d off sz c)) = core c"
  by (auto simp: load_fast_value_def core_def split: outcome.splits)

lemma core_mmu_read:
  assumes "no_debug c"
  shows "core (snd (mmu_read_value io va sz access check c)) = core c"
proof -
  let ?c = "forget_data_fault c"
  have f: "c_debug_slow ?c = c_debug_slow c" by (simp add: forget_data_fault_def on_last_def)
  obtain t c1 where t: "translate_data_address_fast io va access ?c = (t, c1)" by fastforce
  obtain u c2 where u: "translate_bytes io va access [0..<unat sz] ?c = (u, c2)" by fastforce
  have k: "core c1 = core c" "core c2 = core c"
    using core_translate_pairs(2)[OF t] core_translate_bytes[of io va access "[0..<unat sz]" ?c] u by simp_all
  have n: "no_debug c1" "no_debug c2" using core_fields(3)[OF k(1)] core_fields(3)[OF k(2)] assms by simp_all
  note w = watchpoint_none[OF n(1)] watchpoint_none[OF n(2)]
  have m: "core (snd (case (if c_debug_slow c1 then (None, c1) else cpu_ram_ptr pa sz c1) of
        (Some (d, off), c) \<Rightarrow> load_fast_value d off sz c
      | (None, c) \<Rightarrow>
          (case cpu_bus_read io pa sz c of
             (None, c) \<Rightarrow> (None, note_fault_va va (note_abort_if check access va c))
           | (Some v, c) \<Rightarrow> (Some v, c)))) = core c" for pa
  proof -
    obtain p c3 where p: "(if c_debug_slow c1 then (None, c1) else cpu_ram_ptr pa sz c1) = (p, c3)" by fastforce
    have 3: "core c3 = core c" using p core_bus_pair(4)[of pa sz c1] k(1) by (auto split: if_split_asm)
    obtain x c4 where x: "cpu_bus_read io pa sz c3 = (x, c4)" by fastforce
    have 4: "core c4 = core c" using core_bus_pair(1)[OF x] 3 by simp
    show ?thesis by (cases p; cases x) (auto simp: p x 3 4)
  qed
  show ?thesis
    by (cases t; cases u) (simp_all add: mmu_read_value_def Let_def t u k w m core_read_bytes)
qed

end
