(* ===== verification/Cpu_Step_Proofs.thy ===== *)
theory Cpu_Step_Proofs
  imports Cpu_Step Cpu_Frames Decode_Cache_Proofs Cpu_Decode_Proofs Gic_Proofs
begin

text \<open>
  What a step does around its instruction: the interrupt that is offered, the waiting states and the faults.
\<close>

section \<open>An interrupt query that finds nothing\<close>

lemma on_gic_core [simp]: "core (on_gic f c) = core c"
  by (simp add: on_gic_def core_def Let_def)

lemma unanswered_offer:
  assumes "offer_irq c = (False, q)" "should_try_irq c"
  shows "c_exception_taken_this_step q" "c_regs q = c_regs c" "c_sysregs q = c_sysregs c" "c_pc q = c_pc c"
    "c_exception_depth q = c_exception_depth c" "c_predecode_enabled q = c_predecode_enabled c" "c_decode q = c_decode c"
  using assms
  by (auto simp: offer_irq_def try_take_irq_def Let_def on_gic_def on_icc_def note_negative_query_def
      set_running_priority_def split: prod.splits if_split_asm)

text \<open>The loads with an unsigned offset: a doubleword, a word, a halfword or a byte.\<close>
definition plain_load :: "u32 \<Rightarrow> bool" where
  "plain_load insn \<longleftrightarrow> insn AND 0xFFC00000 \<in> {0xF9400000, 0xB9400000, 0x79400000, 0x39400000} \<and> rn_of insn \<noteq> 31"

lemmas absent_rows =
  insn_absent_def insn_undef_due_to_absent_fp_asimd_feature_def insn_requires_fp16_feature_def
  scalar_half_rows_def scalar_half_compare_rows_def vector_half_rows_def absent_frintts_rows_def absent_bf16_rows_def
  absent_fcma_rows_def absent_rdm_rows_def absent_dotprod_rows_def absent_fhm_rows_def absent_i8mm_rows_def
  absent_aes_rows_def absent_sha1_rows_def absent_sha3_rows_def absent_sm3_rows_def absent_sm4_rows_def
  absent_sha256_rows_def absent_pmull_rows_def absent_sha512_rows_def bf16_narrow_def

lemma matches_none: "list_all (\<lambda>(m, v). (insn AND m = v) = False) rows \<Longrightarrow> matches_any rows insn = False"
  by (auto simp: matches_any_def list_ex_iff list_all_iff)

lemmas fp_tables =
  fp_ls_unsigned_imm_rows_def fp_ls_pre_post_rows_def fp_ls_regoffset_rows_def fp_ls_unscaled_rows_def
  fp_ls_pair_rows_def asimd_structured_ls_rows_def

lemmas plain_decode =
  decode_insn_def is_b_imm_def is_b_cond_def is_cbz_def is_tbz_def is_mov_wide_def is_addg_subg_def
  is_add_sub_imm_def is_logical_shifted_def is_logical_imm_def is_bitfield_def is_add_sub_shifted_def

lemmas memory_decode =
  decode_memory_def uimm_rows_def has_flag_def kDecodedFlagLoad_def kDecodedFlagResult64_def no_decode_def

definition load_tags :: "u32 list" where "load_tags = [0xF9400000, 0xB9400000, 0x79400000, 0x39400000]"

lemma tags_clash:
  assumes "(w :: u32) AND m1 \<in> set tags" "list_all (\<lambda>t. t AND m2 \<noteq> v2 AND m1) tags"
  shows "(w AND m2 = v2) = False"
  using assms tag_clash[OF refl, of w m1 m2 v2] by (auto simp: list_all_iff)

lemma tags_rows:
  assumes "(w :: u32) AND m1 \<in> set tags" "list_all (\<lambda>(m, v). list_all (\<lambda>t. t AND m \<noteq> v AND m1) tags) rows"
  shows "matches_any rows w = False"
  using tags_clash[OF assms(1)] assms(2) by (intro matches_none) (fastforce simp: list_all_iff)

lemma tags_word:
  assumes "(w :: u32) AND m1 \<in> set tags" "list_all (\<lambda>t. k AND m1 \<noteq> t) tags"
  shows "(w = k) = False"
  using assms by (auto simp: list_all_iff)

definition not_load :: "(u32 \<times> u32) list \<Rightarrow> bool" where
  "not_load = list_all (\<lambda>(m, v). list_all (\<lambda>t. t AND m \<noteq> v AND 0xFFC00000) load_tags)"

lemma not_load_rows [simp]:
  "not_load scalar_half_rows" "not_load scalar_half_compare_rows" "not_load vector_half_rows"
  "not_load absent_frintts_rows" "not_load absent_bf16_rows" "not_load absent_fcma_rows" "not_load absent_rdm_rows"
  "not_load absent_dotprod_rows" "not_load absent_fhm_rows" "not_load absent_i8mm_rows" "not_load absent_aes_rows"
  "not_load absent_sha1_rows" "not_load absent_sha3_rows" "not_load absent_sm3_rows" "not_load absent_sm4_rows"
  "not_load absent_sha256_rows" "not_load absent_pmull_rows" "not_load absent_sha512_rows"
  "not_load fp_ls_unsigned_imm_rows" "not_load fp_ls_pre_post_rows" "not_load fp_ls_regoffset_rows"
  "not_load fp_ls_unscaled_rows" "not_load fp_ls_pair_rows" "not_load asimd_structured_ls_rows"
  by (simp_all add: not_load_def load_tags_def absent_rows fp_tables)

lemma plain_load_tag: "plain_load insn \<Longrightarrow> insn AND 0xFFC00000 \<in> set load_tags"
  by (simp add: plain_load_def load_tags_def)

lemma plain_load_rows: "plain_load insn \<Longrightarrow> not_load rows \<Longrightarrow> matches_any rows insn = False"
  unfolding not_load_def by (rule tags_rows[OF plain_load_tag])

lemma plain_load_not_absent: "plain_load insn \<Longrightarrow> \<not> insn_absent insn c"
  by (simp add: insn_absent_def insn_undef_due_to_absent_fp_asimd_feature_def insn_requires_fp16_feature_def bf16_narrow_def
      plain_load_rows tags_clash[OF plain_load_tag] load_tags_def Let_def)

lemma plain_load_not_simd: "plain_load insn \<Longrightarrow> \<not> insn_uses_fp_asimd insn c"
  by (simp add: insn_uses_fp_asimd_def plain_load_rows tags_clash[OF plain_load_tag] load_tags_def)

lemma plain_load_not_control: "plain_load insn \<Longrightarrow> exec_control env pc insn c = None"
  by (simp add: exec_control_def is_ret_def is_br_def is_blr_def tags_clash[OF plain_load_tag] tags_word[OF plain_load_tag]
      load_tags_def Let_def)

lemma plain_load_decoded:
  assumes "plain_load insn"
  shows "d_kind (decode_insn insn) = Load_Store_U_Imm" "has_flag kDecodedFlagLoad (decode_insn insn)"
    "unat (d_rn (decode_insn insn)) = rn_of insn"
proof -
  have "decode_insn insn = decode_memory insn"
    using assms by (simp add: plain_decode tags_clash[OF plain_load_tag] load_tags_def)
  moreover have "insn AND 0xFFC00000 \<in> {0xF9400000, 0xB9400000, 0x79400000, 0x39400000}"
    using assms by (simp add: plain_load_def)
  then have "d_kind (decode_memory insn) = Load_Store_U_Imm \<and> has_flag kDecodedFlagLoad (decode_memory insn) \<and>
      d_rn (decode_memory insn) = insn_rn insn"
    by (elim insertE emptyE) (simp_all add: memory_decode)
  ultimately show "d_kind (decode_insn insn) = Load_Store_U_Imm" "has_flag kDecodedFlagLoad (decode_insn insn)"
    "unat (d_rn (decode_insn insn)) = rn_of insn" by (simp_all add: reg_fields)
qed

section \<open>The fault that is lost\<close>

definition load_address :: "u32 \<Rightarrow> 'd cpu \<Rightarrow> u64" where
  "load_address insn c = c_regs c ! rn_of insn + ucast (d_imm (decode_insn insn))"

lemma rn_small: "rn_of insn < 32"
proof -
  have "(0x1F :: u32) = mask 5" by (simp add: mask_eq_exp_minus_1)
  then have "rn_of insn < 2 ^ 5"
    unfolding rn_of_def by (simp only: unsigned_take_bit_eq flip: take_bit_eq_mask) (rule take_bit_nat_less_exp)
  then show ?thesis by simp
qed

lemma failed_plain_load:
  assumes "plain_load insn" "c_exception_taken_this_step c" "no_debug c"
    "load_address insn c mod ucast (d_aux (decode_insn insn)) = 0"
    "mmu_read_value io (load_address insn c) (ucast (d_aux (decode_insn insn))) Read True c = (None, h)"
  shows "exec_decoded io (decode_insn insn) c = Some h" "core h = core c"
proof -
  note d = plain_load_decoded[OF assms(1)]
  have rn: "rn_of insn \<noteq> 31" "rn_of insn < 31" using assms(1) rn_small[of insn] by (auto simp: plain_load_def)
  have h: "core h = core c"
    using core_mmu_read[OF assms(3), of io "load_address insn c" "ucast (d_aux (decode_insn insn))" Read True] assms(5) by simp
  have sp: "maybe_take_sp_alignment_fault (unat (d_rn (decode_insn insn))) c = (False, c)"
    using rn by (simp add: maybe_take_sp_alignment_fault_def d)
  have a: "sp_or_reg (unat (d_rn (decode_insn insn))) c + ucast (d_imm (decode_insn insn)) = load_address insn c"
    using rn by (simp add: sp_or_reg_def reg_def load_address_def d)
  have al: "maybe_take_data_alignment_fault io (load_address insn c) (ucast (d_aux (decode_insn insn))) Read False c = (False, c)"
    using assms(4) by (simp add: maybe_take_data_alignment_fault_def)
  have "decoded_load io (load_address insn c) (d_aux (decode_insn insn)) c = (None, h)"
    using core_fields(7)[OF h] assms(2) by (simp add: decoded_load_def al assms(5) abort_access_def)
  then show "exec_decoded io (decode_insn insn) c = Some h"
    using d(1,2) by (simp add: exec_decoded_def exec_decoded_load_store_uimm_def sp a Let_def)
  show "core h = core c" by (rule h)
qed

lemma fetch_core:
  assumes "fetch_insn io c = (Some x, f)"
  shows "core f = core c"
proof -
  obtain t c1 where t: "translate_address io (c_pc c) Fetch True True True c = (t, c1)" by fastforce
  show ?thesis
    using assms core_translate_pairs(1)[OF t] core_bus_pair(1)
    by (fastforce simp: fetch_insn_def t split: option.splits prod.splits)
qed

lemma lookup_core [simp]: "core (snd (lookup_decoded va pa insn c)) = core c"
  by (simp add: lookup_decoded_def Let_def core_def split: prod.split)

lemma finish_quiet:
  "finish_instruction False insn (ok, c) =
    (ok, (c\<lparr>c_stepped_instruction_in_flight := False\<rparr>)\<lparr>c_pc := normalize_stage1_address (c_pc c) c\<rparr>)"
  by (simp add: finish_instruction_def Let_def normalize_stage1_address_def effective_tbi_def)

text \<open>A machine with four bytes of boot RAM: \<open>LDR x0, [x1]\<close> at address 0 and an address of no device in \<open>x1\<close>.\<close>
definition lost_load_bus :: "irq_devices bus" where
  "lost_load_bus = \<lparr>bus_mappings = [\<lparr>map_base = 0, map_size = 0x1000, map_dev = Boot_Ram\<rparr>], bus_fast = False,
    bus_boot_ram = \<lparr>ram_data = [0x20, 0, 0x40, 0xF9], ram_observer = False, ram_notified = []\<rparr>,
    bus_framebuffer_ram = ram_new 0, bus_sdram = ram_new 0, bus_tracker = None,
    bus_devices = \<lparr>dv_gic = gic_new, dv_timer = timer_new\<rparr>, bus_observer = False, bus_observed = [],
    bus_perf = \<lparr>pc_read_ops = 0, pc_write_ops = 0, pc_read_bytes = 0, pc_write_bytes = 0, pc_find_calls = 0,
      pc_device_reads = 0, pc_device_writes = 0\<rparr>,
    bus_fast_perf = \<lparr>fc_read_ops = 0, fc_write_ops = 0, fc_read_bytes = 0, fc_write_bytes = 0\<rparr>\<rparr>"

definition lost_load_cpu :: "irq_devices cpu \<Rightarrow> irq_devices cpu" where
  "lost_load_cpu c = c\<lparr>c_bus := lost_load_bus, c_regs := (replicate 32 0)[1 := 0x1000], c_sysregs := sysregs_new,
    c_icc := reset_icc\<lparr>icc_igrpen1_el1 := 1\<rparr>, c_cpu_index := 0, c_pc := 0, c_halted := False,
    c_waiting_for_interrupt := False, c_waiting_for_event := False, c_decode := empty_decode_cache,
    c_predecode_enabled := True, c_debug_slow := False\<rparr>"

lemma nothing_to_acknowledge:
  "acknowledge 0 pmr gic_new = ((False, 1023), gic_new\<lparr>gic_acknowledge_calls := 1\<rparr>)"
proof -
  let ?g = "gic_new\<lparr>gic_acknowledge_calls := 1\<rparr>"
  have "gic_wf ?g"
    by (simp add: gic_wf_def gic_new_def set_cpu_count_def Let_def local_wf_def new_local_def gic_constants)
  moreover have "deliverable 0 pmr ?g = {}"
    by (auto simp: deliverable_def irq_pending_on_def gic_new_def set_cpu_count_def Let_def local_cpu_def local_index_def
        new_local_def gic_constants spi_index_def)
  ultimately have "highest_pending 0 pmr ?g = (False, 1023)" by (simp add: highest_pending_least)
  moreover have "gic_acknowledge_calls gic_new = 0" by (simp add: gic_new_def set_cpu_count_def Let_def)
  ultimately show ?thesis by (simp add: acknowledge_def Let_def)
qed

lemma lost_load_normal: "normalize_stage1_address va (lost_load_cpu c) = va"
  by (simp add: normalize_stage1_address_def effective_tbi_def lost_load_cpu_def sysregs_new_def Let_def)

lemma lost_load_offer:
  "should_try_irq (begin_step (lost_load_cpu c))" 
  "fst (offer_irq (begin_step (lost_load_cpu c))) = False"
  by (simp_all add: should_try_irq_def offer_irq_def try_take_irq_def begin_step_def lost_load_cpu_def lost_load_bus_def cpu_gic_def irq_masked_def
    sysregs_new_def new_pstate_def query_known_negative_def reset_icc_def refresh_irq_threshold_cache_def nothing_to_acknowledge Let_def)

abbreviation lost_load_query :: "irq_devices cpu \<Rightarrow> irq_devices cpu" where
  "lost_load_query c \<equiv> snd (offer_irq (begin_step (lost_load_cpu c)))"

lemma lost_load_state:
  "c_sysregs (lost_load_cpu c) = sysregs_new" "c_pc (begin_step (lost_load_cpu c)) = 0"
  "\<not> breakpoint_watchpoint_enabled_current sysregs_new"
  "c_pc (lost_load_query c) = 0" "c_sysregs (lost_load_query c) = sysregs_new"
  "bus_boot_ram (c_bus (lost_load_query c)) = bus_boot_ram lost_load_bus"
  "bus_mappings (c_bus (lost_load_query c)) = bus_mappings lost_load_bus" "bus_fast (c_bus (lost_load_query c)) = False"
  "c_decode (lost_load_query c) = empty_decode_cache" "\<not> c_debug_slow (lost_load_query c)"
  by (simp_all add: should_try_irq_def offer_irq_def try_take_irq_def begin_step_def lost_load_cpu_def lost_load_bus_def
      cpu_gic_def irq_masked_def sysregs_new_def new_pstate_def query_known_negative_def reset_icc_def on_gic_def on_icc_def
      refresh_irq_threshold_cache_def nothing_to_acknowledge normalize_stage1_address_def effective_tbi_def
      breakpoint_watchpoint_enabled_current_def monitor_debug_enabled_def note_negative_query_def Let_def)

lemma off_translation:
  assumes "c_sysregs c = sysregs_new"
  shows "\<not> mmu_enabled (c_sysregs c)" "normalize_stage1_address va c = va"
  using assms by (simp_all add: mmu_enabled_def sysregs_new_def normalize_stage1_address_def effective_tbi_def Let_def)

lemma lost_load_word:
  assumes "bus_boot_ram b = bus_boot_ram lost_load_bus" "bus_mappings b = bus_mappings lost_load_bus" "\<not> bus_fast b"
  shows "\<exists>b'. bus_read io 0 4 b = Defined (Some 0xF9400020, b') \<and> bus_mappings b' = bus_mappings b \<and> \<not> bus_fast b'"
proof -
  have w: "take 4 [0x20, 0, 0x40, 0xF9 :: u8] = [0x20, 0, 0x40, 0xF9]" by (simp add: numeral_eq_Suc)
  have "ram_read 0 4 (bus_boot_ram lost_load_bus) = Defined 0xF9400020"
    by (simp add: lost_load_bus_def ram_read_def ram_read_fast_def access_size_ok_def ram_size_def memcpy_from_def
        bytes_at_def w)
  then have "device_read io Boot_Ram 0 4 b' = Defined (0xF9400020, b')" if "bus_boot_ram b' = bus_boot_ram b" for b'
    using assms(1) that by (simp add: device_read_def)
  then show ?thesis
    using assms by (simp add: bus_read_def bus_read_slow_def bus_find_def maps_def Let_def count_read_def lost_load_bus_def)
qed

lemma lost_load_fetch:
  assumes "c_sysregs c = sysregs_new" "c_pc c = 0" "bus_boot_ram (c_bus c) = bus_boot_ram lost_load_bus"
    "bus_mappings (c_bus c) = bus_mappings lost_load_bus" "\<not> bus_fast (c_bus c)"
  shows "\<exists>f. fetch_insn io c = (Some (0, 0xF9400020), f) \<and> c_decode f = c_decode c \<and> c_debug_slow f = c_debug_slow c \<and>
    bus_mappings (c_bus f) = bus_mappings (c_bus c) \<and> \<not> bus_fast (c_bus f)"
  using assms off_translation[of "begin_translation c"] lost_load_word[OF assms(3-5), of io]
  by (auto simp add: fetch_insn_def translate_address_def begin_translation_def on_perf_def cpu_bus_read_def
      stage1_disabled_output_def stage1_disabled_output_pa_def Let_def)

lemma lost_load_read:
  assumes "c_sysregs c = sysregs_new" "bus_mappings (c_bus c) = bus_mappings lost_load_bus" "\<not> bus_fast (c_bus c)"
    "\<not> c_debug_slow c"
  shows "fst (mmu_read_value io 0x1000 8 Read True c) = None"
proof -
  have "List.find (maps 0x1000 8) (bus_mappings lost_load_bus) = None" by (simp add: lost_load_bus_def maps_def)
  then show ?thesis
  using assms off_translation[of "begin_translation (forget_data_fault c)"]
  by (simp add: mmu_read_value_def translate_data_address_fast_def begin_translation_def on_perf_def cpu_bus_read_def
     forget_data_fault_def on_last_def single_page_def watchpoint_none lost_load_state cpu_ram_ptr_def bus_ram_ptr_def slow_ram_ptr_def bus_find_def
    bus_read_def bus_read_slow_def
      stage1_disabled_output_def stage1_disabled_output_pa_def count_read_def Let_def)
qed


lemma lookup_bus [simp]:
  "c_bus (snd (lookup_decoded va pa insn c)) = c_bus c" "c_debug_slow (snd (lookup_decoded va pa insn c)) = c_debug_slow c"
  by (simp_all add: lookup_decoded_def Let_def split: prod.split)

text \<open>
  C24. A query of the interrupt controller that finds nothing to acknowledge loses the data abort of the same step.
  The query marks the step as having taken an exception before it knows whether there is an interrupt, and the mark
  stays: when the instruction of that step is a load whose translation or bus access then fails, \<open>data_abort\<close> returns at
  once, the load retires without writing its register, no exception is entered and the program counter moves on to the
  next instruction.
\<close>
theorem unanswered_query_drops_data_abort:
  assumes run: "\<not> c_halted c" "\<not> c_waiting_for_interrupt c" "\<not> c_waiting_for_event c"
    and query: "should_try_irq (begin_step c)" "offer_irq (begin_step c) = (False, q)"
    and quiet: "\<not> software_step_active_pending (c_sysregs c)" "\<not> software_step_active_not_pending (c_sysregs c)"
      "\<not> illegal_execution_state (c_sysregs c)" "no_debug c" "c_pc (begin_step c) AND 0x3 = 0"
    and decode: "c_predecode_enabled c" "decode_ok (c_decode f)" "plain_load insn"
    and fetch: "fetch_insn (env_io env) (q\<lparr>c_stepped_instruction_in_flight := False\<rparr>) = (Some (pa, insn), f)"
      "g = snd (lookup_decoded (c_pc f) pa insn (count_step (f\<lparr>c_pc := c_pc f + 4\<rparr>)))"
    and access: "a = load_address insn g" "sz = ucast (d_aux (decode_insn insn))" "a mod sz = 0"
      "mmu_read_value (env_io env) a sz Read True g = (None, h)"
  shows "fst (step env c) \<and> c_regs (snd (step env c)) = c_regs c \<and> c_sysregs (snd (step env c)) = c_sysregs c \<and>
    c_exception_depth (snd (step env c)) = c_exception_depth c \<and>
    c_pc (snd (step env c)) = normalize_stage1_address (c_pc (begin_step c) + 4) c"
proof -
  let ?b = "begin_step c" and ?q = "q\<lparr>c_stepped_instruction_in_flight := False\<rparr>"
  let ?f = "count_step (f\<lparr>c_pc := c_pc f + 4\<rparr>)"
  note u = unanswered_offer[OF query(2,1)]
  have b: "c_regs ?b = c_regs c" "c_sysregs ?b = c_sysregs c" "c_exception_depth ?b = c_exception_depth c"
    "c_predecode_enabled ?b = c_predecode_enabled c" "\<not> c_waiting_for_interrupt ?b" "\<not> c_waiting_for_event ?b"
    using run by (simp_all add: begin_step_def Let_def)
  have cf: "core f = core ?q" by (rule fetch_core[OF fetch(1)])
  note f = core_fields[OF cf]
  have fs: "c_sysregs f = c_sysregs c" "c_regs f = c_regs c" "c_pc f = c_pc ?b" "c_exception_taken_this_step f"
      "c_predecode_enabled f" "c_exception_depth f = c_exception_depth c"
    using f u b decode(1) by simp_all
  have cg: "core g = core ?f" unfolding fetch(2) by simp
  note g = core_fields[OF cg]
  have gs: "c_sysregs g = c_sysregs c" "c_regs g = c_regs c" "c_pc g = c_pc ?b + 4" "c_exception_taken_this_step g"
      "c_exception_depth g = c_exception_depth c"
    using g fs by (simp_all add: count_step_def)
  have ng: "no_debug g" using quiet(4) gs(1) by simp
  have x: "exec_decoded (env_io env) (decode_insn insn) g = Some h" and ch: "core h = core g"
    using failed_plain_load[OF decode(3) gs(4) ng, of "env_io env" h] access by simp_all
  have df: "decode_ok (c_decode ?f)" using decode(2) by (simp add: count_step_def)
  have lk: "lookup_decoded (c_pc f) pa insn ?f = (Some (decode_insn insn), g)"
    using lookup_decoded_ok(2)[OF df, of "c_pc f" pa insn] fs(5) fetch(2)
    by (simp add: count_step_def prod_eq_iff)
  have ex: "exec_insn env (c_pc f) pa insn ?f = (True, h)"
    by (simp add: exec_insn_def plain_load_not_control[OF decode(3)] plain_load_not_simd[OF decode(3)]
        plain_load_not_absent[OF decode(3)] exec_predecoded_def lk x)
  have bp: "maybe_take_breakpoint_exception (c_pc f) f = (False, f)"
    using quiet(4) fs(1) by (simp add: maybe_take_breakpoint_exception_def)
  have si: "step_instruction env q = finish_instruction False insn (True, h)"
    using quiet u b fetch(1) by (simp add: step_instruction_def Let_def bp ex)
  have st: "step env c = finish_instruction False insn (True, h)"
    using run b quiet(1) u(3) query(2) si
    by (simp add: step_def Let_def maybe_take_software_step_before_instruction_def)
  have hs: "c_regs h = c_regs c" "c_sysregs h = c_sysregs c" "c_exception_depth h = c_exception_depth c"
      "c_pc h = c_pc ?b + 4"
    using core_fields[OF ch] gs by simp_all
  show ?thesis
    by (simp add: st finish_quiet hs normalize_stage1_address_def effective_tbi_def)
qed

theorem unanswered_query_drops_data_abort_witness:
  "\<forall>env c. let r = step env (lost_load_cpu c) in
    fst r \<and> c_regs (snd r) ! 0 = 0 \<and> c_exception_depth (snd r) = c_exception_depth c \<and> c_pc (snd r) = 4"
proof (intro allI)
  fix env :: "irq_devices step_env" and c :: "irq_devices cpu"
  let ?q = "(lost_load_query c)\<lparr>c_stepped_instruction_in_flight := False\<rparr>"
  obtain f where f: "fetch_insn (env_io env) ?q = (Some (0, 0xF9400020), f)" "c_decode f = empty_decode_cache"
      "bus_mappings (c_bus f) = bus_mappings lost_load_bus" "\<not> bus_fast (c_bus f)" "\<not> c_debug_slow f"
    using lost_load_fetch[of ?q "env_io env"] by (auto simp: lost_load_state)
  let ?g = "snd (lookup_decoded (c_pc f) 0 0xF9400020 (count_step (f\<lparr>c_pc := c_pc f + 4\<rparr>)))"
  have offer: "offer_irq (begin_step (lost_load_cpu c)) = (False, lost_load_query c)"
    using lost_load_offer(2)[of c] by (simp add: prod_eq_iff)
  note cf = core_fields[OF fetch_core[OF f(1)]]
  note cg = core_fields[OF lookup_core[of "c_pc f" 0 "0xF9400020" "count_step (f\<lparr>c_pc := c_pc f + 4\<rparr>)"]]
  have s: "c_sysregs ?g = sysregs_new" "c_regs ?g = (replicate 32 0)[1 := 0x1000]"
    using cf cg unanswered_offer[OF offer lost_load_offer(1)]
    by (simp_all add: count_step_def begin_step_def lost_load_cpu_def Let_def)
  have d: "0x1000 = load_address 0xF9400020 ?g" "(8 :: u64) = ucast (d_aux (decode_insn 0xF9400020))"
    unfolding load_address_def s by code_simp+
  have g: "mmu_read_value (env_io env) 0x1000 8 Read True ?g = (None, snd (mmu_read_value (env_io env) 0x1000 8 Read True ?g))"
    using lost_load_read[OF s(1), of "env_io env"] f(3-5) by (simp add: prod_eq_iff count_step_def)
  have p: "plain_load 0xF9400020" by (simp add: plain_load_def rn_of_def)
  have r: "\<not> c_halted (lost_load_cpu c)" "\<not> c_waiting_for_interrupt (lost_load_cpu c)" "\<not> c_waiting_for_event (lost_load_cpu c)"
    "\<not> software_step_active_pending (c_sysregs (lost_load_cpu c))" "\<not> software_step_active_not_pending (c_sysregs (lost_load_cpu c))"
    "\<not> illegal_execution_state (c_sysregs (lost_load_cpu c))" "no_debug (lost_load_cpu c)" "c_predecode_enabled (lost_load_cpu c)"
    "decode_ok (c_decode f)"  "c_pc (begin_step (lost_load_cpu c)) AND 0x3 = 0"
    using lost_load_state f(2) decode_ok_empty
    by (simp_all add: lost_load_cpu_def software_step_active_pending_def software_step_active_not_pending_def
        software_step_enabled_def illegal_execution_state_def sysregs_new_def new_pstate_def)
  note t = unanswered_query_drops_data_abort[OF r(1-3) lost_load_offer(1) offer r(4-7,10,8,9) p f(1) refl d _ g]
  show "let r = step env (lost_load_cpu c) in
    fst r \<and> c_regs (snd r) ! 0 = 0 \<and> c_exception_depth (snd r) = c_exception_depth c \<and> c_pc (snd r) = 4"
    using t lost_load_state off_translation[of "lost_load_cpu c"] by (simp add: Let_def) (simp add: lost_load_cpu_def)
qed

section \<open>Waiting for an interrupt\<close>

lemma u8_top: "(x :: u8) \<le> 0xFF"
  using word_order.extremum[where a = x] by (simp add: word_le_nat_alt unsigned_minus_1_eq_mask mask_eq_exp_minus_1)

lemma deliverable_mono: "p \<le> q \<Longrightarrow> deliverable c p g \<subseteq> deliverable c q g"
  by (auto simp: deliverable_def)

lemma deliverable_query [simp]: "deliverable c p (snd (has_pending d pmr g)) = deliverable c p g"
  by (auto simp: deliverable_def has_pending_def Let_def irq_on_defs local_cpu_def local_index_def)

lemma enter_irq_fields [simp]:
  "ps_i (r_pstate (exception_enter_irq pc p r))" "r_elr_el1 (exception_enter_irq pc p r) = pc"
  by (simp_all add: exception_enter_irq_def enter_el1h_def pstate_set_def Let_def)

lemma entered_irq:
  assumes "acknowledge (c_cpu_index c) (delivery_pmr c) (cpu_gic c) = ((True, i), g)" "c_exception_depth c < kExceptionStackCapacity"
  shows "fst (try_take_irq c)" "c_waiting_for_interrupt (snd (try_take_irq c)) = c_waiting_for_interrupt c"
    "c_exception_depth (snd (try_take_irq c)) = c_exception_depth c + 1" "irq_masked (c_sysregs (snd (try_take_irq c)))"
    "r_elr_el1 (c_sysregs (snd (try_take_irq c))) = c_pc c"
    "c_exception_depth c < length (c_exception_stack c) \<Longrightarrow> ef_is_irq (exception_top (snd (try_take_irq c))) \<and>
      ef_intid (exception_top (snd (try_take_irq c))) = of_nat i"
  using assms
  by (simp_all add: try_take_irq_def delivery_pmr_def Let_def on_icc_def push_exception_def set_running_priority_def on_gic_def
      save_current_sp_to_bank_def load_current_sp_from_bank_def on_sysregs_def irq_masked_def cpu_gic_def exception_top_def)

lemma offer_keeps_waiting:
  "c_waiting_for_interrupt (snd (offer_irq c)) = c_waiting_for_interrupt c"
  by (auto simp: offer_irq_def try_take_irq_def Let_def on_icc_def push_exception_def set_running_priority_def on_gic_def
      save_current_sp_to_bank_def load_current_sp_from_bank_def on_sysregs_def split: prod.splits)

text \<open>The controller hands out the deliverable interrupt of the highest priority.\<close>
lemma acknowledge_best:
  assumes "gic_wf g" "deliverable c p g \<noteq> {}"
  obtains k g' where "acknowledge c p g = ((True, k), g')" "k \<in> deliverable c p g"
    "\<And>j. j \<in> deliverable c p g \<Longrightarrow> irq_key_of c g k \<le> irq_key_of c g j"
proof -
  let ?g = "g\<lparr>gic_acknowledge_calls := gic_acknowledge_calls g + 1\<rparr>"
  obtain f k where h: "highest_pending c p ?g = (f, k)" by fastforce
  have d: "deliverable c p ?g = deliverable c p g" "irq_key_of c ?g = irq_key_of c g"
    by (auto simp: deliverable_def irq_key_of_def)
  have wf: "gic_wf ?g" using assms(1) by simp
  note hc = highest_pending_cases [OF wf h, unfolded d]
  then have "f" using assms(2) by simp
  then show ?thesis using that hc h by (auto simp: acknowledge_eq Let_def)
qed

lemma key_query [simp]: "irq_key_of c (snd (has_pending d pmr g)) = irq_key_of c g"
  by (rule ext) (simp add: irq_key_of_def has_pending_def Let_def gic_priority_def local_cpu_def local_index_def)


definition raised_gic :: gic where "raised_gic = set_spi_pending_bit 40 True (set_spi_enabled_bit 40 True gic_new)"

definition waiting_cpu :: "gic \<Rightarrow> irq_devices cpu \<Rightarrow> irq_devices cpu" where
  "waiting_cpu g c = c\<lparr>c_bus := lost_load_bus\<lparr>bus_devices := \<lparr>dv_gic = g, dv_timer = timer_new\<rparr>\<rparr>,
    c_sysregs := sysregs_new, c_icc := reset_icc\<lparr>icc_igrpen1_el1 := 1\<rparr>, c_cpu_index := 0, c_pc := 0, c_halted := False,
    c_waiting_for_interrupt := True, c_exception_depth := 0,
    c_exception_stack := replicate kExceptionStackCapacity reset_exception_frame\<rparr>"

lemma raised_gic_state:
  "gic_wf gic_new" "cache_coherent gic_new" "gic_wf raised_gic" "cache_coherent raised_gic" "deliverable 0 p gic_new = {}"
  "deliverable 0 0xFF raised_gic = {40}"
proof -
  note defs = raised_gic_def gic_new_def set_cpu_count_def Let_def local_wf_def new_local_def gic_constants
    set_spi_pending_bit_def set_spi_enabled_bit_def is_spi_intid_def spi_index_def
  show "gic_wf gic_new" "gic_wf raised_gic" by (simp_all add: gic_wf_def defs)
  show "cache_coherent gic_new" "cache_coherent raised_gic" by (simp_all add: cache_coherent_def new_cache_def defs)
  show "deliverable 0 p gic_new = {}"
    by (auto simp: deliverable_def irq_pending_on_def local_cpu_def local_index_def defs)
  show "deliverable 0 0xFF raised_gic = {40}"
    by (auto simp: deliverable_def irq_on_defs local_cpu_def local_index_def kDefaultPriority_def nth_list_update defs
        split: if_splits)
qed

end
