(* ===== verification/Guest_Memory.thy ===== *)
theory Guest_Memory
  imports Bus_Proofs
begin

text \<open>
  The guest memory as the devices with direct memory access reach it (\<open>read_guest\<close> and \<open>write_guest\<close> of
  \<open>src/src/virtio_blk_mmio.cpp\<close> and \<open>src/src/virtio_net_mmio.cpp\<close>, which have the same text in both), and
  what such an access keeps of the bus.
\<close>

section \<open>Sequencing\<close>

text \<open>The rest of the code runs where the first part stays inside its objects.\<close>
definition obind :: "'a outcome \<Rightarrow> ('a \<Rightarrow> 'b outcome) \<Rightarrow> 'b outcome" where
  "obind r f = (case r of Undefined \<Rightarrow> Undefined | Defined x \<Rightarrow> f x)"

lemma obind_simps [simp]: "obind (Defined x) f = f x" "obind Undefined f = Undefined"
  by (simp_all add: obind_def)

section \<open>Accesses\<close>

definition read_guest :: "u64 \<Rightarrow> usize \<Rightarrow> 'd bus \<Rightarrow> (u8 list option \<times> 'd bus) outcome" where
  "read_guest addr sz b =
    (if sz = 0 then Defined (Some [], b)
     else case bus_ram_ptr addr sz b of
            (None, b) \<Rightarrow> Defined (None, b)
          | (Some (d, off), b) \<Rightarrow>
              obind (memcpy_from (ram_data (ram_of d b)) off (unat sz)) (\<lambda>bs. Defined (Some bs, b)))"

definition write_guest :: "u64 \<Rightarrow> u8 list \<Rightarrow> 'd bus \<Rightarrow> (bool \<times> 'd bus) outcome" where
  "write_guest addr bs b = write_ram_buffer addr (Some bs) (of_nat (length bs)) b"

definition read_guest_u16 :: "u64 \<Rightarrow> 'd bus \<Rightarrow> (u16 option \<times> 'd bus) outcome" where
  "read_guest_u16 addr b = obind (read_guest addr 2 b) (\<lambda>(v, b). Defined (map_option le_word v, b))"

definition write_guest_u16 :: "u64 \<Rightarrow> u16 \<Rightarrow> 'd bus \<Rightarrow> (bool \<times> 'd bus) outcome" where
  "write_guest_u16 addr v = write_guest addr (le_bytes 2 v)"

definition write_guest_u32 :: "u64 \<Rightarrow> u32 \<Rightarrow> 'd bus \<Rightarrow> (bool \<times> 'd bus) outcome" where
  "write_guest_u32 addr v = write_guest addr (le_bytes 4 v)"

section \<open>Queues\<close>

text \<open>\<open>QueueState\<close> and \<open>TransferSegment\<close>.\<close>
record vqueue =
  vq_num :: u32
  vq_ready :: bool
  vq_desc_addr :: u64
  vq_avail_addr :: u64
  vq_used_addr :: u64
  vq_last_avail_idx :: u16
  vq_used_idx :: u16

record segment =
  sg_addr :: u64
  sg_len :: u32
  sg_writable :: bool

record vdesc =
  de_addr :: u64
  de_len :: u32
  de_flags :: u16
  de_next :: u16

definition new_vqueue :: vqueue where
  "new_vqueue = \<lparr>vq_num = 0, vq_ready = False, vq_desc_addr = 0, vq_avail_addr = 0, vq_used_addr = 0,
    vq_last_avail_idx = 0, vq_used_idx = 0\<rparr>"

definition kQueueSize :: u32 where "kQueueSize = 128"
definition kVringDescFNext :: u16 where "kVringDescFNext = 1"
definition kVringDescFWrite :: u16 where "kVringDescFWrite = 2"
definition kVringDescFIndirect :: u16 where "kVringDescFIndirect = 4"
definition kInterruptVring :: u32 where "kInterruptVring = 1"

definition desc_has :: "u16 \<Rightarrow> vdesc \<Rightarrow> bool" where "desc_has flag d \<longleftrightarrow> de_flags d AND flag \<noteq> 0"

definition read_descriptor :: "u16 \<Rightarrow> vqueue \<Rightarrow> 'd bus \<Rightarrow> (vdesc option \<times> 'd bus) outcome" where
  "read_descriptor index q b =
    (if vq_num q = 0 \<or> ucast index \<ge> vq_num q then Defined (None, b)
     else
       obind (read_guest (vq_desc_addr q + ucast index * 16) 16 b) (\<lambda>(bytes, b).
         Defined (map_option (\<lambda>bs. \<lparr>de_addr = le_word (take 8 bs), de_len = le_word (take 4 (drop 8 bs)),
             de_flags = le_word (take 2 (drop 12 bs)), de_next = le_word (take 2 (drop 14 bs))\<rparr>) bytes, b)))"

definition avail_slot :: "vqueue \<Rightarrow> u64" where
  "avail_slot q = vq_avail_addr q + 4 + ucast (ucast (vq_last_avail_idx q) mod vq_num q) * 2"

definition used_slot :: "vqueue \<Rightarrow> u64" where
  "used_slot q = vq_used_addr q + 4 + ucast (ucast (vq_used_idx q) mod vq_num q * 8)"

definition queue_live :: "vqueue \<Rightarrow> bool" where
  "queue_live q \<longleftrightarrow> vq_ready q \<and> vq_num q \<noteq> 0 \<and> vq_desc_addr q \<noteq> 0 \<and> vq_avail_addr q \<noteq> 0 \<and> vq_used_addr q \<noteq> 0"

text \<open>The used element: two words, the second after the first succeeded.\<close>
definition write_used :: "u16 \<Rightarrow> u32 \<Rightarrow> vqueue \<Rightarrow> 'd bus \<Rightarrow> (bool \<times> 'd bus) outcome" where
  "write_used head_index used_len q b =
    obind (write_guest_u32 (used_slot q) (ucast head_index) b) (\<lambda>(ok, b).
      if \<not> ok then Defined (False, b) else write_guest_u32 (used_slot q + 4) used_len b)"

definition bump_queue :: "vqueue \<Rightarrow> vqueue" where
  "bump_queue q = q\<lparr>vq_last_avail_idx := vq_last_avail_idx q + 1, vq_used_idx := vq_used_idx q + 1\<rparr>"

section \<open>The registers of a queue\<close>

definition queue_regs :: "u64 list" where
  "queue_regs = [0x030, 0x038, 0x044, 0x080, 0x084, 0x090, 0x094, 0x0a0, 0x0a4]"

definition read_queue_reg :: "u64 \<Rightarrow> vqueue \<Rightarrow> u64" where
  "read_queue_reg offset q =
    (if offset = 0x038 then ucast (vq_num q)
     else if offset = 0x044 then (if vq_ready q then 1 else 0)
     else if offset = 0x080 then ucast (ucast (vq_desc_addr q) :: u32)
     else if offset = 0x084 then ucast (ucast (drop_bit 32 (vq_desc_addr q)) :: u32)
     else if offset = 0x090 then ucast (ucast (vq_avail_addr q) :: u32)
     else if offset = 0x094 then ucast (ucast (drop_bit 32 (vq_avail_addr q)) :: u32)
     else if offset = 0x0a0 then ucast (ucast (vq_used_addr q) :: u32)
     else if offset = 0x0a4 then ucast (ucast (drop_bit 32 (vq_used_addr q)) :: u32)
     else 0)"

definition set_low_word :: "u64 \<Rightarrow> u64 \<Rightarrow> u64" where
  "set_low_word old value = (old AND 0xFFFFFFFF00000000) OR ucast (ucast value :: u32)"

definition set_high_word :: "u64 \<Rightarrow> u64 \<Rightarrow> u64" where
  "set_high_word old value = (old AND 0x00000000FFFFFFFF) OR push_bit 32 (ucast (ucast value :: u32))"

definition write_queue_reg :: "u64 \<Rightarrow> u64 \<Rightarrow> vqueue \<Rightarrow> vqueue" where
  "write_queue_reg offset value q =
    (if offset = 0x038 then q\<lparr>vq_num := min (ucast value) kQueueSize\<rparr>
     else if offset = 0x044 then
       (let q = q\<lparr>vq_ready := (value \<noteq> 0)\<rparr> in
        if \<not> vq_ready q then q\<lparr>vq_last_avail_idx := 0, vq_used_idx := 0\<rparr> else q)
     else if offset = 0x080 then q\<lparr>vq_desc_addr := set_low_word (vq_desc_addr q) value\<rparr>
     else if offset = 0x084 then q\<lparr>vq_desc_addr := set_high_word (vq_desc_addr q) value\<rparr>
     else if offset = 0x090 then q\<lparr>vq_avail_addr := set_low_word (vq_avail_addr q) value\<rparr>
     else if offset = 0x094 then q\<lparr>vq_avail_addr := set_high_word (vq_avail_addr q) value\<rparr>
     else if offset = 0x0a0 then q\<lparr>vq_used_addr := set_low_word (vq_used_addr q) value\<rparr>
     else if offset = 0x0a4 then q\<lparr>vq_used_addr := set_high_word (vq_used_addr q) value\<rparr>
     else q)"

section \<open>What an access keeps\<close>

lemma bus_wf_perf [simp]: "bus_wf (b\<lparr>bus_perf := p\<rparr>) = bus_wf b" "bus_wf (b\<lparr>bus_observed := obs\<rparr>) = bus_wf b"
  by (simp_all add: bus_wf_def)

lemma bus_wf_put_data:
  "bus_wf b \<Longrightarrow> is_ram d \<Longrightarrow> length bs = length (ram_data (ram_of d b)) \<Longrightarrow>
    bus_wf (put_ram d ((ram_of d b)\<lparr>ram_data := bs\<rparr>) b)"
  by (cases d) (simp_all add: bus_wf_def is_ram.simps)

lemma slow_ptr_bounds:
  assumes "no_wrap addr sz" "slow_ram_ptr addr sz b = (Some (d, off), b')"
  shows "is_ram d \<and> unat off + unat sz \<le> length (ram_data (ram_of d b)) \<and> (\<exists>p. b' = b\<lparr>bus_perf := p\<rparr>)"
proof -
  let ?r = "\<lambda>m. ram_of (map_dev m) b"
  obtain m where f: "List.find (maps addr sz) (bus_mappings b) = Some m"
    using assms(2) by (cases "List.find (maps addr sz) (bus_mappings b)") (simp_all add: slow_ram_ptr_def bus_find_def)
  have r: "ram_of e (b\<lparr>bus_perf := p\<rparr>) = ram_of e b" for e p by (cases e) simp_all
  have m: "is_ram (map_dev m)" "off + sz \<le> ram_size (ram_of (map_dev m) b)" "d = map_dev m" "off = addr - map_base m"
      "\<exists>p. b' = b\<lparr>bus_perf := p\<rparr>"
    using assms(2) by (simp_all add: slow_ram_ptr_def bus_find_def f r Let_def not_less split: if_split_asm) blast
  have "map_base m \<le> addr" using f by (auto simp: find_Some_iff maps_def)
  then have "unat off \<le> unat addr" by (simp add: m(4) unat_sub word_le_nat_alt)
  then have "unat (off + sz) = unat off + unat sz" using assms(1) by (simp add: unat_plus_no_wrap)
  moreover have "unat (off + sz) \<le> unat (ram_size (ram_of d b))" using m(2,3) by (simp only: word_le_nat_alt)
  moreover have "unat (ram_size (ram_of d b)) \<le> length (ram_data (ram_of d b))"
    unfolding ram_size_def unsigned_of_nat of_nat_id by (rule take_bit_nat_less_eq_self)
  ultimately show ?thesis using m(1,3,5) by simp
qed

lemma guest_ptr_bounds:
  assumes "bus_wf b" "no_wrap addr sz" "sz \<noteq> 0"
    "bus_ram_ptr addr sz b = (Some (d, off), b') \<or> bus_ram_mut_ptr addr sz b = (Some (d, off), b')"
  shows "is_ram d \<and> unat off + unat sz \<le> length (ram_data (ram_of d b)) \<and> (\<exists>p. b' = b\<lparr>bus_perf := p\<rparr>)"
proof -
  have pos: "0 < unat sz" using assms(3) by (simp add: unat_gt_0)
  have f: "\<exists>p. b = b\<lparr>bus_perf := p\<rparr>" by (rule exI[of _ "bus_perf b"]) simp
  consider "fast_ram_ptr addr sz = Some (d, off)" "b' = b" | "slow_ram_ptr addr sz b = (Some (d, off), b')"
    using assms(4) by (auto simp: bus_ram_ptr_def bus_ram_mut_ptr_def fast_ram_mut_ptr_same split: if_splits)
  then show ?thesis
  proof cases
    case 1
    then show ?thesis
      using fast_ram_ptr_mapped[OF assms(2) pos 1(1)] bus_ram_wf(1)[OF assms(1)] f by fastforce
  next
    case 2
    then show ?thesis using slow_ptr_bounds[OF assms(2)] by blast
  qed
qed

lemma ptr_none_bus:
  "bus_ram_ptr addr sz b = (None, b') \<or> bus_ram_mut_ptr addr sz b = (None, b') \<Longrightarrow> \<exists>p. b' = b\<lparr>bus_perf := p\<rparr>"
  by (fastforce simp: bus_ram_ptr_def bus_ram_mut_ptr_def slow_ram_ptr_def bus_find_def Let_def
      split: option.splits if_splits)

lemma ram_of_perf [simp]: "ram_of d (b\<lparr>bus_perf := p\<rparr>) = ram_of d b"
  by (cases d) simp_all

lemma read_guest_in_bounds:
  assumes "bus_wf b" "no_wrap addr sz"
  obtains r b' where "read_guest addr sz b = Defined (r, b')" "bus_wf b'" "\<And>bs. r = Some bs \<Longrightarrow> length bs = unat sz"
proof (cases "sz = 0")
  case True
  then show ?thesis using that[of "Some []" b] assms(1) by (simp add: read_guest_def)
next
  case False
  obtain r c where r: "bus_ram_ptr addr sz b = (r, c)" by fastforce
  show ?thesis
  proof (cases r)
    case None
    then show ?thesis using that[of None c] ptr_none_bus[of addr sz b c] r False assms(1) by (auto simp: read_guest_def)
  next
    case (Some x)
    obtain d off where x: "r = Some (d, off)" using Some by (cases x) auto
    have "is_ram d \<and> unat off + unat sz \<le> length (ram_data (ram_of d b)) \<and> (\<exists>p. c = b\<lparr>bus_perf := p\<rparr>)"
      by (rule guest_ptr_bounds[OF assms False]) (simp add: r x)
    then show ?thesis
      using that[of "Some (bytes_at (ram_data (ram_of d b)) (unat off) (unat sz))" c] False assms(1) r x
      by (auto simp: read_guest_def memcpy_from_def)
  qed
qed

lemma write_guest_in_bounds:
  assumes "bus_wf b" "no_wrap addr (of_nat (length bs))" "length bs < 2 ^ 64"
  obtains ok b' where "write_guest addr bs b = Defined (ok, b')" "bus_wf b'"
proof (cases "(of_nat (length bs) :: usize) = 0")
  case True
  then show ?thesis using that[of True b] assms(1) by (simp add: write_guest_def write_ram_buffer_def)
next
  case False
  let ?sz = "of_nat (length bs) :: usize"
  have l: "unat ?sz = length bs" using assms(3) by (simp add: unat_of_nat)
  obtain r c where r: "bus_ram_mut_ptr addr ?sz b = (r, c)" by fastforce
  show ?thesis
  proof (cases r)
    case None
    then show ?thesis using that[of False c] ptr_none_bus[of addr ?sz b c] r False assms(1)
      by (auto simp: write_guest_def write_ram_buffer_def)
  next
    case (Some x)
    obtain d off where x: "r = Some (d, off)" using Some by (cases x) auto
    have k: "is_ram d \<and> unat off + unat ?sz \<le> length (ram_data (ram_of d b)) \<and> (\<exists>p. c = b\<lparr>bus_perf := p\<rparr>)"
      by (rule guest_ptr_bounds[OF assms(1,2) False]) (simp add: r x)
    then have "bus_wf c" "ram_of d c = ram_of d b" using assms(1) by auto
    then show ?thesis
      using that k False r x bus_wf_put_data[of c d] l
      by (auto simp: write_guest_def write_ram_buffer_def memcpy_to_def Let_def)
  qed
qed

end
