(* ===== verification/Virtio_Blk.thy ===== *)
theory Virtio_Blk
  imports Guest_Memory Snapshot_Io
begin

text \<open>
  The block device of \<open>src/src/virtio_blk_mmio.cpp\<close>: its registers, the queue with the requests and the
  disk image. The device reaches the guest memory through the bus, so the operations that serve the queue
  take and return both. An access that would leave a C++ object is the outcome \<open>Undefined\<close>; the loop over
  the available ring is a recursion that is not bounded by construction, and returning is a theorem.
\<close>

section \<open>State\<close>

record vblk =
  vb_image :: "u8 list"
  vb_device_features_sel :: u32
  vb_driver_features_sel :: u32
  vb_driver_features :: u64
  vb_guest_page_size :: u32
  vb_queue_sel :: u32
  vb_queue :: vqueue
  vb_interrupt_status :: u32
  vb_status :: u32
  vb_config_generation :: u32
  vb_observer :: bool
  vb_notified :: nat

definition kSectorSize :: u64 where "kSectorSize = 512"
definition kConfigSize :: u64 where "kConfigSize = 0x100"
definition kFeatureVersion1 :: u64 where "kFeatureVersion1 = push_bit 32 1"
definition kFeatureBlkSize :: u64 where "kFeatureBlkSize = push_bit 6 1"

definition vblk_present :: "vblk \<Rightarrow> bool" where "vblk_present v \<longleftrightarrow> vb_image v \<noteq> []"

definition vblk_image_size :: "vblk \<Rightarrow> u64" where "vblk_image_size v = of_nat (length (vb_image v))"

definition vblk_num_blocks :: "vblk \<Rightarrow> u64" where "vblk_num_blocks v = vblk_image_size v div kSectorSize"

section \<open>Interrupts and reset\<close>

definition vblk_notify :: "vblk \<Rightarrow> vblk" where
  "vblk_notify v = (if vb_observer v then v\<lparr>vb_notified := vb_notified v + 1\<rparr> else v)"

definition vblk_raise_interrupt :: "u32 \<Rightarrow> vblk \<Rightarrow> vblk" where
  "vblk_raise_interrupt bits v =
    (let next = vb_interrupt_status v OR bits in
     if next \<noteq> vb_interrupt_status v then vblk_notify (v\<lparr>vb_interrupt_status := next\<rparr>) else v)"

definition vblk_clear_interrupt :: "u32 \<Rightarrow> vblk \<Rightarrow> vblk" where
  "vblk_clear_interrupt bits v =
    (let next = vb_interrupt_status v AND NOT bits in
     if next \<noteq> vb_interrupt_status v then vblk_notify (v\<lparr>vb_interrupt_status := next\<rparr>) else v)"

definition vblk_irq_pending :: "vblk \<Rightarrow> bool" where "vblk_irq_pending v \<longleftrightarrow> vb_interrupt_status v \<noteq> 0"

definition vblk_reset :: "vblk \<Rightarrow> vblk" where
  "vblk_reset v = vblk_clear_interrupt (NOT 0)
    (v\<lparr>vb_device_features_sel := 0, vb_driver_features_sel := 0, vb_driver_features := 0,
       vb_guest_page_size := 4096, vb_queue_sel := 0, vb_queue := new_vqueue, vb_status := 0\<rparr>)"

definition vblk_set_image :: "u8 list \<Rightarrow> vblk \<Rightarrow> vblk" where
  "vblk_set_image bytes v =
    (let padded_size = (of_nat (length bytes) + kSectorSize - 1) div kSectorSize * kSectorSize in
     vblk_reset (v\<lparr>vb_image := take (unat padded_size) bytes @ replicate (unat padded_size - length bytes) 0,
       vb_config_generation := vb_config_generation v + 1\<rparr>))"

section \<open>Registers\<close>

definition vblk_features :: "vblk \<Rightarrow> u64" where
  "vblk_features v = (if \<not> vblk_present v then 0 else kFeatureVersion1 OR kFeatureBlkSize)"

definition vblk_features_word :: "u32 \<Rightarrow> vblk \<Rightarrow> u32" where
  "vblk_features_word selector v =
    (if selector = 0 then ucast (vblk_features v)
     else if selector = 1 then ucast (drop_bit 32 (vblk_features v)) else 0)"

definition vblk_config :: "vblk \<Rightarrow> u8 list" where
  "vblk_config v = put_bytes (put_bytes (replicate 0x100 0) 0 (le_bytes 8 (vblk_num_blocks v))) 20 (le_bytes 4 (512 :: u32))"

definition vblk_read_config :: "u64 \<Rightarrow> usize \<Rightarrow> vblk \<Rightarrow> u64" where
  "vblk_read_config offset sz v =
    (if \<not> vblk_present v \<or> sz = 0 \<or> sz > 8 \<or> offset + sz > kConfigSize then 0
     else le_word (bytes_at (vblk_config v) (unat offset) (unat sz)))"

definition vblk_read_queue :: "u64 \<Rightarrow> usize \<Rightarrow> vblk \<Rightarrow> u64" where
  "vblk_read_queue offset sz v =
    (if offset \<notin> set queue_regs \<or> sz \<noteq> 4 then 0
     else if offset = 0x030 then ucast (vb_queue_sel v)
     else if vb_queue_sel v \<noteq> 0 then 0
     else read_queue_reg offset (vb_queue v))"

definition vblk_read :: "u64 \<Rightarrow> usize \<Rightarrow> vblk \<Rightarrow> u64" where
  "vblk_read offset sz v =
    (if offset \<ge> 0x100 \<and> offset < 0x100 + kConfigSize then vblk_read_config (offset - 0x100) sz v
     else if offset = 0x000 \<and> sz = 4 then 0x74726976
     else if offset = 0x004 \<and> sz = 4 then 2
     else if offset = 0x008 \<and> sz = 4 then (if vblk_present v then 2 else 0)
     else if offset = 0x00c \<and> sz = 4 then 0x41564d31
     else if offset = 0x010 \<and> sz = 4 then ucast (vblk_features_word (vb_device_features_sel v) v)
     else if offset = 0x034 \<and> sz = 4 then
       (if vblk_present v \<and> vb_queue_sel v = 0 then ucast kQueueSize else 0)
     else if offset = 0x060 \<and> sz = 4 then ucast (vb_interrupt_status v)
     else if offset = 0x070 \<and> sz = 4 then ucast (vb_status v)
     else if offset = 0x0fc \<and> sz = 4 then ucast (vb_config_generation v)
     else vblk_read_queue offset sz v)"

section \<open>One request\<close>

text \<open>The chain after the header: at most \<open>num\<close> descriptors, the last one the status byte.\<close>
fun walk_request ::
  "nat \<Rightarrow> u16 \<Rightarrow> vqueue \<Rightarrow> 'd bus \<Rightarrow> ((segment list \<times> u64 \<times> u32) option \<times> 'd bus) outcome" where
  "walk_request 0 index q b = Defined (None, b)"
| "walk_request (Suc n) index q b =
    obind (read_descriptor index q b) (\<lambda>(d, b).
      case d of
        None \<Rightarrow> Defined (None, b)
      | Some d \<Rightarrow>
          if desc_has kVringDescFIndirect d then Defined (None, b)
          else if \<not> desc_has kVringDescFNext d then
            Defined (if \<not> desc_has kVringDescFWrite d \<or> de_len d = 0 then None
                     else Some ([], de_addr d, de_len d), b)
          else
            let seg = \<lparr>sg_addr = de_addr d, sg_len = de_len d, sg_writable = desc_has kVringDescFWrite d\<rparr>
            in obind (walk_request n (de_next d) q b) (\<lambda>(r, b).
                 Defined (map_option (\<lambda>(segs, sa, sl). (seg # segs, sa, sl)) r, b)))"

fun copy_to_guest :: "u8 list \<Rightarrow> u64 \<Rightarrow> segment list \<Rightarrow> 'd bus \<Rightarrow> (bool \<times> 'd bus) outcome" where
  "copy_to_guest img pos [] b = Defined (True, b)"
| "copy_to_guest img pos (seg # segs) b =
    (if \<not> sg_writable seg then Defined (False, b)
     else
       obind (memcpy_from img pos (unat (sg_len seg))) (\<lambda>bs.
         obind (write_guest (sg_addr seg) bs b) (\<lambda>(ok, b).
           if \<not> ok then Defined (False, b) else copy_to_guest img (pos + ucast (sg_len seg)) segs b)))"

fun copy_from_guest ::
  "u8 list \<Rightarrow> u64 \<Rightarrow> segment list \<Rightarrow> 'd bus \<Rightarrow> (bool \<times> u8 list \<times> 'd bus) outcome" where
  "copy_from_guest img pos [] b = Defined (True, img, b)"
| "copy_from_guest img pos (seg # segs) b =
    (if sg_writable seg then Defined (False, img, b)
     else
       obind (read_guest (sg_addr seg) (ucast (sg_len seg)) b) (\<lambda>(bytes, b).
         case bytes of
           None \<Rightarrow> Defined (False, img, b)
         | Some bs \<Rightarrow>
             obind (memcpy_to img pos bs) (\<lambda>img.
               copy_from_guest img (pos + ucast (sg_len seg)) segs b)))"

definition vblk_id_bytes :: "u8 list" where
  "vblk_id_bytes = [0x61, 0x61, 0x72, 0x63, 0x68, 0x76, 0x6d, 0x2d, 0x76, 0x69, 0x72, 0x74, 0x62, 0x6c, 0x6b, 0, 0, 0, 0, 0]"

text \<open>The bytes not yet copied; \<open>None\<close> is a segment that is not writable or not RAM.\<close>
fun copy_id :: "u8 list \<Rightarrow> segment list \<Rightarrow> 'd bus \<Rightarrow> (u8 list option \<times> 'd bus) outcome" where
  "copy_id left [] b = Defined (Some left, b)"
| "copy_id left (seg # segs) b =
    (if \<not> sg_writable seg then Defined (None, b)
     else
       let chunk = min (unat (sg_len seg)) (length left) in
       if chunk = 0 then Defined (Some left, b)
       else
         obind (write_guest (sg_addr seg) (take chunk left) b) (\<lambda>(ok, b).
           if \<not> ok then Defined (None, b) else copy_id (drop chunk left) segs b))"

record request_result =
  rr_ok :: bool
  rr_used_len :: u32
  rr_status :: u8

definition request_failed :: request_result where
  "request_failed = \<lparr>rr_ok = False, rr_used_len = 0, rr_status = 1\<rparr>"

definition write_status :: "u8 \<Rightarrow> u32 \<Rightarrow> u64 \<Rightarrow> u32 \<Rightarrow> vblk \<Rightarrow> 'd bus \<Rightarrow> (request_result \<times> vblk \<times> 'd bus) outcome" where
  "write_status byte used_len status_addr status_len v b =
    (if status_len = 0 then Defined (\<lparr>rr_ok = False, rr_used_len = used_len, rr_status = byte\<rparr>, v, b)
     else obind (write_guest status_addr [byte] b) (\<lambda>(ok, b).
       Defined (\<lparr>rr_ok = ok, rr_used_len = used_len, rr_status = byte\<rparr>, v, b)))"

definition total_data_bytes :: "segment list \<Rightarrow> u64" where
  "total_data_bytes segs = fold (\<lambda>s t. t + ucast (sg_len s)) segs 0"

text \<open>The test both transfers start with: whole sectors, inside the image.\<close>
definition transfer_fits :: "u64 \<Rightarrow> u64 \<Rightarrow> vblk \<Rightarrow> bool" where
  "transfer_fits image_offset total_len v \<longleftrightarrow> total_len mod kSectorSize = 0 \<and>
    \<not> (image_offset > vblk_image_size v \<or> total_len > vblk_image_size v - image_offset)"

definition serve_request ::
  "u32 \<Rightarrow> u64 \<Rightarrow> segment list \<Rightarrow> u64 \<Rightarrow> u32 \<Rightarrow> vblk \<Rightarrow> 'd bus \<Rightarrow> (request_result \<times> vblk \<times> 'd bus) outcome" where
  "serve_request type sector segs sa sl v b =
    (let total_len = total_data_bytes segs; image_offset = sector * kSectorSize in
     if type = 0 then
       (if \<not> transfer_fits image_offset total_len v then write_status 1 0 sa sl v b
        else obind (copy_to_guest (vb_image v) image_offset segs b) (\<lambda>(ok, b).
          if \<not> ok then write_status 1 0 sa sl v b else write_status 0 (ucast (total_len + 1)) sa sl v b))
     else if type = 1 then
       (if \<not> transfer_fits image_offset total_len v then write_status 1 0 sa sl v b
        else obind (copy_from_guest (vb_image v) image_offset segs b) (\<lambda>(ok, img, b).
          let v = v\<lparr>vb_image := img\<rparr> in
          if \<not> ok then write_status 1 0 sa sl v b else write_status 0 1 sa sl v b))
     else if type = 4 then write_status 0 1 sa sl v b
     else if type = 8 then
       (if segs = [] then write_status 1 0 sa sl v b
        else obind (copy_id vblk_id_bytes segs b) (\<lambda>(left, b).
          if left \<noteq> Some [] then write_status 1 0 sa sl v b
          else write_status 0 21 sa sl v b))
     else write_status 2 1 sa sl v b)"

definition process_request :: "u16 \<Rightarrow> vblk \<Rightarrow> 'd bus \<Rightarrow> (request_result \<times> vblk \<times> 'd bus) outcome" where
  "process_request head_index v b =
    (let q = vb_queue v in
     obind (read_descriptor head_index q b) (\<lambda>(d, b).
       case d of
         None \<Rightarrow> Defined (request_failed, v, b)
       | Some d \<Rightarrow>
           if de_len d < 16 \<or> desc_has kVringDescFWrite d \<or> desc_has kVringDescFIndirect d \<or>
              \<not> desc_has kVringDescFNext d
           then Defined (request_failed, v, b)
           else
             obind (read_guest (de_addr d) 16 b) (\<lambda>(hdr, b).
               case hdr of
                 None \<Rightarrow> Defined (request_failed, v, b)
               | Some hdr \<Rightarrow>
                   obind (walk_request (unat (vq_num q)) (de_next d) q b) (\<lambda>(r, b).
                     case r of
                       None \<Rightarrow> Defined (request_failed, v, b)
                     | Some (segs, sa, sl) \<Rightarrow>
                         serve_request (le_word (take 4 hdr)) (le_word (take 8 (drop 8 hdr))) segs sa sl v b))))"

section \<open>The queue\<close>

text \<open>
  One turn of the loop over the available ring: \<open>True\<close> when the request was put on the used ring and its
  index published, \<open>False\<close> at a \<open>break\<close>.
\<close>
definition serve_one :: "vblk \<Rightarrow> 'd bus \<Rightarrow> (bool \<times> vblk \<times> 'd bus) outcome" where
  "serve_one v b =
    obind (read_guest_u16 (avail_slot (vb_queue v)) b) (\<lambda>(head, b).
      case head of
        None \<Rightarrow> Defined (False, v, b)
      | Some head_index \<Rightarrow>
          obind (process_request head_index v b) (\<lambda>(r, v, b).
            let used_len = (if rr_ok r then rr_used_len r else 1) in
            obind (write_used head_index used_len (vb_queue v) b) (\<lambda>(ok, b).
              if \<not> ok then Defined (False, v, b)
              else
                let v = v\<lparr>vb_queue := bump_queue (vb_queue v)\<rparr> in
                obind (write_guest_u16 (vq_used_addr (vb_queue v) + 2) (vq_used_idx (vb_queue v)) b)
                  (\<lambda>(ok, b). Defined (ok, v, b)))))"

partial_function (option) serve_ring ::
  "u16 \<Rightarrow> bool \<Rightarrow> vblk \<Rightarrow> 'd bus \<Rightarrow> (bool \<times> vblk \<times> 'd bus) outcome option" where
  "serve_ring avail_idx any_completed v b =
    (if vq_last_avail_idx (vb_queue v) = avail_idx then Some (Defined (any_completed, v, b))
     else case serve_one v b of
       Undefined \<Rightarrow> Some Undefined
     | Defined r \<Rightarrow>
         if fst r then serve_ring avail_idx True (fst (snd r)) (snd (snd r))
         else Some (Defined (any_completed, snd r)))"

definition process_queue :: "u32 \<Rightarrow> vblk \<Rightarrow> 'd bus \<Rightarrow> (vblk \<times> 'd bus) outcome option" where
  "process_queue queue_index v b =
    (if queue_index \<noteq> 0 \<or> \<not> vblk_present v \<or> \<not> queue_live (vb_queue v) then Some (Defined (v, b))
     else case read_guest_u16 (vq_avail_addr (vb_queue v) + 2) b of
       Undefined \<Rightarrow> Some Undefined
     | Defined (None, b) \<Rightarrow> Some (Defined (v, b))
     | Defined (Some avail_idx, b) \<Rightarrow>
         map_option (\<lambda>r. obind r (\<lambda>(any_completed, v, b).
           Defined (if any_completed then vblk_raise_interrupt kInterruptVring v else v, b)))
           (serve_ring avail_idx False v b))"

section \<open>Register writes\<close>

definition vblk_write_queue :: "u64 \<Rightarrow> u64 \<Rightarrow> usize \<Rightarrow> vblk \<Rightarrow> 'd bus \<Rightarrow> (vblk \<times> 'd bus) outcome option" where
  "vblk_write_queue offset value sz v b =
    (if (offset \<noteq> 0x050 \<and> offset \<notin> set queue_regs) \<or> sz \<noteq> 4 then Some (Defined (v, b))
     else if offset = 0x030 then Some (Defined (v\<lparr>vb_queue_sel := ucast value\<rparr>, b))
     else if offset = 0x050 then process_queue (ucast value) v b
     else if vb_queue_sel v \<noteq> 0 then Some (Defined (v, b))
     else Some (Defined (v\<lparr>vb_queue := write_queue_reg offset value (vb_queue v)\<rparr>, b)))"

definition write_driver_features :: "u32 \<Rightarrow> u64 \<Rightarrow> u64 \<Rightarrow> u64" where
  "write_driver_features sel value old =
    (let shift = unat (min sel 1) * 32; m = push_bit shift 0xFFFFFFFF
     in (old AND NOT m) OR (push_bit shift (ucast (ucast value :: u32)) AND m))"

definition vblk_write :: "u64 \<Rightarrow> u64 \<Rightarrow> usize \<Rightarrow> vblk \<Rightarrow> 'd bus \<Rightarrow> (vblk \<times> 'd bus) outcome option" where
  "vblk_write offset value sz v b =
    (if offset \<ge> 0x100 \<and> offset < 0x100 + kConfigSize then Some (Defined (v, b))
     else if offset = 0x014 \<and> sz = 4 then Some (Defined (v\<lparr>vb_device_features_sel := ucast value\<rparr>, b))
     else if offset = 0x024 \<and> sz = 4 then Some (Defined (v\<lparr>vb_driver_features_sel := ucast value\<rparr>, b))
     else if offset = 0x020 \<and> sz = 4 then
       Some (Defined (v\<lparr>vb_driver_features :=
         write_driver_features (vb_driver_features_sel v) value (vb_driver_features v)\<rparr>, b))
     else if offset = 0x028 \<and> sz = 4 then Some (Defined (v\<lparr>vb_guest_page_size := ucast value\<rparr>, b))
     else if offset = 0x064 \<and> sz = 4 then Some (Defined (vblk_clear_interrupt (ucast value) v, b))
     else if offset = 0x070 \<and> sz = 4 then
       Some (Defined (if (ucast value :: u32) = 0 then vblk_reset v else v\<lparr>vb_status := ucast value\<rparr>, b))
     else vblk_write_queue offset value sz v b)"

section \<open>Snapshots\<close>

definition vblk_save_state :: "vblk \<Rightarrow> writer" where
  "vblk_save_state v = write_seq
    [write_vector (vb_image v), snap_write (vb_device_features_sel v), snap_write (vb_driver_features_sel v),
     snap_write (vb_driver_features v), snap_write (vb_guest_page_size v), snap_write (vb_queue_sel v),
     snap_write (vq_num (vb_queue v)), write_bool (vq_ready (vb_queue v)), snap_write (vq_desc_addr (vb_queue v)),
     snap_write (vq_avail_addr (vb_queue v)), snap_write (vq_used_addr (vb_queue v)),
     snap_write (vq_last_avail_idx (vb_queue v)), snap_write (vq_used_idx (vb_queue v)),
     snap_write (vb_interrupt_status v), snap_write (vb_status v), snap_write (vb_config_generation v)]"

definition vblk_load_state :: "vblk reader" where
  "vblk_load_state = read_seq
    [read_into read_vector vb_image vb_image_update,
     read_into snap_read vb_device_features_sel vb_device_features_sel_update,
     read_into snap_read vb_driver_features_sel vb_driver_features_sel_update,
     read_into snap_read vb_driver_features vb_driver_features_update,
     read_into snap_read vb_guest_page_size vb_guest_page_size_update,
     read_into snap_read vb_queue_sel vb_queue_sel_update,
     read_local snap_read 0 (\<lambda>num. read_local read_bool False (\<lambda>ready. read_local snap_read 0 (\<lambda>desc.
     read_local snap_read 0 (\<lambda>avail. read_local snap_read 0 (\<lambda>used. read_local snap_read 0 (\<lambda>last.
     read_local snap_read 0 (\<lambda>used_idx. read_seq
      [read_into snap_read vb_interrupt_status vb_interrupt_status_update,
       read_into snap_read vb_status vb_status_update,
       read_into snap_read vb_config_generation vb_config_generation_update,
       read_check (\<lambda>v. \<not> (vblk_image_size v mod kSectorSize \<noteq> 0 \<or> vb_queue_sel v > 0 \<or> num > kQueueSize \<or>
         vb_device_features_sel v > 1 \<or> vb_driver_features_sel v > 1)),
       read_finish (\<lambda>v. v\<lparr>vb_queue := \<lparr>vq_num = num, vq_ready = ready, vq_desc_addr = desc,
         vq_avail_addr = avail, vq_used_addr = used, vq_last_avail_idx = last, vq_used_idx = used_idx\<rparr>\<rparr>)])))))))]"

text \<open>The state of the older block device: the image is kept, its registers are read and dropped.\<close>
definition vblk_load_legacy_state :: "vblk reader" where
  "vblk_load_legacy_state = read_local read_vector [] (\<lambda>img. read_local snap_read (0 :: u64) (\<lambda>_.
    read_local snap_read (0 :: u64) (\<lambda>_. read_local snap_read (0 :: u32) (\<lambda>_. read_local snap_read (0 :: u32) (\<lambda>status.
      read_seq [read_check (\<lambda>_. \<not> ((of_nat (length img) :: u64) mod kSectorSize \<noteq> 0 \<or> status > 4)),
        read_finish (vblk_set_image img)])))))"

end
