(* ===== verification/Virtio_Net.thy ===== *)
theory Virtio_Net
  imports Guest_Memory
begin

text \<open>
  The network device of \<open>src/src/virtio_net_mmio.cpp\<close>: its registers, the queue the guest sends from and the one it
  receives into, and the frames that wait. The frame handler of the host is the list of the frames given to
  it; the handlers the machine installs only pass the frame on. A chain that is not accepted ends the loop
  without being consumed. The snapshot writes the queues as raw memory with padding and is left out.
\<close>

section \<open>State\<close>

record vnet =
  vn_present :: bool
  vn_loopback :: bool
  vn_mac :: "u8 list"
  vn_pending :: "u8 list list"
  vn_device_features_sel :: u32
  vn_driver_features_sel :: u32
  vn_driver_features :: u64
  vn_guest_page_size :: u32
  vn_queue_sel :: u32
  vn_queue_rx :: vqueue
  vn_queue_tx :: vqueue
  vn_interrupt_status :: u32
  vn_status :: u32
  vn_config_generation :: u32
  vn_header_size :: nat
  vn_observer :: bool
  vn_notified :: nat
  vn_handler :: bool
  vn_sent :: "u8 list list"

definition kVirtioNetHdrSize :: nat where "kVirtioNetHdrSize = 10"
definition kVirtioNetMrgRxbufHdrSize :: nat where "kVirtioNetMrgRxbufHdrSize = 12"
definition kFeatureMac :: u64 where "kFeatureMac = push_bit 5 1"
definition kFeatureMrgRxbuf :: u64 where "kFeatureMrgRxbuf = push_bit 15 1"
definition kFeatureStatus :: u64 where "kFeatureStatus = push_bit 16 1"
definition kNetFeatureVersion1 :: u64 where "kNetFeatureVersion1 = push_bit 32 1"
definition kQueueCount :: u32 where "kQueueCount = 2"

definition looks_like_ethernet_frame :: "u8 list \<Rightarrow> bool" where
  "looks_like_ethernet_frame bs \<longleftrightarrow>
    \<not> length bs < 14 \<and> (push_bit 8 (ucast (bs ! 12)) OR ucast (bs ! 13) :: u16) \<ge> 0x0600"

section \<open>Interrupts, reset and the host side\<close>

definition vnet_notify :: "vnet \<Rightarrow> vnet" where
  "vnet_notify v = (if vn_observer v then v\<lparr>vn_notified := vn_notified v + 1\<rparr> else v)"

definition vnet_raise_interrupt :: "u32 \<Rightarrow> vnet \<Rightarrow> vnet" where
  "vnet_raise_interrupt bits v =
    (let next = vn_interrupt_status v OR bits in
     if next \<noteq> vn_interrupt_status v then vnet_notify (v\<lparr>vn_interrupt_status := next\<rparr>) else v)"

definition vnet_clear_interrupt :: "u32 \<Rightarrow> vnet \<Rightarrow> vnet" where
  "vnet_clear_interrupt bits v =
    (let next = vn_interrupt_status v AND NOT bits in
     if next \<noteq> vn_interrupt_status v then vnet_notify (v\<lparr>vn_interrupt_status := next\<rparr>) else v)"

definition vnet_irq_pending :: "vnet \<Rightarrow> bool" where "vnet_irq_pending v \<longleftrightarrow> vn_interrupt_status v \<noteq> 0"

definition vnet_reset :: "vnet \<Rightarrow> vnet" where
  "vnet_reset v = vnet_clear_interrupt (NOT 0)
    (v\<lparr>vn_device_features_sel := 0, vn_driver_features_sel := 0, vn_driver_features := 0,
       vn_guest_page_size := 4096, vn_queue_sel := 0, vn_header_size := kVirtioNetHdrSize,
       vn_queue_rx := new_vqueue, vn_queue_tx := new_vqueue, vn_status := 0\<rparr>)"

definition vnet_attach :: "bool \<Rightarrow> u8 list \<Rightarrow> vnet \<Rightarrow> vnet" where
  "vnet_attach loopback mac v = vnet_reset
    (v\<lparr>vn_mac := mac, vn_present := True, vn_loopback := loopback, vn_pending := [],
       vn_header_size := kVirtioNetHdrSize, vn_config_generation := vn_config_generation v + 1\<rparr>)"

definition attach_host_backend :: "u8 list \<Rightarrow> vnet \<Rightarrow> vnet" where "attach_host_backend = vnet_attach False"

definition attach_loopback :: "u8 list \<Rightarrow> vnet \<Rightarrow> vnet" where "attach_loopback = vnet_attach True"

definition vnet_detach :: "vnet \<Rightarrow> vnet" where
  "vnet_detach v = vnet_reset
    (v\<lparr>vn_present := False, vn_loopback := False, vn_pending := [], vn_header_size := kVirtioNetHdrSize,
       vn_config_generation := vn_config_generation v + 1\<rparr>)"

section \<open>Registers\<close>

definition vnet_features :: "vnet \<Rightarrow> u64" where
  "vnet_features v =
    (if \<not> vn_present v then 0 else kFeatureMac OR kFeatureMrgRxbuf OR kFeatureStatus OR kNetFeatureVersion1)"

definition vnet_features_word :: "u32 \<Rightarrow> vnet \<Rightarrow> u32" where
  "vnet_features_word selector v =
    (if selector = 0 then ucast (vnet_features v)
     else if selector = 1 then ucast (drop_bit 32 (vnet_features v)) else 0)"

definition vnet_config :: "vnet \<Rightarrow> u8 list" where
  "vnet_config v = put_bytes (put_bytes (replicate 0x100 0) 0 (vn_mac v)) 6 (le_bytes 2 (1 :: u16))"

definition vnet_read_config :: "u64 \<Rightarrow> usize \<Rightarrow> vnet \<Rightarrow> u64" where
  "vnet_read_config offset sz v =
    (if \<not> vn_present v \<or> sz = 0 \<or> sz > 8 \<or> offset + sz > 0x100 then 0
     else le_word (bytes_at (vnet_config v) (unat offset) (unat sz)))"

text \<open>The queue a selector below \<open>kQueueCount\<close> names.\<close>
definition vnet_queue :: "u32 \<Rightarrow> vnet \<Rightarrow> vqueue" where
  "vnet_queue sel v = (if sel = 0 then vn_queue_rx v else vn_queue_tx v)"

definition set_vnet_queue :: "u32 \<Rightarrow> vqueue \<Rightarrow> vnet \<Rightarrow> vnet" where
  "set_vnet_queue sel q v = (if sel = 0 then v\<lparr>vn_queue_rx := q\<rparr> else v\<lparr>vn_queue_tx := q\<rparr>)"

definition vnet_read_queue :: "u64 \<Rightarrow> usize \<Rightarrow> vnet \<Rightarrow> u64" where
  "vnet_read_queue offset sz v =
    (if offset \<notin> set queue_regs \<or> sz \<noteq> 4 then 0
     else if offset = 0x030 then ucast (vn_queue_sel v)
     else if vn_queue_sel v \<ge> kQueueCount then 0
     else read_queue_reg offset (vnet_queue (vn_queue_sel v) v))"

definition vnet_read :: "u64 \<Rightarrow> usize \<Rightarrow> vnet \<Rightarrow> u64" where
  "vnet_read offset sz v =
    (if offset \<ge> 0x100 \<and> offset < 0x200 then vnet_read_config (offset - 0x100) sz v
     else if offset = 0x000 \<and> sz = 4 then 0x74726976
     else if offset = 0x004 \<and> sz = 4 then 2
     else if offset = 0x008 \<and> sz = 4 then (if vn_present v then 1 else 0)
     else if offset = 0x00c \<and> sz = 4 then 0x41564d31
     else if offset = 0x010 \<and> sz = 4 then ucast (vnet_features_word (vn_device_features_sel v) v)
     else if offset = 0x034 \<and> sz = 4 then
       (if vn_present v \<and> vn_queue_sel v < kQueueCount then ucast kQueueSize else 0)
     else if offset = 0x060 \<and> sz = 4 then ucast (vn_interrupt_status v)
     else if offset = 0x070 \<and> sz = 4 then ucast (vn_status v)
     else if offset = 0x0fc \<and> sz = 4 then ucast (vn_config_generation v)
     else vnet_read_queue offset sz v)"

section \<open>Chains and headers\<close>

definition net_header_size :: "vnet \<Rightarrow> nat" where
  "net_header_size v =
    (if vn_driver_features v AND kFeatureMrgRxbuf \<noteq> 0 then kVirtioNetMrgRxbufHdrSize else kVirtioNetHdrSize)"

definition active_header_size :: "vnet \<Rightarrow> nat" where
  "active_header_size v = max (net_header_size v) (vn_header_size v)"

definition detect_tx_header_size :: "segment list \<Rightarrow> u8 list \<Rightarrow> vnet \<Rightarrow> nat" where
  "detect_tx_header_size segments bytes v =
    (if vn_header_size v = kVirtioNetMrgRxbufHdrSize \<and> length bytes \<ge> kVirtioNetMrgRxbufHdrSize
       then kVirtioNetMrgRxbufHdrSize
     else if net_header_size v = kVirtioNetMrgRxbufHdrSize \<and> length bytes \<ge> kVirtioNetMrgRxbufHdrSize
       then kVirtioNetMrgRxbufHdrSize
     else if segments \<noteq> [] \<and> unat (sg_len (hd segments)) \<ge> kVirtioNetMrgRxbufHdrSize \<and>
             length bytes \<ge> kVirtioNetMrgRxbufHdrSize \<and>
             list_all (\<lambda>x. x = 0) (take kVirtioNetMrgRxbufHdrSize bytes) \<and>
             looks_like_ethernet_frame (drop kVirtioNetMrgRxbufHdrSize bytes)
       then kVirtioNetMrgRxbufHdrSize
     else kVirtioNetHdrSize)"

text \<open>At most \<open>num\<close> descriptors; \<open>None\<close> is \<open>false\<close>.\<close>
fun collect_chain :: "nat \<Rightarrow> u16 \<Rightarrow> vqueue \<Rightarrow> 'd bus \<Rightarrow> (segment list option \<times> 'd bus) outcome" where
  "collect_chain 0 index q b = Defined (None, b)"
| "collect_chain (Suc n) index q b =
    obind (read_descriptor index q b) (\<lambda>(d, b).
      case d of
        None \<Rightarrow> Defined (None, b)
      | Some d \<Rightarrow>
          if desc_has kVringDescFIndirect d then Defined (None, b)
          else
            let seg = \<lparr>sg_addr = de_addr d, sg_len = de_len d, sg_writable = desc_has kVringDescFWrite d\<rparr> in
            if \<not> desc_has kVringDescFNext d then Defined (Some [seg], b)
            else obind (collect_chain n (de_next d) q b) (\<lambda>(r, b). Defined (map_option (Cons seg) r, b)))"

fun gather_bytes :: "segment list \<Rightarrow> 'd bus \<Rightarrow> (u8 list option \<times> 'd bus) outcome" where
  "gather_bytes [] b = Defined (Some [], b)"
| "gather_bytes (seg # segs) b =
    obind (read_guest (sg_addr seg) (ucast (sg_len seg)) b) (\<lambda>(r, b).
      case r of
        None \<Rightarrow> Defined (None, b)
      | Some bs \<Rightarrow> obind (gather_bytes segs b) (\<lambda>(r, b). Defined (map_option (append bs) r, b)))"

text \<open>The bytes not yet scattered, and whether every write succeeded.\<close>
fun scatter_bytes :: "u8 list \<Rightarrow> segment list \<Rightarrow> 'd bus \<Rightarrow> (bool \<times> u8 list \<times> 'd bus) outcome" where
  "scatter_bytes left [] b = Defined (True, left, b)"
| "scatter_bytes left (seg # segs) b =
    (if left = [] then Defined (True, left, b)
     else
       let chunk = min (unat (sg_len seg)) (length left) in
       obind (write_guest (sg_addr seg) (take chunk left) b) (\<lambda>(ok, b).
         if \<not> ok then Defined (False, left, b) else scatter_bytes (drop chunk left) segs b))"

definition total_length :: "segment list \<Rightarrow> nat" where
  "total_length segs = (\<Sum>seg\<leftarrow>segs. unat (sg_len seg))"

text \<open>The head of the chain the ring offers next, and its segments; \<open>None\<close> ends the loop.\<close>
definition next_chain :: "vqueue \<Rightarrow> 'd bus \<Rightarrow> ((u16 \<times> segment list) option \<times> 'd bus) outcome" where
  "next_chain q b =
    obind (read_guest_u16 (avail_slot q) b) (\<lambda>(head, b).
      case head of
        None \<Rightarrow> Defined (None, b)
      | Some head_index \<Rightarrow>
          obind (collect_chain (unat (vq_num q)) head_index q b) (\<lambda>(segs, b).
            Defined (case segs of None \<Rightarrow> None | Some [] \<Rightarrow> None | Some segs \<Rightarrow> Some (head_index, segs), b)))"

text \<open>The used index is published after the element; it counts although the write may fail.\<close>
definition publish_used :: "vqueue \<Rightarrow> 'd bus \<Rightarrow> (bool \<times> 'd bus) outcome" where
  "publish_used q = write_guest_u16 (vq_used_addr q + 2) (vq_used_idx q)"

section \<open>Sending\<close>

definition note_header :: "nat \<Rightarrow> vnet \<Rightarrow> vnet" where
  "note_header hdr v =
    (let v = v\<lparr>vn_header_size := hdr\<rparr> in
     if hdr = kVirtioNetMrgRxbufHdrSize then v\<lparr>vn_driver_features := vn_driver_features v OR kFeatureMrgRxbuf\<rparr> else v)"

definition send_frame :: "u8 list \<Rightarrow> vnet \<Rightarrow> vnet" where
  "send_frame frame v =
    (if vn_loopback v then v\<lparr>vn_pending := vn_pending v @ [frame]\<rparr>
     else if vn_handler v then v\<lparr>vn_sent := vn_sent v @ [frame]\<rparr> else v)"

text \<open>One turn of the loop of \<open>process_tx\<close>: whether it reached its end.\<close>
definition tx_one :: "vnet \<Rightarrow> 'd bus \<Rightarrow> (bool \<times> vnet \<times> 'd bus) outcome" where
  "tx_one v b =
    obind (next_chain (vn_queue_tx v) b) (\<lambda>(c, b).
      case c of
        None \<Rightarrow> Defined (False, v, b)
      | Some (head_index, segs) \<Rightarrow>
          if list_ex sg_writable segs \<or> total_length segs < kVirtioNetHdrSize then Defined (False, v, b)
          else
            obind (gather_bytes segs b) (\<lambda>(r, b).
              case r of
                None \<Rightarrow> Defined (False, v, b)
              | Some bytes \<Rightarrow>
                  let hdr = detect_tx_header_size segs bytes v;
                      v = send_frame (drop hdr bytes) (note_header hdr v)
                  in obind (write_used head_index 0 (vn_queue_tx v) b) (\<lambda>(ok, b).
                       if \<not> ok then Defined (False, v, b)
                       else
                         let v = v\<lparr>vn_queue_tx := bump_queue (vn_queue_tx v)\<rparr> in
                         obind (publish_used (vn_queue_tx v) b) (\<lambda>(ok, b). Defined (ok, v, b)))))"

partial_function (option) tx_ring ::
  "u16 \<Rightarrow> bool \<Rightarrow> vnet \<Rightarrow> 'd bus \<Rightarrow> (bool \<times> vnet \<times> 'd bus) outcome option" where
  "tx_ring avail_idx any_completed v b =
    (if vq_last_avail_idx (vn_queue_tx v) = avail_idx then Some (Defined (any_completed, v, b))
     else case tx_one v b of
       Undefined \<Rightarrow> Some Undefined
     | Defined r \<Rightarrow>
         if fst r then tx_ring avail_idx True (fst (snd r)) (snd (snd r))
         else Some (Defined (any_completed, snd r)))"

definition process_tx :: "vnet \<Rightarrow> 'd bus \<Rightarrow> (bool \<times> vnet \<times> 'd bus) outcome option" where
  "process_tx v b =
    (if \<not> queue_live (vn_queue_tx v) then Some (Defined (False, v, b))
     else case read_guest_u16 (vq_avail_addr (vn_queue_tx v) + 2) b of
       Undefined \<Rightarrow> Some Undefined
     | Defined (None, b) \<Rightarrow> Some (Defined (False, v, b))
     | Defined (Some avail_idx, b) \<Rightarrow> tx_ring avail_idx False v b)"

section \<open>Receiving\<close>

definition rx_payload :: "nat \<Rightarrow> u8 list \<Rightarrow> u8 list" where
  "rx_payload hdr frame =
    (if hdr = kVirtioNetMrgRxbufHdrSize then (replicate hdr 0)[kVirtioNetHdrSize := 1, kVirtioNetHdrSize + 1 := 0]
     else replicate hdr 0) @ frame"

definition rx_one :: "nat \<Rightarrow> vnet \<Rightarrow> 'd bus \<Rightarrow> (bool \<times> vnet \<times> 'd bus) outcome" where
  "rx_one hdr v b =
    obind (next_chain (vn_queue_rx v) b) (\<lambda>(c, b).
      case c of
        None \<Rightarrow> Defined (False, v, b)
      | Some (head_index, segs) \<Rightarrow>
          let frame = hd (vn_pending v); total_len = hdr + length frame in
          if list_ex (\<lambda>s. \<not> sg_writable s) segs \<or> total_length segs < total_len then Defined (False, v, b)
          else
            obind (scatter_bytes (rx_payload hdr frame) segs b) (\<lambda>(ok, left, b).
              if \<not> ok \<or> left \<noteq> [] then Defined (False, v, b)
              else
                obind (write_used head_index (of_nat total_len) (vn_queue_rx v) b) (\<lambda>(ok, b).
                  if \<not> ok then Defined (False, v, b)
                  else
                    let v = v\<lparr>vn_pending := tl (vn_pending v), vn_queue_rx := bump_queue (vn_queue_rx v)\<rparr> in
                    obind (publish_used (vn_queue_rx v) b) (\<lambda>(ok, b). Defined (ok, v, b)))))"

partial_function (option) rx_ring ::
  "nat \<Rightarrow> u16 \<Rightarrow> bool \<Rightarrow> vnet \<Rightarrow> 'd bus \<Rightarrow> (bool \<times> vnet \<times> 'd bus) outcome option" where
  "rx_ring hdr avail_idx any_completed v b =
    (if vq_last_avail_idx (vn_queue_rx v) = avail_idx \<or> vn_pending v = [] then Some (Defined (any_completed, v, b))
     else case rx_one hdr v b of
       Undefined \<Rightarrow> Some Undefined
     | Defined r \<Rightarrow>
         if fst r then rx_ring hdr avail_idx True (fst (snd r)) (snd (snd r))
         else Some (Defined (any_completed, snd r)))"

definition process_rx :: "vnet \<Rightarrow> 'd bus \<Rightarrow> (bool \<times> vnet \<times> 'd bus) outcome option" where
  "process_rx v b =
    (if vn_pending v = [] \<or> \<not> queue_live (vn_queue_rx v) then Some (Defined (False, v, b))
     else case read_guest_u16 (vq_avail_addr (vn_queue_rx v) + 2) b of
       Undefined \<Rightarrow> Some Undefined
     | Defined (None, b) \<Rightarrow> Some (Defined (False, v, b))
     | Defined (Some avail_idx, b) \<Rightarrow> rx_ring (active_header_size v) avail_idx False v b)"

section \<open>Notification and register writes\<close>

definition complete_queue :: "bool \<Rightarrow> vnet \<Rightarrow> vnet" where
  "complete_queue completed v = (if completed then vnet_raise_interrupt kInterruptVring v else v)"

definition then_rx :: "(bool \<times> vnet \<times> 'd bus) outcome \<Rightarrow> (bool \<times> vnet \<times> 'd bus) outcome option" where
  "then_rx r =
    (case r of
       Undefined \<Rightarrow> Some Undefined
     | Defined (completed, v, b) \<Rightarrow>
         if vn_pending v = [] then Some r
         else map_option (map_outcome (\<lambda>(c, v, b). (c \<or> completed, v, b))) (process_rx v b))"

definition vnet_process_queue :: "u32 \<Rightarrow> vnet \<Rightarrow> 'd bus \<Rightarrow> (vnet \<times> 'd bus) outcome option" where
  "vnet_process_queue queue_index v b =
    (if \<not> vn_present v \<or> queue_index \<ge> kQueueCount then Some (Defined (v, b))
     else map_option (map_outcome (\<lambda>(completed, v, b). (complete_queue completed v, b)))
       (if queue_index = 1 then Option.bind (process_tx v b) then_rx else process_rx v b))"

definition enqueue_rx_frame :: "u8 list \<Rightarrow> vnet \<Rightarrow> 'd bus \<Rightarrow> (bool \<times> vnet \<times> 'd bus) outcome option" where
  "enqueue_rx_frame frame v b =
    (if \<not> vn_present v then Some (Defined (False, v, b))
     else map_option (map_outcome (\<lambda>(completed, v, b). (True, complete_queue completed v, b)))
       (process_rx (v\<lparr>vn_pending := vn_pending v @ [frame]\<rparr>) b))"

definition vnet_write_queue :: "u64 \<Rightarrow> u64 \<Rightarrow> usize \<Rightarrow> vnet \<Rightarrow> 'd bus \<Rightarrow> (vnet \<times> 'd bus) outcome option" where
  "vnet_write_queue offset value sz v b =
    (if (offset \<noteq> 0x050 \<and> offset \<notin> set queue_regs) \<or> sz \<noteq> 4 then Some (Defined (v, b))
     else if offset = 0x030 then Some (Defined (v\<lparr>vn_queue_sel := ucast value\<rparr>, b))
     else if offset = 0x050 then vnet_process_queue (ucast value) v b
     else if vn_queue_sel v \<ge> kQueueCount then Some (Defined (v, b))
     else Some (Defined (set_vnet_queue (vn_queue_sel v)
            (write_queue_reg offset value (vnet_queue (vn_queue_sel v) v)) v, b)))"

definition vnet_write_features :: "u32 \<Rightarrow> u64 \<Rightarrow> u64 \<Rightarrow> u64" where
  "vnet_write_features sel value old =
    (let shift = unat (min sel 1) * 32; m = push_bit shift 0xFFFFFFFF
     in (old AND NOT m) OR (push_bit shift (ucast (ucast value :: u32)) AND m))"

definition vnet_write :: "u64 \<Rightarrow> u64 \<Rightarrow> usize \<Rightarrow> vnet \<Rightarrow> 'd bus \<Rightarrow> (vnet \<times> 'd bus) outcome option" where
  "vnet_write offset value sz v b =
    (if offset \<ge> 0x100 \<and> offset < 0x200 then Some (Defined (v, b))
     else if offset = 0x014 \<and> sz = 4 then Some (Defined (v\<lparr>vn_device_features_sel := ucast value\<rparr>, b))
     else if offset = 0x024 \<and> sz = 4 then Some (Defined (v\<lparr>vn_driver_features_sel := ucast value\<rparr>, b))
     else if offset = 0x020 \<and> sz = 4 then
       Some (Defined (v\<lparr>vn_driver_features :=
         vnet_write_features (vn_driver_features_sel v) value (vn_driver_features v)\<rparr>, b))
     else if offset = 0x028 \<and> sz = 4 then Some (Defined (v\<lparr>vn_guest_page_size := ucast value\<rparr>, b))
     else if offset = 0x064 \<and> sz = 4 then Some (Defined (vnet_clear_interrupt (ucast value) v, b))
     else if offset = 0x070 \<and> sz = 4 then
       Some (Defined (if (ucast value :: u32) = 0 then vnet_reset v else v\<lparr>vn_status := ucast value\<rparr>, b))
     else vnet_write_queue offset value sz v b)"

end
