(* ===== verification/Perf_Mailbox.thy ===== *)
theory Perf_Mailbox
  imports Snapshot_Io
begin

text \<open>
  The performance mailbox of \<open>src/src/perf_mailbox.cpp\<close>: registers for a case and its arguments, and a
  command register that calls back into the machine. The calls are a list in their order; the counters the
  callback \<open>end\<close> returns are an argument of the write.
\<close>

section \<open>State\<close>

record perf_counters =
  pf_steps :: u64
  pf_bus_reads :: u64
  pf_bus_writes :: u64
  pf_bus_read_bytes :: u64
  pf_bus_write_bytes :: u64
  pf_bus_find_calls :: u64
  pf_bus_device_reads :: u64
  pf_bus_device_writes :: u64
  pf_ram_fast_reads :: u64
  pf_ram_fast_writes :: u64
  pf_ram_fast_read_bytes :: u64
  pf_ram_fast_write_bytes :: u64
  pf_translate_calls :: u64
  pf_tlb_lookups :: u64
  pf_tlb_hits :: u64
  pf_tlb_misses :: u64
  pf_tlb_inserts :: u64
  pf_tlb_flush_all :: u64
  pf_tlb_flush_va :: u64
  pf_page_walks :: u64
  pf_page_walk_desc_reads :: u64
  pf_gic_has_pending :: u64
  pf_gic_acknowledge :: u64
  pf_gic_recompute :: u64
  pf_gic_set_level :: u64
  pf_soc_sync_devices :: u64
  pf_soc_run_chunks :: u64

record perf_result =
  pr_case_id :: u64
  pr_arg0 :: u64
  pr_arg1 :: u64
  pr_host_ns :: u64
  pr_delta :: perf_counters

datatype perf_call = Perf_Begin u64 u64 u64 | Perf_End u64 u64 u64 | Perf_Request_Exit | Perf_Flush_Tlb

record mailbox =
  mb_case_id :: u64
  mb_arg0 :: u64
  mb_arg1 :: u64
  mb_last_status :: u64
  mb_last_result :: perf_result
  mb_begin :: bool
  mb_end :: bool
  mb_request_exit :: bool
  mb_flush_tlb :: bool
  mb_calls :: "perf_call list"

definition zero_counters :: perf_counters where
  "zero_counters =
   \<lparr>pf_steps = 0, pf_bus_reads = 0, pf_bus_writes = 0, pf_bus_read_bytes = 0, pf_bus_write_bytes = 0,
    pf_bus_find_calls = 0, pf_bus_device_reads = 0, pf_bus_device_writes = 0, pf_ram_fast_reads = 0,
    pf_ram_fast_writes = 0, pf_ram_fast_read_bytes = 0, pf_ram_fast_write_bytes = 0, pf_translate_calls = 0,
    pf_tlb_lookups = 0, pf_tlb_hits = 0, pf_tlb_misses = 0, pf_tlb_inserts = 0, pf_tlb_flush_all = 0,
    pf_tlb_flush_va = 0, pf_page_walks = 0, pf_page_walk_desc_reads = 0, pf_gic_has_pending = 0,
    pf_gic_acknowledge = 0, pf_gic_recompute = 0, pf_gic_set_level = 0, pf_soc_sync_devices = 0,
    pf_soc_run_chunks = 0\<rparr>"

definition zero_result :: perf_result where
  "zero_result = \<lparr>pr_case_id = 0, pr_arg0 = 0, pr_arg1 = 0, pr_host_ns = 0, pr_delta = zero_counters\<rparr>"

definition mailbox_reset :: "mailbox \<Rightarrow> mailbox" where
  "mailbox_reset m = m\<lparr>mb_case_id := 0, mb_arg0 := 0, mb_arg1 := 0, mb_last_status := 0, mb_last_result := zero_result\<rparr>"

section \<open>Registers\<close>

definition mailbox_read_reg :: "u64 \<Rightarrow> mailbox \<Rightarrow> u64" where
  "mailbox_read_reg offset m =
    (let d = pr_delta (mb_last_result m) in
     if offset = 0x00 then 0x504552464d424f58
     else if offset = 0x10 then mb_case_id m
     else if offset = 0x18 then mb_arg0 m
     else if offset = 0x20 then mb_arg1 m
     else if offset = 0x28 then mb_last_status m
     else if offset = 0x30 then pr_host_ns (mb_last_result m)
     else if offset = 0x38 then pf_steps d
     else if offset = 0x40 then pf_tlb_hits d
     else if offset = 0x48 then pf_tlb_misses d
     else if offset = 0x50 then pf_page_walks d
     else if offset = 0x58 then pf_bus_reads d
     else if offset = 0x60 then pf_bus_writes d
     else 0)"

definition mailbox_call :: "bool \<Rightarrow> perf_call \<Rightarrow> mailbox \<Rightarrow> mailbox" where
  "mailbox_call present k m = (if present then m\<lparr>mb_calls := mb_calls m @ [k]\<rparr> else m)"

definition publish_result :: "perf_result \<Rightarrow> mailbox \<Rightarrow> mailbox" where
  "publish_result r m = m\<lparr>mb_last_result := r\<rparr>"

text \<open>\<open>counted\<close> is what the callback \<open>end\<close> returns.\<close>
definition mailbox_command :: "perf_result \<Rightarrow> u64 \<Rightarrow> mailbox \<Rightarrow> mailbox" where
  "mailbox_command counted value m =
    (if value = 1 then
       mailbox_call (mb_begin m) (Perf_Begin (mb_case_id m) (mb_arg0 m) (mb_arg1 m)) (m\<lparr>mb_last_status := 1\<rparr>)
     else if value = 2 then
       (let m = (if mb_end m
                 then publish_result counted (mailbox_call True (Perf_End (mb_case_id m) (mb_arg0 m) (mb_arg1 m)) m)
                 else m)
        in m\<lparr>mb_last_status := 2\<rparr>)
     else if value = 3 then mailbox_call (mb_request_exit m) Perf_Request_Exit (m\<lparr>mb_last_status := 3\<rparr>)
     else if value = 4 then mailbox_call (mb_flush_tlb m) Perf_Flush_Tlb (m\<lparr>mb_last_status := 4\<rparr>)
     else m\<lparr>mb_last_status := 0xdead0000 OR (value AND 0xFFFF)\<rparr>)"

definition mailbox_write_reg :: "perf_result \<Rightarrow> u64 \<Rightarrow> u64 \<Rightarrow> mailbox \<Rightarrow> mailbox" where
  "mailbox_write_reg counted offset value m =
    (if offset = 0x10 then m\<lparr>mb_case_id := value\<rparr>
     else if offset = 0x18 then m\<lparr>mb_arg0 := value\<rparr>
     else if offset = 0x20 then m\<lparr>mb_arg1 := value\<rparr>
     else if offset = 0x08 then mailbox_command counted value m
     else m)"

section \<open>Accesses\<close>

definition mailbox_size_ok :: "usize \<Rightarrow> bool" where
  "mailbox_size_ok sz \<longleftrightarrow> sz = 1 \<or> sz = 2 \<or> sz = 4 \<or> sz = 8"

definition part_shift :: "u64 \<Rightarrow> nat" where "part_shift offset = unat ((offset AND 0x7) * 8)"

definition extract_part :: "u64 \<Rightarrow> u64 \<Rightarrow> usize \<Rightarrow> u64" where
  "extract_part value offset sz =
    (if sz = 1 then drop_bit (part_shift offset) value AND 0xFF
     else if sz = 2 then drop_bit (part_shift offset) value AND 0xFFFF
     else if sz = 4 then drop_bit (part_shift offset) value AND 0xFFFFFFFF
     else value)"

definition merge_part :: "u64 \<Rightarrow> u64 \<Rightarrow> u64 \<Rightarrow> usize \<Rightarrow> u64" where
  "merge_part cur value offset sz =
    (let m = if sz = 1 then 0xFF else if sz = 2 then 0xFFFF else 0xFFFFFFFF
     in (cur AND NOT (push_bit (part_shift offset) m)) OR push_bit (part_shift offset) (value AND m))"

definition mailbox_read :: "u64 \<Rightarrow> usize \<Rightarrow> mailbox \<Rightarrow> u64" where
  "mailbox_read offset sz m =
    (if \<not> mailbox_size_ok sz then 0 else extract_part (mailbox_read_reg (offset AND NOT 0x7) m) offset sz)"

definition mailbox_write :: "perf_result \<Rightarrow> u64 \<Rightarrow> u64 \<Rightarrow> usize \<Rightarrow> mailbox \<Rightarrow> mailbox" where
  "mailbox_write counted offset value sz m =
    (if \<not> mailbox_size_ok sz then m
     else
       let aligned = offset AND NOT 0x7 in
       if sz = 8 then mailbox_write_reg counted aligned value m
       else mailbox_write_reg counted aligned (merge_part (mailbox_read_reg aligned m) value offset sz) m)"

section \<open>Snapshots\<close>

definition save_counters :: "perf_counters \<Rightarrow> writer" where
  "save_counters d = write_seq (map snap_write
    [pf_steps d, pf_bus_reads d, pf_bus_writes d, pf_bus_read_bytes d, pf_bus_write_bytes d,
     pf_bus_find_calls d, pf_bus_device_reads d, pf_bus_device_writes d, pf_ram_fast_reads d,
     pf_ram_fast_writes d, pf_ram_fast_read_bytes d, pf_ram_fast_write_bytes d, pf_translate_calls d,
     pf_tlb_lookups d, pf_tlb_hits d, pf_tlb_misses d, pf_tlb_inserts d, pf_tlb_flush_all d,
     pf_tlb_flush_va d, pf_page_walks d, pf_page_walk_desc_reads d, pf_gic_has_pending d,
     pf_gic_acknowledge d, pf_gic_recompute d, pf_gic_set_level d, pf_soc_sync_devices d, pf_soc_run_chunks d])"

definition load_counters :: "perf_counters reader" where
  "load_counters = read_seq
    [read_into snap_read pf_steps pf_steps_update,
     read_into snap_read pf_bus_reads pf_bus_reads_update,
     read_into snap_read pf_bus_writes pf_bus_writes_update,
     read_into snap_read pf_bus_read_bytes pf_bus_read_bytes_update,
     read_into snap_read pf_bus_write_bytes pf_bus_write_bytes_update,
     read_into snap_read pf_bus_find_calls pf_bus_find_calls_update,
     read_into snap_read pf_bus_device_reads pf_bus_device_reads_update,
     read_into snap_read pf_bus_device_writes pf_bus_device_writes_update,
     read_into snap_read pf_ram_fast_reads pf_ram_fast_reads_update,
     read_into snap_read pf_ram_fast_writes pf_ram_fast_writes_update,
     read_into snap_read pf_ram_fast_read_bytes pf_ram_fast_read_bytes_update,
     read_into snap_read pf_ram_fast_write_bytes pf_ram_fast_write_bytes_update,
     read_into snap_read pf_translate_calls pf_translate_calls_update,
     read_into snap_read pf_tlb_lookups pf_tlb_lookups_update,
     read_into snap_read pf_tlb_hits pf_tlb_hits_update,
     read_into snap_read pf_tlb_misses pf_tlb_misses_update,
     read_into snap_read pf_tlb_inserts pf_tlb_inserts_update,
     read_into snap_read pf_tlb_flush_all pf_tlb_flush_all_update,
     read_into snap_read pf_tlb_flush_va pf_tlb_flush_va_update,
     read_into snap_read pf_page_walks pf_page_walks_update,
     read_into snap_read pf_page_walk_desc_reads pf_page_walk_desc_reads_update,
     read_into snap_read pf_gic_has_pending pf_gic_has_pending_update,
     read_into snap_read pf_gic_acknowledge pf_gic_acknowledge_update,
     read_into snap_read pf_gic_recompute pf_gic_recompute_update,
     read_into snap_read pf_gic_set_level pf_gic_set_level_update,
     read_into snap_read pf_soc_sync_devices pf_soc_sync_devices_update,
     read_into snap_read pf_soc_run_chunks pf_soc_run_chunks_update]"

definition mailbox_save_state :: "mailbox \<Rightarrow> writer" where
  "mailbox_save_state m = write_seq
    [snap_write (mb_case_id m), snap_write (mb_arg0 m), snap_write (mb_arg1 m), snap_write (mb_last_status m),
     snap_write (pr_case_id (mb_last_result m)), snap_write (pr_arg0 (mb_last_result m)),
     snap_write (pr_arg1 (mb_last_result m)), snap_write (pr_host_ns (mb_last_result m)),
     save_counters (pr_delta (mb_last_result m))]"

definition load_result :: "perf_result reader" where
  "load_result = read_seq
    [read_into snap_read pr_case_id pr_case_id_update, read_into snap_read pr_arg0 pr_arg0_update,
     read_into snap_read pr_arg1 pr_arg1_update, read_into snap_read pr_host_ns pr_host_ns_update,
     read_into load_counters pr_delta pr_delta_update]"

definition mailbox_load_state :: "mailbox reader" where
  "mailbox_load_state = read_seq
    [read_into snap_read mb_case_id mb_case_id_update, read_into snap_read mb_arg0 mb_arg0_update,
     read_into snap_read mb_arg1 mb_arg1_update, read_into snap_read mb_last_status mb_last_status_update,
     read_into load_result mb_last_result mb_last_result_update]"

end
