(* ===== verification/Soc.thy ===== *)
theory Soc
  imports Cpu_Step_Proofs Uart_Pl011 Pl050_Kmi Perf_Mailbox Virtio_Blk Virtio_Net
begin

text \<open>
  The machine of \<open>src/src/soc.cpp\<close>: the CPUs on one bus, the calls between them, power control by \<open>PSCI\<close>, guest
  time, the interrupt lines of the devices, and \<open>run\<close>, the scheduler, without the network backend of the
  host (\<open>AARCHVM_HAS_SLIRP\<close> not defined) and without the window of the framebuffer. Every CPU of the model holds
  a copy of the bus while it steps; the machine keeps the bus between the steps. The callbacks of a step
  reach the other CPUs when it ends, before any of them runs.
\<close>

section \<open>State\<close>

record soc_devices = irq_devices +
  sd_uart :: uart
  sd_kmi :: kmi
  sd_mailbox :: mailbox
  sd_blk :: vblk
  sd_net :: vnet

record soc =
  so_bus :: "soc_devices bus"
  so_cpus :: "soc_devices cpu list"
  so_powered_on :: "bool list"
  so_secondary_off :: bool
  so_legacy :: bool
  so_timer_mode :: clock_mode
  so_timer_tick_scale :: u64
  so_global_steps :: u64
  so_guest_time_fp :: u64
  so_stop_requested :: bool
  so_sync_devices :: u64
  so_run_chunks :: u64
  so_stop_pattern :: "u8 list"
  so_stop_window :: "u8 list"
  so_match_pattern :: "u8 list"
  so_match_window :: "u8 list"
  so_match_reply :: "u8 list"
  so_match_armed :: bool
  so_device_sync_valid :: bool
  so_device_sync_guest_ticks :: u64
  so_schedule_valid :: bool
  so_schedule_dirty :: bool
  so_next_event :: "u64 option"
  so_last_virt :: "bool list"
  so_last_phys :: "bool list"
  so_last_uart :: bool
  so_last_kmi :: bool
  so_last_blk :: bool
  so_last_net :: bool
  so_runnable_dirty :: bool

definition kTimerVirtIntId :: nat where "kTimerVirtIntId = 27"
definition kTimerPhysIntId :: nat where "kTimerPhysIntId = 30"
definition kUartIntId :: nat where "kUartIntId = 33"
definition kKmiIntId :: nat where "kKmiIntId = 34"
definition kVirtioBlkIntId :: nat where "kVirtioBlkIntId = 35"
definition kVirtioNetIntId :: nat where "kVirtioNetIntId = 36"
definition kGuestTimeFracBits :: nat where "kGuestTimeFracBits = 16"
definition kGuestTimeFracOne :: u64 where "kGuestTimeFracOne = push_bit kGuestTimeFracBits 1"

abbreviation soc_devs :: "soc \<Rightarrow> soc_devices" where "soc_devs s \<equiv> bus_devices (so_bus s)"

definition on_devices :: "(soc_devices \<Rightarrow> soc_devices) \<Rightarrow> soc \<Rightarrow> soc" where
  "on_devices f s = s\<lparr>so_bus := (so_bus s)\<lparr>bus_devices := f (soc_devs s)\<rparr>\<rparr>"

definition soc_gic :: "(gic \<Rightarrow> gic) \<Rightarrow> soc \<Rightarrow> soc" where
  "soc_gic f = on_devices (\<lambda>d. d\<lparr>dv_gic := f (dv_gic d)\<rparr>)"

definition soc_timer :: "(timer \<Rightarrow> timer) \<Rightarrow> soc \<Rightarrow> soc" where
  "soc_timer f = on_devices (\<lambda>d. d\<lparr>dv_timer := f (dv_timer d)\<rparr>)"

definition host_clock :: "soc \<Rightarrow> bool" where "host_clock s \<longleftrightarrow> tm_clock_mode (dv_timer (soc_devs s)) = Host_Monotonic"

text \<open>CPU \<open>i\<close> with the bus of the machine, and an operation of it that may use the bus.\<close>
definition with_bus :: "nat \<Rightarrow> soc \<Rightarrow> soc_devices cpu" where
  "with_bus i s = (so_cpus s ! i)\<lparr>c_bus := so_bus s\<rparr>"

definition put_cpu :: "nat \<Rightarrow> soc_devices cpu \<Rightarrow> soc \<Rightarrow> soc" where
  "put_cpu i c s = s\<lparr>so_bus := c_bus c, so_cpus := (so_cpus s)[i := c]\<rparr>"

section \<open>Calls between the CPUs\<close>

definition note_woken :: "bool \<Rightarrow> soc \<Rightarrow> soc" where
  "note_woken woke s = s\<lparr>so_runnable_dirty := so_runnable_dirty s \<or> woke\<rparr>"

text \<open>The CPUs but the source.\<close>
definition map_others :: "nat \<Rightarrow> (soc_devices cpu \<Rightarrow> soc_devices cpu) \<Rightarrow> soc \<Rightarrow> soc" where
  "map_others src f s = s\<lparr>so_cpus := map (\<lambda>(j, c). if j = src then c else f c) (enumerate 0 (so_cpus s))\<rparr>"

definition broadcast_event :: "soc \<Rightarrow> soc" where
  "broadcast_event s = note_woken (list_ex c_waiting_for_event (so_cpus s))
    (s\<lparr>so_cpus := map signal_event (so_cpus s)\<rparr>)"

definition on_cpu_memory_write :: "nat \<Rightarrow> u64 \<Rightarrow> usize \<Rightarrow> soc \<Rightarrow> soc" where
  "on_cpu_memory_write src pa sz s =
    note_woken (list_ex (\<lambda>(j, c). j \<noteq> src \<and> c_waiting_for_event c) (enumerate 0 (so_cpus s)))
      (map_others src (notify_external_memory_write pa sz) s)"

definition on_external_ram_write :: "u64 \<Rightarrow> usize \<Rightarrow> soc \<Rightarrow> soc" where
  "on_external_ram_write pa sz s = note_woken (list_ex c_waiting_for_event (so_cpus s))
    (s\<lparr>so_cpus := map (notify_external_memory_write pa sz) (so_cpus s)\<rparr>)"

definition broadcast_tlbi_vmalle1 :: "nat \<Rightarrow> soc \<Rightarrow> soc" where
  "broadcast_tlbi_vmalle1 src = map_others src notify_tlbi_vmalle1"

definition broadcast_tlbi_vae1 :: "nat \<Rightarrow> u64 \<Rightarrow> bool \<Rightarrow> soc \<Rightarrow> soc" where
  "broadcast_tlbi_vae1 src operand all_asids = map_others src (notify_tlbi_vae1 operand all_asids)"

definition broadcast_tlbi_aside1 :: "nat \<Rightarrow> u16 \<Rightarrow> soc \<Rightarrow> soc" where
  "broadcast_tlbi_aside1 src asid = map_others src (notify_tlbi_aside1 asid)"

definition broadcast_ic_ivau :: "nat \<Rightarrow> soc \<Rightarrow> soc" where
  "broadcast_ic_ivau src = map_others src notify_ic_ivau"

section \<open>Power control\<close>

definition request_stop :: "soc \<Rightarrow> soc" where "request_stop s = s\<lparr>so_stop_requested := True\<rparr>"

definition cpu_mpidr :: "nat \<Rightarrow> u64" where "cpu_mpidr i = 0x80000000 OR (of_nat i AND 0xFF)"

definition cpu_index_from_mpidr :: "u64 \<Rightarrow> soc \<Rightarrow> nat option" where
  "cpu_index_from_mpidr mpidr s =
    List.find (\<lambda>i. r_mpidr_el1 (c_sysregs (so_cpus s ! i)) AND 0xFF00FFFFFF = mpidr AND 0xFF00FFFFFF)
      [0..<length (so_cpus s)]"

text \<open>A reset CPU with its index and its affinity.\<close>
definition boot_cpu :: "nat \<Rightarrow> u64 \<Rightarrow> soc_devices cpu \<Rightarrow> soc_devices cpu" where
  "boot_cpu i pc c = on_sysregs (set_mpidr_el1 (cpu_mpidr i)) ((cpu_reset pc c)\<lparr>c_cpu_index := i\<rparr>)"

definition psci_cpu_on :: "nat \<Rightarrow> soc \<Rightarrow> u64 \<times> soc" where
  "psci_cpu_on src s =
    (let x = (\<lambda>i. c_regs (so_cpus s ! src) ! i) in
     case cpu_index_from_mpidr (x 1) s of
       None \<Rightarrow> (-2, s)
     | Some target \<Rightarrow>
         if target = 0 then (-2, s)
         else if so_powered_on s ! target then (-4, s)
         else
           (0, s\<lparr>so_cpus := (so_cpus s)[target := set_x 0 (x 3) (boot_cpu target (x 2) (so_cpus s ! target))],
                 so_powered_on := (so_powered_on s)[target := True], so_runnable_dirty := True\<rparr>))"

definition psci_affinity_info :: "nat \<Rightarrow> soc \<Rightarrow> u64" where
  "psci_affinity_info src s =
    (case cpu_index_from_mpidr (c_regs (so_cpus s ! src) ! 1) s of
       None \<Rightarrow> -2
     | Some target \<Rightarrow> if so_powered_on s ! target then 0 else 1)"

definition psci_features :: "u64 \<Rightarrow> u64" where
  "psci_features query =
    (if query \<in> {0x84000000, 0x84000002, 0xC4000003, 0xC4000004, 0x84000006, 0x84000008, 0x84000009} then 0 else -1)"

definition handle_smccc :: "nat \<Rightarrow> soc \<Rightarrow> bool \<times> soc" where
  "handle_smccc src s =
    (let fid = c_regs (so_cpus s ! src) ! 0;
         answer = (\<lambda>(v, s). (True, s\<lparr>so_cpus := (so_cpus s)[src := set_x 0 v (so_cpus s ! src)]\<rparr>)) in
     if fid = 0x84000000 then answer (2, s)
     else if fid = 0x8400000A then answer (psci_features (c_regs (so_cpus s ! src) ! 1), s)
     else if fid = 0xC4000003 then answer (psci_cpu_on src s)
     else if fid = 0xC4000004 then answer (psci_affinity_info src s, s)
     else if fid = 0x84000006 then answer (2, s)
     else if fid = 0x84000002 then answer (-1, s)
     else if fid = 0x84000008 \<or> fid = 0x84000009 then answer (0, request_stop s)
     else (False, s))"

section \<open>Guest time and the device schedule\<close>

definition guest_time_ticks :: "soc \<Rightarrow> u64" where
  "guest_time_ticks s = drop_bit kGuestTimeFracBits (so_guest_time_fp s)"

definition advance_guest_time :: "u64 \<Rightarrow> u64 \<Rightarrow> soc \<Rightarrow> soc" where
  "advance_guest_time executed active s =
    (if executed = 0 \<or> active = 0 then s
     else s\<lparr>so_guest_time_fp := so_guest_time_fp s + executed div active * kGuestTimeFracOne +
            (executed mod active * kGuestTimeFracOne) div active\<rparr>)"

definition advance_guest_time_to :: "u64 \<Rightarrow> soc \<Rightarrow> soc" where
  "advance_guest_time_to guest_tick s =
    (let target_fp = push_bit kGuestTimeFracBits guest_tick
     in if target_fp \<le> so_guest_time_fp s then s else s\<lparr>so_guest_time_fp := target_fp\<rparr>)"

definition invalidate_device_schedule :: "soc \<Rightarrow> soc" where
  "invalidate_device_schedule s =
    s\<lparr>so_device_sync_valid := False, so_schedule_valid := False, so_schedule_dirty := True, so_next_event := None\<rparr>"

text \<open>The calls of the state-change observers so far; a new one invalidates the schedule.\<close>
definition device_notifications :: "soc \<Rightarrow> nat" where
  "device_notifications s =
    (let d = soc_devs s in tm_notified (dv_timer d) + kmi_notified (sd_kmi d) + vb_notified (sd_blk d) +
       vn_notified (sd_net d) + length (filter (\<lambda>e. e = State_Changed) (uart_events (sd_uart d))))"

definition observe_since :: "nat \<Rightarrow> soc \<Rightarrow> soc" where
  "observe_since n s = (if device_notifications s = n then s else invalidate_device_schedule s)"

definition kNoDeadline :: u64 where "kNoDeadline = NOT 0 div 4"

definition next_device_event :: "u64 \<Rightarrow> u64 \<Rightarrow> soc \<Rightarrow> u64 option \<times> soc" where
  "next_device_event now guest_tick s =
    (if host_clock s then
       (None, s\<lparr>so_schedule_valid := True, so_schedule_dirty := False, so_next_event := None\<rparr>)
     else if so_schedule_valid s \<and> \<not> so_schedule_dirty s \<and>
             (case so_next_event s of None \<Rightarrow> True | Some t \<Rightarrow> t \<ge> guest_tick) then (so_next_event s, s)
     else
       let steps = steps_until_irq now guest_tick kNoDeadline (dv_timer (soc_devs s));
           event = (if steps \<noteq> kNoDeadline then Some (guest_tick + steps) else None)
       in (event, s\<lparr>so_schedule_valid := True, so_schedule_dirty := False, so_next_event := event\<rparr>))"

section \<open>The interrupt lines\<close>

text \<open>A level goes to the controller when the lines are not known to agree or when it changed.\<close>
definition line_moved :: "soc \<Rightarrow> bool \<Rightarrow> bool \<Rightarrow> bool" where
  "line_moved s level last_level \<longleftrightarrow> \<not> so_device_sync_valid s \<or> level \<noteq> last_level"

definition sync_timer_lines :: "nat \<Rightarrow> soc \<Rightarrow> soc" where
  "sync_timer_lines i s =
    (let t = dv_timer (soc_devs s);
         virt_level = timer_irq_pending t \<or> irq_pending_virtual i t;
         phys_level = irq_pending_physical i t;
         s = (if line_moved s virt_level (so_last_virt s ! i)
              then (soc_gic (set_level_on i kTimerVirtIntId virt_level) s)\<lparr>so_last_virt := (so_last_virt s)[i := virt_level]\<rparr>
              else s)
     in if line_moved s phys_level (so_last_phys s ! i)
        then (soc_gic (set_level_on i kTimerPhysIntId phys_level) s)\<lparr>so_last_phys := (so_last_phys s)[i := phys_level]\<rparr>
        else s)"

definition sync_uart_line :: "soc \<Rightarrow> soc" where
  "sync_uart_line s =
    (let level = uart_irq_pending (sd_uart (soc_devs s)) in
     if line_moved s level (so_last_uart s)
     then (soc_gic (set_level kUartIntId level) s)\<lparr>so_last_uart := level\<rparr> else s)"

definition sync_kmi_line :: "soc \<Rightarrow> soc" where
  "sync_kmi_line s =
    (let level = kmi_irq_pending (sd_kmi (soc_devs s)) in
     if line_moved s level (so_last_kmi s)
     then (soc_gic (set_level kKmiIntId level) s)\<lparr>so_last_kmi := level\<rparr> else s)"

definition sync_blk_line :: "soc \<Rightarrow> soc" where
  "sync_blk_line s =
    (let level = vblk_irq_pending (sd_blk (soc_devs s)) in
     if line_moved s level (so_last_blk s)
     then (soc_gic (set_level kVirtioBlkIntId level) s)\<lparr>so_last_blk := level\<rparr> else s)"

definition sync_net_line :: "soc \<Rightarrow> soc" where
  "sync_net_line s =
    (let level = vnet_irq_pending (sd_net (soc_devs s)) in
     if line_moved s level (so_last_net s)
     then (soc_gic (set_level kVirtioNetIntId level) s)\<lparr>so_last_net := level\<rparr> else s)"

text \<open>\<open>t1\<close> and \<open>t2\<close> are the readings of the host clock the timer takes.\<close>
definition sync_devices :: "u64 \<Rightarrow> u64 \<Rightarrow> bool \<Rightarrow> soc \<Rightarrow> soc" where
  "sync_devices t1 t2 force_timer_sync s =
    (let s = s\<lparr>so_sync_devices := so_sync_devices s + 1\<rparr>;
         guest_ticks = guest_time_ticks s;
         s = (if force_timer_sync \<or> \<not> so_device_sync_valid s \<or> so_device_sync_guest_ticks s \<noteq> guest_ticks
              then (observe_since (device_notifications s) (soc_timer (sync_to_steps guest_ticks t1 t2) s))
                     \<lparr>so_device_sync_guest_ticks := guest_ticks\<rparr>
              else s);
         s = fold sync_timer_lines [0..<length (so_cpus s)] s;
         s = sync_net_line (sync_blk_line (sync_kmi_line (sync_uart_line s)))
     in s\<lparr>so_device_sync_valid := True, so_schedule_valid := False, so_schedule_dirty := False, so_next_event := None\<rparr>)"

end
