(* ===== verification/Soc_Run.thy ===== *)
theory Soc_Run
  imports Soc
begin

text \<open>
  \<open>SoC::run\<close>: which CPU steps, how far it may run before the devices are looked at again, and when the machine
  stops. The host side of a step (the clock readings, the devices' registers, the floating-point unit) is an
  environment for every value of the step counter. A loop that may not end is a partial function.
\<close>

section \<open>One step of one CPU\<close>

type_synonym host_env = "u64 \<Rightarrow> soc_devices step_env"

text \<open>What \<open>handle_smccc\<close> does for the CPU that called: the answer in \<open>x0\<close>, and the record of the call.\<close>
definition smccc_callback :: "nat \<Rightarrow> soc \<Rightarrow> soc_devices cpu \<Rightarrow> bool \<times> soc_devices cpu" where
  "smccc_callback i s c =
    (case handle_smccc i (s\<lparr>so_cpus := (so_cpus s)[i := c]\<rparr>) of (ok, s') \<Rightarrow>
      let r = c_regs c in
      (ok, if ok then (so_cpus s' ! i)\<lparr>c_calls := c_calls c @ [Smccc_Call (r ! 0) (r ! 1) (r ! 2) (r ! 3)]\<rparr> else c))"

text \<open>What the call does to the rest of the machine.\<close>
definition apply_smccc :: "nat \<Rightarrow> u64 \<Rightarrow> u64 \<Rightarrow> u64 \<Rightarrow> u64 \<Rightarrow> soc \<Rightarrow> soc" where
  "apply_smccc i x0 x1 x2 x3 s =
    (let c = so_cpus s ! i; caller = set_x 3 x3 (set_x 2 x2 (set_x 1 x1 (set_x 0 x0 c)));
         s' = snd (handle_smccc i (s\<lparr>so_cpus := (so_cpus s)[i := caller]\<rparr>))
     in s'\<lparr>so_cpus := (so_cpus s')[i := c]\<rparr>)"

fun deliver_call :: "nat \<Rightarrow> cpu_call \<Rightarrow> soc \<Rightarrow> soc" where
  "deliver_call i Sev_Broadcast s = broadcast_event s"
| "deliver_call i (Memory_Write pa sz) s = on_cpu_memory_write i pa sz s"
| "deliver_call i Tlbi_Vmalle1 s = broadcast_tlbi_vmalle1 i s"
| "deliver_call i (Tlbi_Vae1 operand all_asids) s = broadcast_tlbi_vae1 i operand all_asids s"
| "deliver_call i (Tlbi_Aside1 asid) s = broadcast_tlbi_aside1 i asid s"
| "deliver_call i Ic_Ivau s = broadcast_ic_ivau i s"
| "deliver_call i (Smccc_Call x0 x1 x2 x3) s = apply_smccc i x0 x1 x2 x3 s"

text \<open>The byte the UART sends: the stop pattern and the reply are matched against the last bytes.\<close>
definition slide :: "u8 list \<Rightarrow> u8 \<Rightarrow> u8 list \<Rightarrow> u8 list" where
  "slide window byte pattern =
    (let w = window @ [byte] in if length w > length pattern then drop (length w - length pattern) w else w)"

definition inject_uart_rx :: "u8 \<Rightarrow> soc \<Rightarrow> soc" where
  "inject_uart_rx byte s =
    (let s = on_devices (\<lambda>d. d\<lparr>sd_uart := uart_inject_rx byte (sd_uart d)\<rparr>) s;
         s = (if uart_irq_pending (sd_uart (soc_devs s)) then soc_gic (set_pending kUartIntId) s else s)
     in invalidate_device_schedule s)"

definition inject_ps2_rx :: "u8 \<Rightarrow> soc \<Rightarrow> soc" where
  "inject_ps2_rx byte s =
    invalidate_device_schedule (on_devices (\<lambda>d. d\<lparr>sd_kmi := kmi_inject_rx byte (sd_kmi d)\<rparr>) s)"

definition match_stop :: "u8 \<Rightarrow> soc \<Rightarrow> soc" where
  "match_stop byte s =
    (if so_stop_pattern s = [] then s
     else let s = s\<lparr>so_stop_window := slide (so_stop_window s) byte (so_stop_pattern s)\<rparr>
          in if so_stop_window s = so_stop_pattern s then request_stop s else s)"

definition on_uart_tx :: "u8 \<Rightarrow> soc \<Rightarrow> soc" where
  "on_uart_tx byte s =
    (let s = match_stop byte s in
     if \<not> so_match_armed s then s
     else
       let s = s\<lparr>so_match_window := slide (so_match_window s) byte (so_match_pattern s)\<rparr> in
       if so_match_window s \<noteq> so_match_pattern s then s
       else fold inject_uart_rx (so_match_reply s) (s\<lparr>so_match_armed := False\<rparr>))"

fun on_uart_event :: "uart_event \<Rightarrow> soc \<Rightarrow> soc" where
  "on_uart_event (Tx_Observed byte) s = on_uart_tx byte s"
| "on_uart_event (Put_Char byte) s = s"
| "on_uart_event State_Changed s = s"

fun on_perf_call :: "perf_call \<Rightarrow> soc \<Rightarrow> soc" where
  "on_perf_call Perf_Request_Exit s = request_stop s"
| "on_perf_call Perf_Flush_Tlb s = s\<lparr>so_cpus := map perf_flush_tlb_all (so_cpus s)\<rparr>"
| "on_perf_call (Perf_Begin k a b) s = s"
| "on_perf_call (Perf_End k a b) s = s"

text \<open>\<open>step\<close> of CPU \<open>i\<close> with everything it calls; the host counts it.\<close>
definition cpu_step :: "host_env \<Rightarrow> nat \<Rightarrow> soc \<Rightarrow> bool \<times> soc" where
  "cpu_step host i s =
    (let env = (host (so_global_steps s))\<lparr>env_time_steps := Some (guest_time_ticks s),
                 se_smccc := Some (\<lambda>_ _. smccc_callback i s)\<rparr>;
         events = uart_events (sd_uart (soc_devs s)); calls = mb_calls (sd_mailbox (soc_devs s));
         noted = device_notifications s; written = length (bus_observed (so_bus s));
         r = step env ((with_bus i s)\<lparr>c_calls := []\<rparr>);
         s = put_cpu i (snd r) s;
         s = fold (deliver_call i) (c_calls (snd r)) s;
         s = fold (\<lambda>(pa, sz). on_external_ram_write pa sz) (drop written (bus_observed (so_bus s))) s;
         s = fold on_perf_call (drop (length calls) (mb_calls (sd_mailbox (soc_devs s)))) s;
         s = observe_since noted s;
         s = fold on_uart_event (drop (length events) (uart_events (sd_uart (soc_devs s)))) s
     in (fst r, s\<lparr>so_global_steps := so_global_steps s + 1\<rparr>))"

section \<open>Which CPUs may run\<close>

record dispatch_state =
  ds_any_powered_on :: bool
  ds_all_halted :: bool
  ds_active :: u64
  ds_runnable :: u64
  ds_first_runnable :: "nat option"

text \<open>\<open>ready_to_run\<close> asks the controller, which counts and caches.\<close>
definition cpu_ready :: "nat \<Rightarrow> soc \<Rightarrow> bool \<times> soc" where
  "cpu_ready i s = (case ready_to_run (with_bus i s) of (r, c) \<Rightarrow> (r, put_cpu i c s))"

definition inspect_cpu :: "nat \<Rightarrow> dispatch_state \<times> soc \<Rightarrow> dispatch_state \<times> soc" where
  "inspect_cpu i x =
    (case x of (d, s) \<Rightarrow>
      if \<not> so_powered_on s ! i then (d, s)
      else
        let d = d\<lparr>ds_any_powered_on := True\<rparr> in
        if c_halted (so_cpus s ! i) then (d, s)
        else
          let d = d\<lparr>ds_all_halted := False, ds_active := ds_active d + 1\<rparr> in
          case cpu_ready i s of
            (False, s) \<Rightarrow> (d, s)
          | (True, s) \<Rightarrow>
              (d\<lparr>ds_first_runnable := (case ds_first_runnable d of None \<Rightarrow> Some i | Some k \<Rightarrow> Some k),
                 ds_runnable := ds_runnable d + 1\<rparr>, s))"

definition inspect_cpu_dispatch_state :: "soc \<Rightarrow> dispatch_state \<times> soc" where
  "inspect_cpu_dispatch_state s =
    (case fold inspect_cpu [0..<length (so_cpus s)]
       (\<lparr>ds_any_powered_on = False, ds_all_halted = True, ds_active = 0, ds_runnable = 0, ds_first_runnable = None\<rparr>, s) of
       (d, s) \<Rightarrow> (if ds_any_powered_on d then d else d\<lparr>ds_all_halted := False\<rparr>, s))"

definition any_other_cpu_waiting_for_interrupt :: "nat \<Rightarrow> soc \<Rightarrow> bool" where
  "any_other_cpu_waiting_for_interrupt src s \<longleftrightarrow>
    list_ex (\<lambda>(i, c). i \<noteq> src \<and> so_powered_on s ! i \<and> \<not> c_halted c \<and> c_waiting_for_interrupt c)
      (enumerate 0 (so_cpus s))"

section \<open>When the devices are looked at\<close>

definition now1 :: "host_env \<Rightarrow> soc \<Rightarrow> u64" where "now1 host s = env_now1 (host (so_global_steps s))"
definition now2 :: "host_env \<Rightarrow> soc \<Rightarrow> u64" where "now2 host s = env_now2 (host (so_global_steps s))"

definition sync_now :: "host_env \<Rightarrow> soc \<Rightarrow> soc" where
  "sync_now host s = sync_devices (now1 host s) (now2 host s) True s"

definition event_due_now :: "host_env \<Rightarrow> u64 \<Rightarrow> soc \<Rightarrow> bool \<times> soc" where
  "event_due_now host guest_ticks s =
    (if host_clock s then (True, s)
     else if \<not> so_device_sync_valid s \<or> so_schedule_dirty s then (True, s)
     else case next_device_event (now1 host s) guest_ticks s of
            (event, s) \<Rightarrow> (case event of None \<Rightarrow> False | Some t \<Rightarrow> t \<le> guest_ticks, s))"

definition powered_cpus :: "soc \<Rightarrow> soc_devices cpu list" where
  "powered_cpus s = [c. (i, c) \<leftarrow> enumerate 0 (so_cpus s), so_powered_on s ! i \<and> \<not> c_halted c]"

definition deadline_driven_window_needed :: "host_env \<Rightarrow> soc \<Rightarrow> bool \<times> soc" where
  "deadline_driven_window_needed host s =
    (if host_clock s then (True, s)
     else if so_legacy s then (False, s)
     else if powered_cpus s = [] then (False, s)
     else if list_all (\<lambda>c. c_waiting_for_interrupt c \<or> c_waiting_for_event c) (powered_cpus s) then (True, s)
     else
       let guest_ticks = guest_time_ticks s in
       case next_device_event (now1 host s) guest_ticks s of
         (None, s) \<Rightarrow> (False, s)
       | (Some t, s) \<Rightarrow> (if t \<le> guest_ticks then True else t - guest_ticks \<le> 256, s))"

definition maybe_sync_devices :: "host_env \<Rightarrow> soc \<Rightarrow> soc" where
  "maybe_sync_devices host s =
    (if host_clock s \<or> so_legacy s then sync_now host s
     else
       case deadline_driven_window_needed host s of
         (False, s) \<Rightarrow> sync_now host s
       | (True, s) \<Rightarrow>
           if \<not> so_device_sync_valid s \<or> so_schedule_dirty s then sync_now host s
           else (case event_due_now host (guest_time_ticks s) s of
                   (due, s) \<Rightarrow> if due then sync_now host s else s))"

definition fast_forward_to_next_guest_event :: "host_env \<Rightarrow> soc \<Rightarrow> bool \<times> soc" where
  "fast_forward_to_next_guest_event host s =
    (if host_clock s \<or> so_legacy s then (False, s)
     else
       let guest_ticks = guest_time_ticks s in
       case next_device_event (now1 host s) guest_ticks s of
         (None, s) \<Rightarrow> (False, s)
       | (Some t, s) \<Rightarrow>
           if t \<le> guest_ticks then (False, s)
           else (True, sync_now host ((advance_guest_time_to t s)\<lparr>so_device_sync_valid := False\<rparr>)))"

definition compute_run_window :: "host_env \<Rightarrow> u64 \<Rightarrow> u64 \<Rightarrow> bool \<Rightarrow> u64 \<Rightarrow> soc \<Rightarrow> u64 \<times> soc" where
  "compute_run_window host budget cpu_divisor deadline_sensitive guest_ticks s =
    (let chunk = max 1 ((budget + cpu_divisor - 1) div cpu_divisor) in
     if host_clock s then (max 1 (min chunk 2048), s)
     else if so_legacy s then (max 1 (min chunk 65536), s)
     else if \<not> deadline_sensitive then (chunk, s)
     else
       case next_device_event (now1 host s) guest_ticks s of
         (None, s) \<Rightarrow> (max 1 chunk, s)
       | (Some t, s) \<Rightarrow> (max 1 (if t \<le> guest_ticks then 1 else min chunk (t - guest_ticks)), s))"

section \<open>The loops of a machine with one CPU\<close>

datatype loop_exit = Go_On | Return bool

definition count_chunk :: "soc \<Rightarrow> soc" where "count_chunk s = s\<lparr>so_run_chunks := so_run_chunks s + 1\<rparr>"

text \<open>At most the given number of steps; how the loop ended and the steps it made.\<close>
fun run_chunk :: "host_env \<Rightarrow> nat \<Rightarrow> soc \<Rightarrow> loop_exit \<times> nat \<times> soc" where
  "run_chunk host 0 s = (Go_On, 0, s)"
| "run_chunk host (Suc n) s =
    (case cpu_step host 0 s of
       (ok, s) \<Rightarrow>
         let s = advance_guest_time 1 1 s in
         if \<not> ok then
           (if c_halted (so_cpus s ! 0) then (Return True, 1, request_stop s) else (Return False, 1, s))
         else if so_stop_requested s then (Return True, 1, s)
         else if so_schedule_dirty s then (Go_On, 1, s)
         else case run_chunk host n s of (x, k, s) \<Rightarrow> (x, Suc k, s))"

partial_function (option) run_window :: "host_env \<Rightarrow> u64 \<Rightarrow> u64 \<Rightarrow> soc \<Rightarrow> (loop_exit \<times> u64 \<times> soc) option" where
  "run_window host window remaining s =
    (if window = 0 \<or> remaining = 0 \<or> so_stop_requested s then Some (Go_On, remaining, s)
     else
       let r = run_chunk host (unat window) (count_chunk s);
           executed = of_nat (fst (snd r)); s = snd (snd r);
           remaining = remaining - executed; window = window - min window executed
       in if fst r \<noteq> Go_On then Some (fst r, remaining, s)
          else if so_schedule_dirty s then Some (Go_On, remaining, s)
          else run_window host window remaining s)"

partial_function (option) run_single :: "host_env \<Rightarrow> u64 \<Rightarrow> soc \<Rightarrow> (bool \<times> soc) option" where
  "run_single host remaining s =
    (if remaining = 0 \<or> so_stop_requested s then Some (True, sync_now host s)
     else
       let s = maybe_sync_devices host s;
           ready = cpu_ready 0 s;
           forward = (if fst ready then (False, snd ready) else fast_forward_to_next_guest_event host (snd ready))
       in if fst forward then run_single host remaining (snd forward)
          else
            let s = snd forward; guest_ticks = guest_time_ticks s;
                needed = deadline_driven_window_needed host s;
                w = compute_run_window host remaining 1 (fst needed) guest_ticks (snd needed)
            in case run_window host (fst w) remaining (snd w) of
                 None \<Rightarrow> None
               | Some r \<Rightarrow>
                   (case fst r of
                      Return b \<Rightarrow> Some (b, snd (snd r))
                    | Go_On \<Rightarrow> run_single host (fst (snd r)) (snd (snd r))))"

section \<open>The loops of a machine with several CPUs\<close>

text \<open>The only runnable CPU: it stops early when another could become runnable.\<close>
fun run_alone :: "host_env \<Rightarrow> nat \<Rightarrow> bool \<Rightarrow> u64 \<Rightarrow> nat \<Rightarrow> soc \<Rightarrow> loop_exit \<times> nat \<times> soc" where
  "run_alone host i irq_peer epoch 0 s = (Go_On, 0, s)"
| "run_alone host i irq_peer epoch (Suc n) s =
    (case cpu_step host i s of
       (ok, s) \<Rightarrow>
         let s = advance_guest_time 1 1 s; c = so_cpus s ! i in
         if \<not> ok then (if c_halted c then (Go_On, 1, s) else (Return False, 1, s))
         else if so_stop_requested s then (Return True, 1, s)
         else if so_schedule_dirty s \<or> so_runnable_dirty s \<or> c_waiting_for_interrupt c \<or> c_waiting_for_event c
           then (Go_On, 1, s)
         else if irq_peer \<and> gic_epoch (dv_gic (soc_devs s)) \<noteq> epoch then (Go_On, 1, s)
         else case run_alone host i irq_peer epoch n s of (x, k, s) \<Rightarrow> (x, Suc k, s))"

partial_function (option) alone_window ::
  "host_env \<Rightarrow> nat \<Rightarrow> bool \<Rightarrow> u64 \<Rightarrow> u64 \<Rightarrow> soc \<Rightarrow> (loop_exit \<times> u64 \<times> soc) option" where
  "alone_window host i irq_peer window remaining s =
    (if window = 0 \<or> remaining = 0 \<or> so_stop_requested s then Some (Go_On, remaining, s)
     else
       let s = (count_chunk s)\<lparr>so_runnable_dirty := False\<rparr>;
           r = run_alone host i irq_peer (gic_epoch (dv_gic (soc_devs s))) (unat window) s;
           executed = of_nat (fst (snd r)); s = snd (snd r); c = so_cpus s ! i;
           remaining = remaining - executed; window = window - min window executed
       in if fst r \<noteq> Go_On then Some (fst r, remaining, s)
          else if so_schedule_dirty s \<or> so_runnable_dirty s \<or> c_waiting_for_interrupt c \<or> c_waiting_for_event c \<or>
                  c_halted c \<or> executed = 0
            then Some (Go_On, remaining, s)
          else alone_window host i irq_peer window remaining s)"

text \<open>One round over the CPUs: how many were active, the steps made, whether a CPU failed.\<close>
record round_state =
  rn_active :: u64
  rn_executed :: u64
  rn_remaining :: u64
  rn_failed :: bool

fun run_round :: "host_env \<Rightarrow> bool \<Rightarrow> nat list \<Rightarrow> round_state \<Rightarrow> soc \<Rightarrow> round_state \<times> soc" where
  "run_round host poll_waiters [] st s = (st, s)"
| "run_round host poll_waiters (i # is) st s =
    (if rn_remaining st = 0 \<or> so_stop_requested s then (st, s)
     else if \<not> so_powered_on s ! i \<or> c_halted (so_cpus s ! i) then run_round host poll_waiters is st s
     else
       case (if poll_waiters then (True, s) else cpu_ready i s) of
         (False, s) \<Rightarrow> run_round host poll_waiters is st s
       | (True, s) \<Rightarrow>
           (case cpu_step host i s of
              (ok, s) \<Rightarrow>
                let st = st\<lparr>rn_active := rn_active st + 1, rn_executed := rn_executed st + 1,
                            rn_remaining := rn_remaining st - 1\<rparr>
                in if \<not> ok \<and> \<not> c_halted (so_cpus s ! i) then (st\<lparr>rn_failed := True\<rparr>, s)
                   else run_round host poll_waiters is st s))"

fun run_rounds :: "host_env \<Rightarrow> bool \<Rightarrow> nat \<Rightarrow> u64 \<Rightarrow> soc \<Rightarrow> loop_exit \<times> u64 \<times> soc" where
  "run_rounds host poll_waiters 0 remaining s = (Go_On, remaining, s)"
| "run_rounds host poll_waiters (Suc n) remaining s =
    (if remaining = 0 \<or> so_stop_requested s then (Go_On, remaining, s)
     else
       case run_round host poll_waiters [0..<length (so_cpus s)]
              \<lparr>rn_active = 0, rn_executed = 0, rn_remaining = remaining, rn_failed = False\<rparr> s of
         (st, s) \<Rightarrow>
           if rn_failed st then (Return False, rn_remaining st, s)
           else if rn_active st = 0 then
             (case inspect_cpu_dispatch_state s of
                (d, s) \<Rightarrow> (Go_On, rn_remaining st, if ds_all_halted d then request_stop s else s))
           else
             let s = advance_guest_time (rn_executed st) (rn_active st) s in
             if so_schedule_dirty s then (Go_On, rn_remaining st, s)
             else run_rounds host poll_waiters n (rn_remaining st) s)"

definition run_result :: "host_env \<Rightarrow> u64 \<Rightarrow> soc \<Rightarrow> bool \<times> soc" where
  "run_result host remaining s =
    (let s = sync_now host s in (list_all c_halted (so_cpus s) \<or> remaining = 0 \<or> so_stop_requested s, s))"

text \<open>The rounds of the CPUs that may run, or of all that wait when \<open>poll_waiters\<close>.\<close>
definition run_together :: "host_env \<Rightarrow> bool \<Rightarrow> u64 \<Rightarrow> u64 \<Rightarrow> soc \<Rightarrow> loop_exit \<times> u64 \<times> soc" where
  "run_together host poll_waiters runnable remaining s =
    (let s = count_chunk s; guest_ticks = guest_time_ticks s;
         needed = deadline_driven_window_needed host s;
         w = compute_run_window host remaining runnable (fst needed) guest_ticks (snd needed)
     in run_rounds host poll_waiters (unat (fst w)) remaining (snd w))"

partial_function (option) run_many :: "host_env \<Rightarrow> u64 \<Rightarrow> soc \<Rightarrow> (bool \<times> soc) option" where
  "run_many host remaining s =
    (if remaining = 0 \<or> so_stop_requested s then Some (run_result host remaining s)
     else
       let i = inspect_cpu_dispatch_state (maybe_sync_devices host s); d = fst i; s = snd i in
       if ds_runnable d = 0 \<and> ds_all_halted d then Some (run_result host remaining (request_stop s))
       else
         let forward = (if ds_runnable d = 0 then fast_forward_to_next_guest_event host s else (False, s));
             s = snd forward; poll_waiters = (ds_runnable d = 0);
             runnable = (if poll_waiters then ds_active d else ds_runnable d)
         in if fst forward then run_many host remaining s
            else if runnable = 0 then Some (run_result host remaining s)
            else
              let first = (case ds_first_runnable d of None \<Rightarrow> 0 | Some i \<Rightarrow> i);
                  w = compute_run_window host remaining 1 True (guest_time_ticks s) s
              in case (if \<not> poll_waiters \<and> runnable = 1
                       then alone_window host first (any_other_cpu_waiting_for_interrupt first s) (fst w) remaining (snd w)
                       else Some (run_together host poll_waiters runnable remaining s)) of
                   None \<Rightarrow> None
                 | Some r \<Rightarrow>
                     (case fst r of
                        Return b \<Rightarrow> Some (b, snd (snd r))
                      | Go_On \<Rightarrow> run_many host (fst (snd r)) (snd (snd r))))"

definition run :: "host_env \<Rightarrow> u64 \<Rightarrow> soc \<Rightarrow> (bool \<times> soc) option" where
  "run host max_steps s = (if length (so_cpus s) = 1 then run_single host max_steps s else run_many host max_steps s)"

end
