(* ===== verification/Soc_Proofs.thy ===== *)
theory Soc_Proofs
  imports Soc Gic_Proofs
begin

text \<open>
  The interrupt lines of the machine. The controller is seen through an interface, lines that can be driven and
  read; what a client achieves that drives only the lines that moved is proved over the interface, and
  \<open>sync_devices\<close> is shown to be such a client.
\<close>

section \<open>Lines that can be driven\<close>

locale line_sink =
  fixes ok :: "'g \<Rightarrow> bool" and is_line :: "'l \<Rightarrow> bool"
    and drive :: "'l \<Rightarrow> bool \<Rightarrow> 'g \<Rightarrow> 'g" and level :: "'l \<Rightarrow> 'g \<Rightarrow> bool"
  assumes ok_drive: "ok g \<Longrightarrow> is_line l \<Longrightarrow> ok (drive l v g)"
    and level_drive: "ok g \<Longrightarrow> is_line l \<Longrightarrow> is_line m \<Longrightarrow> level m (drive l v g) = (if m = l then v else level m g)"
begin

text \<open>The lines that moved are driven to the level wanted; the others already had it.\<close>
lemma drive_moved:
  assumes "ok g" "\<forall>l \<in> set ls. is_line l"
  shows "ok (fold (\<lambda>l g. if moved l then drive l (want l) g else g) ls g)"
    "is_line m \<Longrightarrow> level m (fold (\<lambda>l g. if moved l then drive l (want l) g else g) ls g) =
      (if m \<in> set ls \<and> moved m then want m else level m g)"
proof -
  have "ok (fold (\<lambda>l g. if moved l then drive l (want l) g else g) ls g) \<and>
    (is_line m \<longrightarrow> level m (fold (\<lambda>l g. if moved l then drive l (want l) g else g) ls g) =
      (if m \<in> set ls \<and> moved m then want m else level m g))"
    using assms
  proof (induction ls arbitrary: g)
    case (Cons l ls)
    let ?g = "if moved l then drive l (want l) g else g"
    have "ok ?g" using Cons.prems ok_drive by simp
    moreover have "is_line m \<Longrightarrow> level m ?g = (if m = l \<and> moved l then want l else level m g)"
      using Cons.prems level_drive by simp
    ultimately show ?case using Cons.IH[of ?g] Cons.prems by auto
  qed simp
  then show "ok (fold (\<lambda>l g. if moved l then drive l (want l) g else g) ls g)"
    "is_line m \<Longrightarrow> level m (fold (\<lambda>l g. if moved l then drive l (want l) g else g) ls g) =
      (if m \<in> set ls \<and> moved m then want m else level m g)" by simp_all
qed

end

section \<open>The controller provides them\<close>

lemma level_step:
  fixes c i d j :: nat and v :: bool
  assumes "gic_wf h" "i < 1024"
  defines "g' \<equiv> (if irq_level_on c i h = v then h
       else if v \<and> \<not> irq_active_on c i (put_level c i v h)
         then put_pending c i True (put_level c i v h) else put_level c i v h)"
  shows "gic_wf g'" "local_index d g' = local_index d h"
    "j < 1024 \<Longrightarrow> irq_level_on d j g' = (if same_irq h c i d j then v else irq_level_on d j h)"
proof -
  show "gic_wf g'" "local_index d g' = local_index d h"
    using assms(1,2) by (auto simp: g'_def put_level_fields put_pending_fields)
  show "irq_level_on d j g' = (if same_irq h c i d j then v else irq_level_on d j h)" if "j < 1024"
    using assms(1,2) that same_irq_eq(1)[of h c i d j]
    by (auto simp: g'_def put_level_fields put_pending_fields)
qed

text \<open>An interrupt of one CPU is driven there, a shared one by its number alone.\<close>
definition drive_line :: "nat \<times> nat \<Rightarrow> bool \<Rightarrow> gic \<Rightarrow> gic" where
  "drive_line l v = (if snd l < 32 then set_level_on (fst l) (snd l) v else set_level (snd l) v)"

definition gic_line :: "nat \<times> nat \<Rightarrow> gic \<Rightarrow> bool" where "gic_line l = irq_level_on (fst l) (snd l)"

definition is_line :: "nat \<Rightarrow> nat \<times> nat \<Rightarrow> bool" where
  "is_line n l \<longleftrightarrow> snd l < 1024 \<and> (if snd l < 32 then fst l < n else fst l = 0)"

lemma drive_line_eq:
  assumes "snd l < 1024"
  shows "drive_line l v g = (let c = fst l; i = snd l; h = count_set_level g in
      if irq_level_on c i h = v then h
      else if v \<and> \<not> irq_active_on c i (put_level c i v h)
        then put_pending c i True (put_level c i v h) else put_level c i v h)"
proof (cases "snd l < 32")
  case True
  then have "is_local_intid (snd l)" by (simp add: is_local_intid_def gic_constants)
  then show ?thesis using True assms by (cases v) (simp_all add: drive_line_def set_level_on_eq Let_def)
next
  case False
  then have "\<not> is_local_intid (snd l)" by (simp add: is_local_intid_def gic_constants)
  then show ?thesis
    using False assms
    by (cases v) (simp_all add: drive_line_def set_level_def set_spi_level_def Let_def put_level_def put_pending_def
        irq_level_on_def irq_active_on_def gic_constants spi_index_def)
qed

lemma gic_locals_index: "gic_wf g \<Longrightarrow> n = length (gic_locals g) \<Longrightarrow> c < n \<Longrightarrow> local_index c g = c"
  by (simp add: local_index_def)

text \<open>A machine whose controller serves \<open>n\<close> CPUs: each has its own line index.\<close>
definition gic_serves :: "nat \<Rightarrow> gic \<Rightarrow> bool" where
  "gic_serves n g \<longleftrightarrow> gic_wf g \<and> (\<forall>c<n. local_index c g = c)"

interpretation gic_lines: line_sink "gic_serves n" "is_line n" drive_line gic_line for n
proof
  fix g :: gic and l m :: "nat \<times> nat" and v :: bool
  assume g: "gic_serves n g" and l: "is_line n l"
  have i: "snd l < 1024" using l by (simp add: is_line_def)
  have wf: "gic_wf (count_set_level g)" using g by (simp add: gic_serves_def)
  note s = level_step[OF wf i, where c = "fst l" and v = v]
  show "gic_serves n (drive_line l v g)"
    using g s(1,2) by (simp add: gic_serves_def drive_line_eq[OF i] Let_def)
  assume m: "is_line n m"
  have "same_irq g (fst l) (snd l) (fst m) (snd m) = (m = l)"
    using g l m by (auto simp: same_irq_def is_line_def gic_serves_def prod_eq_iff split: if_splits)
  then show "gic_line m (drive_line l v g) = (if m = l then v else gic_line m g)"
    using s(3)[where j = "snd m" and d = "fst m"] m by (simp add: drive_line_eq[OF i] gic_line_def Let_def is_line_def)
qed

section \<open>The lines of the machine\<close>

text \<open>The level a device asserts on a line, and the one the machine remembers to have driven.\<close>
definition device_line :: "nat \<times> nat \<Rightarrow> soc_devices \<Rightarrow> bool" where
  "device_line l d =
    (if snd l = kTimerVirtIntId then timer_irq_pending (dv_timer d) \<or> irq_pending_virtual (fst l) (dv_timer d)
     else if snd l = kTimerPhysIntId then irq_pending_physical (fst l) (dv_timer d)
     else if snd l = kUartIntId then uart_irq_pending (sd_uart d)
     else if snd l = kKmiIntId then kmi_irq_pending (sd_kmi d)
     else if snd l = kVirtioBlkIntId then vblk_irq_pending (sd_blk d)
     else vnet_irq_pending (sd_net d))"

definition cached_line :: "nat \<times> nat \<Rightarrow> soc \<Rightarrow> bool" where
  "cached_line l s =
    (if snd l = kTimerVirtIntId then so_last_virt s ! fst l
     else if snd l = kTimerPhysIntId then so_last_phys s ! fst l
     else if snd l = kUartIntId then so_last_uart s
     else if snd l = kKmiIntId then so_last_kmi s
     else if snd l = kVirtioBlkIntId then so_last_blk s
     else so_last_net s)"

definition cache_line :: "nat \<times> nat \<Rightarrow> bool \<Rightarrow> soc \<Rightarrow> soc" where
  "cache_line l v s =
    (if snd l = kTimerVirtIntId then s\<lparr>so_last_virt := (so_last_virt s)[fst l := v]\<rparr>
     else if snd l = kTimerPhysIntId then s\<lparr>so_last_phys := (so_last_phys s)[fst l := v]\<rparr>
     else if snd l = kUartIntId then s\<lparr>so_last_uart := v\<rparr>
     else if snd l = kKmiIntId then s\<lparr>so_last_kmi := v\<rparr>
     else if snd l = kVirtioBlkIntId then s\<lparr>so_last_blk := v\<rparr>
     else s\<lparr>so_last_net := v\<rparr>)"

definition timer_lines :: "nat \<Rightarrow> (nat \<times> nat) list" where
  "timer_lines i = [(i, kTimerVirtIntId), (i, kTimerPhysIntId)]"

definition shared_lines :: "(nat \<times> nat) list" where
  "shared_lines = [(0, kUartIntId), (0, kKmiIntId), (0, kVirtioBlkIntId), (0, kVirtioNetIntId)]"

definition soc_lines :: "nat \<Rightarrow> (nat \<times> nat) list" where
  "soc_lines n = concat (map timer_lines [0..<n]) @ shared_lines"

lemmas line_ids = kTimerVirtIntId_def kTimerPhysIntId_def kUartIntId_def kKmiIntId_def kVirtioBlkIntId_def kVirtioNetIntId_def

definition push_line :: "nat \<times> nat \<Rightarrow> soc \<Rightarrow> soc" where
  "push_line l s =
    (let v = device_line l (soc_devs s) in
     if line_moved s v (cached_line l s) then cache_line l v (soc_gic (drive_line l v) s) else s)"

lemma on_devices_fields [simp]:
  "soc_devs (soc_gic f s) = (soc_devs s)\<lparr>dv_gic := f (dv_gic (soc_devs s))\<rparr>"
  "so_last_virt (soc_gic f s) = so_last_virt s" "so_last_phys (soc_gic f s) = so_last_phys s"
  "so_last_uart (soc_gic f s) = so_last_uart s" "so_last_kmi (soc_gic f s) = so_last_kmi s"
  "so_last_blk (soc_gic f s) = so_last_blk s" "so_last_net (soc_gic f s) = so_last_net s"
  "so_device_sync_valid (soc_gic f s) = so_device_sync_valid s" "so_cpus (soc_gic f s) = so_cpus s"
  by (simp_all add: soc_gic_def on_devices_def)

lemma device_line_gic [simp]: "device_line l (d\<lparr>dv_gic := g\<rparr>) = device_line l d"
  by (simp add: device_line_def)

lemma cached_lines:
  "cached_line (c, 27) s = so_last_virt s ! c" "cached_line (c, 30) s = so_last_phys s ! c"
  "cached_line (c, 33) s = so_last_uart s" "cached_line (c, 34) s = so_last_kmi s"
  "cached_line (c, 35) s = so_last_blk s" "cached_line (c, 36) s = so_last_net s"
  by (simp_all add: cached_line_def line_ids)

lemma cache_lines:
  "cache_line (c, 27) v s = s\<lparr>so_last_virt := (so_last_virt s)[c := v]\<rparr>"
  "cache_line (c, 30) v s = s\<lparr>so_last_phys := (so_last_phys s)[c := v]\<rparr>"
  "cache_line (c, 33) v s = s\<lparr>so_last_uart := v\<rparr>" "cache_line (c, 34) v s = s\<lparr>so_last_kmi := v\<rparr>"
  "cache_line (c, 35) v s = s\<lparr>so_last_blk := v\<rparr>" "cache_line (c, 36) v s = s\<lparr>so_last_net := v\<rparr>"
  by (simp_all add: cache_line_def line_ids)

lemma device_lines:
  "device_line (c, 27) d = (timer_irq_pending (dv_timer d) \<or> irq_pending_virtual c (dv_timer d))"
  "device_line (c, 30) d = irq_pending_physical c (dv_timer d)"
  "device_line (c, 33) d = uart_irq_pending (sd_uart d)" "device_line (c, 34) d = kmi_irq_pending (sd_kmi d)"
  "device_line (c, 35) d = vblk_irq_pending (sd_blk d)" "device_line (c, 36) d = vnet_irq_pending (sd_net d)"
  by (simp_all add: device_line_def line_ids)

lemma drive_lines:
  "drive_line (c, 27) v = set_level_on c 27 v" "drive_line (c, 30) v = set_level_on c 30 v"
  "drive_line (c, 33) v = set_level 33 v" "drive_line (c, 34) v = set_level 34 v"
  "drive_line (c, 35) v = set_level 35 v" "drive_line (c, 36) v = set_level 36 v"
  by (simp_all add: drive_line_def)

lemmas push_defs = push_line_def device_lines cached_lines cache_lines drive_lines line_ids on_devices_fields Let_def

lemma sync_shared_push:
  "sync_uart_line = push_line (0, 33)" "sync_kmi_line = push_line (0, 34)"
  "sync_blk_line = push_line (0, 35)" "sync_net_line = push_line (0, 36)"
  by (rule ext, simp only: push_defs sync_uart_line_def sync_kmi_line_def sync_blk_line_def sync_net_line_def)+

lemma sync_timer_push: "sync_timer_lines i s = push_line (i, 30) (push_line (i, 27) s)"
proof -
  let ?s = "push_line (i, 27) s"
  have "irq_pending_physical i (dv_timer (soc_devs ?s)) = irq_pending_physical i (dv_timer (soc_devs s))"
    by (simp add: push_line_def cache_lines Let_def)
  then have "push_line (i, 30) ?s = (let phys_level = irq_pending_physical i (dv_timer (soc_devs s)) in
      if line_moved ?s phys_level (so_last_phys ?s ! i)
      then (soc_gic (set_level_on i 30 phys_level) ?s)\<lparr>so_last_phys := (so_last_phys ?s)[i := phys_level]\<rparr> else ?s)"
    by (simp only: push_line_def[of "(i, 30)"] device_lines cached_lines cache_lines drive_lines on_devices_fields Let_def)
  moreover have "?s = (let virt_level = timer_irq_pending (dv_timer (soc_devs s)) \<or> irq_pending_virtual i (dv_timer (soc_devs s)) in
      if line_moved s virt_level (so_last_virt s ! i)
      then (soc_gic (set_level_on i 27 virt_level) s)\<lparr>so_last_virt := (so_last_virt s)[i := virt_level]\<rparr> else s)"
    by (simp only: push_line_def device_lines cached_lines cache_lines drive_lines on_devices_fields Let_def)
  ultimately show ?thesis by (simp only: sync_timer_lines_def line_ids Let_def)
qed

lemma sync_as_push:
  "sync_timer_lines i = fold push_line (timer_lines i)"
  "sync_net_line (sync_blk_line (sync_kmi_line (sync_uart_line s))) = fold push_line shared_lines s"
  by (rule ext) (simp_all add: sync_timer_push sync_shared_push timer_lines_def shared_lines_def line_ids)

lemma sync_all_lines:
  "sync_net_line (sync_blk_line (sync_kmi_line (sync_uart_line (fold sync_timer_lines [0..<n] s)))) =
    fold push_line (soc_lines n) s"
proof -
  have "fold sync_timer_lines is = fold push_line (concat (map timer_lines is))" for "is"
    by (induction "is") (simp_all add: sync_as_push(1))
  then show ?thesis by (simp add: sync_as_push(2) soc_lines_def)
qed

definition known_line :: "soc \<Rightarrow> nat \<times> nat \<Rightarrow> bool" where
  "known_line s l \<longleftrightarrow> l \<in> set (soc_lines (length (so_cpus s))) \<and>
    length (so_last_virt s) = length (so_cpus s) \<and> length (so_last_phys s) = length (so_cpus s)"

definition line_shape :: "nat \<Rightarrow> nat \<times> nat \<Rightarrow> bool" where
  "line_shape n l \<longleftrightarrow> fst l < n \<and> snd l = 27 \<or> fst l < n \<and> snd l = 30 \<or> fst l = 0 \<and> snd l = 33 \<or>
    fst l = 0 \<and> snd l = 34 \<or> fst l = 0 \<and> snd l = 35 \<or> fst l = 0 \<and> snd l = 36"

lemma line_shape_cases:
  assumes "line_shape n l"
  obtains c where "l = (c, 27)" "c < n" | c where "l = (c, 30)" "c < n" | "l = (0, 33)" | "l = (0, 34)" | "l = (0, 35)"
    | "l = (0, 36)"
  using assms by (cases l) (auto simp: line_shape_def)

lemma line_shapes: "l \<in> set (soc_lines n) \<Longrightarrow> line_shape n l"
  unfolding soc_lines_def timer_lines_def shared_lines_def line_ids line_shape_def set_append set_concat set_map set_upt
    list.set
  by (elim UnE UN_E insertE emptyE imageE) auto

lemma push_line_fields:
  assumes "known_line s l" "known_line s m"
  shows "cached_line m (push_line l s) = (if m = l then device_line l (soc_devs s) else cached_line m s)"
    "dv_gic (soc_devs (push_line l s)) =
      (if line_moved s (device_line l (soc_devs s)) (cached_line l s)
       then drive_line l (device_line l (soc_devs s)) (dv_gic (soc_devs s)) else dv_gic (soc_devs s))"
    "device_line k (soc_devs (push_line l s)) = device_line k (soc_devs s)"
    "so_device_sync_valid (push_line l s) = so_device_sync_valid s" "so_cpus (push_line l s) = so_cpus s"
    "known_line (push_line l s) = known_line s"
proof -
  have d: "soc_devs (cache_line l v t) = soc_devs t" "so_device_sync_valid (cache_line l v t) = so_device_sync_valid t"
    "so_cpus (cache_line l v t) = so_cpus t" for v t
    by (simp_all add: cache_line_def)
  show "dv_gic (soc_devs (push_line l s)) =
      (if line_moved s (device_line l (soc_devs s)) (cached_line l s)
       then drive_line l (device_line l (soc_devs s)) (dv_gic (soc_devs s)) else dv_gic (soc_devs s))"
    "device_line k (soc_devs (push_line l s)) = device_line k (soc_devs s)"
    "so_device_sync_valid (push_line l s) = so_device_sync_valid s" "so_cpus (push_line l s) = so_cpus s"
    by (simp_all add: push_line_def d Let_def)
  show "known_line (push_line l s) = known_line s"
    by (rule ext) (simp add: known_line_def push_line_def cache_line_def Let_def)
  have "cached_line m (cache_line l v (soc_gic f s)) = (if m = l then v else cached_line m s)" for v f
  proof -
    have len: "length (so_last_virt s) = length (so_cpus s)" "length (so_last_phys s) = length (so_cpus s)"
      using assms by (simp_all add: known_line_def)
    have "line_shape (length (so_cpus s)) l" "line_shape (length (so_cpus s)) m"
      using assms line_shapes by (simp_all add: known_line_def)
    then show ?thesis
      using len by (elim line_shape_cases) (simp_all add: cached_lines cache_lines nth_list_update)
  qed
  then show "cached_line m (push_line l s) = (if m = l then device_line l (soc_devs s) else cached_line m s)"
    by (cases "m = l") (auto simp add: push_line_def Let_def line_moved_def)
qed

lemma push_all_lines:
  assumes "distinct ls" "\<forall>l \<in> set ls. known_line s l"
  defines "want \<equiv> \<lambda>l. device_line l (soc_devs s)"
    and "moved \<equiv> \<lambda>l. line_moved s (device_line l (soc_devs s)) (cached_line l s)"
  shows "dv_gic (soc_devs (fold push_line ls s)) =
      fold (\<lambda>l g. if moved l then drive_line l (want l) g else g) ls (dv_gic (soc_devs s))"
    "device_line k (soc_devs (fold push_line ls s)) = device_line k (soc_devs s)"
    "so_cpus (fold push_line ls s) = so_cpus s" "known_line (fold push_line ls s) = known_line s"
    "known_line s m \<Longrightarrow> cached_line m (fold push_line ls s) = (if m \<in> set ls then want m else cached_line m s)"
  using assms(1,2) unfolding want_def moved_def
proof (induction ls arbitrary: s)
  case (Cons l ls)
  {
    case 1
    note f = push_line_fields[of s l]
    have k: "known_line s l" using 1 by simp
    have c: "cached_line m (push_line l s) = cached_line m s" if "m \<in> set ls" for m
      using that 1 f(1)[OF k, of m] by auto
    have "fold (\<lambda>m g. if line_moved (push_line l s) (device_line m (soc_devs (push_line l s))) (cached_line m (push_line l s))
          then drive_line m (device_line m (soc_devs (push_line l s))) g else g) ls g =
        fold (\<lambda>m g. if line_moved s (device_line m (soc_devs s)) (cached_line m s)
          then drive_line m (device_line m (soc_devs s)) g else g) ls g" for g
      by (rule fold_cong[OF refl refl]) (simp add: c f[OF k k] line_moved_def fun_eq_iff)
    then show ?case using Cons.IH(1)[of "push_line l s"] 1 f[OF k k] by simp
  next
    case 2
    then show ?case using Cons.IH(2)[of "push_line l s"] push_line_fields[of s l l] by simp
  next
    case 3
    then show ?case using Cons.IH(3)[of "push_line l s"] push_line_fields[of s l l] by simp
  next
    case 4
    then show ?case using Cons.IH(4)[of "push_line l s"] push_line_fields[of s l l] by simp
  next
    case 5
    then show ?case using Cons.IH(5)[of "push_line l s"] push_line_fields[of s l m] push_line_fields[of s l l] by auto
  }
qed simp_all

section \<open>The lines follow the devices\<close>

text \<open>The controller serves every CPU, and what the machine remembers is what the controller has.\<close>
definition soc_lines_ok :: "soc \<Rightarrow> bool" where
  "soc_lines_ok s \<longleftrightarrow> gic_serves (length (so_cpus s)) (dv_gic (soc_devs s)) \<and> so_cpus s \<noteq> [] \<and>
    length (so_last_virt s) = length (so_cpus s) \<and> length (so_last_phys s) = length (so_cpus s) \<and>
    (so_device_sync_valid s \<longrightarrow>
      (\<forall>l \<in> set (soc_lines (length (so_cpus s))). gic_line l (dv_gic (soc_devs s)) = cached_line l s))"

lemma distinct_soc_lines: "distinct (soc_lines n)"
proof -
  have "distinct (concat (map timer_lines is))" if "distinct is" for "is"
    using that by (induction "is") (auto simp: timer_lines_def line_ids)
  then show ?thesis by (auto simp: soc_lines_def shared_lines_def timer_lines_def line_ids)
qed

lemma soc_lines_valid: "l \<in> set (soc_lines n) \<Longrightarrow> is_line n l"
  using line_shapes[of l n] by (auto simp: is_line_def line_shape_def)

lemma push_all_ok:
  assumes "soc_lines_ok s"
  defines "s' \<equiv> fold push_line (soc_lines (length (so_cpus s))) s"
  shows "gic_serves (length (so_cpus s)) (dv_gic (soc_devs s'))"
    "l \<in> set (soc_lines (length (so_cpus s))) \<Longrightarrow> gic_line l (dv_gic (soc_devs s')) = device_line l (soc_devs s')"
    "l \<in> set (soc_lines (length (so_cpus s))) \<Longrightarrow> cached_line l s' = device_line l (soc_devs s')"
    "so_cpus s' = so_cpus s" "known_line s' = known_line s"
proof -
  let ?n = "length (so_cpus s)"
  have k: "\<forall>l \<in> set (soc_lines ?n). known_line s l" using assms(1) by (simp add: known_line_def soc_lines_ok_def)
  note p = push_all_lines[OF distinct_soc_lines k]
  have g: "gic_serves ?n (dv_gic (soc_devs s))" using assms(1) by (simp add: soc_lines_ok_def)
  have v: "\<forall>l \<in> set (soc_lines ?n). is_line ?n l" using soc_lines_valid by blast
  show "gic_serves ?n (dv_gic (soc_devs s'))" unfolding s'_def p(1) by (rule gic_lines.drive_moved(1)[OF g v])
  show "so_cpus s' = so_cpus s" "known_line s' = known_line s" using p(3,4) by (simp_all add: s'_def)
  show "cached_line l s' = device_line l (soc_devs s')" if "l \<in> set (soc_lines ?n)"
    using that k p(2,5) by (simp add: s'_def)
  show "gic_line l (dv_gic (soc_devs s')) = device_line l (soc_devs s')" if l: "l \<in> set (soc_lines ?n)"
  proof (cases "line_moved s (device_line l (soc_devs s)) (cached_line l s)")
    case True
    then show ?thesis using l gic_lines.drive_moved(2)[OF g v] v unfolding s'_def p(1,2) by simp
  next
    case False
    then have "gic_line l (dv_gic (soc_devs s)) = device_line l (soc_devs s)"
      using assms(1) l by (simp add: line_moved_def soc_lines_ok_def)
    then show ?thesis using False l gic_lines.drive_moved(2)[OF g v] v unfolding s'_def p(1,2) by simp
  qed
qed

definition sync_timer :: "u64 \<Rightarrow> u64 \<Rightarrow> bool \<Rightarrow> soc \<Rightarrow> soc" where
  "sync_timer t1 t2 force_timer_sync s =
    (let s = s\<lparr>so_sync_devices := so_sync_devices s + 1\<rparr>; guest_ticks = guest_time_ticks s in
     if force_timer_sync \<or> \<not> so_device_sync_valid s \<or> so_device_sync_guest_ticks s \<noteq> guest_ticks
     then (observe_since (device_notifications s) (soc_timer (sync_to_steps guest_ticks t1 t2) s))
            \<lparr>so_device_sync_guest_ticks := guest_ticks\<rparr>
     else s)"

lemma sync_timer_ok: "soc_lines_ok s \<Longrightarrow> soc_lines_ok (sync_timer t1 t2 f s) \<and> so_cpus (sync_timer t1 t2 f s) = so_cpus s"
proof -
  assume ok: "soc_lines_ok s"
  have c: "cached_line l (t\<lparr>so_sync_devices := n\<rparr>) = cached_line l t"
    "cached_line l (t\<lparr>so_device_sync_guest_ticks := m\<rparr>) = cached_line l t"
    "cached_line l (soc_timer g t) = cached_line l t" for l t n m g
    by (simp_all add: cached_line_def soc_timer_def on_devices_def)
  have keep: "soc_lines_ok (t\<lparr>so_sync_devices := n\<rparr>) = soc_lines_ok t"
    "soc_lines_ok (t\<lparr>so_device_sync_guest_ticks := m\<rparr>) = soc_lines_ok t"
    "soc_lines_ok (soc_timer g t) = soc_lines_ok t"
    "soc_lines_ok t \<Longrightarrow> soc_lines_ok (invalidate_device_schedule t)" for t n m g
    unfolding soc_lines_ok_def c
    by (simp_all add: soc_timer_def on_devices_def invalidate_device_schedule_def)
  have "so_cpus (soc_timer g t) = so_cpus t" "so_cpus (invalidate_device_schedule t) = so_cpus t" for g t
    by (simp_all add: soc_timer_def on_devices_def invalidate_device_schedule_def)
  then show ?thesis using ok keep by (simp add: sync_timer_def observe_since_def Let_def)
qed

lemma sync_devices_eq:
  "sync_devices t1 t2 f s =
    (let s1 = sync_timer t1 t2 f s in fold push_line (soc_lines (length (so_cpus s1))) s1)
      \<lparr>so_device_sync_valid := True, so_schedule_valid := False, so_schedule_dirty := False, so_next_event := None\<rparr>"
  unfolding sync_devices_def sync_timer_def Let_def sync_all_lines ..

text \<open>
  C16. When the machine looks at its devices, every interrupt line of the controller takes the level its
  device asserts at that moment: the two timer lines of every CPU and the lines of the UART, the keyboard, the
  block device and the network device, although only the lines that moved since the last time are driven. What
  the machine remembers of the lines then agrees with the controller, so the next time can rely on it.
\<close>
theorem interrupt_lines_follow_devices:
  assumes "soc_lines_ok s"
  shows "soc_lines_ok (sync_devices t1 t2 f s) \<and>
    (\<forall>l \<in> set (soc_lines (length (so_cpus s))).
      gic_line l (dv_gic (soc_devs (sync_devices t1 t2 f s))) = device_line l (soc_devs (sync_devices t1 t2 f s)))"
proof -
  let ?s = "sync_timer t1 t2 f s"
  let ?p = "fold push_line (soc_lines (length (so_cpus s))) ?s"
  have s: "soc_lines_ok ?s" "so_cpus ?s = so_cpus s" using sync_timer_ok[OF assms] by simp_all
  note p = push_all_ok[OF s(1), unfolded s(2)]
  have e: "sync_devices t1 t2 f s =
      ?p\<lparr>so_device_sync_valid := True, so_schedule_valid := False, so_schedule_dirty := False, so_next_event := None\<rparr>"
    by (simp add: sync_devices_eq Let_def s(2))
  have c: "cached_line l (t\<lparr>so_device_sync_valid := a, so_schedule_valid := b, so_schedule_dirty := d, so_next_event := e\<rparr>) =
      cached_line l t" for l t a b d e
    by (simp add: cached_line_def)
  have "known_line ?p (0, 33) = known_line ?s (0, 33)" using p(5) by simp
  then have "length (so_last_virt ?p) = length (so_cpus s) \<and> length (so_last_phys ?p) = length (so_cpus s)"
    using s p(4) by (simp add: known_line_def soc_lines_ok_def soc_lines_def shared_lines_def line_ids)
  then have "soc_lines_ok (sync_devices t1 t2 f s)"
    using assms p(1-4) by (simp add: soc_lines_ok_def e c)
  then show ?thesis using p(2) by (simp add: e)
qed

text \<open>A machine of one CPU with a new controller, whose lines were never driven.\<close>
definition fresh_lines :: "soc_devices cpu \<Rightarrow> soc \<Rightarrow> soc" where
  "fresh_lines c s = soc_gic (\<lambda>_. gic_new) (s\<lparr>so_cpus := [c], so_last_virt := [False], so_last_phys := [False],
    so_device_sync_valid := False\<rparr>)"

theorem interrupt_lines_follow_devices_witness:
  "\<forall>c s. gic_line (0, 33) (dv_gic (soc_devs (sync_devices 0 0 True (fresh_lines c s)))) =
    device_line (0, 33) (soc_devs (sync_devices 0 0 True (fresh_lines c s)))"
proof (intro allI)
  fix c s
  have "gic_wf gic_new"
    by (simp add: gic_wf_def gic_new_def set_cpu_count_def Let_def local_wf_def new_local_def gic_constants)
  then have "soc_lines_ok (fresh_lines c s)"
    by (simp add: soc_lines_ok_def gic_serves_def fresh_lines_def local_index_def)
  moreover have "(0, 33) \<in> set (soc_lines (length (so_cpus (fresh_lines c s))))"
    by (simp add: soc_lines_def shared_lines_def line_ids)
  ultimately show "gic_line (0, 33) (dv_gic (soc_devs (sync_devices 0 0 True (fresh_lines c s)))) =
      device_line (0, 33) (soc_devs (sync_devices 0 0 True (fresh_lines c s)))"
    using interrupt_lines_follow_devices[of "fresh_lines c s" 0 0 True] by blast
qed

end
