(* ===== verification/Cpu_Fp_Proofs.thy ===== *)
theory Cpu_Fp_Proofs
  imports Complex_Main Cpu_Fp_Arith Cpu_Fp_Convert
begin

text \<open>
  Properties of the floating-point helpers: the class \<open>BigUInt\<close> against the natural numbers and the
  tests for tininess before rounding against the real values of the operands.
\<close>

section \<open>The leading bit\<close>

lemma takeWhile_rev_upt:
  assumes "i < n" "\<not> P i" "k = n - 1 - length (takeWhile P (rev [0..<n]))"
  shows "k < n \<and> \<not> P k \<and> (\<forall>j. k < j \<and> j < n \<longrightarrow> P j)"
proof -
  let ?t = "takeWhile P (rev [0..<n])"
  have "takeWhile P (rev [0..<n]) \<noteq> rev [0..<n]" using assms(1,2) by (auto simp: takeWhile_eq_all_conv)
  then have l: "length ?t < n"
    using length_takeWhile_le [of P "rev [0..<n]"]
    by (metis length_rev length_upt minus_nat.diff_0 nat_less_le takeWhile_eq_take take_all_iff)
  have at: "rev [0..<n] ! m = n - 1 - m" if "m < n" for m using that by (simp add: rev_nth)
  have "\<not> P k" using nth_length_takeWhile [of P "rev [0..<n]"] l at assms(3) by simp
  moreover have "P j" if "k < j" "j < n" for j
  proof -
    have "n - 1 - j < length ?t" using that assms(3) l by linarith
    then have "P (?t ! (n - 1 - j))" by (metis nth_mem set_takeWhileD)
    then show ?thesis using takeWhile_nth [OF \<open>n - 1 - j < length ?t\<close>] at [of "n - 1 - j"] that by simp
  qed
  ultimately show ?thesis using l assms(3) by simp
qed

lemma unat_between_bits:
  fixes w :: "'a::len word"
  assumes "bit w k" "\<forall>j. k < j \<and> j < LENGTH('a) \<longrightarrow> \<not> bit w j"
  shows "2 ^ k \<le> unat w \<and> unat w < 2 ^ (k + 1)"
proof
  have "bit (unat w) k" using assms(1) by (simp add: bit_simps)
  then have "odd (unat w div 2 ^ k)" by (simp add: bit_iff_odd)
  then show "2 ^ k \<le> unat w" by (metis div_less even_zero not_le)
  have "take_bit (k + 1) w = w" using assms(2) by (intro bit_word_eqI) (auto simp: bit_simps, metis less_Suc_eq_le not_less)
  then have "unat w = take_bit (k + 1) (unat w)" by (metis unsigned_take_bit_eq)
  then show "unat w < 2 ^ (k + 1)" by (metis take_bit_nat_less_exp)
qed

lemma leading_bit:
  fixes w :: "'a::len word"
  assumes "w \<noteq> 0" "k = LENGTH('a) - 1 - length (takeWhile (\<lambda>i. \<not> bit w i) (rev [0..<LENGTH('a)]))"
  shows "k < LENGTH('a) \<and> 2 ^ k \<le> unat w \<and> unat w < 2 ^ (k + 1)"
proof -
  obtain i where "i < LENGTH('a)" "bit w i" using assms(1) using bit_word_eqI [of w 0] by auto
  then have "k < LENGTH('a) \<and> \<not> \<not> bit w k \<and> (\<forall>j. k < j \<and> j < LENGTH('a) \<longrightarrow> \<not> bit w j)"
    using takeWhile_rev_upt [of i "LENGTH('a)" "\<lambda>i. \<not> bit w i" k] assms(2) by blast
  then show ?thesis using unat_between_bits [of w k] by blast
qed

lemma big_msb_index_val:
  assumes "big_wf xs" "xs \<noteq> []"
  shows "2 ^ big_msb_index xs \<le> big_val xs \<and> big_val xs < 2 ^ (big_msb_index xs + 1)"
proof -
  let ?n = "length xs - 1" and ?w = "last xs"
  define k where "k = 31 - length (takeWhile (\<lambda>i. \<not> bit ?w i) (rev [0..<32]))"
  have "?w \<noteq> 0" using assms by (simp add: big_wf_def)
  then have k: "2 ^ k \<le> unat ?w" "unat ?w < 2 ^ (k + 1)"
    using leading_bit [of ?w k] by (simp_all add: k_def)
  have m: "big_msb_index xs = 32 * ?n + k" by (simp add: big_msb_index_def k_def)
  have v: "big_val xs = big_val (butlast xs) + 2 ^ (32 * ?n) * unat ?w"
    using big_val_append [of "butlast xs" "[?w]"] assms(2) by simp
  have b: "big_val (butlast xs) < 2 ^ (32 * ?n)" using big_val_bound [of "butlast xs"] by simp
  have "2 ^ big_msb_index xs = 2 ^ (32 * ?n) * (2 :: nat) ^ k" by (simp only: m power_add)
  also have "\<dots> \<le> 2 ^ (32 * ?n) * unat ?w" using k(1) by simp
  also have "\<dots> \<le> big_val xs" using v by simp
  finally have lo: "2 ^ big_msb_index xs \<le> big_val xs" .
  have "big_val xs < 2 ^ (32 * ?n) * (unat ?w + 1)" using v b by simp
  also have "\<dots> \<le> 2 ^ (32 * ?n) * 2 ^ (k + 1)" using k(2) by (intro mult_le_mono2) simp
  also have "\<dots> = 2 ^ (big_msb_index xs + 1)" by (simp only: m power_add [symmetric] add.assoc)
  finally show ?thesis using lo by blast
qed

section \<open>Tininess before rounding\<close>

text \<open>The real number that a finite pattern stands for.\<close>
definition fp_real :: "'a::len word \<Rightarrow> real" where
  "fp_real b = real_of_int (signed_mag (fp_is_negative b) (fp_mantissa b)) * 2 powi fp_exponent b"

definition fp_finite :: "'a::len word \<Rightarrow> bool" where
  "fp_finite b \<longleftrightarrow> unat (fp_exp_field b) \<noteq> 2 ^ fp_exp_bits_count TYPE('a) - 1"

text \<open>What an operand of the tests stands for.\<close>
definition ev_real :: "exact_fp_value \<Rightarrow> real" where
  "ev_real v = real_of_int (signed_mag (ev_negative v) (big_val (ev_magnitude v))) * 2 powi ev_exp2 v"

definition ev_wf :: "exact_fp_value \<Rightarrow> bool" where
  "ev_wf v \<longleftrightarrow> big_wf (ev_magnitude v) \<and> (ev_zero v \<longleftrightarrow> ev_magnitude v = [])"

lemma unat_ucast_u64: "LENGTH('a) \<le> 64 \<Longrightarrow> unat (ucast (w :: 'a::len word) :: u64) = unat w"
  using order_less_le_trans [OF unsigned_less [of w] power_increasing [of "LENGTH('a)" 64 "2 :: nat"]]
  by (simp add: unsigned_ucast_eq take_bit_nat_eq_self)

lemma exact_value:
  fixes b :: "'a::len word"
  assumes "LENGTH('a) \<le> 64"
  shows "ev_finite (fp_exact_value_bits b) \<longleftrightarrow> fp_finite b"
    and "ev_negative (fp_exact_value_bits b) \<longleftrightarrow> fp_is_negative b"
    and "ev_wf (fp_exact_value_bits b)"
    and "fp_finite b \<Longrightarrow> ev_real (fp_exact_value_bits b) = fp_real b"
    and "fp_finite b \<Longrightarrow> ev_zero (fp_exact_value_bits b) \<longleftrightarrow> fp_mantissa b = 0"
    and "fp_finite b \<Longrightarrow> \<not> ev_zero (fp_exact_value_bits b) \<Longrightarrow> big_val (ev_magnitude (fp_exact_value_bits b)) = fp_mantissa b"
    and "fp_finite b \<Longrightarrow> \<not> ev_zero (fp_exact_value_bits b) \<Longrightarrow> ev_exp2 (fp_exact_value_bits b) = fp_exponent b"
proof -
  let ?v = "fp_exact_value_bits b"
  have z: "unat (fp_exp_field b) = 0 \<longleftrightarrow> fp_exp_field b = 0" by (simp add: unat_eq_0)
  have f0: "unat (fp_frac_field b) = 0 \<longleftrightarrow> fp_frac_field b = 0" by (simp add: unat_eq_0)
  have u: "big_val (big_of_u64 (ucast (fp_frac_field b))) = unat (fp_frac_field b)"
    using assms by (simp add: big_of_u64_val unat_ucast_u64)
  have w: "big_wf (big_of_u64 (ucast (fp_frac_field b)))" by (simp add: big_of_u64_val)
  have one: "big_val (big_of_u64 1) = 1" "big_wf (big_of_u64 1)" by (simp_all add: big_of_u64_val)
  let ?F = "fp_frac_bits_count TYPE('a)"
  have s: "big_val (big_shift_left ?F (big_of_u64 1)) = 2 ^ ?F"
    using big_shift_left_val [of "big_of_u64 1" ?F] one by simp
  have n1: "big_of_u64 (ucast (fp_frac_field b)) = [] \<longleftrightarrow> fp_frac_field b = 0" using big_val_zero_iff [OF w] u f0 by simp
  have wa: "big_wf (big_add (big_shift_left ?F (big_of_u64 1)) (big_of_u64 (ucast (fp_frac_field b))))"
    by (simp add: big_add_val)
  have n2: "big_add (big_shift_left ?F (big_of_u64 1)) (big_of_u64 (ucast (fp_frac_field b))) \<noteq> []"
    using big_val_zero_iff [OF wa] s by (simp add: big_add_val)
  note fields = fp_exact_value_bits_def Let_def fp_finite_def z f0 u
  show "ev_finite ?v \<longleftrightarrow> fp_finite b" by (simp add: fields)
  show neg: "ev_negative ?v \<longleftrightarrow> fp_is_negative b" by (simp add: fields)
  show "ev_wf ?v"
    using w n1 n2 wa by (auto simp: fields ev_wf_def) (simp_all add: big_wf_def)
  show "fp_finite b \<Longrightarrow> ev_zero ?v \<longleftrightarrow> fp_mantissa b = 0"
    by (simp add: fields fp_mantissa_def)
  have v: "fp_finite b \<Longrightarrow> \<not> ev_zero ?v \<Longrightarrow> big_val (ev_magnitude ?v) = fp_mantissa b \<and> ev_exp2 ?v = fp_exponent b"
    by (cases "fp_exp_field b = 0"; cases "fp_frac_field b = 0")
      (simp_all add: fields fp_mantissa_def fp_exponent_def big_add_val s big_of_u64_val unat_ucast_u64 [OF assms])
  then show "fp_finite b \<Longrightarrow> \<not> ev_zero ?v \<Longrightarrow> big_val (ev_magnitude ?v) = fp_mantissa b"
    "fp_finite b \<Longrightarrow> \<not> ev_zero ?v \<Longrightarrow> ev_exp2 ?v = fp_exponent b" by blast+
  show "fp_finite b \<Longrightarrow> ev_real ?v = fp_real b"
    by (cases "ev_zero ?v") (simp_all add: ev_real_def fp_real_def v neg,
      simp add: fields fp_mantissa_def signed_mag_def split: if_splits)
qed

lemma two_powi_shift: "e \<le> t \<Longrightarrow> (2 :: real) powi t = 2 powi e * 2 ^ nat (t - e)"
  by (metis (no_types, lifting) add.commute diff_add_cancel diff_ge_0_iff_ge nat_0_le power_int_add power_int_of_nat zero_neq_numeral)

lemma power_between:
  assumes "(2 :: nat) ^ k \<le> n \<and> n < 2 ^ (k + 1)"
  shows "n < 2 ^ d \<longleftrightarrow> k < d"
proof
  assume "n < 2 ^ d"
  then have "(2 :: nat) ^ k < 2 ^ d" using assms by linarith
  then show "k < d" by (simp add: power_strict_increasing_iff)
next
  assume "k < d"
  then have "(2 :: nat) ^ (k + 1) \<le> 2 ^ d" by (intro power_increasing) simp_all
  then show "n < 2 ^ d" using assms by linarith
qed

lemma exact_abs_lt:
  assumes "big_wf m"
  shows "exact_abs_lt_power_of_two m e t \<longleftrightarrow>
    0 < real (big_val m) * 2 powi e \<and> real (big_val m) * 2 powi e < 2 powi t"
proof (cases "m = []")
  case True
  then show ?thesis by (simp add: exact_abs_lt_power_of_two_def big_is_zero_def)
next
  case False
  then have pos: "0 < big_val m" using big_val_zero_iff [OF assms] by simp
  show ?thesis
  proof (cases "e < t")
    case True
    let ?d = "nat (t - e)"
    have "real (big_val m) * 2 powi e < 2 powi t \<longleftrightarrow> real (big_val m) < 2 ^ ?d"
      using two_powi_shift [of e t] True by (simp add: mult.commute)
    also have "\<dots> \<longleftrightarrow> big_val m < 2 ^ ?d" by (metis of_nat_less_iff of_nat_numeral of_nat_power)
    also have "\<dots> \<longleftrightarrow> big_msb_index m < ?d"
      by (rule power_between [OF big_msb_index_val [OF assms False]])
    finally show ?thesis using True False pos by (simp add: exact_abs_lt_power_of_two_def big_is_zero_def)
  next
    case e: False
    have "(2 :: real) powi t \<le> 2 powi e" using e by (intro power_int_increasing) simp_all
    also have "\<dots> \<le> real (big_val m) * 2 powi e" using pos mult_right_mono [of 1 "real (big_val m)" "2 powi e"] by simp
    finally show ?thesis using e by (simp add: exact_abs_lt_power_of_two_def)
  qed
qed

lemma scaled_val:
  assumes "big_wf m" "c \<le> e"
  shows "big_wf (exact_scale_pow2 m (nat (e - c)))"
    and "real (big_val (exact_scale_pow2 m (nat (e - c)))) * 2 powi c = real (big_val m) * 2 powi e"
  using big_shift_left_val [OF assms(1), of "nat (e - c)"] two_powi_shift [OF assms(2)]
  by (simp_all add: exact_scale_pow2_def)

lemma signed_abs:
  "x = (if neg then - 1 else 1) * m \<Longrightarrow> 0 \<le> m \<Longrightarrow> \<bar>x\<bar> = m \<and> (0 < m \<longrightarrow> (neg \<longleftrightarrow> x < (0 :: real)))"
  by auto

lemma signed_tiny:
  assumes "x = (if neg then - 1 else 1) * (real (big_val m) * 2 powi c)" "big_wf m"
  shows "(exact_abs_lt_power_of_two m c t \<longleftrightarrow> 0 < \<bar>x\<bar> \<and> \<bar>x\<bar> < 2 powi t) \<and>
    (exact_abs_lt_power_of_two m c t \<longrightarrow> (neg \<longleftrightarrow> x < 0))"
  using signed_abs [OF assms(1)] exact_abs_lt [OF assms(2), of c t] by (simp only:) simp

lemma tiny_sum_terms:
  fixes t le re :: int
  assumes "big_wf lm" "big_wf rm"
    and "x = real_of_int (signed_mag nl (big_val lm)) * 2 powi le"
    and "y = real_of_int (signed_mag nr (big_val rm)) * 2 powi re"
    and "r = fp_exact_tiny_sum_terms t nl lm le nr rm re"
  shows "fst r \<longleftrightarrow> 0 < \<bar>x + y\<bar> \<and> \<bar>x + y\<bar> < 2 powi t" and "fst r \<Longrightarrow> snd r \<longleftrightarrow> x + y < 0"
proof -
  define c where "c = min le re"
  define L where "L = exact_scale_pow2 lm (nat (le - c))"
  define R where "R = exact_scale_pow2 rm (nat (re - c))"
  have L: "big_wf L" "real (big_val L) * 2 powi c = real (big_val lm) * 2 powi le"
    unfolding L_def by (rule scaled_val [OF assms(1)]; simp add: c_def)+
  have R: "big_wf R" "real (big_val R) * 2 powi c = real (big_val rm) * 2 powi re"
    unfolding R_def by (rule scaled_val [OF assms(2)]; simp add: c_def)+
  have x: "x = (if nl then - real (big_val L) else real (big_val L)) * 2 powi c"
    using L(2) assms(3) by (simp add: signed_mag_def)
  have y: "y = (if nr then - real (big_val R) else real (big_val R)) * 2 powi c"
    using R(2) assms(4) by (simp add: signed_mag_def)
  have p: "(0 :: real) < 2 powi c" by simp
  have r: "r = (if nl = nr then (exact_abs_lt_power_of_two (big_add L R) c t, nl)
      else if big_compare L R = 0 then (False, False)
      else if big_compare L R > 0 then (exact_abs_lt_power_of_two (big_sub L R) c t, nl)
      else (exact_abs_lt_power_of_two (big_sub R L) c t, nr))"
    by (simp only: assms(5) fp_exact_tiny_sum_terms_def Let_def c_def [symmetric] L_def [symmetric] R_def [symmetric])
  have cmp: "big_compare L R = sgn (int (big_val L) - int (big_val R))" by (rule big_compare_val [OF L(1) R(1)])
  have len: "length b \<le> length a" if "big_wf a" "big_wf b" "big_val b \<le> big_val a" for a b
  proof (rule ccontr)
    assume n: "\<not> length b \<le> length a"
    then have "big_val a < 2 ^ (32 * (length b - 1))"
      using n by (intro order_less_le_trans [OF big_val_bound [of a] power_increasing]) simp_all
    also have "\<dots> \<le> big_val b" using big_val_lower [OF that(2)] n by fastforce
    finally show False using that(3) by simp
  qed
  have sub: "big_wf (big_sub a b) \<and> real (big_val (big_sub a b)) = real (big_val a) - real (big_val b)"
    if "big_wf a" "big_wf b" "big_val b \<le> big_val a" for a b
    using big_sub_val [OF len [OF that] that(3)] that(3) by (simp add: of_nat_diff)
  have add: "big_wf (big_add L R)" "real (big_val (big_add L R)) = real (big_val L) + real (big_val R)"
    by (simp_all add: big_add_val)
  consider (same) "nl = nr" | (equal) "nl \<noteq> nr" "big_val L = big_val R"
    | (gt) "nl \<noteq> nr" "big_val R < big_val L" | (lt) "nl \<noteq> nr" "big_val L < big_val R" by linarith
  then have "(fst r \<longleftrightarrow> 0 < \<bar>x + y\<bar> \<and> \<bar>x + y\<bar> < 2 powi t) \<and> (fst r \<longrightarrow> (snd r \<longleftrightarrow> x + y < 0))"
  proof cases
    case same
    have "x + y = (if nl then - 1 else 1) * (real (big_val (big_add L R)) * 2 powi c)"
      using same by (simp add: x y add algebra_simps)
    then show ?thesis using signed_tiny [OF _ add(1), of "x + y" nl c t] same by (simp add: r)
  next
    case equal
    then show ?thesis by (simp add: r cmp x y)
  next
    case gt
    have "x + y = (if nl then - 1 else 1) * (real (big_val (big_sub L R)) * 2 powi c)"
      using gt by (simp only: x y sub [OF L(1) R(1), THEN conjunct2] less_imp_le) (simp add: algebra_simps)
    then show ?thesis using signed_tiny [of "x + y" nl "big_sub L R" c t] sub [OF L(1) R(1)] gt by (simp add: r cmp)
  next
    case lt
    have "x + y = (if nr then - 1 else 1) * (real (big_val (big_sub R L)) * 2 powi c)"
      using lt by (simp only: x y sub [OF R(1) L(1), THEN conjunct2] less_imp_le) (simp add: algebra_simps)
    then show ?thesis using signed_tiny [of "x + y" nr "big_sub R L" c t] sub [OF R(1) L(1)] lt by (simp add: r cmp)
  qed
  then show "fst r \<longleftrightarrow> 0 < \<bar>x + y\<bar> \<and> \<bar>x + y\<bar> < 2 powi t" "fst r \<Longrightarrow> snd r \<longleftrightarrow> x + y < 0" by blast+
qed

definition tiny_exact :: "'a::len itself \<Rightarrow> real \<Rightarrow> bool \<times> bool \<Rightarrow> bool" where
  "tiny_exact t x r \<longleftrightarrow> (fst r \<longleftrightarrow> 0 < \<bar>x\<bar> \<and> \<bar>x\<bar> < 2 powi fp_min_exp t) \<and> (fst r \<longrightarrow> (snd r \<longleftrightarrow> x < 0))"

lemma ev_real_zero: "ev_wf v \<Longrightarrow> ev_zero v \<Longrightarrow> ev_real v = 0"
  by (simp add: ev_wf_def ev_real_def signed_mag_def)

lemma ev_real_neg: "real_of_int (signed_mag (\<not> ev_negative v) (big_val (ev_magnitude v))) * 2 powi ev_exp2 v = - ev_real v"
  by (simp add: ev_real_def signed_mag_def)

lemma tiny_add_sub:
  fixes a b :: "'a::len word"
  assumes "LENGTH('a) \<le> 64" "fp_finite a" "fp_finite b"
  shows "tiny_exact TYPE('a) (if s then fp_real a - fp_real b else fp_real a + fp_real b) (fp_add_sub_tiny_before_round a b s)"
proof -
  let ?l = "fp_exact_value_bits a" and ?r = "fp_exact_value_bits b"
  note l = exact_value [OF assms(1), of a] and r = exact_value [OF assms(1), of b]
  have v: "ev_real ?l = fp_real a" "ev_real ?r = fp_real b" using l(4) r(4) assms(2,3) by blast+
  show ?thesis
  proof (cases "ev_zero ?l \<and> ev_zero ?r")
    case True
    then have "fp_real a = 0" "fp_real b = 0" using ev_real_zero l(3) r(3) v by metis+
    then show ?thesis using True by (simp add: tiny_exact_def fp_add_sub_tiny_before_round_def Let_def)
  next
    case False
    let ?y = "if s then - fp_real b else fp_real b"
    let ?t = "fp_exact_tiny_sum_terms (fp_min_exp TYPE('a)) (ev_negative ?l) (ev_magnitude ?l) (ev_exp2 ?l)
      (if s then \<not> ev_negative ?r else ev_negative ?r) (ev_magnitude ?r) (ev_exp2 ?r)"
    have t: "fp_add_sub_tiny_before_round a b s = ?t"
      using False l(1) r(1) assms(2,3) by (cases s) (auto simp: fp_add_sub_tiny_before_round_def Let_def)
    have w: "big_wf (ev_magnitude ?l)" "big_wf (ev_magnitude ?r)" using l(3) r(3) by (simp_all add: ev_wf_def)
    have x: "fp_real a = real_of_int (signed_mag (ev_negative ?l) (big_val (ev_magnitude ?l))) * 2 powi ev_exp2 ?l"
      using v(1) by (simp add: ev_real_def)
    have y: "?y = real_of_int (signed_mag (if s then \<not> ev_negative ?r else ev_negative ?r) (big_val (ev_magnitude ?r))) * 2 powi ev_exp2 ?r"
      using v(2) ev_real_neg [of ?r] by (simp add: ev_real_def)
    have "(if s then fp_real a - fp_real b else fp_real a + fp_real b) = fp_real a + ?y" by simp
    then show ?thesis
      unfolding tiny_exact_def t using tiny_sum_terms [OF w x y refl] by simp
  qed
qed

lemma real_product:
  "real_of_int (signed_mag (m \<noteq> n) (a * b)) * 2 powi (d + e) =
    (real_of_int (signed_mag m a) * 2 powi d) * (real_of_int (signed_mag n b) * 2 powi e)"
  by (simp add: signed_mag_def power_int_add)

lemma nonzero_val: "ev_wf v \<Longrightarrow> \<not> ev_zero v \<Longrightarrow> 0 < big_val (ev_magnitude v)"
  using big_val_zero_iff by (auto simp: ev_wf_def)

lemma tiny_mul:
  fixes a b :: "'a::len word"
  assumes "LENGTH('a) \<le> 64" "fp_finite a" "fp_finite b"
  shows "tiny_exact TYPE('a) (fp_real a * fp_real b) (fp_mul_tiny_before_round a b)"
proof -
  let ?l = "fp_exact_value_bits a" and ?r = "fp_exact_value_bits b"
  note l = exact_value [OF assms(1), of a] and r = exact_value [OF assms(1), of b]
  have v: "ev_real ?l = fp_real a" "ev_real ?r = fp_real b" using l(4) r(4) assms(2,3) by blast+
  show ?thesis
  proof (cases "ev_zero ?l \<or> ev_zero ?r")
    case True
    then have "fp_real a * fp_real b = 0" using ev_real_zero l(3) r(3) v by (metis mult_eq_0_iff)
    then show ?thesis using True by (auto simp: tiny_exact_def fp_mul_tiny_before_round_def Let_def)
  next
    case False
    let ?m = "big_mul (ev_magnitude ?l) (ev_magnitude ?r)" and ?e = "ev_exp2 ?l + ev_exp2 ?r"
    let ?n = "ev_negative ?l \<noteq> ev_negative ?r"
    have t: "fp_mul_tiny_before_round a b = (exact_abs_lt_power_of_two ?m ?e (fp_min_exp TYPE('a)), ?n)"
      using False l(1) r(1) assms(2,3) by (auto simp: fp_mul_tiny_before_round_def Let_def)
    have "fp_real a * fp_real b = real_of_int (signed_mag ?n (big_val ?m)) * 2 powi ?e"
      unfolding v [symmetric] ev_real_def big_mul_val [THEN conjunct1] real_product ..
    then have x: "fp_real a * fp_real b = (if ?n then - 1 else 1) * (real (big_val ?m) * 2 powi ?e)"
      by (simp add: signed_mag_def)
    show ?thesis
      using signed_tiny [OF x big_mul_val [THEN conjunct2], of "fp_min_exp TYPE('a)"]
      unfolding tiny_exact_def t fst_conv snd_conv .
  qed
qed

lemma real_times_power_less:
  "real m * 2 ^ k < real n \<longleftrightarrow> 2 ^ k * m < n" "real m < real n * 2 ^ k \<longleftrightarrow> m < 2 ^ k * n"
  using of_nat_less_iff [of "2 ^ k * m" n, where ?'a = real] of_nat_less_iff [of m "2 ^ k * n", where ?'a = real]
  by (simp_all add: mult.commute)

lemma quotient_tiny:
  assumes "big_wf m" "big_wf n" "0 < big_val m" "0 < big_val n" "d = le - re - t"
  shows "(if d \<ge> 0 then big_less (exact_scale_pow2 m (nat d)) n else big_less m (exact_scale_pow2 n (nat (- d)))) \<longleftrightarrow>
    (real (big_val m) * 2 powi le) / (real (big_val n) * 2 powi re) < 2 powi t"
proof -
  let ?m = "real (big_val m)" and ?n = "real (big_val n)"
  have "?m * 2 powi le / (?n * 2 powi re) < 2 powi t \<longleftrightarrow> ?m * 2 powi le < 2 powi t * (?n * 2 powi re)"
    using assms(4) by (simp add: divide_less_eq)
  also have "\<dots> \<longleftrightarrow> ?m * 2 powi le < ?n * 2 powi (re + t)" by (simp add: power_int_add ac_simps)
  finally have q: "?m * 2 powi le / (?n * 2 powi re) < 2 powi t \<longleftrightarrow> ?m * 2 powi le < ?n * 2 powi (re + t)" .
  show ?thesis
  proof (cases "d \<ge> 0")
    case True
    have "?m * 2 powi le < ?n * 2 powi (re + t) \<longleftrightarrow> ?m * 2 ^ nat d < ?n"
      using two_powi_shift [of "re + t" le] True assms(5) by (simp add: ac_simps diff_diff_eq)
    also have "\<dots> \<longleftrightarrow> 2 ^ nat d * big_val m < big_val n" by (rule real_times_power_less)
    finally show ?thesis
      using True q big_shift_left_val [OF assms(1), of "nat d"] by (simp add: exact_scale_pow2_def big_less_val assms(2))
  next
    case False
    have "?m * 2 powi le < ?n * 2 powi (re + t) \<longleftrightarrow> ?m < ?n * 2 ^ nat (- d)"
      using two_powi_shift [of le "re + t"] False assms(5) by (simp add: ac_simps diff_diff_eq)
    also have "\<dots> \<longleftrightarrow> big_val m < 2 ^ nat (- d) * big_val n" by (rule real_times_power_less)
    finally show ?thesis
      using False q big_shift_left_val [OF assms(2), of "nat (- d)"] by (simp add: exact_scale_pow2_def big_less_val assms(1))
  qed
qed

lemma tiny_div:
  fixes a b :: "'a::len word"
  assumes "LENGTH('a) \<le> 64" "fp_finite a" "fp_finite b"
  shows "tiny_exact TYPE('a) (fp_real a / fp_real b) (fp_div_tiny_before_round a b)"
proof -
  let ?l = "fp_exact_value_bits a" and ?r = "fp_exact_value_bits b"
  note l = exact_value [OF assms(1), of a] and r = exact_value [OF assms(1), of b]
  have v: "ev_real ?l = fp_real a" "ev_real ?r = fp_real b" using l(4) r(4) assms(2,3) by blast+
  show ?thesis
  proof (cases "ev_zero ?l \<or> ev_zero ?r")
    case True
    then have "fp_real a / fp_real b = 0" using ev_real_zero l(3) r(3) v by (metis div_0 div_by_0)
    then show ?thesis using True by (auto simp: tiny_exact_def fp_div_tiny_before_round_def Let_def)
  next
    case False
    let ?m = "ev_magnitude ?l" and ?n = "ev_magnitude ?r" and ?s = "ev_negative ?l \<noteq> ev_negative ?r"
    let ?d = "ev_exp2 ?l - ev_exp2 ?r - fp_min_exp TYPE('a)"
    let ?q = "real (big_val ?m) * 2 powi ev_exp2 ?l / (real (big_val ?n) * 2 powi ev_exp2 ?r)"
    have pos: "0 < big_val ?m" "0 < big_val ?n" using nonzero_val [of ?l] nonzero_val [of ?r] l(3) r(3) False by blast+
    have wf: "big_wf ?m" "big_wf ?n" using l(3) r(3) by (simp_all add: ev_wf_def)
    have t: "fp_div_tiny_before_round a b =
        (if ?d \<ge> 0 then big_less (exact_scale_pow2 ?m (nat ?d)) ?n else big_less ?m (exact_scale_pow2 ?n (nat (- ?d))), ?s)"
      using False l(1) r(1) assms(2,3) by (auto simp: fp_div_tiny_before_round_def Let_def)
    have "fp_real a / fp_real b = (if ?s then - 1 else 1) * ?q"
      unfolding v [symmetric] ev_real_def by (simp add: signed_mag_def)
    then have "\<bar>fp_real a / fp_real b\<bar> = ?q \<and> (0 < ?q \<longrightarrow> (?s \<longleftrightarrow> fp_real a / fp_real b < 0))"
      by (rule signed_abs) simp
    moreover have "0 < ?q" using pos by simp
    ultimately show ?thesis
      using quotient_tiny [OF wf pos refl, of "ev_exp2 ?l" "ev_exp2 ?r" "fp_min_exp TYPE('a)"]
      unfolding tiny_exact_def t fst_conv snd_conv by metis
  qed
qed

lemma tiny_fma:
  fixes a b d :: "'a::len word"
  assumes "LENGTH('a) \<le> 64" "fp_finite a" "fp_finite b" "fp_finite d"
  shows "tiny_exact TYPE('a) (fp_real a * fp_real b + fp_real d) (fp_fma_tiny_before_round a b d)"
proof -
  let ?l = "fp_exact_value_bits a" and ?r = "fp_exact_value_bits b" and ?d = "fp_exact_value_bits d"
  let ?t = "fp_min_exp TYPE('a)"
  note l = exact_value [OF assms(1), of a] and r = exact_value [OF assms(1), of b] and e = exact_value [OF assms(1), of d]
  have v: "ev_real ?l = fp_real a" "ev_real ?r = fp_real b" "ev_real ?d = fp_real d"
    using l(4) r(4) e(4) assms(2-4) by blast+
  let ?m = "big_mul (ev_magnitude ?l) (ev_magnitude ?r)" and ?e = "ev_exp2 ?l + ev_exp2 ?r"
  let ?n = "ev_negative ?l \<noteq> ev_negative ?r"
  have p: "fp_real a * fp_real b = real_of_int (signed_mag ?n (big_val ?m)) * 2 powi ?e"
    unfolding v [symmetric] ev_real_def big_mul_val [THEN conjunct1] real_product ..
  have q: "fp_real d = real_of_int (signed_mag (ev_negative ?d) (big_val (ev_magnitude ?d))) * 2 powi ev_exp2 ?d"
    by (simp only: v(3) [symmetric] ev_real_def)
  have wf: "big_wf ?m" "big_wf (ev_magnitude ?d)" using e(3) by (simp_all add: big_mul_val ev_wf_def)
  have zp: "fp_real a * fp_real b = 0" if "ev_zero ?l \<or> ev_zero ?r"
    using ev_real_zero l(3) r(3) v that by (metis mult_eq_0_iff)
  have zd: "fp_real d = 0" if "ev_zero ?d" using ev_real_zero e(3) v that by metis
  note fin = l(1) r(1) e(1) assms(2-4)
  consider (none) "ev_zero ?l \<or> ev_zero ?r" "ev_zero ?d" | (addend) "ev_zero ?l \<or> ev_zero ?r" "\<not> ev_zero ?d"
    | (product) "\<not> ev_zero ?l" "\<not> ev_zero ?r" "ev_zero ?d" | (both) "\<not> ev_zero ?l" "\<not> ev_zero ?r" "\<not> ev_zero ?d"
    by blast
  then show ?thesis
  proof cases
    case none
    then have "fp_fma_tiny_before_round a b d = (False, False)"
      using fin by (auto simp: fp_fma_tiny_before_round_def Let_def)
    then show ?thesis using zp zd none by (simp add: tiny_exact_def)
  next
    case addend
    then have t: "fp_fma_tiny_before_round a b d =
        (exact_abs_lt_power_of_two (ev_magnitude ?d) (ev_exp2 ?d) ?t, ev_negative ?d)"
      using fin by (auto simp: fp_fma_tiny_before_round_def Let_def)
    have "fp_real a * fp_real b + fp_real d =
        (if ev_negative ?d then - 1 else 1) * (real (big_val (ev_magnitude ?d)) * 2 powi ev_exp2 ?d)"
      using zp addend q by (simp add: signed_mag_def)
    from signed_tiny [OF this wf(2), of ?t] show ?thesis unfolding tiny_exact_def t fst_conv snd_conv .
  next
    case product
    then have t: "fp_fma_tiny_before_round a b d = (exact_abs_lt_power_of_two ?m ?e ?t, ?n)"
      using fin by (auto simp: fp_fma_tiny_before_round_def Let_def)
    have "fp_real a * fp_real b + fp_real d = (if ?n then - 1 else 1) * (real (big_val ?m) * 2 powi ?e)"
      using zd product p by (simp add: signed_mag_def)
    from signed_tiny [OF this wf(1), of ?t] show ?thesis unfolding tiny_exact_def t fst_conv snd_conv .
  next
    case both
    then have t: "fp_fma_tiny_before_round a b d =
        fp_exact_tiny_sum_terms ?t ?n ?m ?e (ev_negative ?d) (ev_magnitude ?d) (ev_exp2 ?d)"
      using fin by (auto simp: fp_fma_tiny_before_round_def Let_def)
    show ?thesis unfolding tiny_exact_def t using tiny_sum_terms [OF wf p q refl] by blast
  qed
qed

text \<open>C12. The tests of flush-to-zero are exact: for finite operands of any of the formats each of them finds out
  whether the exact real result is nonzero and smaller than the smallest normal number, and then its sign,
  although it computes with integers of unbounded size only.\<close>
theorem tininess_is_exact:
  fixes a b d :: "'a::len word"
  assumes "LENGTH('a) \<le> 64" "fp_finite a" "fp_finite b" "fp_finite d"
  shows "tiny_exact TYPE('a) (fp_real a + fp_real b) (fp_add_sub_tiny_before_round a b False) \<and>
    tiny_exact TYPE('a) (fp_real a - fp_real b) (fp_add_sub_tiny_before_round a b True) \<and>
    tiny_exact TYPE('a) (fp_real a * fp_real b) (fp_mul_tiny_before_round a b) \<and>
    tiny_exact TYPE('a) (fp_real a / fp_real b) (fp_div_tiny_before_round a b) \<and>
    tiny_exact TYPE('a) (fp_real a * fp_real b + fp_real d) (fp_fma_tiny_before_round a b d)"
  using tiny_add_sub [OF assms(1-3), of False] tiny_add_sub [OF assms(1-3), of True] tiny_mul [OF assms(1-3)]
    tiny_div [OF assms(1-3)] tiny_fma [OF assms] by simp

text \<open>The difference of the two smallest normal floats is tiny.\<close>
lemma tininess_is_exact_witness:
  "0 < \<bar>fp_real (0x00800001 :: u32) - fp_real (0x00800000 :: u32)\<bar> \<and>
   \<bar>fp_real (0x00800001 :: u32) - fp_real (0x00800000 :: u32)\<bar> < 2 powi fp_min_exp TYPE(32)"
proof -
  have f: "fp_finite (0x00800001 :: u32)" "fp_finite (0x00800000 :: u32)" by code_simp+
  have t: "fst (fp_add_sub_tiny_before_round (0x00800001 :: u32) 0x00800000 True)" by code_simp
  show ?thesis using tininess_is_exact [OF _ f f(1)] t by (simp add: tiny_exact_def)
qed

end
