(* ===== verification/Cpu_Fp_Rounding.thy ===== *)
theory Cpu_Fp_Rounding
  imports Cpu_Fp_Proofs Cpu_Bits_Proofs
begin

text \<open>
  Correct rounding: the result of a conversion is the value of the format that IEEE 754 asks for, in each of
  the four rounding modes.
\<close>

section \<open>Patterns and their fields\<close>

lemma fp_masks:
  assumes "LENGTH('a::len) = 16 \<or> LENGTH('a) = 32 \<or> LENGTH('a) = 64"
  defines "F \<equiv> fp_frac_bits_count TYPE('a)" and "E \<equiv> fp_exp_bits_count TYPE('a)"
  shows "(fp_frac_mask_bits :: 'a word) = mask F" "(fp_exp_mask_bits :: 'a word) = push_bit F (mask E)"
    "(fp_sign_mask_bits :: 'a word) = push_bit (F + E) 1" "LENGTH('a) = F + E + 1"
    "fp_exp_bias TYPE('a) = 2 ^ (E - 1) - 1" "1 < E" "1 < F"
  using assms by (auto simp: fp_frac_mask_bits_def fp_exp_mask_bits_def fp_sign_mask_bits_def fp_frac_bits_count_def
      fp_exp_bits_count_def fp_exp_bias_def mask_eq_exp_minus_1 push_bit_eq_mult)

lemma bit_small_nat: "(n :: nat) < 2 ^ k \<Longrightarrow> bit n i \<Longrightarrow> i < k"
  by (metis bit_take_bit_iff take_bit_nat_eq_self)

lemma fp_fields:
  fixes b :: "'a::len word"
  assumes "LENGTH('a) = 16 \<or> LENGTH('a) = 32 \<or> LENGTH('a) = 64"
    and "e < 2 ^ fp_exp_bits_count TYPE('a)" "f < 2 ^ fp_frac_bits_count TYPE('a)"
    and "b = fp_zero_bits neg OR push_bit (fp_frac_bits_count TYPE('a)) (of_nat e) OR of_nat f"
  shows "fp_is_negative b \<longleftrightarrow> neg" "unat (fp_exp_field b) = e" "unat (fp_frac_field b) = f"
proof -
  let ?F = "fp_frac_bits_count TYPE('a)" and ?E = "fp_exp_bits_count TYPE('a)"
  note m = fp_masks [OF assms(1)]
  have e: "\<And>i. bit e i \<Longrightarrow> i < ?E" and f: "\<And>i. bit f i \<Longrightarrow> i < ?F"
    using bit_small_nat assms(2,3) by blast+
  have b: "bit b i \<longleftrightarrow> i < LENGTH('a) \<and> (i = ?F + ?E \<and> neg \<or> ?F \<le> i \<and> bit e (i - ?F) \<or> bit f i)" for i
    using m(4) by (auto simp: assms(4) fp_zero_bits_def m(3) bit_simps)
  have "bit b (?F + ?E) \<longleftrightarrow> neg" using e [of ?E] f [of "?F + ?E"] m(4) by (auto simp: b)
  moreover have "fp_is_negative b \<longleftrightarrow> bit b (?F + ?E)"
  proof
    assume n: "fp_is_negative b"
    show "bit b (?F + ?E)"
    proof (rule ccontr)
      assume "\<not> bit b (?F + ?E)"
      then have "b AND push_bit (?F + ?E) 1 = 0" by (intro bit_word_eqI) (auto simp: bit_simps)
      then show False using n by (simp add: fp_is_negative_def m(3))
    qed
  next
    assume n: "bit b (?F + ?E)"
    have "bit (b AND push_bit (?F + ?E) 1) (?F + ?E)" using n m(4) by (simp add: bit_simps)
    then show "fp_is_negative b" by (auto simp: fp_is_negative_def m(3))
  qed
  ultimately show "fp_is_negative b \<longleftrightarrow> neg" by blast
  have "fp_exp_field b = of_nat e"
  proof (intro bit_word_eqI)
    fix i assume "i < LENGTH('a)"
    then show "bit (fp_exp_field b) i \<longleftrightarrow> bit (of_nat e :: 'a word) i"
      using e [of i] e [of "?F + i - ?F"] f [of "?F + i"] m(4) by (auto simp: fp_exp_field_def m(2) bit_simps b)
  qed
  moreover have "e < 2 ^ LENGTH('a)"
    using assms(2) m(4) by (metis le_add2 le_add_same_cancel1 order_less_le_trans power_increasing trans_le_add1 one_le_numeral zero_le)
  ultimately show "unat (fp_exp_field b) = e" by (simp add: unat_of_nat)
  have "fp_frac_field b = of_nat f"
  proof (intro bit_word_eqI)
    fix i assume "i < LENGTH('a)"
    then show "bit (fp_frac_field b) i \<longleftrightarrow> bit (of_nat f :: 'a word) i"
      using f [of i] m(4) by (auto simp: fp_frac_field_def m(1) bit_simps b)
  qed
  moreover have "f < 2 ^ LENGTH('a)"
    using assms(3) m(4) by (metis le_add1 order_less_le_trans power_increasing trans_le_add1 one_le_numeral)
  ultimately show "unat (fp_frac_field b) = f" by (simp add: unat_of_nat)
qed

text \<open>A normal number from its significand and exponent.\<close>
lemma fp_normal:
  fixes b :: "'a::len word"
  assumes "LENGTH('a) = 16 \<or> LENGTH('a) = 32 \<or> LENGTH('a) = 64"
    and "2 ^ fp_frac_bits_count TYPE('a) \<le> q" "q < 2 ^ (fp_frac_bits_count TYPE('a) + 1)"
    and "1 \<le> ex + fp_exp_bias TYPE('a)" "ex \<le> fp_exp_bias TYPE('a)"
    and "b = fp_zero_bits neg OR push_bit (fp_frac_bits_count TYPE('a)) (of_int (ex + fp_exp_bias TYPE('a))) OR
      (of_nat q AND fp_frac_mask_bits)"
  shows "fp_finite b" "fp_is_negative b \<longleftrightarrow> neg" "fp_mantissa b = q"
    "fp_exponent b = ex - int (fp_frac_bits_count TYPE('a))"
proof -
  let ?F = "fp_frac_bits_count TYPE('a)" and ?E = "fp_exp_bits_count TYPE('a)" and ?bias = "fp_exp_bias TYPE('a)"
  note m = fp_masks [OF assms(1)]
  define e where "e = nat (ex + ?bias)"
  have ei: "int e = ex + ?bias" using assms(4) by (simp add: e_def)
  have "(2 :: int) ^ ?E = 2 * 2 ^ (?E - 1)" using m(6) by (metis power_Suc Suc_diff_1 less_trans zero_less_one)
  then have e: "1 \<le> e" "int e < 2 ^ ?E - 1" using assms(4,5) ei m(5) by simp_all
  have "int (2 ^ ?E - 1) = 2 ^ ?E - 1" by (simp add: of_nat_diff)
  then have e2: "e < 2 ^ ?E - 1" using e(2) by linarith
  have q: "q mod 2 ^ ?F = q - 2 ^ ?F" using assms(2,3) by (simp add: mod_nat_eqI le_mod_geq)
  have "(of_nat q :: 'a word) AND mask ?F = of_nat (q - 2 ^ ?F)"
    unfolding q [symmetric] take_bit_eq_mod [symmetric]
    by (rule bit_word_eqI) (auto simp: bit_simps of_nat_take_bit simp flip: take_bit_eq_mask)
  then have b: "b = fp_zero_bits neg OR push_bit ?F (of_nat e) OR of_nat (q - 2 ^ ?F)"
    by (simp add: assms(6) m(1) ei [symmetric])
  have f: "q - 2 ^ ?F < 2 ^ ?F" using assms(2,3) by simp
  have "e < 2 ^ ?E" using e2 by simp
  from fp_fields [OF assms(1) this f b]
  have fields: "fp_is_negative b \<longleftrightarrow> neg" "unat (fp_exp_field b) = e" "unat (fp_frac_field b) = q - 2 ^ ?F" .
  have nz: "fp_exp_field b \<noteq> 0" using fields(2) e(1) by auto
  show "fp_finite b" using fields(2) e2 by (simp add: fp_finite_def)
  show "fp_is_negative b \<longleftrightarrow> neg" by (rule fields(1))
  show "fp_mantissa b = q" using nz fields(3) assms(2) by (simp add: fp_mantissa_def Let_def)
  show "fp_exponent b = ex - int ?F" using nz fields(2) ei by (simp add: fp_exponent_def)
qed

section \<open>The values of a format\<close>

text \<open>Every finite value is a multiple of \<open>2 powi U\<close> or is smaller than \<open>q\<close> of these units, when \<open>q\<close> has the
  hidden bit or the unit is that of the subnormal numbers.\<close>
lemma value_on_grid:
  fixes w :: "'a::len word"
  assumes "LENGTH('a) = 16 \<or> LENGTH('a) = 32 \<or> LENGTH('a) = 64" "fp_finite w"
    and "U = fp_min_exp TYPE('a) - int (fp_frac_bits_count TYPE('a)) \<or>
      fp_min_exp TYPE('a) - int (fp_frac_bits_count TYPE('a)) \<le> U \<and> 2 ^ fp_frac_bits_count TYPE('a) \<le> q"
  shows "(\<exists>z :: int. fp_real w = real_of_int z * 2 powi U) \<or> \<bar>fp_real w\<bar> < real q * 2 powi U"
proof -
  let ?F = "fp_frac_bits_count TYPE('a)" and ?m = "fp_mantissa w" and ?e = "fp_exponent w"
  note m = fp_masks [OF assms(1)]
  have lo: "fp_min_exp TYPE('a) - int ?F \<le> ?e" 
  proof (cases "fp_exp_field w = 0")
    case False
    then have "0 < unat (fp_exp_field w)" by (simp add: unat_gt_0)
    then have "1 \<le> int (unat (fp_exp_field w))" by linarith
    then show ?thesis using False unfolding fp_exponent_def fp_min_exp_def by simp
  qed (simp add: fp_exponent_def fp_min_exp_def)
  have "unat (fp_frac_field w) < 2 ^ ?F"
    by (simp add: fp_frac_field_def m(1) unsigned_take_bit_eq take_bit_nat_less_exp flip: take_bit_eq_mask)
  then have mant: "?m < 2 ^ (?F + 1)" by (simp add: fp_mantissa_def Let_def)
  show ?thesis
  proof (cases "U \<le> ?e")
    case True
    have "fp_real w = real_of_int (signed_mag (fp_is_negative w) ?m * 2 ^ nat (?e - U)) * 2 powi U"
      using two_powi_shift [OF True] by (simp add: fp_real_def)
    then show ?thesis by blast
  next
    case False
    then have U: "2 ^ ?F \<le> q" "?e + 1 \<le> U" using assms(3) lo by auto
    have "\<bar>fp_real w\<bar> = real ?m * 2 powi ?e" by (simp add: fp_real_def signed_mag_def abs_mult)
    also have "\<dots> < 2 ^ (?F + 1) * 2 powi ?e" using mant by (metis mult_strict_right_mono of_nat_less_iff of_nat_numeral of_nat_power zero_less_numeral zero_less_power_int)
    also have "\<dots> = 2 ^ ?F * 2 powi (?e + 1)" by (simp add: power_int_add)
    also have "\<dots> \<le> 2 ^ ?F * 2 powi U" using U(2) by (intro mult_left_mono power_int_increasing) simp_all
    also have "\<dots> \<le> real q * 2 powi U"
      using U(1) by (intro mult_right_mono) (simp_all flip: of_nat_le_iff)
    finally show ?thesis by blast
  qed
qed

lemma grid_below:
  fixes x u :: real and w :: real and q :: nat
  assumes "0 < u" "(\<exists>z :: int. w = real_of_int z * u) \<or> \<bar>w\<bar> < real q * u" "x < (real q + 1) * u" "w \<le> x"
  shows "w \<le> real q * u"
proof -
  consider z :: int where "w = real_of_int z * u" | "\<bar>w\<bar> < real q * u" using assms(2) by blast
  then show ?thesis
  proof cases
    case 1
    then have "real_of_int z * u < (real q + 1) * u" using assms(3,4) by linarith
    then have "real_of_int z < real q + 1" using assms(1) by (simp add: mult_less_cancel_right)
    then have "z \<le> int q" by (metis of_int_add of_int_less_iff of_int_of_nat_eq of_int_1 zle_add1_eq_le)
    then have "real_of_int z \<le> real q" by (metis of_int_le_iff of_int_of_nat_eq)
    then show ?thesis using 1 assms(1) by (simp add: mult_right_mono)
  qed linarith
qed

lemma grid_above:
  fixes x u :: real and w :: real and q :: nat
  assumes "0 < u" "(\<exists>z :: int. w = real_of_int z * u) \<or> \<bar>w\<bar> < real q * u" "real q * u < x" "x \<le> w"
  shows "(real q + 1) * u \<le> w"
proof -
  have "real q * u < w" using assms(3,4) by linarith
  then obtain z :: int where z: "w = real_of_int z * u" using assms(2) by fastforce
  then have "real q < real_of_int z" using \<open>real q * u < w\<close> assms(1) by (simp add: mult_less_cancel_right)
  then have "int q + 1 \<le> z" by (metis of_int_less_iff of_int_of_nat_eq zless_imp_add1_zle)
  then have "real q + 1 \<le> real_of_int z" by (metis of_int_1 of_int_add of_int_le_iff of_int_of_nat_eq)
  then show ?thesis using z assms(1) by (simp add: mult_right_mono)
qed

section \<open>Rounding to a value of the format\<close>

text \<open>\<open>b\<close> is the value of the format that the mode asks for; a tie goes to the even significand.\<close>
definition fp_rounds :: "host_rounding \<Rightarrow> real \<Rightarrow> 'a::len word \<Rightarrow> bool" where
  "fp_rounds mode x b \<longleftrightarrow>
    fp_finite b \<and>
    (\<forall>w :: 'a word. fp_finite w \<longrightarrow>
      (case mode of
         FE_TONEAREST \<Rightarrow>
           \<bar>fp_real b - x\<bar> \<le> \<bar>fp_real w - x\<bar> \<and>
           (\<bar>fp_real b - x\<bar> = \<bar>fp_real w - x\<bar> \<and> fp_real w \<noteq> fp_real b \<longrightarrow> even (fp_mantissa b))
       | FE_UPWARD \<Rightarrow> x \<le> fp_real b \<and> (x \<le> fp_real w \<longrightarrow> fp_real b \<le> fp_real w)
       | FE_DOWNWARD \<Rightarrow> fp_real b \<le> x \<and> (fp_real w \<le> x \<longrightarrow> fp_real w \<le> fp_real b)
       | FE_TOWARDZERO \<Rightarrow> \<bar>fp_real b\<bar> \<le> \<bar>x\<bar> \<and> 0 \<le> fp_real b * x \<and> (\<bar>fp_real w\<bar> \<le> \<bar>x\<bar> \<longrightarrow> \<bar>fp_real w\<bar> \<le> \<bar>fp_real b\<bar>)))"

text \<open>How far a value of the format is from a number between two units.\<close>
lemma grid_distance:
  fixes x u w :: real and q :: nat
  assumes "0 < u" "(\<exists>z :: int. w = real_of_int z * u) \<or> \<bar>w\<bar> < real q * u" "real q * u \<le> x" "x < (real q + 1) * u"
  shows "x - real q * u \<le> \<bar>w - x\<bar> \<or> (real q + 1) * u - x \<le> \<bar>w - x\<bar>"
    and "\<bar>w - x\<bar> = x - real q * u \<Longrightarrow> x - real q * u < (real q + 1) * u - x \<Longrightarrow> w = real q * u"
    and "\<bar>w - x\<bar> = (real q + 1) * u - x \<Longrightarrow> (real q + 1) * u - x < x - real q * u \<Longrightarrow> w = (real q + 1) * u"
  using grid_below [OF assms(1,2,4)] grid_above [OF assms(1,2), of x] assms(3,4)
  by (cases "w \<le> x"; cases "x = real q * u"; linarith)+

text \<open>The magnitude \<open>x\<close> lies between \<open>q\<close> and \<open>q + 1\<close> units; \<open>up\<close> tells which of them \<open>b\<close> is.\<close>
lemma fp_rounds_between:
  fixes b :: "'a::len word"
  assumes "LENGTH('a) = 16 \<or> LENGTH('a) = 32 \<or> LENGTH('a) = 64"
    and "U = fp_min_exp TYPE('a) - int (fp_frac_bits_count TYPE('a)) \<or>
      fp_min_exp TYPE('a) - int (fp_frac_bits_count TYPE('a)) \<le> U \<and> 2 ^ fp_frac_bits_count TYPE('a) \<le> q"
    and "u = 2 powi U" "real q * u \<le> m" "m < (real q + 1) * u" "x = (if neg then - m else m)"
    and "fp_finite b" "fp_real b = (if neg then - 1 else 1) * (real (if up then q + 1 else q) * u)"
    and "even (if up then q + 1 else q) \<Longrightarrow> even (fp_mantissa b)"
    and "up \<longleftrightarrow>
      (case mode of
         FE_TONEAREST \<Rightarrow> (real q + 1) * u - m < m - real q * u \<or> (real q + 1) * u - m = m - real q * u \<and> odd q
       | FE_UPWARD \<Rightarrow> m \<noteq> real q * u \<and> \<not> neg
       | FE_DOWNWARD \<Rightarrow> m \<noteq> real q * u \<and> neg
       | FE_TOWARDZERO \<Rightarrow> False)"
  shows "fp_rounds mode x b"
proof -
  have u: "0 < u" by (simp add: assms(3))
  have m0: "0 \<le> real q * u" using u by simp
  have grid: "(\<exists>z :: int. fp_real w = real_of_int z * u) \<or> \<bar>fp_real w\<bar> < real q * u" if "fp_finite w" for w :: "'a word"
    using value_on_grid [OF assms(1) that assms(2)] by (simp add: assms(3))
  have gridn: "(\<exists>z :: int. - fp_real w = real_of_int z * u) \<or> \<bar>- fp_real w\<bar> < real q * u" if "fp_finite w" for w :: "'a word"
    using grid [OF that] by (metis abs_minus_cancel mult_minus_left of_int_minus)
  text \<open>The value with the sign taken off.\<close>
  define v where "v w = (if neg then - fp_real w else fp_real w)" for w :: "'a word"
  have gv: "(\<exists>z :: int. v w = real_of_int z * u) \<or> \<bar>v w\<bar> < real q * u" if "fp_finite w" for w
    using grid [OF that] gridn [OF that] by (simp add: v_def)
  note below = grid_below [OF u gv assms(5)] and above = grid_above [OF u gv, where x = m]
    and dist = grid_distance [OF u gv assms(4,5)]
  have vb: "v b = (if up then (real q + 1) * u else real q * u)" using assms(8) by (simp add: v_def)
  have d: "\<bar>fp_real w - x\<bar> = \<bar>v w - m\<bar>" for w by (cases neg) (simp_all add: v_def assms(6) abs_minus_commute)
  have gridv: "(\<exists>z :: int. - v w = real_of_int z * u) \<or> \<bar>- v w\<bar> < real q * u" if "fp_finite w" for w
    using grid [OF that] gridn [OF that] by (simp add: v_def)
  have dir: "up \<Longrightarrow> mode \<noteq> FE_TONEAREST \<Longrightarrow> m \<le> v b \<and> (m \<le> v w \<longrightarrow> v b \<le> v w)"
    "\<not> up \<Longrightarrow> v b \<le> m \<and> (v w \<le> m \<longrightarrow> v w \<le> v b)"
    "\<not> up \<Longrightarrow> m = real q * u \<Longrightarrow> v b = m" if "fp_finite w" for w
  proof -
    assume up: "up" "mode \<noteq> FE_TONEAREST"
    then have "real q * u < m" using assms(4,10) by (cases mode) auto
    then show "m \<le> v b \<and> (m \<le> v w \<longrightarrow> v b \<le> v w)" using above [OF that] up(1) assms(5) by (simp add: vb)
  next
    assume "\<not> up"
    then show "v b \<le> m \<and> (v w \<le> m \<longrightarrow> v w \<le> v b)" using below [OF that] assms(4) by (simp add: vb)
  qed (simp add: vb)
  show ?thesis
  proof (cases mode)
    case FE_TONEAREST
    have "\<bar>v b - m\<bar> \<le> \<bar>v w - m\<bar> \<and> (\<bar>v b - m\<bar> = \<bar>v w - m\<bar> \<and> v w \<noteq> v b \<longrightarrow> even (fp_mantissa b))"
      if "fp_finite w" for w
    proof (cases up)
      case True
      then have vb': "v b = (real q + 1) * u" by (simp add: vb)
      then have b: "\<bar>v b - m\<bar> = (real q + 1) * u - m" using assms(5) by linarith
      have c: "(real q + 1) * u - m < m - real q * u \<or> (real q + 1) * u - m = m - real q * u \<and> odd q"
        using assms(10) True FE_TONEAREST by simp
      then have "\<bar>v b - m\<bar> \<le> \<bar>v w - m\<bar>" using dist(1) [OF that] b by linarith
      moreover have "even (fp_mantissa b)" if "\<bar>v b - m\<bar> = \<bar>v w - m\<bar>" "v w \<noteq> v b"
      proof (cases "(real q + 1) * u - m < m - real q * u")
        case strict: True
        have "v w = (real q + 1) * u" using that(1) b by (intro dist(3) [OF \<open>fp_finite w\<close> _ strict]) simp
        then show ?thesis using that(2) vb' by simp
      next
        case False
        then show ?thesis using c assms(9) True by simp
      qed
      ultimately show ?thesis by blast
    next
      case False
      then have vb': "v b = real q * u" by (simp add: vb)
      then have b: "\<bar>v b - m\<bar> = m - real q * u" using assms(4) by linarith
      have c: "m - real q * u < (real q + 1) * u - m \<or> (real q + 1) * u - m = m - real q * u \<and> even q"
        using assms(10) False FE_TONEAREST by auto
      then have "\<bar>v b - m\<bar> \<le> \<bar>v w - m\<bar>" using dist(1) [OF that] b by linarith
      moreover have "even (fp_mantissa b)" if "\<bar>v b - m\<bar> = \<bar>v w - m\<bar>" "v w \<noteq> v b"
      proof (cases "m - real q * u < (real q + 1) * u - m")
        case strict: True
        have "v w = real q * u" using that(1) b by (intro dist(2) [OF \<open>fp_finite w\<close> _ strict]) simp
        then show ?thesis using that(2) vb' by simp
      next
        case tie: False
        then show ?thesis using c assms(9) False by simp
      qed
      ultimately show ?thesis by blast
    qed
    moreover have "v w \<noteq> v b \<longleftrightarrow> fp_real w \<noteq> fp_real b" for w by (simp add: v_def)
    ultimately show ?thesis using assms(7) by (simp add: fp_rounds_def FE_TONEAREST d)
  next
    case FE_UPWARD
    have "x \<le> fp_real b \<and> (x \<le> fp_real w \<longrightarrow> fp_real b \<le> fp_real w)" if "fp_finite w" for w :: "'a word"
      using dir(1) [OF that] dir(2) [OF that] dir(3) [OF that] assms(10) FE_UPWARD by (cases neg) (auto simp: v_def assms(6))
    then show ?thesis using assms(7) by (simp add: fp_rounds_def FE_UPWARD)
  next
    case FE_DOWNWARD
    have "fp_real b \<le> x \<and> (fp_real w \<le> x \<longrightarrow> fp_real w \<le> fp_real b)" if "fp_finite w" for w :: "'a word"
      using dir(1) [OF that] dir(2) [OF that] dir(3) [OF that] assms(10) FE_DOWNWARD by (cases neg) (auto simp: v_def assms(6))
    then show ?thesis using assms(7) by (simp add: fp_rounds_def FE_DOWNWARD)
  next
    case FE_TOWARDZERO
    have n: "\<not> up" using assms(10) FE_TOWARDZERO by simp
    have vb0: "0 \<le> v b" "0 \<le> m" using vb n m0 assms(4) by simp_all
    have "\<bar>fp_real b\<bar> \<le> \<bar>x\<bar> \<and> 0 \<le> fp_real b * x \<and> (\<bar>fp_real w\<bar> \<le> \<bar>x\<bar> \<longrightarrow> \<bar>fp_real w\<bar> \<le> \<bar>fp_real b\<bar>)"
      if f: "fp_finite w" for w :: "'a word"
    proof -
      have "\<bar>fp_real w\<bar> \<le> v b" if "\<bar>fp_real w\<bar> \<le> m"
        using below [OF f] grid_below [OF u gridv [OF f] assms(5)] that n vb by (cases neg) (auto simp: v_def abs_le_iff)
      then show ?thesis using dir(2) [OF f n] vb0 by (cases neg) (auto simp: v_def assms(6) mult_nonneg_nonneg mult_nonpos_nonneg)
    qed
    then show ?thesis using assms(7) by (simp add: fp_rounds_def FE_TOWARDZERO)
  qed
qed

lemma fp_rounds_exact: "fp_finite b \<Longrightarrow> fp_real b = x \<Longrightarrow> fp_rounds mode x b"
  by (cases mode) (auto simp: fp_rounds_def)

section \<open>The rounding shift\<close>

lemma mode_cases:
  "fpcr_rounding_mode_to_host m = (let k = m AND 0x3 in
    if k = 0 then FE_TONEAREST else if k = 1 then FE_UPWARD else if k = 2 then FE_DOWNWARD else FE_TOWARDZERO)"
  by (simp only: fpcr_rounding_mode_to_host_def)

lemma ones_is_mask: "k \<le> 64 \<Longrightarrow> ones k = mask k"
  by (rule bit_word_eqI) (auto simp: bit_ones bit_simps)

lemma unat_and_ones: "k < 64 \<Longrightarrow> unat ((v :: u64) AND ones k) = unat v mod 2 ^ k"
  by (simp add: ones_is_mask unsigned_take_bit_eq flip: take_bit_eq_mask take_bit_eq_mod)

lemma unat_push_bit_1: "k < 64 \<Longrightarrow> unat (push_bit k 1 :: u64) = 2 ^ k"
  using power_strict_increasing [of k 64 "2 :: nat"]
  by (simp only: unsigned_push_bit_eq unsigned_1) (simp add: push_bit_eq_mult take_bit_nat_eq_self)

lemma fp_round_shift_right_val:
  fixes v :: u64
  assumes "v \<noteq> 0" "0 < s" "s < 64"
  defines "q \<equiv> unat v div 2 ^ s" and "r \<equiv> unat v mod 2 ^ s"
  shows "unat (fst (fp_round_shift_right v s mode neg)) =
      (if rounds_up (fpcr_rounding_mode_to_host mode) neg q r (2 ^ s) False then q + 1 else q)"
    and "snd (fp_round_shift_right v s mode neg) \<longleftrightarrow> r \<noteq> 0"
proof -
  let ?d = "drop_bit s v" and ?m = "v AND ones s" and ?h = "push_bit (s - 1) 1 :: u64"
  have q: "unat ?d = q" unfolding q_def unat_drop_bit_eq by (rule drop_bit_eq_div)
  have r: "unat ?m = r" using assms(3) by (simp add: r_def unat_and_ones)
  have m0: "?m = 0 \<longleftrightarrow> r = 0" using r by (metis unat_eq_0)
  have h: "unat ?h = 2 ^ (s - 1)"
    using assms(3) by (intro unat_push_bit_1) simp
  have two: "2 * 2 ^ (s - 1) = (2 :: nat) ^ s" using assms(2) by (metis power_eq_if not_gr_zero)
  have odd: "?d AND 1 \<noteq> 0 \<longleftrightarrow> odd q" 
  proof -
    have "unat (?d AND 1) = q mod 2" unfolding unsigned_and_eq q unsigned_1 by (rule and_one_eq)
    then show ?thesis by (metis even_iff_mod_2_eq_zero unat_eq_0)
  qed
  have qb: "q < 2 ^ 63"
  proof -
    have "q \<le> unat v div 2 ^ 1" unfolding q_def using assms(2) by (intro div_le_mono2 power_increasing) simp_all
    also have "\<dots> < 2 ^ 63" using unat_less_u64 [of v] by simp
    finally show ?thesis .
  qed
  have suc: "unat (?d + 1) = q + 1" using qb q unat_plus_no_wrap [of ?d 1] by simp
  have "?h < ?m \<longleftrightarrow> 2 ^ (s - 1) < r" "?m = ?h \<longleftrightarrow> r = 2 ^ (s - 1)"
    by (simp_all only: word_less_nat_alt word_unat_eq_iff h r)
  then have gt: "?h < ?m \<longleftrightarrow> 2 ^ s < 2 * r" "?m = ?h \<longleftrightarrow> 2 * r = 2 ^ s" using two by linarith+
  show "snd (fp_round_shift_right v s mode neg) \<longleftrightarrow> r \<noteq> 0"
    using assms(1-3) m0 by (simp add: fp_round_shift_right_def Let_def)
  show "unat (fst (fp_round_shift_right v s mode neg)) =
      (if rounds_up (fpcr_rounding_mode_to_host mode) neg q r (2 ^ s) False then q + 1 else q)"
    using assms(1-3) m0 q suc odd gt
    by (simp add: fp_round_shift_right_def Let_def mode_cases rounds_up_def)
qed

text \<open>A significand \<open>M\<close> of unit \<open>2 powi E\<close> cut by \<open>s\<close> bits.\<close>
lemma fp_rounds_cut:
  fixes b :: "'a::len word"
  assumes "LENGTH('a) = 16 \<or> LENGTH('a) = 32 \<or> LENGTH('a) = 64"
    and "U = E + int s" "q = M div 2 ^ s" "r = M mod 2 ^ s"
    and "U = fp_min_exp TYPE('a) - int (fp_frac_bits_count TYPE('a)) \<or>
      fp_min_exp TYPE('a) - int (fp_frac_bits_count TYPE('a)) \<le> U \<and> 2 ^ fp_frac_bits_count TYPE('a) \<le> q"
    and "x = (if neg then - 1 else 1) * (real M * 2 powi E)"
    and "up \<longleftrightarrow> rounds_up mode neg q r (2 ^ s) False"
    and "fp_finite b" "fp_real b = (if neg then - 1 else 1) * (real (if up then q + 1 else q) * 2 powi U)"
    and "even (if up then q + 1 else q) \<Longrightarrow> even (fp_mantissa b)"
  shows "fp_rounds mode x b" and "fp_real b = x \<longleftrightarrow> r = 0"
proof -
  define u :: real where "u = 2 powi U"
  define e :: real where "e = 2 powi E"
  have e: "0 < e" "u = e * 2 ^ s" by (simp_all add: e_def u_def assms(2) power_int_add)
  have M: "real M = real q * 2 ^ s + real r"
    using arg_cong [of _ _ real, OF div_mult_mod_eq [of M "2 ^ s"]] by (simp add: assms(3,4))
  have r: "real r < 2 ^ s" using assms(4) by (metis mod_less_divisor of_nat_less_iff of_nat_numeral of_nat_power zero_less_numeral zero_less_power)
  have lo: "real M * e - real q * u = real r * e" by (simp add: M e(2) algebra_simps)
  have hi: "(real q + 1) * u - real M * e = (2 ^ s - real r) * e" by (simp add: M e(2) algebra_simps)
  have b1: "real q * u \<le> real M * e" using lo e(1) by (smt (verit) of_nat_0_le_iff mult_nonneg_nonneg)
  have b2: "real M * e < (real q + 1) * u" using hi e(1) r by (smt (verit) mult_pos_pos)
  have two: "2 ^ s < 2 * r \<longleftrightarrow> 2 ^ s < 2 * real r"
    by (metis of_nat_less_iff of_nat_mult of_nat_numeral of_nat_power)
  have tie: "2 * r = 2 ^ s \<longleftrightarrow> 2 * real r = 2 ^ s"
    by (metis of_nat_eq_iff of_nat_mult of_nat_numeral of_nat_power)
  have half: "(2 ^ s - real r) * e < real r * e \<longleftrightarrow> 2 ^ s < 2 * r" "(2 ^ s - real r) * e = real r * e \<longleftrightarrow> 2 * r = 2 ^ s"
    using e(1) two tie by auto
  have eq: "real M * e \<noteq> real q * u \<longleftrightarrow> r \<noteq> 0"
  proof -
    have "real M * e = real q * u \<longleftrightarrow> real r * e = 0" using lo by linarith
    then show ?thesis using e(1) by simp
  qed
  have up: "up \<longleftrightarrow>
      (case mode of
         FE_TONEAREST \<Rightarrow> (real q + 1) * u - real M * e < real M * e - real q * u \<or>
           (real q + 1) * u - real M * e = real M * e - real q * u \<and> odd q
       | FE_UPWARD \<Rightarrow> real M * e \<noteq> real q * u \<and> \<not> neg
       | FE_DOWNWARD \<Rightarrow> real M * e \<noteq> real q * u \<and> neg
       | FE_TOWARDZERO \<Rightarrow> False)"
    unfolding hi lo half eq assms(7) rounds_up_def by (simp cong: host_rounding.case_cong)
  have x: "x = (if neg then - (real M * e) else real M * e)" by (simp add: assms(6) e_def)
  show "fp_rounds mode x b"
    by (rule fp_rounds_between [OF assms(1,5) u_def b1 b2 x assms(8) assms(9) [folded u_def] assms(10) up])
  have "\<not> rounds_up mode neg q 0 (2 ^ s) False" by (cases mode) (simp_all add: rounds_up_def)
  then have "r \<noteq> 0" if "up" using that assms(7) by (cases "r = 0") simp_all
  moreover have "real (q + 1) * u \<noteq> real M * e" using b2 by (simp only: of_nat_add of_nat_1)
  ultimately have "real (if up then q + 1 else q) * u = real M * e \<longleftrightarrow> r = 0"
    using eq by (cases up) auto
  then show "fp_real b = x \<longleftrightarrow> r = 0" using assms(9) by (simp add: u_def x)
qed

section \<open>Integers to floating point\<close>

lemma ucast_of_unat: "ucast (w :: u64) = (of_nat (unat w) :: 'a::len word)"
  by (rule bit_word_eqI) (simp add: bit_simps)

text \<open>A rounded significand may have reached the next power of two; the code halves it then.\<close>
definition carried :: "nat \<Rightarrow> nat \<Rightarrow> nat" where "carried F q = (if q = 2 ^ (F + 1) then 2 ^ F else q)"

lemma fp_normal_carried:
  fixes b :: "'a::len word"
  assumes "LENGTH('a) = 16 \<or> LENGTH('a) = 32 \<or> LENGTH('a) = 64"
    and "2 ^ fp_frac_bits_count TYPE('a) \<le> q" "q \<le> 2 ^ (fp_frac_bits_count TYPE('a) + 1)"
    and "ex' = (if q = 2 ^ (fp_frac_bits_count TYPE('a) + 1) then ex + 1 else ex)"
    and "1 \<le> ex + fp_exp_bias TYPE('a)" "ex' \<le> fp_exp_bias TYPE('a)"
    and "b = fp_zero_bits neg OR push_bit (fp_frac_bits_count TYPE('a)) (of_int (ex' + fp_exp_bias TYPE('a))) OR
      (of_nat (carried (fp_frac_bits_count TYPE('a)) q) AND fp_frac_mask_bits)"
  shows "fp_finite b"
    and "fp_real b = (if neg then - 1 else 1) * (real q * 2 powi (ex - int (fp_frac_bits_count TYPE('a))))"
    and "even q \<Longrightarrow> even (fp_mantissa b)"
proof -
  let ?F = "fp_frac_bits_count TYPE('a)"
  have F: "1 < ?F" by (rule fp_masks(7) [OF assms(1)])
  have c: "2 ^ ?F \<le> carried ?F q" "carried ?F q < 2 ^ (?F + 1)" using assms(2,3) by (auto simp: carried_def)
  have ex': "1 \<le> ex' + fp_exp_bias TYPE('a)" using assms(4,5) by (simp split: if_splits)
  note n = fp_normal [OF assms(1) c ex' assms(6,7)]
  show "fp_finite b" by (rule n(1))
  have "real (carried ?F q) * 2 powi (ex' - int ?F) = real q * 2 powi (ex - int ?F)"
    using assms(4) by (auto simp: carried_def power_int_add power_int_diff)
  then show "fp_real b = (if neg then - 1 else 1) * (real q * 2 powi (ex - int ?F))"
    by (simp add: fp_real_def n(2-4) signed_mag_def)
  show "even (fp_mantissa b)" if "even q" using that F by (auto simp: n(3) carried_def)
qed

lemma leading_u64:
  assumes "(w :: u64) \<noteq> 0"
  shows "63 - builtin_clz w < 64 \<and> 2 ^ (63 - builtin_clz w) \<le> unat w \<and> unat w < 2 ^ (63 - builtin_clz w + 1)"
  using leading_bit [OF assms, of "63 - builtin_clz w"] by (simp add: builtin_clz_def)

lemma magnitude_u64: "\<bar>v\<bar> < 2 ^ 64 \<Longrightarrow> unat (word_of_int \<bar>v\<bar> :: u64) = nat \<bar>v\<bar>"
  by (simp add: unsigned_of_int take_bit_int_eq_self)

lemma cut_bounds:
  assumes "2 ^ k \<le> M" "M < 2 ^ (k + 1)" "F \<le> k"
  shows "2 ^ F \<le> M div 2 ^ (k - F)" "M div 2 ^ (k - F) < (2 :: nat) ^ (F + 1)"
proof -
  have k: "(2 :: nat) ^ k = 2 ^ F * 2 ^ (k - F)" "(2 :: nat) ^ (k + 1) = 2 ^ (F + 1) * 2 ^ (k - F)"
    using assms(3) by (simp_all flip: power_add)
  then show "2 ^ F \<le> M div 2 ^ (k - F)" using assms(1) by (simp add: less_eq_div_iff_mult_less_eq)
  show "M div 2 ^ (k - F) < (2 :: nat) ^ (F + 1)" using assms(2) k(2) by (simp add: div_less_iff_less_mult)
qed

lemma shift_bounds:
  assumes "2 ^ k \<le> M" "M < 2 ^ (k + 1)" "k \<le> F"
  shows "2 ^ F \<le> M * 2 ^ (F - k)" "M * 2 ^ (F - k) < (2 :: nat) ^ (F + 1)"
proof -
  obtain d where F: "F = k + d" using assms(3) le_iff_add by blast
  show "2 ^ F \<le> M * 2 ^ (F - k)" using assms(1) by (simp add: F power_add)
  have "M * 2 ^ d < 2 ^ (k + 1) * 2 ^ d" using assms(2) by (intro mult_less_mono1) simp_all
  then show "M * 2 ^ (F - k) < (2 :: nat) ^ (F + 1)" by (simp add: F power_add)
qed

lemma unat_push_bit_small:
  assumes "unat (w :: u64) * 2 ^ d < 2 ^ 64"
  shows "unat (push_bit d w) = unat w * 2 ^ d"
proof -
  have "unat (push_bit d w) = take_bit LENGTH(64) (push_bit d (unat w))" by (rule unsigned_push_bit_eq)
  also have "\<dots> = take_bit LENGTH(64) (unat w * 2 ^ d)" by (simp only: push_bit_eq_mult)
  also have "\<dots> = unat w * 2 ^ d" using assms by (simp add: take_bit_nat_eq_self)
  finally show ?thesis .
qed

text \<open>C13. An integer of at most 64 bits becomes the float or the double that IEEE 754 asks for: in every rounding mode
  the value of the format that the mode selects, ties going to the even significand, and the inexact flag is
  raised exactly when the value differs from the integer; no other flag is.\<close>
theorem int_to_fp_correctly_rounded:
  fixes v :: int and r :: "'a::len word \<times> u64"
  assumes "LENGTH('a) = 32 \<or> LENGTH('a) = 64" "\<bar>v\<bar> < 2 ^ 64" "r = fp_int_to_fp_bits v fpcr"
  shows "fp_rounds (fpcr_rounding_mode_to_host fpcr) (real_of_int v) (fst r) \<and>
    snd r = (if fp_real (fst r) = real_of_int v then 0 else kFpsrIxc)"
proof -
  let ?F = "fp_frac_bits_count TYPE('a)" and ?bias = "fp_exp_bias TYPE('a)"
  have fmt: "LENGTH('a) = 16 \<or> LENGTH('a) = 32 \<or> LENGTH('a) = 64" using assms(1) by blast
  have bias: "64 < ?bias" "?F < 63" using assms(1) by (auto simp: fp_exp_bias_def fp_frac_bits_count_def)
  define M where "M = (word_of_int \<bar>v\<bar> :: u64)"
  have M: "unat M = nat \<bar>v\<bar>" unfolding M_def by (rule magnitude_u64 [OF assms(2)])
  show ?thesis
  proof (cases "v = 0")
    case True
    have "fp_finite (0 :: 'a word)" "fp_real (0 :: 'a word) = 0"
      using assms(1)
      by (auto simp: fp_exp_bits_count_def fp_finite_def fp_exp_field_def fp_real_def fp_mantissa_def fp_frac_field_def signed_mag_def)
    then show ?thesis using True assms(3) by (auto simp: fp_int_to_fp_bits_def fp_rounds_exact)
  next
    case False
    then have M0: "M \<noteq> 0" using M by auto
    let ?k = "63 - builtin_clz M" and ?neg = "v < 0"
    note k = leading_u64 [OF M0]
    have x: "real_of_int v = (if ?neg then - 1 else 1) * (real (unat M) * 2 powi 0)" using M by simp
    show ?thesis
    proof (cases "?k \<le> ?F")
      case True
      let ?q = "unat M * 2 ^ (?F - ?k)"
      have q: "2 ^ ?F \<le> ?q" "?q < 2 ^ (?F + 1)" using shift_bounds [of ?k "unat M" ?F] k True by blast+
      have "(2 :: nat) ^ (?F + 1) \<le> 2 ^ 64" using bias(2) by (intro power_increasing) simp_all
      then have u: "unat (push_bit (?F - ?k) M) = ?q"
        using q(2) by (intro unat_push_bit_small) linarith
      have c: "carried ?F ?q = ?q" using q(2) by (simp only: carried_def) simp
      have "r = (fp_zero_bits ?neg OR push_bit ?F (of_int (int ?k + ?bias)) OR
          (of_nat (carried ?F ?q) AND fp_frac_mask_bits), 0)"
        unfolding assms(3) fp_int_to_fp_bits_def Let_def M_def [symmetric] ucast_of_unat u c by (simp only: M0 True if_True if_False)
      then have b: "fst r = fp_zero_bits ?neg OR push_bit ?F (of_int (int ?k + ?bias)) OR
          (of_nat (carried ?F ?q) AND fp_frac_mask_bits)" "snd r = 0" by simp_all
      have qle: "?q \<le> 2 ^ (?F + 1)" and ex: "int ?k = (if ?q = 2 ^ (?F + 1) then int ?k + 1 else int ?k)"
        and e1: "1 \<le> int ?k + ?bias" and e2: "int ?k \<le> ?bias" using q(2) k bias by auto
      note n = fp_normal_carried [OF fmt q(1) qle ex e1 e2 b(1)]
      have "real ?q * 2 powi (int ?k - int ?F) = real (unat M)"
        using two_powi_shift [of "int ?k - int ?F" 0] True by (simp add: nat_diff_distrib' mult.commute mult.left_commute)
      then have "fp_real (fst r) = real_of_int v" using n(2) x by simp
      then show ?thesis using n(1) b(2) by (simp add: fp_rounds_exact)
    next
      case False
      define s where "s = ?k - ?F"
      have s: "0 < s" "s < 64" using False k by (simp_all add: s_def)
      let ?R = "fp_round_shift_right M s fpcr ?neg" and ?q = "unat M div 2 ^ s" and ?r = "unat M mod 2 ^ s"
      define up where "up = rounds_up (fpcr_rounding_mode_to_host fpcr) ?neg ?q ?r (2 ^ s) False"
      let ?Q = "if up then ?q + 1 else ?q"
      note R = fp_round_shift_right_val [OF M0 s, of fpcr ?neg, folded up_def]
      have q: "2 ^ ?F \<le> ?q" "?q < 2 ^ (?F + 1)"
        using cut_bounds [of ?k "unat M" ?F] k False by (simp_all add: s_def)
      then have Q: "2 ^ ?F \<le> ?Q" "?Q \<le> 2 ^ (?F + 1)" by auto
      have one: "unat (push_bit (?F + 1) 1 :: u64) = 2 ^ (?F + 1)" using bias(2) by (intro unat_push_bit_1) simp
      have top: "fst ?R = push_bit (?F + 1) 1 \<longleftrightarrow> ?Q = 2 ^ (?F + 1)" by (simp only: word_unat_eq_iff one R(1))
      have half: "unat (drop_bit 1 (push_bit (?F + 1) 1 :: u64)) = 2 ^ ?F"
        unfolding unat_drop_bit_eq one by (simp add: drop_bit_eq_div)
      let ?e = "if ?Q = 2 ^ (?F + 1) then int ?k + 1 else int ?k"
      let ?P = "if fst ?R = push_bit (?F + 1) 1 then (drop_bit 1 (fst ?R), int ?k + 1) else (fst ?R, int ?k)"
      have r: "r = (fp_zero_bits ?neg OR push_bit ?F (of_int (snd ?P + ?bias)) OR
          (of_nat (unat (fst ?P)) AND fp_frac_mask_bits), if snd ?R then kFpsrIxc else 0)"
        unfolding assms(3) fp_int_to_fp_bits_def Let_def M_def [symmetric] s_def ucast_of_unat
        by (simp only: M0 False if_True if_False split_beta)
      have P: "snd ?P = ?e \<and> unat (fst ?P) = carried ?F ?Q"
      proof (cases "?Q = 2 ^ (?F + 1)")
        case True
        then have t: "fst ?R = push_bit (?F + 1) 1" using top by blast
        show ?thesis unfolding carried_def if_P [OF t] if_P [OF True] fst_conv snd_conv unfolding t half by blast
      next
        case no: False
        then have t: "fst ?R \<noteq> push_bit (?F + 1) 1" using top by blast
        show ?thesis unfolding carried_def if_not_P [OF t] if_not_P [OF no] fst_conv snd_conv R(1) by blast
      qed
      have b: "fst r = fp_zero_bits ?neg OR push_bit ?F (of_int (?e + ?bias)) OR
          (of_nat (carried ?F ?Q) AND fp_frac_mask_bits)"
        unfolding r fst_conv P [THEN conjunct1] P [THEN conjunct2] ..
      have f: "snd r = (if ?r \<noteq> 0 then kFpsrIxc else 0)" unfolding r snd_conv R(2) ..
      have e1: "1 \<le> int ?k + ?bias" and e2: "?e \<le> ?bias" using k bias by auto
      note n = fp_normal_carried [OF fmt Q refl e1 e2 b]
      have U: "int ?k - int ?F = 0 + int s" using False by (simp add: s_def)
      have g: "int ?k - int ?F = fp_min_exp TYPE('a) - int ?F \<or> fp_min_exp TYPE('a) - int ?F \<le> int ?k - int ?F \<and> 2 ^ ?F \<le> ?q"
        using q(1) bias(1) by (simp add: fp_min_exp_def)
      note c = fp_rounds_cut [OF fmt U refl refl g x up_def n(1,2) n(3)]
      show ?thesis using c f by simp
    qed
  qed
qed

text \<open>The first integer that a float cannot hold.\<close>
lemma int_to_fp_correctly_rounded_witness:
  "fp_rounds FE_UPWARD 16777217 (0x4B800001 :: u32) \<and>
   (fp_int_to_fp_bits 16777217 1 :: u32 \<times> u64) = (0x4B800001, kFpsrIxc)"
proof -
  have r: "(fp_int_to_fp_bits 16777217 1 :: u32 \<times> u64) = (0x4B800001, kFpsrIxc)" by code_simp
  have m: "fpcr_rounding_mode_to_host 1 = FE_UPWARD" by code_simp
  show ?thesis using int_to_fp_correctly_rounded [of 16777217 _ 1, OF _ _ r [symmetric]] r by (simp add: m)
qed

end
