(* ===== verification/Cpu_Fp_Arith_Proofs.thy ===== *)
theory Cpu_Fp_Arith_Proofs
  imports Cpu_Fp_Arith Cpu_Fp_Convert
begin

text \<open>
  Properties of the floating-point arithmetic: flush-to-zero hides every subnormal number, the loops of
  the estimates end with a normalised operand, and the table values stay in their range.
\<close>

section \<open>Flush to zero\<close>

lemma exp_mask_nonzero: "LENGTH('a::len) = 32 \<or> LENGTH('a) = 64 \<Longrightarrow> (fp_exp_mask_bits :: 'a word) \<noteq> 0"
  by (auto simp: fp_exp_mask_bits_def)

lemma subnormal_exp: "b AND fp_exp_mask_bits \<noteq> 0 \<Longrightarrow> \<not> fp_is_subnormal_bits b"
  by (simp add: fp_is_subnormal_bits_def)

lemma subnormal_frac: "b AND fp_frac_mask_bits = 0 \<Longrightarrow> \<not> fp_is_subnormal_bits b"
  by (simp add: fp_is_subnormal_bits_def)

lemma normal_patterns:
  assumes "LENGTH('a::len) = 32 \<or> LENGTH('a) = 64"
  shows "\<not> fp_is_subnormal_bits (fp_zero_bits neg :: 'a word)" "\<not> fp_is_subnormal_bits (fp_inf_bits neg :: 'a word)"
    "\<not> fp_is_subnormal_bits (fp_default_nan_bits :: 'a word)" "\<not> fp_is_subnormal_bits (fp_max_normal_bits neg :: 'a word)"
    "\<not> fp_is_subnormal_bits (fp_two_bits :: 'a word)" "\<not> fp_is_subnormal_bits (fp_two_bits OR fp_sign_mask_bits :: 'a word)"
    "\<not> fp_is_subnormal_bits (fp_one_point_five_bits :: 'a word)"
  using assms
  by (auto simp: fp_is_subnormal_bits_def fp_zero_bits_def fp_inf_bits_def fp_default_nan_bits_def fp_max_normal_bits_def
      fp_two_bits_def fp_one_point_five_bits_def fp_sign_mask_bits_def fp_exp_mask_bits_def fp_frac_mask_bits_def fp_quiet_nan_bit_def)

lemma flushed_input: "fpcr_flush_to_zero_enabled m \<Longrightarrow> LENGTH('a) = 32 \<or> LENGTH('a) = 64 \<Longrightarrow>
    \<not> fp_is_subnormal_bits (fst (fp_flush_input_denormal_bits (b :: 'a::len word) m s))"
  by (simp add: fp_flush_input_denormal_bits_def normal_patterns)

lemma flushed_output: "fpcr_flush_to_zero_enabled m \<Longrightarrow> LENGTH('a) = 32 \<or> LENGTH('a) = 64 \<Longrightarrow>
    \<not> fp_is_subnormal_bits (fst (fp_flush_output_denormal_bits (b :: 'a::len word) m s))"
  by (simp add: fp_flush_output_denormal_bits_def normal_patterns)

lemma or_and_nonzero: "(a AND m :: 'a::len word) \<noteq> 0 \<Longrightarrow> (a OR b) AND m \<noteq> 0"
  by (metis bit.conj_disj_distrib2 or_eq_0_iff)

lemma nan_not_subnormal:
  assumes "LENGTH('a::len) = 32 \<or> LENGTH('a) = 64" "fp_is_nan_bits (b :: 'a word)"
  shows "\<not> fp_is_subnormal_bits b" "\<not> fp_is_subnormal_bits (fp_quiet_nan_bits b)"
proof -
  have "b AND fp_exp_mask_bits \<noteq> 0" using assms exp_mask_nonzero by (auto simp: fp_is_nan_bits_def)
  then show "\<not> fp_is_subnormal_bits b" "\<not> fp_is_subnormal_bits (fp_quiet_nan_bits b)"
    by (auto intro!: subnormal_exp simp: fp_quiet_nan_bits_def or_and_nonzero)
qed

lemma signaling_is_nan: "fp_is_signaling_nan_bits b \<Longrightarrow> fp_is_nan_bits b"
  by (simp add: fp_is_signaling_nan_bits_def)

lemma nan_operand:
  assumes "LENGTH('a::len) = 32 \<or> LENGTH('a) = 64" "fp_is_nan_bits (b :: 'a word)"
  shows "\<not> fp_is_subnormal_bits (fst (fp_process_nan_operand_bits b m raise s))"
  using assms by (auto simp: fp_process_nan_operand_bits_def normal_patterns nan_not_subnormal)

lemma processed_nan:
  assumes "LENGTH('a::len) = 32 \<or> LENGTH('a) = 64"
  shows "fp_process_nan_unary (a :: 'a word) m raise s = Some r \<Longrightarrow> \<not> fp_is_subnormal_bits (fst r)"
    and "fp_process_nan_binary (a :: 'a word) b m s = Some r \<Longrightarrow> \<not> fp_is_subnormal_bits (fst r)"
    and "fp_process_nan_ternary (a :: 'a word) b c m s = Some r \<Longrightarrow> \<not> fp_is_subnormal_bits (fst r)"
  by (auto simp: fp_process_nan_unary_def fp_process_nan_binary_def fp_process_nan_ternary_def
      signaling_is_nan nan_operand [OF assms] split: if_splits)

lemma finished: "fpcr_flush_to_zero_enabled m \<Longrightarrow> LENGTH('a) = 32 \<or> LENGTH('a) = 64 \<Longrightarrow>
    \<not> fp_is_subnormal_bits (fst (fp_finish (re :: 'a::len word \<times> host_exceptions) m s))"
  by (simp add: fp_finish_def flushed_output)

lemma zero_parts:
  assumes "LENGTH('a::len) = 32 \<or> LENGTH('a) = 64" "fp_is_zero (a :: 'a word)" "fp_is_zero b"
  shows "\<not> fp_is_subnormal_bits (a OR b)" "\<not> fp_is_subnormal_bits (a AND b)"
proof -
  have m: "(fp_frac_mask_bits :: 'a word) AND fp_sign_mask_bits = 0"
    using assms(1) by (auto simp: fp_frac_mask_bits_def fp_sign_mask_bits_def)
  have f: "c AND fp_frac_mask_bits = 0" if "fp_is_zero c" for c :: "'a word"
  proof (rule bit_word_eqI)
    fix i assume i: "i < LENGTH('a)"
    have "\<not> bit (c AND NOT fp_sign_mask_bits) i" "\<not> bit ((fp_frac_mask_bits :: 'a word) AND fp_sign_mask_bits) i"
      using that m by (simp_all add: fp_is_zero_def)
    then show "bit (c AND fp_frac_mask_bits) i = bit 0 i" using i by (auto simp: bit_simps)
  qed
  show "\<not> fp_is_subnormal_bits (a OR b)"
    using f [OF assms(2)] f [OF assms(3)] by (intro subnormal_frac) (simp add: bit.conj_disj_distrib2)
  show "\<not> fp_is_subnormal_bits (a AND b)"
    using f [OF assms(3)] by (intro subnormal_frac) (simp add: and.assoc)
qed

lemma flush_binary:
  fixes a b :: "'a::len word"
  assumes "LENGTH('a) = 32 \<or> LENGTH('a) = 64" "fpcr_flush_to_zero_enabled m"
  shows "\<not> fp_is_subnormal_bits (fst (fp_binary_arith_bits h a b m oper))"
proof (cases "fp_process_nan_binary a b m 0")
  case None
  then show ?thesis using assms by (simp add: fp_binary_arith_bits_def Let_def split_beta finished normal_patterns)
qed (simp add: fp_binary_arith_bits_def processed_nan [OF assms(1)])

lemma flush_mulx:
  fixes a b :: "'a::len word"
  assumes "LENGTH('a) = 32 \<or> LENGTH('a) = 64" "fpcr_flush_to_zero_enabled m"
  shows "\<not> fp_is_subnormal_bits (fst (fp_mulx_bits h a b m))"
proof (cases "fp_process_nan_binary a b m 0")
  case None
  then show ?thesis using assms by (simp add: fp_mulx_bits_def Let_def split_beta finished normal_patterns)
qed (simp add: fp_mulx_bits_def processed_nan [OF assms(1)])

lemma flush_fma:
  fixes a b d :: "'a::len word"
  assumes "LENGTH('a) = 32 \<or> LENGTH('a) = 64" "fpcr_flush_to_zero_enabled m"
  shows "\<not> fp_is_subnormal_bits (fst (fp_fma_bits h a b d m np na))"
proof (cases "fp_process_nan_ternary (if np then a XOR fp_sign_mask_bits else a) b (if na then d XOR fp_sign_mask_bits else d) m 0")
  case None
  then show ?thesis using assms by (simp add: fp_fma_bits_def Let_def split_beta finished normal_patterns)
qed (simp add: fp_fma_bits_def Let_def processed_nan [OF assms(1)])

lemma flush_sqrt:
  fixes a :: "'a::len word"
  assumes "LENGTH('a) = 32 \<or> LENGTH('a) = 64" "fpcr_flush_to_zero_enabled m"
  shows "\<not> fp_is_subnormal_bits (fst (fp_sqrt_bits h a m))"
proof (cases "fp_process_nan_unary a m True 0")
  case None
  then show ?thesis
    using assms flushed_input [OF assms(2,1)] by (simp add: fp_sqrt_bits_def Let_def split_beta finished normal_patterns)
qed (simp add: fp_sqrt_bits_def processed_nan [OF assms(1)])

lemma flush_recip:
  fixes a :: "'a::len word"
  assumes "LENGTH('a) = 32 \<or> LENGTH('a) = 64" "fpcr_flush_to_zero_enabled m"
  shows "\<not> fp_is_subnormal_bits (fst (fp_recip_estimate_bits a m))"
proof (cases "fp_process_nan_unary a m True 0")
  case None
  have "\<not> fp_is_subnormal_bits (fst (if p then (fp_zero_bits sg :: 'a word, s1) else if q then (fp_inf_bits sg, s2)
      else if t then (if u then fp_inf_bits sg else fp_max_normal_bits sg, s3) else fp_flush_output_denormal_bits r m s4))"
    for p q t u sg s1 s2 s3 s4 r
    using assms by (simp add: flushed_output normal_patterns)
  then show ?thesis using None unfolding fp_recip_estimate_bits_def Let_def by (simp only: option.case split_beta not_False_eq_True)
qed (simp add: fp_recip_estimate_bits_def processed_nan [OF assms(1)])

lemma flush_rsqrt:
  fixes a :: "'a::len word"
  assumes "LENGTH('a) = 32 \<or> LENGTH('a) = 64" "fpcr_flush_to_zero_enabled m"
  shows "\<not> fp_is_subnormal_bits (fst (fp_rsqrt_estimate_bits a m))"
proof (cases "fp_process_nan_unary a m True 0")
  case None
  have "\<not> fp_is_subnormal_bits (fst (if p then (if sg then (fp_default_nan_bits :: 'a word, s1) else (fp_zero_bits False, s2))
      else if q then (fp_inf_bits sg, s3) else if sg then (fp_default_nan_bits, s4) else fp_flush_output_denormal_bits r m s5))"
    for p q sg s1 s2 s3 s4 s5 r
    using assms by (simp add: flushed_output normal_patterns)
  then show ?thesis using None unfolding fp_rsqrt_estimate_bits_def Let_def by (simp only: option.case split_beta not_False_eq_True)
qed (simp add: fp_rsqrt_estimate_bits_def processed_nan [OF assms(1)])

lemma flush_step:
  fixes a b :: "'a::len word"
  assumes "LENGTH('a) = 32 \<or> LENGTH('a) = 64" "fpcr_flush_to_zero_enabled m" "\<not> fp_is_subnormal_bits special"
  shows "\<not> fp_is_subnormal_bits (fst (fp_step_fused k special f h a b m))"
proof (cases "fp_process_nan_binary (a XOR fp_sign_mask_bits) b m 0")
  case None
  then show ?thesis using assms by (simp add: fp_step_fused_def Let_def split_beta finished normal_patterns)
qed (simp add: fp_step_fused_def Let_def processed_nan [OF assms(1)])

lemma flush_minmax:
  fixes a b :: "'a::len word"
  assumes "LENGTH('a) = 32 \<or> LENGTH('a) = 64" "fpcr_flush_to_zero_enabled m"
  shows "\<not> fp_is_subnormal_bits (fst (fp_minmax_result_bits a b m is_min numeric))"
proof -
  define x where "x = fst (fp_flush_input_denormal_bits a m 0)"
  define y where "y = fst (fp_flush_input_denormal_bits b m (snd (fp_flush_input_denormal_bits a m 0)))"
  have n: "\<not> fp_is_subnormal_bits x" "\<not> fp_is_subnormal_bits y"
    using flushed_input [OF assms(2,1)] by (simp_all add: x_def y_def)
  have q: "fp_is_signaling_nan_bits x \<Longrightarrow> \<not> fp_is_subnormal_bits (fp_quiet_nan_bits x)"
    "fp_is_signaling_nan_bits y \<Longrightarrow> \<not> fp_is_subnormal_bits (fp_quiet_nan_bits y)"
    using nan_not_subnormal [OF assms(1)] signaling_is_nan by blast+
  have z: "fp_is_zero x \<Longrightarrow> fp_is_zero y \<Longrightarrow> \<not> fp_is_subnormal_bits (x OR y) \<and> \<not> fp_is_subnormal_bits (x AND y)"
    using zero_parts [OF assms(1)] by blast
  show ?thesis
    using n q z assms
    by (simp add: fp_minmax_result_bits_def Let_def split_beta flushed_output normal_patterns flip: x_def y_def)
qed

text \<open>C17. With flush-to-zero no operation on floats or doubles returns a subnormal number, whatever its operands and
  whatever the host computes.\<close>
theorem flush_hides_subnormals:
  fixes a b d :: "'a::len word"
  assumes "LENGTH('a) = 32 \<or> LENGTH('a) = 64" "fpcr_flush_to_zero_enabled m"
  shows "\<not> fp_is_subnormal_bits (fst (fp_binary_arith_bits h a b m oper)) \<and>
    \<not> fp_is_subnormal_bits (fst (fp_mulx_bits h a b m)) \<and>
    \<not> fp_is_subnormal_bits (fst (fp_fma_bits h a b d m np na)) \<and>
    \<not> fp_is_subnormal_bits (fst (fp_sqrt_bits h a m)) \<and>
    \<not> fp_is_subnormal_bits (fst (fp_minmax_result_bits a b m is_min numeric)) \<and>
    \<not> fp_is_subnormal_bits (fst (fp_recip_estimate_bits a m)) \<and>
    \<not> fp_is_subnormal_bits (fst (fp_rsqrt_estimate_bits a m)) \<and>
    \<not> fp_is_subnormal_bits (fst (fp_recip_step_fused_bits h a b m)) \<and>
    \<not> fp_is_subnormal_bits (fst (fp_rsqrt_step_fused_bits h a b m))"
  by (intro conjI) (simp_all add: flush_binary flush_mulx flush_fma flush_sqrt flush_minmax flush_recip flush_rsqrt
      fp_recip_step_fused_bits_def fp_rsqrt_step_fused_bits_def flush_step normal_patterns assms)

text \<open>Half of the smallest normal float.\<close>
lemma flush_hides_subnormals_witness:
  "\<forall>h :: host. \<not> fp_is_subnormal_bits (fst (fp_binary_arith_bits h (0x00800000 :: u32) 0x3F000000 kFpcrCtlFz FpMul))"
proof
  fix h :: host
  have "fpcr_flush_to_zero_enabled kFpcrCtlFz" by code_simp
  then show "\<not> fp_is_subnormal_bits (fst (fp_binary_arith_bits h (0x00800000 :: u32) 0x3F000000 kFpcrCtlFz FpMul))"
    by (intro flush_hides_subnormals [THEN conjunct1]) simp_all
qed

section \<open>The loops\<close>

lemma bit_top: "unat (w :: 'a::len word) < 2 ^ Suc k \<Longrightarrow> bit w k \<longleftrightarrow> 2 ^ k \<le> unat w"
proof -
  assume b: "unat w < 2 ^ Suc k"
  have "bit w k \<longleftrightarrow> odd (unat w div 2 ^ k)" by (simp add: bit_unsigned_iff flip: bit_iff_odd)
  moreover have "unat w div 2 ^ k < 2" using b by (simp add: div_less_iff_less_mult)
  ultimately show "bit w k \<longleftrightarrow> 2 ^ k \<le> unat w"
    by (metis div_greater_zero_iff even_zero less_2_cases neq0_conv odd_one zero_less_numeral zero_less_power One_nat_def)
qed

lemma and_bit_zero: "w AND push_bit k 1 = 0 \<longleftrightarrow> \<not> bit (w :: 'a::len word) k"
proof
  assume "w AND push_bit k 1 = 0"
  then have "\<not> bit (w AND push_bit k 1) k" by simp
  then show "\<not> bit w k" by (auto simp: bit_simps dest: bit_imp_le_length)
next
  assume "\<not> bit w k"
  then show "w AND push_bit k 1 = 0" by (intro bit_word_eqI) (auto simp: bit_simps)
qed

text \<open>A loop that shifts its operand left until the bit \<open>top\<close> is set, counting the shifts down from \<open>x\<close>.\<close>
locale normaliser =
  fixes loop :: "nat \<Rightarrow> 'a::len word \<Rightarrow> int \<Rightarrow> 'a word \<times> int" and top :: nat
  assumes no_fuel: "loop 0 f x = (f, x)"
    and step: "loop (Suc n) f x = (if bit f top then (f, x) else loop n (push_bit 1 f) (x - 1))"
    and room: "top + 1 < LENGTH('a)"
begin

lemma doubled: "unat (f :: 'a word) < 2 ^ top \<Longrightarrow> unat (push_bit 1 f) = 2 * unat f"
proof -
  assume "unat f < 2 ^ top"
  then have "2 * unat f < 2 ^ (top + 1)" by simp
  also have "\<dots> \<le> 2 ^ LENGTH('a)" using room by (intro power_increasing) simp_all
  finally have "take_bit LENGTH('a) (2 * unat f) = 2 * unat f" by (rule take_bit_nat_eq_self)
  moreover have "unat (push_bit 1 f) = take_bit LENGTH('a) (push_bit 1 (unat f))" by (rule unsigned_push_bit_eq)
  ultimately show ?thesis by (simp add: push_bit_eq_mult mult.commute)
qed

lemma stops: "bit f top \<Longrightarrow> loop m f x = (f, x)"
  by (cases m) (simp_all add: no_fuel step)

text \<open>With the leading bit at most \<open>n\<close> places away, \<open>n\<close> steps are enough and more change nothing.\<close>
lemma ends:
  assumes "2 ^ (top - n) \<le> unat f" "unat f < 2 ^ (top + 1)" "n \<le> top"
  shows "\<exists>k \<le> n. \<exists>g. unat g = 2 ^ k * unat f \<and> bit g top \<and> unat g < 2 ^ (top + 1) \<and> (\<forall>m \<ge> n. loop m f x = (g, x - int k))"
  using assms
proof (induction n arbitrary: f x)
  case 0
  then have "bit f top" using bit_top [of f top] by simp
  then show ?case using 0 by (intro exI [of _ 0] conjI exI [of _ f]) (simp_all add: stops)
next
  case (Suc n)
  show ?case
  proof (cases "bit f top")
    case True
    then show ?thesis using Suc.prems by (intro exI [of _ 0] conjI exI [of _ f]) (simp_all add: stops)
  next
    case False
    then have lt: "unat f < 2 ^ top" using bit_top [of f top] Suc.prems(2) by simp
    note d = doubled [OF lt]
    have "2 * 2 ^ (top - Suc n) = (2 :: nat) ^ (top - n)" using Suc.prems(3) by (metis Suc_diff_Suc Suc_le_lessD power_Suc)
    then have lo: "2 ^ (top - n) \<le> unat (push_bit 1 f)" unfolding d using Suc.prems(1) by linarith
    have hi: "unat (push_bit 1 f) < 2 ^ (top + 1)" unfolding d using lt by simp
    obtain k g where k: "k \<le> n" "unat g = 2 ^ k * unat (push_bit 1 f)" "bit g top" "unat g < 2 ^ (top + 1)"
      "\<And>m. n \<le> m \<Longrightarrow> loop m (push_bit 1 f) (x - 1) = (g, x - 1 - int k)"
      using Suc.IH [OF lo hi, of "x - 1"] Suc.prems(3) by auto
    have "loop m f x = (g, x - int (Suc k))" if m: "Suc n \<le> m" for m
    proof -
      from m have "n \<le> m - 1" "m = Suc (m - 1)" by linarith+
      then show ?thesis using step [of "m - 1" f x] False k(5) [of "m - 1"] by simp
    qed
    then show ?thesis using k by (intro exI [of _ "Suc k"] conjI exI [of _ g]) (simp_all only: d power_Suc, simp_all)
  qed
qed

end

interpretation fraction: normaliser normalize_fraction 51
  by unfold_locales (simp_all add: and_bit_zero del: push_bit_of_1)

interpretation half: normaliser normalize_half 10
  using and_bit_zero [where k = 10 and 'a = 32] by unfold_locales simp_all

text \<open>C29. The normalising loops of the reciprocal square root estimate and of the half-precision conversion end: a nonzero
  fraction reaches its top bit after at most 51 and 10 shifts, the exponent counts the shifts, and the model's number of
  steps changes nothing, since every larger one gives the same result.\<close>
theorem normalising_loops_end:
  assumes "f \<noteq> 0" "unat f < 2 ^ 52" "h \<noteq> 0" "unat h < 2 ^ 10"
  shows "(\<exists>k \<le> 51. \<exists>g. unat g = 2 ^ k * unat f \<and> bit g 51 \<and> (\<forall>m \<ge> 51. normalize_fraction m f x = (g, x - int k))) \<and>
    (\<exists>k \<le> 10. \<exists>g. unat g = 2 ^ k * unat h \<and> bit g 10 \<and> (\<forall>m \<ge> 10. normalize_half m h x = (g, x - int k)))"
proof -
  have "1 \<le> unat f" "1 \<le> unat h" using assms(1,3) by (simp_all add: Suc_le_eq unat_gt_0)
  then show ?thesis using fraction.ends [of 51 f x] half.ends [of 10 h x] assms(2,4) by auto
qed

lemma normalising_loops_end_witness:
  "\<exists>k \<le> 51. \<exists>g. unat g = 2 ^ k * unat (1 :: u64) \<and> bit g 51 \<and> (\<forall>m \<ge> 51. normalize_fraction m 1 0 = (g, 0 - int k))"
  using normalising_loops_end [of 1 1 0] by simp

section \<open>Table values\<close>

lemma rsqrt_loop_root:
  assumes "a \<noteq> 0"
  shows "b \<le> rsqrt_estimate_loop limit a b" "limit \<le> a * (rsqrt_estimate_loop limit a b + 1) * (rsqrt_estimate_loop limit a b + 1)"
    "rsqrt_estimate_loop limit a b = b \<or> a * rsqrt_estimate_loop limit a b * rsqrt_estimate_loop limit a b < limit"
  using assms
proof (induction limit a b rule: rsqrt_estimate_loop.induct)
  case (1 limit a b)
  {
    case 1
    then show ?case using "1.IH" by (subst rsqrt_estimate_loop.simps) auto
  next
    case 2
    then show ?case using "1.IH" by (subst (1 2) rsqrt_estimate_loop.simps) auto
  next
    case 3
    then show ?case using "1.IH" by (subst (1 2 3) rsqrt_estimate_loop.simps) auto
  }
qed

lemma recip_estimate_range:
  assumes "256 \<le> unat (a :: u32)" "unat a < 512"
  shows "unat (fp_recip_estimate_integer a False) = (2 ^ 19 div (2 * unat a + 1) + 1) div 2"
    and "256 \<le> unat (fp_recip_estimate_integer a False)" "unat (fp_recip_estimate_integer a False) < 512"
proof -
  let ?d = "ucast a * 2 + 1 :: u64" and ?b = "(2 :: nat) ^ 19 div (2 * unat a + 1)"
  have d: "unat ?d = 2 * unat a + 1" using assms(2) by (simp add: unat_word_ariths)
  have "unat (2 ^ 19 :: u64) = 2 ^ 19" by simp
  then have b: "unat (2 ^ 19 div ?d) = ?b" using d by (simp add: unat_div)
  have lo: "512 \<le> ?b" using assms by (simp add: less_eq_div_iff_mult_less_eq)
  have hi: "?b < 1023" using assms by (simp add: div_less_iff_less_mult)
  have "unat ((2 ^ 19 div ?d + 1) div 2) = (?b + 1) div 2" using b hi by (simp add: unat_div unat_word_ariths)
  moreover have "(?b + 1) div 2 < 512" "256 \<le> (?b + 1) div 2" using lo hi by linarith+
  moreover have "fp_recip_estimate_integer a False = ucast ((2 ^ 19 div ?d + 1) div 2)"
    by (simp add: fp_recip_estimate_integer_def Let_def)
  ultimately show "unat (fp_recip_estimate_integer a False) = (?b + 1) div 2"
    "256 \<le> unat (fp_recip_estimate_integer a False)" "unat (fp_recip_estimate_integer a False) < 512"
    by (simp_all add: unat_ucast_u64_small)
qed

lemma rsqrt_estimate_range:
  assumes "128 \<le> unat (a :: u32)" "unat a < 512"
    and "m = (if unat a < 256 then 2 * unat a + 1 else 2 * (unat a - unat a mod 2 + 1))"
  shows "\<exists>r. unat (fp_rsqrt_estimate_integer a False) = (r + 1) div 2 \<and> m * r * r < 2 ^ 28 \<and> 2 ^ 28 \<le> m * (r + 1) * (r + 1)"
    and "256 \<le> unat (fp_rsqrt_estimate_integer a False)" "unat (fp_rsqrt_estimate_integer a False) < 512"
proof -
  have m: "257 \<le> m" "m \<le> 1022"
    using assms(1,2) by (auto simp: assms(3)) presburger
  define r where "r = rsqrt_estimate_loop (2 ^ 28) m 512"
  have m0: "m \<noteq> 0" using m by simp
  note root = rsqrt_loop_root [OF m0, where b = 512 and limit = "2 ^ 28", folded r_def]
  have lt: "m * r * r < 2 ^ 28"
  proof (cases "r = 512")
    case True
    have "m * 512 * 512 \<le> 1022 * 512 * 512" using m(2) by simp
    then show ?thesis using True by simp
  next
    case False
    then show ?thesis using root(3) by simp
  qed
  have hi: "r < 1023"
  proof (rule ccontr)
    assume "\<not> r < 1023"
    then have "257 * 1023 * 1023 \<le> m * r * r" using m(1) by (intro mult_le_mono) simp_all
    then show False using lt by simp
  qed
  have e: "fp_rsqrt_estimate_integer a False = of_nat ((r + 1) div 2)"
    by (simp add: fp_rsqrt_estimate_integer_def Let_def r_def assms(3) mult.commute)
  have "unat (fp_rsqrt_estimate_integer a False) = (r + 1) div 2" unfolding e using hi by (simp add: unat_of_nat)
  then show "\<exists>r. unat (fp_rsqrt_estimate_integer a False) = (r + 1) div 2 \<and> m * r * r < 2 ^ 28 \<and> 2 ^ 28 \<le> m * (r + 1) * (r + 1)"
    "256 \<le> unat (fp_rsqrt_estimate_integer a False)" "unat (fp_rsqrt_estimate_integer a False) < 512"
    using lt root(1,2) hi by auto
qed

text \<open>C30. The estimates of the reciprocal and of its square root have nine bits with the leading one set, which the
  encoding of the result drops. The first is the rounded quotient of the middle of the operand's interval, the second
  is half of the largest number whose square times that middle stays below two to the 28.\<close>
theorem estimates_in_range:
  assumes "256 \<le> unat (a :: u32)" "unat a < 512" "128 \<le> unat (c :: u32)" "unat c < 512"
    and "m = (if unat c < 256 then 2 * unat c + 1 else 2 * (unat c - unat c mod 2 + 1))"
  shows "unat (fp_recip_estimate_integer a False) = (2 ^ 19 div (2 * unat a + 1) + 1) div 2 \<and>
    256 \<le> unat (fp_recip_estimate_integer a False) \<and> unat (fp_recip_estimate_integer a False) < 512 \<and>
    (\<exists>r. unat (fp_rsqrt_estimate_integer c False) = (r + 1) div 2 \<and> m * r * r < 2 ^ 28 \<and> 2 ^ 28 \<le> m * (r + 1) * (r + 1)) \<and>
    256 \<le> unat (fp_rsqrt_estimate_integer c False) \<and> unat (fp_rsqrt_estimate_integer c False) < 512"
  using recip_estimate_range [OF assms(1,2)] rsqrt_estimate_range [OF assms(3-5)] by blast

lemma estimates_in_range_witness:
  "unat (fp_recip_estimate_integer 300 False) = 436 \<and> 256 \<le> unat (fp_rsqrt_estimate_integer 128 False)"
  using estimates_in_range [of 300 128] by simp

end
