(* ===== verification/Cpu_Simd_Proofs.thy ===== *)
theory Cpu_Simd_Proofs
  imports Cpu_Simd_Lanes Cpu_Bits_Proofs
begin

text \<open>
  Properties of the SIMD instructions: the elements of a register are independent of each other, and the
  instructions act on them as on integers.
\<close>

section \<open>Elements of a register\<close>

text \<open>The 128 bits of a register.\<close>
definition qbit :: "qreg \<Rightarrow> nat \<Rightarrow> bool" where
  "qbit q i \<longleftrightarrow> (if i < 64 then bit (fst q) i else bit (snd q) (i - 64))"

lemma qreg_eqI: "(\<And>i. i < 128 \<Longrightarrow> qbit p i = qbit q i) \<Longrightarrow> p = q"
proof -
  assume a: "\<And>i. i < 128 \<Longrightarrow> qbit p i = qbit q i"
  have "fst p = fst q"
  proof (rule bit_word_eqI)
    fix i assume "i < LENGTH(64)"
    then show "bit (fst p) i = bit (fst q) i" using a [of i] by (simp add: qbit_def)
  qed
  moreover have "snd p = snd q"
  proof (rule bit_word_eqI)
    fix i assume "i < LENGTH(64)"
    then show "bit (snd p) i = bit (snd q) i" using a [of "i + 64"] by (simp add: qbit_def)
  qed
  ultimately show ?thesis by (simp add: prod_eq_iff)
qed

text \<open>An element that lies in one half of the register.\<close>
definition in_half :: "nat \<Rightarrow> nat \<Rightarrow> bool" where
  "in_half lsb w \<longleftrightarrow> 0 < w \<and> w \<le> 64 \<and> (lsb + w \<le> 64 \<or> 64 \<le> lsb \<and> lsb + w \<le> 128)"

lemma bit_vector_get_bits: "in_half lsb w \<Longrightarrow> bit (vector_get_bits q lsb w) k \<longleftrightarrow> k < w \<and> qbit q (lsb + k)"
  by (auto simp: in_half_def vector_get_bits_def qbit_def bit_simps bit_ones)

lemma qbit_vector_set_bits:
  "in_half lsb w \<Longrightarrow> i < 128 \<Longrightarrow>
    qbit (vector_set_bits lsb w v q) i \<longleftrightarrow> (if lsb \<le> i \<and> i < lsb + w then bit v (i - lsb) else qbit q i)"
  by (auto simp: in_half_def vector_set_bits_def qbit_def bit_simps bit_ones Let_def)

definition elem_size :: "nat \<Rightarrow> bool" where "elem_size e \<longleftrightarrow> e = 8 \<or> e = 16 \<or> e = 32 \<or> e = 64"

lemma elem_in_half: "elem_size e \<Longrightarrow> i < 128 div e \<Longrightarrow> in_half (e * i) e"
  by (auto simp: elem_size_def in_half_def)

lemma bit_vector_get_elem:
  "elem_size e \<Longrightarrow> i < 128 div e \<Longrightarrow> bit (vector_get_elem q e i) k \<longleftrightarrow> k < e \<and> qbit q (e * i + k)"
  by (simp add: vector_get_elem_def bit_vector_get_bits elem_in_half)

lemma get_set_elem:
  assumes "elem_size e" "i < 128 div e" "j < 128 div e"
  shows "vector_get_elem (vector_set_elem e i v q) e j = (if i = j then v AND ones e else vector_get_elem q e j)"
proof (rule bit_word_eqI)
  fix k assume "k < LENGTH(64)"
  have bound: "e * j + k < 128" if "k < e" using that assms(1,3) by (auto simp: elem_size_def)
  have inside: "e * i \<le> e * j + k \<and> e * j + k < e * i + e \<longleftrightarrow> i = j" if "k < e"
    using that assms by (auto simp: elem_size_def)
  show "bit (vector_get_elem (vector_set_elem e i v q) e j) k =
      bit (if i = j then v AND ones e else vector_get_elem q e j) k"
    using assms bound inside
    by (cases "k < e") (auto simp: bit_vector_get_elem vector_set_elem_def qbit_vector_set_bits elem_in_half bit_simps bit_ones elem_size_def)
qed

lemma elem_ext:
  assumes "elem_size e" "\<And>i. i < 128 div e \<Longrightarrow> vector_get_elem p e i = vector_get_elem q e i"
  shows "p = q"
proof (rule qreg_eqI)
  fix n assume n: "n < (128 :: nat)"
  let ?i = "n div e" and ?k = "n mod e"
  have e: "0 < e" "128 mod e = 0" using assms(1) by (auto simp: elem_size_def)
  have i: "?i < 128 div e" using n e by (metis div_less_iff_less_mult dvd_div_mult_self dvd_eq_mod_eq_0)
  have "bit (vector_get_elem p e ?i) ?k = bit (vector_get_elem q e ?i) ?k" using assms(2) [OF i] by simp
  then show "qbit p n = qbit q n" using e(1) by (simp add: bit_vector_get_elem [OF assms(1) i])
qed

lemma get_set_lanes:
  assumes "elem_size e" "base + n \<le> 128 div e" "j < 128 div e"
  shows "vector_get_elem (set_lanes e base n f q) e j =
    (if base \<le> j \<and> j < base + n then f (j - base) AND ones e else vector_get_elem q e j)"
  using assms(2)
proof (induction n)
  case (Suc n)
  have s: "set_lanes e base (Suc n) f q = vector_set_elem e (base + n) (f n) (set_lanes e base n f q)"
    by (simp add: set_lanes_def)
  show ?case using Suc assms(1,3) by (auto simp: s get_set_elem)
qed (auto simp: set_lanes_def)

lemma get_elem_zero: "vector_get_elem (0, 0) e j = 0"
  by (simp add: vector_get_elem_def vector_get_bits_def)

section \<open>Values of an element\<close>

definition elem_value :: "bool \<Rightarrow> nat \<Rightarrow> u64 \<Rightarrow> int" where
  "elem_value is_unsigned e v = (if is_unsigned then uint (v AND ones e) else sign_extend_bits v e)"

definition lowest_value :: "bool \<Rightarrow> nat \<Rightarrow> int" where
  "lowest_value is_unsigned e = (if is_unsigned then 0 else - (2 ^ (e - 1)))"

definition highest_value :: "bool \<Rightarrow> nat \<Rightarrow> int" where
  "highest_value is_unsigned e = (if is_unsigned then 2 ^ e - 1 else 2 ^ (e - 1) - 1)"

definition clamped :: "bool \<Rightarrow> nat \<Rightarrow> int \<Rightarrow> int" where
  "clamped is_unsigned e x = max (lowest_value is_unsigned e) (min (highest_value is_unsigned e) x)"

lemma sign_extend_bits_int:
  assumes "0 < e" "e \<le> 64"
  shows "sign_extend_bits v e = signed_take_bit (e - 1) (uint v)"
proof (rule bit_eqI)
  fix i assume "possible_bit TYPE(int) i"
  have i: "i < e \<and> e - Suc 0 \<le> i \<Longrightarrow> i = e - 1" by linarith
  show "bit (sign_extend_bits v e) i \<longleftrightarrow> bit (signed_take_bit (e - 1) (uint v)) i"
    using assms i by (cases "e = 64"; cases "i = e - 1") (auto simp: sign_extend_bits_def Let_def bit_simps min_def not_le)
qed

lemma uint_and_ones: "e \<le> 64 \<Longrightarrow> uint (v AND ones e) = take_bit e (uint v)"
  by (rule bit_eqI) (auto simp: bit_simps bit_ones)

lemma elem_value_and_ones:
  assumes "0 < e" "e \<le> 64"
  shows "elem_value u e (v AND ones e) = elem_value u e v"
  using assms by (auto simp: elem_value_def sign_extend_bits_int uint_and_ones signed_take_bit_take_bit and.assoc)

lemma elem_value_word_of_int:
  assumes "0 < e" "e \<le> 64" "lowest_value u e \<le> x" "x \<le> highest_value u e"
  shows "elem_value u e (word_of_int x AND ones e) = x"
proof -
  have "(2 :: int) ^ e \<le> 2 ^ 64" using assms(2) by (intro power_increasing) simp_all
  then show ?thesis
    using assms
    by (auto simp: elem_value_def sign_extend_bits_int uint_and_ones and.assoc unsigned_of_int lowest_value_def highest_value_def
        signed_take_bit_int_eq_self take_bit_int_eq_self signed_take_bit_take_bit min_def)
qed

lemma elem_value_bounds:
  assumes "0 < e" "e \<le> 64"
  shows "lowest_value u e \<le> elem_value u e v" "elem_value u e v \<le> highest_value u e"
  using assms signed_take_bit_int_greater_eq_minus_exp [of "e - 1" "uint v"] signed_take_bit_int_less_exp [of "e - 1" "uint v"]
    take_bit_int_less_exp [of e "uint v"]
  by (auto simp: elem_value_def lowest_value_def highest_value_def sign_extend_bits_int uint_and_ones)

lemma saturating_lane_exact:
  assumes "elem_size e" "r = saturating_lane insn e a b" "u = insn_u insn"
    and "x = (if insn AND 0x00002000 \<noteq> 0 then elem_value u e a - elem_value u e b else elem_value u e a + elem_value u e b)"
  shows "elem_value u e (fst r) = clamped u e x" "fst r AND ones e = fst r" "snd r \<longleftrightarrow> clamped u e x \<noteq> x"
proof -
  have e: "0 < e" "e \<le> 64" using assms(1) by (auto simp: elem_size_def)
  have c: "lowest_value u e \<le> clamped u e x" "clamped u e x \<le> highest_value u e"
    using elem_value_bounds [OF e, of u 0] by (auto simp: clamped_def)
  have "r = (word_of_int (clamped u e x) AND ones e, clamped u e x \<noteq> x)"
  proof (cases u)
    case False
    then show ?thesis
      using assms(2-4) elem_value_bounds [OF e, of False 0]
      by (auto simp: saturating_lane_def sat_signed_add_sub_def Let_def elem_value_def saturate_signed_value_def outside_signed_def
          signed_min_def signed_max_def clamped_def lowest_value_def highest_value_def)
  next
    case True
    have "uint (NOT 0 :: u64) = 2 ^ 64 - 1" by code_simp
    then have top: "(if e = 64 then uint (NOT 0 :: u64) else 2 ^ e - 1) = 2 ^ e - 1" by simp
    have diff: "(a AND ones e) - (b AND ones e) = word_of_int (uint (a AND ones e) - uint (b AND ones e))" by simp
    have "uint (a AND ones e) \<ge> 0" "uint (b AND ones e) \<ge> 0" "uint (a AND ones e) < 2 ^ e" "uint (b AND ones e) < 2 ^ e"
      using e by (simp_all add: uint_and_ones)
    moreover from this have "min (2 ^ e - 1) (uint (a AND ones e) - uint (b AND ones e)) = uint (a AND ones e) - uint (b AND ones e)"
      by linarith
    ultimately show ?thesis
      using True assms(2-4)
      unfolding saturating_lane_def sat_unsigned_add_sub_def Let_def top diff
      by (auto simp: elem_value_def clamped_def lowest_value_def highest_value_def word_less_def)
  qed
  then show "elem_value u e (fst r) = clamped u e x" "fst r AND ones e = fst r" "snd r \<longleftrightarrow> clamped u e x \<noteq> x"
    using elem_value_word_of_int [OF e c] by (simp_all add: and.assoc)
qed

section \<open>Instructions on lanes\<close>

lemma unat_and_mask: "unat (w AND mask k :: u32) < 2 ^ k"
  by (simp add: unsigned_take_bit_eq flip: take_bit_eq_mask)

lemma rd_less: "rd_of insn < 32"
  using unat_and_mask [of insn 5] by (simp add: rd_of_def mask_eq_exp_minus_1)

lemma qreg_at_set_qreg:
  "length (c_qregs c) = 32 \<Longrightarrow> i < 32 \<Longrightarrow> qreg_at j (set_qreg i q c) = (if j = i then q else qreg_at j c)"
  by (simp add: qreg_at_def set_qreg_def)

lemma qregs_on_sysregs [simp]: "qreg_at j (on_sysregs f c) = qreg_at j c"
  by (simp add: qreg_at_def on_sysregs_def)

lemma insn_esize_elem: "elem_size (insn_esize insn)"
proof -
  have "insn_size insn < 4" using unat_and_mask [of "drop_bit 22 insn" 2] by (simp add: insn_size_def mask_eq_exp_minus_1)
  then consider "insn_size insn = 0" | "insn_size insn = 1" | "insn_size insn = 2" | "insn_size insn = 3" by linarith
  then show ?thesis by cases (simp_all add: insn_esize_def elem_size_def)
qed

text \<open>C14. The saturating vector sums and differences (SQADD, UQADD, SQSUB, UQSUB) put into every lane the exact result clamped
  to the range of the lane, read and written as signed or unsigned; the lanes above the operands become zero, no
  other register changes, and the cumulative saturation bit is set exactly when some lane was clamped.\<close>
theorem saturating_add_clamps:
  assumes "insn AND 0x9F20FC00 = 0x0E200C00 \<or> insn AND 0x9F20FC00 = 0x0E202C00"
    and "insn_esize insn \<le> insn_bits insn" "length (c_qregs c) = 32"
    and "u = insn_u insn" "e = insn_esize insn" "n = insn_bits insn div e"
    and "x = (\<lambda>i. let a = elem_value u e (vector_get_elem (qreg_at (rn_of insn) c) e i);
                    b = elem_value u e (vector_get_elem (qreg_at (rm_of insn) c) e i)
                in if insn AND 0x00002000 \<noteq> 0 then a - b else a + b)"
  shows "\<exists>c'. exec_sqadd insn c = Some (Some c') \<and>
    (\<forall>i. i < n \<longrightarrow> elem_value u e (vector_get_elem (qreg_at (rd_of insn) c') e i) = clamped u e (x i)) \<and>
    (\<forall>i. n \<le> i \<and> i < 128 div e \<longrightarrow> vector_get_elem (qreg_at (rd_of insn) c') e i = 0) \<and>
    (\<forall>k. k \<noteq> rd_of insn \<longrightarrow> qreg_at k c' = qreg_at k c) \<and>
    r_fpsr (c_sysregs c') =
      (if \<exists>i < n. clamped u e (x i) \<noteq> x i then (r_fpsr (c_sysregs c) OR kFpsrQc) AND kFpsrArchitecturalMask
       else r_fpsr (c_sysregs c))"
proof -
  let ?f = "\<lambda>i. saturating_lane insn e (vector_get_elem (qreg_at (rn_of insn) c) e i) (vector_get_elem (qreg_at (rm_of insn) c) e i)"
  let ?q = "set_lanes e 0 n (\<lambda>i. fst (?f i)) (0, 0)"
  let ?s = "list_ex (\<lambda>i. snd (?f i)) [0..<n]"
  have es: "elem_size e" unfolding assms(5) by (rule insn_esize_elem)
  have n: "0 + n \<le> 128 div e" using es by (auto simp: assms(6) insn_bits_def elem_size_def)
  note lane = saturating_lane_exact [OF es refl assms(4)]
  have x: "x i = (let a = elem_value u e (vector_get_elem (qreg_at (rn_of insn) c) e i);
                    b = elem_value u e (vector_get_elem (qreg_at (rm_of insn) c) e i)
                in if insn AND 0x00002000 \<noteq> 0 then a - b else a + b)" for i by (simp add: assms(7))
  have f: "elem_value u e (fst (?f i)) = clamped u e (x i)" "fst (?f i) AND ones e = fst (?f i)"
    "snd (?f i) \<longleftrightarrow> clamped u e (x i) \<noteq> x i" for i
    unfolding x Let_def by (rule lane [OF refl])+
  let ?c = "set_qreg (rd_of insn) ?q c"
  let ?d = "if ?s then on_sysregs (fp_or_fpsr kFpsrQc) ?c else ?c"
  have "exec_sqadd insn c = Some (Some ?d)"
    using assms(1,2) by (auto simp: exec_sqadd_def three_same_sat_def done_sat_def set_lanes_sat_def Let_def assms(5,6))
  moreover have q: "qreg_at k ?d = (if k = rd_of insn then ?q else qreg_at k c)" for k
    by (simp add: qreg_at_set_qreg [OF assms(3) rd_less])
  moreover have "vector_get_elem ?q e i = (if i < n then fst (?f i) else 0)" if "i < 128 div e" for i
    using get_set_lanes [OF es n that] f(2) [of i] by (simp add: get_elem_zero)
  moreover have "?s \<longleftrightarrow> (\<exists>i < n. clamped u e (x i) \<noteq> x i)" by (auto simp: list_ex_iff f(3))
  moreover have "r_fpsr (c_sysregs ?d) = (if ?s then (r_fpsr (c_sysregs c) OR kFpsrQc) AND kFpsrArchitecturalMask
       else r_fpsr (c_sysregs c))"
    by (simp add: on_sysregs_def set_qreg_def fp_or_fpsr_def)
  ultimately show ?thesis using n f(1) by (intro exI [of _ ?d]) auto
qed


text \<open>Bytes 0x7F and 0x01 added as eight signed lanes: every lane of the short form is clamped.\<close>
lemma saturating_add_clamps_witness:
  "\<forall>c :: unit cpu. \<exists>c'. exec_sqadd 0x0E220C20 (c\<lparr>c_qregs := replicate 32 (0x7F7F7F7F7F7F7F7F, 0)\<rparr>) = Some (Some c') \<and>
    elem_value False 8 (vector_get_elem (qreg_at 0 c') 8 0) = 127"
proof
  fix c :: "unit cpu"
  let ?c = "c\<lparr>c_qregs := replicate 32 (0x7F7F7F7F7F7F7F7F, 0)\<rparr>"
  have g: "(0x0E220C20 :: u32) AND 0x9F20FC00 = 0x0E200C00" "insn_esize 0x0E220C20 = 8" "insn_bits 0x0E220C20 = 64"
    "\<not> insn_u 0x0E220C20" "(0x0E220C20 :: u32) AND 0x00002000 = 0" "rd_of 0x0E220C20 = 0" "rn_of 0x0E220C20 = 1" "rm_of 0x0E220C20 = 2"
    "elem_value False 8 (vector_get_elem (0x7F7F7F7F7F7F7F7F, 0) 8 0) = 127" "clamped False 8 254 = 127"
    by code_simp+
  have q: "qreg_at 1 ?c = (0x7F7F7F7F7F7F7F7F, 0)" "qreg_at 2 ?c = (0x7F7F7F7F7F7F7F7F, 0)" "length (c_qregs ?c) = 32"
    by (simp_all add: qreg_at_def)
  have n: "(64 :: nat) div 8 = 8" "insn_esize 0x0E220C20 \<le> insn_bits 0x0E220C20" by (simp_all add: g(2,3))
  obtain c' where "exec_sqadd 0x0E220C20 ?c = Some (Some c')"
    "\<forall>i < 8. elem_value False 8 (vector_get_elem (qreg_at 0 c') 8 i) =
      clamped False 8 (2 * elem_value False 8 (vector_get_elem (0x7F7F7F7F7F7F7F7F, 0) 8 i))"
    using saturating_add_clamps [of "0x0E220C20" ?c, OF disjI1 [OF g(1)] n(2) q(3) refl refl refl refl]
    unfolding g(2,3,5-8) q(1,2) n(1) Let_def by (auto simp: g(4))
  moreover from this(2) have "elem_value False 8 (vector_get_elem (qreg_at 0 c') 8 0) = 127"
    by (simp add: g(9,10))
  ultimately show "\<exists>c'. exec_sqadd 0x0E220C20 ?c = Some (Some c') \<and> elem_value False 8 (vector_get_elem (qreg_at 0 c') 8 0) = 127"
    by blast
qed

text \<open>C25. The elements of a register are independent: an element written is read back cut to its size, the others keep their
  values, a register is determined by its elements of any one size, and a loop over lanes writes exactly these lanes.\<close>
theorem vector_elements_independent:
  assumes "e = 8 \<or> e = 16 \<or> e = 32 \<or> e = 64" "i < 128 div e" "j < 128 div e" "base + n \<le> 128 div e"
  shows "vector_get_elem (vector_set_elem e i v q) e j = (if i = j then v AND ones e else vector_get_elem q e j) \<and>
    vector_get_elem (set_lanes e base n f q) e j =
      (if base \<le> j \<and> j < base + n then f (j - base) AND ones e else vector_get_elem q e j) \<and>
    vector_set_elem e i (vector_get_elem q e i) q = q \<and>
    (p = q \<longleftrightarrow> (\<forall>k < 128 div e. vector_get_elem p e k = vector_get_elem q e k))"
proof -
  have e: "elem_size e" using assms(1) by (simp add: elem_size_def)
  have cut: "vector_get_elem q e k AND ones e = vector_get_elem q e k" if "k < 128 div e" for k
    by (rule bit_word_eqI) (use e that in \<open>auto simp: bit_simps bit_ones bit_vector_get_elem elem_size_def\<close>)
  have "vector_set_elem e i (vector_get_elem q e i) q = q"
    by (rule elem_ext [OF e]) (auto simp: get_set_elem [OF e assms(2)] cut)
  then show ?thesis using get_set_elem [OF e assms(2,3)] get_set_lanes [OF e assms(4,3)] elem_ext [OF e, of p q] by blast
qed

lemma vector_elements_independent_witness:
  "vector_get_elem (vector_set_elem 16 7 0x12345 (1, 2)) 16 7 = 0x2345"
proof -
  have "(0x12345 :: u64) AND ones 16 = 0x2345" by code_simp
  then show ?thesis using vector_elements_independent [of 16 7 7 0 0 "0x12345" "(1, 2)" "\<lambda>_. 0" "(1, 2)"] by simp
qed

text \<open>C36. The short form of SABA and UABA leaves the upper half of its destination as it was, where every other instruction on
  the lower half of a register clears it.\<close>
theorem saba_keeps_upper_half:
  assumes "insn AND 0x9F20FC00 = 0x0E207C00" "\<not> insn_q insn" "\<not> too_wide_lane insn" "length (c_qregs c) = 32"
  shows "\<exists>c'. exec_saba insn c = Some (Some c') \<and> snd (qreg_at (rd_of insn) c') = snd (qreg_at (rd_of insn) c)"
proof -
  have es: "elem_size (insn_esize insn)" by (rule insn_esize_elem)
  have upper: "snd (set_lanes e 0 n f q) = snd q" if "0 < e" "e * n \<le> 64" for e n f q
    using that(2)
  proof (induction n)
    case (Suc n)
    have s: "set_lanes e 0 (Suc n) f q = vector_set_elem e n (f n) (set_lanes e 0 n f q)" by (simp add: set_lanes_def)
    show ?case using Suc that(1) by (auto simp: s vector_set_elem_def vector_set_bits_def Let_def)
  qed (simp add: set_lanes_def)
  have "insn_esize insn * (insn_bits insn div insn_esize insn) \<le> 64"
    using assms(2) by (simp add: insn_bits_def)
  moreover have "0 < insn_esize insn" using es by (auto simp: elem_size_def)
  ultimately show ?thesis
    using assms by (simp add: exec_saba_def three_same_def Let_def done_with_def upper qreg_at_set_qreg rd_less)
qed

lemma saba_keeps_upper_half_witness:
  "\<forall>c :: unit cpu. \<exists>c'. exec_saba 0x0E227C20 (c\<lparr>c_qregs := replicate 32 (1, 2)\<rparr>) = Some (Some c') \<and> snd (qreg_at 0 c') = 2"
proof
  fix c :: "unit cpu"
  let ?c = "c\<lparr>c_qregs := replicate 32 (1, 2)\<rparr>"
  have g: "(0x0E227C20 :: u32) AND 0x9F20FC00 = 0x0E207C00" "\<not> insn_q 0x0E227C20" "\<not> too_wide_lane 0x0E227C20" "rd_of 0x0E227C20 = 0"
    by code_simp+
  show "\<exists>c'. exec_saba 0x0E227C20 ?c = Some (Some c') \<and> snd (qreg_at 0 c') = 2"
    using saba_keeps_upper_half [OF g(1-3), of ?c] g(4) by (simp add: qreg_at_def)
qed

end
